(* ===== verification/JsNumber.thy ===== *)
theory JsNumber
  imports Complex_Main "HOL-Library.Log_Nat"
begin

text \<open>
  The numbers of the program. A TypeScript \<open>number\<close> is an IEEE-754 binary64 value: every
  arithmetic operation computes the exact result and rounds it to the nearest representable value,
  ties to even. The rounding is defined here on rationals (so that it computes), its order and
  exactness laws are proved, and the arithmetic and \<open>Math\<close> operations the source uses are
  defined on top of it. The two zeros of binary64 are identified: their difference shows only in a
  division by a zero of negative sign, and the modelled code guards its divisors.
\<close>

section \<open>Rounding to binary64\<close>

named_theorems js_eval \<open>defining equations of the number operations\<close>
named_theorems js_mono \<open>monotonicity of the rounded operations\<close>

definition binexp :: "rat \<Rightarrow> int" where
  "binexp x = (if 1 \<le> x then bitlen \<lfloor>x\<rfloor> - 1 else - bitlen (\<lceil>1 / x\<rceil> - 1))"

definition rne :: "rat \<Rightarrow> int" where
  "rne x = (let f = \<lfloor>x\<rfloor>; d = x - of_int f in
     if d < 1/2 then f else if 1/2 < d then f + 1 else if even f then f else f + 1)"

definition ulp_exp :: "rat \<Rightarrow> int" where
  "ulp_exp x = max (binexp x - 52) (-1074)"

definition rnd_pos :: "rat \<Rightarrow> rat" where
  "rnd_pos x = of_int (rne (x / 2 powi ulp_exp x)) * 2 powi ulp_exp x"

definition rnd :: "rat \<Rightarrow> rat" where
  "rnd x = (if x = 0 then 0 else if x < 0 then - rnd_pos (- x) else rnd_pos x)"

subsection \<open>Rounding to an integer\<close>

lemma rne_of_int [simp]: "rne (of_int k) = k"
  by (simp add: rne_def)

lemma rne_floor: "\<lfloor>x\<rfloor> \<le> rne x" "rne x \<le> \<lfloor>x\<rfloor> + 1"
  by (auto simp: rne_def Let_def)

lemma rne_mono: assumes "x \<le> y" shows "rne x \<le> rne y"
proof (cases "\<lfloor>x\<rfloor> = \<lfloor>y\<rfloor>")
  case True
  with assms show ?thesis by (auto simp: rne_def Let_def)
next
  case False
  with floor_mono [OF assms] have "\<lfloor>x\<rfloor> + 1 \<le> \<lfloor>y\<rfloor>" by simp
  with rne_floor(2) [of x] rne_floor(1) [of y] show ?thesis by linarith
qed

lemma rne_near: "\<bar>of_int (rne x) - x\<bar> \<le> 1/2"
proof -
  have "of_int \<lfloor>x\<rfloor> \<le> x" "x < of_int \<lfloor>x\<rfloor> + 1" by linarith+
  then show ?thesis unfolding rne_def Let_def abs_le_iff by (auto split: if_splits) linarith+
qed

lemma rne_le_int: "x \<le> of_int k \<Longrightarrow> rne x \<le> k"
  using rne_mono [of x "of_int k"] by simp

lemma rne_ge_int: "of_int k \<le> x \<Longrightarrow> k \<le> rne x"
  using rne_mono [of "of_int k" x] by simp

subsection \<open>The binary exponent\<close>

lemma powi_2_pos [simp]: "0 < (2::rat) powi k"
  by (simp add: zero_less_power_int)

lemma powi_2_le: "(2::rat) powi a \<le> 2 powi b \<longleftrightarrow> a \<le> b"
proof
  show "a \<le> b \<Longrightarrow> (2::rat) powi a \<le> 2 powi b" by (simp add: power_int_increasing)
  show "(2::rat) powi a \<le> 2 powi b \<Longrightarrow> a \<le> b"
    using power_int_strict_increasing [of b a "2::rat"] by (cases "a \<le> b") auto
qed

lemma powi_2_less: "(2::rat) powi a < 2 powi b \<longleftrightarrow> a < b"
  using powi_2_le [of b a] by (simp add: not_le [symmetric])

lemma powi_2_add: "(2::rat) powi (a + b) = 2 powi a * 2 powi b"
  by (simp add: power_int_add)

lemma powi_2_of_int: "0 \<le> k \<Longrightarrow> (2::rat) powi k = of_int (2 ^ nat k)"
  by (simp add: power_int_def)

lemma bitlen_ge_1: "0 < n \<Longrightarrow> 1 \<le> bitlen n"
  by (simp add: bitlen_def floorlog_def)

lemma binexp_bounds:
  assumes "0 < x" shows "2 powi binexp x \<le> x" "x < 2 powi (binexp x + 1)"
proof -
  have "2 powi binexp x \<le> x \<and> x < 2 powi (binexp x + 1)"
  proof (cases "1 \<le> x")
    case True
    then have f: "0 < \<lfloor>x\<rfloor>" by (simp add: less_floor_iff)
    define b where "b = bitlen \<lfloor>x\<rfloor>"
    have b: "2 ^ nat (b - 1) \<le> \<lfloor>x\<rfloor>" "\<lfloor>x\<rfloor> < 2 ^ nat b" "1 \<le> b"
      using bitlen_bounds [OF f] bitlen_ge_1 [OF f] by (simp_all add: b_def)
    have "2 powi (b - 1) = (of_int (2 ^ nat (b - 1)) :: rat)" using b(3) by (simp add: powi_2_of_int)
    also have "\<dots> \<le> of_int \<lfloor>x\<rfloor>" using b(1) by (simp only: of_int_le_iff)
    finally have 1: "2 powi (b - 1) \<le> x" by linarith
    have "of_int \<lfloor>x\<rfloor> + 1 \<le> (of_int (2 ^ nat b) :: rat)" using b(2)
      by (metis add1_zle_eq of_int_1 of_int_add of_int_le_iff)
    then have "x < of_int (2 ^ nat b)" by linarith
    then have "x < 2 powi b" using b(3) by (simp add: powi_2_of_int)
    with 1 True show ?thesis by (simp add: binexp_def b_def)
  next
    case False
    define m where "m = \<lceil>1 / x\<rceil> - 1"
    define b where "b = bitlen m"
    have y: "1 < 1 / x" using False assms by simp
    then have m0: "0 < m" by (simp add: m_def less_ceiling_iff)
    have b: "2 ^ nat (b - 1) \<le> m" "m < 2 ^ nat b" "1 \<le> b"
      using bitlen_bounds [OF m0] bitlen_ge_1 [OF m0] by (simp_all add: b_def)
    have ym: "of_int m < 1 / x" "1 / x \<le> of_int m + 1" by (simp_all add: m_def) linarith+
    have "(of_int m + 1 :: rat) \<le> of_int (2 ^ nat b)" using b(2)
      by (metis add1_zle_eq of_int_1 of_int_add of_int_le_iff)
    then have "1 / x \<le> 2 powi b" using ym(2) b(3) by (simp add: powi_2_of_int)
    then have 1: "2 powi (- b) \<le> x" using assms by (simp add: power_int_minus field_simps)
    have "2 powi (b - 1) = (of_int (2 ^ nat (b - 1)) :: rat)" using b(3) by (simp add: powi_2_of_int)
    also have "\<dots> \<le> of_int m" using b(1) by (simp only: of_int_le_iff)
    finally have "2 powi (b - 1) < 1 / x" using ym(1) by simp
    then have "x < 2 powi (- (b - 1))" using assms by (simp only: power_int_minus) (simp add: field_simps)
    with 1 False show ?thesis by (simp add: binexp_def b_def m_def)
  qed
  then show "2 powi binexp x \<le> x" "x < 2 powi (binexp x + 1)" by simp_all
qed

lemma binexp_le: "0 < x \<Longrightarrow> x < 2 powi (k + 1) \<Longrightarrow> binexp x \<le> k"
  using binexp_bounds(1) [of x] powi_2_less [of "binexp x" "k + 1"] by simp

lemma binexp_ge: "0 < x \<Longrightarrow> 2 powi k \<le> x \<Longrightarrow> k \<le> binexp x"
  using binexp_bounds(2) [of x] powi_2_less [of k "binexp x + 1"] by simp

lemma binexp_mono: "0 < x \<Longrightarrow> x \<le> y \<Longrightarrow> binexp x \<le> binexp y"
  using binexp_bounds(1) [of x] by (intro binexp_ge) auto

lemma ulp_exp_mono: "0 < x \<Longrightarrow> x \<le> y \<Longrightarrow> ulp_exp x \<le> ulp_exp y"
  using binexp_mono [of x y] by (auto simp: ulp_exp_def)

subsection \<open>Order and exactness of rounding\<close>

lemma rnd_pos_le_powi:
  assumes "0 < x" "x \<le> 2 powi k" "ulp_exp x \<le> k"
  shows "rnd_pos x \<le> 2 powi k"
proof -
  let ?u = "ulp_exp x"
  have k: "(2::rat) powi k = 2 powi (k - ?u) * 2 powi ?u" by (simp flip: powi_2_add)
  have "x / 2 powi ?u \<le> of_int (2 ^ nat (k - ?u))"
    using assms by (simp add: divide_le_eq k powi_2_of_int)
  from rne_le_int [OF this] have "of_int (rne (x / 2 powi ?u)) \<le> (2::rat) powi (k - ?u)"
    using assms(3) by (metis diff_ge_0_iff_ge of_int_le_iff powi_2_of_int)
  then show ?thesis unfolding rnd_pos_def k by (simp add: mult_right_mono)
qed

lemma rnd_pos_ge_powi:
  assumes "2 powi k \<le> x" "ulp_exp x \<le> k"
  shows "2 powi k \<le> rnd_pos x"
proof -
  let ?u = "ulp_exp x"
  have k: "(2::rat) powi k = 2 powi (k - ?u) * 2 powi ?u" by (simp flip: powi_2_add)
  have "of_int (2 ^ nat (k - ?u)) \<le> x / 2 powi ?u"
    using assms by (simp add: le_divide_eq k powi_2_of_int)
  from rne_ge_int [OF this] have "(2::rat) powi (k - ?u) \<le> of_int (rne (x / 2 powi ?u))"
    using assms(2) by (metis diff_ge_0_iff_ge of_int_le_iff powi_2_of_int)
  then show ?thesis unfolding rnd_pos_def k by (simp add: mult_right_mono)
qed

lemma rnd_pos_mono:
  assumes "0 < x" "x \<le> y" shows "rnd_pos x \<le> rnd_pos y"
proof (cases "ulp_exp x = ulp_exp y")
  case True
  have "rne (x / 2 powi ulp_exp y) \<le> rne (y / 2 powi ulp_exp y)"
    using assms by (intro rne_mono) (simp add: divide_right_mono less_imp_le)
  with True show ?thesis by (simp add: rnd_pos_def mult_right_mono less_imp_le)
next
  case False
  then have u: "ulp_exp x < ulp_exp y" using ulp_exp_mono [OF assms] by simp
  then have uy: "ulp_exp y = binexp y - 52" and bx: "binexp x < binexp y"
    by (auto simp: ulp_exp_def)
  have "x < 2 powi (binexp x + 1)" using assms by (intro binexp_bounds)
  also have "\<dots> \<le> 2 powi binexp y" using bx by (simp add: powi_2_le)
  finally have "rnd_pos x \<le> 2 powi binexp y"
    using u uy assms by (intro rnd_pos_le_powi) auto
  also have "\<dots> \<le> rnd_pos y"
    using uy assms binexp_bounds(1) [of y] by (intro rnd_pos_ge_powi) auto
  finally show ?thesis .
qed

lemma rnd_pos_nonneg: "0 < x \<Longrightarrow> 0 \<le> rnd_pos x"
  unfolding rnd_pos_def
  by (intro mult_nonneg_nonneg) (auto intro!: rne_ge_int simp: less_imp_le)

lemma rnd_0 [simp]: "rnd 0 = 0"
  by (simp add: rnd_def)

lemma rnd_minus [simp]: "rnd (- x) = - rnd x"
  by (simp add: rnd_def)

lemma rnd_nonneg: "0 \<le> x \<Longrightarrow> 0 \<le> rnd x"
  by (auto simp: rnd_def rnd_pos_nonneg)

lemma rnd_nonpos: "x \<le> 0 \<Longrightarrow> rnd x \<le> 0"
  using rnd_nonneg [of "- x"] by simp

lemma rnd_mono [js_mono]: assumes "x \<le> y" shows "rnd x \<le> rnd y"
proof -
  consider "0 < x" | "x \<le> 0" "0 \<le> y" | "y < 0" by linarith
  then show ?thesis
  proof cases
    case 1
    with assms show ?thesis by (simp add: rnd_def rnd_pos_mono)
  next
    case 2
    then show ?thesis using rnd_nonpos rnd_nonneg by (meson order_trans)
  next
    case 3
    with assms show ?thesis by (simp add: rnd_def rnd_pos_mono)
  qed
qed

definition representable :: "rat \<Rightarrow> bool" where
  "representable x \<longleftrightarrow> (\<exists>m e. x = of_int m * 2 powi e \<and> \<bar>m\<bar> < 2 ^ 53 \<and> -1074 \<le> e)"

lemma rnd_pos_representable:
  assumes "0 < m" "m < 2 ^ 53" "-1074 \<le> e"
  shows "rnd_pos (of_int m * 2 powi e) = of_int m * 2 powi e"
proof -
  let ?x = "of_int m * 2 powi e :: rat"
  let ?u = "ulp_exp ?x"
  have x0: "0 < ?x" using assms by simp
  have "(of_int m :: rat) < of_int (2 ^ 53)" using assms(2) by (simp only: of_int_less_iff)
  then have "?x < 2 powi 53 * 2 powi e" by (intro mult_strict_right_mono) auto
  also have "\<dots> = 2 powi (e + 52 + 1)" by (simp add: powi_2_add)
  finally have "binexp ?x \<le> e + 52" using x0 by (intro binexp_le)
  then have u: "?u \<le> e" using assms(3) by (simp add: ulp_exp_def)
  have "?x / 2 powi ?u = of_int m * 2 powi (e - ?u)" by (simp add: power_int_diff)
  also have "\<dots> = of_int (m * 2 ^ nat (e - ?u))" using u by (simp add: powi_2_of_int)
  finally have q: "?x / 2 powi ?u = of_int (m * 2 ^ nat (e - ?u))" .
  then have "rnd_pos ?x = ?x / 2 powi ?u * 2 powi ?u" unfolding rnd_pos_def by (simp only: rne_of_int)
  then show ?thesis by simp
qed

lemma rnd_representable: assumes "representable x" shows "rnd x = x"
proof -
  from assms obtain m e where x: "x = of_int m * 2 powi e" and m: "\<bar>m\<bar> < 2 ^ 53" and e: "-1074 \<le> e"
    by (auto simp: representable_def)
  consider "m = 0" | "0 < m" | "m < 0" by linarith
  then show ?thesis
  proof cases
    case 1
    with x show ?thesis by simp
  next
    case 2
    then have "0 < x" using x by simp
    then have "rnd x = rnd_pos x" by (simp add: rnd_def)
    with 2 x m e show ?thesis by (simp add: rnd_pos_representable)
  next
    case 3
    then have "x < 0" using x by (simp add: mult_less_0_iff)
    then have "rnd x = - rnd_pos (- x)" by (simp add: rnd_def)
    with rnd_pos_representable [of "- m" e] 3 m e x show ?thesis by simp
  qed
qed

lemma representable_of_int: "\<bar>k\<bar> < 2 ^ 53 \<Longrightarrow> representable (of_int k)"
  unfolding representable_def by (intro exI [of _ k] exI [of _ 0]) auto

lemma representable_pow2: assumes "-1074 \<le> k" shows "representable (2 powi k)"
  unfolding representable_def using assms by (intro exI [of _ 1] exI [of _ k]) auto

lemma rnd_pos_rep: assumes "0 < x" shows "representable (rnd_pos x)"
proof -
  let ?u = "ulp_exp x" let ?m = "rne (x / 2 powi ?u)"
  have u: "-1074 \<le> ?u" "binexp x - 52 \<le> ?u" by (auto simp: ulp_exp_def)
  have "x < 2 powi (binexp x + 1)" using assms by (rule binexp_bounds)
  also have "\<dots> \<le> 2 powi (53 + ?u)" using u by (simp add: powi_2_le)
  finally have "x / 2 powi ?u \<le> of_int (2 ^ 53)" by (simp add: powi_2_add divide_le_eq)
  then have m: "?m \<le> 2 ^ 53" by (rule rne_le_int)
  have m0: "0 \<le> ?m" using assms by (intro rne_ge_int) auto
  show ?thesis
  proof (cases "?m = 2 ^ 53")
    case True
    then have "rnd_pos x = 2 powi (53 + ?u)" by (simp add: rnd_pos_def powi_2_add)
    then show ?thesis using u representable_pow2 [of "53 + ?u"] by simp
  next
    case False
    with m m0 u show ?thesis unfolding representable_def rnd_pos_def
      by (intro exI [of _ ?m] exI [of _ ?u]) auto
  qed
qed

lemma representable_minus: "representable x \<Longrightarrow> representable (- x)"
proof -
  assume "representable x"
  then obtain m e where "x = of_int m * 2 powi e" "\<bar>m\<bar> < 2 ^ 53" "-1074 \<le> e"
    by (auto simp: representable_def)
  then show ?thesis unfolding representable_def by (intro exI [of _ "- m"] exI [of _ e]) auto
qed

lemma representable_rnd [simp]: "representable (rnd x)"
proof -
  consider "x = 0" | "0 < x" | "x < 0" by linarith
  then show ?thesis
    using rnd_pos_rep [of x] rnd_pos_rep [of "- x"] representable_of_int [of 0]
    by cases (auto simp: rnd_def intro: representable_minus)
qed

lemma rnd_rnd [simp]: "rnd (rnd x) = rnd x"
  by (simp add: rnd_representable)

lemma rnd_le_representable: "representable y \<Longrightarrow> x \<le> y \<Longrightarrow> rnd x \<le> y"
  using rnd_mono [of x y] by (simp add: rnd_representable)

lemma rnd_ge_representable: "representable y \<Longrightarrow> y \<le> x \<Longrightarrow> y \<le> rnd x"
  using rnd_mono [of y x] by (simp add: rnd_representable)


subsection \<open>How far rounding moves a value\<close>

lemma rnd_pos_error: "\<bar>rnd_pos x - x\<bar> \<le> 2 powi ulp_exp x / 2"
proof -
  let ?p = "2 powi ulp_exp x :: rat"
  have "\<bar>rnd_pos x - x\<bar> = \<bar>of_int (rne (x / ?p)) - x / ?p\<bar> * ?p"
    by (simp add: rnd_pos_def abs_mult_pos left_diff_distrib)
  also have "\<dots> \<le> 1/2 * ?p" by (intro mult_right_mono rne_near) simp
  finally show ?thesis by simp
qed

lemma representable_min: assumes "representable s" "0 < s" shows "2 powi (-1074) \<le> s"
proof -
  from assms obtain m e where s: "s = of_int m * 2 powi e" "-1074 \<le> e" by (auto simp: representable_def)
  then have "0 < m" using assms(2) powi_2_pos [of e] by (auto simp: zero_less_mult_iff not_less_iff_gr_or_eq)
  then have "(1::rat) \<le> of_int m" by simp
  then have "1 * 2 powi e \<le> s" unfolding s(1) by (intro mult_right_mono) auto
  moreover have "(2::rat) powi (-1074) \<le> 2 powi e" using s(2) by (simp only: powi_2_le)
  ultimately show ?thesis by simp
qed

text \<open>Adding a step advances by at least half of it while the sum is within \<open>2^51\<close> steps.\<close>

lemma rnd_add_progress:
  assumes s: "representable s" "0 < s" and q: "0 \<le> q" "q \<le> 2 ^ 51 * s"
  shows "q + s / 2 \<le> rnd (q + s)"
proof -
  let ?b = "binexp s"
  have "q + s \<le> 2 ^ 52 * s" using q s(2) by simp
  also have "\<dots> < 2 ^ 52 * 2 powi (?b + 1)" using binexp_bounds(2) [OF s(2)] by simp
  also have "\<dots> = 2 powi (?b + 52 + 1)" by (simp add: powi_2_add)
  finally have "binexp (q + s) \<le> ?b + 52" using q s by (intro binexp_le) auto
  then have "ulp_exp (q + s) \<le> max ?b (-1074)" by (auto simp: ulp_exp_def)
  then have "2 powi ulp_exp (q + s) \<le> (2::rat) powi max ?b (-1074)" by (simp only: powi_2_le)
  also have "\<dots> \<le> s"
    using binexp_bounds(1) [OF s(2)] representable_min [OF s] by (auto simp: max_def)
  finally have "2 powi ulp_exp (q + s) \<le> s" .
  moreover have "rnd (q + s) = rnd_pos (q + s)" using q s by (simp add: rnd_def)
  moreover have "q + s - rnd_pos (q + s) \<le> 2 powi ulp_exp (q + s) / 2"
    using rnd_pos_error [of "q + s"] by (simp only: abs_le_iff minus_diff_eq)
  ultimately show ?thesis by simp
qed

subsection \<open>Evaluating the rounding on integers\<close>

text \<open>The code equations compute with the numerator and the denominator, so that a closed
  instance needs no normalisation of intermediate fractions.\<close>

definition rne_div :: "int \<Rightarrow> int \<Rightarrow> int" where
  "rne_div a b = (let f = a div b; r = 2 * (a mod b) in
     if r < b then f else if b < r then f + 1 else if even f then f else f + 1)"

lemma rne_div_eq: assumes b: "0 < b" shows "rne (of_int a / of_int b) = rne_div a b"
proof -
  let ?q = "of_int a / of_int b :: rat"
  have f: "\<lfloor>?q\<rfloor> = a div b" by (simp add: floor_divide_of_int_eq)
  have "?q - of_int (a div b) = of_int (a - a div b * b) / of_int b"
    using b by (simp add: diff_divide_distrib)
  also have "\<dots> = of_int (a mod b) / of_int b" by (simp add: minus_div_mult_eq_mod)
  finally have d: "?q - of_int (a div b) = of_int (a mod b) / of_int b" .
  have i: "(of_int (2 * (a mod b)) < (of_int b :: rat)) = (2 * (a mod b) < b)"
    "((of_int b :: rat) < of_int (2 * (a mod b))) = (b < 2 * (a mod b))" by (simp_all only: of_int_less_iff)
  have l: "(of_int (a mod b) / of_int b < (1/2 :: rat)) = (2 * (a mod b) < b)"
    "((1/2 :: rat) < of_int (a mod b) / of_int b) = (b < 2 * (a mod b))"
    using b i by (simp_all add: divide_less_eq less_divide_eq mult.commute)
  show ?thesis by (simp only: rne_def rne_div_def f d l Let_def)
qed

lemma quotient_of_pos: "quotient_of x = (n, d) \<Longrightarrow> 0 < d \<and> x = of_int n / of_int d"
  by (auto dest: quotient_of_denom_pos quotient_of_div)

lemma div_sub_1: "0 < n \<Longrightarrow> (d - 1) div n = (if d mod n = 0 then d div n - 1 else d div (n::int))"
proof -
  assume n: "0 < n"
  have d: "d = d div n * n + d mod n" by simp
  have r: "0 \<le> d mod n" "d mod n < n" using n by simp_all
  show ?thesis
  proof (cases "d mod n = 0")
    case True
    then have "d - 1 = (n - 1) + (d div n - 1) * n" using d by (simp add: algebra_simps)
    then have "(d - 1) div n = (n - 1) div n + (d div n - 1)" using n by (simp only: div_mult_self1)
    with True n show ?thesis by (simp add: div_pos_pos_trivial)
  next
    case False
    then have "d - 1 = (d mod n - 1) + d div n * n" using d by linarith
    then have "(d - 1) div n = (d mod n - 1) div n + d div n" using n by (simp only: div_mult_self1)
    with False n r show ?thesis by (simp add: div_pos_pos_trivial)
  qed
qed

definition frac_exp :: "int \<Rightarrow> int \<Rightarrow> int" where
  "frac_exp n d = (if d \<le> n then bitlen (n div d) - 1 else - bitlen ((d - 1) div n))"

lemma frac_exp_eq: assumes "0 < n" "0 < d" shows "binexp (of_int n / of_int d) = frac_exp n d"
proof -
  have "- (of_int d / of_int n :: rat) = of_int (- d) / of_int n" by simp
  then have "\<lceil>of_int d / of_int n :: rat\<rceil> = - ((- d) div n)"
    by (simp only: ceiling_def floor_divide_of_int_eq)
  then have "\<lceil>of_int d / of_int n :: rat\<rceil> - 1 = (d - 1) div n"
    using assms by (simp add: zdiv_zminus1_eq_if div_sub_1 split: if_splits)
  with assms show ?thesis
    by (auto simp: binexp_def frac_exp_def floor_divide_of_int_eq le_divide_eq)
qed

text \<open>A dyadic value in lowest terms: the factors of two are stripped.\<close>

definition dyadic :: "int \<Rightarrow> nat \<Rightarrow> rat" where
  "dyadic m k = of_int m / 2 ^ k"

fun strip2 :: "int \<Rightarrow> nat \<Rightarrow> int \<times> nat" where
  "strip2 m 0 = (m, 0)"
| "strip2 m (Suc k) = (if even m then strip2 (m div 2) k else (m, Suc k))"

lemma strip2_eq: "strip2 m k = (m', j) \<Longrightarrow> dyadic m k = dyadic m' j \<and> coprime m' (2 ^ j)"
  by (induction m k rule: strip2.induct) (auto simp: dyadic_def elim!: evenE split: if_splits)

lemma dyadic_code [code abstract]:
  "quotient_of (dyadic m k) = (case strip2 m k of (m', j) \<Rightarrow> (m', 2 ^ j))"
proof (cases "strip2 m k")
  case (Pair m' j)
  then have "dyadic m k = Fract m' (2 ^ j)" "coprime m' (2 ^ j)"
    using strip2_eq by (auto simp: dyadic_def Fract_of_int_quotient)
  with Pair show ?thesis by (simp add: quotient_of_Fract normalize_stable)
qed

definition rnd_frac :: "int \<Rightarrow> int \<Rightarrow> rat" where
  "rnd_frac n d = rnd_pos (of_int n / of_int d)"

lemma rnd_frac_code [code]:
  "rnd_frac n d = (if 0 < n \<and> 0 < d then
     (let u = max (frac_exp n d - 52) (-1074) in
      if 0 \<le> u then of_int (rne_div n (d * 2 ^ nat u) * 2 ^ nat u)
      else dyadic (rne_div (n * 2 ^ nat (- u)) d) (nat (- u)))
     else rnd_pos (of_int n / of_int d))"
proof (cases "0 < n \<and> 0 < d")
  case True
  let ?x = "of_int n / of_int d :: rat" let ?u = "ulp_exp ?x"
  have u: "?u = max (frac_exp n d - 52) (-1074)" using True by (simp add: ulp_exp_def frac_exp_eq)
  show ?thesis
  proof (cases "0 \<le> ?u")
    case le: True
    then have "?x / 2 powi ?u = of_int n / of_int (d * 2 ^ nat ?u)" by (simp add: powi_2_of_int)
    then have "rne (?x / 2 powi ?u) = rne_div n (d * 2 ^ nat ?u)"
      using True by (simp only: rne_div_eq mult_pos_pos zero_less_power zero_less_numeral)
    with True le show ?thesis by (simp add: rnd_frac_def rnd_pos_def powi_2_of_int Let_def flip: u)
  next
    case False
    have p: "(2::rat) powi ?u = 1 / 2 ^ nat (- ?u)"
      using False by (simp add: power_int_def inverse_eq_divide power_one_over)
    then have "?x / 2 powi ?u = of_int (n * 2 ^ nat (- ?u)) / of_int d" by simp
    then have "rne (?x / 2 powi ?u) = rne_div (n * 2 ^ nat (- ?u)) d" using True by (simp only: rne_div_eq)
    with True False p show ?thesis by (simp add: rnd_frac_def rnd_pos_def dyadic_def Let_def flip: u)
  qed
qed (auto simp: rnd_frac_def)

lemma binexp_code [code]:
  "binexp x = (case quotient_of x of (n, d) \<Rightarrow>
     if 0 < n then frac_exp n d else - bitlen (\<lceil>1 / x\<rceil> - 1))"
proof (cases "quotient_of x")
  case (Pair n d)
  with quotient_of_pos have d: "0 < d" "x = of_int n / of_int d" by blast+
  then have x: "x < 1" if "\<not> 0 < n" using that by (simp add: divide_less_eq)
  show ?thesis
  proof (cases "0 < n")
    case True
    with d frac_exp_eq [of n d] Pair show ?thesis by simp
  next
    case False
    with x Pair show ?thesis by (simp add: binexp_def)
  qed
qed

lemma rnd_pos_code [code]: "rnd_pos x = (case quotient_of x of (n, d) \<Rightarrow> if 0 < n then rnd_frac n d
   else of_int (rne (x / 2 powi ulp_exp x)) * 2 powi ulp_exp x)"
  using quotient_of_pos [of x] by (auto simp: rnd_frac_def rnd_pos_def split: prod.splits)

section \<open>The number type\<close>

datatype number = Fin rat | PInf | NInf | NaN

definition max_finite :: rat where "max_finite = 2 ^ 1024"

text \<open>Rounding into the number type: results of at least \<open>2^1024\<close> overflow to an infinity.\<close>

definition fl :: "rat \<Rightarrow> number" where
  "fl x = (let r = rnd x in
     if max_finite \<le> r then PInf else if r \<le> - max_finite then NInf else Fin r)"

text \<open>Below the top binade there is no overflow to test for; this is how the function is
  evaluated.\<close>

lemma fl_code [code]:
  "fl x = (if x = 0 then Fin 0 else if binexp \<bar>x\<bar> < 1023 then Fin (rnd x) else
     (let r = rnd x in if max_finite \<le> r then PInf else if r \<le> - max_finite then NInf else Fin r))"
proof (cases "x \<noteq> 0 \<and> binexp \<bar>x\<bar> < 1023")
  case True
  then have "\<bar>x\<bar> < 2 powi (binexp \<bar>x\<bar> + 1)" by (intro binexp_bounds) simp
  also have "\<dots> \<le> 2 powi 1023" using True by (auto simp only: powi_2_le)
  finally have "\<bar>x\<bar> \<le> 2 powi 1023" by simp
  then have "rnd \<bar>x\<bar> \<le> 2 powi 1023" by (intro rnd_le_representable representable_pow2) auto
  also have "(2::rat) powi 1023 < max_finite" by (simp add: max_finite_def power_int_def)
  finally have "\<bar>rnd x\<bar> < max_finite" using rnd_minus [of x] rnd_nonneg [of x] rnd_nonpos [of x]
    by (cases "0 \<le> x") (auto simp: abs_if)
  with True show ?thesis by (auto simp: fl_def abs_less_iff)
next
  case False
  then show ?thesis by (auto simp: fl_def max_finite_def)
qed

text \<open>Rounding a fraction of integers, for the evaluation of the operations.\<close>

definition fl_frac :: "int \<Rightarrow> int \<Rightarrow> number" where
  "fl_frac n d = fl (of_int n / of_int d)"

definition fl_any :: "rat \<Rightarrow> number" where
  "fl_any x = fl x"

lemma fl_any_code [code]:
  "fl_any x = (let r = rnd x in if max_finite \<le> r then PInf else if r \<le> - max_finite then NInf else Fin r)"
  by (simp add: fl_any_def fl_def)

lemma fl_frac_code [code]:
  "fl_frac n d = (if n = 0 then Fin 0
     else if 0 < n \<and> 0 < d \<and> frac_exp n d < 1023 then Fin (rnd_frac n d)
     else if n < 0 \<and> 0 < d \<and> frac_exp (- n) d < 1023 then Fin (- rnd_frac (- n) d)
     else fl_any (of_int n / of_int d))"
proof -
  have b: "binexp \<bar>of_int n / of_int d\<bar> = frac_exp \<bar>n\<bar> d" if "n \<noteq> 0" "0 < d"
    using that frac_exp_eq [of "\<bar>n\<bar>" d] by simp
  have r: "rnd (of_int n / of_int d) = - rnd_pos (of_int (- n) / of_int d)" if "n < 0" "0 < d"
    using that by (simp add: rnd_def divide_less_0_iff)
  show ?thesis
    using b r by (auto simp: fl_frac_def fl_any_def fl_code [of "of_int n / of_int d"] rnd_frac_def rnd_def divide_less_0_iff)
qed

definition fl_add :: "rat \<Rightarrow> rat \<Rightarrow> number" where "fl_add a b = fl (a + b)"
definition fl_mult :: "rat \<Rightarrow> rat \<Rightarrow> number" where "fl_mult a b = fl (a * b)"
definition fl_div :: "rat \<Rightarrow> rat \<Rightarrow> number" where "fl_div a b = fl (a / b)"

lemma fl_ops_code [code]:
  "fl_add a b = (case (quotient_of a, quotient_of b) of ((n, d), (m, e)) \<Rightarrow> fl_frac (n * e + m * d) (d * e))"
  "fl_mult a b = (case (quotient_of a, quotient_of b) of ((n, d), (m, e)) \<Rightarrow> fl_frac (n * m) (d * e))"
  "fl_div a b = (case (quotient_of a, quotient_of b) of ((n, d), (m, e)) \<Rightarrow>
     if m = 0 then Fin 0 else fl_frac (sgn m * n * e) (d * \<bar>m\<bar>))"
  using quotient_of_pos [of a] quotient_of_pos [of b]
  by (auto simp: fl_add_def fl_mult_def fl_div_def fl_frac_def fl_def max_finite_def add_frac_eq sgn_if
      split: prod.splits)

declare fl_add_def [symmetric, code_unfold] fl_mult_def [symmetric, code_unfold]
  fl_div_def [symmetric, code_unfold]

instantiation number :: "{ord, zero, one, plus, minus, uminus, times, inverse}"
begin

fun less_eq_number :: "number \<Rightarrow> number \<Rightarrow> bool" where
  "less_eq_number (Fin a) (Fin b) = (a \<le> b)"
| "less_eq_number NaN _ = False"
| "less_eq_number _ NaN = False"
| "less_eq_number NInf _ = True"
| "less_eq_number _ PInf = True"
| "less_eq_number _ _ = False"

fun less_number :: "number \<Rightarrow> number \<Rightarrow> bool" where
  "less_number (Fin a) (Fin b) = (a < b)"
| "less_number NaN _ = False"
| "less_number _ NaN = False"
| "less_number NInf b = (b \<noteq> NInf)"
| "less_number a PInf = (a \<noteq> PInf)"
| "less_number _ _ = False"

definition zero_number :: number where "zero_number = Fin 0"

definition one_number :: number where "one_number = Fin 1"

fun plus_number :: "number \<Rightarrow> number \<Rightarrow> number" where
  "plus_number (Fin a) (Fin b) = fl (a + b)"
| "plus_number NaN _ = NaN"
| "plus_number _ NaN = NaN"
| "plus_number PInf NInf = NaN"
| "plus_number NInf PInf = NaN"
| "plus_number PInf _ = PInf"
| "plus_number _ PInf = PInf"
| "plus_number NInf _ = NInf"
| "plus_number _ NInf = NInf"

fun uminus_number :: "number \<Rightarrow> number" where
  "uminus_number (Fin a) = Fin (- a)"
| "uminus_number PInf = NInf"
| "uminus_number NInf = PInf"
| "uminus_number NaN = NaN"

definition minus_number :: "number \<Rightarrow> number \<Rightarrow> number" where
  "minus_number a b = a + (- b)"

definition inf_sign :: "rat \<Rightarrow> number" where
  "inf_sign s = (if s = 0 then NaN else if 0 < s then PInf else NInf)"

fun sgn_number :: "number \<Rightarrow> rat" where
  "sgn_number (Fin a) = sgn a"
| "sgn_number PInf = 1"
| "sgn_number NInf = - 1"
| "sgn_number NaN = 0"

fun times_number :: "number \<Rightarrow> number \<Rightarrow> number" where
  "times_number (Fin a) (Fin b) = fl (a * b)"
| "times_number a b = inf_sign (sgn_number a * sgn_number b)"

fun divide_number :: "number \<Rightarrow> number \<Rightarrow> number" where
  "divide_number (Fin a) (Fin b) = (if b = 0 then inf_sign (sgn a) else fl (a / b))"
| "divide_number NaN _ = NaN"
| "divide_number _ NaN = NaN"
| "divide_number (Fin a) _ = Fin 0"
| "divide_number a (Fin b) = (if b = 0 then a else inf_sign (sgn_number a * sgn b))"
| "divide_number _ _ = NaN"

definition inverse_number :: "number \<Rightarrow> number" where
  "inverse_number a = divide (Fin 1) a"

instance ..

end

declare zero_number_def [js_eval] one_number_def [js_eval] minus_number_def [js_eval]

text \<open>A numeric literal of the source: the decimal value, rounded.\<close>

definition lit :: "rat \<Rightarrow> number" where
  "lit r = fl r"

fun is_finite :: "number \<Rightarrow> bool" where
  "is_finite (Fin _) = True"
| "is_finite _ = False"

text \<open>The values binary64 has: every operation returns one.\<close>

fun is_double :: "number \<Rightarrow> bool" where
  "is_double (Fin a) = (rnd a = a \<and> \<bar>a\<bar> < max_finite)"
| "is_double _ = True"

text \<open>\<open>===\<close> and truthiness.\<close>

definition js_eq :: "number \<Rightarrow> number \<Rightarrow> bool" where
  "js_eq a b \<longleftrightarrow> a = b \<and> a \<noteq> NaN"

definition truthy :: "number \<Rightarrow> bool" where
  "truthy a \<longleftrightarrow> a \<noteq> NaN \<and> a \<noteq> Fin 0"

definition math_max :: "number \<Rightarrow> number \<Rightarrow> number" where
  "math_max a b = (if a = NaN \<or> b = NaN then NaN else if a \<le> b then b else a)"

definition math_min :: "number \<Rightarrow> number \<Rightarrow> number" where
  "math_min a b = (if a = NaN \<or> b = NaN then NaN else if a \<le> b then a else b)"

fun math_abs :: "number \<Rightarrow> number" where
  "math_abs (Fin a) = Fin \<bar>a\<bar>"
| "math_abs NaN = NaN"
| "math_abs _ = PInf"

fun math_floor :: "number \<Rightarrow> number" where
  "math_floor (Fin a) = Fin (of_int \<lfloor>a\<rfloor>)"
| "math_floor a = a"

fun math_ceil :: "number \<Rightarrow> number" where
  "math_ceil (Fin a) = Fin (of_int \<lceil>a\<rceil>)"
| "math_ceil a = a"

text \<open>\<open>Math.round\<close>: to the nearest integer, ties upwards.\<close>

fun math_round :: "number \<Rightarrow> number" where
  "math_round (Fin a) = Fin (of_int \<lfloor>a + 1/2\<rfloor>)"
| "math_round a = a"

section \<open>Laws of the number operations\<close>

lemma lit_eq: "representable r \<Longrightarrow> \<bar>r\<bar> < max_finite \<Longrightarrow> lit r = Fin r"
  by (auto simp: lit_def fl_def rnd_representable)

lemma fl_0 [simp]: "fl 0 = Fin 0"
  by (simp add: fl_def max_finite_def)

lemma fl_one: "fl 1 = Fin 1"
  by code_simp

lemma is_double_fl [simp]: "is_double (fl x)"
  by (auto simp: fl_def Let_def)

lemma fl_mono [js_mono]: assumes "x \<le> y" shows "fl x \<le> fl y"
  using rnd_mono [OF assms] by (auto simp: fl_def Let_def)

lemma fl_not_NaN [simp]: "fl x \<noteq> NaN"
  by (auto simp: fl_def Let_def)

lemma fl_id: "is_double (Fin a) \<Longrightarrow> fl a = Fin a"
  by (auto simp: fl_def)

lemma fl_nonneg: "0 \<le> x \<Longrightarrow> Fin 0 \<le> fl x"
  using fl_mono [of 0 x] by simp

lemma is_double_rep: "is_double (Fin a) \<Longrightarrow> representable a"
  by (metis is_double.simps(1) representable_rnd)

lemma is_double_plus [simp]: "is_double a \<Longrightarrow> is_double b \<Longrightarrow> is_double (a + b)"
  by (cases a; cases b) simp_all

lemma is_double_times [simp]: "is_double a \<Longrightarrow> is_double b \<Longrightarrow> is_double (a * b)"
  by (cases a; cases b) (simp_all add: inf_sign_def)

lemma is_double_lit [simp]: "is_double (lit r)"
  by (simp add: lit_def)

lemma fl_cases: "fl x = Fin (rnd x) \<or> fl x = PInf \<or> fl x = NInf"
  by (auto simp: fl_def Let_def)

lemma fl_not_NInf: "0 \<le> x \<Longrightarrow> fl x \<noteq> NInf"
  using fl_nonneg [of x] by auto

lemma lit_not_NaN [simp]: "lit r \<noteq> NaN"
  by (simp add: lit_def)

lemma number_le_trans: "(a::number) \<le> b \<Longrightarrow> b \<le> c \<Longrightarrow> a \<le> c"
  by (cases a; cases b; cases c) auto

lemma number_less_le_trans: "(a::number) < b \<Longrightarrow> b \<le> c \<Longrightarrow> a < c"
  by (cases a; cases b; cases c) auto

lemma number_le_less_trans: "(a::number) \<le> b \<Longrightarrow> b < c \<Longrightarrow> a < c"
  by (cases a; cases b; cases c) auto

declare number_le_trans [trans] number_less_le_trans [trans] number_le_less_trans [trans]

lemma number_less_imp_le: "(a::number) < b \<Longrightarrow> a \<le> b"
  by (cases a; cases b) auto

lemma number_not_less: "a \<noteq> NaN \<Longrightarrow> b \<noteq> NaN \<Longrightarrow> \<not> a < b \<longleftrightarrow> (b::number) \<le> a"
  by (cases a; cases b) auto

lemma number_le_refl: "a \<noteq> NaN \<Longrightarrow> (a::number) \<le> a"
  by (cases a) auto

lemma number_le_not_NaN: "(a::number) \<le> b \<Longrightarrow> a \<noteq> NaN \<and> b \<noteq> NaN"
  by (cases a; cases b) auto

lemma number_antisym: "(a::number) \<le> b \<Longrightarrow> b \<le> a \<Longrightarrow> a = b"
  by (cases a; cases b) auto

lemma number_less_irrefl [simp]: "\<not> (a::number) < a"
  by (cases a) auto

lemma math_max_ge: "a \<noteq> NaN \<Longrightarrow> b \<noteq> NaN \<Longrightarrow> a \<le> math_max a b \<and> b \<le> math_max a b"
  by (cases a; cases b) (auto simp: math_max_def)

lemma math_min_le: "a \<noteq> NaN \<Longrightarrow> b \<noteq> NaN \<Longrightarrow> math_min a b \<le> a \<and> math_min a b \<le> b"
  by (cases a; cases b) (auto simp: math_min_def)

lemma math_max_cases: "math_max a b = a \<or> math_max a b = b"
  by (auto simp: math_max_def)

lemma math_min_cases: "math_min a b = a \<or> math_min a b = b"
  by (auto simp: math_min_def)

lemma math_clamp_bounds:
  assumes "lo \<le> hi" "x \<noteq> NaN"
  shows "lo \<le> math_min hi (math_max lo x) \<and> math_min hi (math_max lo x) \<le> hi"
  using assms by (cases lo; cases hi; cases x) (auto simp: math_min_def math_max_def)

lemma math_clamp_id:
  assumes "lo \<le> x" "x \<le> hi"
  shows "math_min hi (math_max lo x) = x"
  using assms by (cases lo; cases hi; cases x) (auto simp: math_min_def math_max_def)

section \<open>Monotonicity of the operations\<close>

lemma number_le_PInf [simp]: "a \<le> PInf \<longleftrightarrow> a \<noteq> NaN" and number_NInf_le [simp]: "NInf \<le> a \<longleftrightarrow> a \<noteq> NaN"
  by (cases a; simp)+

lemma number_add_commute: "(a::number) + b = b + a"
  by (cases a; cases b) (simp_all add: add.commute)

lemma number_mult_commute: "(a::number) * b = b * a"
  by (cases a; cases b) (simp_all add: mult.commute)

lemma number_add_NaN: "(a::number) + b = NaN \<longleftrightarrow> a = NaN \<or> b = NaN \<or> a = PInf \<and> b = NInf \<or> a = NInf \<and> b = PInf"
  by (cases a; cases b) simp_all

lemma number_neg_mono [js_mono]: "(a::number) \<le> b \<Longrightarrow> - b \<le> - a"
  by (cases a; cases b) simp_all

lemma number_add_mono_left: "(a::number) \<le> b \<Longrightarrow> a + c \<noteq> NaN \<Longrightarrow> b + c \<noteq> NaN \<Longrightarrow> a + c \<le> b + c"
  by (cases a; cases b; cases c) (auto simp: number_add_NaN intro: fl_mono)

lemma number_add_mono [js_mono]:
  assumes "(a::number) \<le> b" "c \<le> d" "a + c \<noteq> NaN" "b + c \<noteq> NaN" "b + d \<noteq> NaN"
  shows "a + c \<le> b + d"
proof -
  have "a + c \<le> b + c" using assms by (intro number_add_mono_left)
  also have "b + c \<le> b + d" using assms number_add_mono_left [of c d b] by (simp add: number_add_commute)
  finally show ?thesis .
qed

lemma number_mult_pos_mono [js_mono]: "a \<le> b \<Longrightarrow> 0 < c \<Longrightarrow> a * Fin c \<le> b * Fin c"
  by (cases a; cases b) (auto simp: inf_sign_def intro: fl_mono)

lemma number_mult_nonneg_mono [js_mono]: "0 \<le> a \<Longrightarrow> Fin b \<le> Fin c \<Longrightarrow> Fin a * Fin b \<le> Fin a * Fin c"
  by (auto intro: fl_mono mult_left_mono)

lemma number_div_pos_mono [js_mono]: "a \<le> b \<Longrightarrow> 0 < c \<Longrightarrow> a / Fin c \<le> b / Fin c"
  by (cases a; cases b) (auto simp: inf_sign_def intro!: fl_mono divide_right_mono)

lemma math_max_mono: "a \<le> b \<Longrightarrow> c \<noteq> NaN \<Longrightarrow> math_max c a \<le> math_max c b"
  by (cases a; cases b; cases c) (auto simp: math_max_def)

lemma math_min_mono: "a \<le> b \<Longrightarrow> c \<noteq> NaN \<Longrightarrow> math_min a c \<le> math_min b c"
  by (cases a; cases b; cases c) (auto simp: math_min_def)

end
