(* ===== verification/JsText.thy ===== *)
theory JsText
  imports JsNumber "HOL-Library.Char_ord"
begin

text \<open>
  The string operations of the program, on ASCII strings: trimming, splitting, case folding,
  searching, and the conversions between numbers and decimal text (\<open>toFixed\<close>,
  \<open>toString\<close>, \<open>parseFloat\<close>, \<open>Number\<close>). The conversions follow ECMAScript:
  \<open>toFixed\<close> picks the nearest decimal and the larger of two nearest ones, \<open>toString\<close> the
  shortest digits that read back as the same number, \<open>parseFloat\<close> the longest decimal
  prefix.
\<close>

named_theorems js_text \<open>equations of the string operations\<close>

section \<open>Characters and searching\<close>

definition is_digit :: "char \<Rightarrow> bool" where
  "is_digit c \<longleftrightarrow> 48 \<le> (of_char c :: int) \<and> (of_char c :: int) \<le> 57"

definition digit_val :: "char \<Rightarrow> int" where
  "digit_val c = of_char c - 48"

definition digit_char :: "int \<Rightarrow> char" where
  "digit_char d = char_of (48 + d mod 10)"

definition is_space :: "char \<Rightarrow> bool" where
  "is_space c \<longleftrightarrow> (of_char c :: int) \<in> {9, 10, 11, 12, 13, 32}"

definition to_upper_char :: "char \<Rightarrow> char" where
  "to_upper_char c = (let n = of_char c :: int in if 97 \<le> n \<and> n \<le> 122 then char_of (n - 32) else c)"

definition to_lower_char :: "char \<Rightarrow> char" where
  "to_lower_char c = (let n = of_char c :: int in if 65 \<le> n \<and> n \<le> 90 then char_of (n + 32) else c)"

definition to_upper :: "string \<Rightarrow> string" where
  "to_upper s = map to_upper_char s"

definition to_lower :: "string \<Rightarrow> string" where
  "to_lower s = map to_lower_char s"

definition trim :: "string \<Rightarrow> string" where
  "trim s = rev (dropWhile is_space (rev (dropWhile is_space s)))"

text \<open>\<open>s.split(c)\<close> for a one-character separator: never empty.\<close>

fun split_on :: "char \<Rightarrow> string \<Rightarrow> string list" where
  "split_on c [] = [[]]"
| "split_on c (x # xs) =
     (if x = c then [] # split_on c xs
      else (case split_on c xs of [] \<Rightarrow> [[x]] | y # ys \<Rightarrow> (x # y) # ys))"

text \<open>\<open>s.replace(c, '')\<close> with a string pattern: the first occurrence only.\<close>

fun remove_first :: "char \<Rightarrow> string \<Rightarrow> string" where
  "remove_first c [] = []"
| "remove_first c (x # xs) = (if x = c then xs else x # remove_first c xs)"

fun starts_with :: "string \<Rightarrow> string \<Rightarrow> bool" where
  "starts_with [] _ = True"
| "starts_with (p # ps) [] = False"
| "starts_with (p # ps) (x # xs) = (p = x \<and> starts_with ps xs)"

fun str_includes :: "string \<Rightarrow> string \<Rightarrow> bool" where
  "str_includes [] p = (p = [])"
| "str_includes (x # xs) p = (starts_with p (x # xs) \<or> str_includes xs p)"

lemma split_on_nonempty [simp]: "split_on c s \<noteq> []"
  by (cases s) (auto split: list.splits)

lemma split_on_no_sep: "c \<notin> set s \<Longrightarrow> split_on c s = [s]"
  by (induction s) auto

lemma split_on_app: "c \<notin> set a \<Longrightarrow> split_on c (a @ c # b) = a # split_on c b"
  by (induction a) auto

section \<open>Decimal text\<close>

function digits_of_int :: "int \<Rightarrow> string" where
  "digits_of_int n = (if n < 10 then [digit_char n] else digits_of_int (n div 10) @ [digit_char (n mod 10)])"
  by pat_completeness auto
termination
  by (relation "measure nat") auto

declare digits_of_int.simps [simp del]

definition int_of_digits :: "string \<Rightarrow> int" where
  "int_of_digits s = foldl (\<lambda>n c. 10 * n + digit_val c) 0 s"

definition pad_left :: "nat \<Rightarrow> string \<Rightarrow> string" where
  "pad_left k s = replicate (k - length s) (CHR ''0'') @ s"

text \<open>The decimal \<open>n / 10^d\<close>, for \<open>n\<close> not negative, with exactly \<open>d\<close> digits after the point.\<close>

definition fixed_text :: "int \<Rightarrow> nat \<Rightarrow> string" where
  "fixed_text n d = (if d = 0 then digits_of_int n
     else digits_of_int (n div 10 ^ d) @ ''.'' @ pad_left d (digits_of_int (n mod 10 ^ d)))"

section \<open>Number.prototype.toString\<close>

text \<open>The decimal exponent \<open>n\<close> of a positive value: \<open>10^(n-1) \<le> v < 10^n\<close>.\<close>

definition dec_exp :: "rat \<Rightarrow> int" where
  "dec_exp v = (if 1 \<le> v then int (length (digits_of_int \<lfloor>v\<rfloor>))
                else 1 - int (length (digits_of_int (\<lceil>1 / v\<rceil> - 1))))"

definition shortest_try :: "rat \<Rightarrow> int \<Rightarrow> nat \<Rightarrow> int option" where
  "shortest_try v n k =
     (let q = v * 10 powi (int k - n); lo = \<lfloor>q\<rfloor>; hi = lo + 1;
          ok = (\<lambda>s::int. rnd (of_int s * 10 powi (n - int k)) = v) in
      if ok lo \<and> (\<not> ok hi \<or> q - of_int lo \<le> of_int hi - q) then Some lo
      else if ok hi then Some hi else None)"

fun shortest_from :: "rat \<Rightarrow> int \<Rightarrow> nat list \<Rightarrow> int \<times> nat" where
  "shortest_from v n [] = (\<lfloor>v * 10 powi (17 - n)\<rfloor>, 17)"
| "shortest_from v n (k # ks) =
     (case shortest_try v n k of Some s \<Rightarrow> (s, k) | None \<Rightarrow> shortest_from v n ks)"

definition int_text :: "int \<Rightarrow> string" where
  "int_text i = (if i < 0 then ''-'' @ digits_of_int (- i) else digits_of_int i)"

definition layout_digits :: "string \<Rightarrow> int \<Rightarrow> string" where
  "layout_digits ds n =
     (let k = int (length ds) in
      if k \<le> n \<and> n \<le> 21 then ds @ replicate (nat (n - k)) (CHR ''0'')
      else if 0 < n \<and> n \<le> 21 then take (nat n) ds @ ''.'' @ drop (nat n) ds
      else if -6 < n \<and> n \<le> 0 then ''0.'' @ replicate (nat (- n)) (CHR ''0'') @ ds
      else (if k = 1 then ds else take 1 ds @ ''.'' @ drop 1 ds) @ ''e'' @
           (if 0 \<le> n - 1 then ''+'' else ''-'') @ int_text \<bar>n - 1\<bar>)"

definition pos_text :: "rat \<Rightarrow> string" where
  "pos_text v = (let n = dec_exp v in case shortest_from v n [1..<18] of
     (s, k) \<Rightarrow> if s = 10 ^ k then layout_digits ''1'' (n + 1) else layout_digits (digits_of_int s) n)"

fun number_to_string :: "number \<Rightarrow> string" where
  "number_to_string NaN = ''NaN''"
| "number_to_string PInf = ''Infinity''"
| "number_to_string NInf = ''-Infinity''"
| "number_to_string (Fin a) =
     (if a = 0 then ''0'' else if a < 0 then ''-'' @ pos_text (- a) else pos_text a)"

section \<open>Number.prototype.toFixed\<close>

text \<open>The integer \<open>n\<close> with \<open>n / 10^d\<close> nearest to \<open>x\<close>, the larger one on a tie.\<close>

definition fixed_scaled :: "rat \<Rightarrow> nat \<Rightarrow> int" where
  "fixed_scaled x d = \<lfloor>x * 10 ^ d + 1/2\<rfloor>"

fun to_fixed :: "number \<Rightarrow> nat \<Rightarrow> string" where
  "to_fixed (Fin a) d =
     (if 10 ^ 21 \<le> \<bar>a\<bar> then number_to_string (Fin a)
      else if a < 0 then ''-'' @ fixed_text (fixed_scaled (- a) d) d
      else fixed_text (fixed_scaled a d) d)"
| "to_fixed a d = number_to_string a"

section \<open>parseFloat and Number\<close>

definition span_digits :: "string \<Rightarrow> string \<times> string" where
  "span_digits s = (takeWhile is_digit s, dropWhile is_digit s)"

text \<open>The optional exponent part: its value and the rest of the text.\<close>

definition parse_exp :: "string \<Rightarrow> int \<times> string" where
  "parse_exp s = (case s of
      c # r \<Rightarrow> (if c = CHR ''e'' \<or> c = CHR ''E'' then
          (let (neg, r') = (case r of x # xs \<Rightarrow> if x = CHR ''-'' then (True, xs)
                                         else if x = CHR ''+'' then (False, xs) else (False, r)
                                  | [] \<Rightarrow> (False, r));
               (ds, rest) = span_digits r' in
           if ds = [] then (0, s) else ((if neg then - int_of_digits ds else int_of_digits ds), rest))
        else (0, s))
    | [] \<Rightarrow> (0, s))"

text \<open>An unsigned decimal prefix: its value, if there is one, and the rest.\<close>

definition parse_udec :: "string \<Rightarrow> (rat \<times> string) option" where
  "parse_udec s =
     (let (ip, r1) = span_digits s;
          (fp, r2) = (case r1 of c # xs \<Rightarrow> if c = CHR ''.'' then span_digits xs else ([], r1) | [] \<Rightarrow> ([], r1)) in
      if ip = [] \<and> fp = [] then None
      else (let (e, r3) = parse_exp r2 in
        Some (of_int (int_of_digits (ip @ fp)) / 10 ^ length fp * 10 powi e, r3)))"

definition parse_signed :: "string \<Rightarrow> (number \<times> string) option" where
  "parse_signed s =
     (let (neg, r) = (case s of x # xs \<Rightarrow> if x = CHR ''-'' then (True, xs)
                                 else if x = CHR ''+'' then (False, xs) else (False, s) | [] \<Rightarrow> (False, s)) in
      if starts_with ''Infinity'' r then Some (if neg then NInf else PInf, drop 8 r)
      else map_option (\<lambda>(v, rest). (fl (if neg then - v else v), rest)) (parse_udec r))"

definition parse_float :: "string \<Rightarrow> number" where
  "parse_float s = (case parse_signed (dropWhile is_space s) of None \<Rightarrow> NaN | Some (v, _) \<Rightarrow> v)"

text \<open>\<open>Number(s)\<close> on a string: the whole trimmed text must be a decimal literal. (Radix
  prefixes such as \<open>0x\<close> do not occur in the exchange's payloads and read as \<open>NaN\<close> here.)\<close>

definition number_of_string :: "string \<Rightarrow> number" where
  "number_of_string s = (let t = trim s in if t = [] then Fin 0 else
     (case parse_signed t of None \<Rightarrow> NaN | Some (v, rest) \<Rightarrow> if rest = [] then v else NaN))"

text \<open>\<open>parseInt(s, 10)\<close>: the longest prefix of decimal digits, after an optional sign.\<close>

definition parse_int :: "string \<Rightarrow> number" where
  "parse_int s =
     (let t = dropWhile is_space s;
          (neg, r) = (case t of x # xs \<Rightarrow> if x = CHR ''-'' then (True, xs)
                                 else if x = CHR ''+'' then (False, xs) else (False, t) | [] \<Rightarrow> (False, t));
          ds = takeWhile is_digit r in
      if ds = [] then NaN else fl (of_int (if neg then - int_of_digits ds else int_of_digits ds)))"

section \<open>Laws of decimal text\<close>

lemma digit_char_digit [simp]: "is_digit (digit_char d)" "digit_val (digit_char d) = d mod 10"
proof -
  have "0 \<le> d mod 10" "d mod 10 < 10" by simp_all
  then show "is_digit (digit_char d)" "digit_val (digit_char d) = d mod 10"
    by (simp_all add: is_digit_def digit_char_def digit_val_def of_char_of)
qed

lemma int_of_digits_append:
  "int_of_digits (a @ b) = int_of_digits a * 10 ^ length b + int_of_digits b"
proof -
  have g: "foldl (\<lambda>n c. 10 * n + digit_val c) m b = m * 10 ^ length b + foldl (\<lambda>n c. 10 * n + digit_val c) 0 b" for m
    by (induction b rule: rev_induct) simp_all
  show ?thesis by (simp add: int_of_digits_def g [of "foldl (\<lambda>n c. 10 * n + digit_val c) 0 a"])
qed

lemma int_of_digits_single: "int_of_digits [digit_char d] = d mod 10"
  by (simp add: int_of_digits_def)

lemma int_of_digits_digits: "0 \<le> n \<Longrightarrow> int_of_digits (digits_of_int n) = n"
proof (induction n rule: digits_of_int.induct)
  case (1 n)
  then show ?case
    by (cases "n < 10") (simp_all add: digits_of_int.simps [of n] int_of_digits_append int_of_digits_single)
qed

lemma digits_of_int_digits: "\<forall>c \<in> set (digits_of_int n). is_digit c"
proof (induction n rule: digits_of_int.induct)
  case (1 n)
  then show ?case by (cases "n < 10") (auto simp: digits_of_int.simps [of n])
qed

lemma digits_of_int_nonempty [simp]: "digits_of_int n \<noteq> []"
  by (simp add: digits_of_int.simps [of n])

lemma int_div_less_10: "n < 10 * m \<Longrightarrow> n div 10 < (m::int)"
  by linarith

lemma length_digits_of_int: "n < 10 ^ k \<Longrightarrow> 0 < k \<Longrightarrow> length (digits_of_int n) \<le> k"
proof (induction n arbitrary: k rule: digits_of_int.induct)
  case (1 n)
  show ?case
  proof (cases "n < 10")
    case True
    with 1 show ?thesis by (simp add: digits_of_int.simps [of n])
  next
    case False
    then have k: "1 < k" using "1.prems" by (cases "k = 1") auto
    then obtain j where j: "k = Suc j" "0 < j" by (cases k) auto
    then have "n div 10 < 10 ^ j" using "1.prems" by (simp add: int_div_less_10)
    from "1.IH" [OF False this j(2)] j False show ?thesis by (simp add: digits_of_int.simps [of n])
  qed
qed

lemma int_of_digits_pad [simp]: "int_of_digits (pad_left k s) = int_of_digits s"
proof -
  have "int_of_digits (replicate j (CHR ''0'')) = 0" for j
    by (induction j) (simp_all add: int_of_digits_def digit_val_def)
  then show ?thesis by (simp add: pad_left_def int_of_digits_append)
qed

lemma span_digits_app:
  assumes "\<forall>c \<in> set a. is_digit c" "b = [] \<or> \<not> is_digit (hd b)"
  shows "span_digits (a @ b) = (a, b)"
proof -
  have "takeWhile is_digit b = []" "dropWhile is_digit b = b" using assms(2) by (cases b; auto)+
  then show ?thesis using assms(1) by (simp add: span_digits_def takeWhile_append2 dropWhile_append2)
qed

lemma fixed_text_parse: assumes "0 \<le> n" shows "parse_udec (fixed_text n d) = Some (of_int n / 10 ^ d, [])"
proof (cases "d = 0")
  case True
  have s: "span_digits (digits_of_int n) = (digits_of_int n, [])"
    using span_digits_app [of "digits_of_int n" "[]"] by (simp add: digits_of_int_digits)
  show ?thesis using True assms by (simp add: fixed_text_def parse_udec_def s parse_exp_def int_of_digits_digits)
next
  case False
  let ?ip = "digits_of_int (n div 10 ^ d)" let ?fp = "pad_left d (digits_of_int (n mod 10 ^ d))"
  have fpd: "\<forall>c \<in> set ?fp. is_digit c"
    using digits_of_int_digits [of "n mod 10 ^ d"] by (auto simp: pad_left_def is_digit_def)
  have len: "length ?fp = d"
    using length_digits_of_int [of "n mod 10 ^ d" d] False by (simp add: pad_left_def)
  have s1: "span_digits (?ip @ ''.'' @ ?fp) = (?ip, ''.'' @ ?fp)"
    by (rule span_digits_app) (rule digits_of_int_digits, simp add: is_digit_def)
  have s2: "span_digits ?fp = (?fp, [])"
    using span_digits_app [of ?fp "[]"] fpd by simp
  have v: "int_of_digits (?ip @ ?fp) = n"
    using assms div_mult_mod_eq [of n "10 ^ d"]
    by (simp add: int_of_digits_append len int_of_digits_digits pos_imp_zdiv_nonneg_iff)
  from False len v s1 s2 show ?thesis
    by (simp add: fixed_text_def parse_udec_def parse_exp_def)
qed

lemma fixed_text_hd: "\<exists>c r. fixed_text n d = c # r \<and> is_digit c"
proof -
  have "\<exists>c r. digits_of_int m = c # r \<and> is_digit c" for m
    using digits_of_int_digits [of m] by (cases "digits_of_int m") auto
  then show ?thesis unfolding fixed_text_def by (metis append_Cons)
qed

lemma digit_not_special:
  assumes "is_digit c"
  shows "\<not> is_space c" "c \<noteq> CHR ''-''" "c \<noteq> CHR ''+''" "c \<noteq> CHR ''I''"
  using assms by (auto simp: is_digit_def is_space_def)

lemma parse_float_fixed_text: assumes "0 \<le> n" shows "parse_float (fixed_text n d) = fl (of_int n / 10 ^ d)"
proof -
  obtain c r where c: "fixed_text n d = c # r" "is_digit c" using fixed_text_hd by blast
  note d = digit_not_special [OF c(2)]
  have "parse_signed (c # r) = Some (fl (of_int n / 10 ^ d), [])"
    using d fixed_text_parse [OF assms, of d] by (simp add: parse_signed_def c)
  with c d show ?thesis by (simp add: parse_float_def)
qed

text \<open>Reading back what \<open>toFixed\<close> wrote gives the number rounded to that many decimals.\<close>

lemma parse_float_to_fixed:
  assumes "0 \<le> a" "a < 10 ^ 21"
  shows "parse_float (to_fixed (Fin a) d) = fl (of_int (fixed_scaled a d) / 10 ^ d)"
proof -
  have "0 \<le> fixed_scaled a d" using assms by (simp add: fixed_scaled_def add_nonneg_nonneg)
  with assms show ?thesis by (simp add: parse_float_fixed_text)
qed

lemma fixed_scaled_near: "\<bar>of_int (fixed_scaled a d) - a * 10 ^ d\<bar> \<le> 1/2"
  unfolding fixed_scaled_def by linarith


lemma is_double_parse_float [simp]: "is_double (parse_float s)"
proof -
  have "is_double v" if "parse_signed t = Some (v, r)" for t v r
    using that by (auto simp: parse_signed_def Let_def split: if_splits list.splits)
  then show ?thesis by (auto simp: parse_float_def split: option.splits)
qed

lemma to_upper_char_idem: "to_upper_char (to_upper_char c) = to_upper_char c"
  by (auto simp: to_upper_char_def Let_def of_char_of split: if_splits)

lemma to_upper_idem [simp]: "to_upper (to_upper s) = to_upper s"
  by (simp add: to_upper_def to_upper_char_idem)

end
