(* ===== verification/JsPrelude.thy ===== *)
theory JsPrelude
  imports JsText
begin

text \<open>
  What the components share beside numbers and text: nullish values as \<open>option\<close>, the query
  clauses of the persistence layer (\<open>where\<close>, \<open>orderBy\<close>, \<open>take\<close>) on lists of rows,
  partial updates, running a fallible step over a list, and the lemmas on them that the component
  proofs use. A row field of type \<open>number\<close> holds what \<open>Number(column)\<close> reads.
\<close>

named_theorems model_defs \<open>defining equations of the model's operations\<close>

type_synonym time = int  \<comment> \<open>milliseconds, as \<open>Date.now()\<close> counts them\<close>
type_synonym user_id = string

section \<open>Nullish values\<close>

definition nullish :: "'a option \<Rightarrow> 'a \<Rightarrow> 'a" where
  "nullish a b = (case a of None \<Rightarrow> b | Some x \<Rightarrow> x)"

lemma nullish_simps [simp]: "nullish None b = b" "nullish (Some a) b = a"
  by (simp_all add: nullish_def)

lemma nullish_eqI: "nullish a b = x \<Longrightarrow> a = Some x \<or> b = x"
  by (cases a) auto

section \<open>Query clauses\<close>

definition order_asc :: "('r \<Rightarrow> int) \<Rightarrow> 'r list \<Rightarrow> 'r list" where
  "order_asc k rows = sort_key k rows"

definition order_desc :: "('r \<Rightarrow> int) \<Rightarrow> 'r list \<Rightarrow> 'r list" where
  "order_desc k rows = sort_key (\<lambda>r. - k r) rows"

definition find_many :: "('r \<Rightarrow> bool) \<Rightarrow> ('r list \<Rightarrow> 'r list) \<Rightarrow> 'r list \<Rightarrow> 'r list" where
  "find_many p ord rows = ord (filter p rows)"

definition find_first :: "('r \<Rightarrow> bool) \<Rightarrow> ('r list \<Rightarrow> 'r list) \<Rightarrow> 'r list \<Rightarrow> 'r option" where
  "find_first p ord rows = (case find_many p ord rows of [] \<Rightarrow> None | r # _ \<Rightarrow> Some r)"

definition update_where :: "('r \<Rightarrow> bool) \<Rightarrow> ('r \<Rightarrow> 'r) \<Rightarrow> 'r list \<Rightarrow> 'r list" where
  "update_where p f rows = map (\<lambda>r. if p r then f r else r) rows"

lemma set_order [simp]: "set (order_asc k rows) = set rows" "set (order_desc k rows) = set rows"
  by (simp_all add: order_asc_def order_desc_def)

lemma length_order [simp]: "length (order_asc k rows) = length rows" "length (order_desc k rows) = length rows"
  by (simp_all add: order_asc_def order_desc_def)

lemma find_first_Some:
  assumes "find_first p ord rows = Some r" "\<And>xs. set (ord xs) = set xs"
  shows "r \<in> set rows \<and> p r"
proof -
  from assms(1) have "r \<in> set (ord (filter p rows))"
    by (auto simp: find_first_def find_many_def split: list.splits)
  with assms(2) show ?thesis by auto
qed

lemma find_first_None:
  assumes "\<And>xs. set (ord xs) = set xs"
  shows "find_first p ord rows = None \<longleftrightarrow> (\<forall>r \<in> set rows. \<not> p r)"
proof -
  have "find_first p ord rows = None \<longleftrightarrow> set (ord (filter p rows)) = {}"
    by (auto simp: find_first_def find_many_def split: list.splits)
  with assms show ?thesis by auto
qed

lemma length_update_where [simp]: "length (update_where p f rows) = length rows"
  by (simp add: update_where_def)

lemma update_where_other: "\<not> p r \<Longrightarrow> r \<in> set rows \<Longrightarrow> r \<in> set (update_where p f rows)"
  by (force simp: update_where_def)

lemma in_update_where:
  "r \<in> set (update_where p f rows) \<longleftrightarrow> (\<exists>x \<in> set rows. r = (if p x then f x else x))"
  by (auto simp: update_where_def)

section \<open>Steps that may fail and keep the state they reached\<close>

definition and_then :: "('e + 'a) \<times> 's \<Rightarrow> ('a \<Rightarrow> 's \<Rightarrow> ('e + 'b) \<times> 's) \<Rightarrow> ('e + 'b) \<times> 's" where
  "and_then r k = (case r of (Inl e, s) \<Rightarrow> (Inl e, s) | (Inr x, s) \<Rightarrow> k x s)"

definition require :: "bool \<Rightarrow> 'e \<Rightarrow> 's \<Rightarrow> ('e + unit) \<times> 's" where
  "require ok e s = (if ok then (Inr (), s) else (Inl e, s))"

definition lift_error :: "'e + 'a \<Rightarrow> 's \<Rightarrow> ('e + 'a) \<times> 's" where
  "lift_error r s = (r, s)"

lemma and_then_simps [simp]: "and_then (Inl e, s) k = (Inl e, s)" "and_then (Inr x, s) k = k x s"
  by (simp_all add: and_then_def)

lemma and_then_Inr: "and_then r k = (Inr y, s') \<longleftrightarrow> (\<exists>x s1. r = (Inr x, s1) \<and> k x s1 = (Inr y, s'))"
  by (auto simp: and_then_def split: prod.splits sum.splits)

lemma and_then_cases:
  assumes "and_then r k = (y, s')"
  obtains (failed) e where "r = (Inl e, s')" "y = Inl e" | (went_on) x s1 where "r = (Inr x, s1)" "k x s1 = (y, s')"
  using assms by (auto simp: and_then_def split: prod.splits sum.splits)

lemma require_Inr [simp]: "require ok e s = (Inr x, s') \<longleftrightarrow> ok \<and> s' = s"
  by (auto simp: require_def)

section \<open>Running fallible steps over a list\<close>

fun sum_numbers :: "number \<Rightarrow> number list \<Rightarrow> number" where
  "sum_numbers acc [] = acc"
| "sum_numbers acc (x # xs) = sum_numbers (acc + x) xs"

definition count_number :: "nat \<Rightarrow> number" where
  "count_number n = fl (of_nat n)"

lemma sum_numbers_foldl: "sum_numbers acc xs = foldl (+) acc xs"
  by (induction xs arbitrary: acc) auto

lemma foldl_invariant:
  assumes "P s" "\<And>s x. P s \<Longrightarrow> x \<in> set xs \<Longrightarrow> P (f s x)"
  shows "P (foldl f s xs)"
  using assms by (induction xs arbitrary: s) auto

end
