(* ===== verification/OrderStateMachine.thy ===== *)
theory OrderStateMachine
  imports JsPrelude
begin

text \<open>
  The order life cycle of \<open>src/src/services/orders/stateMachine.ts\<close>: the seven stored
  statuses, the table of allowed transitions and the test the order service makes before it
  writes a status the exchange reported. The reported status is text: the exchange may send one
  the schema does not know.
\<close>

datatype order_status =
  PENDING_SUBMIT | NEW | PARTIALLY_FILLED | FILLED | CANCELED | REJECTED | EXPIRED

fun status_name :: "order_status \<Rightarrow> string" where
  "status_name PENDING_SUBMIT = ''PENDING_SUBMIT''"
| "status_name NEW = ''NEW''"
| "status_name PARTIALLY_FILLED = ''PARTIALLY_FILLED''"
| "status_name FILLED = ''FILLED''"
| "status_name CANCELED = ''CANCELED''"
| "status_name REJECTED = ''REJECTED''"
| "status_name EXPIRED = ''EXPIRED''"

fun transitions :: "order_status \<Rightarrow> order_status list" where
  "transitions PENDING_SUBMIT = [NEW, FILLED, PARTIALLY_FILLED, REJECTED, CANCELED]"
| "transitions NEW = [PARTIALLY_FILLED, FILLED, CANCELED, EXPIRED, REJECTED]"
| "transitions PARTIALLY_FILLED = [FILLED, CANCELED, EXPIRED]"
| "transitions FILLED = []"
| "transitions CANCELED = []"
| "transitions REJECTED = []"
| "transitions EXPIRED = []"

definition canTransitionOrderStatus :: "order_status \<Rightarrow> string \<Rightarrow> bool" where
  "canTransitionOrderStatus from to = List.member (map status_name (transitions from)) to"

text \<open>The status a known name denotes.\<close>

definition all_statuses :: "order_status list" where
  "all_statuses = [PENDING_SUBMIT, NEW, PARTIALLY_FILLED, FILLED, CANCELED, REJECTED, EXPIRED]"

definition status_of_name :: "string \<Rightarrow> order_status option" where
  "status_of_name s = find (\<lambda>st. status_name st = s) all_statuses"

text \<open>An accepted status change as a relation, and the statuses an order can be in.\<close>

inductive order_step :: "order_status \<Rightarrow> order_status \<Rightarrow> bool" where
  accept: "canTransitionOrderStatus s (status_name t) \<Longrightarrow> order_step s t"

inductive order_run :: "order_status \<Rightarrow> order_status list \<Rightarrow> bool" where
  stop: "order_run s []"
| move: "order_step s t \<Longrightarrow> order_run t ts \<Longrightarrow> order_run s (t # ts)"

inductive_cases order_runE: "order_run s (t # ts)"
inductive_simps order_step_iff: "order_step s t"

definition terminal :: "order_status \<Rightarrow> bool" where
  "terminal s \<longleftrightarrow> transitions s = []"

text \<open>How many accepted changes a status can still be followed by, at most.\<close>

fun stages_left :: "order_status \<Rightarrow> nat" where
  "stages_left PENDING_SUBMIT = 3"
| "stages_left NEW = 2"
| "stages_left PARTIALLY_FILLED = 1"
| "stages_left _ = 0"

lemma status_name_inj [simp]: "status_name a = status_name b \<longleftrightarrow> a = b"
  by (cases a; cases b) auto

lemma canTransition_iff:
  "canTransitionOrderStatus s (status_name t) \<longleftrightarrow> t \<in> set (transitions s)"
  by (auto simp: canTransitionOrderStatus_def List.member_iff)

lemma canTransition_known: "canTransitionOrderStatus s n \<Longrightarrow> \<exists>t. n = status_name t \<and> t \<in> set (transitions s)"
  by (auto simp: canTransitionOrderStatus_def List.member_iff)

lemma status_of_name_status [simp]: "status_of_name (status_name t) = Some t"
  by (cases t) (auto simp: status_of_name_def all_statuses_def)

lemma order_step_transitions: "order_step s t \<longleftrightarrow> t \<in> set (transitions s)"
  by (simp only: order_step_iff canTransition_iff)

section \<open>What a table of status changes promises its clients\<close>

text \<open>A table that accepts a status text only if it names a status at a later stage. The order
  service relies on nothing else of the table.\<close>

locale status_table =
  fixes accepts :: "'s \<Rightarrow> string \<Rightarrow> bool" and name :: "'s \<Rightarrow> string" and stages :: "'s \<Rightarrow> nat"
  assumes name_inj: "name s = name t \<longleftrightarrow> s = t"
    and accepts_later: "accepts s n \<Longrightarrow> \<exists>t. n = name t \<and> stages t < stages s"
begin

lemma later: "accepts s (name t) \<Longrightarrow> stages t < stages s"
  using accepts_later name_inj by metis

lemma not_itself: "\<not> accepts s (name s)"
  using later by blast

lemma not_back: "accepts s (name t) \<Longrightarrow> \<not> accepts t (name s)"
  using later less_asym by blast

lemma last_stage: "stages s = 0 \<Longrightarrow> \<not> accepts s n"
  using accepts_later by fastforce

lemma successively_bounded: "successively (\<lambda>s t. accepts s (name t)) (s # ts) \<Longrightarrow> length ts \<le> stages s"
proof (induction ts arbitrary: s)
  case (Cons t ts)
  then have "stages t < stages s" "length ts \<le> stages t" by (auto dest: later)
  then show ?case by simp
qed simp

end

lemma transitions_later: "t \<in> set (transitions s) \<Longrightarrow> stages_left t < stages_left s"
  by (cases s) auto

interpretation order_table: status_table canTransitionOrderStatus status_name stages_left
proof
  show "\<exists>t. n = status_name t \<and> stages_left t < stages_left s" if "canTransitionOrderStatus s n" for s n
    using canTransition_known [OF that] transitions_later by blast
qed simp

lemma order_run_successively:
  "order_run s ts \<Longrightarrow> successively (\<lambda>a b. canTransitionOrderStatus a (status_name b)) (s # ts)"
  by (induction rule: order_run.induct) (auto simp: order_step_iff successively_Cons)

lemma terminal_iff: "terminal s \<longleftrightarrow> s \<in> {FILLED, CANCELED, REJECTED, EXPIRED}"
  by (cases s) (auto simp: terminal_def)


text \<open>Every accepted run of status changes is short and, once a terminal status is reached,
  empty: from any status the number of accepted changes is at most the number of stages left, and
  a terminal order accepts no status text at all, known or unknown.\<close>

theorem order_lifecycle_bounded:
  "(order_run s ts \<longrightarrow> length ts \<le> stages_left s) \<and> (terminal s \<longrightarrow> \<not> canTransitionOrderStatus s n)"
proof
  show "order_run s ts \<longrightarrow> length ts \<le> stages_left s"
    using order_run_successively order_table.successively_bounded by blast
  have "stages_left s = 0" if "terminal s" using that by (auto simp: terminal_iff)
  then show "terminal s \<longrightarrow> \<not> canTransitionOrderStatus s n" using order_table.last_stage by blast
qed

theorem order_lifecycle_bounded_witness:
  "length [NEW, PARTIALLY_FILLED, FILLED] \<le> stages_left PENDING_SUBMIT \<and>
   \<not> canTransitionOrderStatus FILLED ''PARTIALLY_FILLED''"
proof -
  have "order_run PENDING_SUBMIT [NEW, PARTIALLY_FILLED, FILLED]"
    by (intro order_run.intros) (simp_all add: order_step_transitions)
  moreover have "terminal FILLED" by (simp add: terminal_def)
  ultimately show ?thesis
    using order_lifecycle_bounded [of PENDING_SUBMIT "[NEW, PARTIALLY_FILLED, FILLED]" "[]"]
      order_lifecycle_bounded [of FILLED "[]" "''PARTIALLY_FILLED''"] by blast
qed

end
