(* ===== verification/RiskRules.thy ===== *)
theory RiskRules
  imports JsPrelude
begin

text \<open>
  Risk limits: the order service's check (\<open>services/orders/risk.ts\<close>), the bot's gate
  (\<open>services/risk/riskGate.ts\<close>), fractional Kelly sizing (\<open>services/risk/kelly.ts\<close>) and the
  readiness report for live automation (\<open>services/risk/readiness.ts\<close>). The tables are lists of
  rows; a query without \<open>orderBy\<close> reads them in stored order. A rejection is the value its message
  interpolates, and the risk events are the rows the check writes.
\<close>

section \<open>Tables\<close>

record risk_rule =
  rr_user :: user_id
  rr_maxOrderNotional :: "number option"
  rr_maxOpenNotional :: "number option"
  rr_maxDailyLoss :: "number option"
  rr_cooldownMinutes :: "int option"
  rr_maxLosingStreak :: "int option"
  rr_enabled :: bool
  rr_createdAt :: time
  rr_updatedAt :: time

datatype trade_status = OPEN | CLOSED | CANCELLED

record trade_row =
  tr_user :: user_id
  tr_pair :: string
  tr_status :: trade_status
  tr_pnl :: "number option"
  tr_createdAt :: time

datatype risk_reason =
    OrderNotionalExceeds number number
  | OpenExposureExceeds number number
  | DailyLossReached number
  | LosingStreakCooldown int int

datatype risk_kind = ORDER_REJECTED | DAILY_LOSS_LIMIT | OPEN_EXPOSURE_LIMIT | LOSING_STREAK_COOLDOWN

datatype risk_severity = WARN | CRITICAL

record risk_event =
  re_user :: user_id
  re_kind :: risk_kind
  re_severity :: risk_severity
  re_message :: risk_reason

text \<open>The realised profit of a list of trades, added in query order.\<close>

definition total_pnl :: "trade_row list \<Rightarrow> number" where
  "total_pnl ts = foldl (\<lambda>acc t. acc + nullish (tr_pnl t) (Fin 0)) (Fin 0) ts"

definition closed_since :: "user_id \<Rightarrow> time \<Rightarrow> trade_row list \<Rightarrow> trade_row list" where
  "closed_since u start ts = filter (\<lambda>t. tr_user t = u \<and> tr_status t = CLOSED \<and> start \<le> tr_createdAt t) ts"

definition utc_midnight :: "time \<Rightarrow> time" where
  "utc_midnight now = now - now mod 86400000"

section \<open>The order service's check\<close>

record RiskCheckInput =
  ci_userId :: user_id
  ci_symbol :: string
  ci_quantity :: number
  ci_price :: number
  ci_notionalUsd :: "number option"

definition active_rule :: "user_id \<Rightarrow> risk_rule list \<Rightarrow> risk_rule option" where
  "active_rule u rules = find_first (\<lambda>r. rr_user r = u \<and> rr_enabled r) (order_desc rr_updatedAt) rules"

definition check_notional :: "RiskCheckInput \<Rightarrow> number" where
  "check_notional input = nullish (ci_notionalUsd input) (ci_quantity input * ci_price input)"

definition over_limit :: "number option \<Rightarrow> number \<Rightarrow> bool" where
  "over_limit limit x = (case limit of None \<Rightarrow> False | Some m \<Rightarrow> m < x)"

definition checkRisk ::
  "risk_rule list \<Rightarrow> trade_row list \<Rightarrow> time \<Rightarrow> RiskCheckInput \<Rightarrow> risk_reason option \<times> risk_event list" where
  "checkRisk rules trades now input =
     (case active_rule (ci_userId input) rules of None \<Rightarrow> (None, [])
      | Some rule \<Rightarrow>
        let notional = check_notional input;
            reject = (\<lambda>kind sev reason. (Some reason,
              [\<lparr>re_user = ci_userId input, re_kind = kind, re_severity = sev, re_message = reason\<rparr>])) in
        if over_limit (rr_maxOrderNotional rule) notional
        then reject ORDER_REJECTED WARN (OrderNotionalExceeds notional (nullish (rr_maxOrderNotional rule) (Fin 0)))
        else case rr_maxDailyLoss rule of None \<Rightarrow> (None, [])
        | Some loss \<Rightarrow>
            let dailyPnl = total_pnl (closed_since (ci_userId input) (utc_midnight now) trades) in
            if dailyPnl \<le> - math_abs loss then reject DAILY_LOSS_LIMIT CRITICAL (DailyLossReached dailyPnl)
            else (None, []))"

section \<open>The bot's gate\<close>

definition gate_fail :: "user_id \<Rightarrow> risk_kind \<Rightarrow> risk_reason \<Rightarrow> risk_reason option \<times> risk_event list" where
  "gate_fail u kind reason =
     (Some reason, [\<lparr>re_user = u, re_kind = kind, re_severity = WARN, re_message = reason\<rparr>])"

definition open_count :: "user_id \<Rightarrow> trade_row list \<Rightarrow> nat" where
  "open_count u ts = length (filter (\<lambda>t. tr_user t = u \<and> tr_status t = OPEN) ts)"

definition recent_closed :: "user_id \<Rightarrow> int \<Rightarrow> trade_row list \<Rightarrow> trade_row list" where
  "recent_closed u n ts =
     take (nat n) (find_many (\<lambda>t. tr_user t = u \<and> tr_status t = CLOSED) (order_desc tr_createdAt) ts)"

definition in_cooldown :: "risk_rule \<Rightarrow> user_id \<Rightarrow> trade_row list \<Rightarrow> time \<Rightarrow> bool" where
  "in_cooldown rule u trades now =
     (case rr_maxLosingStreak rule of None \<Rightarrow> False
      | Some n \<Rightarrow> 0 < n \<and>
          (let recent = recent_closed u n trades in
           n \<le> int (length recent) \<and> list_all (\<lambda>t. nullish (tr_pnl t) (Fin 0) < Fin 0) recent \<and>
           (case recent of [] \<Rightarrow> False
            | t # _ \<Rightarrow> now - tr_createdAt t < nullish (rr_cooldownMinutes rule) 0 * 60000)))"

definition gate_checkRisk ::
  "(time \<Rightarrow> time) \<Rightarrow> risk_rule list \<Rightarrow> trade_row list \<Rightarrow> time \<Rightarrow> user_id \<Rightarrow> number \<Rightarrow>
   risk_reason option \<times> risk_event list" where
  "gate_checkRisk local_midnight rules trades now u orderSizeUsdt =
     (case find_first (\<lambda>r. rr_user r = u \<and> rr_enabled r) id rules of None \<Rightarrow> (None, [])
      | Some rule \<Rightarrow>
        let exposure = count_number (open_count u trades) * orderSizeUsdt;
            dailyPnl = total_pnl (closed_since u (local_midnight now) trades) in
        if over_limit (rr_maxOrderNotional rule) orderSizeUsdt
        then gate_fail u ORDER_REJECTED
               (OrderNotionalExceeds orderSizeUsdt (nullish (rr_maxOrderNotional rule) (Fin 0)))
        else if over_limit (rr_maxOpenNotional rule) exposure
        then gate_fail u OPEN_EXPOSURE_LIMIT
               (OpenExposureExceeds exposure (nullish (rr_maxOpenNotional rule) (Fin 0)))
        else if (case rr_maxDailyLoss rule of None \<Rightarrow> False | Some loss \<Rightarrow> dailyPnl < - loss)
        then gate_fail u DAILY_LOSS_LIMIT (DailyLossReached dailyPnl)
        else if in_cooldown rule u trades now
        then gate_fail u LOSING_STREAK_COOLDOWN (LosingStreakCooldown (nullish (rr_maxLosingStreak rule) 0)
               (nullish (rr_cooldownMinutes rule) 0))
        else (None, []))"

section \<open>Kelly sizing\<close>

definition FRACTIONAL_KELLY :: number where "FRACTIONAL_KELLY = Fin (1/4)"
definition MIN_TRADES_FOR_KELLY :: nat where "MIN_TRADES_FOR_KELLY = 10"

definition mean_number :: "number list \<Rightarrow> number" where
  "mean_number xs = sum_numbers (Fin 0) xs / count_number (length xs)"

definition estimateWinLossRatio :: "trade_row list \<Rightarrow> user_id \<Rightarrow> string option \<Rightarrow> nat \<Rightarrow> number" where
  "estimateWinLossRatio trades u symbol n =
     (let rows = take n (find_many (\<lambda>t. tr_user t = u \<and> tr_status t = CLOSED \<and> tr_pnl t \<noteq> None \<and>
             (case symbol of None \<Rightarrow> True | Some s \<Rightarrow> s = [] \<or> tr_pair t = s)) (order_desc tr_createdAt) trades);
          pnls = map (\<lambda>t. nullish (tr_pnl t) (Fin 0)) rows in
      if length rows < MIN_TRADES_FOR_KELLY then Fin (3/2)
      else
        (let wins = filter (\<lambda>x. Fin 0 < x) pnls; losses = map math_abs (filter (\<lambda>x. x < Fin 0) pnls) in
         if wins = [] \<or> losses = [] then Fin 1
         else
           (let avgWin = mean_number wins; avgLoss = mean_number losses in
            if js_eq avgLoss (Fin 0) then Fin (3/2) else avgWin / avgLoss)))"

definition kelly_of_ratio :: "number \<Rightarrow> number \<Rightarrow> number" where
  "kelly_of_ratio p b =
     (let q = Fin 1 - p; fullKelly = (p * b - q) / b; fraction = FRACTIONAL_KELLY * fullKelly in
      math_max (Fin 0) (math_min fraction (Fin (1/4))))"

definition kellyFraction :: "trade_row list \<Rightarrow> number \<Rightarrow> user_id \<Rightarrow> string option \<Rightarrow> number" where
  "kellyFraction trades pUp u symbol = kelly_of_ratio pUp (estimateWinLossRatio trades u symbol 100)"

definition computeOrderSize :: "trade_row list \<Rightarrow> number \<Rightarrow> number \<Rightarrow> user_id \<Rightarrow> string option \<Rightarrow> number" where
  "computeOrderSize trades pUp equity u symbol =
     (let rawSize = equity * kellyFraction trades pUp u symbol; MIN_ORDER = Fin (1/2);
          MAX_ORDER = equity * Fin (1/2) in
      if rawSize < MIN_ORDER then Fin 0 else math_min rawSize MAX_ORDER)"

section \<open>Readiness\<close>

record connection_row =
  cn_id :: string
  cn_user :: user_id
  cn_label :: "string option"
  cn_exchange :: string
  cn_active :: bool
  cn_canTrade :: bool
  cn_canWithdraw :: bool
  cn_key :: string
  cn_secret :: string
  cn_updatedAt :: time

datatype blocker =
    AutomationDisabled "string option"
  | NoSafeConnection
  | RiskPolicyDisabled
  | SelectedNotFound
  | SelectedNoTrade
  | SelectedCanWithdraw

record AutomationReadiness =
  ready :: bool
  hasRiskPolicyEnabled :: bool
  hasSafeTradableConnection :: bool
  liveAutomationEnabled :: bool
  maintenanceReason :: "string option"
  blockers :: "blocker list"
  safeConnections :: "(string \<times> string option \<times> string) list"

definition binance_connections :: "user_id \<Rightarrow> connection_row list \<Rightarrow> connection_row list" where
  "binance_connections u cs = filter (\<lambda>c. cn_user c = u \<and> cn_active c \<and> cn_exchange c = ''BINANCE'') cs"

definition trade_only :: "connection_row \<Rightarrow> bool" where
  "trade_only c \<longleftrightarrow> cn_canTrade c \<and> \<not> cn_canWithdraw c"

definition selected_blockers :: "string option \<Rightarrow> connection_row list \<Rightarrow> blocker list" where
  "selected_blockers sel cs =
     (case sel of None \<Rightarrow> []
      | Some i \<Rightarrow> if i = [] then [] else
          (case find (\<lambda>c. cn_id c = i) cs of None \<Rightarrow> [SelectedNotFound]
           | Some c \<Rightarrow> if \<not> cn_canTrade c then [SelectedNoTrade]
               else if cn_canWithdraw c then [SelectedCanWithdraw] else []))"

definition computeAutomationReadiness ::
  "bool \<Rightarrow> string option \<Rightarrow> risk_rule list \<Rightarrow> connection_row list \<Rightarrow> user_id \<Rightarrow> string option \<Rightarrow> AutomationReadiness" where
  "computeAutomationReadiness liveEnabled maintenance rules conns u sel =
     (let riskRule = find_first (\<lambda>r. rr_user r = u) (order_desc rr_createdAt) rules;
          cs = binance_connections u conns;
          policy = (case riskRule of None \<Rightarrow> False | Some r \<Rightarrow> rr_enabled r);
          safe = filter trade_only cs;
          bs = (if \<not> liveEnabled then [AutomationDisabled maintenance] else [])
             @ (if safe = [] then [NoSafeConnection] else [])
             @ (if \<not> policy then [RiskPolicyDisabled] else [])
             @ selected_blockers sel cs in
      \<lparr>ready = (bs = []), hasRiskPolicyEnabled = policy, hasSafeTradableConnection = (safe \<noteq> []),
       liveAutomationEnabled = liveEnabled, maintenanceReason = maintenance, blockers = bs,
       safeConnections = map (\<lambda>c. (cn_id c, cn_label c, cn_exchange c)) safe\<rparr>)"

section \<open>What the checks guarantee\<close>

lemma over_limit_simps [simp]: "\<not> over_limit None x" "over_limit (Some m) x \<longleftrightarrow> m < x"
  by (simp_all add: over_limit_def)

lemma single_rule_found:
  assumes "filter (\<lambda>r. rr_user r = u \<and> rr_enabled r) rules = [rule]"
  shows "active_rule u rules = Some rule" "find_first (\<lambda>r. rr_user r = u \<and> rr_enabled r) id rules = Some rule"
  using assms by (simp_all add: active_rule_def find_first_def find_many_def order_desc_def)

lemma gate_reject_cases:
  assumes "gate_checkRisk mid rules trades now u sz = (Some reason, evs)"
    "filter (\<lambda>r. rr_user r = u \<and> rr_enabled r) rules = [rule]"
  shows "(\<forall>m. reason = OrderNotionalExceeds sz m \<longrightarrow> over_limit (rr_maxOrderNotional rule) sz) \<and>
     (\<forall>p. reason = DailyLossReached p \<longrightarrow>
        p = total_pnl (closed_since u (mid now) trades) \<and> (\<exists>loss. rr_maxDailyLoss rule = Some loss \<and> p < - loss))"
  using assms single_rule_found(2) [OF assms(2)]
  by (auto simp: gate_checkRisk_def gate_fail_def Let_def split: if_splits option.splits)

lemma check_loss:
  assumes "active_rule (ci_userId input) rules = Some rule" "\<not> over_limit (rr_maxOrderNotional rule) (check_notional input)"
    "rr_maxDailyLoss rule = Some loss"
  shows "checkRisk rules trades now input =
    (let day = total_pnl (closed_since (ci_userId input) (utc_midnight now) trades) in
     if day \<le> - math_abs loss
     then (Some (DailyLossReached day),
       [\<lparr>re_user = ci_userId input, re_kind = DAILY_LOSS_LIMIT, re_severity = CRITICAL, re_message = DailyLossReached day\<rparr>])
     else (None, []))"
  using assms by (simp add: checkRisk_def Let_def)

text \<open>C37: the order service's check set against the bot's gate, for a user with one enabled rule and an order of the same
  value (the given notional, or quantity times price), wherever the server's local midnight is. An order the gate refuses for
  its size is refused by the check for the same reason, with one WARN event. An order the gate refuses for the day's loss is
  refused by the check, with one CRITICAL event, exactly when the result since UTC midnight is at or below minus the absolute value of the
  limit, and is let through without an event otherwise; when the server's day starts at UTC midnight and the limit is not
  negative, the check always refuses it.\<close>

theorem order_check_against_gate:
  assumes "filter (\<lambda>r. rr_user r = ci_userId input \<and> rr_enabled r) rules = [rule]"
    and "gate_checkRisk local_midnight rules trades now (ci_userId input) (check_notional input) = (Some reason, evs)"
    and "day = total_pnl (closed_since (ci_userId input) (utc_midnight now) trades)"
  shows "(\<forall>x m. reason = OrderNotionalExceeds x m \<longrightarrow> checkRisk rules trades now input = (Some reason,
        [\<lparr>re_user = ci_userId input, re_kind = ORDER_REJECTED, re_severity = WARN, re_message = reason\<rparr>])) \<and>
    (\<forall>p. reason = DailyLossReached p \<longrightarrow> (\<exists>loss. rr_maxDailyLoss rule = Some loss \<and>
        (day \<le> - math_abs loss \<longrightarrow> checkRisk rules trades now input = (Some (DailyLossReached day),
           [\<lparr>re_user = ci_userId input, re_kind = DAILY_LOSS_LIMIT, re_severity = CRITICAL, re_message = DailyLossReached day\<rparr>])) \<and>
        (\<not> day \<le> - math_abs loss \<longrightarrow> checkRisk rules trades now input = (None, [])) \<and>
        (local_midnight now = utc_midnight now \<and> Fin 0 \<le> loss \<longrightarrow> day = p \<and> day \<le> - math_abs loss)))"
proof -
  note found = single_rule_found [OF assms(1)]
  have size: "checkRisk rules trades now input = (Some reason,
      [\<lparr>re_user = ci_userId input, re_kind = ORDER_REJECTED, re_severity = WARN, re_message = reason\<rparr>])"
    if "reason = OrderNotionalExceeds x m" for x m
    using assms(2) found that by (auto simp: gate_checkRisk_def gate_fail_def checkRisk_def Let_def split: if_splits)
  have loss: "\<exists>loss. rr_maxDailyLoss rule = Some loss \<and>
        (day \<le> - math_abs loss \<longrightarrow> checkRisk rules trades now input = (Some (DailyLossReached day),
           [\<lparr>re_user = ci_userId input, re_kind = DAILY_LOSS_LIMIT, re_severity = CRITICAL, re_message = DailyLossReached day\<rparr>])) \<and>
        (\<not> day \<le> - math_abs loss \<longrightarrow> checkRisk rules trades now input = (None, [])) \<and>
        (local_midnight now = utc_midnight now \<and> Fin 0 \<le> loss \<longrightarrow> day = p \<and> day \<le> - math_abs loss)"
    if r: "reason = DailyLossReached p" for p
  proof -
    obtain l where l: "rr_maxDailyLoss rule = Some l" "p = total_pnl (closed_since (ci_userId input) (local_midnight now) trades)" "p < - l"
      using gate_reject_cases [OF assms(2,1)] r by blast
    have ok: "\<not> over_limit (rr_maxOrderNotional rule) (check_notional input)"
      using assms(2) found r by (auto simp: gate_checkRisk_def gate_fail_def Let_def split: if_splits)
    have "math_abs l = l" if "Fin 0 \<le> l" using that by (cases l) auto
    then show ?thesis using check_loss [OF found(1) ok l(1), of trades now] l assms(3)
      by (intro exI [of _ l]) (auto simp: Let_def number_less_imp_le)
  qed
  show ?thesis using size loss by blast
qed

definition demo_rule :: risk_rule where
  "demo_rule = \<lparr>rr_user = ''u'', rr_maxOrderNotional = Some (Fin 100), rr_maxOpenNotional = Some (Fin 250),
     rr_maxDailyLoss = Some (Fin 20), rr_cooldownMinutes = Some 30, rr_maxLosingStreak = Some 2, rr_enabled = True,
     rr_createdAt = 1, rr_updatedAt = 2\<rparr>"

definition losing_trade :: "time \<Rightarrow> trade_row" where
  "losing_trade t = \<lparr>tr_user = ''u'', tr_pair = ''BTCUSDT'', tr_status = CLOSED, tr_pnl = Some (Fin (-15)), tr_createdAt = t\<rparr>"

definition checked_order :: RiskCheckInput where
  "checked_order = \<lparr>ci_userId = ''u'', ci_symbol = ''BTCUSDT'', ci_quantity = Fin 1, ci_price = Fin 50, ci_notionalUsd = None\<rparr>"

theorem order_check_against_gate_witness:
  "checkRisk [demo_rule] [losing_trade 5, losing_trade 7] 100 checked_order = (Some (DailyLossReached (Fin (-30))),
     [\<lparr>re_user = ci_userId checked_order, re_kind = DAILY_LOSS_LIMIT, re_severity = CRITICAL, re_message = DailyLossReached (Fin (-30))\<rparr>])"
proof -
  let ?trades = "[losing_trade 5, losing_trade 7]"
  have gate: "gate_checkRisk utc_midnight [demo_rule] ?trades 100 (ci_userId checked_order) (check_notional checked_order) =
      (Some (DailyLossReached (Fin (-30))),
       [\<lparr>re_user = ''u'', re_kind = DAILY_LOSS_LIMIT, re_severity = WARN, re_message = DailyLossReached (Fin (-30))\<rparr>])"
    and day: "Fin (-30) = total_pnl (closed_since (ci_userId checked_order) (utc_midnight 100) ?trades)"
    and limit: "Fin 0 \<le> Fin 20" by code_simp+
  have rule: "filter (\<lambda>r. rr_user r = ci_userId checked_order \<and> rr_enabled r) [demo_rule] = [demo_rule]"
    and max: "rr_maxDailyLoss demo_rule = Some (Fin 20)" by (simp_all add: demo_rule_def checked_order_def)
  from order_check_against_gate [OF rule gate day] max limit show ?thesis by (metis option.inject)
qed

lemma cooldown_over:
  assumes "\<And>t. t \<in> set trades \<Longrightarrow> tr_user t = u \<Longrightarrow> tr_status t = CLOSED \<Longrightarrow>
      tr_createdAt t + nullish (rr_cooldownMinutes rule) 0 * 60000 \<le> now"
  shows "\<not> in_cooldown rule u trades now"
proof (cases "rr_maxLosingStreak rule")
  case (Some n)
  have "t \<in> set trades \<and> tr_user t = u \<and> tr_status t = CLOSED" if "t \<in> set (recent_closed u n trades)" for t
    using that by (auto simp: recent_closed_def find_many_def dest: in_set_takeD)
  with assms Some show ?thesis
    by (fastforce simp: in_cooldown_def Let_def split: list.splits)
qed (simp add: in_cooldown_def)

text \<open>The losing-streak cooldown ends: whatever the history, once the cooldown has passed since
  the user's last closed trade, the gate refuses no order for the streak; and at any earlier moment
  a refusal for the streak means the configured number of latest closed trades all lost.\<close>

theorem losing_streak_cooldown_ends:
  assumes "find_first (\<lambda>r. rr_user r = u \<and> rr_enabled r) id rules = Some rule"
    and "gate_checkRisk mid rules trades now u sz = (Some (LosingStreakCooldown n m), evs)"
  shows "rr_maxLosingStreak rule = Some n \<and> 0 < n \<and> length (recent_closed u n trades) = nat n \<and>
     (\<forall>t \<in> set (recent_closed u n trades). nullish (tr_pnl t) (Fin 0) < Fin 0) \<and>
     (\<exists>t \<in> set trades. tr_user t = u \<and> tr_status t = CLOSED \<and> now < tr_createdAt t + m * 60000)"
proof -
  from assms have c: "in_cooldown rule u trades now" "m = nullish (rr_cooldownMinutes rule) 0"
    "n = nullish (rr_maxLosingStreak rule) 0"
    by (auto simp: gate_checkRisk_def gate_fail_def Let_def split: if_splits option.splits)
  then have "rr_maxLosingStreak rule = Some n" by (auto simp: in_cooldown_def split: option.splits)
  moreover have "length (recent_closed u n trades) \<le> nat n" by (simp add: recent_closed_def)
  moreover from c(1,2) have "\<exists>t \<in> set trades. tr_user t = u \<and> tr_status t = CLOSED \<and> now < tr_createdAt t + m * 60000"
    using cooldown_over [of trades u rule now] by fastforce
  ultimately show ?thesis using c(1) by (auto simp: in_cooldown_def Let_def list_all_iff split: list.splits)
qed

theorem losing_streak_cooldown_ends_witness:
  "length (recent_closed ''u'' 2 [losing_trade 5, losing_trade 7]) = nat 2 \<and>
   (\<exists>t \<in> set [losing_trade 5, losing_trade 7]. tr_user t = ''u'' \<and> tr_status t = CLOSED \<and> 100 < tr_createdAt t + 30 * 60000)"
proof -
  have "find_first (\<lambda>r. rr_user r = ''u'' \<and> rr_enabled r) id [demo_rule\<lparr>rr_maxDailyLoss := None\<rparr>] =
      Some (demo_rule\<lparr>rr_maxDailyLoss := None\<rparr>)"
    by (simp add: find_first_def find_many_def demo_rule_def)
  moreover have "gate_checkRisk utc_midnight [demo_rule\<lparr>rr_maxDailyLoss := None\<rparr>] [losing_trade 5, losing_trade 7] 100 ''u'' (Fin 50) =
    (Some (LosingStreakCooldown 2 30), [\<lparr>re_user = ''u'', re_kind = LOSING_STREAK_COOLDOWN, re_severity = WARN,
       re_message = LosingStreakCooldown 2 30\<rparr>])"
    by code_simp
  ultimately show ?thesis using losing_streak_cooldown_ends by blast
qed

text \<open>The open-exposure limit does not see the order being placed: the gate multiplies the number
  of open trades by the size of the new order, so with no open trade any order size within the
  single-order limit passes, however far above the exposure limit it is.\<close>

theorem exposure_limit_ignores_first_order:
  assumes "find_first (\<lambda>r. rr_user r = u \<and> rr_enabled r) id rules = Some rule"
    and "open_count u trades = 0" "\<not> over_limit (rr_maxOrderNotional rule) (Fin s)"
    and "rr_maxOpenNotional rule = Some (Fin m)" "0 \<le> m"
    and "rr_maxDailyLoss rule = None" "rr_maxLosingStreak rule = None"
  shows "gate_checkRisk mid rules trades now u (Fin s) = (None, [])"
  using assms by (simp add: gate_checkRisk_def in_cooldown_def count_number_def Let_def)

theorem exposure_limit_ignores_first_order_witness:
  "gate_checkRisk utc_midnight [demo_rule\<lparr>rr_maxOrderNotional := None, rr_maxDailyLoss := None, rr_maxLosingStreak := None\<rparr>]
     [] 0 ''u'' (Fin 1000000) = (None, [])"
  by (rule exposure_limit_ignores_first_order
        [where rule = "demo_rule\<lparr>rr_maxOrderNotional := None, rr_maxDailyLoss := None, rr_maxLosingStreak := None\<rparr>" and m = 250])
     (simp_all add: find_first_def find_many_def demo_rule_def open_count_def)

section \<open>Kelly sizing\<close>

lemma kelly_parts:
  assumes "0 \<le> p" "p \<le> 1" "is_double (Fin b)" "0 < b"
  obtains x y where "Fin p * Fin b = Fin x" "x \<le> b" "Fin 1 - Fin p = Fin y" "0 \<le> y"
proof -
  have "fl (p * b) \<le> fl b" using assms by (intro fl_mono) (simp add: mult_le_cancel_right1)
  then have "fl (p * b) \<le> Fin b" using assms by (simp only: fl_id)
  moreover have "fl (p * b) \<noteq> NInf" using assms by (intro fl_not_NInf) simp
  ultimately obtain x where x: "fl (p * b) = Fin x" "x \<le> b" by (cases "fl (p * b)") auto
  have q: "Fin 0 \<le> fl (1 - p)" "fl (1 - p) \<le> fl 1" using assms by (auto intro: fl_nonneg fl_mono)
  have "fl 1 = Fin 1" by code_simp
  with q obtain y where "fl (1 - p) = Fin y" "0 \<le> y" by (cases "fl (1 - p)") auto
  with x show thesis by (intro that) (simp_all add: minus_number_def)
qed

lemma kelly_inner_not_NaN:
  assumes "0 \<le> p" "p \<le> 1" "is_double (Fin b)" "0 < b"
  shows "Fin p * Fin b - (Fin 1 - Fin p) \<noteq> NaN" "(Fin p * Fin b - (Fin 1 - Fin p)) / Fin b \<noteq> NaN"
proof -
  obtain x y where "Fin p * Fin b = Fin x" "Fin 1 - Fin p = Fin y" using kelly_parts [OF assms] .
  then have e: "Fin p * Fin b - (Fin 1 - Fin p) = fl (x - y)" by (simp add: minus_number_def)
  then show "Fin p * Fin b - (Fin 1 - Fin p) \<noteq> NaN" by simp
  show "(Fin p * Fin b - (Fin 1 - Fin p)) / Fin b \<noteq> NaN"
    unfolding e using assms(4) fl_cases [of "x - y"] by (auto simp: inf_sign_def)
qed

lemma kelly_clamp:
  assumes "a \<noteq> NaN" obtains k where "math_max (Fin 0) (math_min a (Fin (1/4))) = Fin k" "0 \<le> k" "k \<le> 1/4"
proof (cases a)
  case (Fin x)
  then show ?thesis using that [of "max 0 (min x (1/4))"] by (auto simp: math_max_def math_min_def)
qed (use that [of "1/4"] that [of 0] assms in \<open>auto simp: math_max_def math_min_def\<close>)

lemma quarter_not_NaN: "a \<noteq> NaN \<Longrightarrow> FRACTIONAL_KELLY * a \<noteq> NaN"
  by (cases a) (auto simp: FRACTIONAL_KELLY_def inf_sign_def)

lemma kelly_of_ratio_range:
  assumes "0 \<le> p" "p \<le> 1" "is_double (Fin b)" "0 < b"
  obtains k where "kelly_of_ratio (Fin p) (Fin b) = Fin k" "0 \<le> k" "k \<le> 1/4"
  using kelly_clamp [OF quarter_not_NaN [OF kelly_inner_not_NaN(2) [OF assms]]] that
  unfolding kelly_of_ratio_def Let_def by blast

lemma kelly_of_ratio_mono:
  assumes "0 \<le> p" "p \<le> p'" "p' \<le> 1" "is_double (Fin b)" "0 < b"
  shows "kelly_of_ratio (Fin p) (Fin b) \<le> kelly_of_ratio (Fin p') (Fin b)"
proof -
  let ?f = "\<lambda>x. Fin x * Fin b - (Fin 1 - Fin x)"
  have nn: "?f p \<noteq> NaN" "?f p' \<noteq> NaN" using kelly_inner_not_NaN(1) assms by auto
  have m: "Fin p * Fin b \<le> Fin p' * Fin b" using assms by (intro number_mult_pos_mono) auto
  have q: "- (Fin 1 - Fin p) \<le> - (Fin 1 - Fin p')"
    using assms by (intro number_neg_mono) (auto simp: minus_number_def intro: fl_mono)
  obtain x y where "Fin p' * Fin b = Fin x" using kelly_parts [of p' b] assms by auto
  moreover obtain y where "Fin 1 - Fin p = Fin y" using kelly_parts [of p b] assms by auto
  ultimately have "Fin p' * Fin b + - (Fin 1 - Fin p) \<noteq> NaN" by simp
  then have "?f p \<le> ?f p'" using nn m q unfolding minus_number_def [of "_ * _"] by (intro number_add_mono)
  then have "?f p / Fin b \<le> ?f p' / Fin b" using assms by (intro number_div_pos_mono)
  then have "FRACTIONAL_KELLY * (?f p / Fin b) \<le> FRACTIONAL_KELLY * (?f p' / Fin b)"
    using number_mult_pos_mono [of _ _ "1/4"] by (simp add: FRACTIONAL_KELLY_def number_mult_commute [of "Fin (1/4)"])
  then show ?thesis unfolding kelly_of_ratio_def Let_def by (intro math_max_mono math_min_mono) simp_all
qed

lemma is_double_zero: "is_double (Fin 0)"
  using is_double_fl [of 0] by (simp only: fl_0)

lemma is_double_div [simp]: "is_double (a / b)"
  by (cases a; cases b) (auto simp: inf_sign_def is_double_zero simp del: is_double.simps(1))

lemma half_doubles: "is_double (Fin (3/2))" "is_double (Fin 1)"
proof -
  have "fl (3/2) = Fin (3/2)" "fl 1 = Fin 1" by code_simp+
  then show "is_double (Fin (3/2))" "is_double (Fin 1)" by (metis is_double_fl)+
qed

lemma is_double_ratio: "is_double (estimateWinLossRatio trades u symbol n)"
  by (simp add: estimateWinLossRatio_def Let_def half_doubles del: is_double.simps)

lemma order_size_of_fraction:
  assumes "kellyFraction trades p u symbol = Fin k" "0 \<le> k" "k \<le> 1/4" "0 \<le> e"
  shows "computeOrderSize trades p (Fin e) u symbol = (if Fin e * Fin k < Fin (1/2) then Fin 0 else Fin e * Fin k)"
    "Fin e * Fin k \<le> Fin e * Fin (1/4)"
proof -
  show "Fin e * Fin k \<le> Fin e * Fin (1/4)" using assms by (intro number_mult_nonneg_mono) auto
  have "Fin e * Fin k \<le> Fin e * Fin (1/2)" using assms by (intro number_mult_nonneg_mono) auto
  then have "math_min (Fin e * Fin k) (Fin e * Fin (1/2)) = Fin e * Fin k" by (auto simp: math_min_def)
  then show "computeOrderSize trades p (Fin e) u symbol = (if Fin e * Fin k < Fin (1/2) then Fin 0 else Fin e * Fin k)"
    using assms(1) by (simp add: computeOrderSize_def Let_def)
qed

text \<open>The Kelly order size, for a probability in [0, 1] and a win/loss ratio that is a positive
  number, is either zero or between half a dollar and a quarter of the equity; so the cap of half
  the equity in the code never decides.\<close>

theorem kelly_order_size_bounds:
  assumes "0 \<le> p" "p \<le> 1" "0 \<le> e"
    and "estimateWinLossRatio trades u symbol 100 = Fin b" "0 < b"
  shows "computeOrderSize trades (Fin p) (Fin e) u symbol = Fin 0 \<or>
     (Fin (1/2) \<le> computeOrderSize trades (Fin p) (Fin e) u symbol \<and>
      computeOrderSize trades (Fin p) (Fin e) u symbol \<le> Fin e * Fin (1/4))"
proof -
  have "is_double (Fin b)" using is_double_ratio [of trades u symbol 100] assms(4) by simp
  then obtain k where k: "kellyFraction trades (Fin p) u symbol = Fin k" "0 \<le> k" "k \<le> 1/4"
    using kelly_of_ratio_range [of p b] assms by (auto simp: kellyFraction_def)
  moreover have "Fin e * Fin k \<noteq> NaN" by simp
  ultimately show ?thesis using order_size_of_fraction [OF k assms(3)] number_not_less [of "Fin e * Fin k" "Fin (1/2)"]
    by (auto simp del: times_number.simps)
qed

theorem kelly_order_size_bounds_witness:
  "computeOrderSize [] (Fin (3/4)) (Fin 100) ''u'' None = Fin 0 \<or>
   (Fin (1/2) \<le> computeOrderSize [] (Fin (3/4)) (Fin 100) ''u'' None \<and>
    computeOrderSize [] (Fin (3/4)) (Fin 100) ''u'' None \<le> Fin 100 * Fin (1/4))"
proof (rule kelly_order_size_bounds)
  show "estimateWinLossRatio [] ''u'' None 100 = Fin (3/2)" by code_simp
qed simp_all

text \<open>A better probability never gives a smaller Kelly fraction, rounding included, and the
  fraction stays between zero and a quarter.\<close>

theorem kelly_fraction_monotone:
  assumes "0 \<le> p" "p \<le> p'" "p' \<le> 1" "estimateWinLossRatio trades u symbol 100 = Fin b" "0 < b"
  shows "Fin 0 \<le> kellyFraction trades (Fin p) u symbol \<and>
     kellyFraction trades (Fin p) u symbol \<le> kellyFraction trades (Fin p') u symbol \<and>
     kellyFraction trades (Fin p') u symbol \<le> Fin (1/4)"
proof -
  have d: "is_double (Fin b)" using is_double_ratio [of trades u symbol 100] assms(4) by simp
  obtain k where "kellyFraction trades (Fin p) u symbol = Fin k" "0 \<le> k"
    using kelly_of_ratio_range [of p b] assms d by (auto simp: kellyFraction_def)
  moreover obtain k' where "kellyFraction trades (Fin p') u symbol = Fin k'" "k' \<le> 1/4"
    using kelly_of_ratio_range [of p' b] assms d by (auto simp: kellyFraction_def)
  moreover have "kellyFraction trades (Fin p) u symbol \<le> kellyFraction trades (Fin p') u symbol"
    using kelly_of_ratio_mono [of p p' b] assms d by (simp add: kellyFraction_def)
  ultimately show ?thesis by simp
qed

theorem kelly_fraction_monotone_witness:
  "Fin 0 \<le> kellyFraction [] (Fin (1/2)) ''u'' None \<and>
   kellyFraction [] (Fin (1/2)) ''u'' None \<le> kellyFraction [] (Fin (3/4)) ''u'' None \<and>
   kellyFraction [] (Fin (3/4)) ''u'' None \<le> Fin (1/4)"
proof (rule kelly_fraction_monotone)
  show "estimateWinLossRatio [] ''u'' None 100 = Fin (3/2)" by code_simp
qed simp_all

section \<open>Readiness\<close>

lemma find_id_unique:
  assumes "distinct (map key rows)" "r \<in> set rows"
  shows "find (\<lambda>x. key x = key r) rows = Some r"
  using assms by (induction rows) auto

lemma distinct_connections:
  "distinct (map cn_id conns) \<Longrightarrow> distinct (map cn_id (binance_connections u conns))"
  by (auto simp: binance_connections_def distinct_map intro: inj_on_subset)

lemma find_key_iff:
  assumes "distinct (map key rows)"
  shows "find (\<lambda>x. key x = i) rows = Some r \<longleftrightarrow> r \<in> set rows \<and> key r = i"
  using find_id_unique [OF assms, of r] by (auto simp: find_Some_iff)

lemma selected_blockers_empty:
  assumes "distinct (map cn_id cs)"
  shows "selected_blockers (Some i) cs = [] \<longleftrightarrow> i = [] \<or> (\<exists>c \<in> set cs. cn_id c = i \<and> trade_only c)"
proof (cases "find (\<lambda>c. cn_id c = i) cs")
  case None
  moreover from None have "\<forall>c \<in> set cs. cn_id c \<noteq> i" by (auto simp: find_None_iff)
  ultimately show ?thesis by (auto simp: selected_blockers_def)
next
  case (Some c)
  have "c \<in> set cs \<and> cn_id c = i" using Some find_key_iff [OF assms, of i] by simp
  moreover have "c' = c" if "c' \<in> set cs" "cn_id c' = i" for c'
    using that Some find_id_unique [OF assms that(1)] by simp
  ultimately show ?thesis using Some by (auto simp: selected_blockers_def trade_only_def)
qed

text \<open>The report says ready exactly when live automation is on, the latest risk rule of the user
  is enabled, the user has an active Binance key that can trade and cannot withdraw, and the selected
  connection, if one is given, is such a key of that user; and every connection it lists as safe is
  one the user owns that cannot withdraw.\<close>

theorem readiness_iff:
  assumes "r = computeAutomationReadiness live reason rules conns u sel"
    and "distinct (map cn_id conns)"
  shows "(ready r \<longleftrightarrow> live \<and> (\<exists>rule. find_first (\<lambda>x. rr_user x = u) (order_desc rr_createdAt) rules = Some rule \<and> rr_enabled rule) \<and>
       (\<exists>c \<in> set conns. cn_user c = u \<and> cn_active c \<and> cn_exchange c = ''BINANCE'' \<and> cn_canTrade c \<and> \<not> cn_canWithdraw c) \<and>
       (\<forall>i. sel = Some i \<and> i \<noteq> [] \<longrightarrow> (\<exists>c \<in> set conns. cn_id c = i \<and> cn_user c = u \<and> cn_active c \<and>
          cn_exchange c = ''BINANCE'' \<and> cn_canTrade c \<and> \<not> cn_canWithdraw c))) \<and>
     (\<forall>x \<in> set (safeConnections r). \<exists>c \<in> set conns. fst x = cn_id c \<and> cn_user c = u \<and> \<not> cn_canWithdraw c)"
proof
  have sel: "selected_blockers sel (binance_connections u conns) = [] \<longleftrightarrow>
      (\<forall>i. sel = Some i \<and> i \<noteq> [] \<longrightarrow> (\<exists>c \<in> set (binance_connections u conns). cn_id c = i \<and> trade_only c))"
    using selected_blockers_empty [OF distinct_connections [OF assms(2), of u]]
    by (cases sel) (auto simp: selected_blockers_def [of None])
  show "ready r \<longleftrightarrow> live \<and> (\<exists>rule. find_first (\<lambda>x. rr_user x = u) (order_desc rr_createdAt) rules = Some rule \<and> rr_enabled rule) \<and>
       (\<exists>c \<in> set conns. cn_user c = u \<and> cn_active c \<and> cn_exchange c = ''BINANCE'' \<and> cn_canTrade c \<and> \<not> cn_canWithdraw c) \<and>
       (\<forall>i. sel = Some i \<and> i \<noteq> [] \<longrightarrow> (\<exists>c \<in> set conns. cn_id c = i \<and> cn_user c = u \<and> cn_active c \<and>
          cn_exchange c = ''BINANCE'' \<and> cn_canTrade c \<and> \<not> cn_canWithdraw c))"
    unfolding assms(1) computeAutomationReadiness_def Let_def using sel
    by (auto simp: filter_empty_conv binance_connections_def trade_only_def split: option.splits)
  show "\<forall>x \<in> set (safeConnections r). \<exists>c \<in> set conns. fst x = cn_id c \<and> cn_user c = u \<and> \<not> cn_canWithdraw c"
    unfolding assms(1) computeAutomationReadiness_def Let_def
    by (auto simp: binance_connections_def trade_only_def)
qed

definition demo_connection :: connection_row where
  "demo_connection = \<lparr>cn_id = ''c1'', cn_user = ''u'', cn_label = None, cn_exchange = ''BINANCE'', cn_active = True,
     cn_canTrade = True, cn_canWithdraw = False, cn_key = ''k'', cn_secret = ''s'', cn_updatedAt = 0\<rparr>"

theorem readiness_iff_witness:
  "ready (computeAutomationReadiness True None [demo_rule] [demo_connection] ''u'' (Some ''c1''))"
proof -
  have "distinct (map cn_id [demo_connection])" by simp
  note iff = readiness_iff [OF refl this, of True None "[demo_rule]" "''u''" "Some ''c1''"]
  have "find_first (\<lambda>x. rr_user x = ''u'') (order_desc rr_createdAt) [demo_rule] = Some demo_rule" "rr_enabled demo_rule"
    by (simp_all add: find_first_def find_many_def order_desc_def demo_rule_def)
  then show ?thesis using conjunct1 [OF iff] by (simp add: demo_connection_def)
qed

end
