(* ===== verification/LotSizing.thy ===== *)
theory LotSizing
  imports JsPrelude
begin

text \<open>
  Exchange lot rules and order sizing, \<open>packages/binance-executor/src\<close>: \<open>types.ts\<close> and
  \<open>symbolInfo.ts\<close> (filters to rules), \<open>sizing.ts\<close> (quantity to an admissible decimal
  text), \<open>validation.ts\<close> and \<open>safety.ts\<close> (checks before an order is sent). A thrown
  \<open>Error\<close> is an \<open>exec_error\<close> with the values its message interpolates.
\<close>

section \<open>Rules of a symbol\<close>

text \<open>A filter of the exchange: its type and its other fields, as text (\<open>types.ts\<close>).\<close>

record BinanceFilter =
  filterType :: string
  extra :: "(string \<times> string) list"

record BinanceSymbolInfo =
  info_symbol :: string
  info_status :: string
  info_baseAsset :: string
  info_quoteAsset :: string
  info_filters :: "BinanceFilter list"

record lot_rule =
  minQty :: string
  maxQty :: string
  stepSize :: string

record ParsedSymbolRules =
  rules_symbol :: string
  baseAsset :: string
  quoteAsset :: string
  lot :: lot_rule
  minNotional :: number

datatype exec_error =
    MissingLotFilters
  | InvalidStepSize
  | ExceedsMaxQty number string
  | BelowMinQty number string
  | UsdNotPositive
  | RefPriceNotPositive
  | CannotSatisfyMinNotional number string number number
  | InvalidQuantityFormat string
  | QuantityNotPositive
  | InvalidStepSizeFromInfo
  | QuantityBelowMin string string
  | QuantityAboveMax string string
  | NotMultipleOfStep string string
  | WrongDecimals string nat string string
  | NotionalBelowMin number number string number
  | SymbolNotTrading string
  | MissingApiKeys
  | TransportError string

text \<open>\<open>String(src[k])\<close>: a missing property reads as the text \<open>undefined\<close>.\<close>

definition field_text :: "BinanceFilter \<Rightarrow> string \<Rightarrow> string" where
  "field_text f k = (case map_of (extra f) k of None \<Rightarrow> ''undefined'' | Some v \<Rightarrow> v)"

definition has_field :: "BinanceFilter \<Rightarrow> string \<Rightarrow> bool" where
  "has_field f k \<longleftrightarrow> map_of (extra f) k \<noteq> None"

definition pickLotSize :: "BinanceFilter list \<Rightarrow> exec_error + lot_rule" where
  "pickLotSize filters =
     (let market = find (\<lambda>f. filterType f = ''MARKET_LOT_SIZE'') filters;
          lotf = find (\<lambda>f. filterType f = ''LOT_SIZE'') filters;
          src = (case market of Some f \<Rightarrow> Some f | None \<Rightarrow> lotf) in
      case src of None \<Rightarrow> Inl MissingLotFilters
      | Some f \<Rightarrow> if \<not> has_field f ''minQty'' then Inl MissingLotFilters
          else Inr \<lparr>minQty = field_text f ''minQty'', maxQty = field_text f ''maxQty'',
                    stepSize = field_text f ''stepSize''\<rparr>)"

fun pickMinNotional :: "BinanceFilter list \<Rightarrow> number" where
  "pickMinNotional [] = Fin 0"
| "pickMinNotional (f # fs) =
     (if filterType f = ''NOTIONAL'' \<and> has_field f ''minNotional''
      then parse_float (field_text f ''minNotional'')
      else if filterType f = ''MIN_NOTIONAL'' \<and> has_field f ''minNotional''
      then parse_float (field_text f ''minNotional'')
      else pickMinNotional fs)"

definition parseSymbolRules :: "BinanceSymbolInfo \<Rightarrow> exec_error + ParsedSymbolRules" where
  "parseSymbolRules raw =
     (case pickLotSize (info_filters raw) of Inl e \<Rightarrow> Inl e
      | Inr l \<Rightarrow> Inr \<lparr>rules_symbol = info_symbol raw, baseAsset = info_baseAsset raw,
          quoteAsset = info_quoteAsset raw, lot = l, minNotional = pickMinNotional (info_filters raw)\<rparr>)"

section \<open>Sizing\<close>

definition strip_trailing_zeros :: "string \<Rightarrow> string" where
  "strip_trailing_zeros s = rev (dropWhile (\<lambda>c. c = CHR ''0'') (rev s))"

definition countDecimals :: "string \<Rightarrow> nat" where
  "countDecimals step =
     (if \<not> str_includes step ''.'' then 0
      else (case split_on (CHR ''.'') (strip_trailing_zeros step) of
              _ # fr # _ \<Rightarrow> length fr | _ \<Rightarrow> 0))"

definition eps12 :: number where "eps12 = lit (1 / 10 ^ 12)"
definition eps10 :: number where "eps10 = lit (1 / 10 ^ 10)"
definition eps8 :: number where "eps8 = lit (1 / 10 ^ 8)"

text \<open>The quantity the lot rule admits, before it is written as text.\<close>

definition lot_quantity :: "number \<Rightarrow> lot_rule \<Rightarrow> exec_error + number" where
  "lot_quantity quantity l =
     (let step = parse_float (stepSize l); minQ = parse_float (minQty l); maxQ = parse_float (maxQty l) in
      if \<not> is_finite step \<or> step \<le> Fin 0 then Inl InvalidStepSize
      else
        (let q0 = math_floor (quantity / step + eps12) * step;
             q = (if q0 < minQ - eps12 then math_ceil (minQ / step - eps12) * step else q0) in
         if maxQ + eps12 < q then Inl (ExceedsMaxQty q (maxQty l))
         else if q < minQ - eps12 then Inl (BelowMinQty q (minQty l))
         else Inr q))"

definition adjustQuantityToLotSize :: "number \<Rightarrow> ParsedSymbolRules \<Rightarrow> exec_error + string" where
  "adjustQuantityToLotSize quantity rules =
     (case lot_quantity quantity (lot rules) of Inl e \<Rightarrow> Inl e
      | Inr q \<Rightarrow> Inr (to_fixed q (countDecimals (stepSize (lot rules)))))"

definition notionalForQuantity :: "string \<Rightarrow> number \<Rightarrow> number" where
  "notionalForQuantity quantityStr price = parse_float quantityStr * price"

text \<open>The loop that raises the quantity one step at a time until the minimum notional is met. It
  may fail to advance when the step is below the precision of the quantity, so it is partial:
  \<open>None\<close> is a loop that does not return.\<close>

partial_function (option) raise_to_notional ::
  "number \<Rightarrow> number \<Rightarrow> ParsedSymbolRules \<Rightarrow> number \<Rightarrow> string \<Rightarrow> number \<Rightarrow> (exec_error + string) option" where
  "raise_to_notional usd refPrice rules q qStr n =
     (if n < minNotional rules - eps8 then
        (let q' = q + parse_float (stepSize (lot rules)) in
         if parse_float (maxQty (lot rules)) + eps12 < q'
         then Some (Inl (CannotSatisfyMinNotional (minNotional rules) (maxQty (lot rules)) refPrice usd))
         else
           (let qStr' = to_fixed q' (countDecimals (stepSize (lot rules))) in
            raise_to_notional usd refPrice rules q' qStr' (notionalForQuantity qStr' refPrice)))
      else Some (Inr qStr))"

definition usdNotionalToBaseQuantity ::
  "number \<Rightarrow> number \<Rightarrow> ParsedSymbolRules \<Rightarrow> (exec_error + string) option" where
  "usdNotionalToBaseQuantity usd refPrice rules =
     (if usd \<le> Fin 0 \<or> \<not> is_finite usd then Some (Inl UsdNotPositive)
      else if refPrice \<le> Fin 0 \<or> \<not> is_finite refPrice then Some (Inl RefPriceNotPositive)
      else case adjustQuantityToLotSize (usd / refPrice) rules of
        Inl e \<Rightarrow> Some (Inl e)
      | Inr qStr \<Rightarrow>
          if minNotional rules \<le> Fin 0 then Some (Inr qStr)
          else (let n = notionalForQuantity qStr refPrice in
            if minNotional rules - eps8 \<le> n then Some (Inr qStr)
            else raise_to_notional usd refPrice rules (parse_float qStr) qStr n))"

section \<open>Validation\<close>

text \<open>The test \<^verbatim>\<open>/^\d+(\.\d+)?$/\<close>.\<close>

definition plain_decimal :: "string \<Rightarrow> bool" where
  "plain_decimal s =
     (let (ip, r) = span_digits s in
      ip \<noteq> [] \<and> (case r of [] \<Rightarrow> True
        | c # xs \<Rightarrow> c = CHR ''.'' \<and> xs \<noteq> [] \<and> list_all is_digit xs))"

definition assertValidQuantityForSymbol :: "string \<Rightarrow> ParsedSymbolRules \<Rightarrow> exec_error + number" where
  "assertValidQuantityForSymbol quantityStr rules =
     (let s = trim quantityStr in
      if \<not> plain_decimal s then Inl (InvalidQuantityFormat quantityStr)
      else let q = parse_float s in
      if \<not> is_finite q \<or> q \<le> Fin 0 then Inl QuantityNotPositive
      else let mn = parse_float (minQty (lot rules)); mx = parse_float (maxQty (lot rules));
               step = parse_float (stepSize (lot rules)) in
      if \<not> is_finite step \<or> step \<le> Fin 0 then Inl InvalidStepSizeFromInfo
      else if q < mn - eps10 then Inl (QuantityBelowMin s (minQty (lot rules)))
      else if mx + eps10 < q then Inl (QuantityAboveMax s (maxQty (lot rules)))
      else let reconstructed = math_round (q / step) * step in
      if step * lit (1 / 10 ^ 6) < math_abs (q - reconstructed)
      then Inl (NotMultipleOfStep s (stepSize (lot rules)))
      else let decimals = countDecimals (stepSize (lot rules)); normalized = to_fixed q decimals in
      if normalized \<noteq> s then Inl (WrongDecimals s decimals (stepSize (lot rules)) normalized)
      else Inr q)"

definition assertMinNotionalMet :: "string \<Rightarrow> number \<Rightarrow> ParsedSymbolRules \<Rightarrow> exec_error + unit" where
  "assertMinNotionalMet quantityStr refPrice rules =
     (if refPrice \<le> Fin 0 \<or> \<not> is_finite refPrice then Inl RefPriceNotPositive
      else let n = parse_float quantityStr * refPrice in
      if Fin 0 < minNotional rules \<and> n < minNotional rules - eps8
      then Inl (NotionalBelowMin n (minNotional rules) quantityStr refPrice)
      else Inr ())"

section \<open>Safety\<close>

datatype safety_reason =
    NOTIONAL_BELOW_MIN number number
  | FEE_TOO_HIGH number number
  | INSUFFICIENT_BALANCE number number

record safety_ok =
  notionalUsd :: number
  feeUsd :: number
  requiredQuote :: number

definition evaluateMarketBuySafety ::
  "number \<Rightarrow> ParsedSymbolRules \<Rightarrow> string \<Rightarrow> number \<Rightarrow> number \<Rightarrow> safety_reason + safety_ok" where
  "evaluateMarketBuySafety estimatedTakerFeeBps rules quantityStr refPrice usdtFree =
     (let notional = notionalForQuantity quantityStr refPrice in
      if Fin 0 < minNotional rules \<and> notional < minNotional rules - eps8
      then Inl (NOTIONAL_BELOW_MIN notional (minNotional rules))
      else let feeRate = estimatedTakerFeeBps / lit 10000;
               fee = notional * feeRate;
               maxFeeAllowed = lit (2 / 100) * notional in
      if maxFeeAllowed + eps10 < fee then Inl (FEE_TOO_HIGH fee maxFeeAllowed)
      else let required = notional + fee in
      if usdtFree < required - eps8 then Inl (INSUFFICIENT_BALANCE required usdtFree)
      else Inr \<lparr>notionalUsd = notional, feeUsd = fee, requiredQuote = required\<rparr>)"


section \<open>What the sizing guarantees\<close>

lemma lot_quantity_multiple:
  assumes "lot_quantity quantity l = Inr q"
  shows "\<exists>k. q = math_floor k * parse_float (stepSize l) \<or> q = math_ceil k * parse_float (stepSize l)"
  using assms by (auto simp: lot_quantity_def Let_def split: if_splits)

lemma lot_quantity_range:
  assumes "lot_quantity quantity l = Inr q"
  shows "\<not> parse_float (maxQty l) + eps12 < q" "\<not> q < parse_float (minQty l) - eps12"
  using assms by (auto simp: lot_quantity_def Let_def split: if_splits)

lemma eps12_eq: "eps12 = Fin (rnd (1 / 10 ^ 12))" "0 < rnd (1 / 10 ^ 12)" "rnd (1 / 10 ^ 12) < 1"
  unfolding eps12_def lit_def by code_simp+

lemma not_less_NInf: "\<not> a < NInf" "\<not> PInf < a"
  by (cases a; auto)+

lemma parse_float_NaN_text: "parse_float ''NaN'' = NaN"
  by code_simp

lemma number_times_nonneg: "Fin 0 \<le> a \<Longrightarrow> 0 < b \<Longrightarrow> Fin 0 \<le> a * Fin b"
  by (cases a) (auto simp: inf_sign_def intro!: fl_nonneg)

lemma math_floor_nonneg: "Fin 0 \<le> a \<Longrightarrow> Fin 0 \<le> math_floor a"
  by (cases a) auto

lemma fl_add_eps_nonneg: assumes "0 \<le> x" shows "Fin 0 \<le> fl x + eps12"
  using fl_cases [of x] fl_not_NInf [OF assms] rnd_nonneg [OF assms] eps12_eq(2)
  unfolding eps12_eq(1) by (auto intro!: fl_nonneg)

lemma ceil_sub_eps_nonneg: assumes "0 \<le> x" shows "Fin 0 \<le> math_ceil (fl x - eps12)"
proof -
  let ?e = "rnd (1 / 10 ^ 12)"
  have "- ?e \<le> rnd (rnd x - ?e)"
    using rnd_nonneg [OF assms] by (intro rnd_ge_representable representable_minus) auto
  moreover have "-1 < - ?e" using eps12_eq(3) by (simp only: neg_less_iff_less)
  ultimately have "-1 < rnd (rnd x - ?e)" by (rule less_le_trans [rotated])
  then have "0 \<le> (of_int \<lceil>rnd (rnd x - ?e)\<rceil> :: rat)" by (simp only: of_int_0_le_iff zero_le_ceiling)
  moreover have "fl (rnd x - ?e) \<noteq> NInf"
  proof -
    have "fl (- ?e) \<le> fl (rnd x - ?e)" using rnd_nonneg [OF assms] by (intro fl_mono) simp
    moreover have "fl (- ?e) \<noteq> NInf" by code_simp
    ultimately show ?thesis by (cases "fl (- ?e)") auto
  qed
  ultimately show ?thesis
    using fl_cases [of x] fl_not_NInf [OF assms] fl_cases [of "rnd x - ?e"]
    unfolding eps12_eq(1) minus_number_def by auto
qed


lemma lot_quantity_nonneg:
  assumes q: "lot_quantity (fl x) l = Inr q" and x: "0 \<le> x" "fl x \<noteq> PInf"
    and st: "parse_float (stepSize l) = Fin s"
  shows "q = NaN \<or> Fin 0 \<le> q"
proof -
  have s: "0 < s" using q by (auto simp: lot_quantity_def st Let_def split: if_splits)
  have fx: "fl x = Fin (rnd x)" using fl_cases [of x] fl_not_NInf [OF x(1)] x(2) by auto
  let ?q0 = "math_floor (fl x / Fin s + eps12) * Fin s"
  have q0: "Fin 0 \<le> ?q0"
    using s fl_add_eps_nonneg [of "rnd x / s"] rnd_nonneg [OF x(1)]
    by (intro number_times_nonneg math_floor_nonneg) (simp_all add: fx)
  show ?thesis
  proof (cases "?q0 < parse_float (minQty l) - eps12")
    case False
    with q st q0 show ?thesis by (auto simp: lot_quantity_def Let_def split: if_splits)
  next
    case True
    let ?m = "parse_float (minQty l)"
    have qe: "q = math_ceil (?m / Fin s - eps12) * Fin s"
      using q st True by (auto simp: lot_quantity_def Let_def split: if_splits)
    show ?thesis
    proof (cases ?m)
      case (Fin m)
      have "0 \<le> m"
      proof (rule ccontr)
        assume "\<not> 0 \<le> m"
        then have "m - rnd (1 / 10 ^ 12) \<le> 0" using eps12_eq(2) by linarith
        then have "fl (m - rnd (1 / 10 ^ 12)) \<le> Fin 0" using fl_mono [of _ 0] by simp
        moreover have "?m - eps12 = fl (m - rnd (1 / 10 ^ 12))"
          unfolding eps12_eq(1) Fin minus_number_def by simp
        ultimately show False using True q0 number_le_less_trans [of "Fin 0" ?q0 "?m - eps12"]
          number_less_le_trans [of "Fin 0" "?m - eps12" "Fin 0"] by (metis number_less_irrefl)
      qed
      then have "Fin 0 \<le> math_ceil (?m / Fin s - eps12)"
        using s ceil_sub_eps_nonneg [of "m / s"] by (simp add: Fin)
      with s show ?thesis unfolding qe by (intro disjI2 number_times_nonneg) auto
    next
      case PInf
      with s show ?thesis unfolding qe eps12_eq(1) by (simp add: minus_number_def inf_sign_def)
    next
      case NInf
      then have "?m - eps12 = NInf" unfolding eps12_eq(1) by (simp add: minus_number_def)
      with True show ?thesis by (simp add: not_less_NInf)
    next
      case NaN
      then show ?thesis unfolding qe eps12_eq(1) by (simp add: minus_number_def inf_sign_def)
    qed
  qed
qed

text \<open>The loop returns: within \<open>2^51\<close> steps every iteration advances by at least half a step.\<close>

lemma raise_to_notional_returns:
  assumes st: "parse_float (stepSize (lot rules)) = Fin s" "0 < s"
    and mx: "parse_float (maxQty (lot rules)) + eps12 = Fin M" "M \<le> 2 ^ 51 * s"
  shows "is_double (Fin a) \<Longrightarrow> 0 \<le> a \<Longrightarrow> 2 * (M - a) < of_nat k * s \<or> M < a \<Longrightarrow>
     \<exists>r. raise_to_notional usd refPrice rules (Fin a) qStr n = Some r"
proof (induction k arbitrary: a qStr n)
  have s_rep: "representable s" using st is_double_parse_float [of "stepSize (lot rules)"]
    by (metis is_double_rep)
  have stop: "\<exists>r. raise_to_notional usd refPrice rules (Fin a) qStr n = Some r"
    if "is_double (Fin a)" "0 \<le> a" "M < a" for a qStr n
  proof -
    have "a \<le> rnd (a + s)" using that st(2) by (intro rnd_ge_representable is_double_rep) auto
    then have "Fin M < fl (a + s)" using that fl_cases [of "a + s"] fl_not_NInf [of "a + s"] st(2) by auto
    then show ?thesis by (subst raise_to_notional.simps) (simp add: st mx Let_def)
  qed
  { case 0
    then show ?case using stop [OF 0(1) 0(2)] by auto
  next
    case (Suc k)
    show ?case
    proof (cases "M < a")
      case True
      with Suc.prems stop show ?thesis by blast
    next
      case False
      let ?a = "rnd (a + s)"
      have adv: "a + s / 2 \<le> ?a" using Suc.prems False mx(2) s_rep st(2)
        by (intro rnd_add_progress) auto
      have "2 * (M - ?a) < of_nat k * s \<or> M < ?a"
        using adv Suc.prems(3) False by (simp add: algebra_simps)
      then have "\<exists>r. raise_to_notional usd refPrice rules (Fin ?a) x y = Some r"
        if "\<bar>?a\<bar> < max_finite" for x y
        using Suc.IH [of ?a] adv Suc.prems(2) st(2) that by simp
      moreover have "fl (a + s) = Fin ?a \<Longrightarrow> \<bar>?a\<bar> < max_finite"
        using is_double_fl [of "a + s"] by simp
      ultimately show ?thesis
        using fl_cases [of "a + s"] fl_not_NInf [of "a + s"] Suc.prems(2) st(2)
        by (subst raise_to_notional.simps) (auto simp: st mx Let_def)
    qed }
qed

lemma raise_to_notional_PInf:
  assumes "parse_float (stepSize (lot rules)) = Fin s" "parse_float (maxQty (lot rules)) + eps12 = Fin M"
  shows "\<exists>r. raise_to_notional usd refPrice rules PInf qStr n = Some r"
  using assms by (subst raise_to_notional.simps) (simp add: Let_def)


lemma adjusted_text_nonneg:
  assumes q: "q = Fin a" "0 \<le> a" "a < 10 ^ 21"
  shows "parse_float (to_fixed q d) = PInf \<or> (\<exists>b. parse_float (to_fixed q d) = Fin b \<and> 0 \<le> b)"
proof -
  let ?v = "of_int (fixed_scaled a d) / 10 ^ d :: rat"
  have pf: "parse_float (to_fixed q d) = fl ?v" using q by (simp only: parse_float_to_fixed)
  have nn: "0 \<le> ?v" using q(2) by (simp add: fixed_scaled_def add_nonneg_nonneg)
  show ?thesis unfolding pf using fl_cases [of ?v] fl_not_NInf [OF nn] rnd_nonneg [OF nn] by auto
qed

lemma raise_from_adjusted_returns:
  assumes st: "parse_float (stepSize (lot rules)) = Fin s" "0 < s"
    and mx: "parse_float (maxQty (lot rules)) + eps12 = Fin M" "M \<le> 2 ^ 51 * s" "M < 10 ^ 21"
    and q: "q = NaN \<or> Fin 0 \<le> q" "\<not> Fin M < q" and p: "refPrice = Fin p"
    and qs: "qStr = to_fixed q d" "n = notionalForQuantity qStr refPrice"
  shows "\<exists>r. raise_to_notional usd refPrice rules (parse_float qStr) qStr n = Some r"
proof (cases "q = NaN")
  case True
  then have "n = NaN" by (simp add: qs notionalForQuantity_def parse_float_NaN_text inf_sign_def p)
  then show ?thesis by (subst raise_to_notional.simps) simp
next
  case False
  with q obtain a where a: "q = Fin a" "0 \<le> a" "a \<le> M" by (cases q) auto
  have "a < 10 ^ 21" using a mx(3) by simp
  from adjusted_text_nonneg [OF a(1,2) this, of d, folded qs(1)] show ?thesis
  proof
    assume "parse_float qStr = PInf"
    then show ?thesis using raise_to_notional_PInf [OF st(1) mx(1)] by simp
  next
    assume "\<exists>b. parse_float qStr = Fin b \<and> 0 \<le> b"
    then obtain b where b: "parse_float qStr = Fin b" "0 \<le> b" by blast
    obtain k where "2 * (M - b) / s < of_nat k" using reals_Archimedean2 by blast
    then have "2 * (M - b) < of_nat k * s" using st(2) by (simp add: divide_less_eq)
    moreover have "is_double (Fin b)" using is_double_parse_float [of qStr] b by simp
    ultimately have "\<exists>r. raise_to_notional usd refPrice rules (Fin b) qStr n = Some r"
      using raise_to_notional_returns [OF st mx(1,2), of b k] b(2) by blast
    with b(1) show ?thesis by simp
  qed
qed

lemma sizing_returns:
  assumes st: "parse_float (stepSize (lot rules)) = Fin s" "0 < s"
    and mx: "parse_float (maxQty (lot rules)) + eps12 = Fin M" "M \<le> 2 ^ 51 * s" "M < 10 ^ 21"
    and up: "usd = Fin u" "0 < u" "refPrice = Fin p" "0 < p"
  shows "\<exists>r. usdNotionalToBaseQuantity usd refPrice rules = Some r"
proof -
  have ur: "usd / refPrice = fl (u / p)" "0 \<le> u / p" using up by simp_all
  have nn: "q = NaN \<or> Fin 0 \<le> q" if q: "lot_quantity (usd / refPrice) (lot rules) = Inr q" for q
  proof (cases "fl (u / p) = PInf")
    case True
    then show ?thesis using q st mx(1)
      by (auto simp: lot_quantity_def ur(1) Let_def eps12_eq(1) inf_sign_def not_less_NInf split: if_splits)
  next
    case False
    then show ?thesis using q st(1) ur lot_quantity_nonneg by metis
  qed
  have "\<not> Fin M < q" if "lot_quantity (usd / refPrice) (lot rules) = Inr q" for q
    using lot_quantity_range(1) [OF that] mx(1) by simp
  with nn raise_from_adjusted_returns [OF st mx] up show ?thesis
    by (auto simp: usdNotionalToBaseQuantity_def adjustQuantityToLotSize_def Let_def split: sum.splits)
qed

text \<open>C8: Sizing an order by its dollar amount returns, with a quantity text or an error, for every amount, every price and
  every minimum notional, when the exchange's maximum quantity (read with the code's tolerance) is a finite number below
  \<open>10^21\<close> and, should the step be a finite positive number, at most \<open>2^51\<close> steps: then each round of the loop that
  raises the quantity to the minimum notional advances. A step that is not a finite positive number is refused at once.\<close>

theorem usd_sizing_returns:
  assumes "parse_float (maxQty (lot rules)) + eps12 = Fin M" "M < 10 ^ 21"
    and "\<And>s. parse_float (stepSize (lot rules)) = Fin s \<Longrightarrow> 0 < s \<Longrightarrow> M \<le> 2 ^ 51 * s"
  shows "\<exists>r. usdNotionalToBaseQuantity usd refPrice rules = Some r"
proof (cases "usd \<le> Fin 0 \<or> \<not> is_finite usd \<or> refPrice \<le> Fin 0 \<or> \<not> is_finite refPrice")
  case True
  then show ?thesis by (auto simp: usdNotionalToBaseQuantity_def)
next
  case False
  then obtain u p where up: "usd = Fin u" "0 < u" "refPrice = Fin p" "0 < p"
    by (cases usd; cases refPrice) auto
  show ?thesis
  proof (cases "\<exists>s. parse_float (stepSize (lot rules)) = Fin s \<and> 0 < s")
    case True
    then show ?thesis using sizing_returns [OF _ _ assms(1) assms(3) assms(2) up] by blast
  next
    case False
    then have "lot_quantity (usd / refPrice) (lot rules) = Inl InvalidStepSize"
      by (cases "parse_float (stepSize (lot rules))") (auto simp: lot_quantity_def Let_def)
    then show ?thesis by (simp add: usdNotionalToBaseQuantity_def adjustQuantityToLotSize_def)
  qed
qed

definition demo_rules :: ParsedSymbolRules where
  "demo_rules = \<lparr>rules_symbol = ''BTCUSDT'', baseAsset = ''BTC'', quoteAsset = ''USDT'',
     lot = \<lparr>minQty = ''0.00001'', maxQty = ''9000.0'', stepSize = ''0.00001''\<rparr>, minNotional = Fin 5\<rparr>"


theorem usd_sizing_returns_witness: "\<exists>r. usdNotionalToBaseQuantity (Fin 2) (Fin 60000) demo_rules = Some r"
proof (rule usd_sizing_returns)
  have step: "parse_float (stepSize (lot demo_rules)) = Fin (rnd (1 / 100000))" by code_simp
  have max: "rnd (9000 + rnd (1 / 10 ^ 12)) \<le> 2 ^ 51 * rnd (1 / 100000)" by code_simp
  show "parse_float (maxQty (lot demo_rules)) + eps12 = Fin (rnd (9000 + rnd (1 / 10 ^ 12)))" by code_simp
  show "rnd (9000 + rnd (1 / 10 ^ 12)) < 10 ^ 21" by code_simp
  show "rnd (9000 + rnd (1 / 10 ^ 12)) \<le> 2 ^ 51 * s" if "parse_float (stepSize (lot demo_rules)) = Fin s" for s
    using step max that by simp
qed

lemma math_int_times:
  assumes "math_floor A * Fin s = Fin b \<or> math_ceil A * Fin s = Fin b" "0 < s"
  shows "\<exists>k. Fin b = Fin (of_int k) * Fin s"
  using assms by (cases A) (auto simp: inf_sign_def intro: sym)

lemma lot_quantity_not_NaN:
  assumes "lot_quantity (Fin a) l = Inr q" "parse_float (stepSize l) = Fin s"
    "parse_float (minQty l) - eps12 = Fin m"
  shows "q \<noteq> NaN"
proof -
  have s: "0 < s" using assms by (auto simp: lot_quantity_def Let_def split: if_splits)
  have m: "parse_float (minQty l) \<noteq> NaN" using assms(3) by (auto simp: minus_number_def)
  have A: "Fin x / Fin s + eps12 \<noteq> NaN" "Fin x / Fin s - eps12 \<noteq> NaN" for x
    using s fl_cases [of "x / s"] by (auto simp: eps12_eq(1) minus_number_def)
  have B: "parse_float (minQty l) / Fin s - eps12 \<noteq> NaN"
    using m s A by (cases "parse_float (minQty l)") (auto simp: eps12_eq(1) minus_number_def inf_sign_def)
  have C: "math_floor X * Fin s \<noteq> NaN" "math_ceil X * Fin s \<noteq> NaN" if "X \<noteq> NaN" for X
    using that s by (cases X; simp add: inf_sign_def)+
  show ?thesis using assms(1,2) C(1) [OF A(1)] C(2) [OF B]
    by (auto simp: lot_quantity_def Let_def split: if_splits)
qed

text \<open>C9: a quantity the lot adjustment returns is a whole number of steps (one rounded
  multiplication), inside the exchange's range up to the tolerance, written with exactly the
  step's number of decimals.\<close>

theorem adjusted_quantity_admissible:
  assumes adj: "adjustQuantityToLotSize (Fin a) rules = Inr txt"
    and st: "parse_float (stepSize (lot rules)) = Fin s"
    and mn: "parse_float (minQty (lot rules)) - eps12 = Fin m"
    and mx: "parse_float (maxQty (lot rules)) + eps12 = Fin M"
  shows "\<exists>k q. q = Fin (of_int k) * Fin s \<and> Fin m \<le> q \<and> q \<le> Fin M \<and>
     txt = to_fixed q (countDecimals (stepSize (lot rules)))"
proof -
  from adj obtain q where q: "lot_quantity (Fin a) (lot rules) = Inr q"
    and t: "txt = to_fixed q (countDecimals (stepSize (lot rules)))"
    by (auto simp: adjustQuantityToLotSize_def split: sum.splits)
  have s: "0 < s" using q st by (auto simp: lot_quantity_def Let_def split: if_splits)
  have le: "Fin m \<le> q" "q \<le> Fin M"
    using lot_quantity_range [OF q] lot_quantity_not_NaN [OF q st mn] by (simp_all add: mn mx number_not_less)
  then obtain b where "q = Fin b" by (cases q) auto
  with lot_quantity_multiple [OF q] st s math_int_times obtain k where "q = Fin (of_int k) * Fin s" by metis
  with le t show ?thesis by blast
qed

definition unit_rules :: ParsedSymbolRules where
  "unit_rules = demo_rules\<lparr>lot := \<lparr>minQty = ''1'', maxQty = ''100'', stepSize = ''0.5''\<rparr>\<rparr>"

theorem adjusted_quantity_admissible_witness:
  "\<exists>k q. q = Fin (of_int k) * Fin (1/2) \<and> Fin (rnd (1 - rnd (1 / 10 ^ 12))) \<le> q \<and> q \<le> Fin (rnd (100 + rnd (1 / 10 ^ 12))) \<and>
     ''7.5'' = to_fixed q (countDecimals (stepSize (lot unit_rules)))"
proof (rule adjusted_quantity_admissible)
  show "adjustQuantityToLotSize (Fin (78/10)) unit_rules = Inr ''7.5''" by code_simp
  show "parse_float (stepSize (lot unit_rules)) = Fin (1/2)" by code_simp
  show "parse_float (minQty (lot unit_rules)) - eps12 = Fin (rnd (1 - rnd (1 / 10 ^ 12)))" by code_simp
  show "parse_float (maxQty (lot unit_rules)) + eps12 = Fin (rnd (100 + rnd (1 / 10 ^ 12)))" by code_simp
qed

text \<open>The adjustment does not only floor. When the floored quantity is below the exchange's
  minimum, the returned quantity is a different one, strictly above the floored quantity and not
  below the minimum: an order of less than the minimum is enlarged, not refused.\<close>

theorem adjustment_enlarges_below_minimum:
  assumes adj: "adjustQuantityToLotSize (Fin a) rules = Inr txt"
    and st: "parse_float (stepSize (lot rules)) = Fin s"
    and mn: "parse_float (minQty (lot rules)) - eps12 = Fin m"
    and low: "math_floor (Fin a / Fin s + eps12) * Fin s < Fin m"
  shows "\<exists>q. txt = to_fixed q (countDecimals (stepSize (lot rules))) \<and> Fin m \<le> q \<and>
     math_floor (Fin a / Fin s + eps12) * Fin s < q"
proof -
  from adj obtain q where q: "lot_quantity (Fin a) (lot rules) = Inr q"
    and t: "txt = to_fixed q (countDecimals (stepSize (lot rules)))"
    by (auto simp: adjustQuantityToLotSize_def split: sum.splits)
  have "Fin m \<le> q"
    using lot_quantity_range(2) [OF q] lot_quantity_not_NaN [OF q st mn] by (simp add: mn number_not_less)
  with low t show ?thesis by (blast intro: number_less_le_trans)
qed

theorem adjustment_enlarges_below_minimum_witness:
  "\<exists>q. ''1.0'' = to_fixed q (countDecimals (stepSize (lot unit_rules))) \<and>
     Fin (rnd (1 - rnd (1 / 10 ^ 12))) \<le> q \<and> math_floor (Fin (1/2) / Fin (1/2) + eps12) * Fin (1/2) < q"
proof (rule adjustment_enlarges_below_minimum)
  show "adjustQuantityToLotSize (Fin (1/2)) unit_rules = Inr ''1.0''" by code_simp
  show "parse_float (stepSize (lot unit_rules)) = Fin (1/2)" by code_simp
  show "parse_float (minQty (lot unit_rules)) - eps12 = Fin (rnd (1 - rnd (1 / 10 ^ 12)))" by code_simp
  show "math_floor (Fin (1/2) / Fin (1/2) + eps12) * Fin (1/2) < Fin (rnd (1 - rnd (1 / 10 ^ 12)))" by code_simp
qed


lemma fl_le_mult: "0 \<le> n \<Longrightarrow> x \<le> y \<Longrightarrow> fl (n * x) \<le> fl (y * n)"
  by (intro fl_mono) (simp add: mult.commute mult_left_mono)

lemma number_le_add_eps: assumes "is_double a" "a \<noteq> NaN" shows "a \<le> a + eps10"
proof -
  have e: "eps10 = Fin (rnd (1 / 10 ^ 10))" "0 \<le> rnd (1 / 10 ^ 10)"
    unfolding eps10_def lit_def by code_simp+
  show ?thesis
  proof (cases a)
    case (Fin x)
    have "fl x \<le> fl (x + rnd (1 / 10 ^ 10))" using e(2) by (intro fl_mono) simp
    with assms Fin show ?thesis unfolding e(1) by (simp only: fl_id plus_number.simps)
  next
    case PInf
    then show ?thesis unfolding e(1) by simp
  next
    case NInf
    then show ?thesis unfolding e(1) by simp
  next
    case NaN
    with assms show ?thesis by simp
  qed
qed

text \<open>The fee gate of the pre-trade check rejects no order when the configured taker fee is at
  most 200 basis points, whatever the quantity, the price and the balance: rounding cannot make the
  estimated fee exceed the two per cent cap.\<close>

theorem fee_gate_passes_up_to_200_bps:
  assumes "notionalForQuantity qty price = Fin n" "0 \<le> n" "0 \<le> b" "b \<le> 200"
  shows "evaluateMarketBuySafety (Fin b) rules qty price free \<noteq> Inl (FEE_TOO_HIGH f m)"
proof -
  have l: "lit 10000 = Fin 10000" "lit (2 / 100) = Fin (rnd (2 / 100))" unfolding lit_def by code_simp+
  have r: "rnd (b / 10000) \<le> rnd (2 / 100)" using assms by (intro rnd_mono) simp
  have "fl (b / 10000) = Fin (rnd (b / 10000))"
  proof -
    have "fl (b / 10000) \<le> fl (2 / 100)" "fl (2 / 100) \<noteq> PInf" using assms(4) by (intro fl_mono) (simp, code_simp)
    moreover have "fl (b / 10000) \<noteq> NInf" using assms by (intro fl_not_NInf) simp
    ultimately show ?thesis using fl_cases [of "b / 10000"] by (cases "fl (2 / 100)") auto
  qed
  then have "Fin b / lit 10000 = Fin (rnd (b / 10000))" by (simp add: l(1))
  then have "Fin n * (Fin b / lit 10000) \<le> lit (2 / 100) * Fin n"
    using fl_le_mult [OF assms(2) r] by (simp only: l(2) times_number.simps)
  also have "lit (2 / 100) * Fin n \<le> lit (2 / 100) * Fin n + eps10"
    by (rule number_le_add_eps) (simp_all only: l times_number.simps is_double_fl fl_not_NaN not_False_eq_True)
  finally have "\<not> lit (2 / 100) * Fin n + eps10 < Fin n * (Fin b / lit 10000)"
    using number_less_le_trans number_less_irrefl by blast
  with assms(1) show ?thesis by (auto simp: evaluateMarketBuySafety_def Let_def)
qed

theorem fee_gate_passes_up_to_200_bps_witness:
  "evaluateMarketBuySafety (Fin 200) demo_rules ''0.5'' (Fin 100) (Fin 60) \<noteq> Inl (FEE_TOO_HIGH (Fin 1) (Fin 1))"
proof (rule fee_gate_passes_up_to_200_bps)
  show "notionalForQuantity ''0.5'' (Fin 100) = Fin 50" by code_simp
qed simp_all

text \<open>A quantity text the validation accepts is canonical: it reads as the returned quantity,
  which is positive and finite, and formatting that quantity with the step's decimals gives back
  exactly the trimmed text.\<close>

theorem validated_quantity_round_trip:
  assumes "assertValidQuantityForSymbol txt rules = Inr q"
  shows "parse_float (trim txt) = q \<and> to_fixed q (countDecimals (stepSize (lot rules))) = trim txt \<and>
     Fin 0 < q \<and> is_finite q"
proof -
  have "q = parse_float (trim txt)" "is_finite q" "\<not> q \<le> Fin 0"
    "to_fixed q (countDecimals (stepSize (lot rules))) = trim txt"
    using assms by (auto simp: assertValidQuantityForSymbol_def Let_def split: if_splits)
  moreover have "Fin 0 < q" if "is_finite q" "\<not> q \<le> Fin 0" using that by (cases q) auto
  ultimately show ?thesis by simp
qed

theorem validated_quantity_round_trip_witness:
  "parse_float (trim '' 7.5 '') = Fin (15/2) \<and>
   to_fixed (Fin (15/2)) (countDecimals (stepSize (lot unit_rules))) = trim '' 7.5 '' \<and>
   Fin 0 < Fin (15/2) \<and> is_finite (Fin (15/2))"
proof (rule validated_quantity_round_trip)
  have "trim '' 7.5 '' = ''7.5''" "plain_decimal ''7.5''" "parse_float ''7.5'' = Fin (15/2)"
    "minQty (lot unit_rules) = ''1''" "maxQty (lot unit_rules) = ''100''" "stepSize (lot unit_rules) = ''0.5''"
    "parse_float ''0.5'' = Fin (1/2)" "countDecimals ''0.5'' = 1" "to_fixed (Fin (15/2)) 1 = ''7.5''"
    by code_simp+
  moreover have "\<not> Fin (15/2) < parse_float ''1'' - eps10" "\<not> parse_float ''100'' + eps10 < Fin (15/2)"
    by code_simp+
  moreover have "\<not> Fin (1/2) * lit (1 / 10 ^ 6)
      < math_abs (Fin (15/2) - math_round (Fin (15/2) / Fin (1/2)) * Fin (1/2))"
    by code_simp
  ultimately show "assertValidQuantityForSymbol '' 7.5 '' unit_rules = Inr (Fin (15/2))"
    unfolding assertValidQuantityForSymbol_def Let_def by simp
qed

end
