(* ===== verification/BinanceExecutor.thy ===== *)
theory BinanceExecutor
  imports LotSizing
begin

text \<open>
  The executor package, \<open>packages/binance-executor/src\<close>: configuration from the environment
  (\<open>config.ts\<close>), the retry loop (\<open>retry.ts\<close>) and the requests made through it
  (\<open>httpClient.ts\<close>), the executor's operations (\<open>binanceExecutor.ts\<close>) and the demo trade
  (\<open>demoRun.ts\<close>). The exchange is a parameter: what each attempt of a request answers. Signing
  and timeouts are part of that parameter.
\<close>

section \<open>Configuration\<close>

record ExecutorConfig =
  apiKey :: string
  apiSecret :: string
  demoMode :: bool
  baseUrl :: string
  requestTimeoutMs :: number
  maxRetries :: number
  estimatedTakerFeeBps :: number

definition parseBool :: "string option \<Rightarrow> bool \<Rightarrow> bool" where
  "parseBool v defaultTrue =
     (case v of None \<Rightarrow> defaultTrue
      | Some t \<Rightarrow> if t = [] then defaultTrue
          else let s = to_lower (trim t) in
          if List.member [''1'', ''true'', ''yes'', ''on''] s then True
          else if List.member [''0'', ''false'', ''no'', ''off''] s then False
          else defaultTrue)"

text \<open>\<open>a || b\<close> on numbers.\<close>

definition number_or :: "number \<Rightarrow> number \<Rightarrow> number" where
  "number_or a b = (if truthy a then a else b)"

definition strip_trailing_slash :: "string \<Rightarrow> string" where
  "strip_trailing_slash s = (case rev s of c # r \<Rightarrow> if c = CHR ''/'' then rev r else s | [] \<Rightarrow> s)"

definition loadExecutorConfig :: "(string \<Rightarrow> string option) \<Rightarrow> exec_error + ExecutorConfig" where
  "loadExecutorConfig env =
     (let key = nullish (map_option trim (env ''BINANCE_API_KEY'')) [];
          sec = nullish (map_option trim (env ''BINANCE_API_SECRET'')) [] in
      if key = [] \<or> sec = [] then Inl MissingApiKeys
      else
        (let fee = (case env ''BINANCE_ESTIMATED_TAKER_BPS'' of
               None \<Rightarrow> lit 10
             | Some raw \<Rightarrow> if raw = [] then lit 10
                 else math_min (lit 1000) (math_max (lit 1) (number_or (parse_int raw) (lit 10)))) in
         Inr \<lparr>apiKey = key, apiSecret = sec,
              demoMode = parseBool (env ''DEMO_MODE'') True,
              baseUrl = strip_trailing_slash (nullish (env ''BINANCE_BASE_URL'') ''https://api.binance.com''),
              requestTimeoutMs = math_min (lit 120000) (math_max (lit 3000)
                (number_or (parse_int (nullish (env ''BINANCE_HTTP_TIMEOUT_MS'') ''15000'')) (lit 15000))),
              maxRetries = math_min (lit 10) (math_max (lit 1)
                (number_or (parse_int (nullish (env ''BINANCE_HTTP_MAX_RETRIES'') ''3'')) (lit 3))),
              estimatedTakerFeeBps = fee\<rparr>))"

section \<open>Retry\<close>

text \<open>What an attempt throws: the package's HTTP error, another \<open>Error\<close>, or a value that is none.\<close>

datatype exn = BinanceHttpError string int string | PlainError string | NonError string

definition isRetryableError :: "exn \<Rightarrow> bool" where
  "isRetryableError e =
     (case e of
        BinanceHttpError _ status _ \<Rightarrow>
          if status = 429 \<or> status = 418 then True else if 500 \<le> status then True else False
      | PlainError message \<Rightarrow>
          (let m = to_lower message in
           if str_includes m ''fetch failed'' \<or> str_includes m ''network'' \<or> str_includes m ''econnreset'' then True
           else if str_includes m ''aborted'' \<or> str_includes m ''timeout'' then True
           else False)
      | NonError _ \<Rightarrow> False)"

definition wrap_text :: "string \<Rightarrow> int \<Rightarrow> string \<Rightarrow> string" where
  "wrap_text label attempt msg = ''['' @ label @ ''] attempt '' @ int_text attempt @ '': '' @ msg"

definition wrapError :: "string \<Rightarrow> exn \<Rightarrow> int \<Rightarrow> exn" where
  "wrapError label e attempt =
     (case e of
        BinanceHttpError m st body \<Rightarrow> BinanceHttpError (wrap_text label attempt m) st body
      | PlainError m \<Rightarrow> PlainError (wrap_text label attempt m)
      | NonError t \<Rightarrow> PlainError (wrap_text label attempt t))"

text \<open>The loop from an attempt on: the outcome, and the delays slept in order. The outcome of
  attempt \<open>i\<close> is \<open>fn i\<close>.\<close>

function retry_from :: "string \<Rightarrow> (int \<Rightarrow> exn + 'a) \<Rightarrow> int \<Rightarrow> int \<Rightarrow> exn \<Rightarrow> int \<Rightarrow> (exn + 'a) \<times> int list" where
  "retry_from label fn maxAttempts baseDelayMs lastErr attempt =
     (if attempt \<le> maxAttempts then
        (case fn attempt of
           Inr v \<Rightarrow> (Inr v, [])
         | Inl e \<Rightarrow>
             if \<not> isRetryableError e \<or> attempt = maxAttempts then (Inl (wrapError label e attempt), [])
             else
               (case retry_from label fn maxAttempts baseDelayMs e (attempt + 1) of
                  (r, ds) \<Rightarrow> (r, baseDelayMs * 2 ^ nat (attempt - 1) # ds)))
      else (Inl (wrapError label lastErr maxAttempts), []))"
  by pat_completeness auto
termination
  by (relation "measure (\<lambda>(l, f, m, b, e, i). nat (m + 1 - i))") auto

declare retry_from.simps [simp del]

definition withRetry :: "string \<Rightarrow> (int \<Rightarrow> exn + 'a) \<Rightarrow> int \<Rightarrow> int \<Rightarrow> (exn + 'a) \<times> int list" where
  "withRetry label fn maxAttempts baseDelayMs = retry_from label fn maxAttempts baseDelayMs (NonError ''undefined'') 1"

text \<open>The attempt that settles the loop: it succeeded, or failed for good, or was the last one.\<close>

definition settles :: "(int \<Rightarrow> exn + 'a) \<Rightarrow> int \<Rightarrow> int \<Rightarrow> bool" where
  "settles fn maxAttempts k \<longleftrightarrow>
     (case fn k of Inr v \<Rightarrow> True | Inl e \<Rightarrow> \<not> isRetryableError e \<or> k = maxAttempts)"

lemma retry_from_settled:
  "settles fn m i \<Longrightarrow> i \<le> m \<Longrightarrow>
   retry_from label fn m b e i = (case fn i of Inr v \<Rightarrow> Inr v | Inl e \<Rightarrow> Inl (wrapError label e i), [])"
  by (auto simp: retry_from.simps [of label fn m b e i] settles_def split: sum.splits)

lemma retry_from_unsettled:
  assumes "\<not> settles fn m i" "i \<le> m"
  obtains e' where "fn i = Inl e'" "isRetryableError e'" "i \<noteq> m"
    "retry_from label fn m b e i = map_prod id ((#) (b * 2 ^ nat (i - 1))) (retry_from label fn m b e' (i + 1))"
proof -
  from assms(1) obtain e' where e': "fn i = Inl e'" "isRetryableError e'" "i \<noteq> m"
    by (auto simp: settles_def split: sum.splits)
  moreover have "retry_from label fn m b e i =
      map_prod id ((#) (b * 2 ^ nat (i - 1))) (retry_from label fn m b e' (i + 1))"
    using e' assms(2) by (simp add: retry_from.simps [of label fn m b e i] split: prod.splits)
  ultimately show thesis by (rule that)
qed

text \<open>From attempt \<open>i\<close> the loop ends at the first settling attempt \<open>k\<close>, having slept once
  between each two attempts, doubling.\<close>

lemma retry_from_spec:
  "1 \<le> i \<Longrightarrow> i \<le> m \<Longrightarrow>
   \<exists>k. i \<le> k \<and> k \<le> m \<and> settles fn m k \<and> (\<forall>j. i \<le> j \<and> j < k \<longrightarrow> \<not> settles fn m j) \<and>
     retry_from label fn m b e i =
       (case fn k of Inr v \<Rightarrow> Inr v | Inl e \<Rightarrow> Inl (wrapError label e k),
        map (\<lambda>a. b * 2 ^ a) [nat (i - 1)..<nat (k - 1)])"
proof (induction label fn m b e i rule: retry_from.induct)
  case (1 label fn m b e i)
  show ?case
  proof (cases "settles fn m i")
    case True
    then show ?thesis using "1.prems" by (intro exI [of _ i]) (auto simp: retry_from_settled)
  next
    case False
    then obtain e' where e': "fn i = Inl e'" "isRetryableError e'" "i \<noteq> m"
      and r: "retry_from label fn m b e i =
        map_prod id ((#) (b * 2 ^ nat (i - 1))) (retry_from label fn m b e' (i + 1))"
      using "1.prems"(2) by (rule retry_from_unsettled)
    then obtain k where k: "i + 1 \<le> k" "k \<le> m" "settles fn m k"
        "\<forall>j. i + 1 \<le> j \<and> j < k \<longrightarrow> \<not> settles fn m j"
        "retry_from label fn m b e' (i + 1) =
          (case fn k of Inr v \<Rightarrow> Inr v | Inl e \<Rightarrow> Inl (wrapError label e k),
           map (\<lambda>a. b * 2 ^ a) [nat i..<nat (k - 1)])"
      using "1.IH" [OF "1.prems"(2) e'(1)] "1.prems" by (auto simp del: upt.simps)
    have "nat (i - 1) # [nat i..<nat (k - 1)] = [nat (i - 1)..<nat (k - 1)]"
      using k(1) "1.prems"(1) upt_conv_Cons [of "nat (i - 1)" "nat (k - 1)"] by (simp add: Suc_nat_eq_nat_zadd1)
    then have "map (\<lambda>a. b * 2 ^ a) [nat (i - 1)..<nat (k - 1)] =
        b * 2 ^ nat (i - 1) # map (\<lambda>a. b * 2 ^ a) [nat i..<nat (k - 1)]"
      by (metis list.simps(9))
    moreover have "\<not> settles fn m j" if "i \<le> j" "j < k" for j
      using that k(4) False by (cases "j = i") auto
    ultimately show ?thesis using k r by (intro exI [of _ k]) simp
  qed
qed

text \<open>The retry loop, for a positive attempt limit, returns the outcome of the first attempt that
  settles it: a success, an error that is not retryable, or the last allowed attempt, whose error
  is wrapped with the label and the attempt number. Before attempt k it slept exactly k - 1 times,
  base, 2 base, 4 base and so on, and it never makes more than the allowed attempts.\<close>

theorem retry_returns_first_settling_attempt:
  assumes "1 \<le> maxAttempts"
  shows "\<exists>k. 1 \<le> k \<and> k \<le> maxAttempts \<and> settles fn maxAttempts k \<and>
     (\<forall>j. 1 \<le> j \<and> j < k \<longrightarrow> \<not> settles fn maxAttempts j) \<and>
     withRetry label fn maxAttempts base =
       (case fn k of Inr v \<Rightarrow> Inr v | Inl e \<Rightarrow> Inl (wrapError label e k),
        map (\<lambda>a. base * 2 ^ a) [0..<nat (k - 1)])"
  using retry_from_spec [of 1 maxAttempts fn label base "NonError ''undefined''"] assms
  by (simp add: withRetry_def)

definition flaky :: "int \<Rightarrow> exn + int" where
  "flaky i = (if i = 3 then Inr 7 else Inl (BinanceHttpError ''busy'' 429 []))"

theorem retry_returns_first_settling_attempt_witness:
  "(\<exists>k. 1 \<le> k \<and> k \<le> 5 \<and> settles flaky 5 k \<and> (\<forall>j. 1 \<le> j \<and> j < k \<longrightarrow> \<not> settles flaky 5 j) \<and>
     withRetry ''GET /x'' flaky 5 400 =
       (case flaky k of Inr v \<Rightarrow> Inr v | Inl e \<Rightarrow> Inl (wrapError ''GET /x'' e k),
        map (\<lambda>a. 400 * 2 ^ a) [0..<nat (k - 1)])) \<and>
   withRetry ''GET /x'' flaky 5 400 = (Inr 7, [400, 800])"
proof
  show "withRetry ''GET /x'' flaky 5 400 = (Inr 7, [400, 800])" by code_simp
qed (rule retry_returns_first_settling_attempt, simp)

section \<open>Requests and the executor\<close>

fun exn_message :: "exn \<Rightarrow> string" where
  "exn_message (BinanceHttpError m _ _) = m"
| "exn_message (PlainError m) = m"
| "exn_message (NonError t) = t"

fun int_of_number :: "number \<Rightarrow> int" where
  "int_of_number (Fin a) = \<lfloor>a\<rfloor>"
| "int_of_number _ = 0"

definition request :: "ExecutorConfig \<Rightarrow> string \<Rightarrow> string \<Rightarrow> (int \<Rightarrow> exn + 'a) \<Rightarrow> exec_error + 'a" where
  "request cfg meth path fn =
     (case fst (withRetry (meth @ '' '' @ path) fn (int_of_number (maxRetries cfg)) 400) of
        Inl e \<Rightarrow> Inl (TransportError (exn_message e)) | Inr v \<Rightarrow> Inr v)"

definition publicGet :: "ExecutorConfig \<Rightarrow> string \<Rightarrow> (int \<Rightarrow> exn + 'a) \<Rightarrow> exec_error + 'a" where
  "publicGet cfg path fn = request cfg ''GET'' path fn"

definition signedRequest :: "ExecutorConfig \<Rightarrow> string \<Rightarrow> string \<Rightarrow> (int \<Rightarrow> exn + 'a) \<Rightarrow> exec_error + 'a" where
  "signedRequest cfg path meth fn = request cfg meth path fn"

record order_params =
  p_symbol :: string
  p_side :: string
  p_quantity :: string
  p_clientId :: string

record MarketOrderResult =
  res_orderId :: string
  res_status :: "string option"

text \<open>The exchange: the answer of each attempt of each request.\<close>

record exchange =
  ex_info :: "string \<Rightarrow> int \<Rightarrow> exn + BinanceSymbolInfo list"
  ex_price :: "string \<Rightarrow> int \<Rightarrow> exn + string"
  ex_account :: "int \<Rightarrow> exn + (string \<times> string) list"
  ex_order :: "order_params \<Rightarrow> int \<Rightarrow> exn + MarketOrderResult"

definition getAccountBalance :: "ExecutorConfig \<Rightarrow> exchange \<Rightarrow> exec_error + (string \<rightharpoonup> number)" where
  "getAccountBalance cfg ex =
     (case signedRequest cfg ''/api/v3/account'' ''GET'' (ex_account ex) of
        Inl e \<Rightarrow> Inl e
      | Inr bs \<Rightarrow> Inr (foldl (\<lambda>out (asset, free). out(asset \<mapsto> parse_float free)) Map.empty bs))"

definition getSymbolInfo :: "ExecutorConfig \<Rightarrow> exchange \<Rightarrow> string \<Rightarrow> exec_error + ParsedSymbolRules" where
  "getSymbolInfo cfg ex symbol =
     (let sym = to_upper symbol in
      case publicGet cfg ''/api/v3/exchangeInfo'' (ex_info ex sym) of
        Inl e \<Rightarrow> Inl e
      | Inr rows \<Rightarrow>
          (case find (\<lambda>r. info_symbol r = sym) rows of
             None \<Rightarrow> Inl (SymbolNotTrading sym)
           | Some row \<Rightarrow> if info_status row \<noteq> ''TRADING'' then Inl (SymbolNotTrading sym)
               else parseSymbolRules row))"

definition getLastPrice :: "ExecutorConfig \<Rightarrow> exchange \<Rightarrow> string \<Rightarrow> exec_error + number" where
  "getLastPrice cfg ex symbol =
     (case publicGet cfg ''/api/v3/ticker/price'' (ex_price ex (to_upper symbol)) of
        Inl e \<Rightarrow> Inl e | Inr t \<Rightarrow> Inr (parse_float t))"

text \<open>The order request, with the list of orders posted.\<close>

definition placeMarketOrder ::
  "ExecutorConfig \<Rightarrow> exchange \<Rightarrow> string \<Rightarrow> string \<Rightarrow> string \<Rightarrow> string \<Rightarrow>
   (exec_error + MarketOrderResult) \<times> order_params list" where
  "placeMarketOrder cfg ex clientId symbol side quantity =
     (let sym = to_upper symbol in
      case getSymbolInfo cfg ex sym of Inl e \<Rightarrow> (Inl e, [])
      | Inr rules \<Rightarrow>
      case getLastPrice cfg ex sym of Inl e \<Rightarrow> (Inl e, [])
      | Inr refPrice \<Rightarrow>
      case assertValidQuantityForSymbol quantity rules of Inl e \<Rightarrow> (Inl e, [])
      | Inr _ \<Rightarrow>
      case assertMinNotionalMet quantity refPrice rules of Inl e \<Rightarrow> (Inl e, [])
      | Inr _ \<Rightarrow>
        (let params = \<lparr>p_symbol = sym, p_side = side, p_quantity = quantity, p_clientId = take 32 clientId\<rparr> in
         (signedRequest cfg ''/api/v3/order'' ''POST'' (ex_order ex params), [params])))"

section \<open>The demo trade\<close>

datatype demo_reason =
  CONFIG exec_error | MARKET_DATA exec_error | SIZING exec_error | SAFETY safety_reason | EXECUTION exec_error

datatype trade_log =
    TradeAttempt number bool
  | TradeRejected "string option" "number option" demo_reason
  | TradeValidated string number safety_ok
  | TradeExecuted string number string string

record demo_outcome =
  logs :: "trade_log list"
  posted :: "order_params list"

definition DEMO_SYMBOL :: string where "DEMO_SYMBOL = ''BTCUSDT''"
definition DEMO_USD :: number where "DEMO_USD = Fin 2"

definition demo_sizing :: "number \<Rightarrow> ParsedSymbolRules \<Rightarrow> (exec_error + string) option" where
  "demo_sizing price rules =
     (case usdNotionalToBaseQuantity DEMO_USD price rules of
        None \<Rightarrow> None
      | Some (Inl e) \<Rightarrow> Some (Inl e)
      | Some (Inr q) \<Rightarrow>
          (case assertValidQuantityForSymbol q rules of Inl e \<Rightarrow> Some (Inl e)
           | Inr _ \<Rightarrow> (case assertMinNotionalMet q price rules of Inl e \<Rightarrow> Some (Inl e) | Inr _ \<Rightarrow> Some (Inr q))))"

text \<open>The part after the sizing: safety check, then simulation or a live order.\<close>

definition demo_submit ::
  "ExecutorConfig \<Rightarrow> exchange \<Rightarrow> string \<Rightarrow> ParsedSymbolRules \<Rightarrow> number \<Rightarrow> (string \<rightharpoonup> number) \<Rightarrow> string \<Rightarrow> demo_outcome" where
  "demo_submit cfg ex stamp rules price balances q =
     (case evaluateMarketBuySafety (estimatedTakerFeeBps cfg) rules q price (nullish (balances ''USDT'') (Fin 0)) of
        Inl r \<Rightarrow> \<lparr>logs = [TradeRejected (Some q) (Some price) (SAFETY r)], posted = []\<rparr>
      | Inr ok \<Rightarrow>
          if demoMode cfg then
            \<lparr>logs = [TradeValidated q price ok, TradeExecuted q price (''DEMO-'' @ stamp) ''SIMULATED''], posted = []\<rparr>
          else
            (case placeMarketOrder cfg ex (''cex'' @ stamp) DEMO_SYMBOL ''BUY'' q of
               (Inr r, ps) \<Rightarrow> \<lparr>logs = [TradeValidated q price ok,
                  TradeExecuted q price (res_orderId r) (nullish (res_status r) ''UNKNOWN'')], posted = ps\<rparr>
             | (Inl e, ps) \<Rightarrow> \<lparr>logs = [TradeValidated q price ok,
                  TradeRejected (Some q) (Some price) (EXECUTION e)], posted = ps\<rparr>))"

text \<open>The executor asks the exchange again when it submits: \<open>ex2\<close> answers then. The three market
  data requests run concurrently in the source; which of several failures is reported is the only
  thing their order decides.\<close>

definition runDemoTrade :: "(string \<Rightarrow> string option) \<Rightarrow> exchange \<Rightarrow> exchange \<Rightarrow> string \<Rightarrow> demo_outcome option" where
  "runDemoTrade env ex ex2 stamp =
     (case loadExecutorConfig env of
        Inl e \<Rightarrow> Some \<lparr>logs = [TradeRejected None None (CONFIG e)], posted = []\<rparr>
      | Inr cfg \<Rightarrow>
        (let start = TradeAttempt DEMO_USD (demoMode cfg);
             fail = (\<lambda>q p r. Some \<lparr>logs = [start, TradeRejected q p r], posted = []\<rparr>) in
         case getSymbolInfo cfg ex DEMO_SYMBOL of Inl e \<Rightarrow> fail None None (MARKET_DATA e)
         | Inr rules \<Rightarrow>
         case getLastPrice cfg ex DEMO_SYMBOL of Inl e \<Rightarrow> fail None None (MARKET_DATA e)
         | Inr price \<Rightarrow>
         case getAccountBalance cfg ex of Inl e \<Rightarrow> fail None None (MARKET_DATA e)
         | Inr balances \<Rightarrow>
         case demo_sizing price rules of
           None \<Rightarrow> None
         | Some (Inl e) \<Rightarrow> fail None (Some price) (SIZING e)
         | Some (Inr q) \<Rightarrow>
             (let o1 = demo_submit cfg ex2 stamp rules price balances q in Some (o1\<lparr>logs := start # logs o1\<rparr>))))"

lemma placeMarketOrder_posts:
  assumes "placeMarketOrder cfg ex cid symb side q = (r, ps)" "ps \<noteq> []"
  shows "\<exists>rules p v. getSymbolInfo cfg ex (to_upper symb) = Inr rules \<and> getLastPrice cfg ex (to_upper symb) = Inr p \<and>
     assertValidQuantityForSymbol q rules = Inr v \<and> assertMinNotionalMet q p rules = Inr () \<and>
     ps = [\<lparr>p_symbol = to_upper symb, p_side = side, p_quantity = q, p_clientId = take 32 cid\<rparr>]"
  using assms by (auto simp: placeMarketOrder_def Let_def split: sum.splits)

lemma demo_submit_demo: "demoMode cfg \<Longrightarrow> posted (demo_submit cfg ex st rules p bal q) = []"
  by (simp add: demo_submit_def split: sum.splits)

lemma demo_submit_posts:
  assumes "posted (demo_submit cfg ex st rules p bal q) \<noteq> []"
  obtains ok rules' p' v where "\<not> demoMode cfg"
     "evaluateMarketBuySafety (estimatedTakerFeeBps cfg) rules q p (nullish (bal ''USDT'') (Fin 0)) = Inr ok"
     "getSymbolInfo cfg ex DEMO_SYMBOL = Inr rules'" "getLastPrice cfg ex DEMO_SYMBOL = Inr p'"
     "assertValidQuantityForSymbol q rules' = Inr v" "assertMinNotionalMet q p' rules' = Inr ()"
     "posted (demo_submit cfg ex st rules p bal q) =
        [\<lparr>p_symbol = DEMO_SYMBOL, p_side = ''BUY'', p_quantity = q, p_clientId = take 32 (''cex'' @ st)\<rparr>]"
proof -
  from assms obtain ok where ok:
      "evaluateMarketBuySafety (estimatedTakerFeeBps cfg) rules q p (nullish (bal ''USDT'') (Fin 0)) = Inr ok"
    by (auto simp: demo_submit_def split: sum.splits)
  from assms have d: "\<not> demoMode cfg" using demo_submit_demo by blast
  obtain r ps where r: "placeMarketOrder cfg ex (''cex'' @ st) DEMO_SYMBOL ''BUY'' q = (r, ps)"
    by (cases "placeMarketOrder cfg ex (''cex'' @ st) DEMO_SYMBOL ''BUY'' q")
  have ps: "posted (demo_submit cfg ex st rules p bal q) = ps"
    using ok d r by (auto simp: demo_submit_def split: sum.splits)
  have up: "to_upper DEMO_SYMBOL = DEMO_SYMBOL" by code_simp
  from placeMarketOrder_posts [OF r] assms ps show thesis
    by (auto simp: up intro!: that [OF d ok])
qed

lemma safety_covers_cost:
  "evaluateMarketBuySafety bps rules q p free = Inr ok \<Longrightarrow> \<not> free < requiredQuote ok - eps8"
  by (auto simp: evaluateMarketBuySafety_def Let_def split: if_splits)

lemma runDemoTrade_posts:
  assumes "runDemoTrade env ex ex2 st = Some out" "posted out \<noteq> []"
  obtains cfg rules p bal q where "loadExecutorConfig env = Inr cfg"
    "getSymbolInfo cfg ex DEMO_SYMBOL = Inr rules" "getLastPrice cfg ex DEMO_SYMBOL = Inr p"
    "getAccountBalance cfg ex = Inr bal" "demo_sizing p rules = Some (Inr q)"
    "posted out = posted (demo_submit cfg ex2 st rules p bal q)"
  using assms by (auto simp: runDemoTrade_def Let_def split: sum.splits option.splits)

text \<open>The demo trade sends at most one order, and only in live mode after every check: it sends an
  order only if the configuration loads with demo mode off, sizing two dollars at the last price
  gave the quantity sent, the balance covers the notional and the fee (to the check's tolerance),
  and the quantity is valid under the rules and the price read again at submission.\<close>

theorem demo_trade_sends_only_checked_orders:
  assumes "runDemoTrade env ex ex2 stamp = Some out" "posted out \<noteq> []"
  shows "\<exists>cfg rules p bal q rules' p' v ok.
     loadExecutorConfig env = Inr cfg \<and> \<not> demoMode cfg \<and> demo_sizing p rules = Some (Inr q) \<and>
     getLastPrice cfg ex DEMO_SYMBOL = Inr p \<and> getAccountBalance cfg ex = Inr bal \<and>
     evaluateMarketBuySafety (estimatedTakerFeeBps cfg) rules q p (nullish (bal ''USDT'') (Fin 0)) = Inr ok \<and>
     \<not> nullish (bal ''USDT'') (Fin 0) < requiredQuote ok - eps8 \<and>
     getSymbolInfo cfg ex2 DEMO_SYMBOL = Inr rules' \<and> getLastPrice cfg ex2 DEMO_SYMBOL = Inr p' \<and>
     assertValidQuantityForSymbol q rules' = Inr v \<and> assertMinNotionalMet q p' rules' = Inr () \<and>
     posted out = [\<lparr>p_symbol = DEMO_SYMBOL, p_side = ''BUY'', p_quantity = q,
                    p_clientId = take 32 (''cex'' @ stamp)\<rparr>]"
proof -
  from assms obtain cfg rules p bal q where c: "loadExecutorConfig env = Inr cfg"
    "getSymbolInfo cfg ex DEMO_SYMBOL = Inr rules" "getLastPrice cfg ex DEMO_SYMBOL = Inr p"
    "getAccountBalance cfg ex = Inr bal" "demo_sizing p rules = Some (Inr q)"
    "posted out = posted (demo_submit cfg ex2 stamp rules p bal q)"
    by (rule runDemoTrade_posts)
  then have "posted (demo_submit cfg ex2 stamp rules p bal q) \<noteq> []" using assms(2) by simp
  then obtain ok rules' p' v where "\<not> demoMode cfg"
     "evaluateMarketBuySafety (estimatedTakerFeeBps cfg) rules q p (nullish (bal ''USDT'') (Fin 0)) = Inr ok"
     "getSymbolInfo cfg ex2 DEMO_SYMBOL = Inr rules'" "getLastPrice cfg ex2 DEMO_SYMBOL = Inr p'"
     "assertValidQuantityForSymbol q rules' = Inr v" "assertMinNotionalMet q p' rules' = Inr ()"
     "posted out = [\<lparr>p_symbol = DEMO_SYMBOL, p_side = ''BUY'', p_quantity = q,
                    p_clientId = take 32 (''cex'' @ stamp)\<rparr>]"
    unfolding c(6) by (rule demo_submit_posts)
  then show ?thesis using c(1,3,4,5) safety_covers_cost
    by (intro exI [of _ cfg] exI [of _ rules] exI [of _ p] exI [of _ bal] exI [of _ q] exI [of _ rules']
        exI [of _ p'] exI [of _ v] exI [of _ ok]) (intro conjI; assumption | blast)
qed

definition demo_info :: BinanceSymbolInfo where
  "demo_info = \<lparr>info_symbol = ''BTCUSDT'', info_status = ''TRADING'', info_baseAsset = ''BTC'',
     info_quoteAsset = ''USDT'', info_filters = [\<lparr>filterType = ''LOT_SIZE'',
       extra = [(''minQty'', ''0.5''), (''maxQty'', ''100''), (''stepSize'', ''0.5'')]\<rparr>]\<rparr>"

definition demo_exchange :: exchange where
  "demo_exchange = \<lparr>ex_info = (\<lambda>_ i. if i = 1 then Inl (BinanceHttpError ''busy'' 503 []) else Inr [demo_info]),
     ex_price = (\<lambda>_ _. Inr ''2''), ex_account = (\<lambda>_. Inr [(''USDT'', ''50'')]),
     ex_order = (\<lambda>_ _. Inr \<lparr>res_orderId = ''77'', res_status = Some ''FILLED''\<rparr>)\<rparr>"

definition demo_env :: "string \<Rightarrow> string option" where
  "demo_env k = map_of [(''BINANCE_API_KEY'', ''k''), (''BINANCE_API_SECRET'', ''s''),
     (''BINANCE_HTTP_MAX_RETRIES'', ''99''), (''DEMO_MODE'', ''off'')] k"

definition demo_cfg :: ExecutorConfig where
  "demo_cfg = \<lparr>apiKey = ''k'', apiSecret = ''s'', demoMode = False, baseUrl = ''https://api.binance.com'',
     requestTimeoutMs = Fin 15000, maxRetries = Fin 10, estimatedTakerFeeBps = Fin 10\<rparr>"

lemma demo_env_config: "loadExecutorConfig demo_env = Inr demo_cfg"
  by code_simp

lemma clamp_or_bounds:
  assumes "lo \<le> hi" "d \<noteq> NaN"
  shows "lo \<le> math_min hi (math_max lo (number_or x d))" "math_min hi (math_max lo (number_or x d)) \<le> hi"
proof -
  have "number_or x d \<noteq> NaN" using assms(2) by (cases x) (auto simp: number_or_def truthy_def)
  with math_clamp_bounds [OF assms(1)] show
    "lo \<le> math_min hi (math_max lo (number_or x d))" "math_min hi (math_max lo (number_or x d)) \<le> hi"
    by blast+
qed

lemma config_consts:
  "lit 3000 \<le> lit 120000" "lit 1 \<le> lit 10" "lit 1 \<le> lit 1000" "lit 10 \<le> lit 1000"
  by code_simp+

text \<open>Whatever the environment holds, a configuration that loads is within its bounds: both keys
  present, the timeout between 3 and 120 seconds, the retry limit between 1 and 10, the estimated
  fee between 1 and 1000 basis points.\<close>

theorem executor_config_bounds:
  assumes "loadExecutorConfig env = Inr c"
  shows "apiKey c \<noteq> [] \<and> apiSecret c \<noteq> [] \<and>
     lit 3000 \<le> requestTimeoutMs c \<and> requestTimeoutMs c \<le> lit 120000 \<and>
     lit 1 \<le> maxRetries c \<and> maxRetries c \<le> lit 10 \<and>
     lit 1 \<le> estimatedTakerFeeBps c \<and> estimatedTakerFeeBps c \<le> lit 1000"
  using assms
  by (auto simp: loadExecutorConfig_def Let_def config_consts clamp_or_bounds lit_not_NaN
      split: if_splits option.splits)

theorem executor_config_bounds_witness:
  "apiKey demo_cfg \<noteq> [] \<and> apiSecret demo_cfg \<noteq> [] \<and>
   lit 3000 \<le> requestTimeoutMs demo_cfg \<and> requestTimeoutMs demo_cfg \<le> lit 120000 \<and>
   lit 1 \<le> maxRetries demo_cfg \<and> maxRetries demo_cfg \<le> lit 10 \<and>
   lit 1 \<le> estimatedTakerFeeBps demo_cfg \<and> estimatedTakerFeeBps demo_cfg \<le> lit 1000"
  by (rule executor_config_bounds [OF demo_env_config])

lemma demo_answers:
  "getSymbolInfo demo_cfg demo_exchange DEMO_SYMBOL = Inr \<lparr>rules_symbol = ''BTCUSDT'', baseAsset = ''BTC'',
     quoteAsset = ''USDT'', lot = \<lparr>minQty = ''0.5'', maxQty = ''100'', stepSize = ''0.5''\<rparr>, minNotional = Fin 0\<rparr>"
  "getLastPrice demo_cfg demo_exchange DEMO_SYMBOL = Inr (Fin 2)"
  by code_simp+

lemma demo_balance: "getAccountBalance demo_cfg demo_exchange = Inr [''USDT'' \<mapsto> Fin 50]"
proof -
  have "signedRequest demo_cfg ''/api/v3/account'' ''GET'' (ex_account demo_exchange) = Inr [(''USDT'', ''50'')]"
    "parse_float ''50'' = Fin 50" by code_simp+
  then show ?thesis by (simp add: getAccountBalance_def)
qed

definition demo_btc_rules :: ParsedSymbolRules where
  "demo_btc_rules = \<lparr>rules_symbol = ''BTCUSDT'', baseAsset = ''BTC'', quoteAsset = ''USDT'',
     lot = \<lparr>minQty = ''0.5'', maxQty = ''100'', stepSize = ''0.5''\<rparr>, minNotional = Fin 0\<rparr>"

lemma demo_valid: "assertValidQuantityForSymbol ''1.0'' demo_btc_rules = Inr (Fin 1)"
proof -
  have "trim ''1.0'' = ''1.0''" "plain_decimal ''1.0''" "parse_float ''1.0'' = Fin 1"
    "minQty (lot demo_btc_rules) = ''0.5''" "maxQty (lot demo_btc_rules) = ''100''"
    "stepSize (lot demo_btc_rules) = ''0.5''" "parse_float ''0.5'' = Fin (1/2)" "countDecimals ''0.5'' = 1"
    "to_fixed (Fin 1) 1 = ''1.0''" "\<not> Fin 1 < Fin (1/2) - eps10" "\<not> parse_float ''100'' + eps10 < Fin 1"
    "\<not> Fin (1/2) * lit (1 / 10 ^ 6) < math_abs (Fin 1 - math_round (Fin 1 / Fin (1/2)) * Fin (1/2))"
    by code_simp+
  then show ?thesis unfolding assertValidQuantityForSymbol_def Let_def by simp
qed

lemma demo_sizing_btc: "demo_sizing (Fin 2) demo_btc_rules = Some (Inr ''1.0'')"
proof -
  have "adjustQuantityToLotSize (Fin 2 / Fin 2) demo_btc_rules = Inr ''1.0''"
    "\<not> (DEMO_USD \<le> Fin 0 \<or> \<not> is_finite DEMO_USD)" "\<not> (Fin 2 \<le> Fin 0 \<or> \<not> is_finite (Fin 2))"
    "minNotional demo_btc_rules \<le> Fin 0" by code_simp+
  then have "usdNotionalToBaseQuantity DEMO_USD (Fin 2) demo_btc_rules = Some (Inr ''1.0'')"
    unfolding usdNotionalToBaseQuantity_def by (simp add: DEMO_USD_def)
  moreover have "assertMinNotionalMet ''1.0'' (Fin 2) demo_btc_rules = Inr ()" by code_simp
  ultimately show ?thesis by (simp add: demo_sizing_def demo_valid)
qed

lemma demo_safety:
  "\<exists>ok. evaluateMarketBuySafety (estimatedTakerFeeBps demo_cfg) demo_btc_rules ''1.0'' (Fin 2) (Fin 50) = Inr ok"
proof -
  have "notionalForQuantity ''1.0'' (Fin 2) = Fin 2" "\<not> Fin 0 < minNotional demo_btc_rules"
    "estimatedTakerFeeBps demo_cfg = Fin 10"
    "\<not> lit (2 / 100) * Fin 2 + eps10 < Fin 2 * (Fin 10 / lit 10000)"
    "\<not> Fin 50 < Fin 2 + Fin 2 * (Fin 10 / lit 10000) - eps8" by code_simp+
  then show ?thesis unfolding evaluateMarketBuySafety_def Let_def by simp
qed

lemma demo_order:
  "placeMarketOrder demo_cfg demo_exchange ''cex1'' DEMO_SYMBOL ''BUY'' ''1.0'' =
     (Inr \<lparr>res_orderId = ''77'', res_status = Some ''FILLED''\<rparr>,
      [\<lparr>p_symbol = DEMO_SYMBOL, p_side = ''BUY'', p_quantity = ''1.0'', p_clientId = ''cex1''\<rparr>])"
proof -
  have "assertMinNotionalMet ''1.0'' (Fin 2) demo_btc_rules = Inr ()" "to_upper DEMO_SYMBOL = DEMO_SYMBOL"
    "signedRequest demo_cfg ''/api/v3/order'' ''POST'' (ex_order demo_exchange ps) =
      Inr \<lparr>res_orderId = ''77'', res_status = Some ''FILLED''\<rparr>" for ps by code_simp+
  then show ?thesis using demo_answers demo_valid
    by (simp add: placeMarketOrder_def demo_btc_rules_def)
qed

lemma demo_run:
  "\<exists>ls. runDemoTrade demo_env demo_exchange demo_exchange ''1'' = Some \<lparr>logs = ls,
     posted = [\<lparr>p_symbol = DEMO_SYMBOL, p_side = ''BUY'', p_quantity = ''1.0'', p_clientId = ''cex1''\<rparr>]\<rparr>"
proof -
  have d: "\<not> demoMode demo_cfg" by code_simp
  obtain ok where "evaluateMarketBuySafety (estimatedTakerFeeBps demo_cfg) demo_btc_rules ''1.0'' (Fin 2) (Fin 50) = Inr ok"
    using demo_safety by blast
  then have "\<exists>ls. demo_submit demo_cfg demo_exchange ''1'' demo_btc_rules (Fin 2) [''USDT'' \<mapsto> Fin 50] ''1.0'' =
      \<lparr>logs = ls, posted = [\<lparr>p_symbol = DEMO_SYMBOL, p_side = ''BUY'', p_quantity = ''1.0'', p_clientId = ''cex1''\<rparr>]\<rparr>"
    using d demo_order by (simp add: demo_submit_def)
  then show ?thesis
    using demo_env_config demo_answers [folded demo_btc_rules_def] demo_balance demo_sizing_btc
    by (auto simp: runDemoTrade_def)
qed

theorem demo_trade_sends_only_checked_orders_witness:
  "\<exists>cfg q v rules'. loadExecutorConfig demo_env = Inr cfg \<and> \<not> demoMode cfg \<and>
     assertValidQuantityForSymbol q rules' = Inr v \<and> q = ''1.0''"
proof -
  obtain ls where r: "runDemoTrade demo_env demo_exchange demo_exchange ''1'' = Some \<lparr>logs = ls,
     posted = [\<lparr>p_symbol = DEMO_SYMBOL, p_side = ''BUY'', p_quantity = ''1.0'', p_clientId = ''cex1''\<rparr>]\<rparr>"
    using demo_run by blast
  show ?thesis using demo_trade_sends_only_checked_orders [OF r] by auto
qed

end
