(* ===== verification/TtlCache.thy ===== *)
theory TtlCache
  imports JsPrelude
begin

text \<open>
  The contract of the in-memory caches with an expiry time: symbol rules
  (\<open>binanceSymbolRulesService.ts\<close>) and exit settings (\<open>cexExitSettingsService.ts\<close>). Their clients
  rely on the laws of the locale; the caches are interpreted in their own theories.
\<close>

text \<open>A cache of values with the time they were read, keyed by a normal form of the name asked for: a
  fresh entry is served without asking the source, an old one is read again, and is served all
  the same when the source fails; with no entry at all a failure gives the fallback.\<close>

locale ttl_cache =
  fixes lookup :: "time \<Rightarrow> 'k \<Rightarrow> ('k \<rightharpoonup> 'v \<times> time) \<Rightarrow> 'v option \<times> ('k \<rightharpoonup> 'v \<times> time)"
    and norm :: "'k \<Rightarrow> 'k" and source :: "'k \<Rightarrow> 'v option" and fallback :: "'v option" and ttl :: int
  assumes fresh: "c (norm k) = Some (v, t) \<Longrightarrow> now - t < ttl \<Longrightarrow> lookup now k c = (Some v, c)"
    and refetch: "\<not> (\<exists>v t. c (norm k) = Some (v, t) \<and> now - t < ttl) \<Longrightarrow> source (norm k) = Some w \<Longrightarrow>
      lookup now k c = (Some w, c(norm k \<mapsto> (w, now)))"
    and stale: "\<not> (\<exists>v t. c (norm k) = Some (v, t) \<and> now - t < ttl) \<Longrightarrow> source (norm k) = None \<Longrightarrow>
      lookup now k c = (case c (norm k) of None \<Rightarrow> fallback | Some (v, t) \<Rightarrow> Some v, c)"
begin

lemma lookup_cases:
  obtains v t where "c (norm k) = Some (v, t)" "now - t < ttl" "lookup now k c = (Some v, c)"
  | w where "source (norm k) = Some w" "lookup now k c = (Some w, c(norm k \<mapsto> (w, now)))"
  | "source (norm k) = None" "lookup now k c = (case c (norm k) of None \<Rightarrow> fallback | Some (v, t) \<Rightarrow> Some v, c)"
proof (cases "\<exists>v t. c (norm k) = Some (v, t) \<and> now - t < ttl")
  case True
  then show thesis using fresh that(1) by blast
next
  case False
  then show thesis using refetch [of c k now] stale [of c k now] that(2,3)
    by (cases "source (norm k)") auto
qed

lemma keeps_entries: "dom c \<subseteq> dom (snd (lookup now k c))"
  by (rule lookup_cases [of c k now]) auto

lemma answers_when_known:
  "norm k \<in> dom c \<or> source (norm k) \<noteq> None \<or> fallback \<noteq> None \<Longrightarrow> fst (lookup now k c) \<noteq> None"
  by (rule lookup_cases [of c k now]) (auto split: option.splits)

text \<open>What holds of the source, of the fallback and of the entries holds of every answer and of the
  entries afterwards.\<close>

lemma answers_satisfy:
  assumes "\<And>k v t. c k = Some (v, t) \<Longrightarrow> P v" "\<And>k w. source k = Some w \<Longrightarrow> P w" "\<And>v. fallback = Some v \<Longrightarrow> P v"
  shows "(\<forall>v. fst (lookup now k c) = Some v \<longrightarrow> P v) \<and> (\<forall>k' v t. snd (lookup now k c) k' = Some (v, t) \<longrightarrow> P v)"
  by (rule lookup_cases [of c k now]) (use assms in \<open>auto split: if_splits option.splits\<close>)

end

end
