(* ===== verification/ExchangeAccess.thy ===== *)
theory ExchangeAccess
  imports BinanceExecutor TtlCache
begin

text \<open>
  What the API server needs of the exchange: the cached symbol rules
  (\<open>services/exchange/binanceSymbolRulesService.ts\<close>) and the order requests of
  \<open>services/exchange/binanceAdapter.ts\<close>. Fetching \<open>exchangeInfo\<close> and sending a signed request
  are parameters. Concurrent calls for one symbol share one fetch in the source; here calls follow
  one another.
\<close>

section \<open>The symbol rules cache\<close>

definition TTL_MS :: int where "TTL_MS = 60 * 60 * 1000"

type_synonym rules_cache = "string \<rightharpoonup> ParsedSymbolRules \<times> time"
type_synonym rules_fetch = "string \<Rightarrow> exec_error + BinanceSymbolInfo list"

definition fetchRules :: "rules_fetch \<Rightarrow> string \<Rightarrow> exec_error + ParsedSymbolRules" where
  "fetchRules fetch symbol =
     (case fetch symbol of Inl e \<Rightarrow> Inl e
      | Inr [] \<Rightarrow> Inl (SymbolNotTrading symbol)
      | Inr (raw # _) \<Rightarrow> parseSymbolRules raw)"

definition getBinanceSymbolRules ::
  "rules_fetch \<Rightarrow> time \<Rightarrow> string \<Rightarrow> rules_cache \<Rightarrow> (exec_error + ParsedSymbolRules) \<times> rules_cache" where
  "getBinanceSymbolRules fetch now symbol cache =
     (let key = to_upper symbol;
          refresh = (case fetchRules fetch key of Inl e \<Rightarrow> (Inl e, cache)
                     | Inr r \<Rightarrow> (Inr r, cache(key \<mapsto> (r, now)))) in
      case cache key of None \<Rightarrow> refresh
      | Some (r, t) \<Rightarrow> if now - t < TTL_MS then (Inr r, cache) else refresh)"

definition tryGetBinanceSymbolRules ::
  "rules_fetch \<Rightarrow> time \<Rightarrow> string \<Rightarrow> rules_cache \<Rightarrow> ParsedSymbolRules option \<times> rules_cache" where
  "tryGetBinanceSymbolRules fetch now symbol cache =
     (let key = to_upper symbol in
      case getBinanceSymbolRules fetch now key cache of
        (Inr r, cache') \<Rightarrow> (Some r, cache')
      | (Inl e, cache') \<Rightarrow> (map_option fst (cache' key), cache'))"

section \<open>Order requests\<close>

datatype order_side = BUY | SELL
datatype order_type = MARKET | LIMIT | STOP_MARKET | TAKE_PROFIT_MARKET | TRAILING_STOP_MARKET
datatype time_in_force = GTC | IOC | FOK

fun side_name :: "order_side \<Rightarrow> string" where
  "side_name BUY = ''BUY''"
| "side_name SELL = ''SELL''"

fun tif_name :: "time_in_force \<Rightarrow> string" where
  "tif_name GTC = ''GTC''"
| "tif_name IOC = ''IOC''"
| "tif_name FOK = ''FOK''"

record order_request =
  q_symbol :: string
  q_side :: order_side
  q_type :: order_type
  q_quantity :: "string option"
  q_quoteOrderQty :: "string option"
  q_price :: "string option"
  q_timeInForce :: "time_in_force option"
  q_clientOrderId :: string

datatype adapter_error = PriceRequired | QuantityRequired | QuantityOrQuoteRequired | RequestFailed string

text \<open>A text that is given: neither missing nor empty.\<close>

definition given :: "string option \<Rightarrow> string option" where
  "given t = (case t of None \<Rightarrow> None | Some s \<Rightarrow> if s = [] then None else Some s)"

definition order_query :: "order_request \<Rightarrow> adapter_error + (string \<times> string) list" where
  "order_query r =
     (let head = [(''symbol'', q_symbol r), (''side'', side_name (q_side r)),
            (''type'', if q_type r = LIMIT then ''LIMIT'' else ''MARKET''), (''newClientOrderId'', q_clientOrderId r)] in
      if q_type r = LIMIT then
        (case given (q_price r) of None \<Rightarrow> Inl PriceRequired
         | Some p \<Rightarrow>
         case given (q_quantity r) of None \<Rightarrow> Inl QuantityRequired
         | Some q \<Rightarrow> Inr (head @ [(''timeInForce'', tif_name (nullish (q_timeInForce r) GTC)), (''price'', p), (''quantity'', q)]))
      else
        (case given (q_quoteOrderQty r) of Some qq \<Rightarrow> Inr (head @ [(''quoteOrderQty'', qq)])
         | None \<Rightarrow>
         case given (q_quantity r) of Some q \<Rightarrow> Inr (head @ [(''quantity'', q)])
         | None \<Rightarrow> Inl QuantityOrQuoteRequired))"

text \<open>A signed request: path, method and parameters to an answer or a failure text.\<close>

type_synonym 'a signed_send = "string \<Rightarrow> string \<Rightarrow> (string \<times> string) list \<Rightarrow> string + 'a"

definition adapter_placeOrder :: "'a signed_send \<Rightarrow> order_request \<Rightarrow> adapter_error + 'a" where
  "adapter_placeOrder send r =
     (case order_query r of Inl e \<Rightarrow> Inl e
      | Inr ps \<Rightarrow> (case send ''/api/v3/order'' ''POST'' ps of Inl m \<Rightarrow> Inl (RequestFailed m) | Inr a \<Rightarrow> Inr a))"

definition adapter_cancelOrder :: "'a signed_send \<Rightarrow> string \<Rightarrow> string \<Rightarrow> adapter_error + 'a" where
  "adapter_cancelOrder send symbol orderId =
     (case send ''/api/v3/order'' ''DELETE'' [(''symbol'', symbol), (''orderId'', orderId)] of
        Inl m \<Rightarrow> Inl (RequestFailed m) | Inr a \<Rightarrow> Inr a)"

definition adapter_getOrder :: "'a signed_send \<Rightarrow> string \<Rightarrow> string \<Rightarrow> adapter_error + 'a" where
  "adapter_getOrder send symbol orderId =
     (case send ''/api/v3/order'' ''GET'' [(''symbol'', symbol), (''orderId'', orderId)] of
        Inl m \<Rightarrow> Inl (RequestFailed m) | Inr a \<Rightarrow> Inr a)"

definition adapter_getBalances :: "(string \<times> string \<times> string) list signed_send \<Rightarrow> adapter_error + (string \<times> string \<times> string) list" where
  "adapter_getBalances send =
     (case send ''/api/v3/account'' ''GET'' [] of Inl m \<Rightarrow> Inl (RequestFailed m)
      | Inr bs \<Rightarrow> Inr (filter (\<lambda>(_, free, locked). Fin 0 < number_of_string free \<or> Fin 0 < number_of_string locked) bs))"

section \<open>What the cache promises\<close>

definition rules_source :: "rules_fetch \<Rightarrow> string \<Rightarrow> ParsedSymbolRules option" where
  "rules_source fetch k = (case fetchRules fetch k of Inl _ \<Rightarrow> None | Inr r \<Rightarrow> Some r)"

interpretation rules: ttl_cache "tryGetBinanceSymbolRules fetch" to_upper "rules_source fetch" None TTL_MS
  for fetch
proof
  fix now k v t and c :: rules_cache
  show "tryGetBinanceSymbolRules fetch now k c = (Some v, c)" if "c (to_upper k) = Some (v, t)" "now - t < TTL_MS"
    using that by (simp add: tryGetBinanceSymbolRules_def getBinanceSymbolRules_def)
next
  fix now k w and c :: rules_cache
  assume f: "\<not> (\<exists>v t. c (to_upper k) = Some (v, t) \<and> now - t < TTL_MS)"
  show "tryGetBinanceSymbolRules fetch now k c = (Some w, c(to_upper k \<mapsto> (w, now)))"
    if "rules_source fetch (to_upper k) = Some w"
    using that f by (auto simp: tryGetBinanceSymbolRules_def getBinanceSymbolRules_def rules_source_def Let_def
        split: sum.splits option.splits)
  show "tryGetBinanceSymbolRules fetch now k c =
      (case c (to_upper k) of None \<Rightarrow> None | Some (v, t) \<Rightarrow> Some v, c)"
    if "rules_source fetch (to_upper k) = None"
    using that f by (auto simp: tryGetBinanceSymbolRules_def getBinanceSymbolRules_def rules_source_def Let_def
        split: sum.splits option.splits)
qed

definition run_lookups :: "(rules_fetch \<times> time \<times> string) list \<Rightarrow> rules_cache \<Rightarrow> rules_cache" where
  "run_lookups ops c = foldl (\<lambda>c (fetch, now, k). snd (tryGetBinanceSymbolRules fetch now k c)) c ops"

lemma run_lookups_keeps: "k \<in> dom c \<Longrightarrow> k \<in> dom (run_lookups ops c)"
  unfolding run_lookups_def
  by (rule foldl_invariant [where P = "\<lambda>c. k \<in> dom c"]) (auto dest: rules.keeps_entries [THEN subsetD, OF domI])

lemma found_is_cached:
  "fst (tryGetBinanceSymbolRules fetch now k c) \<noteq> None \<Longrightarrow>
   to_upper k \<in> dom (snd (tryGetBinanceSymbolRules fetch now k c))"
  by (rule rules.lookup_cases [of c k now fetch]) (auto split: option.splits)

text \<open>Once the rules of a symbol were found, every later lookup of that symbol in whatever
  letter case finds rules, whatever lookups happen in between, whatever the time, and even if the
  exchange no longer answers.\<close>

theorem symbol_rules_survive_outage:
  assumes "fst (tryGetBinanceSymbolRules fetch now k c) \<noteq> None" "to_upper k' = to_upper k"
  shows "fst (tryGetBinanceSymbolRules fetch' now' k'
     (run_lookups ops (snd (tryGetBinanceSymbolRules fetch now k c)))) \<noteq> None"
  using assms found_is_cached [OF assms(1)] run_lookups_keeps
  by (intro rules.answers_when_known) auto

definition demo_fetch :: rules_fetch where
  "demo_fetch k = (if k = ''BTCUSDT'' then Inr [demo_info] else Inl (SymbolNotTrading k))"

theorem symbol_rules_survive_outage_witness:
  "fst (tryGetBinanceSymbolRules (\<lambda>_. Inl MissingApiKeys) 99999999999 ''BTCusdt''
     (run_lookups [(\<lambda>_. Inl MissingApiKeys, 5, ''ETHUSDT'')]
       (snd (tryGetBinanceSymbolRules demo_fetch 0 ''btcusdt'' Map.empty)))) \<noteq> None"
proof (rule symbol_rules_survive_outage)
  show "fst (tryGetBinanceSymbolRules demo_fetch 0 ''btcusdt'' Map.empty) \<noteq> None" by code_simp
  show "to_upper ''BTCusdt'' = to_upper ''btcusdt''" by code_simp
qed

section \<open>What an order request carries\<close>

text \<open>Every order request the adapter sends names its amount exactly once: a quantity or, for
  an order that is not LIMIT, a quote amount, never both and never neither; a LIMIT order carries
  a price and a time in force; and every other order type, conditional ones included, is sent as a
  plain MARKET order.\<close>

theorem order_request_well_formed:
  assumes "order_query r = Inr ps"
  shows "length (filter (\<lambda>(k, v). k = ''quantity'' \<or> k = ''quoteOrderQty'') ps) = 1 \<and>
     (q_type r = LIMIT \<longrightarrow> map_of ps ''type'' = Some ''LIMIT'' \<and> map_of ps ''price'' = given (q_price r) \<and>
        map_of ps ''timeInForce'' \<noteq> None \<and> map_of ps ''quoteOrderQty'' = None) \<and>
     (q_type r \<noteq> LIMIT \<longrightarrow> map_of ps ''type'' = Some ''MARKET'' \<and> map_of ps ''price'' = None)"
  using assms by (auto simp: order_query_def Let_def split: if_splits option.splits)

definition demo_stop_request :: order_request where
  "demo_stop_request = \<lparr>q_symbol = ''BTCUSDT'', q_side = SELL, q_type = STOP_MARKET, q_quantity = Some ''0.5'',
     q_quoteOrderQty = None, q_price = None, q_timeInForce = None, q_clientOrderId = ''cf_1''\<rparr>"

theorem order_request_well_formed_witness:
  "map_of [(''symbol'', ''BTCUSDT''), (''side'', ''SELL''), (''type'', ''MARKET''), (''newClientOrderId'', ''cf_1''),
     (''quantity'', ''0.5'')] ''type'' = Some ''MARKET''"
proof -
  have q: "order_query demo_stop_request = Inr [(''symbol'', ''BTCUSDT''), (''side'', ''SELL''), (''type'', ''MARKET''),
      (''newClientOrderId'', ''cf_1''), (''quantity'', ''0.5'')]" by code_simp
  have "q_type demo_stop_request \<noteq> LIMIT" by (simp add: demo_stop_request_def)
  then show ?thesis using order_request_well_formed [OF q] by blast
qed

end
