(* ===== verification/OrderService.thy ===== *)
theory OrderService
  imports OrderStateMachine RiskRules ExchangeAccess
begin

text \<open>
  The order management service, \<open>services/orders/orderService.ts\<close>: placing an order (connection
  check, risk check, quantity normalisation, the pending row, the submission and its outcome) and
  synchronising its status. The state is the tables it reads and writes and the symbol rules cache.
  The parameters of an operation are what it draws from outside: the time, fresh ids, the answers of
  the exchange and the decryption of the stored keys. \<open>col\<close> is what a decimal column gives back
  for the number written to it.
\<close>

section \<open>State\<close>

datatype oms_error =
    ConnectionNotFound
  | NoTradePermission
  | RiskRefused risk_reason
  | LotRefused exec_error
  | NotionalBelowMinimum number number string
  | SizeBelowMinimum number number string
  | DecryptFailed string
  | AdapterFailed adapter_error
  | InvalidTransition order_status string
  | OrderNotFound

record order_row =
  or_id :: string
  or_user :: user_id
  or_connection :: string
  or_clientOrderId :: string
  or_exchangeOrderId :: "string option"
  or_symbol :: string
  or_side :: order_side
  or_type :: order_type
  or_quantity :: number
  or_price :: "number option"
  or_timeInForce :: "time_in_force option"
  or_stopPrice :: "number option"
  or_takeProfitPrice :: "number option"
  or_trailingPercent :: "number option"
  or_status :: order_status
  or_rejectReason :: "oms_error option"
  or_avgFillPrice :: "number option"
  or_filledQuantity :: number
  or_quoteQuantity :: number
  or_submittedAt :: "time option"
  or_closedAt :: "time option"

datatype event_type = ORDER_SUBMITTED | ORDER_UPDATED | EV_ORDER_REJECTED

record execution_event =
  ee_user :: user_id
  ee_order :: string
  ee_type :: event_type

record oms =
  om_connections :: "connection_row list"
  om_rules :: "risk_rule list"
  om_trades :: "trade_row list"
  om_cache :: rules_cache
  om_orders :: "order_row list"
  om_events :: "execution_event list"
  om_riskEvents :: "risk_event list"

record remote_order =
  rm_status :: string
  rm_orderId :: string
  rm_price :: "string option"
  rm_executedQty :: "string option"
  rm_cummulativeQuoteQty :: "string option"

record oms_env =
  e_now :: time
  e_fetch :: rules_fetch
  e_decrypt :: "string \<Rightarrow> string + string"
  e_send :: "string \<Rightarrow> string \<Rightarrow> remote_order signed_send"
  e_newOrderId :: string
  e_newClientId :: string
  e_col :: "number \<Rightarrow> number"

record CreateOrderInput =
  in_userId :: user_id
  in_connectionId :: string
  in_symbol :: string
  in_side :: order_side
  in_type :: order_type
  in_quantity :: number
  in_quoteOrderQty :: "number option"
  in_price :: "number option"
  in_timeInForce :: "time_in_force option"
  in_stopLossPrice :: "number option"
  in_takeProfitPrice :: "number option"
  in_trailingPercent :: "number option"

section \<open>Placing an order\<close>

text \<open>A number that is given and truthy.\<close>

definition truthy_option :: "number option \<Rightarrow> number option" where
  "truthy_option a = (case a of None \<Rightarrow> None | Some x \<Rightarrow> if truthy x then Some x else None)"

definition normalizeBaseQuantity ::
  "string \<Rightarrow> number \<Rightarrow> number \<Rightarrow> ParsedSymbolRules option \<Rightarrow> oms_error + string option" where
  "normalizeBaseQuantity symbol quantity referencePrice rules =
     (case rules of None \<Rightarrow> Inr None
      | Some r \<Rightarrow>
        (case adjustQuantityToLotSize quantity r of Inl e \<Rightarrow> Inl (LotRefused e)
         | Inr qtyStr \<Rightarrow>
             (let notional = notionalForQuantity qtyStr referencePrice in
              if Fin 0 < minNotional r \<and> Fin 0 < referencePrice \<and> notional < minNotional r - eps8
              then Inl (NotionalBelowMinimum notional (minNotional r) symbol)
              else Inr (Some qtyStr))))"

definition risk_input :: "CreateOrderInput \<Rightarrow> RiskCheckInput" where
  "risk_input input =
     \<lparr>ci_userId = in_userId input, ci_symbol = in_symbol input, ci_quantity = in_quantity input,
      ci_price = number_or (nullish (in_price input) (Fin 0)) (Fin 1), ci_notionalUsd = in_quoteOrderQty input\<rparr>"

text \<open>The quantity text to submit: none is normalised when a quote amount is given.\<close>

definition submit_quantity :: "CreateOrderInput \<Rightarrow> ParsedSymbolRules option \<Rightarrow> oms_error + string" where
  "submit_quantity input rules =
     (case truthy_option (in_quoteOrderQty input) of
        Some quote \<Rightarrow>
          (case rules of
             Some r \<Rightarrow> if Fin 0 < minNotional r \<and> quote < minNotional r - eps8
               then Inl (SizeBelowMinimum quote (minNotional r) (in_symbol input))
               else Inr (number_to_string (in_quantity input))
           | None \<Rightarrow> Inr (number_to_string (in_quantity input)))
      | None \<Rightarrow>
          (case normalizeBaseQuantity (in_symbol input) (in_quantity input) (nullish (in_price input) (Fin 0)) rules of
             Inl e \<Rightarrow> Inl e
           | Inr qs \<Rightarrow> Inr (nullish qs (number_to_string (in_quantity input)))))"

definition pending_row :: "oms_env \<Rightarrow> CreateOrderInput \<Rightarrow> string \<Rightarrow> order_row" where
  "pending_row env input qty =
     \<lparr>or_id = e_newOrderId env, or_user = in_userId input, or_connection = in_connectionId input,
      or_clientOrderId = e_newClientId env, or_exchangeOrderId = None, or_symbol = in_symbol input,
      or_side = in_side input, or_type = in_type input,
      or_quantity = e_col env (nullish (in_quoteOrderQty input) (number_of_string qty)),
      or_price = map_option (e_col env) (in_price input), or_timeInForce = in_timeInForce input,
      or_stopPrice = map_option (e_col env) (in_stopLossPrice input),
      or_takeProfitPrice = map_option (e_col env) (in_takeProfitPrice input),
      or_trailingPercent = map_option (e_col env) (in_trailingPercent input),
      or_status = PENDING_SUBMIT, or_rejectReason = None, or_avgFillPrice = None,
      or_filledQuantity = Fin 0, or_quoteQuantity = Fin 0, or_submittedAt = None, or_closedAt = None\<rparr>"

definition order_request_of :: "oms_env \<Rightarrow> CreateOrderInput \<Rightarrow> string \<Rightarrow> order_request" where
  "order_request_of env input qty =
     \<lparr>q_symbol = in_symbol input, q_side = in_side input, q_type = in_type input,
      q_quantity = (if truthy_option (in_quoteOrderQty input) = None then Some qty else None),
      q_quoteOrderQty = map_option (\<lambda>q. to_fixed q 2) (truthy_option (in_quoteOrderQty input)),
      q_price = map_option number_to_string (in_price input), q_timeInForce = in_timeInForce input,
      q_clientOrderId = e_newClientId env\<rparr>"

text \<open>The body of the \<open>try\<close>: decrypt, submit, and test the reported status.\<close>

definition submit_order ::
  "oms_env \<Rightarrow> connection_row \<Rightarrow> CreateOrderInput \<Rightarrow> string \<Rightarrow> oms_error + remote_order \<times> order_status" where
  "submit_order env connection input qty =
     (case e_decrypt env (cn_key connection) of Inl m \<Rightarrow> Inl (DecryptFailed m)
      | Inr key \<Rightarrow>
      case e_decrypt env (cn_secret connection) of Inl m \<Rightarrow> Inl (DecryptFailed m)
      | Inr sec \<Rightarrow>
      case adapter_placeOrder (e_send env key sec) (order_request_of env input qty) of Inl e \<Rightarrow> Inl (AdapterFailed e)
      | Inr remote \<Rightarrow>
          if \<not> canTransitionOrderStatus PENDING_SUBMIT (rm_status remote)
          then Inl (InvalidTransition PENDING_SUBMIT (rm_status remote))
          else (case status_of_name (rm_status remote) of
                  None \<Rightarrow> Inl (InvalidTransition PENDING_SUBMIT (rm_status remote))
                | Some st \<Rightarrow> Inr (remote, st)))"

definition avg_fill :: "remote_order \<Rightarrow> number option" where
  "avg_fill remote =
     (case (given (rm_executedQty remote), given (rm_cummulativeQuoteQty remote)) of
        (Some ex, Some quote) \<Rightarrow>
          if Fin 0 < number_of_string ex then Some (number_of_string quote / number_of_string ex) else None
      | _ \<Rightarrow> None)"

definition set_or_keep :: "'a option \<Rightarrow> 'a \<Rightarrow> 'a" where
  "set_or_keep new old = nullish new old"

definition submitted_row :: "oms_env \<Rightarrow> remote_order \<Rightarrow> order_status \<Rightarrow> order_row \<Rightarrow> order_row" where
  "submitted_row env remote st row =
     row\<lparr>or_status := st, or_exchangeOrderId := Some (rm_orderId remote), or_submittedAt := Some (e_now env),
        or_filledQuantity := set_or_keep (map_option (e_col env \<circ> number_of_string) (given (rm_executedQty remote)))
          (or_filledQuantity row),
        or_quoteQuantity := set_or_keep (map_option (e_col env \<circ> number_of_string) (given (rm_cummulativeQuoteQty remote)))
          (or_quoteQuantity row),
        or_avgFillPrice := set_or_keep (map_option (Some \<circ> e_col env) (avg_fill remote)) (or_avgFillPrice row)\<rparr>"

definition rejected_row :: "oms_env \<Rightarrow> oms_error \<Rightarrow> order_row \<Rightarrow> order_row" where
  "rejected_row env e row = row\<lparr>or_status := REJECTED, or_rejectReason := Some e, or_closedAt := Some (e_now env)\<rparr>"

definition update_order :: "string \<Rightarrow> (order_row \<Rightarrow> order_row) \<Rightarrow> oms \<Rightarrow> oms" where
  "update_order i f s = s\<lparr>om_orders := update_where (\<lambda>r. or_id r = i) f (om_orders s)\<rparr>"

definition log_event :: "user_id \<Rightarrow> string \<Rightarrow> event_type \<Rightarrow> oms \<Rightarrow> oms" where
  "log_event u i k s = s\<lparr>om_events := om_events s @ [\<lparr>ee_user = u, ee_order = i, ee_type = k\<rparr>]\<rparr>"

definition create_and_submit ::
  "oms_env \<Rightarrow> connection_row \<Rightarrow> CreateOrderInput \<Rightarrow> string \<Rightarrow> oms \<Rightarrow> (oms_error + order_row) \<times> oms" where
  "create_and_submit env connection input qty s =
     (let row = pending_row env input qty;
          s1 = s\<lparr>om_orders := om_orders s @ [row]\<rparr> in
      case submit_order env connection input qty of
        Inl e \<Rightarrow> (Inl e, log_event (in_userId input) (or_id row) EV_ORDER_REJECTED
                          (update_order (or_id row) (rejected_row env e) s1))
      | Inr (remote, st) \<Rightarrow>
          (Inr (submitted_row env remote st row),
           log_event (in_userId input) (or_id row) ORDER_SUBMITTED
             (update_order (or_id row) (submitted_row env remote st) s1)))"

definition placeOrder :: "oms_env \<Rightarrow> CreateOrderInput \<Rightarrow> oms \<Rightarrow> (oms_error + order_row) \<times> oms" where
  "placeOrder env input s =
     (case find_first (\<lambda>c. cn_id c = in_connectionId input \<and> cn_user c = in_userId input \<and> cn_active c) id
             (om_connections s) of None \<Rightarrow> (Inl ConnectionNotFound, s)
      | Some connection \<Rightarrow>
      if \<not> cn_canTrade connection then (Inl NoTradePermission, s)
      else case checkRisk (om_rules s) (om_trades s) (e_now env) (risk_input input) of
        (Some reason, evs) \<Rightarrow> (Inl (RiskRefused reason), s\<lparr>om_riskEvents := om_riskEvents s @ evs\<rparr>)
      | (None, evs) \<Rightarrow>
          (case tryGetBinanceSymbolRules (e_fetch env) (e_now env) (in_symbol input) (om_cache s) of
             (rules, cache') \<Rightarrow>
               let s0 = s\<lparr>om_cache := cache'\<rparr> in
               case submit_quantity input rules of Inl e \<Rightarrow> (Inl e, s0)
               | Inr qty \<Rightarrow> create_and_submit env connection input qty s0))"

section \<open>Synchronising an order\<close>

definition synced_row :: "oms_env \<Rightarrow> remote_order \<Rightarrow> order_status \<Rightarrow> order_row \<Rightarrow> order_row" where
  "synced_row env remote st row =
     row\<lparr>or_status := st,
        or_avgFillPrice := set_or_keep (map_option (Some \<circ> e_col env \<circ> number_of_string) (given (rm_price remote)))
          (or_avgFillPrice row),
        or_filledQuantity := set_or_keep (map_option (e_col env \<circ> number_of_string) (given (rm_executedQty remote)))
          (or_filledQuantity row),
        or_quoteQuantity := set_or_keep (map_option (e_col env \<circ> number_of_string) (given (rm_cummulativeQuoteQty remote)))
          (or_quoteQuantity row),
        or_closedAt := (if st = FILLED \<or> st = CANCELED \<or> st = EXPIRED then Some (e_now env) else None)\<rparr>"

text \<open>The order's connection, which the foreign key guarantees.\<close>

definition connection_of :: "oms \<Rightarrow> order_row \<Rightarrow> connection_row option" where
  "connection_of s row = find (\<lambda>c. cn_id c = or_connection row) (om_connections s)"

definition query_remote :: "oms_env \<Rightarrow> connection_row \<Rightarrow> order_row \<Rightarrow> string \<Rightarrow> oms_error + remote_order" where
  "query_remote env connection row exchangeId =
     (case e_decrypt env (cn_key connection) of Inl m \<Rightarrow> Inl (DecryptFailed m)
      | Inr key \<Rightarrow>
      case e_decrypt env (cn_secret connection) of Inl m \<Rightarrow> Inl (DecryptFailed m)
      | Inr sec \<Rightarrow>
      case adapter_getOrder (e_send env key sec) (or_symbol row) exchangeId of
        Inl e \<Rightarrow> Inl (AdapterFailed e) | Inr remote \<Rightarrow> Inr remote)"

definition syncOrderStatus :: "oms_env \<Rightarrow> user_id \<Rightarrow> string \<Rightarrow> oms \<Rightarrow> (oms_error + order_row) \<times> oms" where
  "syncOrderStatus env u orderId s =
     (case find_first (\<lambda>r. or_id r = orderId \<and> or_user r = u) id (om_orders s) of None \<Rightarrow> (Inl OrderNotFound, s)
      | Some row \<Rightarrow>
      case given (or_exchangeOrderId row) of None \<Rightarrow> (Inl OrderNotFound, s)
      | Some exchangeId \<Rightarrow>
      case connection_of s row of None \<Rightarrow> (Inl OrderNotFound, s)
      | Some connection \<Rightarrow>
      case query_remote env connection row exchangeId of Inl e \<Rightarrow> (Inl e, s)
      | Inr remote \<Rightarrow>
          if \<not> canTransitionOrderStatus (or_status row) (rm_status remote)
          then (Inl (InvalidTransition (or_status row) (rm_status remote)), s)
          else (case status_of_name (rm_status remote) of
                  None \<Rightarrow> (Inl (InvalidTransition (or_status row) (rm_status remote)), s)
                | Some st \<Rightarrow>
                    (Inr (synced_row env remote st row),
                     log_event u (or_id row) ORDER_UPDATED (update_order (or_id row) (synced_row env remote st) s))))"

section \<open>Invariant\<close>

text \<open>Between operations no order is pending, and an order the exchange never acknowledged is
  rejected, closed and says why.\<close>

definition row_ok :: "order_row \<Rightarrow> bool" where
  "row_ok r \<longleftrightarrow> or_status r \<noteq> PENDING_SUBMIT \<and>
     (or_exchangeOrderId r = None \<longrightarrow> or_status r = REJECTED \<and> or_closedAt r \<noteq> None \<and> or_rejectReason r \<noteq> None)"

definition oms_ok :: "oms \<Rightarrow> bool" where
  "oms_ok s \<longleftrightarrow> distinct (map or_id (om_orders s)) \<and> list_all row_ok (om_orders s)"

text \<open>How one operation may change the table: rows stay in place, each either untouched or moved by
  an accepted status change, and at most one new row follows them.\<close>

definition same_order :: "order_row \<Rightarrow> order_row \<Rightarrow> bool" where
  "same_order r r' \<longleftrightarrow> or_id r' = or_id r \<and> or_user r' = or_user r \<and> or_connection r' = or_connection r \<and>
     or_clientOrderId r' = or_clientOrderId r \<and> or_exchangeOrderId r' = or_exchangeOrderId r \<and>
     or_symbol r' = or_symbol r \<and> or_side r' = or_side r \<and> or_quantity r' = or_quantity r"

definition row_evolves :: "order_row \<Rightarrow> order_row \<Rightarrow> bool" where
  "row_evolves r r' \<longleftrightarrow> r' = r \<or> same_order r r' \<and> order_step (or_status r) (or_status r')"

inductive oms_step :: "oms \<Rightarrow> oms \<Rightarrow> bool" where
  place: "e_newOrderId env \<notin> or_id ` set (om_orders s) \<Longrightarrow> placeOrder env input s = (r, s') \<Longrightarrow> oms_step s s'"
| sync: "syncOrderStatus env u i s = (r, s') \<Longrightarrow> oms_step s s'"

lemma update_where_fresh: "\<forall>r \<in> set rows. \<not> p r \<Longrightarrow> update_where p f (rows @ [x]) = rows @ [if p x then f x else x]"
  by (auto simp: update_where_def map_idI)

lemmas order_writes = update_order_def log_event_def Let_def

lemma create_and_submit_orders:
  assumes "e_newOrderId env \<notin> or_id ` set (om_orders s)" "create_and_submit env c input qty s = (r, s')"
  shows "case r of
      Inl e \<Rightarrow> om_orders s' = om_orders s @ [rejected_row env e (pending_row env input qty)]
    | Inr row \<Rightarrow> om_orders s' = om_orders s @ [row] \<and>
        (\<exists>remote st. row = submitted_row env remote st (pending_row env input qty) \<and> order_step PENDING_SUBMIT st)"
proof -
  have i: "or_id (pending_row env input qty) = e_newOrderId env" by (simp add: pending_row_def)
  have "\<forall>x \<in> set (om_orders s). or_id x \<noteq> or_id (pending_row env input qty)" using assms(1) i by (auto simp: image_iff)
  note fresh = update_where_fresh [OF this]
  show ?thesis
  proof (cases "submit_order env c input qty")
    case (Inl e)
    then show ?thesis using assms(2) fresh by (auto simp: create_and_submit_def order_writes)
  next
    case (Inr p)
    obtain remote st where p: "p = (remote, st)" by (cases p)
    have "canTransitionOrderStatus PENDING_SUBMIT (rm_status remote)" "status_of_name (rm_status remote) = Some st"
      using Inr p by (auto simp: submit_order_def split: sum.splits if_splits option.splits)
    then have "order_step PENDING_SUBMIT st"
      using canTransition_known by (fastforce simp: order_step_transitions)
    then show ?thesis using assms(2) fresh Inr p
      by (auto simp: create_and_submit_def order_writes intro!: exI [of _ remote] exI [of _ st])
  qed
qed

lemma create_and_submit_events:
  assumes "create_and_submit env c input qty s = (r, s')"
  shows "om_events s' = om_events s @ [\<lparr>ee_user = in_userId input, ee_order = e_newOrderId env,
     ee_type = (case r of Inl e \<Rightarrow> EV_ORDER_REJECTED | Inr row \<Rightarrow> ORDER_SUBMITTED)\<rparr>]"
  using assms by (auto simp: create_and_submit_def order_writes pending_row_def split: sum.splits prod.splits)

text \<open>A placement either stops before the row is created, or creates it.\<close>

lemma placeOrder_cases:
  assumes "placeOrder env input s = (r, s')"
  obtains (early) e where "r = Inl e" "om_orders s' = om_orders s" "om_events s' = om_events s"
  | (created) c qty s0 where "create_and_submit env c input qty s0 = (r, s')"
      "om_orders s0 = om_orders s" "om_events s0 = om_events s"
      "fst (checkRisk (om_rules s) (om_trades s) (e_now env) (risk_input input)) = None"
      "c \<in> set (om_connections s)" "cn_id c = in_connectionId input" "cn_user c = in_userId input"
      "cn_active c" "cn_canTrade c"
proof (cases "find_first (\<lambda>c. cn_id c = in_connectionId input \<and> cn_user c = in_userId input \<and> cn_active c) id
             (om_connections s)")
  case None
  then show thesis using assms by (auto simp: placeOrder_def intro: early)
next
  case (Some c)
  from find_first_Some [OF this] have c: "c \<in> set (om_connections s)" "cn_id c = in_connectionId input"
    "cn_user c = in_userId input" "cn_active c" by auto
  show thesis
  proof (cases "cn_canTrade c \<and> fst (checkRisk (om_rules s) (om_trades s) (e_now env) (risk_input input)) = None")
    case False
    then show thesis using assms Some
      by (auto simp: placeOrder_def split: prod.splits option.splits if_splits intro!: early)
  next
    case True
    obtain rules cache where t: "tryGetBinanceSymbolRules (e_fetch env) (e_now env) (in_symbol input) (om_cache s) = (rules, cache)"
      by (cases "tryGetBinanceSymbolRules (e_fetch env) (e_now env) (in_symbol input) (om_cache s)")
    show thesis
    proof (cases "submit_quantity input rules")
      case (Inl e)
      with assms Some True t have "r = Inl e \<and> s' = s\<lparr>om_cache := cache\<rparr>"
        by (auto simp: placeOrder_def split: prod.splits)
      then show thesis by (intro early) auto
    next
      case (Inr qty)
      with assms Some True t have "create_and_submit env c input qty (s\<lparr>om_cache := cache\<rparr>) = (r, s')"
        by (auto simp: placeOrder_def split: prod.splits)
      then show thesis by (rule created) (use c True in auto)
    qed
  qed
qed

lemma syncOrderStatus_cases:
  assumes "syncOrderStatus env u i s = (r, s')"
  obtains (failed) e where "r = Inl e" "s' = s"
  | (synced) row remote st where "r = Inr (synced_row env remote st row)" "row \<in> set (om_orders s)"
      "or_id row = i" "or_user row = u" "or_exchangeOrderId row \<noteq> None" "order_step (or_status row) st"
      "om_orders s' = update_where (\<lambda>x. or_id x = i) (synced_row env remote st) (om_orders s)"
proof (cases "find_first (\<lambda>r. or_id r = i \<and> or_user r = u) id (om_orders s)")
  case None
  then show thesis using assms by (auto simp: syncOrderStatus_def intro: failed)
next
  case (Some row)
  from find_first_Some [OF this] have row: "row \<in> set (om_orders s)" "or_id row = i" "or_user row = u" by auto
  have tr: "order_step (or_status row) st"
    if "canTransitionOrderStatus (or_status row) n" "status_of_name n = Some st" for n st
    using canTransition_known [OF that(1)] that(2) by (auto simp: order_step_transitions)
  show thesis
  proof (cases r)
    case (Inl e)
    with assms Some have "s' = s" by (auto simp: syncOrderStatus_def split: sum.splits option.splits if_splits)
    with Inl show thesis by (rule failed)
  next
    case (Inr row')
    with assms Some obtain remote st where "row' = synced_row env remote st row" "or_exchangeOrderId row \<noteq> None"
      "canTransitionOrderStatus (or_status row) (rm_status remote)" "status_of_name (rm_status remote) = Some st"
      "om_orders s' = update_where (\<lambda>x. or_id x = or_id row) (synced_row env remote st) (om_orders s)"
      by (auto simp: syncOrderStatus_def order_writes given_def split: sum.splits option.splits if_splits)
    with Inr row tr show thesis by (intro synced) auto
  qed
qed

lemma place_step_table:
  assumes "e_newOrderId env \<notin> or_id ` set (om_orders s)" "placeOrder env input s = (r, s')"
  shows "om_orders s' = om_orders s \<or>
     (\<exists>row. om_orders s' = om_orders s @ [row] \<and> or_id row = e_newOrderId env \<and> row_ok row)"
  using assms(2)
proof (cases rule: placeOrder_cases)
  case (created c qty s0)
  have "e_newOrderId env \<notin> or_id ` set (om_orders s0)" using assms(1) created(2) by simp
  from create_and_submit_orders [OF this created(1)] show ?thesis
    by (auto simp: created(2) row_ok_def rejected_row_def submitted_row_def pending_row_def order_step_transitions
        split: sum.splits)
qed simp

lemma synced_same_order: "same_order row (synced_row env remote st row)"
  by (simp add: same_order_def synced_row_def)

lemma synced_status [simp]: "or_status (synced_row env remote st row) = st"
  by (simp add: synced_row_def)

lemma same_id_same_row:
  "distinct (map or_id rows) \<Longrightarrow> r \<in> set rows \<Longrightarrow> r' \<in> set rows \<Longrightarrow> or_id r = or_id r' \<Longrightarrow> r = r'"
  by (metis find_id_unique option.inject)

lemma map_ids_update_where:
  "(\<And>r. or_id (f r) = or_id r) \<Longrightarrow> map or_id (update_where p f rows) = map or_id rows"
  by (auto simp: update_where_def)

lemma sync_step_table:
  assumes "oms_ok s" "syncOrderStatus env u i s = (r, s')"
  shows "map or_id (om_orders s') = map or_id (om_orders s) \<and> list_all2 row_evolves (om_orders s) (om_orders s')"
  using assms(2)
proof (cases rule: syncOrderStatus_cases)
  case (synced row remote st)
  have id: "or_id (synced_row env remote st x) = or_id x" for x by (simp add: synced_row_def)
  have "row_evolves x (if or_id x = i then synced_row env remote st x else x)" if "x \<in> set (om_orders s)" for x
  proof (cases "or_id x = i")
    case True
    with that have "x = row" using same_id_same_row [of "om_orders s" x row] synced(2,3) assms(1)
      by (simp add: oms_ok_def)
    with True synced(6) show ?thesis by (simp add: row_evolves_def synced_same_order)
  qed (simp add: row_evolves_def)
  then have "list_all2 row_evolves (om_orders s) (om_orders s')"
    unfolding synced(7) update_where_def by (auto simp: list_all2_conv_all_nth)
  with map_ids_update_where [OF id] synced(7) show ?thesis by simp
qed (simp add: list_all2_refl row_evolves_def)

lemma never_pending_again: "PENDING_SUBMIT \<notin> set (transitions s)"
  by (cases s) auto

lemma row_evolves_ok: "row_evolves r r' \<Longrightarrow> row_ok r \<Longrightarrow> row_ok r'"
  using never_pending_again by (auto simp: row_evolves_def row_ok_def same_order_def order_step_transitions)

lemma list_all2_preserves:
  "list_all2 R xs ys \<Longrightarrow> list_all P xs \<Longrightarrow> (\<And>x y. R x y \<Longrightarrow> P x \<Longrightarrow> P y) \<Longrightarrow> list_all P ys"
  by (induction rule: list_all2_induct) auto

text \<open>One operation: the rows evolve in place and at most one row that is in order is added.\<close>

lemma oms_step_table:
  assumes "oms_step s s'" "oms_ok s"
  shows "oms_ok s' \<and> (\<exists>new. list_all2 row_evolves (om_orders s) (take (length (om_orders s)) (om_orders s')) \<and>
    om_orders s' = take (length (om_orders s)) (om_orders s') @ new \<and> length new \<le> 1)"
  using assms(1)
proof (cases rule: oms_step.cases)
  case (place env input r)
  have refl: "list_all2 row_evolves (om_orders s) (om_orders s)" by (simp add: list_all2_refl row_evolves_def)
  from place_step_table [OF place] show ?thesis
  proof
    assume "om_orders s' = om_orders s"
    then show ?thesis using assms(2) refl by (intro conjI exI [of _ "[]"]) (simp_all add: oms_ok_def)
  next
    assume "\<exists>row. om_orders s' = om_orders s @ [row] \<and> or_id row = e_newOrderId env \<and> row_ok row"
    then obtain row where "om_orders s' = om_orders s @ [row]" "or_id row = e_newOrderId env" "row_ok row" by blast
    then show ?thesis using assms(2) refl place(1) by (intro conjI exI [of _ "[row]"]) (simp_all add: oms_ok_def)
  qed
next
  case (sync env u i r)
  from sync_step_table [OF assms(2) sync] have t: "map or_id (om_orders s') = map or_id (om_orders s)"
    "list_all2 row_evolves (om_orders s) (om_orders s')" by auto
  have "list_all row_ok (om_orders s')" using list_all2_preserves [OF t(2) _ row_evolves_ok] assms(2)
    by (simp add: oms_ok_def)
  then show ?thesis using t assms(2) list_all2_lengthD [OF t(2)]
    by (intro conjI exI [of _ "[]"]) (simp_all add: oms_ok_def)
qed

lemma oms_step_rows:
  assumes "oms_step s s'" "oms_ok s" "r \<in> set (om_orders s)"
  shows "\<exists>r' \<in> set (om_orders s'). row_evolves r r'"
proof -
  from oms_step_table [OF assms(1,2)]
  have l: "list_all2 row_evolves (om_orders s) (take (length (om_orders s)) (om_orders s'))" by blast
  from assms(3) obtain n where "n < length (om_orders s)" "om_orders s ! n = r" by (auto simp: in_set_conv_nth)
  with l have "row_evolves r (take (length (om_orders s)) (om_orders s') ! n)"
    "take (length (om_orders s)) (om_orders s') ! n \<in> set (om_orders s')"
    by (auto simp: list_all2_conv_all_nth intro!: in_set_takeD [OF nth_mem])
  then show ?thesis by blast
qed

lemma oms_run_ok: "oms_step\<^sup>*\<^sup>* s s' \<Longrightarrow> oms_ok s \<Longrightarrow> oms_ok s'"
  by (induction rule: rtranclp_induct) (use oms_step_table in blast)+

lemma terminal_row_stays:
  assumes "oms_step\<^sup>*\<^sup>* s s'" "oms_ok s" "r \<in> set (om_orders s)" "terminal (or_status r)"
  shows "r \<in> set (om_orders s')"
  using assms(1)
proof (induction rule: rtranclp_induct)
  case (step y z)
  then obtain r' where r': "r' \<in> set (om_orders z)" "row_evolves r r'"
    using oms_step_rows [OF step(2) oms_run_ok [OF step(1) assms(2)]] by blast
  have "stages_left (or_status r) = 0" using assms(4) by (auto simp: terminal_iff)
  then have "r' = r" using r'(2) order_table.last_stage by (auto simp: row_evolves_def order_step_iff)
  with r' show ?case by simp
qed (use assms in simp)

text \<open>C1: from an empty table, whatever orders are placed and synchronised in whatever order and
  whatever the exchange answers, ids stay unique, no order is left pending after an operation, and an
  order without an exchange id is rejected, closed, and carries the reason.\<close>

theorem order_table_invariant:
  assumes "om_orders s0 = []" "oms_step\<^sup>*\<^sup>* s0 s"
  shows "oms_ok s"
  using oms_run_ok [OF assms(2)] assms(1) by (simp add: oms_ok_def)

text \<open>C2: an order that reached a terminal status is final: no later sequence of operations changes any
  field of its row or removes it.\<close>

theorem terminal_orders_are_final:
  assumes "om_orders s0 = []" "oms_step\<^sup>*\<^sup>* s0 s" "r \<in> set (om_orders s)" "terminal (or_status r)"
    and "oms_step\<^sup>*\<^sup>* s s'"
  shows "r \<in> set (om_orders s')"
  using terminal_row_stays [OF assms(5) _ assms(3,4)] oms_run_ok [OF assms(2)] assms(1) by (simp add: oms_ok_def)

text \<open>C3: placing an order has three outcomes. Either it fails before the row exists, and no
  order and no execution event is written; or it fails at the exchange, and exactly one order is
  added, rejected with that error and closed, with one rejection event; or it succeeds, and exactly
  one order is added, the one returned, in a status the table allows after submission, with one
  submission event.\<close>

theorem place_order_outcomes:
  assumes "e_newOrderId env \<notin> or_id ` set (om_orders s)" "placeOrder env input s = (r, s')"
  shows "(\<exists>e. r = Inl e \<and> om_orders s' = om_orders s \<and> om_events s' = om_events s) \<or>
     (\<exists>e row. r = Inl e \<and> om_orders s' = om_orders s @ [row] \<and> or_status row = REJECTED \<and>
        or_rejectReason row = Some e \<and> or_closedAt row = Some (e_now env) \<and>
        om_events s' = om_events s @ [\<lparr>ee_user = in_userId input, ee_order = or_id row, ee_type = EV_ORDER_REJECTED\<rparr>]) \<or>
     (\<exists>row. r = Inr row \<and> om_orders s' = om_orders s @ [row] \<and> order_step PENDING_SUBMIT (or_status row) \<and>
        or_exchangeOrderId row \<noteq> None \<and>
        om_events s' = om_events s @ [\<lparr>ee_user = in_userId input, ee_order = or_id row, ee_type = ORDER_SUBMITTED\<rparr>])"
  using assms(2)
proof (cases rule: placeOrder_cases)
  case (created c qty s0)
  have "e_newOrderId env \<notin> or_id ` set (om_orders s0)" using assms(1) created(2) by simp
  from create_and_submit_orders [OF this created(1)] create_and_submit_events [OF created(1)] show ?thesis
    by (cases r) (auto simp: created(2,3) rejected_row_def submitted_row_def pending_row_def)
qed simp

section \<open>Gaps\<close>

text \<open>An order whose submission already came back filled never gets a closing time: the row is
  returned and stored without one, its status is terminal, and no later operation changes the row.\<close>

theorem filled_on_submission_never_closed:
  assumes "om_orders s0 = []" "oms_step\<^sup>*\<^sup>* s0 s" "e_newOrderId env \<notin> or_id ` set (om_orders s)"
    and "placeOrder env input s = (Inr row, s')" "or_status row = FILLED" "oms_step\<^sup>*\<^sup>* s' s''"
  shows "row \<in> set (om_orders s'') \<and> or_closedAt row = None"
proof -
  have ok: "oms_ok s" using oms_run_ok [OF assms(2)] assms(1) by (simp add: oms_ok_def)
  have step: "oms_step s s'" using assms(3,4) by (rule oms_step.place)
  from assms(4) have "row \<in> set (om_orders s') \<and> or_closedAt row = None"
  proof (cases rule: placeOrder_cases)
    case (created c qty st)
    have "e_newOrderId env \<notin> or_id ` set (om_orders st)" using assms(3) created(2) by simp
    from create_and_submit_orders [OF this created(1)] show ?thesis
      by (auto simp: submitted_row_def pending_row_def)
  qed simp
  then show ?thesis
    using terminal_row_stays [OF assms(6)] oms_step_table [OF step ok] assms(5) by (auto simp: terminal_def)
qed

lemma sync_unchanged:
  assumes "find_first (\<lambda>r. or_id r = i \<and> or_user r = u) id (om_orders s) = Some row"
    "given (or_exchangeOrderId row) = Some x" "connection_of s row = Some c"
    "query_remote env c row x = Inr remote" "rm_status remote = status_name (or_status row)"
  shows "syncOrderStatus env u i s =
     (Inl (InvalidTransition (or_status row) (status_name (or_status row))), s)"
  using assms order_table.not_itself [of "or_status row"] by (simp add: syncOrderStatus_def)

text \<open>Synchronising an order whose status at the exchange has not changed is an error and writes
  nothing, so the fills the exchange reports for an order that is still partially filled never
  reach the table.\<close>

theorem sync_of_unchanged_status_fails:
  assumes "row \<in> set (om_orders s)" "oms_ok s" "or_exchangeOrderId row = Some x" "x \<noteq> []"
    and "connection_of s row = Some c" "query_remote env c row x = Inr remote"
    and "rm_status remote = status_name (or_status row)"
  shows "syncOrderStatus env (or_user row) (or_id row) s =
     (Inl (InvalidTransition (or_status row) (status_name (or_status row))), s)"
proof (rule sync_unchanged)
  show "find_first (\<lambda>r. or_id r = or_id row \<and> or_user r = or_user row) id (om_orders s) = Some row"
  proof (cases "find_first (\<lambda>r. or_id r = or_id row \<and> or_user r = or_user row) id (om_orders s)")
    case None
    with assms(1) show ?thesis by (auto simp: find_first_None)
  next
    case (Some r)
    from find_first_Some [OF Some] have "r \<in> set (om_orders s)" "or_id r = or_id row" by auto
    then have "r = row" using same_id_same_row assms(1,2) by (auto simp: oms_ok_def)
    with Some show ?thesis by simp
  qed
qed (use assms in \<open>auto simp: given_def\<close>)

text \<open>The notional limit of the risk check is blind to the market price of an order without a
  price: a base quantity that is a number no larger than the dollar limit passes the limit whatever
  the asset costs, because the check multiplies by 1.\<close>

theorem unpriced_order_checked_at_price_one:
  assumes "in_price input = None" "in_quoteOrderQty input = None" "in_quantity input = Fin q"
    and "is_double (Fin q)" "active_rule (in_userId input) rules = Some rule"
    and "rr_maxOrderNotional rule = Some (Fin m)" "q \<le> m" "rr_maxDailyLoss rule = None"
  shows "checkRisk rules trades now (risk_input input) = (None, [])"
proof -
  have "check_notional (risk_input input) = fl q"
    using assms(1-3) by (simp add: check_notional_def risk_input_def number_or_def truthy_def)
  then have "check_notional (risk_input input) = Fin q" by (simp only: fl_id [OF assms(4)])
  then show ?thesis using assms(5-8) by (simp add: checkRisk_def risk_input_def Let_def)
qed

section \<open>A concrete run\<close>

definition demo_remote :: "string \<Rightarrow> remote_order" where
  "demo_remote st = \<lparr>rm_status = st, rm_orderId = ''77'', rm_price = None, rm_executedQty = Some ''2'',
     rm_cummulativeQuoteQty = Some ''9''\<rparr>"

definition demo_oms_env :: "string \<Rightarrow> oms_env" where
  "demo_oms_env st = \<lparr>e_now = 1000, e_fetch = (\<lambda>_. Inl MissingLotFilters), e_decrypt = Inr,
     e_send = (\<lambda>_ _ _ _ _. Inr (demo_remote st)), e_newOrderId = ''o1'', e_newClientId = ''cf_1'', e_col = id\<rparr>"

definition demo_input :: CreateOrderInput where
  "demo_input = \<lparr>in_userId = ''u'', in_connectionId = ''c1'', in_symbol = ''BTCUSDT'', in_side = BUY, in_type = MARKET,
     in_quantity = Fin 2, in_quoteOrderQty = None, in_price = None, in_timeInForce = None, in_stopLossPrice = None,
     in_takeProfitPrice = None, in_trailingPercent = None\<rparr>"

definition demo_oms :: oms where
  "demo_oms = \<lparr>om_connections = [demo_connection], om_rules = [], om_trades = [], om_cache = Map.empty, om_orders = [],
     om_events = [], om_riskEvents = []\<rparr>"

definition demo_oms_after :: "string \<Rightarrow> oms" where
  "demo_oms_after st = snd (placeOrder (demo_oms_env st) demo_input demo_oms)"

definition demo_row :: "string \<Rightarrow> order_row" where
  "demo_row st = hd (om_orders (demo_oms_after st))"

lemma demo_rows_run:
  "map (\<lambda>r. (or_status r, or_exchangeOrderId r, or_user r, or_id r)) (om_orders (demo_oms_after ''FILLED'')) =
     [(FILLED, Some ''77'', ''u'', ''o1'')]"
  "map (\<lambda>r. (or_status r, or_exchangeOrderId r, or_user r, or_id r)) (om_orders (demo_oms_after ''NEW'')) =
     [(NEW, Some ''77'', ''u'', ''o1'')]"
  by code_simp+

lemma demo_rows:
  "om_orders (demo_oms_after ''FILLED'') = [demo_row ''FILLED'']" "or_status (demo_row ''FILLED'') = FILLED"
  "om_orders (demo_oms_after ''NEW'') = [demo_row ''NEW'']" "or_status (demo_row ''NEW'') = NEW"
  "or_exchangeOrderId (demo_row ''NEW'') = Some ''77''" "or_user (demo_row ''NEW'') = ''u''"
  "or_id (demo_row ''NEW'') = ''o1''"
  using demo_rows_run by (auto simp: demo_row_def map_eq_Cons_conv)

lemma demo_place: "placeOrder (demo_oms_env st) demo_input demo_oms = (fst (placeOrder (demo_oms_env st) demo_input demo_oms), demo_oms_after st)"
  by (simp add: demo_oms_after_def)

lemma demo_fresh: "e_newOrderId (demo_oms_env st) \<notin> or_id ` set (om_orders demo_oms)"
  by (simp add: demo_oms_def)

lemma demo_step: "oms_step demo_oms (demo_oms_after st)"
  using demo_fresh demo_place by (rule oms_step.place)

lemma demo_empty: "om_orders demo_oms = []"
  by (simp add: demo_oms_def)

theorem order_table_invariant_witness: "oms_ok (demo_oms_after ''NEW'')"
  by (rule order_table_invariant [OF demo_empty r_into_rtranclp [of oms_step, OF demo_step]])

theorem terminal_orders_are_final_witness: "demo_row ''FILLED'' \<in> set (om_orders (demo_oms_after ''FILLED''))"
  by (rule terminal_orders_are_final [OF demo_empty r_into_rtranclp [of oms_step, OF demo_step] _ _ rtranclp.rtrancl_refl])
     (simp_all add: demo_rows terminal_def)

theorem place_order_outcomes_witness:
  "\<exists>row. om_orders (demo_oms_after ''NEW'') = om_orders demo_oms @ [row] \<and>
     (or_status row = REJECTED \<or> order_step PENDING_SUBMIT (or_status row))"
  using place_order_outcomes [OF demo_fresh demo_place, of "''NEW''"] demo_rows(3) demo_empty by auto

lemma demo_filled:
  "placeOrder (demo_oms_env ''FILLED'') demo_input demo_oms = (Inr (demo_row ''FILLED''), demo_oms_after ''FILLED'')"
proof -
  have "fst (placeOrder (demo_oms_env ''FILLED'') demo_input demo_oms) = Inr (demo_row ''FILLED'')"
    unfolding demo_row_def demo_oms_after_def by code_simp
  then show ?thesis by (simp add: demo_oms_after_def prod_eq_iff)
qed

theorem filled_on_submission_never_closed_witness:
  "demo_row ''FILLED'' \<in> set (om_orders (demo_oms_after ''FILLED'')) \<and> or_closedAt (demo_row ''FILLED'') = None"
  by (rule filled_on_submission_never_closed [OF demo_empty rtranclp.rtrancl_refl demo_fresh demo_filled demo_rows(2)
        rtranclp.rtrancl_refl])

theorem sync_of_unchanged_status_fails_witness:
  "syncOrderStatus (demo_oms_env ''NEW'') ''u'' ''o1'' (demo_oms_after ''NEW'') =
     (Inl (InvalidTransition NEW ''NEW''), demo_oms_after ''NEW'')"
proof -
  have ok: "oms_ok (demo_oms_after ''NEW'')" using oms_step_table [OF demo_step] by (simp add: oms_ok_def demo_empty)
  have c: "connection_of (demo_oms_after ''NEW'') (demo_row ''NEW'') = Some demo_connection"
    "query_remote (demo_oms_env ''NEW'') demo_connection (demo_row ''NEW'') ''77'' = Inr (demo_remote ''NEW'')"
    by code_simp+
  have st: "rm_status (demo_remote ''NEW'') = status_name (or_status (demo_row ''NEW''))"
    by (simp add: demo_remote_def demo_rows(4))
  show ?thesis
    using sync_of_unchanged_status_fails [OF _ ok demo_rows(5) _ c st] by (simp add: demo_rows)
qed

theorem unpriced_order_checked_at_price_one_witness:
  "checkRisk [demo_rule\<lparr>rr_maxDailyLoss := None\<rparr>] [] 0 (risk_input demo_input) = (None, [])"
proof (rule unpriced_order_checked_at_price_one [where q = 2 and m = 100 and rule = "demo_rule\<lparr>rr_maxDailyLoss := None\<rparr>"])
  have "fl 2 = Fin 2" by code_simp
  then show "is_double (Fin 2)" by (metis is_double_fl)
qed (simp_all add: demo_input_def demo_rule_def active_rule_def find_first_def find_many_def order_desc_def)

end
