(* ===== verification/LiveOrderSizing.thy ===== *)
theory LiveOrderSizing
  imports BinanceExecutor
begin

text \<open>
  Sizing of live orders (\<open>services/exchange/liveOrderSizing.ts\<close>) and the executor that sends
  them with the server's own keys (\<open>services/exchange/strictExecutor.ts\<close>). The exchange's answers,
  the JSON reading of an error body and \<open>Math.log10\<close>, whose last digits the language leaves open, are
  parameters.
\<close>

section \<open>Order size\<close>

record LiveOrderSizeInput =
  freeUsdt :: number
  tradeSizePct :: number
  requestedOrderSizeUsdt :: "number option"
  maxOrderNotional :: "number option"
  envMaxOrderUsdt :: "number option"
  maxFreeFraction :: "number option"
  minOrderUsdt :: "number option"

record size_caps =
  fromPct :: number
  fromRequested :: "number option"
  fromRiskRule :: "number option"
  fromEnv :: "number option"
  fromFreeBuffer :: number

datatype size_reason =
    PercentOfFree number number
  | RequestedCap number
  | RiskRuleCap number
  | EnvCap number
  | FreeBufferCap number number
  | BelowMinimum number number

record LiveOrderSizeResult =
  orderSizeUsdt :: number
  caps :: size_caps
  size_reasons :: "size_reason list"

definition finitePositive :: "number option \<Rightarrow> bool" where
  "finitePositive n = (case n of None \<Rightarrow> False | Some x \<Rightarrow> is_finite x \<and> Fin 0 < x)"

definition floorUsdt :: "number \<Rightarrow> number" where
  "floorUsdt n = math_floor (n * Fin 100) / Fin 100"

definition optional_cap :: "number option \<Rightarrow> number option" where
  "optional_cap n = (if finitePositive n then map_option floorUsdt n else None)"

text \<open>One of the chained tests: a cap below the order so far replaces it and leaves a reason.\<close>

definition apply_cap :: "number option \<Rightarrow> (number \<Rightarrow> size_reason) \<Rightarrow> number \<times> size_reason list \<Rightarrow> number \<times> size_reason list" where
  "apply_cap cap reason st =
     (case cap of None \<Rightarrow> st | Some c \<Rightarrow> if c < fst st then (c, snd st @ [reason c]) else st)"

definition live_free :: "LiveOrderSizeInput \<Rightarrow> number" where
  "live_free input = (if finitePositive (Some (freeUsdt input)) then freeUsdt input else Fin 0)"

definition live_pct :: "LiveOrderSizeInput \<Rightarrow> number" where
  "live_pct input = math_min (Fin 100) (math_max (Fin 10) (number_or (tradeSizePct input) (Fin 50)))"

definition live_fraction :: "LiveOrderSizeInput \<Rightarrow> number" where
  "live_fraction input =
     (case maxFreeFraction input of None \<Rightarrow> lit (95/100)
      | Some m \<Rightarrow> if finitePositive (Some m) \<and> m \<le> Fin 1 then m else lit (95/100))"

definition live_caps :: "LiveOrderSizeInput \<Rightarrow> size_caps" where
  "live_caps input =
     \<lparr>fromPct = floorUsdt (live_free input * (live_pct input / Fin 100)),
      fromRequested = optional_cap (requestedOrderSizeUsdt input),
      fromRiskRule = optional_cap (maxOrderNotional input), fromEnv = optional_cap (envMaxOrderUsdt input),
      fromFreeBuffer = floorUsdt (live_free input * live_fraction input)\<rparr>"

definition live_cap_list :: "LiveOrderSizeInput \<Rightarrow> (number option \<times> (number \<Rightarrow> size_reason)) list" where
  "live_cap_list input =
     (let cs = live_caps input in
      [(fromRequested cs, RequestedCap), (fromRiskRule cs, RiskRuleCap), (fromEnv cs, EnvCap),
       (Some (fromFreeBuffer cs), FreeBufferCap (math_round (live_fraction input * Fin 100)))])"

definition capped_order :: "LiveOrderSizeInput \<Rightarrow> number \<times> size_reason list" where
  "capped_order input =
     foldl (\<lambda>st (cap, reason). apply_cap cap reason st)
       (fromPct (live_caps input), [PercentOfFree (live_pct input) (fromPct (live_caps input))]) (live_cap_list input)"

definition computeLiveOrderSize :: "LiveOrderSizeInput \<Rightarrow> LiveOrderSizeResult" where
  "computeLiveOrderSize input =
     (let minOrder = (if finitePositive (minOrderUsdt input) then nullish (minOrderUsdt input) (Fin 5) else Fin 5);
          (order, rs) = capped_order input;
          final = floorUsdt order in
      \<lparr>orderSizeUsdt = final, caps = live_caps input,
       size_reasons = (if final < minOrder then rs @ [BelowMinimum minOrder (live_pct input)] else rs)\<rparr>)"

section \<open>The strict executor\<close>

datatype error_type = VALIDATION_ERROR | BINANCE_ERROR | NETWORK_ERROR

datatype trade_message =
    Msg string
  | SymbolMissing string
  | QuantityTooSmall number number
  | QuantityTooLarge number number
  | NotionalTooSmall number number

record TradeError =
  te_type :: error_type
  te_code :: "int option"
  te_reason :: "string option"
  te_message :: trade_message

record SymbolFilters =
  sf_minQty :: number
  sf_maxQty :: number
  sf_stepSize :: number
  sf_minNotional :: number

text \<open>The known error codes and the reason each is given.\<close>

definition api_error_reason :: "int \<Rightarrow> string option" where
  "api_error_reason code = map_of [(-1013, ''MIN_NOTIONAL''), (-2010, ''INSUFFICIENT_BALANCE''), (-1022, ''SIGNATURE_ERROR''),
     (-2015, ''INVALID_API_KEY''), (-1111, ''PRECISION''), (-1021, ''TIMESTAMP'')] code"

definition parseApiError :: "(string \<Rightarrow> (int option \<times> string option) option) \<Rightarrow> string \<Rightarrow> TradeError" where
  "parseApiError json body =
     (let (code, msg) = (case json body of None \<Rightarrow> (0, body) | Some (c, m) \<Rightarrow> (nullish c 0, nullish m body)) in
      \<lparr>te_type = BINANCE_ERROR, te_code = Some code,
       te_reason = Some (nullish (api_error_reason code) ''UNKNOWN''), te_message = Msg msg\<rparr>)"

definition getBalance :: "(string \<times> string) list \<Rightarrow> string \<Rightarrow> number" where
  "getBalance balances asset = (case find (\<lambda>b. fst b = asset) balances of None \<Rightarrow> Fin 0 | Some b \<Rightarrow> parse_float (snd b))"

definition getPrice :: "string option \<Rightarrow> number" where
  "getPrice price = parse_float (nullish price ''0'')"

definition filter_field :: "BinanceFilter \<Rightarrow> string \<Rightarrow> string \<Rightarrow> number" where
  "filter_field f k d = parse_float (nullish (map_of (extra f) k) d)"

definition apply_filter :: "SymbolFilters \<Rightarrow> BinanceFilter \<Rightarrow> SymbolFilters" where
  "apply_filter s f =
     (let s1 = (if filterType f = ''LOT_SIZE''
                then s\<lparr>sf_minQty := filter_field f ''minQty'' ''0'', sf_maxQty := filter_field f ''maxQty'' ''999999'',
                       sf_stepSize := filter_field f ''stepSize'' ''0.00001''\<rparr> else s) in
      if filterType f = ''NOTIONAL'' \<or> filterType f = ''MIN_NOTIONAL''
      then s1\<lparr>sf_minNotional := filter_field f ''minNotional'' ''10''\<rparr> else s1)"

definition strict_getSymbolInfo :: "BinanceSymbolInfo list \<Rightarrow> string \<Rightarrow> TradeError + SymbolFilters" where
  "strict_getSymbolInfo symbols symbol =
     (case symbols of [] \<Rightarrow> Inl \<lparr>te_type = VALIDATION_ERROR, te_code = None, te_reason = None, te_message = SymbolMissing symbol\<rparr>
      | row # _ \<Rightarrow> Inr (foldl apply_filter
          \<lparr>sf_minQty = Fin 0, sf_maxQty = Fin 999999, sf_stepSize = lit (1/100000), sf_minNotional = Fin 10\<rparr>
          (info_filters row)))"

definition roundToStep :: "(number \<Rightarrow> number) \<Rightarrow> number \<Rightarrow> number \<Rightarrow> number" where
  "roundToStep log10 qty step =
     (if step \<le> Fin 0 then qty
      else (let precision = math_max (Fin 0) (math_ceil (- log10 step)) in
            parse_float (to_fixed (math_floor (qty / step) * step) (nat (int_of_number precision)))))"

definition validateOrder :: "number \<Rightarrow> number \<Rightarrow> SymbolFilters \<Rightarrow> TradeError option" where
  "validateOrder qty price filters =
     (let err = (\<lambda>r m. Some \<lparr>te_type = VALIDATION_ERROR, te_code = None, te_reason = Some r, te_message = m\<rparr>) in
      if qty < sf_minQty filters then err ''LOT_SIZE'' (QuantityTooSmall qty (sf_minQty filters))
      else if sf_maxQty filters < qty then err ''LOT_SIZE'' (QuantityTooLarge qty (sf_maxQty filters))
      else let notional = qty * price in
      if notional < sf_minNotional filters then err ''MIN_NOTIONAL'' (NotionalTooSmall notional (sf_minNotional filters))
      else None)"

record strict_order =
  so_orderId :: string
  so_executedQty :: string
  so_status :: string

text \<open>What the exchange answers: public data, or what a call throws, and the answer to the order.\<close>

record strict_exchange =
  sx_info :: "TradeError + BinanceSymbolInfo list"
  sx_price :: "TradeError + string option"
  sx_post :: "(string \<times> string) list \<Rightarrow> (TradeError + string) + strict_order"

datatype trade_result = Thrown TradeError | Refused TradeError | Placed strict_order

definition send_params :: "strict_exchange \<Rightarrow> (string \<times> string) list \<Rightarrow> trade_result" where
  "send_params ex ps =
     (case sx_post ex ps of Inr r \<Rightarrow> Placed r
      | Inl (Inl e) \<Rightarrow> Refused e
      | Inl (Inr txt) \<Rightarrow> Refused \<lparr>te_type = NETWORK_ERROR, te_code = None, te_reason = None, te_message = Msg txt\<rparr>)"

definition strict_placeMarketOrder ::
  "(number \<Rightarrow> number) \<Rightarrow> strict_exchange \<Rightarrow> string \<Rightarrow> string \<Rightarrow> number option \<Rightarrow> number option \<Rightarrow>
   trade_result \<times> (string \<times> string) list list" where
  "strict_placeMarketOrder log10 ex symbol side quoteQtyUsdt baseQty =
     (let params = [(''symbol'', symbol), (''side'', side), (''type'', ''MARKET'')];
          quote = nullish quoteQtyUsdt (Fin 0); base = nullish baseQty (Fin 0);
          send = (\<lambda>ps. (send_params ex ps, [ps])) in
      if side = ''BUY'' \<and> truthy quote
      then send (params @ [(''quoteOrderQty'', number_to_string (math_floor (quote * Fin 100) / Fin 100))])
      else if truthy base then
        (case sx_info ex of Inl e \<Rightarrow> (Thrown e, [])
         | Inr symbols \<Rightarrow>
         case strict_getSymbolInfo symbols symbol of Inl e \<Rightarrow> (Thrown e, [])
         | Inr filters \<Rightarrow>
         let rounded = roundToStep log10 base (sf_stepSize filters) in
         case sx_price ex of Inl e \<Rightarrow> (Thrown e, [])
         | Inr p \<Rightarrow>
         case validateOrder rounded (getPrice p) filters of Some e \<Rightarrow> (Refused e, [])
         | None \<Rightarrow> send (params @ [(''quantity'', number_to_string rounded)]))
      else (Refused \<lparr>te_type = VALIDATION_ERROR, te_code = None, te_reason = None,
                     te_message = Msg ''No quantity provided for order''\<rparr>, []))"

section \<open>The order size stays within every cap\<close>

lemma math_floor_mono: "a \<le> b \<Longrightarrow> math_floor a \<le> math_floor b"
  by (cases a; cases b) (auto intro: floor_mono)

lemma floorUsdt_mono: "a \<le> b \<Longrightarrow> floorUsdt a \<le> floorUsdt b"
  unfolding floorUsdt_def by (intro number_div_pos_mono math_floor_mono number_mult_pos_mono) simp_all

lemma floorUsdt_zero: "floorUsdt (Fin 0) = Fin 0"
  by (simp add: floorUsdt_def)

lemma floorUsdt_nonneg: "Fin 0 \<le> a \<Longrightarrow> Fin 0 \<le> floorUsdt a"
  using floorUsdt_mono [of "Fin 0" a] unfolding floorUsdt_zero .

lemma nonneg_not_NaN: "Fin 0 \<le> a \<Longrightarrow> a \<noteq> NaN"
  by auto

lemma apply_cap_le:
  assumes "Fin 0 \<le> fst st" "\<And>c. cap = Some c \<Longrightarrow> Fin 0 \<le> c"
  shows "Fin 0 \<le> fst (apply_cap cap r st)" "fst (apply_cap cap r st) \<le> fst st"
    "cap = Some c \<Longrightarrow> fst (apply_cap cap r st) \<le> c"
  using assms nonneg_not_NaN number_not_less [of c "fst st"]
  by (auto simp: apply_cap_def number_le_refl number_less_imp_le split: option.splits)

lemma capped_by_all:
  assumes "Fin 0 \<le> fst st" "\<And>c r. (Some c, r) \<in> set cs \<Longrightarrow> Fin 0 \<le> c"
  shows "Fin 0 \<le> fst (foldl (\<lambda>st (cap, r). apply_cap cap r st) st cs) \<and>
     fst (foldl (\<lambda>st (cap, r). apply_cap cap r st) st cs) \<le> fst st \<and>
     (\<forall>c r. (Some c, r) \<in> set cs \<longrightarrow> fst (foldl (\<lambda>st (cap, r). apply_cap cap r st) st cs) \<le> c)"
  using assms
proof (induction cs arbitrary: st)
  case Nil
  then show ?case by (simp add: number_le_refl nonneg_not_NaN)
next
  case (Cons x cs)
  obtain cap r where x: "x = (cap, r)" by (cases x)
  have c: "Fin 0 \<le> c" if "cap = Some c" for c using that Cons.prems(2) x by auto
  let ?s = "apply_cap cap r st" and ?f = "\<lambda>st. fst (foldl (\<lambda>st (cap, r). apply_cap cap r st) st cs)"
  have s: "Fin 0 \<le> fst ?s" "fst ?s \<le> fst st" "\<And>c. cap = Some c \<Longrightarrow> fst ?s \<le> c"
    using apply_cap_le [where st = st and cap = cap and r = r] Cons.prems(1) c by blast+
  have ih: "Fin 0 \<le> ?f ?s \<and> ?f ?s \<le> fst ?s \<and> (\<forall>c r. (Some c, r) \<in> set cs \<longrightarrow> ?f ?s \<le> c)"
    using s(1) Cons.prems(2) by (intro Cons.IH) auto
  have "?f ?s \<le> fst st" "\<And>c. cap = Some c \<Longrightarrow> ?f ?s \<le> c"
    using ih s(2,3) number_le_trans by blast+
  with ih show ?case unfolding x by auto
qed

lemma optional_cap_nonneg: "optional_cap n = Some c \<Longrightarrow> Fin 0 \<le> c"
  by (auto simp: optional_cap_def finitePositive_def split: if_splits option.splits
      dest!: number_less_imp_le intro!: floorUsdt_nonneg)

lemma live_pct_range: "\<exists>p. live_pct i = Fin p \<and> 10 \<le> p \<and> p \<le> 100"
  by (cases "tradeSizePct i") (auto simp: live_pct_def number_or_def truthy_def math_min_def math_max_def)

lemma live_free_nonneg: "\<exists>f. live_free i = Fin f \<and> 0 \<le> f"
  by (cases "freeUsdt i") (auto simp: live_free_def finitePositive_def)

lemma mult_nonneg: "0 \<le> f \<Longrightarrow> Fin 0 \<le> a \<Longrightarrow> is_finite a \<Longrightarrow> Fin 0 \<le> Fin f * a"
  by (cases a) (auto intro: fl_nonneg)

lemma pct_fraction: "0 \<le> p \<Longrightarrow> p \<le> 100 \<Longrightarrow> Fin 0 \<le> Fin p / Fin 100 \<and> is_finite (Fin p / Fin 100)"
proof -
  assume p: "0 \<le> p" "p \<le> 100"
  then have "fl (p / 100) \<le> fl 1" by (intro fl_mono) simp
  moreover have "fl 1 = Fin 1" by code_simp
  moreover have "Fin 0 \<le> fl (p / 100)" using p by (intro fl_nonneg) simp
  ultimately show ?thesis by (cases "fl (p / 100)") auto
qed

lemma live_fraction_range: "Fin 0 \<le> live_fraction i \<and> is_finite (live_fraction i)"
proof -
  have "Fin 0 \<le> lit (95/100)" "is_finite (lit (95/100))" by code_simp+
  then show ?thesis by (auto simp: live_fraction_def finitePositive_def dest: number_less_imp_le split: option.splits)
qed

lemma live_caps_nonneg: "Fin 0 \<le> fromPct (live_caps i)" "Fin 0 \<le> fromFreeBuffer (live_caps i)"
proof -
  obtain p where p: "live_pct i = Fin p" "10 \<le> p" "p \<le> 100" using live_pct_range by blast
  obtain f where f: "live_free i = Fin f" "0 \<le> f" using live_free_nonneg by blast
  have "Fin 0 \<le> Fin p / Fin 100 \<and> is_finite (Fin p / Fin 100)" using p by (intro pct_fraction) auto
  then show "Fin 0 \<le> fromPct (live_caps i)"
    unfolding live_caps_def p f by (simp only: size_caps.simps) (intro floorUsdt_nonneg mult_nonneg f; simp)
  show "Fin 0 \<le> fromFreeBuffer (live_caps i)"
    using live_fraction_range unfolding live_caps_def f
    by (simp only: size_caps.simps) (intro floorUsdt_nonneg mult_nonneg f; simp)
qed

lemma live_cap_list_nonneg: "(Some c, r) \<in> set (live_cap_list i) \<Longrightarrow> Fin 0 \<le> c"
  using optional_cap_nonneg live_caps_nonneg(2) [of i]
  by (auto simp: live_cap_list_def live_caps_def Let_def dest!: sym [of "Some c"])

lemma capped_order_le:
  "Fin 0 \<le> fst (capped_order i)" "fst (capped_order i) \<le> fromPct (live_caps i)"
  "(Some c, r) \<in> set (live_cap_list i) \<Longrightarrow> fst (capped_order i) \<le> c"
  using capped_by_all [of "(fromPct (live_caps i), [PercentOfFree (live_pct i) (fromPct (live_caps i))])" "live_cap_list i"]
    live_cap_list_nonneg live_caps_nonneg(1) [of i]
  by (auto simp: capped_order_def)

lemma optional_cap_listed:
  assumes "c \<in> {requestedOrderSizeUsdt i, maxOrderNotional i, envMaxOrderUsdt i}" "c = Some x" "is_finite x" "Fin 0 < x"
  shows "\<exists>r. (Some (floorUsdt x), r) \<in> set (live_cap_list i)"
proof -
  have "optional_cap (Some x) = Some (floorUsdt x)" using assms(3,4) by (simp add: optional_cap_def finitePositive_def)
  then show ?thesis using assms(1,2) by (auto simp: live_cap_list_def live_caps_def Let_def)
qed

text \<open>The live order size is never negative and never above any of its caps, each rounded down to
  cents: the percentage of the free balance, the free balance buffer, and, where they are positive
  numbers, the requested size, the risk rule's limit and the operator's limit; whatever numbers,
  NaN and infinities included, the inputs are.\<close>

theorem live_order_size_within_caps:
  "Fin 0 \<le> orderSizeUsdt (computeLiveOrderSize i) \<and>
   orderSizeUsdt (computeLiveOrderSize i) \<le> floorUsdt (fromPct (live_caps i)) \<and>
   orderSizeUsdt (computeLiveOrderSize i) \<le> floorUsdt (fromFreeBuffer (live_caps i)) \<and>
   (\<forall>c \<in> {requestedOrderSizeUsdt i, maxOrderNotional i, envMaxOrderUsdt i}. \<forall>x.
      c = Some x \<and> is_finite x \<and> Fin 0 < x \<longrightarrow> orderSizeUsdt (computeLiveOrderSize i) \<le> floorUsdt (floorUsdt x))"
proof -
  have o: "orderSizeUsdt (computeLiveOrderSize i) = floorUsdt (fst (capped_order i))"
    by (simp add: computeLiveOrderSize_def Let_def case_prod_beta)
  have cap: "fst (capped_order i) \<le> floorUsdt x"
    if "c \<in> {requestedOrderSizeUsdt i, maxOrderNotional i, envMaxOrderUsdt i}" "c = Some x \<and> is_finite x \<and> Fin 0 < x" for c x
    using optional_cap_listed [OF that(1)] that(2) capped_order_le(3) [of "floorUsdt x"] by blast
  have buf: "(Some (fromFreeBuffer (live_caps i)), FreeBufferCap (math_round (live_fraction i * Fin 100))) \<in> set (live_cap_list i)"
    by (simp add: live_cap_list_def Let_def)
  show ?thesis unfolding o
    by (intro conjI ballI allI impI floorUsdt_nonneg floorUsdt_mono capped_order_le(1,2) capped_order_le(3) [OF buf])
       (rule cap)
qed

definition demo_size_input :: LiveOrderSizeInput where
  "demo_size_input = \<lparr>freeUsdt = Fin 1000, tradeSizePct = Fin 50, requestedOrderSizeUsdt = Some (Fin 8),
     maxOrderNotional = None, envMaxOrderUsdt = None, maxFreeFraction = None, minOrderUsdt = None\<rparr>"

theorem live_order_size_within_caps_witness:
  "orderSizeUsdt (computeLiveOrderSize demo_size_input) \<le> floorUsdt (floorUsdt (Fin 8))"
proof -
  have "Some (Fin 8) \<in> {requestedOrderSizeUsdt demo_size_input, maxOrderNotional demo_size_input, envMaxOrderUsdt demo_size_input}"
    by (simp add: demo_size_input_def)
  then show ?thesis using live_order_size_within_caps [of demo_size_input] by fastforce
qed

text \<open>Rounding an amount down to cents through doubles can lose a whole cent of an amount that
  already is in cents: 8.20 becomes 8.19, so an order requested at 8.20 is sized 8.19.\<close>

theorem floorUsdt_loses_a_cent:
  "floorUsdt (lit (82/10)) = lit (819/100) \<and> to_fixed (lit (82/10)) 2 = ''8.20''"
proof
  show "floorUsdt (lit (82/10)) = lit (819/100)" by code_simp
  show "to_fixed (lit (82/10)) 2 = ''8.20''" by code_simp
qed


section \<open>What the strict executor sends\<close>

lemma validateOrder_None:
  "validateOrder q p f = None \<longleftrightarrow> \<not> q < sf_minQty f \<and> \<not> sf_maxQty f < q \<and> \<not> q * p < sf_minNotional f"
  by (simp add: validateOrder_def Let_def)

text \<open>The strict executor sends at most one order per call, and nothing when it refuses for
  validation. An order it sends by base quantity has passed the exchange's lot and notional limits
  at the price read for it, and carries exactly the quantity that was checked.\<close>

theorem strict_executor_sends_checked_orders:
  assumes "strict_placeMarketOrder log10 ex symbol side quote base = (r, sent)"
  shows "length sent \<le> 1 \<and>
     (\<forall>e. r = Thrown e \<longrightarrow> sent = []) \<and>
     (sent \<noteq> [] \<and> \<not> (side = ''BUY'' \<and> truthy (nullish quote (Fin 0))) \<longrightarrow>
       (\<exists>symbols filters p q. sx_info ex = Inr symbols \<and> strict_getSymbolInfo symbols symbol = Inr filters \<and>
          sx_price ex = Inr p \<and> q = roundToStep log10 (nullish base (Fin 0)) (sf_stepSize filters) \<and>
          \<not> q < sf_minQty filters \<and> \<not> sf_maxQty filters < q \<and> \<not> q * getPrice p < sf_minNotional filters \<and>
          sent = [[(''symbol'', symbol), (''side'', side), (''type'', ''MARKET''), (''quantity'', number_to_string q)]]))"
proof -
  have t: "send_params ex ps \<noteq> Thrown e" for ps e by (auto simp: send_params_def split: sum.splits)
  show ?thesis using assms t
    by (auto simp: strict_placeMarketOrder_def Let_def validateOrder_None split: if_splits sum.splits option.splits)
qed

definition demo_strict :: strict_exchange where
  "demo_strict = \<lparr>sx_info = Inr [\<lparr>info_symbol = ''X'', info_status = ''TRADING'', info_baseAsset = ''X'', info_quoteAsset = ''USDT'',
       info_filters = [\<lparr>filterType = ''LOT_SIZE'', extra = [(''minQty'', ''1''), (''maxQty'', ''50''), (''stepSize'', ''1'')]\<rparr>]\<rparr>],
     sx_price = Inr (Some ''4''), sx_post = (\<lambda>_. Inr \<lparr>so_orderId = ''1'', so_executedQty = ''3'', so_status = ''FILLED''\<rparr>)\<rparr>"

theorem strict_executor_sends_checked_orders_witness:
  "\<exists>q (filters :: SymbolFilters). \<not> q < sf_minQty filters \<and> \<not> sf_maxQty filters < q \<and> number_to_string q = ''3''"
proof -
  have "strict_placeMarketOrder (\<lambda>_. Fin 0) demo_strict ''X'' ''SELL'' None (Some (Fin (7/2))) =
    (Placed \<lparr>so_orderId = ''1'', so_executedQty = ''3'', so_status = ''FILLED''\<rparr>,
     [[(''symbol'', ''X''), (''side'', ''SELL''), (''type'', ''MARKET''), (''quantity'', ''3'')]])"
    by code_simp
  from strict_executor_sends_checked_orders [OF this] show ?thesis
    by auto (intro exI conjI, assumption+, rule refl)
qed

end
