(* ===== verification/ExitSettings.thy ===== *)
theory ExitSettings
  imports TtlCache
begin

text \<open>
  Per-user exit settings. \<open>services/exchange/cexExitSettingsService.ts\<close> reads them through a cache
  with an expiry and writes them to the table of its rows; \<open>services/dex/jupiterExitSettingsService.ts\<close> keeps them in memory, loads the
  stored row in the background and writes changes in the background, so its operations interleave
  with the database's answers. It also keeps the peaks of the trailing stop.
\<close>

section \<open>Settings\<close>

record exit_settings =
  xs_enabled :: bool
  xs_takeProfitPct :: number
  xs_stopLossPct :: number
  xs_profitSkim :: bool
  xs_trailingStop :: bool
  xs_trailingActivationPct :: number
  xs_trailingDeltaPct :: number

text \<open>A stored row; the columns added later may be missing.\<close>

record exit_row =
  xr_enabled :: bool
  xr_takeProfitPct :: number
  xr_stopLossPct :: number
  xr_profitSkim :: "bool option"
  xr_trailingStop :: "bool option"
  xr_trailingActivationPct :: "number option"
  xr_trailingDeltaPct :: "number option"

record exit_patch =
  xp_enabled :: "bool option"
  xp_takeProfitPct :: "number option"
  xp_stopLossPct :: "number option"
  xp_profitSkim :: "bool option"
  xp_trailingStop :: "bool option"
  xp_trailingActivationPct :: "number option"
  xp_trailingDeltaPct :: "number option"

definition clampPct :: "number \<Rightarrow> number \<Rightarrow> number \<Rightarrow> number" where
  "clampPct n mn mx = (if \<not> is_finite n then mn else math_min mx (math_max mn n))"

text \<open>Row to settings and patch over settings; the two services differ in the lower bound \<open>lo\<close>.\<close>

definition settings_of_row :: "number \<Rightarrow> exit_row \<Rightarrow> exit_settings" where
  "settings_of_row lo row =
     \<lparr>xs_enabled = xr_enabled row,
      xs_takeProfitPct = clampPct (xr_takeProfitPct row) lo (Fin 50),
      xs_stopLossPct = clampPct (xr_stopLossPct row) lo (Fin 50),
      xs_profitSkim = nullish (xr_profitSkim row) False,
      xs_trailingStop = nullish (xr_trailingStop row) False,
      xs_trailingActivationPct = clampPct (nullish (xr_trailingActivationPct row) (lit (4/5))) (lit (1/5)) (Fin 10),
      xs_trailingDeltaPct = clampPct (nullish (xr_trailingDeltaPct row) (lit (2/5))) (lit (1/10)) (Fin 10)\<rparr>"

definition patch_settings :: "number \<Rightarrow> exit_patch \<Rightarrow> exit_settings \<Rightarrow> exit_settings" where
  "patch_settings lo raw prev =
     \<lparr>xs_enabled = nullish (xp_enabled raw) (xs_enabled prev),
      xs_takeProfitPct = clampPct (nullish (xp_takeProfitPct raw) (xs_takeProfitPct prev)) lo (Fin 50),
      xs_stopLossPct = clampPct (nullish (xp_stopLossPct raw) (xs_stopLossPct prev)) lo (Fin 50),
      xs_profitSkim = nullish (xp_profitSkim raw) (xs_profitSkim prev),
      xs_trailingStop = nullish (xp_trailingStop raw) (xs_trailingStop prev),
      xs_trailingActivationPct =
        clampPct (nullish (xp_trailingActivationPct raw) (xs_trailingActivationPct prev)) (lit (1/5)) (Fin 10),
      xs_trailingDeltaPct =
        clampPct (nullish (xp_trailingDeltaPct raw) (xs_trailingDeltaPct prev)) (lit (1/10)) (Fin 10)\<rparr>"

definition row_of_settings :: "(number \<Rightarrow> number) \<Rightarrow> exit_settings \<Rightarrow> exit_row" where
  "row_of_settings col s =
     \<lparr>xr_enabled = xs_enabled s, xr_takeProfitPct = col (xs_takeProfitPct s), xr_stopLossPct = col (xs_stopLossPct s),
      xr_profitSkim = Some (xs_profitSkim s), xr_trailingStop = Some (xs_trailingStop s),
      xr_trailingActivationPct = Some (col (xs_trailingActivationPct s)),
      xr_trailingDeltaPct = Some (col (xs_trailingDeltaPct s))\<rparr>"

section \<open>The exchange book's settings\<close>

definition CEX_MIN :: number where "CEX_MIN = lit (1/5)"
definition CACHE_TTL_MS :: int where "CACHE_TTL_MS = 30000"

record cex_config =
  cx_takeProfit :: number
  cx_stopLoss :: number

definition cexExitDefaults :: "cex_config \<Rightarrow> exit_settings" where
  "cexExitDefaults cfg =
     \<lparr>xs_enabled = True, xs_takeProfitPct = clampPct (cx_takeProfit cfg) CEX_MIN (Fin 50),
      xs_stopLossPct = clampPct (cx_stopLoss cfg) CEX_MIN (Fin 50), xs_profitSkim = False, xs_trailingStop = False,
      xs_trailingActivationPct = lit (4/5), xs_trailingDeltaPct = lit (2/5)\<rparr>"

type_synonym exit_cache = "user_id \<rightharpoonup> exit_settings \<times> time"

text \<open>The database answers a read with a row or none, or fails (\<open>Inl\<close>).\<close>

type_synonym exit_db = "user_id \<Rightarrow> unit + exit_row option"

definition read_cex_settings :: "cex_config \<Rightarrow> exit_db \<Rightarrow> user_id \<Rightarrow> exit_settings option" where
  "read_cex_settings cfg db u =
     (case db u of Inl _ \<Rightarrow> None
      | Inr None \<Rightarrow> Some (cexExitDefaults cfg)
      | Inr (Some row) \<Rightarrow> Some (settings_of_row CEX_MIN row))"

definition getCexExitSettings :: "cex_config \<Rightarrow> exit_db \<Rightarrow> time \<Rightarrow> user_id \<Rightarrow> exit_cache \<Rightarrow> exit_settings \<times> exit_cache" where
  "getCexExitSettings cfg db now u cache =
     (let hit = cache u;
          load = (case read_cex_settings cfg db u of
              Some s \<Rightarrow> (s, cache(u \<mapsto> (s, now)))
            | None \<Rightarrow> (nullish (map_option fst hit) (cexExitDefaults cfg), cache)) in
      case hit of None \<Rightarrow> load
      | Some (s, t) \<Rightarrow> if now - t < CACHE_TTL_MS then (s, cache) else load)"

text \<open>The table of stored rows, and what reads of it answer while the database is up or down. Setting merges the change
  into the settings just read, writes the user's row (\<open>col\<close> is what the columns keep of a number) and then caches the
  settings; a failing write throws and leaves the table, and the cache as the read left it.\<close>

type_synonym exit_table = "user_id \<rightharpoonup> exit_row"

definition table_db :: "bool \<Rightarrow> exit_table \<Rightarrow> exit_db" where
  "table_db up tbl u = (if up then Inr (tbl u) else Inl ())"

definition setCexExitSettings ::
  "cex_config \<Rightarrow> (number \<Rightarrow> number) \<Rightarrow> bool \<Rightarrow> bool \<Rightarrow> time \<Rightarrow> user_id \<Rightarrow> exit_patch \<Rightarrow> exit_table \<times> exit_cache \<Rightarrow>
     exit_settings option \<times> exit_table \<times> exit_cache" where
  "setCexExitSettings cfg col readOk writeOk now u raw st =
     (let (tbl, cache) = st; (prev, cache1) = getCexExitSettings cfg (table_db readOk tbl) now u cache;
          next = patch_settings CEX_MIN raw prev in
      if writeOk then (Some next, tbl(u \<mapsto> row_of_settings col next), cache1(u \<mapsto> (next, now)))
      else (None, tbl, cache1))"

section \<open>The Jupiter book's settings\<close>

definition JUP_MIN :: number where "JUP_MIN = lit (1/10)"

definition jupiter_defaults :: "number \<Rightarrow> exit_settings" where
  "jupiter_defaults sl =
     \<lparr>xs_enabled = True, xs_takeProfitPct = Fin 1, xs_stopLossPct = sl, xs_profitSkim = True, xs_trailingStop = False,
      xs_trailingActivationPct = lit (4/5), xs_trailingDeltaPct = lit (2/5)\<rparr>"

text \<open>The memory of the service and what is under way in the background: reads that the database has
  not answered (\<open>None\<close>) or answered but not delivered, and writes not yet applied.\<close>

record jupiter_exits =
  jx_settings :: "user_id \<rightharpoonup> exit_settings"
  jx_hydrated :: "user_id set"
  jx_reads :: "(user_id \<times> exit_row option option) list"
  jx_writes :: "(user_id \<times> exit_settings) list"
  jx_db :: "user_id \<rightharpoonup> exit_row"
  jx_peaks :: "string \<rightharpoonup> number"

definition hydrateFromDb :: "user_id \<Rightarrow> jupiter_exits \<Rightarrow> jupiter_exits" where
  "hydrateFromDb u s =
     (if u \<in> jx_hydrated s then s
      else s\<lparr>jx_hydrated := insert u (jx_hydrated s), jx_reads := jx_reads s @ [(u, None)]\<rparr>)"

definition deliver_row :: "user_id \<Rightarrow> exit_row option \<Rightarrow> jupiter_exits \<Rightarrow> jupiter_exits" where
  "deliver_row u row s =
     (case row of None \<Rightarrow> s | Some r \<Rightarrow> s\<lparr>jx_settings := (jx_settings s)(u \<mapsto> settings_of_row JUP_MIN r)\<rparr>)"

definition getJupiterExitSettings :: "number \<Rightarrow> user_id \<Rightarrow> jupiter_exits \<Rightarrow> exit_settings \<times> jupiter_exits" where
  "getJupiterExitSettings sl u s =
     (let s1 = hydrateFromDb u s in (nullish (jx_settings s1 u) (jupiter_defaults sl), s1))"

definition setJupiterExitSettings :: "number \<Rightarrow> user_id \<Rightarrow> exit_patch \<Rightarrow> jupiter_exits \<Rightarrow> exit_settings \<times> jupiter_exits" where
  "setJupiterExitSettings sl u raw s =
     (let (prev, s1) = getJupiterExitSettings sl u s; next = patch_settings JUP_MIN raw prev in
      (next, s1\<lparr>jx_settings := (jx_settings s1)(u \<mapsto> next), jx_hydrated := insert u (jx_hydrated s1),
                jx_writes := jx_writes s1 @ [(u, next)]\<rparr>))"

definition trailingPeakKey :: "user_id \<Rightarrow> string \<Rightarrow> string" where
  "trailingPeakKey u baseSymbol = u @ '':'' @ to_upper baseSymbol"

definition getTrailingPeak :: "user_id \<Rightarrow> string \<Rightarrow> jupiter_exits \<Rightarrow> number option" where
  "getTrailingPeak u baseSymbol s = jx_peaks s (trailingPeakKey u baseSymbol)"

definition updateTrailingPeak :: "user_id \<Rightarrow> string \<Rightarrow> number \<Rightarrow> jupiter_exits \<Rightarrow> number \<times> jupiter_exits" where
  "updateTrailingPeak u baseSymbol mark s =
     (let key = trailingPeakKey u baseSymbol; prev = nullish (jx_peaks s key) (Fin 0); next = math_max prev mark in
      (next, s\<lparr>jx_peaks := (jx_peaks s)(key \<mapsto> next)\<rparr>))"

definition clearTrailingPeak :: "user_id \<Rightarrow> string \<Rightarrow> jupiter_exits \<Rightarrow> jupiter_exits" where
  "clearTrailingPeak u baseSymbol s = s\<lparr>jx_peaks := (jx_peaks s)(trailingPeakKey u baseSymbol := None)\<rparr>"

text \<open>Everything that can happen: the service's calls, the database answering a read, an answer being
  delivered, a read failing, a write being applied or lost. Answers and writes may overtake each
  other.\<close>

inductive jx_step :: "number \<Rightarrow> (number \<Rightarrow> number) \<Rightarrow> jupiter_exits \<Rightarrow> jupiter_exits \<Rightarrow> bool"
  for sl :: number and col :: "number \<Rightarrow> number" where
  get: "jx_step sl col s (snd (getJupiterExitSettings sl u s))"
| set: "jx_step sl col s (snd (setJupiterExitSettings sl u raw s))"
| answer: "jx_reads s = a @ (u, None) # b \<Longrightarrow> jx_step sl col s (s\<lparr>jx_reads := a @ (u, Some (jx_db s u)) # b\<rparr>)"
| deliver: "jx_reads s = a @ (u, Some row) # b \<Longrightarrow> jx_step sl col s (deliver_row u row (s\<lparr>jx_reads := a @ b\<rparr>))"
| read_failed: "jx_reads s = a @ (u, r) # b \<Longrightarrow>
    jx_step sl col s (s\<lparr>jx_reads := a @ b, jx_hydrated := jx_hydrated s - {u}\<rparr>)"
| persist: "jx_writes s = a @ (u, x) # b \<Longrightarrow>
    jx_step sl col s (s\<lparr>jx_writes := a @ b, jx_db := (jx_db s)(u \<mapsto> row_of_settings col x)\<rparr>)"
| persist_failed: "jx_writes s = a @ (u, x) # b \<Longrightarrow> jx_step sl col s (s\<lparr>jx_writes := a @ b\<rparr>)"
| peak: "jx_step sl col s (snd (updateTrailingPeak u b m s))"
| clear: "jx_step sl col s (clearTrailingPeak u b s)"

section \<open>Settings stay within their bounds\<close>

text \<open>What the exit watchers rely on: percentages that are numbers within their limits.\<close>

definition in_range :: "number \<Rightarrow> number \<Rightarrow> number \<Rightarrow> bool" where
  "in_range lo hi x \<longleftrightarrow> lo \<le> x \<and> x \<le> hi"

definition bounded_settings :: "number \<Rightarrow> exit_settings \<Rightarrow> bool" where
  "bounded_settings lo s \<longleftrightarrow> in_range lo (Fin 50) (xs_takeProfitPct s) \<and> in_range lo (Fin 50) (xs_stopLossPct s) \<and>
     in_range (lit (1/5)) (Fin 10) (xs_trailingActivationPct s) \<and> in_range (lit (1/10)) (Fin 10) (xs_trailingDeltaPct s)"

lemma clampPct_in_range: "lo \<le> hi \<Longrightarrow> in_range lo hi (clampPct x lo hi)"
  using math_clamp_bounds [of lo hi x] number_le_not_NaN [of lo hi]
  by (cases x) (auto simp: in_range_def clampPct_def number_le_refl)

lemma clampPct_id: "in_range lo hi x \<Longrightarrow> is_finite x \<Longrightarrow> clampPct x lo hi = x"
  by (simp add: clampPct_def in_range_def math_clamp_id)

lemma exit_consts:
  "CEX_MIN \<le> Fin 50" "JUP_MIN \<le> Fin 50" "lit (1/5) \<le> Fin 10" "lit (1/10) \<le> Fin 10"
  "in_range (lit (1/5)) (Fin 10) (lit (4/5))" "in_range (lit (1/10)) (Fin 10) (lit (2/5))" "in_range JUP_MIN (Fin 50) (Fin 1)"
  unfolding CEX_MIN_def JUP_MIN_def in_range_def by code_simp+

lemma settings_of_row_bounded: "lo \<le> Fin 50 \<Longrightarrow> bounded_settings lo (settings_of_row lo r)"
  by (simp add: bounded_settings_def settings_of_row_def clampPct_in_range exit_consts)

lemma patch_settings_bounded: "lo \<le> Fin 50 \<Longrightarrow> bounded_settings lo (patch_settings lo raw prev)"
  by (simp add: bounded_settings_def patch_settings_def clampPct_in_range exit_consts)

lemma cexExitDefaults_bounded: "bounded_settings CEX_MIN (cexExitDefaults cfg)"
  by (simp add: bounded_settings_def cexExitDefaults_def clampPct_in_range exit_consts)

lemma jupiter_defaults_bounded: "in_range JUP_MIN (Fin 50) sl \<Longrightarrow> bounded_settings JUP_MIN (jupiter_defaults sl)"
  by (simp add: bounded_settings_def jupiter_defaults_def exit_consts)

text \<open>The settings cache is an instance of the cache contract, with the defaults as fallback.\<close>

interpretation cex_exits: ttl_cache "\<lambda>now u c. map_prod Some id (getCexExitSettings cfg db now u c)" id
    "read_cex_settings cfg db" "Some (cexExitDefaults cfg)" CACHE_TTL_MS
  for cfg db
  by unfold_locales
     (auto simp: getCexExitSettings_def Let_def nullish_def split: option.splits)

definition bounded_cache :: "exit_cache \<Rightarrow> bool" where
  "bounded_cache c \<longleftrightarrow> (\<forall>u s t. c u = Some (s, t) \<longrightarrow> bounded_settings CEX_MIN s)"

lemma read_cex_bounded: "read_cex_settings cfg db u = Some s \<Longrightarrow> bounded_settings CEX_MIN s"
  by (auto simp: read_cex_settings_def settings_of_row_bounded cexExitDefaults_bounded exit_consts split: sum.splits option.splits)

lemma getCex_bounded:
  assumes "bounded_cache c" "getCexExitSettings cfg db now u c = (s, c')"
  shows "bounded_settings CEX_MIN s \<and> bounded_cache c'"
  using cex_exits.answers_satisfy [of c "bounded_settings CEX_MIN" cfg db now u] assms read_cex_bounded
    cexExitDefaults_bounded by (auto simp: bounded_cache_def)

text \<open>A history of reads and writes over the table and the cache, with the database up or down at each of them.\<close>

inductive cx_step :: "cex_config \<Rightarrow> (number \<Rightarrow> number) \<Rightarrow> exit_table \<times> exit_cache \<Rightarrow> exit_table \<times> exit_cache \<Rightarrow> bool"
  for cfg :: cex_config and col :: "number \<Rightarrow> number" where
  read: "getCexExitSettings cfg (table_db up tbl) now u c = (s, c') \<Longrightarrow> cx_step cfg col (tbl, c) (tbl, c')"
| cx_write: "setCexExitSettings cfg col up ok now u raw st = (r, st') \<Longrightarrow> cx_step cfg col st st'"

lemma setCex_cases:
  assumes "setCexExitSettings cfg col up ok now u raw (tbl, c) = (r, tbl', c')"
  obtains prev c1 where "getCexExitSettings cfg (table_db up tbl) now u c = (prev, c1)"
    "if ok then r = Some (patch_settings CEX_MIN raw prev) \<and> tbl' = tbl(u \<mapsto> row_of_settings col (patch_settings CEX_MIN raw prev)) \<and>
       c' = c1(u \<mapsto> (patch_settings CEX_MIN raw prev, now))
     else r = None \<and> tbl' = tbl \<and> c' = c1"
  using assms by (auto simp: setCexExitSettings_def Let_def split: prod.splits if_splits)

lemma cx_step_bounded: "cx_step cfg col st st' \<Longrightarrow> bounded_cache (snd st) \<Longrightarrow> bounded_cache (snd st')"
proof (induction rule: cx_step.induct)
  case (read up tbl now u c s c')
  then show ?case using getCex_bounded by auto
next
  case (cx_write up ok now u raw st r st')
  obtain tbl c tbl' c' where st: "st = (tbl, c)" "st' = (tbl', c')" by (cases st; cases st')
  obtain prev c1 where g: "getCexExitSettings cfg (table_db up tbl) now u c = (prev, c1)"
    "if ok then r = Some (patch_settings CEX_MIN raw prev) \<and> tbl' = tbl(u \<mapsto> row_of_settings col (patch_settings CEX_MIN raw prev)) \<and>
       c' = c1(u \<mapsto> (patch_settings CEX_MIN raw prev, now))
     else r = None \<and> tbl' = tbl \<and> c' = c1"
    using cx_write(1) unfolding st by (rule setCex_cases)
  have "bounded_cache c1" using getCex_bounded [OF _ g(1)] cx_write(2) st by simp
  then show ?case using g(2) patch_settings_bounded [OF exit_consts(1)] st
    by (auto simp: bounded_cache_def split: if_splits)
qed

lemma cx_run_bounded: "(cx_step cfg col)\<^sup>*\<^sup>* st st' \<Longrightarrow> bounded_cache (snd st) \<Longrightarrow> bounded_cache (snd st')"
  by (induction rule: rtranclp_induct) (use cx_step_bounded in blast)+

text \<open>After any history of reads and writes, with any numbers written by users or found in the
  database, NaN and infinities included, and with the database failing at any time, the exit
  settings a read returns have a take profit and a stop loss between 0.2 and 50 per cent and trailing
  parameters within their bounds: a failure never leaves a user without a stop loss.\<close>

theorem cex_exit_settings_bounded:
  assumes "(cx_step cfg col)\<^sup>*\<^sup>* (tbl0, Map.empty) (tbl, c)" "getCexExitSettings cfg (table_db up tbl) now u c = (s, c')"
  shows "bounded_settings CEX_MIN s"
  using cx_run_bounded [OF assms(1)] getCex_bounded [OF _ assms(2)] by (simp add: bounded_cache_def)

theorem cex_exit_settings_bounded_witness:
  "bounded_settings CEX_MIN (cexExitDefaults \<lparr>cx_takeProfit = NaN, cx_stopLoss = PInf\<rparr>)"
  by (rule cex_exit_settings_bounded [where col = id and up = False and now = 0 and u = "''u''" and c' = Map.empty,
        OF rtranclp.rtrancl_refl])
     (simp add: getCexExitSettings_def read_cex_settings_def table_db_def)

lemma stored_row_reads_back:
  assumes "bounded_settings lo s" "is_finite (xs_takeProfitPct s)" "is_finite (xs_stopLossPct s)"
    "is_finite (xs_trailingActivationPct s)" "is_finite (xs_trailingDeltaPct s)"
    "\<forall>x \<in> {xs_takeProfitPct s, xs_stopLossPct s, xs_trailingActivationPct s, xs_trailingDeltaPct s}. col x = x"
  shows "settings_of_row lo (row_of_settings col s) = s"
  using assms by (simp add: settings_of_row_def row_of_settings_def bounded_settings_def clampPct_id)

lemma in_range_finite: "in_range lo (Fin h) x \<Longrightarrow> is_finite lo \<Longrightarrow> is_finite x"
  by (cases lo; cases x) (auto simp: in_range_def)

lemma lower_bounds_finite: "is_finite CEX_MIN" "is_finite JUP_MIN" "is_finite (lit (1/5))" "is_finite (lit (1/10))"
  unfolding CEX_MIN_def JUP_MIN_def by code_simp+

lemma bounded_reads_back:
  assumes "bounded_settings lo s" "is_finite lo"
    "\<forall>x \<in> {xs_takeProfitPct s, xs_stopLossPct s, xs_trailingActivationPct s, xs_trailingDeltaPct s}. col x = x"
  shows "settings_of_row lo (row_of_settings col s) = s"
proof (rule stored_row_reads_back [OF assms(1) _ _ _ _ assms(3)])
  show "is_finite (xs_takeProfitPct s)" "is_finite (xs_stopLossPct s)" "is_finite (xs_trailingActivationPct s)"
    "is_finite (xs_trailingDeltaPct s)"
    using assms(1,2) in_range_finite lower_bounds_finite(3,4) unfolding bounded_settings_def by blast+
qed

text \<open>C34: Changing the exchange book's exit settings. When the write succeeds, the settings returned carry the change, and
  within thirty seconds the next read returns exactly them, whether the database is up or down; later it returns them from
  the row just written, with every percentage as the column keeps it and clamped again, which is the settings themselves
  when the columns keep the four numbers. The rows of all other users are as before. When the write fails, nothing is
  returned and the table is as before.\<close>

theorem cex_exit_settings_round_trip:
  assumes "setCexExitSettings cfg col up ok now u raw (tbl, c) = (r, tbl', c')"
  shows "case r of None \<Rightarrow> tbl' = tbl
    | Some s \<Rightarrow>
        (\<forall>b. xp_enabled raw = Some b \<longrightarrow> xs_enabled s = b) \<and>
        (\<forall>x. xp_stopLossPct raw = Some x \<longrightarrow> lit (1/5) \<le> x \<longrightarrow> x \<le> Fin 50 \<longrightarrow> xs_stopLossPct s = x) \<and>
        (\<forall>x. xp_takeProfitPct raw = Some x \<longrightarrow> lit (1/5) \<le> x \<longrightarrow> x \<le> Fin 50 \<longrightarrow> xs_takeProfitPct s = x) \<and>
        (\<forall>v. v \<noteq> u \<longrightarrow> tbl' v = tbl v) \<and>
        (\<forall>up' now'. now' - now < 30000 \<longrightarrow> fst (getCexExitSettings cfg (table_db up' tbl') now' u c') = s) \<and>
        (\<forall>now'. 30000 \<le> now' - now \<longrightarrow> fst (getCexExitSettings cfg (table_db True tbl') now' u c') =
           s\<lparr>xs_takeProfitPct := clampPct (col (xs_takeProfitPct s)) (lit (1/5)) (Fin 50),
             xs_stopLossPct := clampPct (col (xs_stopLossPct s)) (lit (1/5)) (Fin 50),
             xs_trailingActivationPct := clampPct (col (xs_trailingActivationPct s)) (lit (1/5)) (Fin 10),
             xs_trailingDeltaPct := clampPct (col (xs_trailingDeltaPct s)) (lit (1/10)) (Fin 10)\<rparr>) \<and>
        (\<forall>now'. (\<forall>x \<in> {xs_takeProfitPct s, xs_stopLossPct s, xs_trailingActivationPct s, xs_trailingDeltaPct s}. col x = x) \<longrightarrow>
           fst (getCexExitSettings cfg (table_db True tbl') now' u c') = s)"
proof (cases r)
  case None
  then have "tbl' = tbl" using setCex_cases [OF assms] by (metis option.distinct(1))
  then show ?thesis using None by simp
next
  case (Some s)
  obtain prev c1 where s: "s = patch_settings CEX_MIN raw prev" "tbl' = tbl(u \<mapsto> row_of_settings col s)" "c' = c1(u \<mapsto> (s, now))"
    using setCex_cases [OF assms] Some by (metis option.distinct(1) option.inject)
  have fin: "is_finite x" if "lit (1/5) \<le> x" "x \<le> Fin 50" for x
    using in_range_finite [OF _ lower_bounds_finite(3), of 50 x] that by (simp add: in_range_def)
  have given: "xs_stopLossPct s = x" if "xp_stopLossPct raw = Some x" "lit (1/5) \<le> x" "x \<le> Fin 50" for x
    using that clampPct_id [OF _ fin [OF that(2,3)]] by (simp add: s(1) patch_settings_def CEX_MIN_def in_range_def)
  have given2: "xs_takeProfitPct s = x" if "xp_takeProfitPct raw = Some x" "lit (1/5) \<le> x" "x \<le> Fin 50" for x
    using that clampPct_id [OF _ fin [OF that(2,3)]] by (simp add: s(1) patch_settings_def CEX_MIN_def in_range_def)
  have late: "fst (getCexExitSettings cfg (table_db True tbl') now' u c') = settings_of_row CEX_MIN (row_of_settings col s)"
    if "30000 \<le> now' - now" for now'
    using that by (simp add: getCexExitSettings_def read_cex_settings_def table_db_def s(2,3) CACHE_TTL_MS_def Let_def)
  have soon: "fst (getCexExitSettings cfg (table_db up' tbl') now' u c') = s" if "now' - now < 30000" for up' now'
    using that by (simp add: getCexExitSettings_def s(3) CACHE_TTL_MS_def Let_def)
  have stored: "settings_of_row CEX_MIN (row_of_settings col s) =
      s\<lparr>xs_takeProfitPct := clampPct (col (xs_takeProfitPct s)) (lit (1/5)) (Fin 50),
        xs_stopLossPct := clampPct (col (xs_stopLossPct s)) (lit (1/5)) (Fin 50),
        xs_trailingActivationPct := clampPct (col (xs_trailingActivationPct s)) (lit (1/5)) (Fin 10),
        xs_trailingDeltaPct := clampPct (col (xs_trailingDeltaPct s)) (lit (1/10)) (Fin 10)\<rparr>"
    by (simp add: settings_of_row_def row_of_settings_def CEX_MIN_def)
  have kept: "settings_of_row CEX_MIN (row_of_settings col s) = s"
    if "\<forall>x \<in> {xs_takeProfitPct s, xs_stopLossPct s, xs_trailingActivationPct s, xs_trailingDeltaPct s}. col x = x"
    by (rule bounded_reads_back [OF _ lower_bounds_finite(1) that]) (simp add: s(1) patch_settings_bounded exit_consts(1))
  have exact: "fst (getCexExitSettings cfg (table_db True tbl') now' u c') = s"
    if "\<forall>x \<in> {xs_takeProfitPct s, xs_stopLossPct s, xs_trailingActivationPct s, xs_trailingDeltaPct s}. col x = x" for now'
    using kept [OF that] late [of now'] soon [of now'] by (cases "now' - now < 30000") auto
  have "xp_enabled raw = Some b \<Longrightarrow> xs_enabled s = b" for b by (simp add: s(1) patch_settings_def)
  moreover have "tbl' v = tbl v" if "v \<noteq> u" for v using that by (simp add: s(2))
  ultimately show ?thesis unfolding Some option.case using given given2 soon late stored exact by (intro conjI allI impI) simp_all
qed

definition demo_patch :: exit_patch where
  "demo_patch = \<lparr>xp_enabled = None, xp_takeProfitPct = Some (Fin 2), xp_stopLossPct = None, xp_profitSkim = None,
     xp_trailingStop = None, xp_trailingActivationPct = None, xp_trailingDeltaPct = None\<rparr>"

definition demo_cex :: cex_config where
  "demo_cex = \<lparr>cx_takeProfit = Fin 1, cx_stopLoss = Fin 1\<rparr>"

lemma demo_cex_write:
  "setCexExitSettings demo_cex id True True 0 ''u'' demo_patch (Map.empty, Map.empty) =
   (Some (patch_settings CEX_MIN demo_patch (cexExitDefaults demo_cex)),
    [''u'' \<mapsto> row_of_settings id (patch_settings CEX_MIN demo_patch (cexExitDefaults demo_cex))],
    [''u'' \<mapsto> (patch_settings CEX_MIN demo_patch (cexExitDefaults demo_cex), 0)])"
  by (simp add: setCexExitSettings_def getCexExitSettings_def read_cex_settings_def table_db_def Let_def)

theorem cex_exit_settings_round_trip_witness:
  "fst (getCexExitSettings demo_cex (table_db True [''u'' \<mapsto> row_of_settings id (patch_settings CEX_MIN demo_patch (cexExitDefaults demo_cex))])
     40000 ''u'' [''u'' \<mapsto> (patch_settings CEX_MIN demo_patch (cexExitDefaults demo_cex), 0)]) =
   patch_settings CEX_MIN demo_patch (cexExitDefaults demo_cex)"
  using cex_exit_settings_round_trip [OF demo_cex_write] by simp

section \<open>The Jupiter settings under interleaving\<close>

definition jx_ok :: "jupiter_exits \<Rightarrow> bool" where
  "jx_ok s \<longleftrightarrow> (\<forall>u x. jx_settings s u = Some x \<longrightarrow> bounded_settings JUP_MIN x) \<and>
     (\<forall>(u, x) \<in> set (jx_writes s). bounded_settings JUP_MIN x)"

lemma hydrateFromDb_fields [simp]:
  "jx_settings (hydrateFromDb u s) = jx_settings s" "jx_writes (hydrateFromDb u s) = jx_writes s"
  "jx_db (hydrateFromDb u s) = jx_db s" "jx_peaks (hydrateFromDb u s) = jx_peaks s"
  by (simp_all add: hydrateFromDb_def)

lemma jx_step_ok: "jx_step sl col s s' \<Longrightarrow> jx_ok s \<Longrightarrow> jx_ok s'"
  by (induction rule: jx_step.induct)
     (auto simp: jx_ok_def getJupiterExitSettings_def setJupiterExitSettings_def deliver_row_def updateTrailingPeak_def
        clearTrailingPeak_def Let_def settings_of_row_bounded patch_settings_bounded exit_consts split: option.splits if_splits)

lemma jx_run_ok: "(jx_step sl col)\<^sup>*\<^sup>* s s' \<Longrightarrow> jx_ok s \<Longrightarrow> jx_ok s'"
  by (induction rule: rtranclp_induct) (use jx_step_ok in blast)+

lemma getJupiter_bounded:
  "jx_ok s \<Longrightarrow> in_range JUP_MIN (Fin 50) sl \<Longrightarrow> bounded_settings JUP_MIN (fst (getJupiterExitSettings sl u s))"
  by (auto simp: getJupiterExitSettings_def Let_def jx_ok_def nullish_def jupiter_defaults_bounded split: option.splits)

definition jx_start :: "(user_id \<rightharpoonup> exit_row) \<Rightarrow> jupiter_exits" where
  "jx_start db = \<lparr>jx_settings = Map.empty, jx_hydrated = {}, jx_reads = [], jx_writes = [], jx_db = db, jx_peaks = Map.empty\<rparr>"

text \<open>C33: From a fresh process, whatever rows the database holds and in whatever order calls, answers and background
  writes interleave, succeed or fail: the take profit, the activation and the delta of the trailing stop which a read of the
  Jupiter exit settings returns are numbers within their bounds, and so is the stop loss, unless nothing is known of the
  user yet and it is the default of the environment, which is not checked.\<close>

theorem jupiter_exit_settings_bounded:
  assumes "(jx_step sl col)\<^sup>*\<^sup>* (jx_start db) s" "x = fst (getJupiterExitSettings sl u s)"
  shows "lit (1/10) \<le> xs_takeProfitPct x \<and> xs_takeProfitPct x \<le> Fin 50 \<and>
    lit (1/5) \<le> xs_trailingActivationPct x \<and> xs_trailingActivationPct x \<le> Fin 10 \<and>
    lit (1/10) \<le> xs_trailingDeltaPct x \<and> xs_trailingDeltaPct x \<le> Fin 10 \<and>
    (lit (1/10) \<le> xs_stopLossPct x \<and> xs_stopLossPct x \<le> Fin 50 \<or> jx_settings s u = None \<and> xs_stopLossPct x = sl)"
proof -
  have "jx_ok s" using jx_run_ok [OF assms(1)] by (simp add: jx_ok_def jx_start_def)
  then show ?thesis using exit_consts(5-7) unfolding assms(2)
    by (auto simp: getJupiterExitSettings_def Let_def jx_ok_def jupiter_defaults_def bounded_settings_def in_range_def JUP_MIN_def
        nullish_def split: option.split)
qed

theorem jupiter_exit_settings_bounded_witness:
  "xs_takeProfitPct (fst (getJupiterExitSettings (Fin (-3)) ''u'' (jx_start Map.empty))) \<le> Fin 50"
  using jupiter_exit_settings_bounded [where sl = "Fin (-3)" and col = id, OF rtranclp.rtrancl_refl refl] by blast

text \<open>The unchecked default: with a negative \<^verbatim>\<open>DEX_AUTO_SL_PCT\<close> the stop of a user without settings is negative.\<close>

lemma jupiter_default_stop_is_unchecked:
  "xs_stopLossPct (fst (getJupiterExitSettings sl u (jx_start db))) = sl"
  by (simp add: getJupiterExitSettings_def jx_start_def jupiter_defaults_def Let_def)

text \<open>Without a bound on the stop loss: the take profit is positive in every reachable state.\<close>

lemma jupiter_take_profit_positive:
  assumes "(jx_step sl col)\<^sup>*\<^sup>* (jx_start db) s"
  shows "Fin 0 < xs_takeProfitPct (fst (getJupiterExitSettings sl u s))"
proof -
  have "jx_ok s" using jx_run_ok [OF assms] by (simp add: jx_ok_def jx_start_def)
  then have "JUP_MIN \<le> xs_takeProfitPct (fst (getJupiterExitSettings sl u s))" using exit_consts(7)
    by (auto simp: getJupiterExitSettings_def Let_def jx_ok_def jupiter_defaults_def bounded_settings_def in_range_def
        nullish_def split: option.split)
  moreover have "Fin 0 < JUP_MIN" unfolding JUP_MIN_def by code_simp
  ultimately show ?thesis by (meson number_less_le_trans)
qed

text \<open>A change made before the stored row has been loaded can be lost: the change starts the load,
  and if the database answers the load before it applies the write, the delivered old row
  replaces the settings just made, which the service then reports.\<close>

theorem jupiter_load_overwrites_change:
  assumes "u \<notin> jx_hydrated s" "jx_db s u = Some row" "jx_reads s = []"
  shows "\<exists>s'. (jx_step sl col)\<^sup>*\<^sup>* (snd (setJupiterExitSettings sl u raw s)) s' \<and>
     fst (getJupiterExitSettings sl u s') = settings_of_row JUP_MIN row"
proof -
  let ?s1 = "snd (setJupiterExitSettings sl u raw s)"
  have r: "jx_reads ?s1 = [] @ (u, None) # []" "jx_db ?s1 u = Some row" "u \<in> jx_hydrated ?s1"
    using assms by (simp_all add: setJupiterExitSettings_def getJupiterExitSettings_def hydrateFromDb_def Let_def)
  let ?s2 = "?s1\<lparr>jx_reads := [] @ (u, Some (jx_db ?s1 u)) # []\<rparr>"
  let ?s3 = "deliver_row u (jx_db ?s1 u) (?s2\<lparr>jx_reads := [] @ []\<rparr>)"
  have "jx_step sl col ?s1 ?s2" by (rule jx_step.answer [OF r(1)])
  moreover have "jx_step sl col ?s2 ?s3" by (rule jx_step.deliver) simp
  ultimately have "(jx_step sl col)\<^sup>*\<^sup>* ?s1 ?s3" by (meson converse_rtranclp_into_rtranclp rtranclp.rtrancl_refl)
  moreover have "fst (getJupiterExitSettings sl u ?s3) = settings_of_row JUP_MIN row"
    using r(2,3) by (simp add: getJupiterExitSettings_def deliver_row_def hydrateFromDb_def Let_def)
  ultimately show ?thesis by blast
qed

definition demo_exit_row :: exit_row where
  "demo_exit_row = \<lparr>xr_enabled = True, xr_takeProfitPct = Fin 5, xr_stopLossPct = Fin 8, xr_profitSkim = Some False,
     xr_trailingStop = Some False, xr_trailingActivationPct = None, xr_trailingDeltaPct = None\<rparr>"

theorem jupiter_load_overwrites_change_witness:
  "\<exists>s'. (jx_step (Fin 1) id)\<^sup>*\<^sup>* (snd (setJupiterExitSettings (Fin 1) ''u'' demo_patch (jx_start [''u'' \<mapsto> demo_exit_row]))) s' \<and>
     fst (getJupiterExitSettings (Fin 1) ''u'' s') = settings_of_row JUP_MIN demo_exit_row"
  by (rule jupiter_load_overwrites_change) (simp_all add: jx_start_def)

text \<open>A partial change made before the stored row has been loaded writes the defaults over the
  fields it does not mention: with a stored stop loss of any value, changing another field returns,
  and once written stores, the default stop loss.\<close>

theorem jupiter_partial_change_resets_stop_loss:
  assumes "jx_settings s u = None" "xp_stopLossPct raw = None" "in_range JUP_MIN (Fin 50) sl" "jx_writes s = []"
  shows "xs_stopLossPct (fst (setJupiterExitSettings sl u raw s)) = sl \<and>
     (\<exists>s' row. jx_step sl col (snd (setJupiterExitSettings sl u raw s)) s' \<and> jx_db s' u = Some row \<and> xr_stopLossPct row = col sl)"
proof -
  let ?r = "setJupiterExitSettings sl u raw s"
  have sl: "clampPct sl JUP_MIN (Fin 50) = sl"
    using assms(3) in_range_finite [OF assms(3) lower_bounds_finite(2)] by (rule clampPct_id)
  have n: "xs_stopLossPct (fst ?r) = sl"
    using assms(1,2) sl by (simp add: setJupiterExitSettings_def getJupiterExitSettings_def Let_def patch_settings_def
        jupiter_defaults_def)
  have "jx_writes (snd ?r) = [] @ (u, fst ?r) # []"
    using assms(4) by (simp add: setJupiterExitSettings_def getJupiterExitSettings_def Let_def)
  from jx_step.persist [OF this, of sl col]
  have "jx_step sl col (snd ?r) (snd ?r\<lparr>jx_writes := [] @ [], jx_db := (jx_db (snd ?r))(u \<mapsto> row_of_settings col (fst ?r))\<rparr>)" .
  moreover have "xr_stopLossPct (row_of_settings col (fst ?r)) = col sl" using n by (simp add: row_of_settings_def)
  ultimately show ?thesis using n by fastforce
qed

theorem jupiter_partial_change_resets_stop_loss_witness:
  "xs_stopLossPct (fst (setJupiterExitSettings (Fin 1) ''u'' demo_patch (jx_start [''u'' \<mapsto> demo_exit_row]))) = Fin 1"
  using jupiter_partial_change_resets_stop_loss [of "jx_start [''u'' \<mapsto> demo_exit_row]" "''u''" demo_patch "Fin 1" id]
    exit_consts(7) by (simp add: jx_start_def demo_patch_def)

section \<open>Trailing peaks\<close>

text \<open>After the peak of a position was cleared, the peak is the highest mark seen since, or zero if
  none was positive: it never falls, and marks of other positions do not touch it.\<close>

theorem trailing_peak_is_highest_mark:
  assumes "\<forall>m \<in> set marks. m \<noteq> NaN" "trailingPeakKey v c \<noteq> trailingPeakKey u b"
  shows "(let s' = foldl (\<lambda>s m. snd (updateTrailingPeak v c m (snd (updateTrailingPeak u b m s)))) (clearTrailingPeak u b s) marks in
     case getTrailingPeak u b s' of None \<Rightarrow> marks = []
     | Some p \<Rightarrow> (p = Fin 0 \<or> p \<in> set marks) \<and> Fin 0 \<le> p \<and> (\<forall>m \<in> set marks. m \<le> p))"
  using assms(1)
proof (induction marks rule: rev_induct)
  case Nil
  then show ?case by (simp add: getTrailingPeak_def clearTrailingPeak_def)
next
  case (snoc m ms)
  define s' where "s' = foldl (\<lambda>s m. snd (updateTrailingPeak v c m (snd (updateTrailingPeak u b m s)))) (clearTrailingPeak u b s) ms"
  have p: "getTrailingPeak u b (snd (updateTrailingPeak v c m (snd (updateTrailingPeak u b m s')))) =
      Some (math_max (nullish (getTrailingPeak u b s') (Fin 0)) m)"
    using assms(2) by (simp add: updateTrailingPeak_def getTrailingPeak_def Let_def)
  have mm: "m \<noteq> NaN" using snoc.prems by simp
  have ih: "case getTrailingPeak u b s' of None \<Rightarrow> ms = []
     | Some p \<Rightarrow> (p = Fin 0 \<or> p \<in> set ms) \<and> Fin 0 \<le> p \<and> (\<forall>m \<in> set ms. m \<le> p)"
    using snoc.IH snoc.prems by (simp add: s'_def Let_def)
  define q where "q = nullish (getTrailingPeak u b s') (Fin 0)"
  have q: "q = Fin 0 \<or> q \<in> set ms" "Fin 0 \<le> q" "\<forall>m \<in> set ms. m \<le> q"
    using ih by (auto simp: q_def split: option.splits)
  have mx: "q \<le> math_max q m" "m \<le> math_max q m" using math_max_ge [OF _ mm, of q] number_le_not_NaN [OF q(2)] by auto
  have "math_max q m = q \<or> math_max q m = m" by (rule math_max_cases)
  moreover have "Fin 0 \<le> math_max q m" using q(2) mx(1) by (rule number_le_trans)
  moreover have "\<forall>x \<in> set ms. x \<le> math_max q m" using q(3) mx(1) number_le_trans by blast
  ultimately show ?case using q(1) mx(2) p by (auto simp: s'_def q_def Let_def)
qed

theorem trailing_peak_is_highest_mark_witness:
  "(let s' = foldl (\<lambda>s m. snd (updateTrailingPeak ''v'' ''SOL'' m (snd (updateTrailingPeak ''u'' ''SOL'' m s))))
      (clearTrailingPeak ''u'' ''SOL'' (jx_start Map.empty)) [Fin 2, Fin 5, Fin 3] in
     case getTrailingPeak ''u'' ''SOL'' s' of None \<Rightarrow> [Fin 2, Fin 5, Fin 3] = []
     | Some p \<Rightarrow> (p = Fin 0 \<or> p \<in> set [Fin 2, Fin 5, Fin 3]) \<and> Fin 0 \<le> p \<and> (\<forall>m \<in> set [Fin 2, Fin 5, Fin 3]. m \<le> p))"
  by (rule trailing_peak_is_highest_mark) (simp_all add: trailingPeakKey_def)

end
