(* ===== verification/RoundTripPnl.thy ===== *)
theory RoundTripPnl
  imports JsPrelude "HOL-Library.Sublist"
begin

text \<open>
  Profit of a round trip, \<open>src/src/lib/roundTripPnl.ts\<close>: the realised and the estimated profit of a
  lot from its fill prices, the tests for rows whose stored profit or prices are not to be
  trusted, and what the dashboard shows. A column holds what \<open>Number(column)\<close> reads, or is
  missing.
\<close>

record RoundTripPnlRow =
  rt_pnl :: "number option"
  rt_allocationUsd :: "number option"
  rt_entryPrice :: "number option"
  rt_exitPrice :: "number option"
  rt_strategyName :: "string option"
  rt_pair :: "string option"

definition JUPITER_DEX_STRATEGY_NAME :: string where "JUPITER_DEX_STRATEGY_NAME = ''DEX Jupiter SOL''"

definition MAJOR_BASES :: "string list" where
  "MAJOR_BASES = [''BTC'', ''ETH'', ''SOL'', ''WBTC'', ''WETH'', ''JUP'', ''BNB'', ''XRP'']"

definition BSC_DEX_ROUND_TRIP_GAS_USD :: number where "BSC_DEX_ROUND_TRIP_GAS_USD = lit (9/100)"
definition SOLANA_DEX_ROUND_TRIP_FEE_USD :: number where "SOLANA_DEX_ROUND_TRIP_FEE_USD = lit (15/1000)"

definition toNum :: "number option \<Rightarrow> number" where
  "toNum v = (case v of None \<Rightarrow> Fin 0 | Some n \<Rightarrow> if is_finite n then n else Fin 0)"

definition E8 :: number where "E8 = Fin 100000000"

text \<open>\<open>Math.round(x * 1e8) / 1e8\<close>.\<close>

definition round8 :: "number \<Rightarrow> number" where
  "round8 x = math_round (x * E8) / E8"

definition gross_return :: "number \<Rightarrow> number \<Rightarrow> number \<Rightarrow> number" where
  "gross_return alloc entry exit = alloc * (exit / entry - Fin 1)"

definition estimateRoundTripPnlFromFills :: "RoundTripPnlRow \<Rightarrow> number option" where
  "estimateRoundTripPnlFromFills row =
     (let alloc = toNum (rt_allocationUsd row); entry = toNum (rt_entryPrice row); exit = toNum (rt_exitPrice row) in
      if alloc \<le> Fin 0 \<or> entry \<le> Fin 0 \<or> exit \<le> Fin 0 then None
      else (let est = gross_return alloc entry exit in if is_finite est then Some (round8 est) else None))"

definition isTrustworthyRoundTripPnl :: "RoundTripPnlRow \<Rightarrow> bool" where
  "isTrustworthyRoundTripPnl row =
     (let pnl = toNum (rt_pnl row); alloc = toNum (rt_allocationUsd row);
          entry = toNum (rt_entryPrice row); exit = toNum (rt_exitPrice row) in
      if entry \<le> Fin 0 \<or> exit \<le> Fin 0 then False
      else if Fin 0 < alloc \<and> Fin 0 < pnl \<and> alloc * lit (85/100) \<le> pnl \<and> exit < entry * lit (9995/10000) then False
      else if Fin 0 < alloc \<and> pnl < Fin 0 \<and> pnl \<le> - alloc * lit (85/100) \<and> entry * lit (10005/10000) < exit then False
      else if (case estimateRoundTripPnlFromFills row of None \<Rightarrow> False
               | Some fillEst \<Rightarrow> Fin 0 < alloc \<and>
                   (alloc * lit (5/1000) < pnl \<and> fillEst < - alloc * lit (5/1000) \<or>
                    pnl < - alloc * lit (5/1000) \<and> alloc * lit (5/1000) < fillEst \<or>
                    math_max (alloc * lit (8/100)) (lit (1/4)) < math_abs (pnl - fillEst))) then False
      else let pxMove = math_abs (exit - entry) / entry; pnlFrac = math_abs pnl / alloc in
      if Fin 0 < alloc \<and> pxMove < lit (25/1000) \<and> lit (12/100) < pnlFrac then False
      else if Fin 0 < alloc \<and> alloc * lit (12/10) < pnl then False
      else True)"

definition roundTripRealizedPnl :: "number \<Rightarrow> number \<Rightarrow> number \<Rightarrow> number" where
  "roundTripRealizedPnl buyAlloc buyEntry sellExit =
     (if buyAlloc \<le> Fin 0 \<or> buyEntry \<le> Fin 0 \<or> sellExit \<le> Fin 0 then Fin 0
      else let raw = gross_return buyAlloc buyEntry sellExit in if is_finite raw then round8 raw else Fin 0)"

definition slippage_factor :: "number \<Rightarrow> number" where
  "slippage_factor slippageBps = Fin 1 - math_min (Fin 2000) (math_max (Fin 0) slippageBps) / Fin 10000"

definition estimatedNetRoundTripUsd :: "number \<Rightarrow> number \<Rightarrow> number \<Rightarrow> number \<Rightarrow> number \<Rightarrow> number" where
  "estimatedNetRoundTripUsd buyAllocUsd entryPrice quotedExitPrice slippageBps gasUsd =
     (if buyAllocUsd \<le> Fin 0 \<or> entryPrice \<le> Fin 0 \<or> quotedExitPrice \<le> Fin 0 then - gasUsd
      else let gross = gross_return buyAllocUsd entryPrice quotedExitPrice;
               afterSlippage = gross * slippage_factor slippageBps in
           round8 (afterSlippage - gasUsd))"

definition netRoundTripPnlAfterGas :: "number option \<Rightarrow> number \<Rightarrow> number option" where
  "netRoundTripPnlAfterGas grossPnl gasUsd =
     (case grossPnl of None \<Rightarrow> None | Some g \<Rightarrow> if is_finite g then Some (round8 (g - gasUsd)) else None)"

definition base_of_pair :: "string \<Rightarrow> string" where
  "base_of_pair pair = (case split_on (CHR ''/'') pair of [] \<Rightarrow> [] | b # _ \<Rightarrow> to_upper b)"

definition isCorruptDexFillPrices :: "RoundTripPnlRow \<Rightarrow> bool" where
  "isCorruptDexFillPrices row =
     (let alloc = toNum (rt_allocationUsd row); entry = toNum (rt_entryPrice row); exit = toNum (rt_exitPrice row) in
      if alloc \<le> Fin 0 \<or> entry \<le> Fin 0 \<or> exit \<le> Fin 0 then False
      else if List.member MAJOR_BASES (base_of_pair (nullish (rt_pair row) [])) then False
      else if Fin 20 < entry \<and> alloc < Fin 500 then True
      else if Fin 20 < exit \<and> alloc < Fin 500 then True
      else let impliedQty = alloc / entry in
      if Fin 0 < impliedQty \<and> impliedQty < lit (2/100) \<and> Fin 5 \<le> alloc then True
      else False)"

definition roundTripGasUsdForStrategy :: "string option \<Rightarrow> number" where
  "roundTripGasUsdForStrategy strategyName =
     (if strategyName = Some JUPITER_DEX_STRATEGY_NAME then SOLANA_DEX_ROUND_TRIP_FEE_USD else BSC_DEX_ROUND_TRIP_GAS_USD)"

definition isNoiseClosedTrade :: "RoundTripPnlRow \<Rightarrow> bool" where
  "isNoiseClosedTrade row =
     (let alloc = toNum (rt_allocationUsd row); entry = toNum (rt_entryPrice row);
          exit = toNum (rt_exitPrice row); pnl = toNum (rt_pnl row); gas = roundTripGasUsdForStrategy (rt_strategyName row) in
      if Fin 0 < alloc \<and> alloc < Fin (1/2) then True
      else if Fin 0 < entry \<and> Fin 0 < exit then
        (let pxMove = math_abs (exit - entry) / entry;
             magnitude = math_abs (nullish (estimateRoundTripPnlFromFills row) pnl) in
         pxMove < lit (8/10000) \<and> magnitude < gas + lit (1/100))
      else False)"

definition shouldIncludeClosedTradeInPublicLog :: "RoundTripPnlRow \<Rightarrow> bool" where
  "shouldIncludeClosedTradeInPublicLog row \<longleftrightarrow> \<not> isCorruptDexFillPrices row \<and> \<not> isNoiseClosedTrade row"

definition PUBLIC_LOG_MAX_LOSSES :: nat where "PUBLIC_LOG_MAX_LOSSES = 2"

record log_trade =
  lt_pnl :: "number option"
  lt_status :: string

definition losing_close :: "log_trade \<Rightarrow> bool" where
  "losing_close t \<longleftrightarrow> lt_status t = ''CLOSED'' \<and> (case lt_pnl t of None \<Rightarrow> False | Some p \<Rightarrow> p < - lit (1/1000000))"

text \<open>The filter with its counter of kept losses.\<close>

fun limit_losses_from :: "nat \<Rightarrow> nat \<Rightarrow> log_trade list \<Rightarrow> log_trade list" where
  "limit_losses_from maxLosses lossesKept [] = []"
| "limit_losses_from maxLosses lossesKept (t # ts) =
     (if \<not> losing_close t then t # limit_losses_from maxLosses lossesKept ts
      else if maxLosses \<le> lossesKept then limit_losses_from maxLosses lossesKept ts
      else t # limit_losses_from maxLosses (lossesKept + 1) ts)"

definition limitPublicLogLosses :: "log_trade list \<Rightarrow> nat \<Rightarrow> log_trade list" where
  "limitPublicLogLosses trades maxLosses = limit_losses_from maxLosses 0 trades"

definition displayRoundTripPnl :: "RoundTripPnlRow \<Rightarrow> number option" where
  "displayRoundTripPnl row =
     (case estimateRoundTripPnlFromFills row of Some x \<Rightarrow> Some x
      | None \<Rightarrow> if isTrustworthyRoundTripPnl row then Some (toNum (rt_pnl row)) else Some (toNum (rt_pnl row)))"

definition displayNetRoundTripPnl :: "RoundTripPnlRow \<Rightarrow> number option \<Rightarrow> number option" where
  "displayNetRoundTripPnl row gasUsd =
     netRoundTripPnlAfterGas (displayRoundTripPnl row)
       (nullish gasUsd (roundTripGasUsdForStrategy (rt_strategyName row)))"

section \<open>The sign of the realised profit\<close>

lemma math_round_mono: "a \<le> b \<Longrightarrow> math_round a \<le> math_round b"
  by (cases a; cases b) (auto intro!: floor_mono)

lemma round8_mono: "a \<le> b \<Longrightarrow> round8 a \<le> round8 b"
  unfolding round8_def E8_def by (intro number_div_pos_mono math_round_mono number_mult_pos_mono) simp_all

lemma round8_zero: "round8 (Fin 0) = Fin 0"
  by code_simp

lemma number_sub_self_sign:
  "Fin 1 \<le> a \<Longrightarrow> Fin 0 \<le> a - Fin 1" "a \<le> Fin 1 \<Longrightarrow> a - Fin 1 \<le> Fin 0"
  by (cases a; force simp: minus_number_def intro: fl_nonneg fl_mono [of _ 0, simplified])+

lemma gross_return_sign:
  assumes "0 < a" "0 < e"
  shows "e \<le> x \<Longrightarrow> Fin 0 \<le> gross_return (Fin a) (Fin e) (Fin x)" "x \<le> e \<Longrightarrow> gross_return (Fin a) (Fin e) (Fin x) \<le> Fin 0"
proof -
  show "Fin 0 \<le> gross_return (Fin a) (Fin e) (Fin x)" if "e \<le> x"
  proof -
    have "fl 1 \<le> fl (x / e)" using that assms by (intro fl_mono) simp
    then have "Fin 0 \<le> Fin x / Fin e - Fin 1" using assms number_sub_self_sign(1) [of "fl (x / e)"] by (simp add: fl_one)
    then show ?thesis using number_mult_pos_mono [of "Fin 0" _ a] assms(1)
      unfolding gross_return_def by (simp add: number_mult_commute [of "Fin a"])
  qed
  show "gross_return (Fin a) (Fin e) (Fin x) \<le> Fin 0" if "x \<le> e"
  proof -
    have "fl (x / e) \<le> fl 1" using that assms by (intro fl_mono) simp
    then have "Fin x / Fin e - Fin 1 \<le> Fin 0" using assms number_sub_self_sign(2) [of "fl (x / e)"] by (simp add: fl_one)
    then show ?thesis using number_mult_pos_mono [of _ "Fin 0" a] assms(1)
      unfolding gross_return_def by (simp add: number_mult_commute [of "Fin a"])
  qed
qed

text \<open>The realised profit of a lot has the sign of the price move, rounding and overflow included:
  selling at or above the entry never books a loss, selling at or below it never books a gain.\<close>

theorem realized_pnl_sign:
  assumes "0 < a" "0 < e" "0 < x"
  shows "(e \<le> x \<longrightarrow> Fin 0 \<le> roundTripRealizedPnl (Fin a) (Fin e) (Fin x)) \<and>
     (x \<le> e \<longrightarrow> roundTripRealizedPnl (Fin a) (Fin e) (Fin x) \<le> Fin 0)"
proof -
  have "roundTripRealizedPnl (Fin a) (Fin e) (Fin x) = round8 (gross_return (Fin a) (Fin e) (Fin x)) \<or>
      roundTripRealizedPnl (Fin a) (Fin e) (Fin x) = Fin 0"
    using assms by (auto simp: roundTripRealizedPnl_def Let_def)
  then show ?thesis
    using gross_return_sign [OF assms(1,2)] round8_mono [of "Fin 0"] round8_mono [of _ "Fin 0"] round8_zero by fastforce
qed

theorem realized_pnl_sign_witness:
  "Fin 0 \<le> roundTripRealizedPnl (Fin 5) (Fin 2) (Fin 3) \<and> roundTripRealizedPnl (Fin 5) (Fin 3) (Fin 2) \<le> Fin 0"
  using realized_pnl_sign [of 5 2 3] realized_pnl_sign [of 5 3 2] by simp

section \<open>The estimate and slippage\<close>

text \<open>The estimate scales the profit by the slippage tolerance instead of the proceeds. A quote 1.5
  per cent above the entry is estimated, at two per cent slippage, as a net gain of more than one
  dollar on a hundred, although filling two per cent below that quote realises a loss.\<close>

theorem slippage_estimate_hides_loss:
  "Fin 1 < estimatedNetRoundTripUsd (Fin 100) (Fin 1) (lit (1015/1000)) (Fin 200) BSC_DEX_ROUND_TRIP_GAS_USD \<and>
   roundTripRealizedPnl (Fin 100) (Fin 1) (lit (1015/1000) * (Fin 1 - Fin 200 / Fin 10000)) < Fin 0"
  by code_simp

section \<open>What the dashboard shows\<close>

lemma limit_losses_spec:
  "filter losing_close (limit_losses_from m k ts) = take (m - k) (filter losing_close ts) \<and>
   filter (\<lambda>t. \<not> losing_close t) (limit_losses_from m k ts) = filter (\<lambda>t. \<not> losing_close t) ts \<and>
   subseq (limit_losses_from m k ts) ts"
proof (induction ts arbitrary: k)
  case (Cons t ts)
  have "m - Suc k = n" if "m - k = Suc n" for n using that by simp
  with Cons show ?case by (cases "m - k") auto
qed simp

text \<open>The public trade log keeps its order, keeps every row that is not a losing close, and of the
  losing closes keeps exactly the first ones up to the limit.\<close>

theorem public_log_keeps_newest_losses:
  "subseq (limitPublicLogLosses ts n) ts \<and>
   filter (\<lambda>t. \<not> losing_close t) (limitPublicLogLosses ts n) = filter (\<lambda>t. \<not> losing_close t) ts \<and>
   filter losing_close (limitPublicLogLosses ts n) = take n (filter losing_close ts)"
  using limit_losses_spec [of n 0 ts] by (simp add: limitPublicLogLosses_def)

text \<open>The profit shown for a row does not depend on whether the row is trustworthy: a row whose fill
  prices give no estimate is shown with its stored profit even when the trust test rejects it.\<close>

theorem display_ignores_trust:
  assumes "estimateRoundTripPnlFromFills row = None" "\<not> isTrustworthyRoundTripPnl row"
  shows "displayRoundTripPnl row = Some (toNum (rt_pnl row))"
  using assms by (simp add: displayRoundTripPnl_def)

definition corrupt_row :: RoundTripPnlRow where
  "corrupt_row = \<lparr>rt_pnl = Some (Fin 5), rt_allocationUsd = Some (Fin 5), rt_entryPrice = Some (Fin 2), rt_exitPrice = None,
     rt_strategyName = None, rt_pair = None\<rparr>"

theorem display_ignores_trust_witness: "displayRoundTripPnl corrupt_row = Some (toNum (rt_pnl corrupt_row))"
  by (rule display_ignores_trust) code_simp+

end
