(* ===== verification/JupiterWatcher.thy ===== *)
theory JupiterWatcher
  imports ExitSettings RoundTripPnl
begin

text \<open>
  The watcher that exits open Jupiter positions, \<open>services/trading/jupiterOpenPositionWatcher.ts\<close>:
  the exit decision for one position (profit skim, take profit, trailing stop, stop loss) and one
  pass over the open positions. Sell quotes, token decimals, the Super Machine switch in the database
  and the outcome of the swap are parameters; what a pass does outside the process is its trace.
  Notifications and their throttling are left out. A visit to a position has one clock value and runs to its end
  before the next one; overlapping passes of the interval timer are not modelled.
\<close>

section \<open>The exit decision\<close>

record watched_trade =
  wt_id :: string
  wt_user :: user_id
  wt_pair :: string
  wt_entryPrice :: number
  wt_allocationUsd :: "number option"
  wt_pnl :: "number option"
  wt_takeProfitPct :: "number option"
  wt_stopLossPct :: "number option"
  wt_trailingStop :: "bool option"
  wt_trailingPeak :: "number option"
  wt_createdAt :: time

datatype exit_reason = TAKE_PROFIT | PROFIT_SKIM | STOP_LOSS | TRAILING_STOP

record exit_decision =
  ed_reason :: "exit_reason option"
  ed_sellQty :: number
  ed_peak :: "number option"

definition price_pct :: "number \<Rightarrow> number \<Rightarrow> number" where
  "price_pct entry mark = ((mark - entry) / entry) * Fin 100"

definition effective_tp :: "exit_settings \<Rightarrow> watched_trade \<Rightarrow> number" where
  "effective_tp prefs t = nullish (wt_takeProfitPct t) (xs_takeProfitPct prefs)"

definition effective_sl :: "exit_settings \<Rightarrow> watched_trade \<Rightarrow> number" where
  "effective_sl prefs t =
     (let slBase = nullish (wt_stopLossPct t) (xs_stopLossPct prefs) in
      if Fin 0 < nullish (wt_pnl t) (Fin 0) then math_min slBase (lit (35/100)) else slBase)"

definition skim_quantity :: "nat option \<Rightarrow> number \<Rightarrow> number \<Rightarrow> number \<Rightarrow> number \<Rightarrow> number" where
  "skim_quantity decimals buyAlloc pct lotQty mark =
     (let factor = Fin (10 ^ min (nullish decimals 6) 8);
          profitUsd = buyAlloc * (pct / Fin 100);
          skimQty = math_min (lotQty * lit (2/5)) (profitUsd / mark) in
      math_floor (skimQty * factor) / factor)"

definition trail_armed :: "exit_settings \<Rightarrow> number \<Rightarrow> number \<Rightarrow> bool" where
  "trail_armed prefs entry peak \<longleftrightarrow> entry * (Fin 1 + xs_trailingActivationPct prefs / Fin 100) \<le> peak"

definition trail_floor :: "exit_settings \<Rightarrow> number \<Rightarrow> number \<Rightarrow> number" where
  "trail_floor prefs entry peak =
     math_max (peak * (Fin 1 - xs_trailingDeltaPct prefs / Fin 100)) (entry * lit (1001/1000))"

definition decide_exit :: "exit_settings \<Rightarrow> watched_trade \<Rightarrow> number \<Rightarrow> number \<Rightarrow> bool \<Rightarrow> nat option \<Rightarrow> exit_decision" where
  "decide_exit prefs t buyAlloc mark skimReady decimals =
     (let entry = wt_entryPrice t; lotQty = buyAlloc / entry; pct = price_pct entry mark;
          tp = effective_tp prefs t; sl = effective_sl prefs t;
          trailingOn = nullish (wt_trailingStop t) (xs_trailingStop prefs) in
      if tp \<le> pct \<and> xs_profitSkim prefs then
        (if skimReady then
           (let q = skim_quantity decimals buyAlloc pct lotQty mark in
            if Fin 0 < q \<and> q < lotQty * lit (9/10)
            then \<lparr>ed_reason = Some PROFIT_SKIM, ed_sellQty = q, ed_peak = None\<rparr>
            else \<lparr>ed_reason = None, ed_sellQty = q, ed_peak = None\<rparr>)
         else \<lparr>ed_reason = None, ed_sellQty = lotQty, ed_peak = None\<rparr>)
      else if tp \<le> pct \<and> \<not> xs_profitSkim prefs
      then \<lparr>ed_reason = Some TAKE_PROFIT, ed_sellQty = lotQty, ed_peak = None\<rparr>
      else if trailingOn then
        (let prevPeak = nullish (wt_trailingPeak t) (Fin 0); peak = math_max prevPeak mark;
             trail = trail_armed prefs entry peak \<and> mark \<le> trail_floor prefs entry peak \<and> Fin 0 < pct in
         \<lparr>ed_reason = (if trail then Some TRAILING_STOP else if pct \<le> - sl then Some STOP_LOSS else None),
          ed_sellQty = lotQty, ed_peak = (if prevPeak < peak then Some peak else None)\<rparr>)
      else if pct \<le> - sl then \<lparr>ed_reason = Some STOP_LOSS, ed_sellQty = lotQty, ed_peak = None\<rparr>
      else \<lparr>ed_reason = None, ed_sellQty = lotQty, ed_peak = None\<rparr>)"

section \<open>A pass over the open positions\<close>

definition WATCH_COOLDOWN_MS :: int where "WATCH_COOLDOWN_MS = 30000"
definition SKIM_COOLDOWN_MS :: int where "SKIM_COOLDOWN_MS = 45000"

record swap_request =
  sq_user :: user_id
  sq_symbol :: string
  sq_amount :: number
  sq_slippageBps :: number
  sq_partialSkim :: bool

datatype watch_event =
    PeakSaved string number
  | SwapSent string swap_request
  | SmActivity user_id exit_reason
  | Executed user_id exit_reason

record watcher =
  w_exitCooldown :: "string \<rightharpoonup> time"
  w_skimCooldown :: "string \<rightharpoonup> time"
  w_smCache :: "user_id \<rightharpoonup> bool \<times> time"
  w_exits :: jupiter_exits
  w_trace :: "watch_event list"

text \<open>What a pass draws from outside. A quote or a database read that throws (\<open>Inl\<close>) ends the pass.\<close>

record watch_env =
  we_now :: time
  we_stopLoss :: number
  we_slippageBps :: number
  we_quote :: "string \<Rightarrow> number \<Rightarrow> unit + number option"
  we_decimals :: "string \<Rightarrow> nat option"
  we_smRow :: "user_id \<Rightarrow> unit + bool option"
  we_swap :: "swap_request \<Rightarrow> bool"

definition isSuperMachineEnabled :: "watch_env \<Rightarrow> user_id \<Rightarrow> watcher \<Rightarrow> (bool \<times> watcher) option" where
  "isSuperMachineEnabled env u w =
     (let load = (case we_smRow env u of Inl _ \<Rightarrow> None
            | Inr row \<Rightarrow> (let e = (row = Some True) in
                Some (e, w\<lparr>w_smCache := (w_smCache w)(u \<mapsto> (e, we_now env))\<rparr>))) in
      case w_smCache w u of None \<Rightarrow> load
      | Some (e, t) \<Rightarrow> if we_now env - t < 60000 then Some (e, w) else load)"

definition add_trace :: "watch_event list \<Rightarrow> watcher \<Rightarrow> watcher" where
  "add_trace es w = w\<lparr>w_trace := w_trace w @ es\<rparr>"

text \<open>The exit itself: the cooldowns are set before the swap is sent, and stay set if it fails.\<close>

definition send_exit :: "watch_env \<Rightarrow> watched_trade \<Rightarrow> exit_reason \<Rightarrow> number \<Rightarrow> bool \<Rightarrow> watcher \<Rightarrow> watcher" where
  "send_exit env t reason qty smActive w =
     (let req = \<lparr>sq_user = wt_user t, sq_symbol = base_of_pair (wt_pair t) @ ''USDT'', sq_amount = qty,
                 sq_slippageBps = we_slippageBps env, sq_partialSkim = (reason = PROFIT_SKIM)\<rparr>;
          w1 = w\<lparr>w_exitCooldown := (w_exitCooldown w)(wt_id t \<mapsto> we_now env),
                 w_skimCooldown := (if reason = PROFIT_SKIM then (w_skimCooldown w)(wt_id t \<mapsto> we_now env)
                                    else w_skimCooldown w)\<rparr>;
          sm = (if smActive then [SmActivity (wt_user t) reason] else []) in
      add_trace (sm @ [SwapSent (wt_id t) req] @
        (if we_swap env req then Executed (wt_user t) reason # sm else [])) w1)"

definition exit_position :: "watch_env \<Rightarrow> watched_trade \<Rightarrow> exit_settings \<Rightarrow> number \<Rightarrow> watcher \<Rightarrow> watcher \<times> bool" where
  "exit_position env t prefs mark w =
     (let ready = SKIM_COOLDOWN_MS \<le> we_now env - nullish (w_skimCooldown w (wt_id t)) 0;
          d = decide_exit prefs t (nullish (wt_allocationUsd t) (Fin 0)) mark ready
                (we_decimals env (base_of_pair (wt_pair t)));
          w2 = add_trace (case ed_peak d of None \<Rightarrow> [] | Some p \<Rightarrow> [PeakSaved (wt_id t) p]) w in
      case ed_reason d of None \<Rightarrow> (w2, True)
      | Some reason \<Rightarrow>
          (case isSuperMachineEnabled env (wt_user t) w2 of None \<Rightarrow> (w2, False)
           | Some (sm, w3) \<Rightarrow> (send_exit env t reason (ed_sellQty d) sm w3, True)))"

definition watch_trade :: "watch_env \<Rightarrow> watched_trade \<Rightarrow> watcher \<Rightarrow> watcher \<times> bool" where
  "watch_trade env t w =
     (let last = nullish (w_exitCooldown w (wt_id t)) 0; entry = wt_entryPrice t;
          buyAlloc = nullish (wt_allocationUsd t) (Fin 0) in
      if we_now env - last < WATCH_COOLDOWN_MS then (w, True)
      else if \<not> is_finite entry \<or> entry \<le> Fin 0 \<or> buyAlloc \<le> Fin 0 then (w, True)
      else let (prefs, x) = getJupiterExitSettings (we_stopLoss env) (wt_user t) (w_exits w);
               w1 = w\<lparr>w_exits := x\<rparr> in
      if \<not> xs_enabled prefs then (w1, True)
      else case we_quote env (base_of_pair (wt_pair t)) (buyAlloc / entry) of
        Inl _ \<Rightarrow> (w1, False)
      | Inr None \<Rightarrow> (w1, True)
      | Inr (Some mark) \<Rightarrow> exit_position env t prefs mark w1)"

text \<open>The oldest forty open positions, in order; a throw (\<open>False\<close>) ends the pass.\<close>

fun watch_all :: "watch_env \<Rightarrow> watched_trade list \<Rightarrow> watcher \<Rightarrow> watcher" where
  "watch_all env [] w = w"
| "watch_all env (t # ts) w = (case watch_trade env t w of (w', go) \<Rightarrow> if go then watch_all env ts w' else w')"

definition runJupiterOpenPositionWatcher :: "bool \<Rightarrow> watch_env \<Rightarrow> watched_trade list \<Rightarrow> watcher \<Rightarrow> watcher" where
  "runJupiterOpenPositionWatcher enabled env openTrades w =
     (if \<not> enabled then w else watch_all env (take 40 (order_asc wt_createdAt openTrades)) w)"

section \<open>What the decision guarantees\<close>

text \<open>What the watcher needs of a store of exit settings.\<close>

locale exit_provider =
  fixes settings :: "'s \<Rightarrow> user_id \<Rightarrow> exit_settings" and ok :: "'s \<Rightarrow> bool" and lo :: number
  assumes settings_bounded: "ok s \<Longrightarrow> bounded_settings lo (settings s u)"
    and lo_positive: "Fin 0 < lo"
begin

lemma stop_positive: "ok s \<Longrightarrow> wt_stopLossPct t = None \<Longrightarrow> Fin 0 < effective_sl (settings s u) t"
proof -
  assume s: "ok s" "wt_stopLossPct t = None"
  then have "Fin 0 < xs_stopLossPct (settings s u)"
    using settings_bounded [of s u] lo_positive number_less_le_trans by (auto simp: bounded_settings_def in_range_def)
  moreover have "Fin 0 < lit (35/100)" by code_simp
  ultimately show ?thesis using s(2) math_min_cases [of "xs_stopLossPct (settings s u)" "lit (35/100)"]
    by (auto simp: effective_sl_def Let_def)
qed

lemma profit_positive: "ok s \<Longrightarrow> wt_takeProfitPct t = None \<Longrightarrow> Fin 0 < effective_tp (settings s u) t"
  using settings_bounded [of s u] lo_positive number_less_le_trans
  by (auto simp: bounded_settings_def in_range_def effective_tp_def)

end

interpretation jupiter_provider: exit_provider "\<lambda>s u. fst (getJupiterExitSettings sl u s)"
    "\<lambda>s. jx_ok s \<and> in_range JUP_MIN (Fin 50) sl" JUP_MIN
  for sl
proof
  show "Fin 0 < JUP_MIN" unfolding JUP_MIN_def by code_simp
qed (simp add: getJupiter_bounded)

interpretation cex_provider: exit_provider "\<lambda>c u. fst (getCexExitSettings cfg db now u c)" bounded_cache CEX_MIN
  for cfg db now
proof
  show "Fin 0 < CEX_MIN" unfolding CEX_MIN_def by code_simp
qed (metis getCex_bounded prod.collapse)

lemma number_le_neg_pos: "(p::number) \<le> - s \<Longrightarrow> Fin 0 < s \<Longrightarrow> p < Fin 0"
  by (cases p; cases s) auto

lemma number_less_flip: "(a::number) < b \<Longrightarrow> \<not> b \<le> a"
  by (cases a; cases b) auto

lemma number_neg_less_pos: "p < Fin 0 \<Longrightarrow> Fin 0 < (q::number) \<Longrightarrow> \<not> q \<le> p"
  by (cases p; cases q) auto

lemma stop_loss_decided:
  assumes "Fin 0 < effective_tp prefs t" and p: "price_pct (wt_entryPrice t) mark < Fin 0"
    and "price_pct (wt_entryPrice t) mark \<le> - effective_sl prefs t"
  shows "ed_reason (decide_exit prefs t buyAlloc mark ready dec) = Some STOP_LOSS \<and>
     ed_sellQty (decide_exit prefs t buyAlloc mark ready dec) = buyAlloc / wt_entryPrice t"
proof -
  have "\<not> effective_tp prefs t \<le> price_pct (wt_entryPrice t) mark" using p assms(1) by (rule number_neg_less_pos)
  moreover have "\<not> Fin 0 < price_pct (wt_entryPrice t) mark" using p by (cases "price_pct (wt_entryPrice t) mark") auto
  ultimately show ?thesis using assms(3) by (simp add: decide_exit_def Let_def)
qed

lemma price_pct_nonpos: "0 < e \<Longrightarrow> mark \<le> Fin e \<Longrightarrow> price_pct (Fin e) mark \<le> Fin 0"
proof -
  assume e: "0 < e" "mark \<le> Fin e"
  have "mark - Fin e \<le> Fin 0"
    using e(2) by (cases mark) (auto simp: minus_number_def intro: fl_mono [of _ 0, simplified])
  then have "(mark - Fin e) / Fin e \<le> Fin 0 / Fin e" using e(1) by (rule number_div_pos_mono)
  then have "(mark - Fin e) / Fin e * Fin 100 \<le> Fin 0 * Fin 100" using e(1) by (intro number_mult_pos_mono) simp_all
  then show ?thesis by (simp add: price_pct_def)
qed

lemma price_pct_pos:
  assumes "0 < e" "Fin 0 < price_pct (Fin e) mark"
  shows "Fin e < mark"
proof -
  have "mark \<noteq> NaN" using assms(2) by (auto simp: price_pct_def minus_number_def inf_sign_def)
  moreover have "\<not> mark \<le> Fin e" using price_pct_nonpos [OF assms(1)] number_less_flip [OF assms(2)] by blast
  ultimately show ?thesis by (cases mark) auto
qed

text \<open>C14: each kind of exit has its ground. A profit skim happens only in skim mode at or above the take
  profit and sells a positive part, less than nine tenths, of the lot; a take profit closes the whole
  lot at or above the take profit; a trailing exit happens only after the peak armed the trail and
  only above the entry price, so it never realises a loss at the quoted price; a stop loss happens
  only at or below the stop and sells the whole lot.\<close>

theorem exit_decision_grounds:
  assumes "wt_entryPrice t = Fin e" "0 < e" "d = decide_exit prefs t buyAlloc mark ready dec"
  shows "(ed_reason d = Some PROFIT_SKIM \<longrightarrow> xs_profitSkim prefs \<and> effective_tp prefs t \<le> price_pct (Fin e) mark \<and>
        Fin 0 < ed_sellQty d \<and> ed_sellQty d < buyAlloc / Fin e * lit (9/10)) \<and>
     (ed_reason d = Some TAKE_PROFIT \<longrightarrow> \<not> xs_profitSkim prefs \<and> effective_tp prefs t \<le> price_pct (Fin e) mark \<and>
        ed_sellQty d = buyAlloc / Fin e) \<and>
     (ed_reason d = Some TRAILING_STOP \<longrightarrow> Fin e < mark \<and> ed_sellQty d = buyAlloc / Fin e \<and>
        trail_armed prefs (Fin e) (math_max (nullish (wt_trailingPeak t) (Fin 0)) mark)) \<and>
     (ed_reason d = Some STOP_LOSS \<longrightarrow> price_pct (Fin e) mark \<le> - effective_sl prefs t \<and> ed_sellQty d = buyAlloc / Fin e)"
  unfolding assms(3) using price_pct_pos [OF assms(2)]
  by (auto simp: decide_exit_def Let_def assms(1) split: if_splits)

text \<open>An armed trail does not protect against a gap: if between two passes the mark falls from above
  the trail's floor to the entry price or below, but not to the stop, nothing is sold, although the
  peak armed the trail.\<close>

theorem armed_trail_misses_gap:
  assumes "wt_entryPrice t = Fin e" "0 < e" "mark \<le> Fin e" "mark \<noteq> NaN"
    and "nullish (wt_trailingStop t) (xs_trailingStop prefs)" "Fin 0 < effective_tp prefs t"
    and "trail_armed prefs (Fin e) (math_max (nullish (wt_trailingPeak t) (Fin 0)) mark)"
    and "\<not> price_pct (Fin e) mark \<le> - effective_sl prefs t"
  shows "ed_reason (decide_exit prefs t buyAlloc mark ready dec) = None"
proof -
  have p: "price_pct (Fin e) mark \<le> Fin 0" using assms(2,3) by (rule price_pct_nonpos)
  then have "\<not> effective_tp prefs t \<le> price_pct (Fin e) mark" "\<not> Fin 0 < price_pct (Fin e) mark"
    using number_less_flip [OF assms(6)] number_le_trans number_less_flip by blast+
  then show ?thesis using assms(1,5,8) by (simp add: decide_exit_def Let_def)
qed

definition demo_prefs :: exit_settings where
  "demo_prefs = \<lparr>xs_enabled = True, xs_takeProfitPct = Fin 5, xs_stopLossPct = Fin 2, xs_profitSkim = False, xs_trailingStop = True,
     xs_trailingActivationPct = Fin 1, xs_trailingDeltaPct = Fin (1/2)\<rparr>"

definition demo_trade :: watched_trade where
  "demo_trade = \<lparr>wt_id = ''t1'', wt_user = ''u'', wt_pair = ''SOL/USDT'', wt_entryPrice = Fin 100, wt_allocationUsd = Some (Fin 50),
     wt_pnl = None, wt_takeProfitPct = None, wt_stopLossPct = None, wt_trailingStop = None, wt_trailingPeak = Some (Fin 103),
     wt_createdAt = 0\<rparr>"

theorem exit_decision_grounds_witness:
  "Fin 100 < Fin 102 \<and> ed_sellQty (decide_exit demo_prefs demo_trade (Fin 50) (Fin 102) True None) = Fin 50 / Fin 100"
proof -
  have "wt_entryPrice demo_trade = Fin 100" by (simp add: demo_trade_def)
  moreover have "ed_reason (decide_exit demo_prefs demo_trade (Fin 50) (Fin 102) True None) = Some TRAILING_STOP" by code_simp
  ultimately show ?thesis
    using exit_decision_grounds [of demo_trade 100 _ demo_prefs "Fin 50" "Fin 102" True None] by simp
qed

theorem armed_trail_misses_gap_witness:
  "ed_reason (decide_exit demo_prefs demo_trade (Fin 50) (Fin 99) True None) = None"
proof (rule armed_trail_misses_gap)
  show "trail_armed demo_prefs (Fin 100) (math_max (nullish (wt_trailingPeak demo_trade) (Fin 0)) (Fin 99))" by code_simp
  show "\<not> price_pct (Fin 100) (Fin 99) \<le> - effective_sl demo_prefs demo_trade" by code_simp
qed (simp_all add: demo_trade_def demo_prefs_def effective_tp_def)

section \<open>What a pass does\<close>

definition sent_count :: "string \<Rightarrow> watcher \<Rightarrow> nat" where
  "sent_count i w = length (filter (\<lambda>e. case e of SwapSent j _ \<Rightarrow> j = i | _ \<Rightarrow> False) (w_trace w))"

lemma isSuperMachineEnabled_fields:
  "isSuperMachineEnabled env u w = Some (b, w') \<Longrightarrow>
   w_exitCooldown w' = w_exitCooldown w \<and> w_skimCooldown w' = w_skimCooldown w \<and> w_trace w' = w_trace w"
  by (auto simp: isSuperMachineEnabled_def Let_def split: option.splits sum.splits if_splits)

lemma sent_count_add [simp]:
  "sent_count i (add_trace es w) = sent_count i w + length (filter (\<lambda>e. case e of SwapSent j _ \<Rightarrow> j = i | _ \<Rightarrow> False) es)"
  by (simp add: sent_count_def add_trace_def)

lemma send_exit_effect:
  "w_exitCooldown (send_exit env t reason q sm w) = (w_exitCooldown w)(wt_id t \<mapsto> we_now env)"
  "sent_count i (send_exit env t reason q sm w) = sent_count i w + (if i = wt_id t then 1 else 0)"
  by (auto simp: send_exit_def Let_def add_trace_def sent_count_def)

definition quiet :: "watcher \<Rightarrow> watcher \<Rightarrow> bool" where
  "quiet w w' \<longleftrightarrow> w_exitCooldown w' = w_exitCooldown w \<and> (\<forall>i. sent_count i w' = sent_count i w)"

definition sends_one :: "time \<Rightarrow> string \<Rightarrow> watcher \<Rightarrow> watcher \<Rightarrow> bool" where
  "sends_one now i w w' \<longleftrightarrow> w_exitCooldown w' = (w_exitCooldown w)(i \<mapsto> now) \<and>
     (\<forall>j. sent_count j w' = sent_count j w + (if j = i then 1 else 0))"

lemma quiet_simps [simp]: "quiet w w" "quiet w (w\<lparr>w_exits := x\<rparr>)"
  by (simp_all add: quiet_def sent_count_def)

lemma quiet_peak: "quiet w (add_trace (case p of None \<Rightarrow> [] | Some p \<Rightarrow> [PeakSaved j p]) w)"
  by (cases p) (simp_all add: quiet_def, simp_all add: add_trace_def)

lemma quiet_sm: "isSuperMachineEnabled env u w = Some (b, w') \<Longrightarrow> quiet w w'"
  using isSuperMachineEnabled_fields [of env u w b w'] by (simp add: quiet_def sent_count_def)

lemma quiet_trans: "quiet a b \<Longrightarrow> quiet b c \<Longrightarrow> quiet a c"
  by (simp add: quiet_def)

lemma send_exit_sends: "quiet w w3 \<Longrightarrow> sends_one (we_now env) (wt_id t) w (send_exit env t reason q sm w3)"
  by (simp add: quiet_def sends_one_def send_exit_effect)

lemma exit_position_effect:
  assumes "exit_position env t prefs mark w = (w', go)"
  shows "quiet w w' \<or> sends_one (we_now env) (wt_id t) w w'"
proof -
  define d where "d = decide_exit prefs t (nullish (wt_allocationUsd t) (Fin 0)) mark
    (SKIM_COOLDOWN_MS \<le> we_now env - nullish (w_skimCooldown w (wt_id t)) 0) (we_decimals env (base_of_pair (wt_pair t)))"
  define w2 where "w2 = add_trace (case ed_peak d of None \<Rightarrow> [] | Some p \<Rightarrow> [PeakSaved (wt_id t) p]) w"
  have q: "quiet w w2" unfolding w2_def by (rule quiet_peak)
  have "w' = w2 \<or> (\<exists>reason sm w3. isSuperMachineEnabled env (wt_user t) w2 = Some (sm, w3) \<and>
      w' = send_exit env t reason (ed_sellQty d) sm w3)"
    using assms unfolding exit_position_def Let_def d_def [symmetric] w2_def [symmetric]
    by (auto split: option.splits)
  then show ?thesis using q quiet_sm quiet_trans send_exit_sends by metis
qed

text \<open>One position either sends nothing and leaves the cooldowns alone, or is out of its cooldown, sends
  one swap and starts the cooldown.\<close>

lemma quiet_prefix: "quiet (w\<lparr>w_exits := x\<rparr>) w' \<Longrightarrow> quiet w w'" "sends_one n i (w\<lparr>w_exits := x\<rparr>) w' \<Longrightarrow> sends_one n i w w'"
  by (simp_all add: quiet_def sends_one_def sent_count_def)

lemma watch_trade_effect:
  assumes "watch_trade env t w = (w', go)"
  shows "quiet w w' \<or> WATCH_COOLDOWN_MS \<le> we_now env - nullish (w_exitCooldown w (wt_id t)) 0 \<and>
     sends_one (we_now env) (wt_id t) w w'"
proof (cases "we_now env - nullish (w_exitCooldown w (wt_id t)) 0 < WATCH_COOLDOWN_MS")
  case True
  with assms show ?thesis by (simp add: watch_trade_def)
next
  case False
  with assms have "quiet w w' \<or> (\<exists>prefs mark x. exit_position env t prefs mark (w\<lparr>w_exits := x\<rparr>) = (w', go))"
    by (auto simp: watch_trade_def Let_def case_prod_beta split: if_splits sum.splits option.splits)
  then show ?thesis using False exit_position_effect quiet_prefix by (meson not_less)
qed

text \<open>The times at which a swap for position \<open>i\<close> is sent, over a sequence of visits of positions at any
  times.\<close>

fun swap_times :: "string \<Rightarrow> (watch_env \<times> watched_trade) list \<Rightarrow> watcher \<Rightarrow> time list" where
  "swap_times i [] w = []"
| "swap_times i ((env, t) # vs) w =
     (let w' = fst (watch_trade env t w) in
      (if sent_count i w < sent_count i w' then [we_now env] else []) @ swap_times i vs w')"

lemma swap_times_spaced:
  "successively (\<lambda>a b. a + WATCH_COOLDOWN_MS \<le> b) (swap_times i vs w) \<and>
   (\<forall>last. w_exitCooldown w i = Some last \<longrightarrow> (\<forall>b bs. swap_times i vs w = b # bs \<longrightarrow> last + WATCH_COOLDOWN_MS \<le> b))"
proof (induction vs arbitrary: w)
  case (Cons v vs)
  obtain env t where v: "v = (env, t)" by (cases v)
  obtain w' go where w': "watch_trade env t w = (w', go)" by (cases "watch_trade env t w")
  note ih = Cons.IH [of w']
  from watch_trade_effect [OF w'] show ?case
  proof
    assume "quiet w w'"
    then show ?thesis using ih by (simp add: v w' quiet_def)
  next
    assume s: "WATCH_COOLDOWN_MS \<le> we_now env - nullish (w_exitCooldown w (wt_id t)) 0 \<and> sends_one (we_now env) (wt_id t) w w'"
    show ?thesis
    proof (cases "wt_id t = i")
      case True
      then have "w_exitCooldown w' i = Some (we_now env)" "sent_count i w < sent_count i w'"
        using s by (simp_all add: sends_one_def)
      then show ?thesis using ih s True by (auto simp: v w' successively_Cons) (metis list.set_cases list.sel(1) neq_Nil_conv)+
    next
      case False
      then have "w_exitCooldown w' i = w_exitCooldown w i" "sent_count i w = sent_count i w'"
        using s by (simp_all add: sends_one_def)
      then show ?thesis using ih by (simp add: v w')
    qed
  qed
qed simp

text \<open>C13: swaps for one position are at least thirty seconds apart: over any sequence of visits to any
  positions at any times, whatever the quotes, the settings and the outcomes of the swaps.\<close>

theorem exits_of_a_position_are_spaced:
  "successively (\<lambda>a b. a + 30000 \<le> b) (swap_times i visits w)"
  using swap_times_spaced [of i visits w] by (simp add: WATCH_COOLDOWN_MS_def)

lemma send_exit_trace:
  "\<exists>req. SwapSent (wt_id t) req \<in> set (w_trace (send_exit env t reason q sm w)) \<and> sq_amount req = q \<and>
     sq_partialSkim req = (reason = PROFIT_SKIM)"
  unfolding send_exit_def Let_def add_trace_def
  by (rule exI [of _ "\<lparr>sq_user = wt_user t, sq_symbol = base_of_pair (wt_pair t) @ ''USDT'', sq_amount = q,
    sq_slippageBps = we_slippageBps env, sq_partialSkim = (reason = PROFIT_SKIM)\<rparr>"]) simp

definition is_swap :: "watch_event \<Rightarrow> bool" where
  "is_swap e \<longleftrightarrow> (case e of SwapSent _ _ \<Rightarrow> True | _ \<Rightarrow> False)"

text \<open>The Super Machine switch of a user can be told: it was read within the last minute, or the database answers.\<close>

definition switch_known :: "watch_env \<Rightarrow> user_id \<Rightarrow> watcher \<Rightarrow> bool" where
  "switch_known env u w \<longleftrightarrow> (\<exists>b r. w_smCache w u = Some (b, r) \<and> we_now env - r < 60000) \<or> (\<exists>row. we_smRow env u = Inr row)"

lemma switch_read: "(isSuperMachineEnabled env u w = None) \<longleftrightarrow> \<not> switch_known env u w"
  by (auto simp: isSuperMachineEnabled_def switch_known_def Let_def split: option.split sum.split)

lemma send_exit_swaps:
  "\<exists>es. w_trace (send_exit env t reason q sm w) = w_trace w @ es \<and>
     filter is_swap es = [SwapSent (wt_id t) \<lparr>sq_user = wt_user t, sq_symbol = base_of_pair (wt_pair t) @ ''USDT'', sq_amount = q,
       sq_slippageBps = we_slippageBps env, sq_partialSkim = (reason = PROFIT_SKIM)\<rparr>]"
  by (simp add: send_exit_def Let_def add_trace_def is_swap_def)

lemma stop_loss_exit:
  assumes d: "\<And>ready dec. ed_reason (decide_exit prefs t (Fin a) mark ready dec) = Some STOP_LOSS \<and>
      ed_sellQty (decide_exit prefs t (Fin a) mark ready dec) = q"
    and "wt_allocationUsd t = Some (Fin a)"
  shows "\<exists>w' es. exit_position env t prefs mark w = (w', switch_known env (wt_user t) w) \<and> w_trace w' = w_trace w @ es \<and>
     filter is_swap es = (if switch_known env (wt_user t) w then [SwapSent (wt_id t)
       \<lparr>sq_user = wt_user t, sq_symbol = base_of_pair (wt_pair t) @ ''USDT'', sq_amount = q,
        sq_slippageBps = we_slippageBps env, sq_partialSkim = False\<rparr>] else [])"
proof -
  define dec where "dec = decide_exit prefs t (Fin a) mark
    (SKIM_COOLDOWN_MS \<le> we_now env - nullish (w_skimCooldown w (wt_id t)) 0) (we_decimals env (base_of_pair (wt_pair t)))"
  have dd: "ed_reason dec = Some STOP_LOSS" "ed_sellQty dec = q" using d by (simp_all add: dec_def)
  define ps where "ps = (case ed_peak dec of None \<Rightarrow> [] | Some p \<Rightarrow> [PeakSaved (wt_id t) p])"
  define w2 where "w2 = add_trace ps w"
  have ps: "filter is_swap ps = []" by (simp add: ps_def is_swap_def split: option.split)
  have tr: "w_trace w2 = w_trace w @ ps" and sw: "switch_known env (wt_user t) w2 = switch_known env (wt_user t) w"
    by (simp_all add: w2_def add_trace_def switch_known_def)
  have e: "exit_position env t prefs mark w = (case isSuperMachineEnabled env (wt_user t) w2 of None \<Rightarrow> (w2, False)
      | Some (sm, w3) \<Rightarrow> (send_exit env t STOP_LOSS q sm w3, True))"
    unfolding exit_position_def Let_def assms(2) nullish_simps dec_def [symmetric] ps_def [symmetric] w2_def [symmetric]
    by (simp add: dd split: option.split)
  show ?thesis
  proof (cases "isSuperMachineEnabled env (wt_user t) w2")
    case None
    then show ?thesis using e tr ps switch_read [of env "wt_user t" w2] sw by simp
  next
    case (Some r)
    then obtain sm w3 where r: "isSuperMachineEnabled env (wt_user t) w2 = Some (sm, w3)" by (cases r) auto
    obtain es where es: "w_trace (send_exit env t STOP_LOSS q sm w3) = w_trace w3 @ es"
      "filter is_swap es = [SwapSent (wt_id t) \<lparr>sq_user = wt_user t, sq_symbol = base_of_pair (wt_pair t) @ ''USDT'', sq_amount = q,
         sq_slippageBps = we_slippageBps env, sq_partialSkim = False\<rparr>]"
      using send_exit_swaps [of env t STOP_LOSS q sm w3] by auto
    have "w_trace w3 = w_trace w2" using isSuperMachineEnabled_fields [OF r] by simp
    then show ?thesis using e r es tr ps switch_read [of env "wt_user t" w2] sw by (auto intro!: exI [of _ "ps @ es"])
  qed
qed

text \<open>C10: The stop loss. The position has a finite positive entry price and allocation and is out of its exit cooldown, its
  exits are enabled in the settings read for its user, a quote for the whole lot is answered, and the quoted price is below
  the entry and at or below the stop: the position's own stop or else the user's, tightened to 0.35 percent once profit was
  skimmed. The position's own take profit, if any, is positive. Then, whether skimming or trailing is on or not, the visit
  sends exactly one swap, which sells the whole lot of that position for its user and is not a partial skim, and the pass goes
  on. The one exception: when the Super Machine switch of the user, which is only used for the activity feed, was not read in
  the last minute and cannot be read, the visit sends no swap and ends the pass.\<close>

theorem stop_loss_is_sent:
  assumes "(jx_step (we_stopLoss env) col)\<^sup>*\<^sup>* (jx_start db) (w_exits w)"
    and "prefs = fst (getJupiterExitSettings (we_stopLoss env) (wt_user t) (w_exits w))" "xs_enabled prefs"
    and "\<And>p. wt_takeProfitPct t = Some p \<Longrightarrow> Fin 0 < p"
    and "30000 \<le> we_now env - nullish (w_exitCooldown w (wt_id t)) 0"
    and "wt_entryPrice t = Fin e" "0 < e" "wt_allocationUsd t = Some (Fin a)" "0 < a"
    and "we_quote env (base_of_pair (wt_pair t)) (Fin a / Fin e) = Inr (Some mark)"
    and "(mark - Fin e) / Fin e * Fin 100 < Fin 0"
    and "(mark - Fin e) / Fin e * Fin 100 \<le>
      - (if Fin 0 < nullish (wt_pnl t) (Fin 0) then math_min (nullish (wt_stopLossPct t) (xs_stopLossPct prefs)) (lit (35/100))
         else nullish (wt_stopLossPct t) (xs_stopLossPct prefs))"
  shows "\<exists>w' es. watch_trade env t w = (w', switch_known env (wt_user t) w) \<and> w_trace w' = w_trace w @ es \<and>
     filter is_swap es = (if switch_known env (wt_user t) w then [SwapSent (wt_id t)
       \<lparr>sq_user = wt_user t, sq_symbol = base_of_pair (wt_pair t) @ ''USDT'', sq_amount = Fin a / Fin e,
        sq_slippageBps = we_slippageBps env, sq_partialSkim = False\<rparr>] else [])"
proof -
  obtain x where g: "getJupiterExitSettings (we_stopLoss env) (wt_user t) (w_exits w) = (prefs, x)"
    using assms(2) by (cases "getJupiterExitSettings (we_stopLoss env) (wt_user t) (w_exits w)") simp
  have "Fin 0 < effective_tp prefs t"
    using jupiter_take_profit_positive [OF assms(1), of "wt_user t"] assms(4)
    by (cases "wt_takeProfitPct t") (simp_all add: effective_tp_def assms(2))
  then have d: "ed_reason (decide_exit prefs t (Fin a) mark ready dec) = Some STOP_LOSS \<and>
      ed_sellQty (decide_exit prefs t (Fin a) mark ready dec) = Fin a / Fin e" for ready dec
    using stop_loss_decided [of prefs t mark "Fin a" ready dec] assms(6,11,12)
    by (simp add: price_pct_def effective_sl_def Let_def del: divide_number.simps)
  have "watch_trade env t w = exit_position env t prefs mark (w\<lparr>w_exits := x\<rparr>)"
    using assms(3,5-10) g by (simp add: watch_trade_def Let_def WATCH_COOLDOWN_MS_def del: divide_number.simps)
  moreover have "switch_known env (wt_user t) (w\<lparr>w_exits := x\<rparr>) = switch_known env (wt_user t) w"
    by (simp add: switch_known_def)
  ultimately show ?thesis using stop_loss_exit [OF d assms(8), of env "w\<lparr>w_exits := x\<rparr>"] by simp
qed

definition demo_watch_env :: watch_env where
  "demo_watch_env = \<lparr>we_now = 1000000, we_stopLoss = Fin 1, we_slippageBps = Fin 100, we_quote = (\<lambda>_ _. Inr (Some (Fin 90))),
     we_decimals = (\<lambda>_. None), we_smRow = (\<lambda>_. Inr None), we_swap = (\<lambda>_. False)\<rparr>"

definition demo_watcher :: watcher where
  "demo_watcher = \<lparr>w_exitCooldown = Map.empty, w_skimCooldown = Map.empty, w_smCache = Map.empty,
     w_exits = jx_start Map.empty, w_trace = []\<rparr>"

theorem stop_loss_is_sent_witness:
  "\<exists>w'. watch_trade demo_watch_env demo_trade demo_watcher = (w', True) \<and> filter is_swap (w_trace w') =
     [SwapSent ''t1'' \<lparr>sq_user = ''u'', sq_symbol = ''SOLUSDT'', sq_amount = Fin 50 / Fin 100, sq_slippageBps = Fin 100, sq_partialSkim = False\<rparr>]"
proof -
  have s: "getJupiterExitSettings (Fin 1) ''u'' (jx_start Map.empty) = (jupiter_defaults (Fin 1), hydrateFromDb ''u'' (jx_start Map.empty))"
    by (simp add: getJupiterExitSettings_def hydrateFromDb_def Let_def jx_start_def)
  have l: "(Fin 90 - Fin 100) / Fin 100 * Fin 100 < Fin 0" "(Fin 90 - Fin 100) / Fin 100 * Fin 100 \<le> - Fin 1" by code_simp+
  have known: "switch_known demo_watch_env ''u'' demo_watcher" by (simp add: switch_known_def demo_watch_env_def)
  have base: "base_of_pair ''SOL/USDT'' = ''SOL''" by code_simp
  show ?thesis
    using stop_loss_is_sent [where env = demo_watch_env and t = demo_trade and w = demo_watcher and col = id and db = Map.empty
        and e = 100 and a = 50 and mark = "Fin 90" and prefs = "jupiter_defaults (Fin 1)"] l known s base
    by (simp add: demo_trade_def demo_watch_env_def demo_watcher_def jupiter_defaults_def del: divide_number.simps times_number.simps minus_number_def)
qed

end
