(* ===== verification/PaperTrading.thy ===== *)
theory PaperTrading
  imports JsPrelude
begin

text \<open>
  The paper trading package's rules, \<open>packages/bot\<close>: the risk limits (\<open>risk.ts\<close>), the fill and fee
  model (\<open>paperRealism.ts\<close>) and the execution gate every order passes (\<open>executionEngine.ts\<close>).
  The two settings the fill model reads from the environment are its parameter.
\<close>

section \<open>Risk limits\<close>

definition MAX_CAPITAL_PER_TRADE :: number where "MAX_CAPITAL_PER_TRADE = Fin (1/2)"
definition MAX_TOTAL_EXPOSURE :: number where "MAX_TOTAL_EXPOSURE = lit (4/5)"
definition MAX_OPEN_POSITIONS :: int where "MAX_OPEN_POSITIONS = 5"
definition MAX_DRAWDOWN :: number where "MAX_DRAWDOWN = lit (1/5)"
definition eps9 :: number where "eps9 = lit (1 / 10 ^ 9)"

datatype RiskCheckReason = OK | LOW_CONFIDENCE | MAX_POSITIONS | MAX_EXPOSURE | MAX_TRADE_SIZE | DRAWDOWN_HALT

definition checkSignalConfidence :: "number \<Rightarrow> number \<Rightarrow> bool" where
  "checkSignalConfidence confidence minRequired \<longleftrightarrow> minRequired \<le> confidence"

definition checkDrawdownExceeded :: "number \<Rightarrow> number \<Rightarrow> bool" where
  "checkDrawdownExceeded currentEquity peakEquity =
     (if peakEquity \<le> Fin 0 then False else MAX_DRAWDOWN \<le> (peakEquity - currentEquity) / peakEquity)"

record new_buy =
  nb_confidence :: number
  nb_minConfidenceRequired :: number
  nb_proposedTradeFraction :: number
  nb_openCount :: int
  nb_openExposureFraction :: number
  nb_drawdownHalted :: bool
  nb_skipConfidenceCheck :: bool

definition validateNewBuy :: "new_buy \<Rightarrow> RiskCheckReason" where
  "validateNewBuy input =
     (if nb_drawdownHalted input then DRAWDOWN_HALT
      else if \<not> nb_skipConfidenceCheck input \<and>
              \<not> checkSignalConfidence (nb_confidence input) (nb_minConfidenceRequired input) then LOW_CONFIDENCE
      else if MAX_OPEN_POSITIONS \<le> nb_openCount input then MAX_POSITIONS
      else if MAX_CAPITAL_PER_TRADE + eps9 < nb_proposedTradeFraction input then MAX_TRADE_SIZE
      else if MAX_TOTAL_EXPOSURE + eps9 < nb_openExposureFraction input + nb_proposedTradeFraction input then MAX_EXPOSURE
      else OK)"

section \<open>Fills and fees\<close>

type_synonym bot_env = "string \<Rightarrow> string option"

definition bounded_env_int :: "bot_env \<Rightarrow> string \<Rightarrow> number \<Rightarrow> number \<Rightarrow> number" where
  "bounded_env_int env key hi def =
     (let raw = nullish (env key) []; n = (if raw \<noteq> [] then parse_int raw else NaN) in
      if \<not> is_finite n \<or> n < Fin 0 \<or> hi < n then def else n)"

definition getPaperAssumedSlippageBps :: "bot_env \<Rightarrow> number" where
  "getPaperAssumedSlippageBps env = bounded_env_int env ''PAPER_ASSUMED_SLIPPAGE_BPS'' (Fin 500) (Fin 10)"

definition getPaperTakerFeeBps :: "bot_env \<Rightarrow> number" where
  "getPaperTakerFeeBps env = bounded_env_int env ''PAPER_TAKER_FEE_BPS'' (Fin 200) (Fin 10)"

definition feeRate :: "bot_env \<Rightarrow> number" where
  "feeRate env = getPaperTakerFeeBps env / Fin 10000"

definition slipRate :: "bot_env \<Rightarrow> number" where
  "slipRate env = getPaperAssumedSlippageBps env / Fin 10000"

definition paperExecutionBuyPrice :: "bot_env \<Rightarrow> number \<Rightarrow> number" where
  "paperExecutionBuyPrice env topAsk = topAsk * (Fin 1 + slipRate env)"

definition paperExecutionSellPrice :: "bot_env \<Rightarrow> number \<Rightarrow> number" where
  "paperExecutionSellPrice env topBid = math_max (lit (1 / 10 ^ 12)) (topBid * (Fin 1 - slipRate env))"

definition baseQtyFromPaperBuy :: "bot_env \<Rightarrow> number \<Rightarrow> number \<Rightarrow> number" where
  "baseQtyFromPaperBuy env allocUsd ask = (allocUsd * (Fin 1 - feeRate env)) / ask"

definition proceedsPaperSell :: "bot_env \<Rightarrow> number \<Rightarrow> number \<Rightarrow> number" where
  "proceedsPaperSell env baseQty bid = baseQty * bid * (Fin 1 - feeRate env)"

definition paperRoundTripPnl :: "bot_env \<Rightarrow> number \<Rightarrow> number \<Rightarrow> number \<Rightarrow> number" where
  "paperRoundTripPnl env allocUsd entryAsk exitBid =
     proceedsPaperSell env (baseQtyFromPaperBuy env allocUsd entryAsk) exitBid - allocUsd"

definition paperUnrealizedPnlUsd :: "bot_env \<Rightarrow> number \<Rightarrow> number \<Rightarrow> number \<Rightarrow> number" where
  "paperUnrealizedPnlUsd env allocUsd entryExecutionPrice topOfBookBid =
     paperRoundTripPnl env allocUsd entryExecutionPrice (paperExecutionSellPrice env topOfBookBid)"

section \<open>The execution gate\<close>

definition EXEC_MIN_CONFIDENCE :: number where "EXEC_MIN_CONFIDENCE = lit (1/10)"
definition EXEC_MIN_RISK_REWARD :: number where "EXEC_MIN_RISK_REWARD = Fin 2"
definition EXEC_STOP_LOSS_PCT :: number where "EXEC_STOP_LOSS_PCT = lit (125/10000)"
definition EXEC_TAKE_PROFIT_PCT :: number where "EXEC_TAKE_PROFIT_PCT = lit (25/1000)"
definition EXEC_VOLATILITY_REJECT_PCT :: number where "EXEC_VOLATILITY_REJECT_PCT = Fin 25"
definition EXEC_MAX_LOSS_TRADE_RATE :: number where "EXEC_MAX_LOSS_TRADE_RATE = lit (9/10)"
definition EXEC_MIN_TRADES_FOR_LOSS_RATE :: int where "EXEC_MIN_TRADES_FOR_LOSS_RATE = 8"
definition EXEC_MAX_GAS_TO_NOTIONAL :: number where "EXEC_MAX_GAS_TO_NOTIONAL = lit (2/100)"
definition EXEC_MIN_COOLDOWN_MS :: int where "EXEC_MIN_COOLDOWN_MS = 5000"

datatype SignalAction = BUY | SELL | HOLD

record ExecutionSignal =
  es_action :: SignalAction
  es_confidence :: number
  es_token :: string
  es_price :: number

datatype ExecutionMode = paper | cex | dex

record ExecutionContext =
  xc_mode :: ExecutionMode
  xc_userId :: user_id
  xc_pair :: string
  xc_capitalUsd :: number
  xc_proposedNotionalUsd :: number
  xc_proposedTradeFraction :: number
  xc_openPositionCount :: int
  xc_openExposureFraction :: number
  xc_hasOpenPositionOnPair :: bool
  xc_volatilityPct :: "number option"
  xc_drawdownHalted :: bool
  xc_sessionPeakEquity :: number
  xc_currentEquity :: number
  xc_closedTrades :: int
  xc_losingTrades :: int
  xc_winningTrades :: int
  xc_minCooldownMs :: int
  xc_lastTradeAt :: "time option"
  xc_estimatedGasUsd :: number
  xc_bid :: number
  xc_ask :: number

record FeeEstimate =
  fe_roundTripCostFraction :: number
  fe_estimatedFeesUsd :: number
  fe_takerFeeBps :: number
  fe_slippageBps :: number

record RiskRewardEstimate =
  rw_riskFraction :: number
  rw_rewardFraction :: number
  rw_ratio :: number
  rw_meetsMinRatio :: bool

record SignalEvaluation =
  ev_signal :: ExecutionSignal
  ev_confidenceOk :: bool
  ev_volatilityOk :: bool
  ev_lossRateOk :: bool
  ev_cooldownOk :: bool
  ev_exposureOk :: RiskCheckReason
  ev_fees :: FeeEstimate
  ev_riskReward :: RiskRewardEstimate
  ev_expectedNetAtTpUsd :: number
  ev_netPositiveVsCosts :: bool

definition estimateFees :: "bot_env \<Rightarrow> ExecutionContext \<Rightarrow> FeeEstimate" where
  "estimateFees env ctx =
     (let takerBps = getPaperTakerFeeBps env; slipBps = getPaperAssumedSlippageBps env;
          leg = (takerBps + slipBps) / Fin 10000; cost = math_min (Fin (1/2)) (leg * Fin 2) in
      \<lparr>fe_roundTripCostFraction = cost, fe_estimatedFeesUsd = xc_proposedNotionalUsd ctx * cost,
       fe_takerFeeBps = takerBps, fe_slippageBps = slipBps\<rparr>)"

definition calculateRiskReward :: "ExecutionSignal \<Rightarrow> ExecutionContext \<Rightarrow> RiskRewardEstimate" where
  "calculateRiskReward signal ctx =
     (let notional = xc_proposedNotionalUsd ctx;
          ratio = (if es_action signal \<noteq> BUY \<or> notional \<le> Fin 0 then EXEC_TAKE_PROFIT_PCT / EXEC_STOP_LOSS_PCT
                   else let riskUsd = notional * EXEC_STOP_LOSS_PCT; rewardUsd = notional * EXEC_TAKE_PROFIT_PCT in
                        if Fin 0 < riskUsd then rewardUsd / riskUsd else Fin 0) in
      \<lparr>rw_riskFraction = EXEC_STOP_LOSS_PCT, rw_rewardFraction = EXEC_TAKE_PROFIT_PCT, rw_ratio = ratio,
       rw_meetsMinRatio = (EXEC_MIN_RISK_REWARD - eps9 \<le> ratio)\<rparr>)"

definition loss_rate_ok :: "ExecutionContext \<Rightarrow> bool" where
  "loss_rate_ok ctx =
     (if EXEC_MIN_TRADES_FOR_LOSS_RATE \<le> xc_closedTrades ctx
      then fl (of_int (xc_losingTrades ctx)) / fl (of_int (xc_closedTrades ctx)) \<le> EXEC_MAX_LOSS_TRADE_RATE + eps9
      else True)"

definition cooldown_ok :: "time \<Rightarrow> ExecutionContext \<Rightarrow> bool" where
  "cooldown_ok now ctx = (case xc_lastTradeAt ctx of None \<Rightarrow> True | Some t \<Rightarrow> xc_minCooldownMs ctx \<le> now - t)"

definition evaluateSignal :: "bot_env \<Rightarrow> time \<Rightarrow> ExecutionSignal \<Rightarrow> ExecutionContext \<Rightarrow> SignalEvaluation" where
  "evaluateSignal env now signal ctx =
     (let fees = estimateFees env ctx;
          net = xc_proposedNotionalUsd ctx * EXEC_TAKE_PROFIT_PCT - fe_estimatedFeesUsd fees in
      \<lparr>ev_signal = signal,
       ev_confidenceOk = (EXEC_MIN_CONFIDENCE \<le> es_confidence signal),
       ev_volatilityOk = (es_action signal \<noteq> BUY \<or> (case xc_volatilityPct ctx of None \<Rightarrow> True
          | Some v \<Rightarrow> v \<le> EXEC_VOLATILITY_REJECT_PCT)),
       ev_lossRateOk = loss_rate_ok ctx,
       ev_cooldownOk = cooldown_ok now ctx,
       ev_exposureOk = (if es_action signal = BUY
          then validateNewBuy \<lparr>nb_confidence = es_confidence signal, nb_minConfidenceRequired = EXEC_MIN_CONFIDENCE,
                 nb_proposedTradeFraction = xc_proposedTradeFraction ctx, nb_openCount = xc_openPositionCount ctx,
                 nb_openExposureFraction = xc_openExposureFraction ctx, nb_drawdownHalted = xc_drawdownHalted ctx,
                 nb_skipConfidenceCheck = True\<rparr>
          else OK),
       ev_fees = fees, ev_riskReward = calculateRiskReward signal ctx, ev_expectedNetAtTpUsd = net,
       ev_netPositiveVsCosts = (Fin 0 < net)\<rparr>)"

datatype block_reason =
    Hold | LowConfidence | VolatilitySpike | LifetimeLossRate | Cooldown | GasTooHighVsSize
  | DuplicatePairPosition | DrawdownHalt | Exposure RiskCheckReason | NoPositionToClose

datatype ShouldExecuteResult =
    Blocked block_reason SignalEvaluation
  | Approved SignalAction ExecutionSignal SignalEvaluation

definition shouldExecuteTrade :: "bot_env \<Rightarrow> time \<Rightarrow> ExecutionSignal \<Rightarrow> ExecutionContext \<Rightarrow> ShouldExecuteResult" where
  "shouldExecuteTrade env now signal ctx =
     (let ev = evaluateSignal env now signal ctx in
      if es_action signal = HOLD then Blocked Hold ev
      else if es_confidence signal < EXEC_MIN_CONFIDENCE then Blocked LowConfidence ev
      else if \<not> ev_volatilityOk ev then Blocked VolatilitySpike ev
      else if \<not> ev_lossRateOk ev then Blocked LifetimeLossRate ev
      else if \<not> ev_cooldownOk ev then Blocked Cooldown ev
      else if xc_mode ctx = dex \<and> Fin 0 < xc_proposedNotionalUsd ctx \<and>
              EXEC_MAX_GAS_TO_NOTIONAL < xc_estimatedGasUsd ctx / xc_proposedNotionalUsd ctx then Blocked GasTooHighVsSize ev
      else if es_action signal = BUY then
        (if xc_hasOpenPositionOnPair ctx then Blocked DuplicatePairPosition ev
         else if xc_drawdownHalted ctx then Blocked DrawdownHalt ev
         else if ev_exposureOk ev \<noteq> OK then Blocked (Exposure (ev_exposureOk ev)) ev
         else Approved BUY signal ev)
      else (if \<not> xc_hasOpenPositionOnPair ctx then Blocked NoPositionToClose ev
            else Approved SELL signal ev))"

section \<open>What the gate and the fills guarantee\<close>

text \<open>C31: The gate approves a buy only when no position is open on the pair, the session is not halted,
  fewer than five positions are open, the trade and the total exposure are within their limits,
  the cooldown has passed, the loss rate is acceptable and the confidence is not below the minimum; it
  approves a sale only when there is a position to close; and it never approves a hold.\<close>

theorem execution_gate_sound:
  assumes "shouldExecuteTrade env now signal ctx = Approved intent s ev"
  shows "intent = es_action signal \<and> s = signal \<and> intent \<noteq> HOLD \<and>
     \<not> es_confidence signal < EXEC_MIN_CONFIDENCE \<and> loss_rate_ok ctx \<and> cooldown_ok now ctx \<and>
     (intent = BUY \<longrightarrow> \<not> xc_hasOpenPositionOnPair ctx \<and> \<not> xc_drawdownHalted ctx \<and> xc_openPositionCount ctx < 5 \<and>
        \<not> MAX_CAPITAL_PER_TRADE + eps9 < xc_proposedTradeFraction ctx \<and>
        \<not> MAX_TOTAL_EXPOSURE + eps9 < xc_openExposureFraction ctx + xc_proposedTradeFraction ctx) \<and>
     (intent = SELL \<longrightarrow> xc_hasOpenPositionOnPair ctx)"
proof -
  have "es_action signal = BUY \<or> es_action signal = SELL \<or> es_action signal = HOLD" by (cases "es_action signal") auto
  then show ?thesis using assms
    by (auto simp: shouldExecuteTrade_def Let_def evaluateSignal_def validateNewBuy_def MAX_OPEN_POSITIONS_def split: if_splits)
qed

definition demo_ctx :: ExecutionContext where
  "demo_ctx = \<lparr>xc_mode = paper, xc_userId = ''u'', xc_pair = ''BTC/USDT'', xc_capitalUsd = Fin 100, xc_proposedNotionalUsd = Fin 25,
     xc_proposedTradeFraction = Fin (1/4), xc_openPositionCount = 1, xc_openExposureFraction = Fin (1/4),
     xc_hasOpenPositionOnPair = False, xc_volatilityPct = Some (Fin 3), xc_drawdownHalted = False,
     xc_sessionPeakEquity = Fin 100, xc_currentEquity = Fin 100, xc_closedTrades = 0, xc_losingTrades = 0,
     xc_winningTrades = 0, xc_minCooldownMs = 5000, xc_lastTradeAt = Some 0, xc_estimatedGasUsd = Fin 0,
     xc_bid = Fin 99, xc_ask = Fin 101\<rparr>"

definition demo_signal :: ExecutionSignal where
  "demo_signal = \<lparr>es_action = BUY, es_confidence = Fin (1/2), es_token = ''BTCUSDT'', es_price = Fin 100\<rparr>"

lemma demo_gate:
  "shouldExecuteTrade (\<lambda>_. None) 6000 demo_signal demo_ctx =
     Approved BUY demo_signal (evaluateSignal (\<lambda>_. None) 6000 demo_signal demo_ctx)"
proof -
  have "\<not> Fin (1/2) < EXEC_MIN_CONFIDENCE" "Fin 3 \<le> EXEC_VOLATILITY_REJECT_PCT"
    "\<not> MAX_CAPITAL_PER_TRADE + eps9 < Fin (1/4)" "\<not> MAX_TOTAL_EXPOSURE + eps9 < Fin (1/4) + Fin (1/4)" by code_simp+
  then show ?thesis
    by (simp add: shouldExecuteTrade_def Let_def evaluateSignal_def validateNewBuy_def loss_rate_ok_def cooldown_ok_def
        demo_ctx_def demo_signal_def MAX_OPEN_POSITIONS_def EXEC_MIN_TRADES_FOR_LOSS_RATE_def del: plus_number.simps)
qed

theorem execution_gate_sound_witness:
  "\<not> xc_hasOpenPositionOnPair demo_ctx \<and> xc_openPositionCount demo_ctx < 5"
  using execution_gate_sound [OF demo_gate] by simp

lemma bounded_env_int_range:
  assumes "d = Fin x" "0 \<le> x" "x \<le> h"
  shows "\<exists>b. bounded_env_int env key (Fin h) d = Fin b \<and> 0 \<le> b \<and> b \<le> h"
proof -
  define n where "n = (if nullish (env key) [] \<noteq> [] then parse_int (nullish (env key) []) else NaN)"
  have "bounded_env_int env key (Fin h) d = (if \<not> is_finite n \<or> n < Fin 0 \<or> Fin h < n then d else n)"
    by (simp add: bounded_env_int_def n_def Let_def)
  then show ?thesis using assms by (cases n) auto
qed

lemma rate_range:
  assumes "0 \<le> b" "b \<le> 10000"
  obtains r where "Fin b / Fin 10000 = Fin r" "0 \<le> r" "r \<le> 1"
proof -
  have "fl 1 = Fin 1" by (rule fl_one)
  moreover have "fl (b / 10000) \<le> fl 1" "Fin 0 \<le> fl (b / 10000)" using assms by (auto intro: fl_mono fl_nonneg)
  ultimately show thesis using that by (cases "fl (b / 10000)") auto
qed

lemma slipRate_range: obtains r where "slipRate env = Fin r" "0 \<le> r" "r \<le> 1"
proof -
  obtain b where "getPaperAssumedSlippageBps env = Fin b" "0 \<le> b" "b \<le> 500"
    unfolding getPaperAssumedSlippageBps_def using bounded_env_int_range [of "Fin 10" 10 500 env] by auto
  then show thesis using rate_range [of b] that unfolding slipRate_def by auto
qed

lemma feeRate_range: obtains r where "feeRate env = Fin r" "0 \<le> r" "r \<le> 1"
proof -
  obtain b where "getPaperTakerFeeBps env = Fin b" "0 \<le> b" "b \<le> 200"
    unfolding getPaperTakerFeeBps_def using bounded_env_int_range [of "Fin 10" 10 200 env] by auto
  then show thesis using rate_range [of b] that unfolding feeRate_def by auto
qed

lemma scale_up:
  assumes "is_double (Fin a)" "0 \<le> a" "Fin 1 \<le> f"
  shows "Fin a \<le> Fin a * f \<or> a = 0"
proof (cases f)
  case (Fin c)
  then have "fl a \<le> fl (a * c)" using assms mult_left_mono [of 1 c a] by (intro fl_mono) simp
  then show ?thesis using Fin fl_id [OF assms(1)] by simp
qed (use assms in \<open>auto simp: inf_sign_def\<close>)

lemma scale_down:
  assumes "is_double (Fin a)" "0 \<le> a" "0 \<le> c" "c \<le> 1"
  shows "Fin a * Fin c \<le> Fin a"
proof -
  have "fl (a * c) \<le> fl a" using assms mult_left_mono [of c 1 a] by (intro fl_mono) simp
  then show ?thesis using fl_id [OF assms(1)] by simp
qed

text \<open>Paper fills are never better than the touch, for any slippage and fee settings: a market buy
  is filled at the best ask or above, a market sale at the best bid or below, for every positive price
  of at least 10^-12.\<close>

theorem paper_fills_are_adverse:
  assumes "is_double (Fin ask)" "0 < ask" "is_double (Fin bid)" "lit (1 / 10 ^ 12) \<le> Fin bid"
  shows "Fin ask \<le> paperExecutionBuyPrice env (Fin ask) \<and> paperExecutionSellPrice env (Fin bid) \<le> Fin bid"
proof -
  obtain r where r: "slipRate env = Fin r" "0 \<le> r" "r \<le> 1" by (rule slipRate_range)
  have one: "fl 1 = Fin 1" by (rule fl_one)
  have up: "Fin 1 \<le> Fin 1 + slipRate env" using fl_mono [of 1 "1 + r"] r one by simp
  have "Fin 0 \<le> lit (1 / 10 ^ 12)" by (simp add: lit_def fl_nonneg)
  then have b0: "0 \<le> bid" using number_le_trans [OF _ assms(4)] by fastforce
  have "Fin 0 \<le> fl (1 - r)" "fl (1 - r) \<le> fl 1" using r by (auto intro: fl_mono fl_nonneg)
  then obtain c where c: "fl (1 - r) = Fin c" "0 \<le> c" "c \<le> 1" using one by (cases "fl (1 - r)") auto
  have "Fin bid * Fin c \<le> Fin bid" using scale_down assms(3) b0 c by blast
  then have "math_max (lit (1 / 10 ^ 12)) (Fin bid * Fin c) \<le> Fin bid"
    using math_max_cases [of "lit (1 / 10 ^ 12)" "Fin bid * Fin c"] assms(4) by fastforce
  moreover have "Fin 1 - slipRate env = Fin c" using r c by (simp add: minus_number_def)
  ultimately show ?thesis using scale_up [OF assms(1) _ up] assms(2)
    by (simp add: paperExecutionBuyPrice_def paperExecutionSellPrice_def)
qed

theorem paper_fills_are_adverse_witness:
  "Fin 100 \<le> paperExecutionBuyPrice (\<lambda>_. Some ''25'') (Fin 100) \<and> paperExecutionSellPrice (\<lambda>_. Some ''25'') (Fin 99) \<le> Fin 99"
proof (rule paper_fills_are_adverse)
  have "fl 100 = Fin 100" "fl 99 = Fin 99" by code_simp+
  then show "is_double (Fin 100)" "is_double (Fin 99)" by (metis is_double_fl)+
  show "lit (1 / 10 ^ 12) \<le> Fin 99" by code_simp
qed simp

end
