(* ===== verification/SignalEngine.thy ===== *)
theory SignalEngine
  imports PaperTrading
begin

text \<open>
  The signal engine of the paper bot, \<open>packages/bot/signalEngine.ts\<close>: the indicator series
  (simple and exponential averages, RSI, ATR) with the loops of the source, the thresholds that
  follow volatility and volume, and the score that becomes BUY, SELL or HOLD. The loops are compared
  with textbook definitions over plain lists, which share no piece with them. The HTTP call is a parameter.
\<close>

section \<open>Indicator series\<close>

text \<open>Reading an array in arithmetic (\<open>undefined\<close> counts as NaN) and writing one, which grows it.\<close>

definition js_nth :: "number list \<Rightarrow> nat \<Rightarrow> number" where
  "js_nth xs i = (if i < length xs then xs ! i else NaN)"

definition js_set :: "number list \<Rightarrow> nat \<Rightarrow> number \<Rightarrow> number list" where
  "js_set xs i v = (if i < length xs then xs[i := v] else xs @ replicate (i - length xs) NaN @ [v])"

definition js_last :: "number list \<Rightarrow> number" where
  "js_last xs = js_nth xs (length xs - 1)"

definition sum_range :: "number list \<Rightarrow> nat \<Rightarrow> nat \<Rightarrow> number" where
  "sum_range values a b = foldl (\<lambda>s j. s + js_nth values j) (Fin 0) [a..<b]"

definition sma :: "number list \<Rightarrow> nat \<Rightarrow> number list" where
  "sma values period =
     map (\<lambda>i. if i + 1 < period then NaN
              else sum_range values (i + 1 - period) (i + 1) / count_number period) [0..<length values]"

definition ema_factor :: "nat \<Rightarrow> number" where
  "ema_factor period = Fin 2 / count_number (period + 1)"

definition ema_step :: "number list \<Rightarrow> nat \<Rightarrow> number \<times> number list \<Rightarrow> nat \<Rightarrow> number \<times> number list" where
  "ema_step values period s i =
     (case s of (prev, result) \<Rightarrow>
        if i + 1 < period then (prev, result @ [NaN])
        else if i + 1 = period then
          (let p = sum_range values 0 period / count_number period in (p, result @ [p]))
        else (let k = ema_factor period; p = js_nth values i * k + prev * (Fin 1 - k) in (p, result @ [p])))"

definition ema :: "number list \<Rightarrow> nat \<Rightarrow> number list" where
  "ema values period = snd (foldl (ema_step values period) (NaN, []) [0..<length values])"

definition close_diff :: "number list \<Rightarrow> nat \<Rightarrow> number" where
  "close_diff closes i = js_nth closes i - js_nth closes (i - 1)"

definition gain_loss_step :: "number list \<Rightarrow> number \<times> number \<Rightarrow> nat \<Rightarrow> number \<times> number" where
  "gain_loss_step closes s i =
     (case s of (gains, losses) \<Rightarrow>
        let diff = close_diff closes i in
        if Fin 0 \<le> diff then (gains + diff, losses) else (gains, losses - diff))"

definition rsi_value :: "number \<Rightarrow> number \<Rightarrow> number" where
  "rsi_value avgGain avgLoss =
     (let rs = (if js_eq avgLoss (Fin 0) then PInf else avgGain / avgLoss) in
      Fin 100 - Fin 100 / (Fin 1 + rs))"

definition wilder_next :: "nat \<Rightarrow> number \<Rightarrow> number \<Rightarrow> number" where
  "wilder_next period avg x = (avg * (count_number period - Fin 1) + x) / count_number period"

definition up_move :: "number list \<Rightarrow> nat \<Rightarrow> number" where
  "up_move closes i = (let diff = close_diff closes i in if Fin 0 < diff then diff else Fin 0)"

definition down_move :: "number list \<Rightarrow> nat \<Rightarrow> number" where
  "down_move closes i = (let diff = close_diff closes i in if diff < Fin 0 then - diff else Fin 0)"

definition rsi_step ::
  "number list \<Rightarrow> nat \<Rightarrow> number \<times> number \<times> number list \<Rightarrow> nat \<Rightarrow> number \<times> number \<times> number list" where
  "rsi_step closes period s i =
     (case s of (avgGain, avgLoss, result) \<Rightarrow>
        let ag = wilder_next period avgGain (up_move closes i);
            al = wilder_next period avgLoss (down_move closes i) in
        (ag, al, js_set result i (rsi_value ag al)))"

definition rsi_start :: "number list \<Rightarrow> nat \<Rightarrow> number \<times> number" where
  "rsi_start closes period =
     (case foldl (gain_loss_step closes) (Fin 0, Fin 0) [1..<period + 1] of (gains, losses) \<Rightarrow>
        (gains / count_number period, losses / count_number period))"

definition rsi :: "number list \<Rightarrow> nat \<Rightarrow> number list" where
  "rsi closes period =
     (let result = replicate (length closes) NaN in
      if length closes < period + 1 then result
      else case rsi_start closes period of (avgGain, avgLoss) \<Rightarrow>
        snd (snd (foldl (rsi_step closes period)
          (avgGain, avgLoss, js_set result period (rsi_value avgGain avgLoss)) [period + 1..<length closes])))"

definition true_range :: "number list \<Rightarrow> number list \<Rightarrow> number list \<Rightarrow> nat \<Rightarrow> number" where
  "true_range high low closes i =
     math_max (js_nth high i - js_nth low i)
       (math_max (math_abs (js_nth high i - js_nth closes (i - 1)))
                 (math_abs (js_nth low i - js_nth closes (i - 1))))"

definition atr :: "number list \<Rightarrow> number list \<Rightarrow> number list \<Rightarrow> nat \<Rightarrow> number list" where
  "atr high low closes period =
     (let result = replicate (length closes) NaN in
      if length closes < 2 then result
      else
        let trueRanges = NaN # map (true_range high low closes) [1..<length closes];
            prev = sum_range trueRanges 1 (period + 1) / count_number period in
        snd (foldl (\<lambda>(prev, result) i.
               let p = wilder_next period prev (js_nth trueRanges i) in (p, js_set result i p))
             (prev, js_set result period prev) [period + 1..<length closes]))"

section \<open>Thresholds and score\<close>

definition clamp01 :: "number \<Rightarrow> number" where
  "clamp01 x = math_max (Fin 0) (math_min (Fin 1) x)"

definition clamp :: "number \<Rightarrow> number \<Rightarrow> number \<Rightarrow> number" where
  "clamp x lo hi = math_max lo (math_min hi x)"

datatype trend = UP | DOWN | FLAT

record AISignalResult =
  ai_action :: SignalAction
  ai_confidence :: number
  ai_minConfidenceRequired :: number
  ai_rsi :: number
  ai_trend :: trend
  ai_volatilityPct :: "number option"
  ai_volumeRatio :: "number option"

definition ABSOLUTE_SIGNAL_FLOOR :: number where "ABSOLUTE_SIGNAL_FLOOR = lit (1/20)"

definition dynamicThresholds :: "number option \<Rightarrow> number option \<Rightarrow> number \<times> number" where
  "dynamicThresholds volatilityPct volumeRatio =
     (let chop = (case volatilityPct of None \<Rightarrow> lit (45/100) | Some v \<Rightarrow> clamp01 (math_min (v / Fin 14) (Fin 1)));
          flow = (case volumeRatio of None \<Rightarrow> Fin (1/2)
                  | Some r \<Rightarrow> clamp01 (math_min (math_max r (lit (2/5))) (lit (11/5)) / lit (11/5))) in
      (clamp (lit (8/100) + chop * lit (8/100) - flow * lit (4/100)) ABSOLUTE_SIGNAL_FLOOR (lit (1/5)),
       clamp (lit (5/1000) + chop * lit (1/100) - flow * lit (3/1000)) (lit (3/1000)) (lit (1/50))))"

record KlineRow =
  kl_open :: number
  kl_high :: number
  kl_low :: number
  kl_close :: number
  kl_volume :: number

text \<open>The response of the klines endpoint: the call fails, the status is not OK, the body is no
  array, or the rows with their fields as texts.\<close>

datatype klines_response = FetchFailed | NotOk | NotArray | Rows "string list list"

definition row_number :: "string list \<Rightarrow> nat \<Rightarrow> number" where
  "row_number r i = (if i < length r then parse_float (r ! i) else NaN)"

definition fetchBinanceKlines ::
  "(string \<Rightarrow> string \<Rightarrow> nat \<Rightarrow> klines_response) \<Rightarrow> string \<Rightarrow> string \<Rightarrow> nat \<Rightarrow> KlineRow list option" where
  "fetchBinanceKlines api sy interval limit =
     (case api sy interval limit of
        Rows raw \<Rightarrow> Some (map (\<lambda>r. \<lparr>kl_open = row_number r 1, kl_high = row_number r 2, kl_low = row_number r 3,
                                     kl_close = row_number r 4, kl_volume = row_number r 5\<rparr>) raw)
      | _ \<Rightarrow> None)"

definition trend_of :: "number \<Rightarrow> number \<Rightarrow> number \<Rightarrow> trend" where
  "trend_of e20 e50 lastClose =
     (if e20 \<noteq> NaN \<and> e50 \<noteq> NaN then
        if e50 * lit (1002/1000) < e20 \<and> e20 \<le> lastClose then UP
        else if e20 < e50 * lit (998/1000) \<and> lastClose \<le> e20 then DOWN
        else FLAT
      else FLAT)"

definition rsi_buy :: "number \<Rightarrow> number" where
  "rsi_buy r =
     (if r \<le> Fin 35 then clamp01 ((Fin 50 - r) / Fin 50) * lit (85/100)
      else if r \<le> Fin 55 then clamp01 ((Fin 60 - r) / Fin 25)
      else if r < Fin 70 then clamp01 ((Fin 70 - r) / Fin 20) * Fin (1/2)
      else Fin 0)"

definition rsi_sell :: "number \<Rightarrow> number" where
  "rsi_sell r =
     (if Fin 65 \<le> r then clamp01 ((r - Fin 55) / Fin 45)
      else if Fin 45 \<le> r then clamp01 ((r - Fin 40) / Fin 30) * lit (7/10)
      else if r < Fin 35 then clamp01 ((Fin 45 - r) / Fin 45) * lit (2/5)
      else clamp01 ((Fin 50 - r) / Fin 50) * lit (3/10))"

definition trend_score :: "trend \<Rightarrow> trend \<Rightarrow> number" where
  "trend_score wanted t =
     (if t = wanted then lit (85/100) else if t = FLAT then lit (45/100) else lit (15/100))"

definition vol_score :: "number option \<Rightarrow> number" where
  "vol_score volumeRatio = (case volumeRatio of None \<Rightarrow> Fin (1/2)
     | Some r \<Rightarrow> clamp01 (math_min r (Fin (5/2)) / Fin (5/2)))"

definition vol_norm :: "number option \<Rightarrow> number" where
  "vol_norm volatilityPct = (case volatilityPct of None \<Rightarrow> Fin (1/2)
     | Some v \<Rightarrow> clamp01 (Fin 1 - math_min (v / Fin 15) (Fin 1)) * lit (2/5) + lit (3/10))"

definition side_score :: "number \<Rightarrow> number \<Rightarrow> number \<Rightarrow> number \<Rightarrow> number" where
  "side_score r t v n = clamp01 (r * lit (38/100) + t * lit (32/100) + v * lit (18/100) + n * lit (12/100))"

definition choose_action :: "number \<Rightarrow> number \<Rightarrow> number \<times> number \<Rightarrow> SignalAction \<times> number" where
  "choose_action buyScore sellScore th =
     (case th of (MIN_CONFIDENCE, MARGIN) \<Rightarrow>
        if MIN_CONFIDENCE \<le> buyScore \<and> sellScore + MARGIN \<le> buyScore then (BUY, buyScore)
        else if MIN_CONFIDENCE \<le> sellScore \<and> buyScore + MARGIN \<le> sellScore then (SELL, sellScore)
        else (HOLD, math_max buyScore sellScore))"

definition scoreSignalFromKlines :: "KlineRow list \<Rightarrow> AISignalResult option" where
  "scoreSignalFromKlines klines =
     (if length klines < 52 then None
      else
        let closes = map kl_close klines; volumes = map kl_volume klines; rsiLast = js_last (rsi closes 14) in
        if rsiLast = NaN then None
        else
          let lastClose = js_last closes;
              t = trend_of (js_last (ema closes 20)) (js_last (ema closes 50)) lastClose;
              atrLast = js_last (atr (map kl_high klines) (map kl_low klines) closes 14);
              volatilityPct = (if atrLast \<noteq> NaN \<and> Fin 0 < lastClose then Some (atrLast / lastClose * Fin 100) else None);
              volAvg = js_last (sma volumes 20);
              volumeRatio = (if volAvg \<noteq> NaN \<and> Fin 0 < volAvg then Some (js_last volumes / volAvg) else None);
              buyScore = side_score (rsi_buy rsiLast) (trend_score UP t) (vol_score volumeRatio) (vol_norm volatilityPct);
              sellScore = side_score (rsi_sell rsiLast) (trend_score DOWN t) (vol_score volumeRatio) (vol_norm volatilityPct);
              th = dynamicThresholds volatilityPct volumeRatio;
              d = choose_action buyScore sellScore th in
          Some \<lparr>ai_action = fst d, ai_confidence = snd d, ai_minConfidenceRequired = fst th, ai_rsi = rsiLast,
                ai_trend = t, ai_volatilityPct = volatilityPct, ai_volumeRatio = volumeRatio\<rparr>)"

definition computeAISignal ::
  "(string \<Rightarrow> string \<Rightarrow> nat \<Rightarrow> klines_response) \<Rightarrow> string \<Rightarrow> AISignalResult option" where
  "computeAISignal api sy =
     (case fetchBinanceKlines api sy ''15m'' 120 of
        None \<Rightarrow> None
      | Some klines \<Rightarrow> if length klines < 52 then None else scoreSignalFromKlines klines)"

section \<open>The loops compute the smoothing\<close>

text \<open>Reference definitions: the exponential average and Wilder's smoothing as recursions over the
  bars after the first full period.\<close>

fun ema_ref :: "number list \<Rightarrow> nat \<Rightarrow> nat \<Rightarrow> number" where
  "ema_ref values period 0 = sum_range values 0 period / count_number period"
| "ema_ref values period (Suc n) =
     js_nth values (period + n) * ema_factor period + ema_ref values period n * (Fin 1 - ema_factor period)"

fun wilder_ref :: "(nat \<Rightarrow> number) \<Rightarrow> nat \<Rightarrow> number \<Rightarrow> nat \<Rightarrow> number" where
  "wilder_ref x period start 0 = start"
| "wilder_ref x period start (Suc n) = wilder_next period (wilder_ref x period start n) (x (period + Suc n))"

lemma foldl_upt_Suc: "a \<le> n \<Longrightarrow> foldl f s [a..<Suc n] = f (foldl f s [a..<n]) n"
  by simp

lemma ema_loop:
  assumes "0 < period"
  shows "foldl (ema_step values period) (NaN, []) [0..<n] =
     (if n < period then NaN else ema_ref values period (n - period),
      map (\<lambda>i. if i + 1 < period then NaN else ema_ref values period (i + 1 - period)) [0..<n])"
proof (induction n)
  case (Suc n)
  then show ?case
    using assms by (auto simp: ema_step_def Let_def Suc_diff_le)
qed (use assms in simp)

lemma rsi_loop:
  assumes "period + n < length closes"
  shows "foldl (rsi_step closes period) (g, l, js_set (replicate (length closes) NaN) period (rsi_value g l))
       [period + 1..<period + 1 + n] =
     (wilder_ref (up_move closes) period g n, wilder_ref (down_move closes) period l n,
      map (\<lambda>i. if period \<le> i \<and> i \<le> period + n
               then rsi_value (wilder_ref (up_move closes) period g (i - period))
                              (wilder_ref (down_move closes) period l (i - period)) else NaN)
        [0..<length closes])"
  using assms
proof (induction n)
  case 0
  then show ?case by (auto simp: js_set_def intro!: nth_equalityI simp: nth_list_update)
next
  case (Suc n)
  then show ?case
    by (auto simp: rsi_step_def Let_def js_set_def intro!: nth_equalityI simp: nth_list_update le_Suc_eq)
qed

definition rsi_ref :: "number list \<Rightarrow> nat \<Rightarrow> nat \<Rightarrow> number" where
  "rsi_ref closes period n =
     (case rsi_start closes period of (g, l) \<Rightarrow>
        rsi_value (wilder_ref (up_move closes) period g n) (wilder_ref (down_move closes) period l n))"

lemma rsi_series:
  assumes "0 < period"
  shows "rsi closes period = map (\<lambda>i. if i < period then NaN else rsi_ref closes period (i - period)) [0..<length closes]"
proof (cases "length closes < period + 1")
  case True
  then show ?thesis by (auto simp: rsi_def intro!: nth_equalityI)
next
  case False
  obtain g l where gl: "rsi_start closes period = (g, l)" by fastforce
  define n where "n = length closes - period - 1"
  have n: "period + 1 + n = length closes" "period + n < length closes" using False by (auto simp: n_def)
  show ?thesis using rsi_loop [OF n(2), of g l] False
    by (auto simp: rsi_def gl rsi_ref_def n(1) [symmetric] Let_def)
qed

section \<open>The textbook indicators\<close>

text \<open>The indicators as a textbook has them, over plain lists and the arithmetic of doubles: the mean, the exponential average
  with smoothing factor 2 / (period + 1), Wilder's average, and the relative strength index of the list of closes.
  None of them uses the loops above or their pieces.\<close>

definition plain_mean :: "number list \<Rightarrow> number" where
  "plain_mean xs = foldl (+) (Fin 0) xs / count_number (length xs)"

fun textbook_ema :: "number list \<Rightarrow> nat \<Rightarrow> nat \<Rightarrow> number" where
  "textbook_ema xs period 0 = plain_mean (take period xs)"
| "textbook_ema xs period (Suc n) =
     (let alpha = Fin 2 / count_number (period + 1) in xs ! (period + n) * alpha + textbook_ema xs period n * (Fin 1 - alpha))"

fun wilder_average :: "number list \<Rightarrow> nat \<Rightarrow> nat \<Rightarrow> number" where
  "wilder_average xs period 0 = plain_mean (take period xs)"
| "wilder_average xs period (Suc n) =
     (wilder_average xs period n * (count_number period - Fin 1) + xs ! (period + n)) / count_number period"

definition price_changes :: "number list \<Rightarrow> number list" where
  "price_changes closes = map2 (\<lambda>before after. after - before) closes (tl closes)"

definition price_gains :: "number list \<Rightarrow> number list" where
  "price_gains closes = map (\<lambda>d. if Fin 0 < d then d else Fin 0) (price_changes closes)"

definition price_losses :: "number list \<Rightarrow> number list" where
  "price_losses closes = map (\<lambda>d. if d < Fin 0 then - d else Fin 0) (price_changes closes)"

definition textbook_rsi :: "number list \<Rightarrow> nat \<Rightarrow> nat \<Rightarrow> number" where
  "textbook_rsi closes period n =
     (let gain = wilder_average (price_gains closes) period n; loss = wilder_average (price_losses closes) period n in
      if loss = Fin 0 then Fin 100 else Fin 100 - Fin 100 / (Fin 1 + gain / loss))"

lemma sum_range_foldl: "n \<le> length xs \<Longrightarrow> sum_range xs 0 n = foldl (+) (Fin 0) (take n xs)"
  by (induction n) (auto simp: sum_range_def js_nth_def take_Suc_conv_app_nth)

lemma ema_ref_textbook: "period + n \<le> length xs \<Longrightarrow> ema_ref xs period n = textbook_ema xs period n"
  by (induction n) (auto simp: sum_range_foldl plain_mean_def ema_factor_def js_nth_def Let_def min_def)

lemma sum_plus_zero: "(a + b) + Fin 0 = a + (b :: number)"
proof -
  have "fl x + Fin 0 = fl x" for x
  proof (cases "fl x")
    case (Fin q)
    have "is_double (Fin q)" using is_double_fl [of x] Fin by simp
    then show ?thesis using Fin by (simp add: fl_id)
  qed simp_all
  then show ?thesis by (cases a; cases b) simp_all
qed

lemma foldl_plus_zero: "foldl (+) (Fin 0) xs + Fin 0 = foldl (+) (Fin 0 :: number) xs"
  by (cases xs rule: rev_cases) (simp_all add: sum_plus_zero)

lemma price_moves:
  assumes "Suc i < length closes"
  shows "price_gains closes ! i = up_move closes (Suc i)" "price_losses closes ! i = down_move closes (Suc i)"
  using assms by (simp_all add: price_gains_def price_losses_def price_changes_def up_move_def down_move_def close_diff_def js_nth_def
    nth_tl Let_def)

lemma length_price_moves [simp]:
  "length (price_gains closes) = length closes - 1" "length (price_losses closes) = length closes - 1"
  by (simp_all add: price_gains_def price_losses_def price_changes_def)

lemma start_sums:
  assumes "list_all is_finite closes" "n < length closes"
  shows "foldl (gain_loss_step closes) (Fin 0, Fin 0) [1..<n + 1] =
    (foldl (+) (Fin 0) (take n (price_gains closes)), foldl (+) (Fin 0) (take n (price_losses closes)))"
  using assms(2)
proof (induction n)
  case (Suc n)
  have "is_finite (closes ! Suc n)" "is_finite (closes ! n)" using assms(1) Suc.prems by (simp_all add: list_all_length)
  then have "close_diff closes (Suc n) \<noteq> NaN" using Suc.prems
    by (cases "closes ! Suc n"; cases "closes ! n") (auto simp: close_diff_def js_nth_def minus_number_def)
  then show ?case using Suc price_moves [of n closes]
    by (cases "close_diff closes (Suc n)")
       (auto simp: take_Suc_conv_app_nth gain_loss_step_def up_move_def down_move_def Let_def foldl_plus_zero minus_number_def)
qed simp

lemma wilder_ref_textbook:
  assumes "\<And>i. i < length xs \<Longrightarrow> xs ! i = x (Suc i)" "period + n \<le> length xs"
  shows "wilder_ref x period (plain_mean (take period xs)) n = wilder_average xs period n"
  using assms(2) by (induction n) (simp_all add: wilder_next_def assms(1))

lemma rsi_ref_textbook:
  assumes "list_all is_finite closes" "period + n < length closes"
  shows "rsi_ref closes period n = textbook_rsi closes period n"
proof -
  have start: "rsi_start closes period = (plain_mean (take period (price_gains closes)), plain_mean (take period (price_losses closes)))"
    using start_sums [OF assms(1), of period] assms(2) by (simp add: rsi_start_def plain_mean_def min_absorb2)
  have "rsi_value g l = (if l = Fin 0 then Fin 100 else Fin 100 - Fin 100 / (Fin 1 + g / l))" for g l
  proof -
    have "Fin 100 - Fin 100 / (Fin 1 + PInf) = Fin 100" by code_simp
    moreover have "js_eq l (Fin 0) \<longleftrightarrow> l = Fin 0" by (cases l) (simp_all add: js_eq_def)
    ultimately show ?thesis by (simp add: rsi_value_def Let_def)
  qed
  moreover have "wilder_ref (up_move closes) period (plain_mean (take period (price_gains closes))) n = wilder_average (price_gains closes) period n"
    "wilder_ref (down_move closes) period (plain_mean (take period (price_losses closes))) n = wilder_average (price_losses closes) period n"
    using assms(2) price_moves by (auto intro!: wilder_ref_textbook)
  ultimately show ?thesis by (simp add: rsi_ref_def start textbook_rsi_def Let_def)
qed

text \<open>C32: the indicator loops compute the textbook indicators at every bar. The series are as long as the prices and NaN before
  the first full period. From there on the exponential average is the one seeded with the mean of the first period and
  with smoothing factor 2 / (period + 1), for any prices; and for finite closes the relative strength index is
  100 - 100 / (1 + gain / loss) of Wilder's averages of the gains and the losses, 100 when there is no loss.\<close>

theorem indicator_loops_match_reference:
  assumes "0 < period"
  shows "ema values period =
       map (\<lambda>i. if i + 1 < period then NaN else textbook_ema values period (i + 1 - period)) [0..<length values] \<and>
     (list_all is_finite closes \<longrightarrow> rsi closes period =
       map (\<lambda>i. if i < period then NaN else textbook_rsi closes period (i - period)) [0..<length closes])"
  by (auto simp: ema_def ema_loop [OF assms] rsi_series [OF assms] ema_ref_textbook rsi_ref_textbook)

theorem indicator_loops_match_reference_witness:
  "ema [Fin 1, Fin 3, Fin 5] 2 = [NaN, Fin 2, Fin 5 * (Fin 2 / Fin 3) + Fin 2 * (Fin 1 - Fin 2 / Fin 3)] \<and>
   rsi [Fin 1, Fin 5, Fin 3, Fin 7] 2 = [NaN, NaN, Fin 100 - Fin 100 / (Fin 1 + Fin 2 / Fin 1), Fin 100 - Fin 100 / (Fin 1 + Fin 3 / Fin (1/2))]"
proof -
  have "textbook_ema [Fin 1, Fin 3, Fin 5] 2 0 = Fin 2"
    "textbook_ema [Fin 1, Fin 3, Fin 5] 2 1 = Fin 5 * (Fin 2 / Fin 3) + Fin 2 * (Fin 1 - Fin 2 / Fin 3)"
    "textbook_rsi [Fin 1, Fin 5, Fin 3, Fin 7] 2 0 = Fin 100 - Fin 100 / (Fin 1 + Fin 2 / Fin 1)"
    "textbook_rsi [Fin 1, Fin 5, Fin 3, Fin 7] 2 1 = Fin 100 - Fin 100 / (Fin 1 + Fin 3 / Fin (1/2))" by code_simp+
  then show ?thesis
    using indicator_loops_match_reference [of 2 "[Fin 1, Fin 3, Fin 5]" "[Fin 1, Fin 5, Fin 3, Fin 7]"]
    by (simp add: numeral_2_eq_2 numeral_3_eq_3 upt_rec del: textbook_ema.simps)
qed

section \<open>Ranges of the indicators and of the score\<close>

definition nonneg :: "number \<Rightarrow> bool" where "nonneg x \<longleftrightarrow> x = NaN \<or> Fin 0 \<le> x"
definition unit_range :: "number \<Rightarrow> bool" where "unit_range x \<longleftrightarrow> Fin 0 \<le> x \<and> x \<le> Fin 1"

named_theorems nonneg_intros \<open>operations that keep a value nonnegative or NaN\<close>

lemma nonneg_simps [simp, nonneg_intros]: "nonneg NaN" "nonneg PInf" "nonneg (Fin 0)" "nonneg (fl (of_nat n))"
  by (auto simp: nonneg_def intro: fl_nonneg)

lemma nonneg_plus [nonneg_intros]: "nonneg a \<Longrightarrow> nonneg b \<Longrightarrow> nonneg (a + b)"
  by (cases a; cases b) (auto simp: nonneg_def intro: fl_nonneg)

lemma nonneg_times [nonneg_intros]: "nonneg a \<Longrightarrow> nonneg b \<Longrightarrow> nonneg (a * b)"
  by (cases a; cases b) (auto simp: nonneg_def inf_sign_def sgn_if intro: fl_nonneg)

lemma nonneg_divide [nonneg_intros]: "nonneg a \<Longrightarrow> nonneg b \<Longrightarrow> nonneg (a / b)"
  by (cases a; cases b) (auto simp: nonneg_def inf_sign_def sgn_if intro: fl_nonneg)

lemma nonneg_moves [nonneg_intros]: "nonneg (up_move closes i)" "nonneg (down_move closes i)"
proof -
  have "nonneg (if Fin 0 < d then d else Fin 0)" "nonneg (if d < Fin 0 then - d else Fin 0)" for d
    by (cases d; simp add: nonneg_def)+
  then show "nonneg (up_move closes i)" "nonneg (down_move closes i)" by (simp_all add: up_move_def down_move_def Let_def)
qed

lemma count_pred_nonneg: "0 < period \<Longrightarrow> nonneg (count_number period - Fin 1)"
proof -
  assume "0 < period"
  then have "fl 1 \<le> fl (of_nat period)" by (intro fl_mono) simp
  moreover have "fl 1 = Fin 1" by (rule fl_one)
  ultimately show ?thesis
    by (cases "fl (of_nat period)") (auto simp: count_number_def minus_number_def nonneg_def intro: fl_nonneg)
qed

lemma wilder_nonneg:
  assumes "0 < period" "nonneg start" "\<And>i. nonneg (x i)"
  shows "nonneg (wilder_ref x period start n)"
proof (induction n)
  case (Suc n)
  then show ?case using assms count_pred_nonneg [OF assms(1)]
    by (auto simp: wilder_next_def count_number_def intro!: nonneg_intros)
qed (use assms in simp)

lemma gain_loss_nonneg:
  "nonneg g \<Longrightarrow> nonneg l \<Longrightarrow> case foldl (gain_loss_step closes) (g, l) is of (g', l') \<Rightarrow> nonneg g' \<and> nonneg l'"
proof (induction "is" arbitrary: g l)
  case (Cons i "is")
  have "nonneg (g + d)" if "Fin 0 \<le> d" for d using that Cons.prems nonneg_plus [of g d] by (simp add: nonneg_def)
  moreover have "nonneg (l - d)" if "\<not> Fin 0 \<le> d" for d
  proof -
    have "nonneg (- d)" using that by (cases d) (auto simp: nonneg_def)
    then show ?thesis using Cons.prems nonneg_plus [of l "- d"] by (simp add: minus_number_def)
  qed
  ultimately show ?case using Cons by (simp add: gain_loss_step_def Let_def)
qed simp

lemma rsi_value_range:
  assumes "nonneg g" "nonneg l"
  shows "rsi_value g l = NaN \<or> (Fin 0 \<le> rsi_value g l \<and> rsi_value g l \<le> Fin 100)"
proof -
  define rs where "rs = (if js_eq l (Fin 0) then PInf else g / l)"
  have rs: "nonneg rs" using assms by (auto simp: rs_def intro: nonneg_intros)
  have c: "fl 1 = Fin 1" "fl 100 = Fin 100" by code_simp+
  have d: "Fin 1 + rs = NaN \<or> Fin 1 \<le> Fin 1 + rs"
  proof (cases rs)
    case (Fin r)
    then have "fl 1 \<le> fl (1 + r)" using rs by (intro fl_mono) (simp add: nonneg_def)
    then show ?thesis by (simp add: Fin c)
  qed (use rs in \<open>simp_all add: nonneg_def\<close>)
  have q: "Fin 100 / y = NaN \<or> Fin 0 \<le> Fin 100 / y \<and> Fin 100 / y \<le> Fin 100" if "y = NaN \<or> Fin 1 \<le> y" for y
  proof (cases y)
    case (Fin r)
    then have "fl (100 / r) \<le> fl 100" "fl 0 \<le> fl (100 / r)" using that by (intro fl_mono; simp add: field_simps)+
    then show ?thesis using Fin that by (simp add: c)
  qed (use that in auto)
  have "Fin 100 - z = NaN \<or> Fin 0 \<le> Fin 100 - z \<and> Fin 100 - z \<le> Fin 100" if "z = NaN \<or> Fin 0 \<le> z \<and> z \<le> Fin 100" for z
  proof (cases z)
    case (Fin r)
    then have "fl (100 - r) \<le> fl 100" "fl 0 \<le> fl (100 - r)" using that by (intro fl_mono; simp)+
    then show ?thesis using Fin by (simp add: c minus_number_def)
  qed (use that in \<open>auto simp: minus_number_def\<close>)
  from this [OF q [OF d]] show ?thesis by (simp add: rsi_value_def rs_def Let_def)
qed

lemma rsi_start_nonneg: "rsi_start closes period = (g, l) \<Longrightarrow> nonneg g \<and> nonneg l"
  using gain_loss_nonneg [of "Fin 0" "Fin 0" closes "[1..<period + 1]"]
  by (auto simp: rsi_start_def count_number_def split: prod.splits intro!: nonneg_divide)

text \<open>Whatever the prices are (missing, negative, infinite or NaN included), every value of the
  relative strength series is NaN or lies between 0 and 100.\<close>

theorem rsi_within_0_100:
  assumes "0 < period" "r \<in> set (rsi closes period)"
  shows "r = NaN \<or> Fin 0 \<le> r \<and> r \<le> Fin 100"
proof -
  obtain g l where gl: "rsi_start closes period = (g, l)" by fastforce
  have "rsi_ref closes period n = NaN \<or> Fin 0 \<le> rsi_ref closes period n \<and> rsi_ref closes period n \<le> Fin 100" for n
    using rsi_value_range wilder_nonneg [OF assms(1)] rsi_start_nonneg [OF gl] nonneg_moves by (simp add: rsi_ref_def gl)
  moreover have "rsi closes period = map (\<lambda>i. if i < period then NaN else rsi_ref closes period (i - period)) [0..<length closes]"
    using rsi_series [OF assms(1)] .
  ultimately show ?thesis using assms(2) by auto
qed

lemma demo_rsi: "rsi [Fin 1, Fin 3, Fin 2] 2 = [NaN, NaN, js_last (rsi [Fin 1, Fin 3, Fin 2] 2)] \<and>
    Fin 66 < js_last (rsi [Fin 1, Fin 3, Fin 2] 2)" by code_simp

theorem rsi_within_0_100_witness:
  "Fin 66 < js_last (rsi [Fin 1, Fin 3, Fin 2] 2) \<and> js_last (rsi [Fin 1, Fin 3, Fin 2] 2) \<le> Fin 100"
proof -
  define r where "r = js_last (rsi [Fin 1, Fin 3, Fin 2] 2)"
  have d: "rsi [Fin 1, Fin 3, Fin 2] 2 = [NaN, NaN, r]" "Fin 66 < r" using demo_rsi by (simp_all add: r_def)
  show ?thesis using rsi_within_0_100 [of 2 r "[Fin 1, Fin 3, Fin 2]"] d by (auto simp: js_last_def js_nth_def)
qed

lemma unit_range_finite: "unit_range x \<Longrightarrow> \<exists>a. x = Fin a \<and> 0 \<le> a \<and> a \<le> 1"
  by (cases x) (auto simp: unit_range_def)

lemma clamp01_unit: "x \<noteq> NaN \<Longrightarrow> unit_range (clamp01 x)"
  by (cases x) (auto simp: clamp01_def unit_range_def math_max_def math_min_def)

lemma unit_lit: "0 \<le> r \<Longrightarrow> r \<le> 1 \<Longrightarrow> unit_range (lit r)"
proof -
  assume "0 \<le> r" "r \<le> 1"
  then have "Fin 0 \<le> fl r" "fl r \<le> fl 1" by (auto intro: fl_nonneg fl_mono)
  moreover have "fl 1 = Fin 1" by (rule fl_one)
  ultimately show ?thesis by (simp add: lit_def unit_range_def)
qed

lemma unit_times: "unit_range a \<Longrightarrow> unit_range b \<Longrightarrow> unit_range (a * b)"
proof -
  assume "unit_range a" "unit_range b"
  then obtain x y where xy: "a = Fin x" "b = Fin y" "0 \<le> x" "x \<le> 1" "0 \<le> y" "y \<le> 1"
    using unit_range_finite by metis
  then have "x * y \<le> 1" "0 \<le> x * y" using mult_mono [of x 1 y 1] by auto
  then show ?thesis using unit_lit [of "x * y"] xy by (simp add: lit_def)
qed

lemma unit_not_NaN: "unit_range x \<Longrightarrow> x \<noteq> NaN"
  by (auto simp: unit_range_def)

lemma unit_half: "unit_range (Fin (1/2))" "unit_range (Fin 0)"
  by (simp_all add: unit_range_def)

lemma nonneg_add_not_NaN: "Fin 0 \<le> a \<Longrightarrow> Fin 0 \<le> b \<Longrightarrow> Fin 0 \<le> a + b"
  by (cases a; cases b) (auto intro: fl_nonneg)

lemma add_finite_not_NaN: "a \<noteq> NaN \<Longrightarrow> is_finite b \<Longrightarrow> a + b \<noteq> NaN \<and> a - b \<noteq> NaN"
  by (cases a; cases b) (auto simp: minus_number_def)

lemma unit_is_finite: "unit_range x \<Longrightarrow> is_finite x"
  by (auto dest: unit_range_finite)

lemma div_lit_not_NaN: "x \<noteq> NaN \<Longrightarrow> 0 < c \<Longrightarrow> x / Fin c \<noteq> NaN"
  by (cases x) (auto simp: inf_sign_def)

lemma linear_not_NaN:
  assumes "r \<noteq> NaN" "0 < c"
  shows "(Fin a - r) / Fin c \<noteq> NaN" "(r - Fin a) / Fin c \<noteq> NaN"
proof -
  have "Fin a - r \<noteq> NaN" "r - Fin a \<noteq> NaN" using assms(1) by (cases r; simp add: minus_number_def)+
  then show "(Fin a - r) / Fin c \<noteq> NaN" "(r - Fin a) / Fin c \<noteq> NaN" using div_lit_not_NaN assms(2) by blast+
qed

lemmas unit_intros = clamp01_unit unit_times unit_lit unit_half

lemma rsi_buy_unit: "r \<noteq> NaN \<Longrightarrow> unit_range (rsi_buy r)"
  unfolding rsi_buy_def by (auto intro!: unit_intros simp: linear_not_NaN)

lemma rsi_sell_unit: "r \<noteq> NaN \<Longrightarrow> unit_range (rsi_sell r)"
  unfolding rsi_sell_def by (auto intro!: unit_intros simp: linear_not_NaN)

lemma trend_score_unit: "unit_range (trend_score w t)"
  unfolding trend_score_def by (auto intro!: unit_intros)

definition opt_number :: "number option \<Rightarrow> bool" where "opt_number x \<longleftrightarrow> x \<noteq> Some NaN"

lemma vol_score_unit: "opt_number v \<Longrightarrow> unit_range (vol_score v)"
proof (cases v)
  case (Some r)
  assume "opt_number v"
  then have "math_min r (Fin (5/2)) \<noteq> NaN" using Some by (auto simp: opt_number_def math_min_def)
  then show ?thesis using div_lit_not_NaN [of _ "5/2"] Some by (auto simp: vol_score_def intro: clamp01_unit)
qed (simp add: vol_score_def unit_half)

lemma vol_norm_nonneg: "opt_number v \<Longrightarrow> vol_norm v = Fin (1/2) \<or> (\<exists>a b. vol_norm v = a + b \<and> unit_range a \<and> unit_range b)"
proof (cases v)
  case (Some r)
  assume "opt_number v"
  then have "math_min (r / Fin 15) (Fin 1) \<noteq> NaN" using Some div_lit_not_NaN [of r 15] by (auto simp: opt_number_def math_min_def)
  then have "Fin 1 - math_min (r / Fin 15) (Fin 1) \<noteq> NaN"
    by (cases "math_min (r / Fin 15) (Fin 1)") (auto simp: minus_number_def)
  then show ?thesis using Some unit_times [OF clamp01_unit unit_lit, of _ "2/5"] unit_lit [of "3/10"] by (auto simp: vol_norm_def)
qed (simp add: vol_norm_def)

lemma side_score_unit:
  assumes "unit_range r" "unit_range s" "unit_range u" "opt_number v"
  shows "unit_range (side_score r s u (vol_norm v))"
proof -
  have "unit_range (r * lit (38/100))" "unit_range (s * lit (32/100))" "unit_range (u * lit (18/100))"
    using assms by (auto intro!: unit_intros)
  then have 1: "Fin 0 \<le> r * lit (38/100) + s * lit (32/100) + u * lit (18/100)"
    by (intro nonneg_add_not_NaN) (simp_all add: unit_range_def)
  have "Fin 0 \<le> vol_norm v \<and> vol_norm v \<le> Fin 2"
  proof -
    have "Fin 0 \<le> a + b \<and> a + b \<le> Fin 2" if ab: "unit_range a" "unit_range b" for a b
    proof -
      obtain x y where xy: "a = Fin x" "b = Fin y" "0 \<le> x" "x \<le> 1" "0 \<le> y" "y \<le> 1"
        using ab unit_range_finite by metis
      then have "Fin 0 \<le> fl (x + y)" "fl (x + y) \<le> fl 2" by (auto intro: fl_mono fl_nonneg)
      moreover have "fl 2 = Fin 2" by code_simp
      ultimately show ?thesis using xy by simp
    qed
    then show ?thesis using vol_norm_nonneg [OF assms(4)] by auto
  qed
  then obtain x where "vol_norm v = Fin x" "0 \<le> x" by (cases "vol_norm v") auto
  moreover obtain y where "lit (12/100) = Fin y" "0 \<le> y" using unit_range_finite [OF unit_lit, of "12/100"] by auto
  ultimately have "Fin 0 \<le> vol_norm v * lit (12/100)" by (simp add: fl_nonneg)
  then have "Fin 0 \<le> r * lit (38/100) + s * lit (32/100) + u * lit (18/100) + vol_norm v * lit (12/100)"
    by (rule nonneg_add_not_NaN [OF 1])
  then show ?thesis unfolding side_score_def by (intro clamp01_unit) auto
qed

lemma flow_divisor: "lit (11/5) = Fin (2476979795053773 / 1125899906842624)"
  by code_simp

lemma clamp_range: "lo \<le> hi \<Longrightarrow> x \<noteq> NaN \<Longrightarrow> lo \<le> clamp x lo hi \<and> clamp x lo hi \<le> hi"
  by (cases x; cases lo; cases hi) (auto simp: clamp_def math_max_def math_min_def)

lemma dynamic_min_range:
  assumes "opt_number v" "opt_number w"
  shows "ABSOLUTE_SIGNAL_FLOOR \<le> fst (dynamicThresholds v w) \<and> fst (dynamicThresholds v w) \<le> lit (1/5)"
proof -
  define chop where "chop = (case v of None \<Rightarrow> lit (45/100) | Some v \<Rightarrow> clamp01 (math_min (v / Fin 14) (Fin 1)))"
  define flow where "flow = (case w of None \<Rightarrow> Fin (1/2)
     | Some r \<Rightarrow> clamp01 (math_min (math_max r (lit (2/5))) (lit (11/5)) / lit (11/5)))"
  have "unit_range chop"
  proof (cases v)
    case (Some x)
    then have "x / Fin 14 \<noteq> NaN" using assms(1) by (intro div_lit_not_NaN) (auto simp: opt_number_def)
    then show ?thesis using Some by (auto simp: chop_def math_min_def intro!: clamp01_unit)
  qed (simp add: chop_def unit_lit)
  moreover have "unit_range flow"
  proof (cases w)
    case (Some r)
    then have "math_min (math_max r (lit (2/5))) (lit (11/5)) \<noteq> NaN"
      using assms(2) by (auto simp: opt_number_def math_min_def math_max_def)
    then have "math_min (math_max r (lit (2/5))) (lit (11/5)) / lit (11/5) \<noteq> NaN"
      using div_lit_not_NaN [of _ "2476979795053773 / 1125899906842624"] by (simp add: flow_divisor)
    then show ?thesis using Some by (simp add: flow_def clamp01_unit)
  qed (simp add: flow_def unit_half)
  ultimately have u: "unit_range (chop * lit (8/100))" "unit_range (flow * lit (4/100))" by (auto intro!: unit_intros)
  have "lit (8/100) + chop * lit (8/100) \<noteq> NaN" using add_finite_not_NaN unit_is_finite [OF u(1)] lit_not_NaN by blast
  then have n: "lit (8/100) + chop * lit (8/100) - flow * lit (4/100) \<noteq> NaN"
    using add_finite_not_NaN unit_is_finite [OF u(2)] by blast
  have "lit (1/20) \<le> lit (1/5)" by (simp add: lit_def fl_mono)
  then have "lit (1/20) \<le> clamp x (lit (1/20)) (lit (1/5)) \<and> clamp x (lit (1/20)) (lit (1/5)) \<le> lit (1/5)" if "x \<noteq> NaN" for x
    using that by (rule clamp_range)
  with n show ?thesis
    by (simp add: dynamicThresholds_def Let_def ABSOLUTE_SIGNAL_FLOOR_def chop_def [symmetric] flow_def [symmetric])
qed

lemma ratio_number: "a \<noteq> NaN \<Longrightarrow> Fin 0 < Fin b \<Longrightarrow> opt_number (Some (a / Fin b * Fin 100))"
proof -
  assume "a \<noteq> NaN" "Fin 0 < Fin b"
  then have "a / Fin b \<noteq> NaN" using div_lit_not_NaN by simp
  then show ?thesis by (cases "a / Fin b") (auto simp: opt_number_def inf_sign_def)
qed

lemma finite_ratio_number: "is_finite a \<Longrightarrow> Fin 0 < b \<Longrightarrow> opt_number (Some (a / b))"
  by (cases a; cases b) (auto simp: opt_number_def inf_sign_def)

lemma choose_action_range:
  assumes "unit_range b" "unit_range s" "choose_action b s th = (a, c)"
  shows "unit_range c \<and> (a \<noteq> HOLD \<longrightarrow> fst th \<le> c)"
  using assms math_max_cases [of b s] by (auto simp: choose_action_def split: prod.splits if_splits)

text \<open>A signal computed from bars whose last price and last volume are finite numbers has a
  confidence between 0 and 1 and a confidence floor between 5 and 20 percent, and it is a BUY or a SELL
  only when its confidence reaches that floor.\<close>

theorem signal_within_thresholds:
  assumes "scoreSignalFromKlines klines = Some r"
    and "is_finite (js_last (map kl_close klines))" "is_finite (js_last (map kl_volume klines))"
  shows "Fin 0 \<le> ai_confidence r \<and> ai_confidence r \<le> Fin 1 \<and>
     lit (1/20) \<le> ai_minConfidenceRequired r \<and> ai_minConfidenceRequired r \<le> lit (1/5) \<and>
     (ai_action r \<noteq> HOLD \<longrightarrow> ai_minConfidenceRequired r \<le> ai_confidence r)"
proof -
  obtain c where c: "js_last (map kl_close klines) = Fin c" using assms(2) by (cases "js_last (map kl_close klines)") auto
  define atrLast where "atrLast = js_last (atr (map kl_high klines) (map kl_low klines) (map kl_close klines) 14)"
  define volAvg where "volAvg = js_last (sma (map kl_volume klines) 20)"
  define vp where "vp = (if atrLast \<noteq> NaN \<and> Fin 0 < Fin c then Some (atrLast / Fin c * Fin 100) else None)"
  define vr where "vr = (if volAvg \<noteq> NaN \<and> Fin 0 < volAvg then Some (js_last (map kl_volume klines) / volAvg) else None)"
  define rl where "rl = js_last (rsi (map kl_close klines) 14)"
  define tr where "tr = trend_of (js_last (ema (map kl_close klines) 20)) (js_last (ema (map kl_close klines) 50)) (Fin c)"
  define b where "b = side_score (rsi_buy rl) (trend_score UP tr) (vol_score vr) (vol_norm vp)"
  define s where "s = side_score (rsi_sell rl) (trend_score DOWN tr) (vol_score vr) (vol_norm vp)"
  obtain a q where d: "choose_action b s (dynamicThresholds vp vr) = (a, q)" by fastforce
  have n: "opt_number vp" "opt_number vr" using ratio_number [of atrLast c] finite_ratio_number [OF assms(3)]
    by (auto simp: vp_def vr_def) (simp_all add: opt_number_def)
  from assms(1) have rl: "rl \<noteq> NaN"
    and r: "ai_action r = a" "ai_confidence r = q" "ai_minConfidenceRequired r = fst (dynamicThresholds vp vr)"
    unfolding scoreSignalFromKlines_def Let_def c rl_def [symmetric] atrLast_def [symmetric] volAvg_def [symmetric]
      tr_def [symmetric] vp_def [symmetric] vr_def [symmetric] b_def [symmetric] s_def [symmetric]
    by (auto simp: d split: if_splits)
  have "unit_range b" "unit_range s" unfolding b_def s_def
    using rl n by (auto intro!: side_score_unit rsi_buy_unit rsi_sell_unit trend_score_unit vol_score_unit)
  from choose_action_range [OF this d] dynamic_min_range [OF n] show ?thesis
    by (simp add: r unit_range_def ABSOLUTE_SIGNAL_FLOOR_def)
qed

definition flat_bar :: KlineRow where
  "flat_bar = \<lparr>kl_open = Fin 100, kl_high = Fin 101, kl_low = Fin 99, kl_close = Fin 100, kl_volume = Fin 10\<rparr>"

lemma flat_moves:
  assumes "closes = replicate n (Fin c)" "i < n" "0 < i"
  shows "close_diff closes i = Fin 0" "up_move closes i = Fin 0" "down_move closes i = Fin 0"
  using assms by (auto simp: close_diff_def up_move_def down_move_def js_nth_def minus_number_def)

lemma wilder_zero:
  assumes "wilder_next period (Fin 0) (Fin 0) = Fin 0" "\<And>i. i \<le> n \<Longrightarrow> x (period + i) = Fin 0"
  shows "wilder_ref x period (Fin 0) n = Fin 0"
  using assms(2)
proof (induction n)
  case (Suc n)
  then have "wilder_ref x period (Fin 0) n = Fin 0" "x (period + Suc n) = Fin 0" by (auto simp del: add_Suc_right)
  then show ?case using assms(1) by simp
qed simp

lemma flat_gain_loss:
  assumes "closes = replicate n (Fin c)" "m \<le> n"
  shows "foldl (gain_loss_step closes) (Fin 0, Fin 0) [1..<m] = (Fin 0, Fin 0)"
  using assms(2)
proof (induction m)
  case (Suc m)
  then show ?case using flat_moves(1) [OF assms(1), of m] by (cases "m = 0") (auto simp: gain_loss_step_def Let_def)
qed simp

lemma demo_flat_rsi: "js_last (rsi (replicate 52 (Fin c)) 14) = Fin 100"
proof -
  define closes where "closes = replicate 52 (Fin c)"
  have c: "fl 100 = Fin 100" "fl 14 = Fin 14" by code_simp+
  have w: "wilder_next 14 (Fin 0) (Fin 0) = Fin 0" by code_simp
  have s: "rsi_start closes 14 = (Fin 0, Fin 0)"
    using flat_gain_loss [OF closes_def, of 15] by (simp add: rsi_start_def count_number_def c)
  have "up_move closes (14 + i) = Fin 0" "down_move closes (14 + i) = Fin 0" if "i \<le> 37" for i
    using that flat_moves [OF closes_def, of "14 + i"] by auto
  then have "wilder_ref (up_move closes) 14 (Fin 0) 37 = Fin 0" "wilder_ref (down_move closes) 14 (Fin 0) 37 = Fin 0"
    using wilder_zero w by simp_all
  then have "rsi_ref closes 14 37 = Fin 100" by (simp add: rsi_ref_def s rsi_value_def js_eq_def minus_number_def c)
  then show ?thesis
    by (simp add: rsi_series js_last_def js_nth_def closes_def [symmetric]) (simp add: closes_def nth_append)
qed

theorem signal_within_thresholds_witness:
  "\<exists>r. scoreSignalFromKlines (replicate 52 flat_bar) = Some r \<and> Fin 0 \<le> ai_confidence r \<and> ai_confidence r \<le> Fin 1"
proof -
  have "js_last (rsi (map kl_close (replicate 52 flat_bar)) 14) = Fin 100"
    using demo_flat_rsi [of 100] by (simp add: flat_bar_def del: replicate_Suc)
  then obtain r where r: "scoreSignalFromKlines (replicate 52 flat_bar) = Some r"
    unfolding scoreSignalFromKlines_def Let_def by simp
  have "is_finite (js_last (map kl_close (replicate 52 flat_bar)))" "is_finite (js_last (map kl_volume (replicate 52 flat_bar)))"
    by (simp_all add: js_last_def js_nth_def flat_bar_def)
  from signal_within_thresholds [OF r this] r show ?thesis by blast
qed

end
