(* ===== verification/PaperBot.thy ===== *)
theory PaperBot
  imports SignalEngine RiskRules "HOL-Library.AList"
begin

text \<open>
  The paper trading bot, \<open>packages/bot/index.ts\<close>, with the position bookkeeping of
  \<open>paperExecution.ts\<close>: the sessions a user starts and stops, the tick that runs for every pair, and
  the trade and portfolio rows they write. A money column is \<open>Decimal(18, 8)\<close>: an integer count of
  units of 10^-8, rounded half away from zero on assignment and rejected beyond eighteen digits; it is
  read with \<open>Number(column)\<close>. The decimal value of a double (decimal.js) is a parameter \<open>decv\<close>,
  the market endpoints are parameters, and a rejected write is an error that keeps the writes before it.
\<close>

section \<open>Decimal columns\<close>

definition round_half_away :: "rat \<Rightarrow> int" where
  "round_half_away x = (if x < 0 then - \<lfloor>- x + 1/2\<rfloor> else \<lfloor>x + 1/2\<rfloor>)"

definition dec_column :: "rat \<Rightarrow> int option" where
  "dec_column x = (let u = round_half_away (x * 10 ^ 8) in if \<bar>u\<bar> < 10 ^ 18 then Some u else None)"

type_synonym decimal_of = "number \<Rightarrow> rat option"  \<comment> \<open>the decimal a double is sent as; none for NaN and infinities\<close>

definition write_column :: "decimal_of \<Rightarrow> number \<Rightarrow> int option" where
  "write_column decv n = Option.bind (decv n) dec_column"

definition increment_column :: "decimal_of \<Rightarrow> int \<Rightarrow> number \<Rightarrow> int option" where
  "increment_column decv c n = Option.bind (decv n) (\<lambda>x. dec_column (of_int c / 10 ^ 8 + x))"

definition read_column :: "int \<Rightarrow> number" where
  "read_column c = fl (of_int c / 10 ^ 8)"

section \<open>State\<close>

record PaperTrade =
  pt_id :: nat
  pt_userId :: user_id
  pt_strategyId :: string
  pt_pair :: string
  pt_entryPrice :: int
  pt_exitPrice :: "int option"
  pt_pnl :: "int option"
  pt_allocationUsd :: "int option"
  pt_status :: trade_status
  pt_createdAt :: time

record Portfolio =
  pf_userId :: user_id
  pf_totalValue :: int
  pf_pnl :: int

record bot_session =
  bs_userId :: user_id
  bs_startedAt :: time
  bs_isActive :: bool

record BotInstance =
  bi_userId :: user_id
  bi_strategyId :: string
  bi_pairs :: "string list"
  bi_pair :: string
  bi_symbol :: string
  bi_interval :: bool
  bi_tradeSizePct :: number
  bi_sessionPeakEquity :: number
  bi_drawdownHalted :: bool
  bi_lastExecutionAt :: "time option"

datatype log_message =
    Started "string list" number | Stopped nat | ProbeNoBook | ProbeTooSmall number number | ProbeDone "number option"
  | ProbeFailed | SignalLog string SignalAction number | DrawdownLog | FilterLog string block_reason
  | OpenLog nat number number number | CloseLog nat number number number

record trading_log =
  tl_userId :: user_id
  tl_message :: log_message

record TradeExecutedPayload =
  te_userId :: user_id
  te_id :: nat
  te_pair :: string
  te_signal :: SignalAction
  te_price :: number
  te_entryPrice :: number
  te_exitPrice :: "number option"
  te_pnl :: "number option"
  te_status :: trade_status
  te_confidence :: number
  te_currentPnl :: number

record paper_state =
  bots :: "(user_id \<times> BotInstance) list"
  lastSignalByUser :: "user_id \<Rightarrow> (AISignalResult \<times> time) option"
  trades :: "PaperTrade list"
  portfolios :: "Portfolio list"
  sessions :: "bot_session list"
  logs :: "trading_log list"
  emitted :: "TradeExecutedPayload list"

datatype bot_error = AlreadyRunning | NoActiveBot | DecimalRejected | PortfolioMissing

type_synonym 'a bot_result = "(bot_error + 'a) \<times> paper_state"

definition appendTradingLog :: "user_id \<Rightarrow> log_message \<Rightarrow> paper_state \<Rightarrow> paper_state" where
  "appendTradingLog u m s = s\<lparr>logs := logs s @ [\<lparr>tl_userId = u, tl_message = m\<rparr>]\<rparr>"

definition find_portfolio :: "user_id \<Rightarrow> paper_state \<Rightarrow> Portfolio option" where
  "find_portfolio u s = find (\<lambda>p. pf_userId p = u) (portfolios s)"

definition portfolio_pnl :: "user_id \<Rightarrow> paper_state \<Rightarrow> number" where
  "portfolio_pnl u s = (case find_portfolio u s of None \<Rightarrow> Fin 0 | Some p \<Rightarrow> read_column (pf_pnl p))"

definition next_id :: "PaperTrade list \<Rightarrow> nat" where
  "next_id ts = Suc (Max (insert 0 (set (map pt_id ts))))"

section \<open>Positions\<close>

definition paperOpenPosition ::
  "bot_env \<Rightarrow> decimal_of \<Rightarrow> time \<Rightarrow> user_id \<Rightarrow> string \<Rightarrow> string \<Rightarrow> number \<Rightarrow> number \<Rightarrow> paper_state
    \<Rightarrow> (nat \<times> number) bot_result" where
  "paperOpenPosition env decv now userId strategyId pair entryAsk allocationUsd s =
     (let executionPrice = paperExecutionBuyPrice env entryAsk in
      case (write_column decv executionPrice, write_column decv allocationUsd) of
        (Some e, Some a) \<Rightarrow>
          let i = next_id (trades s) in
          (Inr (i, executionPrice),
           appendTradingLog userId (OpenLog i executionPrice entryAsk allocationUsd)
             (s\<lparr>trades := trades s @ [\<lparr>pt_id = i, pt_userId = userId, pt_strategyId = strategyId, pt_pair = pair,
                 pt_entryPrice = e, pt_exitPrice = None, pt_pnl = None, pt_allocationUsd = Some a, pt_status = OPEN,
                 pt_createdAt = now\<rparr>]\<rparr>))
      | _ \<Rightarrow> (Inl DecimalRejected, s))"

definition close_pnl :: "bot_env \<Rightarrow> PaperTrade \<Rightarrow> number \<Rightarrow> number" where
  "close_pnl env t exitExec =
     (let entryExec = read_column (pt_entryPrice t);
          alloc = (case pt_allocationUsd t of Some a \<Rightarrow> read_column a | None \<Rightarrow> Fin 0) in
      if Fin 0 < alloc \<and> Fin 0 < entryExec then paperRoundTripPnl env alloc entryExec exitExec else exitExec - entryExec)"

definition credit_portfolio :: "decimal_of \<Rightarrow> user_id \<Rightarrow> number \<Rightarrow> paper_state \<Rightarrow> unit bot_result" where
  "credit_portfolio decv u pnl s =
     (case find_portfolio u s of
        None \<Rightarrow> (Inl PortfolioMissing, s)
      | Some p \<Rightarrow>
          case (increment_column decv (pf_pnl p) pnl, increment_column decv (pf_totalValue p) pnl) of
            (Some p', Some v') \<Rightarrow>
              (Inr (), s\<lparr>portfolios := update_where (\<lambda>q. pf_userId q = u) (\<lambda>q. q\<lparr>pf_pnl := p', pf_totalValue := v'\<rparr>) (portfolios s)\<rparr>)
          | _ \<Rightarrow> (Inl DecimalRejected, s))"

definition paperClosePosition ::
  "bot_env \<Rightarrow> decimal_of \<Rightarrow> user_id \<Rightarrow> nat \<Rightarrow> number \<Rightarrow> paper_state \<Rightarrow> number option bot_result" where
  "paperClosePosition env decv userId tradeId exitBid s =
     (case find_first (\<lambda>t. pt_id t = tradeId \<and> pt_userId t = userId \<and> pt_status t = OPEN) id (trades s) of
        None \<Rightarrow> (Inr None, s)
      | Some t \<Rightarrow>
          let exitExec = paperExecutionSellPrice env exitBid; pnl = close_pnl env t exitExec in
          case (write_column decv exitExec, write_column decv pnl) of
            (Some x, Some p) \<Rightarrow>
              let s' = s\<lparr>trades := update_where (\<lambda>r. pt_id r = pt_id t)
                           (\<lambda>r. r\<lparr>pt_exitPrice := Some x, pt_pnl := Some p, pt_status := CLOSED\<rparr>) (trades s)\<rparr> in
              (case credit_portfolio decv userId pnl s' of
                 (Inl e, s'') \<Rightarrow> (Inl e, s'')
               | (Inr _, s'') \<Rightarrow> (Inr (Some pnl), appendTradingLog userId (CloseLog (pt_id t) exitExec exitBid pnl) s''))
          | _ \<Rightarrow> (Inl DecimalRejected, s))"

section \<open>Market data and statistics\<close>

type_synonym ticker_api = "string \<Rightarrow> string \<Rightarrow> (string option \<times> string option) option"

record BookTicker =
  bk_bid :: number
  bk_ask :: number
  bk_mid :: number

definition BINANCE_ENDPOINTS :: "string list" where
  "BINANCE_ENDPOINTS = [''https://data-api.binance.vision'', ''https://api3.binance.com'',
     ''https://api1.binance.com'', ''https://api.binance.com'']"

fun first_book :: "ticker_api \<Rightarrow> string \<Rightarrow> string list \<Rightarrow> BookTicker option" where
  "first_book api sy [] = None"
| "first_book api sy (base # bases) =
     (case api base sy of
        None \<Rightarrow> first_book api sy bases
      | Some (b, a) \<Rightarrow>
          let bid = parse_float (nullish b []); ask = parse_float (nullish a []) in
          if is_finite bid \<and> is_finite ask \<and> Fin 0 < bid \<and> Fin 0 < ask
          then Some \<lparr>bk_bid = bid, bk_ask = ask, bk_mid = (bid + ask) / Fin 2\<rparr>
          else first_book api sy bases)"

definition fetchBookTicker :: "ticker_api \<Rightarrow> string \<Rightarrow> BookTicker option" where
  "fetchBookTicker api sy = first_book api sy BINANCE_ENDPOINTS"

definition countOpenPaperPositions :: "user_id \<Rightarrow> paper_state \<Rightarrow> nat" where
  "countOpenPaperPositions u s = length (filter (\<lambda>t. pt_userId t = u \<and> pt_status t = OPEN) (trades s))"

definition fetchUserClosedTradeStats :: "user_id \<Rightarrow> paper_state \<Rightarrow> int \<times> int \<times> int" where
  "fetchUserClosedTradeStats u s =
     (let closed = [p. t \<leftarrow> trades s, pt_userId t = u \<and> pt_status t = CLOSED, p \<leftarrow> (case pt_pnl t of None \<Rightarrow> [] | Some c \<Rightarrow> [read_column c])] in
      (int (length closed), int (length (filter (\<lambda>p. p < Fin 0) closed)), int (length (filter (\<lambda>p. Fin 0 < p) closed))))"

definition toExecutionSignal :: "string \<Rightarrow> number \<Rightarrow> AISignalResult \<Rightarrow> ExecutionSignal" where
  "toExecutionSignal sy midPrice ai =
     \<lparr>es_action = ai_action ai, es_confidence = ai_confidence ai, es_token = sy, es_price = midPrice\<rparr>"

section \<open>The bot\<close>

definition STARTUP_PROBE_MIN_USD :: number where "STARTUP_PROBE_MIN_USD = Fin 5"
definition STARTUP_PROBE_MAX_USD :: number where "STARTUP_PROBE_MAX_USD = Fin 25"

text \<open>What a handler reads from outside: the environment, the decimal conversion, the clock, and the
  market endpoints for the n-th request it makes.\<close>

record bot_io =
  io_env :: bot_env
  io_decv :: decimal_of
  io_now :: time
  io_klines :: "nat \<Rightarrow> string \<Rightarrow> string \<Rightarrow> nat \<Rightarrow> klines_response"
  io_ticker :: "nat \<Rightarrow> ticker_api"

definition get_bot :: "user_id \<Rightarrow> paper_state \<Rightarrow> BotInstance option" where
  "get_bot u s = map_of (bots s) u"

text \<open>\<open>bots.set\<close>, and a change of the instance a registered session refers to.\<close>

definition set_bot :: "BotInstance \<Rightarrow> paper_state \<Rightarrow> paper_state" where
  "set_bot b s = s\<lparr>bots := AList.update (bi_userId b) b (bots s)\<rparr>"

definition put_bot :: "BotInstance \<Rightarrow> paper_state \<Rightarrow> paper_state" where
  "put_bot b s = (if bi_userId b \<in> fst ` set (bots s) then set_bot b s else s)"

definition isRunning :: "user_id \<Rightarrow> paper_state \<Rightarrow> bool" where
  "isRunning u s = (get_bot u s \<noteq> None)"

definition getActiveUserIds :: "paper_state \<Rightarrow> user_id list" where
  "getActiveUserIds s = map fst (bots s)"

definition getTradeSizePct :: "user_id \<Rightarrow> paper_state \<Rightarrow> number option" where
  "getTradeSizePct u s = map_option bi_tradeSizePct (get_bot u s)"

definition getLastEngineSignal :: "user_id \<Rightarrow> paper_state \<Rightarrow> (AISignalResult \<times> time) option" where
  "getLastEngineSignal u s = lastSignalByUser s u"

definition opened_payload :: "user_id \<Rightarrow> nat \<Rightarrow> string \<Rightarrow> number \<Rightarrow> number \<Rightarrow> number \<Rightarrow> TradeExecutedPayload" where
  "opened_payload u i pair price confidence pnl =
     \<lparr>te_userId = u, te_id = i, te_pair = pair, te_signal = BUY, te_price = price, te_entryPrice = price, te_exitPrice = None,
      te_pnl = None, te_status = OPEN, te_confidence = confidence, te_currentPnl = pnl\<rparr>"

definition closed_payload ::
  "user_id \<Rightarrow> nat \<Rightarrow> string \<Rightarrow> number \<Rightarrow> number \<Rightarrow> number option \<Rightarrow> number \<Rightarrow> number \<Rightarrow> TradeExecutedPayload" where
  "closed_payload u i pair entry exitExec pnl confidence currentPnl =
     \<lparr>te_userId = u, te_id = i, te_pair = pair, te_signal = SELL, te_price = exitExec, te_entryPrice = entry,
      te_exitPrice = Some exitExec, te_pnl = pnl, te_status = CLOSED, te_confidence = confidence, te_currentPnl = currentPnl\<rparr>"

text \<open>\<open>emit('trade:executed')\<close> with the profit on the portfolio at that moment.\<close>

definition emit_trade :: "user_id \<Rightarrow> (number \<Rightarrow> TradeExecutedPayload) \<Rightarrow> paper_state \<Rightarrow> paper_state" where
  "emit_trade u payload s = s\<lparr>emitted := emitted s @ [payload (portfolio_pnl u s)]\<rparr>"

definition probe_round_trip :: "bot_io \<Rightarrow> BotInstance \<Rightarrow> BookTicker \<Rightarrow> number \<Rightarrow> paper_state \<Rightarrow> unit bot_result" where
  "probe_round_trip io bt book probeUsd s =
     (let u = bi_userId bt; bt' = bt\<lparr>bi_lastExecutionAt := Some (io_now io)\<rparr> in
      case paperOpenPosition (io_env io) (io_decv io) (io_now io) u (bi_strategyId bt) (bi_pair bt) (bk_ask book) probeUsd s of
        (Inl e, s1) \<Rightarrow> (Inl e, s1)
      | (Inr (i, price), s1) \<Rightarrow>
          (case paperClosePosition (io_env io) (io_decv io) u i (bk_bid book)
                  (emit_trade u (opened_payload u i (bi_pair bt) price (Fin 1)) (put_bot bt' s1)) of
             (Inl e, s3) \<Rightarrow> (Inl e, s3)
           | (Inr pnl, s3) \<Rightarrow>
               (Inr (), appendTradingLog u (ProbeDone pnl)
                  (emit_trade u (closed_payload u i (bi_pair bt) price (paperExecutionSellPrice (io_env io) (bk_bid book)) pnl (Fin 1))
                    (put_bot bt' s3)))))"

definition runStartupProbe :: "bot_io \<Rightarrow> BotInstance \<Rightarrow> paper_state \<Rightarrow> unit bot_result" where
  "runStartupProbe io bt s =
     (let u = bi_userId bt in
      case fetchBookTicker (io_ticker io 0) (bi_symbol bt) of
        None \<Rightarrow> (Inr (), appendTradingLog u ProbeNoBook s)
      | Some book \<Rightarrow>
          let tot = (case find_portfolio u s of None \<Rightarrow> Fin 0 | Some p \<Rightarrow> read_column (pf_totalValue p));
              probeUsd = math_max STARTUP_PROBE_MIN_USD (math_min STARTUP_PROBE_MAX_USD (tot * lit (1/50))) in
          if \<not> is_finite tot \<or> tot < probeUsd + Fin 1
          then (Inr (), appendTradingLog u (ProbeTooSmall (probeUsd + Fin 1) tot) s)
          else probe_round_trip io bt book probeUsd s)"

definition session_pairs :: "string \<Rightarrow> string list option \<Rightarrow> string list" where
  "session_pairs pair ps =
     (let src = (case ps of Some xs \<Rightarrow> if xs \<noteq> [] then xs else [pair] | None \<Rightarrow> [pair]) in
      rev (remdups (rev (filter (\<lambda>p. p \<noteq> []) src))))"

definition start ::
  "bot_io \<Rightarrow> user_id \<Rightarrow> string \<Rightarrow> string \<Rightarrow> number option \<Rightarrow> string list option \<Rightarrow> paper_state \<Rightarrow> unit bot_result" where
  "start io userId strategyId pair sizePct ps s =
     (if isRunning userId s then (Inl AlreadyRunning, s)
      else
        let s1 = (case find_portfolio userId s of
                    Some _ \<Rightarrow> s
                  | None \<Rightarrow> s\<lparr>portfolios := portfolios s @ [\<lparr>pf_userId = userId, pf_totalValue = 0, pf_pnl = 0\<rparr>]\<rparr>);
            peak = (case find_portfolio userId s1 of
                      Some p \<Rightarrow> read_column (pf_totalValue p) + read_column (pf_pnl p) | None \<Rightarrow> Fin 0);
            tradeSizePct = math_min (Fin 100) (math_max (Fin 10) (nullish sizePct (Fin 50)));
            pairs = session_pairs pair ps;
            primaryPair = (case pairs of [] \<Rightarrow> pair | p # _ \<Rightarrow> p);
            bt = \<lparr>bi_userId = userId, bi_strategyId = strategyId, bi_pairs = pairs, bi_pair = primaryPair,
                   bi_symbol = remove_first (CHR ''/'') primaryPair, bi_interval = True, bi_tradeSizePct = tradeSizePct,
                   bi_sessionPeakEquity = peak, bi_drawdownHalted = False, bi_lastExecutionAt = None\<rparr>;
            s2 = appendTradingLog userId (Started pairs tradeSizePct) (set_bot bt s1) in
        case runStartupProbe io bt s2 of
          (Inl _, s3) \<Rightarrow> (Inr (), appendTradingLog userId ProbeFailed s3)
        | (Inr _, s3) \<Rightarrow> (Inr (), s3))"

fun close_all :: "bot_io \<Rightarrow> user_id \<Rightarrow> nat \<Rightarrow> PaperTrade list \<Rightarrow> paper_state \<Rightarrow> unit bot_result" where
  "close_all io u n [] s = (Inr (), s)"
| "close_all io u n (t # ts) s =
     (case fetchBookTicker (io_ticker io n) (remove_first (CHR ''/'') (pt_pair t)) of
        None \<Rightarrow> close_all io u (Suc n) ts s
      | Some book \<Rightarrow>
          case paperClosePosition (io_env io) (io_decv io) u (pt_id t) (bk_bid book) s of
            (Inl e, s') \<Rightarrow> (Inl e, s')
          | (Inr _, s') \<Rightarrow> close_all io u (Suc n) ts s')"

definition stop :: "bot_io \<Rightarrow> user_id \<Rightarrow> paper_state \<Rightarrow> (int \<times> nat) bot_result" where
  "stop io userId s =
     (case get_bot userId s of
        None \<Rightarrow> (Inl NoActiveBot, s)
      | Some bt \<Rightarrow>
          let s1 = put_bot (bt\<lparr>bi_interval := False\<rparr>) s;
              openTrades = find_many (\<lambda>t. pt_userId t = userId \<and> pt_status t = OPEN) (order_asc pt_createdAt) (trades s1) in
          case close_all io userId 0 openTrades s1 of
            (Inl e, s2) \<Rightarrow> (Inl e, s2)
          | (Inr _, s2) \<Rightarrow>
              let session = find_first (\<lambda>b. bs_userId b = userId \<and> bs_isActive b) id (sessions s2);
                  duration = (case session of None \<Rightarrow> 0 | Some b \<Rightarrow> (io_now io - bs_startedAt b) div 1000);
                  since = (case session of None \<Rightarrow> 0 | Some b \<Rightarrow> bs_startedAt b);
                  tot = length (filter (\<lambda>t. pt_userId t = userId \<and> since \<le> pt_createdAt t) (trades s2)) in
              (Inr (duration, tot),
               appendTradingLog userId (Stopped tot)
                 (s2\<lparr>bots := AList.delete userId (bots s2), lastSignalByUser := (lastSignalByUser s2)(userId := None)\<rparr>)))"

text \<open>One pair of one tick, in the two parts the overlapping of ticks separates: what it reads and
  decides, and what it then executes.\<close>

datatype tick_plan =
    NoTrade
  | PlanBuy string number number number
  | PlanSell string nat number number number

definition equity_check :: "BotInstance \<Rightarrow> number \<Rightarrow> BotInstance" where
  "equity_check bt equity =
     (let b = bt\<lparr>bi_sessionPeakEquity := math_max (bi_sessionPeakEquity bt) equity\<rparr> in
      if checkDrawdownExceeded equity (bi_sessionPeakEquity b) then b\<lparr>bi_drawdownHalted := True\<rparr> else b)"

definition proposed_fraction :: "BotInstance \<Rightarrow> number" where
  "proposed_fraction bt = MAX_CAPITAL_PER_TRADE * (bi_tradeSizePct bt / Fin 100)"

definition open_for_pair :: "user_id \<Rightarrow> string \<Rightarrow> paper_state \<Rightarrow> PaperTrade list" where
  "open_for_pair u pair s = find_many (\<lambda>t. pt_userId t = u \<and> pt_pair t = pair \<and> pt_status t = OPEN) (order_asc pt_createdAt) (trades s)"

definition tick_context ::
  "BotInstance \<Rightarrow> string \<Rightarrow> number \<Rightarrow> AISignalResult \<Rightarrow> BookTicker \<Rightarrow> paper_state \<Rightarrow> ExecutionContext" where
  "tick_context bt pair totalValue sig book s =
     (let u = bi_userId bt; f = proposed_fraction bt; n = countOpenPaperPositions u s;
          st = fetchUserClosedTradeStats u s in
      \<lparr>xc_mode = paper, xc_userId = u, xc_pair = pair, xc_capitalUsd = totalValue,
       xc_proposedNotionalUsd = totalValue * f, xc_proposedTradeFraction = f, xc_openPositionCount = int n,
       xc_openExposureFraction = count_number n * f, xc_hasOpenPositionOnPair = (open_for_pair u pair s \<noteq> []),
       xc_volatilityPct = ai_volatilityPct sig, xc_drawdownHalted = bi_drawdownHalted bt,
       xc_sessionPeakEquity = bi_sessionPeakEquity bt, xc_currentEquity = totalValue,
       xc_closedTrades = fst st, xc_losingTrades = fst (snd st), xc_winningTrades = snd (snd st),
       xc_minCooldownMs = EXEC_MIN_COOLDOWN_MS, xc_lastTradeAt = bi_lastExecutionAt bt, xc_estimatedGasUsd = Fin 0,
       xc_bid = bk_bid book, xc_ask = bk_ask book\<rparr>)"

definition plan_of :: "BotInstance \<Rightarrow> string \<Rightarrow> number \<Rightarrow> BookTicker \<Rightarrow> number \<Rightarrow> ShouldExecuteResult \<Rightarrow> paper_state \<Rightarrow> tick_plan" where
  "plan_of bt pair totalValue book confidence decision s =
     (case decision of
        Blocked _ _ \<Rightarrow> NoTrade
      | Approved a _ _ \<Rightarrow>
          if a = BUY then
            (let allocationUsd = totalValue * proposed_fraction bt in
             if allocationUsd \<le> Fin 0 then NoTrade else PlanBuy pair (bk_ask book) allocationUsd confidence)
          else (case open_for_pair (bi_userId bt) pair s of
                  [] \<Rightarrow> NoTrade
                | oldest # _ \<Rightarrow> PlanSell pair (pt_id oldest) (read_column (pt_entryPrice oldest)) (bk_bid book) confidence))"

definition log_block :: "user_id \<Rightarrow> string \<Rightarrow> AISignalResult \<Rightarrow> ShouldExecuteResult \<Rightarrow> paper_state \<Rightarrow> paper_state" where
  "log_block u pair sig decision s =
     (case decision of Blocked r _ \<Rightarrow> if ai_action sig \<noteq> HOLD then appendTradingLog u (FilterLog pair r) s else s
      | Approved _ _ _ \<Rightarrow> s)"

definition record_signal :: "user_id \<Rightarrow> string \<Rightarrow> AISignalResult option \<Rightarrow> time \<Rightarrow> paper_state \<Rightarrow> paper_state" where
  "record_signal u pair signal now s =
     (case signal of
        None \<Rightarrow> s
      | Some sig \<Rightarrow> appendTradingLog u (SignalLog pair (ai_action sig) (ai_confidence sig))
          (s\<lparr>lastSignalByUser := (lastSignalByUser s)(u := Some (sig, now))\<rparr>))"

definition assess_equity :: "BotInstance \<Rightarrow> number \<Rightarrow> paper_state \<Rightarrow> paper_state" where
  "assess_equity bt equity s =
     (let bt' = equity_check bt equity; s' = put_bot bt' s in
      if bi_drawdownHalted bt' \<and> \<not> bi_drawdownHalted bt then appendTradingLog (bi_userId bt) DrawdownLog s' else s')"

definition decide_pair ::
  "bot_io \<Rightarrow> BotInstance \<Rightarrow> string \<Rightarrow> number \<Rightarrow> BookTicker \<Rightarrow> AISignalResult \<Rightarrow> paper_state \<Rightarrow> tick_plan \<times> paper_state" where
  "decide_pair io bt pair totalValue book sig s =
     (let decision = shouldExecuteTrade (io_env io) (io_now io) (toExecutionSignal (bi_symbol bt) (bk_mid book) sig)
                       (tick_context bt pair totalValue sig book s) in
      (plan_of bt pair totalValue book (ai_confidence sig) decision s, log_block (bi_userId bt) pair sig decision s))"

definition tick_decide :: "bot_io \<Rightarrow> nat \<Rightarrow> BotInstance \<Rightarrow> string \<Rightarrow> paper_state \<Rightarrow> tick_plan \<times> paper_state" where
  "tick_decide io n bt pair s =
     (let sy = remove_first (CHR ''/'') pair; signal = computeAISignal (io_klines io n) sy in
      case fetchBookTicker (io_ticker io n) sy of
        None \<Rightarrow> (NoTrade, s)
      | Some book \<Rightarrow>
          let s1 = record_signal (bi_userId bt) pair signal (io_now io) s in
          case find_portfolio (bi_userId bt) s1 of
            None \<Rightarrow> (NoTrade, s1)
          | Some portfolio \<Rightarrow>
              let totalValue = read_column (pf_totalValue portfolio); s2 = assess_equity bt totalValue s1 in
              (case signal of
                 None \<Rightarrow> (NoTrade, s2)
               | Some sig \<Rightarrow> decide_pair io (equity_check bt totalValue) pair totalValue book sig s2))"

definition touch_bot :: "user_id \<Rightarrow> time \<Rightarrow> paper_state \<Rightarrow> paper_state" where
  "touch_bot u now s = (case get_bot u s of None \<Rightarrow> s | Some b \<Rightarrow> put_bot (b\<lparr>bi_lastExecutionAt := Some now\<rparr>) s)"

definition tick_execute :: "bot_io \<Rightarrow> user_id \<Rightarrow> string \<Rightarrow> tick_plan \<Rightarrow> paper_state \<Rightarrow> unit bot_result" where
  "tick_execute io u strategyId plan s =
     (case plan of
        NoTrade \<Rightarrow> (Inr (), s)
      | PlanBuy pair ask alloc confidence \<Rightarrow>
          (case paperOpenPosition (io_env io) (io_decv io) (io_now io) u strategyId pair ask alloc s of
             (Inl e, s') \<Rightarrow> (Inl e, s')
           | (Inr (i, price), s') \<Rightarrow> (Inr (), emit_trade u (opened_payload u i pair price confidence) (touch_bot u (io_now io) s')))
      | PlanSell pair i entry bid confidence \<Rightarrow>
          (case paperClosePosition (io_env io) (io_decv io) u i bid s of
             (Inl e, s') \<Rightarrow> (Inl e, s')
           | (Inr pnl, s') \<Rightarrow> (Inr (), emit_trade u (closed_payload u i pair entry (paperExecutionSellPrice (io_env io) bid) pnl confidence)
                                        (touch_bot u (io_now io) s'))))"

definition tickPair :: "bot_io \<Rightarrow> nat \<Rightarrow> user_id \<Rightarrow> string \<Rightarrow> paper_state \<Rightarrow> unit bot_result" where
  "tickPair io n u pair s =
     (case get_bot u s of
        None \<Rightarrow> (Inr (), s)
      | Some bt \<Rightarrow> (case tick_decide io n bt pair s of
                       (plan, s') \<Rightarrow> tick_execute io u (bi_strategyId bt) plan s'))"

fun tick_pairs :: "bot_io \<Rightarrow> nat \<Rightarrow> user_id \<Rightarrow> string list \<Rightarrow> paper_state \<Rightarrow> unit bot_result" where
  "tick_pairs io n u [] s = (Inr (), s)"
| "tick_pairs io n u (p # ps) s =
     (case tickPair io n u p s of (Inl e, s') \<Rightarrow> (Inl e, s') | (Inr _, s') \<Rightarrow> tick_pairs io (Suc n) u ps s')"

definition tick :: "bot_io \<Rightarrow> user_id \<Rightarrow> paper_state \<Rightarrow> unit bot_result" where
  "tick io u s = (case get_bot u s of None \<Rightarrow> (Inr (), s) | Some bt \<Rightarrow> tick_pairs io 0 u (bi_pairs bt) s)"

section \<open>What the operations change\<close>

lemma log_fields [simp]:
  "trades (appendTradingLog u m s) = trades s" "portfolios (appendTradingLog u m s) = portfolios s"
  "bots (appendTradingLog u m s) = bots s" "sessions (appendTradingLog u m s) = sessions s"
  "lastSignalByUser (appendTradingLog u m s) = lastSignalByUser s"
  "logs (appendTradingLog u m s) = logs s @ [\<lparr>tl_userId = u, tl_message = m\<rparr>]"
  by (simp_all add: appendTradingLog_def)

lemma emit_fields [simp]:
  "trades (emit_trade u f s) = trades s" "portfolios (emit_trade u f s) = portfolios s"
  "bots (emit_trade u f s) = bots s" "logs (emit_trade u f s) = logs s"
  by (simp_all add: emit_trade_def)

lemma put_bot_fields [simp]:
  "trades (put_bot b s) = trades s" "portfolios (put_bot b s) = portfolios s" "logs (put_bot b s) = logs s"
  "trades (set_bot b s) = trades s" "portfolios (set_bot b s) = portfolios s" "logs (set_bot b s) = logs s"
  by (simp_all add: put_bot_def set_bot_def)

lemma touch_bot_fields [simp]:
  "trades (touch_bot u now s) = trades s" "portfolios (touch_bot u now s) = portfolios s" "logs (touch_bot u now s) = logs s"
  by (simp_all add: touch_bot_def split: option.splits)

lemma log_block_fields [simp]:
  "trades (log_block u pr sig d s) = trades s" "portfolios (log_block u pr sig d s) = portfolios s"
  "bots (log_block u pr sig d s) = bots s"
  by (simp_all add: log_block_def split: ShouldExecuteResult.splits)

lemma find_portfolio_fields: "portfolios s' = portfolios s \<Longrightarrow> find_portfolio u s' = find_portfolio u s"
  by (simp add: find_portfolio_def)

definition opened :: "nat \<Rightarrow> time \<Rightarrow> user_id \<Rightarrow> string \<Rightarrow> string \<Rightarrow> int \<Rightarrow> int \<Rightarrow> PaperTrade" where
  "opened i now u st pair e a = \<lparr>pt_id = i, pt_userId = u, pt_strategyId = st, pt_pair = pair, pt_entryPrice = e,
     pt_exitPrice = None, pt_pnl = None, pt_allocationUsd = Some a, pt_status = OPEN, pt_createdAt = now\<rparr>"

definition closed_row :: "int \<Rightarrow> int \<Rightarrow> PaperTrade \<Rightarrow> PaperTrade" where
  "closed_row x p r = r\<lparr>pt_exitPrice := Some x, pt_pnl := Some p, pt_status := CLOSED\<rparr>"

lemma closed_row_fields [simp]:
  "pt_id (closed_row x p r) = pt_id r" "pt_userId (closed_row x p r) = pt_userId r" "pt_pair (closed_row x p r) = pt_pair r"
  "pt_status (closed_row x p r) = CLOSED" "pt_pnl (closed_row x p r) = Some p"
  by (simp_all add: closed_row_def)

lemma opened_fields [simp]:
  "pt_id (opened i now u st pair e a) = i" "pt_userId (opened i now u st pair e a) = u"
  "pt_pair (opened i now u st pair e a) = pair" "pt_status (opened i now u st pair e a) = OPEN"
  "pt_pnl (opened i now u st pair e a) = None"
  by (simp_all add: opened_def)

lemma paperOpenPosition_cases:
  assumes "paperOpenPosition env decv now u st pair ask alloc s = (r, s')"
  obtains (rejected) "r = Inl DecimalRejected" "s' = s"
  | (opened) e a where "r = Inr (next_id (trades s), paperExecutionBuyPrice env ask)"
      "s' = appendTradingLog u (OpenLog (next_id (trades s)) (paperExecutionBuyPrice env ask) ask alloc)
              (s\<lparr>trades := trades s @ [opened (next_id (trades s)) now u st pair e a]\<rparr>)"
proof (cases "\<exists>e a. write_column decv (paperExecutionBuyPrice env ask) = Some e \<and> write_column decv alloc = Some a")
  case True
  then obtain e a where "write_column decv (paperExecutionBuyPrice env ask) = Some e" "write_column decv alloc = Some a" by blast
  then show thesis using assms opened [of e a] by (simp add: paperOpenPosition_def Let_def opened_def)
next
  case False
  then have "paperOpenPosition env decv now u st pair ask alloc s = (Inl DecimalRejected, s)"
    by (auto simp: paperOpenPosition_def Let_def split: option.splits)
  then show thesis using assms rejected by simp
qed

lemma credit_portfolio_cases:
  assumes "credit_portfolio decv u pnl s = (r, s')"
  obtains (failed) e where "r = Inl e" "s' = s"
  | (credited) p p' v' where "r = Inr ()" "find_portfolio u s = Some p" "increment_column decv (pf_pnl p) pnl = Some p'"
      "s' = s\<lparr>portfolios := update_where (\<lambda>q. pf_userId q = u) (\<lambda>q. q\<lparr>pf_pnl := p', pf_totalValue := v'\<rparr>) (portfolios s)\<rparr>"
  using assms by (auto simp: credit_portfolio_def split: option.splits)

lemma id_set: "set (id xs) = set xs"
  by simp

lemma paperClosePosition_cases:
  assumes "paperClosePosition env decv u i bid s = (r, s')"
  obtains (missing) "r = Inr None" "s' = s" "\<forall>t \<in> set (trades s). \<not> (pt_id t = i \<and> pt_userId t = u \<and> pt_status t = OPEN)"
  | (failed) e where "r = Inl e"
  | (closed) t x c pnl p p' v' where "t \<in> set (trades s)" "pt_id t = i" "pt_userId t = u" "pt_status t = OPEN"
      "r = Inr (Some pnl)" "write_column decv pnl = Some c"
      "find_portfolio u s = Some p" "increment_column decv (pf_pnl p) pnl = Some p'"
      "s' = appendTradingLog u (CloseLog i (paperExecutionSellPrice env bid) bid pnl)
         (s\<lparr>trades := update_where (\<lambda>r. pt_id r = pt_id t) (closed_row x c) (trades s),
            portfolios := update_where (\<lambda>q. pf_userId q = u) (\<lambda>q. q\<lparr>pf_pnl := p', pf_totalValue := v'\<rparr>) (portfolios s)\<rparr>)"
proof (cases "find_first (\<lambda>t. pt_id t = i \<and> pt_userId t = u \<and> pt_status t = OPEN) id (trades s)")
  case None
  then have "\<forall>t \<in> set (trades s). \<not> (pt_id t = i \<and> pt_userId t = u \<and> pt_status t = OPEN)"
    by (simp only: find_first_None [OF id_set])
  then show thesis using assms None missing by (simp add: paperClosePosition_def)
next
  case (Some t)
  then have t: "t \<in> set (trades s)" "pt_id t = i" "pt_userId t = u" "pt_status t = OPEN" using find_first_Some [of _ id] by force+
  define ex where "ex = paperExecutionSellPrice env bid"
  define g where "g = close_pnl env t ex"
  show thesis
  proof (cases "write_column decv ex = None \<or> write_column decv g = None")
    case True
    then show thesis using assms Some failed by (auto simp: paperClosePosition_def Let_def ex_def g_def split: option.splits)
  next
    case False
    then obtain x c where xc: "write_column decv ex = Some x" "write_column decv g = Some c" by auto
    define s1 where "s1 = s\<lparr>trades := update_where (\<lambda>r. pt_id r = pt_id t) (closed_row x c) (trades s)\<rparr>"
    obtain q s2 where q: "credit_portfolio decv u g s1 = (q, s2)" by fastforce
    have r: "(r, s') = (case q of Inl e \<Rightarrow> (Inl e, s2) | Inr _ \<Rightarrow> (Inr (Some g), appendTradingLog u (CloseLog i ex bid g) s2))"
      using assms Some xc q t(2) by (simp add: paperClosePosition_def Let_def ex_def g_def s1_def closed_row_def [abs_def] split: sum.splits)
    from q show thesis
    proof (cases rule: credit_portfolio_cases)
      case (failed e)
      then show thesis using r that(2) by simp
    next
      case (credited p p' v')
      have "find_portfolio u s1 = find_portfolio u s" by (simp add: find_portfolio_def s1_def)
      then show thesis using r credited xc t closed [of t g c p p' v' x] by (simp add: ex_def s1_def)
    qed
  qed
qed

section \<open>The ledger\<close>

definition booked :: "user_id \<Rightarrow> PaperTrade list \<Rightarrow> int" where
  "booked u ts = sum_list (map (\<lambda>t. nullish (pt_pnl t) 0) (filter (\<lambda>t. pt_userId t = u) ts))"

definition closed_count :: "user_id \<Rightarrow> PaperTrade list \<Rightarrow> nat" where
  "closed_count u ts = length (filter (\<lambda>t. pt_userId t = u \<and> pt_pnl t \<noteq> None) ts)"

definition open_keys :: "PaperTrade list \<Rightarrow> (user_id \<times> string) list" where
  "open_keys ts = map (\<lambda>t. (pt_userId t, pt_pair t)) (filter (\<lambda>t. pt_status t = OPEN) ts)"

definition rows_ok :: "paper_state \<Rightarrow> bool" where
  "rows_ok s \<longleftrightarrow> distinct (map pt_id (trades s)) \<and> distinct (map pf_userId (portfolios s)) \<and>
     (\<forall>t \<in> set (trades s). pt_status t = OPEN \<longleftrightarrow> pt_pnl t = None)"

definition ledger_ok :: "paper_state \<Rightarrow> bool" where
  "ledger_ok s \<longleftrightarrow> (\<forall>p \<in> set (portfolios s).
     \<bar>pf_pnl p - booked (pf_userId p) (trades s)\<bar> \<le> int (closed_count (pf_userId p) (trades s))) \<and>
     (\<forall>t \<in> set (trades s). pt_pnl t \<noteq> None \<longrightarrow> pt_userId t \<in> pf_userId ` set (portfolios s))"

definition one_open_per_pair :: "paper_state \<Rightarrow> bool" where
  "one_open_per_pair s \<longleftrightarrow> distinct (open_keys (trades s))"

lemmas ledger_defs = booked_def closed_count_def open_keys_def

lemma next_id_fresh: "next_id ts \<notin> pt_id ` set ts"
proof
  assume "next_id ts \<in> pt_id ` set ts"
  then have "next_id ts \<le> Max (insert 0 (set (map pt_id ts)))" by (intro Max_ge) auto
  then show False by (simp add: next_id_def)
qed

lemma update_where_unique:
  assumes "distinct (map key (xs @ t # ys))"
  shows "update_where (\<lambda>r. key r = key t) f (xs @ t # ys) = xs @ f t # ys"
proof -
  have "key r \<noteq> key t" if "r \<in> set xs \<union> set ys" for r using assms that by (auto simp: image_iff)
  then have "map (\<lambda>r. if key r = key t then f r else r) xs = xs" "map (\<lambda>r. if key r = key t then f r else r) ys = ys"
    by (auto intro: map_idI)
  then show ?thesis by (simp add: update_where_def)
qed

lemma close_rows:
  assumes "rows_ok s" "t \<in> set (trades s)" "pt_status t = OPEN"
  obtains xs ys where "trades s = xs @ t # ys"
    "update_where (\<lambda>r. pt_id r = pt_id t) (closed_row x c) (trades s) = xs @ closed_row x c t # ys" "pt_pnl t = None"
proof -
  obtain xs ys where "trades s = xs @ t # ys" using split_list [OF assms(2)] by blast
  then show thesis using that [of xs ys] assms update_where_unique [of pt_id xs t ys] by (simp add: rows_ok_def)
qed

lemma round_half_away_near: "\<bar>of_int (round_half_away x) - x\<bar> \<le> 1/2"
proof -
  have "\<bar>of_int \<lfloor>y + 1/2\<rfloor> - y\<bar> \<le> (1/2 :: rat)" for y :: rat by linarith
  from this [of x] this [of "- x"] show ?thesis unfolding round_half_away_def by (cases "x < 0"; simp only: if_True if_False of_int_minus; linarith)
qed

lemma column_increment_near:
  assumes "write_column decv n = Some c" "increment_column decv a n = Some a'"
  shows "\<bar>a' - (a + c)\<bar> \<le> 1"
proof -
  obtain x where x: "decv n = Some x" "c = round_half_away (x * 10 ^ 8)" "a' = round_half_away ((of_int a / 10 ^ 8 + x) * 10 ^ 8)"
    using assms by (cases "decv n") (auto simp: write_column_def increment_column_def dec_column_def Let_def split: if_splits)
  have "(of_int a / 10 ^ 8 + x) * 10 ^ 8 = of_int a + x * 10 ^ 8" by (simp add: field_simps)
  then have "\<bar>of_int a' - (of_int a + x * 10 ^ 8)\<bar> \<le> (1/2 :: rat)" "\<bar>of_int c - x * 10 ^ 8\<bar> \<le> (1/2 :: rat)"
    using round_half_away_near [of "of_int a + x * 10 ^ 8"] round_half_away_near [of "x * 10 ^ 8"] x by simp_all
  then have "\<bar>of_int (a' - (a + c))\<bar> \<le> (1 :: rat)" by (simp only: of_int_diff of_int_add abs_le_iff) linarith
  then have "of_int \<bar>a' - (a + c)\<bar> \<le> (of_int 1 :: rat)" by simp
  then show ?thesis by (simp only: of_int_le_iff)
qed

lemma find_portfolio_Some: "find_portfolio u s = Some p \<Longrightarrow> p \<in> set (portfolios s) \<and> pf_userId p = u"
  by (auto simp: find_portfolio_def find_Some_iff in_set_conv_nth)

lemma rows_ok_open:
  assumes "rows_ok s"
  shows "rows_ok (s\<lparr>trades := trades s @ [opened (next_id (trades s)) now u st pair e a]\<rparr>)"
  using assms next_id_fresh [of "trades s"] by (auto simp: rows_ok_def)

lemma ledger_ok_open:
  assumes "ledger_ok s"
  shows "ledger_ok (s\<lparr>trades := trades s @ [opened i now u st pair e a]\<rparr>)"
  using assms by (auto simp: ledger_ok_def ledger_defs)

lemma ledger_invariant_log [simp]:
  "rows_ok (appendTradingLog u m s) = rows_ok s" "ledger_ok (appendTradingLog u m s) = ledger_ok s"
  "one_open_per_pair (appendTradingLog u m s) = one_open_per_pair s"
  by (simp_all add: rows_ok_def ledger_ok_def one_open_per_pair_def)

definition paper_ok :: "paper_state \<Rightarrow> bool" where
  "paper_ok s \<longleftrightarrow> rows_ok s \<and> ledger_ok s \<and> one_open_per_pair s"

lemma close_keeps_rows:
  assumes ok: "rows_ok s" and c: "paperClosePosition env decv u i bid s = (Inr r, s')"
  shows "rows_ok s' \<and> (ledger_ok s \<longrightarrow> ledger_ok s')"
  using c
proof (cases rule: paperClosePosition_cases)
  case (closed t x c pnl p p' v')
  obtain xs ys where ts: "trades s = xs @ t # ys" "trades s' = xs @ closed_row x c t # ys" "pt_pnl t = None"
    using closed(9) by (auto intro: close_rows [OF ok closed(1) closed(4), of x c])
  have pf: "portfolios s' = update_where (\<lambda>q. pf_userId q = u) (\<lambda>q. q\<lparr>pf_pnl := p', pf_totalValue := v'\<rparr>) (portfolios s)"
    using closed(9) by simp
  have users: "map pf_userId (portfolios s') = map pf_userId (portfolios s)"
    unfolding pf update_where_def by (auto intro: map_cong)
  have "rows_ok s'" using ok users unfolding rows_ok_def ts by auto
  moreover have "ledger_ok s'" if l: "ledger_ok s"
    unfolding ledger_ok_def
  proof (intro conjI ballI impI)
    fix q assume "q \<in> set (portfolios s')"
    then obtain q0 where q0: "q0 \<in> set (portfolios s)" "q = (if pf_userId q0 = u then q0\<lparr>pf_pnl := p', pf_totalValue := v'\<rparr> else q0)"
      unfolding pf in_update_where by blast
    have l0: "\<bar>pf_pnl q0 - booked (pf_userId q0) (trades s)\<bar> \<le> int (closed_count (pf_userId q0) (trades s))"
      using l q0(1) by (simp add: ledger_ok_def)
    show "\<bar>pf_pnl q - booked (pf_userId q) (trades s')\<bar> \<le> int (closed_count (pf_userId q) (trades s'))"
    proof (cases "pf_userId q0 = u")
      case True
      have "q0 = p" using ok find_portfolio_Some [OF closed(7)] q0(1) True
        by (auto simp: rows_ok_def distinct_map dest: inj_onD)
      moreover have "\<bar>p' - (pf_pnl p + c)\<bar> \<le> 1" using column_increment_near closed(6,8) .
      moreover have "booked u (trades s') = booked u (trades s) + c" "closed_count u (trades s') = Suc (closed_count u (trades s))"
        using ts closed(3) by (simp_all add: ledger_defs)
      ultimately show ?thesis using l0 q0(2) True by simp
    next
      case False
      then show ?thesis using l0 q0(2) ts closed(3) by (auto simp: ledger_defs)
    qed
  next
    fix r assume "r \<in> set (trades s')" "pt_pnl r \<noteq> None"
    then show "pt_userId r \<in> pf_userId ` set (portfolios s')"
      using l ts closed(3) find_portfolio_Some [OF closed(7)] arg_cong [OF users, of set] by (force simp: ledger_ok_def)
  qed
  ultimately show ?thesis by blast
qed (use ok in simp_all)

lemma close_keeps_one_open:
  assumes ok: "rows_ok s" "one_open_per_pair s" and c: "paperClosePosition env decv u i bid s = (Inr r, s')"
  shows "one_open_per_pair s'"
  using c
proof (cases rule: paperClosePosition_cases)
  case (closed t x c pnl p p' v')
  obtain xs ys where ts: "trades s = xs @ t # ys" "trades s' = xs @ closed_row x c t # ys"
    using closed(9) by (auto intro: close_rows [OF ok(1) closed(1) closed(4), of x c])
  then show ?thesis using ok(2) closed(4) by (auto simp: one_open_per_pair_def open_keys_def)
qed (use ok in simp_all)

lemma close_keeps_ok: "paper_ok s \<Longrightarrow> paperClosePosition env decv u i bid s = (Inr r, s') \<Longrightarrow> paper_ok s'"
  using close_keeps_rows close_keeps_one_open by (auto simp: paper_ok_def)

lemma paper_ok_cong: "trades s' = trades s \<Longrightarrow> portfolios s' = portfolios s \<Longrightarrow> paper_ok s' = paper_ok s"
  by (simp add: paper_ok_def rows_ok_def ledger_ok_def one_open_per_pair_def)

lemma close_all_keeps_ok: "close_all io u n ts s = (Inr (), s') \<Longrightarrow> paper_ok s \<Longrightarrow> paper_ok s'"
proof (induction ts arbitrary: n s)
  case (Cons t ts)
  then show ?case using close_keeps_ok
    by (auto split: option.splits prod.splits sum.splits)
qed simp

lemma gate_approves_buy:
  "shouldExecuteTrade env now sig ctx = Approved BUY q ev \<Longrightarrow> \<not> xc_hasOpenPositionOnPair ctx \<and> \<not> xc_drawdownHalted ctx"
  by (auto simp: shouldExecuteTrade_def Let_def split: if_splits)

lemma plan_buy:
  assumes "plan_of bt pair v book cf (shouldExecuteTrade env now sig (tick_context bt pair v ai book s)) s = PlanBuy p ask alloc cf'"
  shows "p = pair \<and> open_for_pair (bi_userId bt) pair s = [] \<and> \<not> bi_drawdownHalted bt"
proof -
  obtain q ev where "shouldExecuteTrade env now sig (tick_context bt pair v ai book s) = Approved BUY q ev" and p: "p = pair"
    using assms by (auto simp: plan_of_def Let_def split: ShouldExecuteResult.splits if_splits list.splits)
  from gate_approves_buy [OF this(1)] p show ?thesis by (simp add: tick_context_def Let_def)
qed

lemma open_for_pair_cong: "trades s' = trades s \<Longrightarrow> open_for_pair u pair s' = open_for_pair u pair s"
  by (simp add: open_for_pair_def)

lemma record_signal_fields [simp]:
  "trades (record_signal u pr sg now s) = trades s" "portfolios (record_signal u pr sg now s) = portfolios s"
  "bots (record_signal u pr sg now s) = bots s"
  by (simp_all add: record_signal_def split: option.splits)

lemma assess_equity_fields [simp]:
  "trades (assess_equity bt v s) = trades s" "portfolios (assess_equity bt v s) = portfolios s"
  "bots (assess_equity bt v s) = bots (put_bot (equity_check bt v) s)"
  by (simp_all add: assess_equity_def Let_def)

lemma equity_check_fields [simp]:
  "bi_userId (equity_check bt v) = bi_userId bt" "bi_drawdownHalted bt \<Longrightarrow> bi_drawdownHalted (equity_check bt v)"
  by (simp_all add: equity_check_def Let_def)

text \<open>What a decision can change, with the three outcomes of the reads.\<close>

lemma tick_decide_cases:
  assumes "tick_decide io n bt pair s = (plan, s')"
  obtains (unread) "plan = NoTrade" "trades s' = trades s" "portfolios s' = portfolios s" "bots s' = bots s"
  | (assessed) v where "plan = NoTrade" "trades s' = trades s" "portfolios s' = portfolios s"
      "bots s' = bots (put_bot (equity_check bt v) s)"
  | (decided) v book sig s2 where "decide_pair io (equity_check bt v) pair v book sig s2 = (plan, s')"
      "trades s2 = trades s" "portfolios s2 = portfolios s" "bots s2 = bots (put_bot (equity_check bt v) s)"
proof -
  define sg where "sg = computeAISignal (io_klines io n) (remove_first (CHR ''/'') pair)"
  define s1 where "s1 = record_signal (bi_userId bt) pair sg (io_now io) s"
  have s1: "trades s1 = trades s" "portfolios s1 = portfolios s" "bots s1 = bots s" by (simp_all add: s1_def)
  have b: "bots (put_bot b s1) = bots (put_bot b s)" for b using s1 by (simp add: put_bot_def set_bot_def)
  show thesis
  proof (cases "fetchBookTicker (io_ticker io n) (remove_first (CHR ''/'') pair)")
    case None
    then have "plan = NoTrade" "s' = s" using assms by (simp_all add: tick_decide_def)
    then show thesis using unread by simp
  next
    case (Some book)
    then have e: "(plan, s') = (case find_portfolio (bi_userId bt) s1 of
        None \<Rightarrow> (NoTrade, s1)
      | Some pf \<Rightarrow> let v = read_column (pf_totalValue pf) in
          case sg of None \<Rightarrow> (NoTrade, assess_equity bt v s1)
          | Some sig \<Rightarrow> decide_pair io (equity_check bt v) pair v book sig (assess_equity bt v s1))"
      using assms unfolding tick_decide_def sg_def s1_def Let_def by simp
    show thesis
    proof (cases "find_portfolio (bi_userId bt) s1")
      case None
      then show thesis using e unread s1 by simp
    next
      case (Some pf)
      define v where "v = read_column (pf_totalValue pf)"
      show thesis using e Some s1 b assessed [of v] decided [of v book _ "assess_equity bt v s1"]
        by (cases sg) (simp_all add: v_def [symmetric])
    qed
  qed
qed

lemma decide_pair_state:
  "decide_pair io bt pair v book sig s = (plan, s') \<Longrightarrow>
     trades s' = trades s \<and> portfolios s' = portfolios s \<and> bots s' = bots s"
  by (auto simp: decide_pair_def Let_def)

lemma tick_decide_state:
  assumes "tick_decide io n bt pair s = (plan, s')"
  shows "trades s' = trades s \<and> portfolios s' = portfolios s \<and>
     (bots s' = bots s \<or> (\<exists>v. bots s' = bots (put_bot (equity_check bt v) s)))"
  using assms by (cases rule: tick_decide_cases) (auto dest!: decide_pair_state)

lemma tick_decide_buy:
  assumes "tick_decide io n bt pair s = (PlanBuy p ask alloc cf, s')"
  shows "p = pair \<and> open_for_pair (bi_userId bt) pair s = [] \<and> \<not> bi_drawdownHalted bt"
  using assms
proof (cases rule: tick_decide_cases)
  case (decided v book sig s2)
  then show ?thesis using plan_buy [of "equity_check bt v" pair v book] open_for_pair_cong [OF decided(2)] equity_check_fields(2)
    by (fastforce simp: decide_pair_def Let_def)
qed simp_all

lemma open_for_pair_empty: "open_for_pair u pair s = [] \<longleftrightarrow> (u, pair) \<notin> set (open_keys (trades s))"
proof -
  have "open_for_pair u pair s = [] \<longleftrightarrow> set (open_for_pair u pair s) = {}" by simp
  also have "\<dots> \<longleftrightarrow> (u, pair) \<notin> set (open_keys (trades s))"
    by (auto simp: open_for_pair_def find_many_def open_keys_def)
  finally show ?thesis .
qed

lemma open_keeps_ok:
  assumes "paper_ok s" "paperOpenPosition env decv now u st pair ask alloc s = (Inr r, s')" "(u, pair) \<notin> set (open_keys (trades s))"
  shows "paper_ok s'"
  using assms(2)
proof (cases rule: paperOpenPosition_cases)
  case (opened e a)
  have "one_open_per_pair (s\<lparr>trades := trades s @ [opened (next_id (trades s)) now u st pair e a]\<rparr>)"
    using assms(1,3) by (simp add: paper_ok_def one_open_per_pair_def open_keys_def)
  then show ?thesis using assms(1) opened rows_ok_open ledger_ok_open by (auto simp: paper_ok_def)
qed simp

lemma tickPair_keeps_ok:
  assumes "paper_ok s" "tickPair io n u pair s = (Inr (), s')" "\<And>b. get_bot u s = Some b \<Longrightarrow> bi_userId b = u"
  shows "paper_ok s'"
proof (cases "get_bot u s")
  case (Some bt)
  obtain plan s1 where d: "tick_decide io n bt pair s = (plan, s1)" by fastforce
  note e = tick_decide_state [OF d]
  have ok: "paper_ok s1" using assms(1) e paper_ok_cong by blast
  have x: "tick_execute io u (bi_strategyId bt) plan s1 = (Inr (), s')" using assms(2) Some d by (simp add: tickPair_def)
  show ?thesis
  proof (cases plan)
    case NoTrade
    then show ?thesis using x ok by (simp add: tick_execute_def)
  next
    case (PlanBuy p ask alloc cf)
    then obtain r s2 where o: "paperOpenPosition (io_env io) (io_decv io) (io_now io) u (bi_strategyId bt) p ask alloc s1 = (Inr r, s2)"
      and s': "trades s' = trades s2" "portfolios s' = portfolios s2"
      using x by (auto simp: tick_execute_def split: prod.splits sum.splits)
    have "(u, p) \<notin> set (open_keys (trades s1))" 
      using tick_decide_buy d e PlanBuy assms(3) [OF Some] open_for_pair_empty open_for_pair_cong by metis
    then show ?thesis using open_keeps_ok [OF ok o] paper_ok_cong [OF s'] by simp
  next
    case (PlanSell p i en bid cf)
    then obtain r s2 where c: "paperClosePosition (io_env io) (io_decv io) u i bid s1 = (Inr r, s2)"
      and s': "trades s' = trades s2" "portfolios s' = portfolios s2"
      using x by (auto simp: tick_execute_def split: prod.splits sum.splits)
    then show ?thesis using close_keeps_ok [OF ok c] paper_ok_cong [OF s'] by simp
  qed
qed (use assms in \<open>simp add: tickPair_def\<close>)

definition bots_ok :: "paper_state \<Rightarrow> bool" where
  "bots_ok s \<longleftrightarrow> (\<forall>u b. get_bot u s = Some b \<longrightarrow> bi_userId b = u)"

lemma bots_ok_cong: "bots s' = bots s \<Longrightarrow> bots_ok s' = bots_ok s"
  by (simp add: bots_ok_def get_bot_def)

lemma set_bot_get: "get_bot u (set_bot b s) = (if u = bi_userId b then Some b else get_bot u s)"
  by (simp add: get_bot_def set_bot_def update_conv')

lemma put_bot_get: "get_bot u (put_bot b s) = (if u = bi_userId b \<and> get_bot u s \<noteq> None then Some b else get_bot u s)"
proof -
  have "bi_userId b \<in> fst ` set (bots s) \<longleftrightarrow> get_bot (bi_userId b) s \<noteq> None" by (simp add: get_bot_def map_of_eq_None_iff)
  then show ?thesis by (auto simp: put_bot_def set_bot_get)
qed

lemma bots_ok_put [simp]: "bots_ok s \<Longrightarrow> bots_ok (put_bot b s)" "bots_ok s \<Longrightarrow> bots_ok (set_bot b s)"
  by (auto simp: bots_ok_def put_bot_get set_bot_get split: if_splits)

lemma bots_ok_touch [simp]: "bots_ok s \<Longrightarrow> bots_ok (touch_bot u now s)"
  by (simp add: touch_bot_def split: option.splits)

lemma open_bots: "paperOpenPosition env decv now u st pair ask alloc s = (r, s') \<Longrightarrow> bots s' = bots s"
  by (erule paperOpenPosition_cases) simp_all

lemma close_bots: "paperClosePosition env decv u i bid s = (Inr r, s') \<Longrightarrow> bots s' = bots s"
  by (erule paperClosePosition_cases) simp_all

lemma close_all_bots: "close_all io u n ts s = (Inr (), s') \<Longrightarrow> bots s' = bots s"
proof (induction ts arbitrary: n s)
  case (Cons t ts)
  then show ?case using close_bots by (fastforce split: option.splits prod.splits sum.splits)
qed simp

lemma tick_decide_bots:
  assumes "bots_ok s" "tick_decide io n bt pair s = (plan, s')"
  shows "bots_ok s'"
proof -
  from tick_decide_state [OF assms(2)] consider "bots s' = bots s" | v where "bots s' = bots (put_bot (equity_check bt v) s)" by blast
  then show ?thesis using assms(1) bots_ok_cong [of s'] by cases simp_all
qed

lemma bots_ok_fields: "bots_ok (emit_trade u f s) = bots_ok s" "bots_ok (appendTradingLog u m s) = bots_ok s"
  by (rule bots_ok_cong, simp)+

lemma tickPair_bots:
  assumes "bots_ok s" "tickPair io n u pair s = (Inr (), s')"
  shows "bots_ok s'"
proof (cases "get_bot u s")
  case (Some bt)
  obtain plan s1 where d: "tick_decide io n bt pair s = (plan, s1)" by fastforce
  have ok: "bots_ok s1" using tick_decide_bots [OF assms(1) d] .
  have x: "tick_execute io u (bi_strategyId bt) plan s1 = (Inr (), s')" using assms(2) Some d by (simp add: tickPair_def)
  have y: "bots_ok y" if "bots y = bots s1" for y using ok bots_ok_cong [OF that] by simp
  show ?thesis
  proof (cases plan)
    case (PlanBuy p ask alloc cf)
    then show ?thesis using x y open_bots by (fastforce simp: tick_execute_def bots_ok_fields split: prod.splits sum.splits)
  next
    case (PlanSell p i en bid cf)
    then show ?thesis using x y close_bots by (fastforce simp: tick_execute_def bots_ok_fields split: prod.splits sum.splits)
  qed (use x ok in \<open>simp add: tick_execute_def\<close>)
qed (use assms in \<open>simp add: tickPair_def\<close>)

lemma tick_pairs_keep_ok:
  "tick_pairs io n u ps s = (Inr (), s') \<Longrightarrow> paper_ok s \<Longrightarrow> bots_ok s \<Longrightarrow> paper_ok s' \<and> bots_ok s'"
proof (induction ps arbitrary: n s)
  case (Cons p ps)
  from Cons.prems(1) obtain s1 where s1: "tickPair io n u p s = (Inr (), s1)" "tick_pairs io (Suc n) u ps s1 = (Inr (), s')"
    by (auto split: prod.splits sum.splits)
  have "paper_ok s1" "bots_ok s1" using tickPair_keeps_ok [OF Cons.prems(2) s1(1)] tickPair_bots [OF Cons.prems(3) s1(1)] Cons.prems(3)
    by (auto simp: bots_ok_def)
  then show ?case using Cons.IH s1(2) by blast
qed simp

lemma open_then_close:
  assumes ok: "paper_ok s" and o: "paperOpenPosition env decv now u st pair ask alloc s = (Inr (i, price), s1)"
    and t2: "trades s2 = trades s1" "portfolios s2 = portfolios s1"
    and c: "paperClosePosition env decv u i bid s2 = (Inr r, s3)"
  shows "paper_ok s3"
  using o
proof (cases rule: paperOpenPosition_cases)
  case (opened e a)
  define t where "t = opened i now u st pair e a"
  have ts: "trades s2 = trades s @ [t]" and i: "i = next_id (trades s)" using opened t2 by (simp_all add: t_def)
  have r2: "rows_ok s2" "ledger_ok s2"
    using ok rows_ok_open [of s now u st pair e a] ledger_ok_open [of s i now u st pair e a] ts t2(2) opened(2) i
    by (simp_all add: paper_ok_def rows_ok_def ledger_ok_def t_def)
  have "one_open_per_pair s3" using c
  proof (cases rule: paperClosePosition_cases)
    case missing
    then show ?thesis using ts by (auto simp: t_def)
  next
    case (closed t' x c pnl p p' v')
    have "pt_id y \<noteq> i" if "y \<in> set (trades s)" for y using that next_id_fresh [of "trades s"] i by (auto simp: image_iff)
    then have "t' = t" using closed(1,2) ts by (auto simp: t_def)
    then have "trades s3 = trades s @ [closed_row x c t]"
      using closed(9) update_where_unique [of pt_id "trades s" t "[]" "closed_row x c"] r2(1) ts by (simp add: rows_ok_def)
    then show ?thesis using ok by (simp add: paper_ok_def one_open_per_pair_def open_keys_def)
  qed simp
  then show ?thesis using close_keeps_rows [OF r2(1) c] r2(2) by (simp add: paper_ok_def)
qed simp

lemma probe_round_trip_keeps_ok:
  assumes "probe_round_trip io bt book usd s = (Inr (), s')" "paper_ok s" "bots_ok s"
  shows "paper_ok s' \<and> bots_ok s'"
proof -
  define u where "u = bi_userId bt"
  define bt' where "bt' = bt\<lparr>bi_lastExecutionAt := Some (io_now io)\<rparr>"
  obtain i price s1 where
    o: "paperOpenPosition (io_env io) (io_decv io) (io_now io) u (bi_strategyId bt) (bi_pair bt) (bk_ask book) usd s = (Inr (i, price), s1)"
    using assms(1) by (auto simp: probe_round_trip_def Let_def u_def split: prod.splits sum.splits)
  define s2 where "s2 = emit_trade u (opened_payload u i (bi_pair bt) price (Fin 1)) (put_bot bt' s1)"
  obtain r s3 where c: "paperClosePosition (io_env io) (io_decv io) u i (bk_bid book) s2 = (Inr r, s3)" and
    s': "s' = appendTradingLog u (ProbeDone r) (emit_trade u (closed_payload u i (bi_pair bt) price (paperExecutionSellPrice (io_env io) (bk_bid book)) r (Fin 1))
             (put_bot bt' s3))"
    using assms(1) o unfolding probe_round_trip_def Let_def u_def [symmetric] bt'_def [symmetric]
    by (auto simp: s2_def [symmetric] split: prod.splits sum.splits)
  have "paper_ok s3" using open_then_close [OF assms(2) o _ _ c] by (simp add: s2_def)
  moreover have "bots_ok s3"
  proof -
    have "bots_ok s1" using assms(3) bots_ok_cong [OF open_bots [OF o]] by simp
    then have "bots_ok s2" by (simp add: s2_def bots_ok_fields)
    then show ?thesis using bots_ok_cong [OF close_bots [OF c]] by simp
  qed
  ultimately show ?thesis using paper_ok_cong [of s' s3] by (simp add: s' bots_ok_fields)
qed

lemma probe_keeps_ok:
  assumes "runStartupProbe io bt s = (Inr (), s')" "paper_ok s" "bots_ok s"
  shows "paper_ok s' \<and> bots_ok s'"
proof -
  have "paper_ok (appendTradingLog u m s) \<and> bots_ok (appendTradingLog u m s)" for u m
    using assms(2,3) paper_ok_cong [of "appendTradingLog u m s" s] by (simp add: bots_ok_fields)
  moreover from assms(1) have "(\<exists>u m. s' = appendTradingLog u m s) \<or> (\<exists>book usd. probe_round_trip io bt book usd s = (Inr (), s'))"
    by (auto simp: runStartupProbe_def Let_def split: option.splits if_splits)
  ultimately show ?thesis using probe_round_trip_keeps_ok assms(2,3) by blast
qed

lemma new_portfolio_ok:
  assumes "paper_ok s" "find_portfolio u s = None"
  shows "paper_ok (s\<lparr>portfolios := portfolios s @ [\<lparr>pf_userId = u, pf_totalValue = v, pf_pnl = 0\<rparr>]\<rparr>)"
proof -
  have new: "u \<notin> pf_userId ` set (portfolios s)" using assms(2) by (auto simp: find_portfolio_def find_None_iff)
  then have "filter (\<lambda>t. pt_userId t = u \<and> pt_pnl t \<noteq> None) (trades s) = []"
    using assms(1) by (auto simp: paper_ok_def ledger_ok_def filter_empty_conv)
  moreover from this have "booked u (trades s) = 0"
    by (auto simp: booked_def filter_empty_conv intro!: sum_list_nonneg_eq_0_iff [THEN iffD2])
  ultimately show ?thesis using assms(1) new
    by (auto simp: paper_ok_def rows_ok_def ledger_ok_def one_open_per_pair_def closed_count_def)
qed

text \<open>A step of the bot that reports no failure: a session starts (and its probe did not fail), a
  session stops, or a session ticks, one after the other.\<close>

inductive paper_step :: "paper_state \<Rightarrow> paper_state \<Rightarrow> bool" where
  step_start: "start io u st pair sz ps s = (Inr (), s') \<Longrightarrow> ProbeFailed \<notin> tl_message ` set (logs s') \<Longrightarrow> paper_step s s'"
| step_stop: "stop io u s = (Inr r, s') \<Longrightarrow> paper_step s s'"
| step_tick: "tick io u s = (Inr (), s') \<Longrightarrow> paper_step s s'"

lemma start_keeps_ok:
  assumes "start io u st pair sz ps s = (Inr (), s')" "ProbeFailed \<notin> tl_message ` set (logs s')" "paper_ok s" "bots_ok s"
  shows "paper_ok s' \<and> bots_ok s'"
proof -
  define s1 where "s1 = (case find_portfolio u s of Some _ \<Rightarrow> s
     | None \<Rightarrow> s\<lparr>portfolios := portfolios s @ [\<lparr>pf_userId = u, pf_totalValue = 0, pf_pnl = 0\<rparr>]\<rparr>)"
  have s1: "paper_ok s1" "bots_ok s1" using assms(3,4) new_portfolio_ok bots_ok_cong [of s1 s]
    by (auto simp: s1_def split: option.splits)
  from assms(1,2) obtain bt m where p: "runStartupProbe io bt (appendTradingLog u m (set_bot bt s1)) = (Inr (), s')"
    unfolding start_def Let_def s1_def [symmetric] by (auto split: if_splits prod.splits sum.splits)
  show ?thesis using probe_keeps_ok [OF p] s1 paper_ok_cong [of "appendTradingLog u m (set_bot bt s1)" s1]
    by (simp add: bots_ok_fields)
qed

lemma stop_keeps_ok:
  assumes "stop io u s = (Inr r, s')" "paper_ok s" "bots_ok s"
  shows "paper_ok s' \<and> bots_ok s'"
proof -
  from assms(1) obtain bt ts s2 m where
    c: "close_all io u 0 ts (put_bot (bt\<lparr>bi_interval := False\<rparr>) s) = (Inr (), s2)" and
    s': "s' = appendTradingLog u m (s2\<lparr>bots := AList.delete u (bots s2), lastSignalByUser := (lastSignalByUser s2)(u := None)\<rparr>)"
    by (auto simp: stop_def Let_def split: option.splits prod.splits sum.splits)
  have "paper_ok s2" using close_all_keeps_ok [OF c] assms(2) paper_ok_cong [of "put_bot (bt\<lparr>bi_interval := False\<rparr>) s" s] by simp
  moreover have "bots_ok s2" using assms(3) bots_ok_cong [OF close_all_bots [OF c]] by simp
  ultimately show ?thesis using paper_ok_cong [of s' s2]
    by (auto simp: s' bots_ok_def get_bot_def delete_conv' split: if_splits)
qed

lemma paper_step_ok: "paper_step s s' \<Longrightarrow> paper_ok s \<Longrightarrow> bots_ok s \<Longrightarrow> paper_ok s' \<and> bots_ok s'"
proof (induction rule: paper_step.induct)
  case (step_tick io u s s')
  then show ?case using tick_pairs_keep_ok by (auto simp: tick_def split: option.splits)
qed (use start_keeps_ok stop_keeps_ok in blast)+

lemma paper_run_ok: "paper_step\<^sup>*\<^sup>* s s' \<Longrightarrow> paper_ok s \<Longrightarrow> bots_ok s \<Longrightarrow> paper_ok s' \<and> bots_ok s'"
  by (induction rule: rtranclp_induct) (use paper_step_ok in blast)+

section \<open>Properties of the bot\<close>

text \<open>C17: the ledger reconciles: after any sequence of sessions started, ticked and stopped without a
  reported failure, the profit on every portfolio equals the sum of the profits of that user's
  trades, up to one column unit (10^-8 USD) of rounding for each closed trade.\<close>

theorem paper_ledger_reconciles:
  assumes "paper_step\<^sup>*\<^sup>* s s'" "paper_ok s" "bots_ok s" "p \<in> set (portfolios s')"
  shows "\<bar>pf_pnl p - booked (pf_userId p) (trades s')\<bar> \<le> int (closed_count (pf_userId p) (trades s'))"
  using paper_run_ok [OF assms(1-3)] assms(4) by (simp add: paper_ok_def ledger_ok_def)


definition dec_demo :: decimal_of where
  "dec_demo n = (case n of Fin a \<Rightarrow> Some a | _ \<Rightarrow> None)"

definition demo_io :: bot_io where
  "demo_io = \<lparr>io_env = (\<lambda>_. None), io_decv = dec_demo, io_now = 1000, io_klines = (\<lambda>_ _ _ _. FetchFailed),
     io_ticker = (\<lambda>_ _ _. Some (Some ''99'', Some ''100''))\<rparr>"

definition demo_paper :: paper_state where
  "demo_paper = \<lparr>bots = [], lastSignalByUser = (\<lambda>_. None), trades = [],
     portfolios = [\<lparr>pf_userId = ''u'', pf_totalValue = 1000 * 10 ^ 8, pf_pnl = 0\<rparr>], sessions = [], logs = [], emitted = []\<rparr>"

definition demo_started :: paper_state where
  "demo_started = snd (start demo_io ''u'' ''s'' ''BTC/USDT'' None None demo_paper)"

lemma demo_start_run:
  "(case start demo_io ''u'' ''s'' ''BTC/USDT'' None None demo_paper of (r, s) \<Rightarrow>
      (r, map (\<lambda>t. (pt_userId t, pt_pair t, pt_status t)) (trades s), map pf_userId (portfolios s),
       length (logs s), list_ex (\<lambda>l. tl_message l = ProbeFailed) (logs s))) =
     (Inr (), [(''u'', ''BTC/USDT'', CLOSED)], [''u''], 4, False)"
  by code_simp

lemma demo_start:
  "fst (start demo_io ''u'' ''s'' ''BTC/USDT'' None None demo_paper) = Inr ()"
  "map (\<lambda>t. (pt_userId t, pt_pair t, pt_status t)) (trades demo_started) = [(''u'', ''BTC/USDT'', CLOSED)]"
  "map pf_userId (portfolios demo_started) = [''u'']"
  "length (logs demo_started) = 4" "ProbeFailed \<notin> tl_message ` set (logs demo_started)"
  using demo_start_run by (auto simp: demo_started_def list_ex_iff split: prod.splits)

lemma demo_paper_ok: "paper_ok demo_paper" "bots_ok demo_paper"
  by (simp_all add: demo_paper_def paper_ok_def rows_ok_def ledger_ok_def one_open_per_pair_def bots_ok_def get_bot_def ledger_defs)

lemma demo_paper_step: "paper_step\<^sup>*\<^sup>* demo_paper demo_started"
proof -
  have "start demo_io ''u'' ''s'' ''BTC/USDT'' None None demo_paper = (Inr (), demo_started)"
    using demo_start(1) by (simp add: demo_started_def prod_eq_iff)
  then show ?thesis using step_start demo_start(5) by blast
qed

theorem paper_ledger_reconciles_witness:
  "\<exists>p. p \<in> set (portfolios demo_started) \<and> trades demo_started \<noteq> [] \<and>
     \<bar>pf_pnl p - booked (pf_userId p) (trades demo_started)\<bar> \<le> int (closed_count (pf_userId p) (trades demo_started))"
proof -
  obtain p where "p \<in> set (portfolios demo_started)" using demo_start(3) by (cases "portfolios demo_started") auto
  moreover have "trades demo_started \<noteq> []" using demo_start(2) by auto
  ultimately show ?thesis using paper_ledger_reconciles [OF demo_paper_step demo_paper_ok] by blast
qed

definition demo_held :: paper_state where
  "demo_held = demo_paper\<lparr>trades := [opened 7 0 ''u'' ''s'' ''BTC/USDT'' (90 * 10 ^ 8) (50 * 10 ^ 8)]\<rparr>"

definition demo_held_started :: paper_state where
  "demo_held_started = snd (start demo_io ''u'' ''s'' ''BTC/USDT'' None None demo_held)"

lemma demo_held_run:
  "(case start demo_io ''u'' ''s'' ''BTC/USDT'' None None demo_held of (r, s) \<Rightarrow>
      (r, map (\<lambda>t. (pt_id t, pt_userId t, pt_pair t, pt_status t)) (trades s), list_ex (\<lambda>l. tl_message l = ProbeFailed) (logs s))) =
     (Inr (), [(7, ''u'', ''BTC/USDT'', OPEN), (8, ''u'', ''BTC/USDT'', CLOSED)], False)"
  by code_simp

lemma demo_held_start:
  "fst (start demo_io ''u'' ''s'' ''BTC/USDT'' None None demo_held) = Inr ()"
  "map (\<lambda>t. (pt_id t, pt_userId t, pt_pair t, pt_status t)) (trades demo_held_started) =
     [(7, ''u'', ''BTC/USDT'', OPEN), (8, ''u'', ''BTC/USDT'', CLOSED)]"
  "ProbeFailed \<notin> tl_message ` set (logs demo_held_started)"
  using demo_held_run by (auto simp: demo_held_started_def list_ex_iff split: prod.splits)


subsection \<open>The drawdown halt\<close>

lemma close_effect:
  "paperClosePosition env decv u i bid s = (r, s') \<Longrightarrow> map pt_id (trades s') = map pt_id (trades s) \<and> bots s' = bots s"
proof -
  have m: "map pt_id (update_where p (\<lambda>r. r\<lparr>pt_exitPrice := x, pt_pnl := c, pt_status := st\<rparr>) ts) = map pt_id ts" for p x c st ts
    by (simp add: update_where_def)
  have "trades y = trades z \<and> bots y = bots z" if "credit_portfolio decv u g z = (q, y)" for g q y z
    using that by (cases rule: credit_portfolio_cases) simp_all
  then show "paperClosePosition env decv u i bid s = (r, s') \<Longrightarrow> ?thesis"
    by (fastforce simp: paperClosePosition_def Let_def m split: option.splits prod.splits sum.splits)
qed

definition halted :: "user_id \<Rightarrow> paper_state \<Rightarrow> bool" where
  "halted u s \<longleftrightarrow> (\<exists>b. get_bot u s = Some b \<and> bi_userId b = u \<and> bi_drawdownHalted b)"

lemma halted_cong: "bots s' = bots s \<Longrightarrow> halted u s' = halted u s"
  by (simp add: halted_def get_bot_def)

lemma halted_touch: "halted u s \<Longrightarrow> halted u (touch_bot u now s)"
  by (auto simp: halted_def touch_bot_def put_bot_get)

lemma halted_decide:
  assumes "halted u s" "get_bot u s = Some bt" "tick_decide io n bt pair s = (plan, s')"
  shows "halted u s' \<and> trades s' = trades s \<and> (\<forall>p a v cf. plan \<noteq> PlanBuy p a v cf)"
proof -
  have bt: "bi_userId bt = u" "bi_drawdownHalted bt" using assms(1,2) by (auto simp: halted_def)
  from tick_decide_state [OF assms(3)] consider "bots s' = bots s" | v where "bots s' = bots (put_bot (equity_check bt v) s)" by blast
  then have "halted u s'" using assms(1) bt
  proof cases
    case (2 v)
    have "halted u (put_bot (equity_check bt v) s)" using assms(2) bt by (auto simp: halted_def put_bot_get)
    then show ?thesis using halted_cong [OF 2] by simp
  next
    case 1
    then show ?thesis using assms(1) halted_cong [OF 1] by simp
  qed
  then show ?thesis using tick_decide_state [OF assms(3)] tick_decide_buy assms(3) bt(2) by blast
qed

lemma halted_tickPair:
  assumes "halted u s" "tickPair io n u pair s = (r, s')"
  shows "halted u s' \<and> map pt_id (trades s') = map pt_id (trades s)"
proof -
  obtain bt where bt: "get_bot u s = Some bt" using assms(1) by (auto simp: halted_def)
  obtain plan s1 where d: "tick_decide io n bt pair s = (plan, s1)" by fastforce
  note h = halted_decide [OF assms(1) bt d]
  have x: "tick_execute io u (bi_strategyId bt) plan s1 = (r, s')" using assms(2) bt d by (simp add: tickPair_def)
  show ?thesis
  proof (cases plan)
    case (PlanSell p i en bid cf)
    obtain q s2 where c: "paperClosePosition (io_env io) (io_decv io) u i bid s1 = (q, s2)" by fastforce
    have b: "bots s2 = bots s1" "map pt_id (trades s2) = map pt_id (trades s)" using close_effect [OF c] h by simp_all
    then have h2: "halted u s2" using h halted_cong [OF b(1)] by simp
    have e: "halted u (emit_trade u f (touch_bot u now s2))" for f now
      using halted_touch [OF h2] halted_cong [OF emit_fields(3)] by simp
    show ?thesis
    proof (cases q)
      case (Inl e)
      then show ?thesis using x PlanSell c h2 b by (simp add: tick_execute_def)
    next
      case (Inr g)
      then have "s' = emit_trade u (closed_payload u i p en (paperExecutionSellPrice (io_env io) bid) g cf) (touch_bot u (io_now io) s2)"
        using x PlanSell c by (simp add: tick_execute_def)
      then show ?thesis using e b by simp
    qed
  qed (use x h in \<open>auto simp: tick_execute_def\<close>)
qed

lemma halted_tick_pairs:
  "tick_pairs io n u ps s = (r, s') \<Longrightarrow> halted u s \<Longrightarrow> halted u s' \<and> map pt_id (trades s') = map pt_id (trades s)"
proof (induction ps arbitrary: n s)
  case (Cons p ps)
  obtain q s1 where q: "tickPair io n u p s = (q, s1)" by fastforce
  then show ?case using Cons halted_tickPair [OF Cons.prems(2) q] by (auto split: sum.splits)
qed simp

text \<open>Once the drawdown limit halted a session, no later tick of it opens a position, whatever the
  market answers and even when a write fails, and the session stays halted.\<close>

theorem halted_session_never_buys:
  assumes "halted u s" "tick io u s = (r, s')"
  shows "halted u s' \<and> map pt_id (trades s') = map pt_id (trades s)"
  using assms halted_tick_pairs by (auto simp: tick_def halted_def)

definition demo_halted :: paper_state where
  "demo_halted = demo_paper\<lparr>bots := [(''u'', \<lparr>bi_userId = ''u'', bi_strategyId = ''s'', bi_pairs = [''BTC/USDT''],
     bi_pair = ''BTC/USDT'', bi_symbol = ''BTCUSDT'', bi_interval = True, bi_tradeSizePct = Fin 50,
     bi_sessionPeakEquity = Fin 2000, bi_drawdownHalted = True, bi_lastExecutionAt = None\<rparr>)]\<rparr>"

theorem halted_session_never_buys_witness:
  "halted ''u'' (snd (tick demo_io ''u'' demo_halted)) \<and> trades (snd (tick demo_io ''u'' demo_halted)) = []"
proof -
  have "halted ''u'' demo_halted" by (simp add: halted_def demo_halted_def get_bot_def)
  from halted_session_never_buys [OF this, of demo_io "fst (tick demo_io ''u'' demo_halted)" "snd (tick demo_io ''u'' demo_halted)"]
  show ?thesis by (simp add: demo_halted_def demo_paper_def)
qed

text \<open>Past profit halts a new session at once: the peak a session starts from adds the profit to
  the total value, which contains it already, so a user with 100 USD of which 30 are profit starts at
  a peak of 130 and the first check sees a drawdown above 20 percent.\<close>

theorem past_profit_halts_new_session:
  assumes "find_portfolio u s = Some \<lparr>pf_userId = u, pf_totalValue = 100 * 10 ^ 8, pf_pnl = 30 * 10 ^ 8\<rparr>" "\<not> isRunning u s"
    and "fetchBookTicker (io_ticker io 0) (remove_first (CHR ''/'') pair) = None" "pair \<noteq> []"
    and "start io u st pair sz None s = (r, s')"
  shows "\<exists>b. get_bot u s' = Some b \<and> bi_sessionPeakEquity b = Fin 130 \<and>
     bi_drawdownHalted (equity_check b (read_column (100 * 10 ^ 8)))"
proof -
  have c: "read_column (100 * 10 ^ 8) = Fin 100" "read_column (30 * 10 ^ 8) = Fin 30" "Fin 100 + Fin 30 = Fin 130"
    "checkDrawdownExceeded (Fin 100) (Fin 130)" "math_max (Fin 130) (Fin 100) = Fin 130" by code_simp+
  have p: "session_pairs pair None = [pair]" using assms(4) by (simp add: session_pairs_def)
  define b where "b = \<lparr>bi_userId = u, bi_strategyId = st, bi_pairs = [pair], bi_pair = pair,
     bi_symbol = remove_first (CHR ''/'') pair, bi_interval = True,
     bi_tradeSizePct = math_min (Fin 100) (math_max (Fin 10) (nullish sz (Fin 50))),
     bi_sessionPeakEquity = Fin 130, bi_drawdownHalted = False, bi_lastExecutionAt = None\<rparr>"
  have "bots s' = bots (set_bot b s)"
    using assms c(1,2,3) by (auto simp: start_def Let_def runStartupProbe_def p b_def set_bot_def)
  then have "get_bot u s' = Some b" by (simp add: get_bot_def b_def set_bot_def update_conv')
  then show ?thesis using c by (simp add: b_def equity_check_def Let_def)
qed

definition demo_profit :: paper_state where
  "demo_profit = demo_paper\<lparr>portfolios := [\<lparr>pf_userId = ''u'', pf_totalValue = 100 * 10 ^ 8, pf_pnl = 30 * 10 ^ 8\<rparr>]\<rparr>"

definition no_book_io :: bot_io where
  "no_book_io = demo_io\<lparr>io_ticker := \<lambda>_ _ _. None\<rparr>"

theorem past_profit_halts_new_session_witness:
  "\<exists>b. get_bot ''u'' (snd (start no_book_io ''u'' ''s'' ''BTC/USDT'' None None demo_profit)) = Some b \<and>
     bi_sessionPeakEquity b = Fin 130 \<and> bi_drawdownHalted (equity_check b (read_column (100 * 10 ^ 8)))"
proof (rule past_profit_halts_new_session)
  show "start no_book_io ''u'' ''s'' ''BTC/USDT'' None None demo_profit =
      (fst (start no_book_io ''u'' ''s'' ''BTC/USDT'' None None demo_profit),
       snd (start no_book_io ''u'' ''s'' ''BTC/USDT'' None None demo_profit))" by simp
  show "fetchBookTicker (io_ticker no_book_io 0) (remove_first CHR ''/'' ''BTC/USDT'') = None"
    by (simp add: no_book_io_def fetchBookTicker_def BINANCE_ENDPOINTS_def)
qed (simp_all add: demo_profit_def demo_paper_def find_portfolio_def isRunning_def get_bot_def)

subsection \<open>Overlapping ticks\<close>

text \<open>The check and the purchase are separate: two ticks that both decided to buy before either
  bought open two positions on the pair, because the execution reads nothing again.\<close>

theorem overlapping_ticks_open_twice:
  assumes "tick_execute io u st (PlanBuy pair ask alloc cf) s = (Inr (), s1)"
    and "tick_execute io' u st' (PlanBuy pair ask' alloc' cf') s1 = (Inr (), s2)"
  shows "length (open_for_pair u pair s2) = length (open_for_pair u pair s) + 2"
proof -
  have one: "length (open_for_pair u pair y) = Suc (length (open_for_pair u pair x))"
    if x: "tick_execute j u k (PlanBuy pair a v cf) x = (Inr (), y)" for j k a v cf x y
  proof -
    obtain r z where o: "paperOpenPosition (io_env j) (io_decv j) (io_now j) u k pair a v x = (Inr r, z)" and "trades y = trades z"
      using x by (auto simp: tick_execute_def split: prod.splits sum.splits)
    with o show ?thesis by (cases rule: paperOpenPosition_cases) (auto simp: open_for_pair_def find_many_def)
  qed
  from one [OF assms(1)] one [OF assms(2)] show ?thesis by simp
qed

theorem overlapping_ticks_open_twice_witness:
  "length (open_for_pair ''u'' ''BTC/USDT''
     (snd (tick_execute demo_io ''u'' ''s'' (PlanBuy ''BTC/USDT'' (Fin 100) (Fin 50) (Fin 1))
       (snd (tick_execute demo_io ''u'' ''s'' (PlanBuy ''BTC/USDT'' (Fin 100) (Fin 50) (Fin 1)) demo_paper))))) = 2"
proof -
  define s1 where "s1 = snd (tick_execute demo_io ''u'' ''s'' (PlanBuy ''BTC/USDT'' (Fin 100) (Fin 50) (Fin 1)) demo_paper)"
  have "fst (tick_execute demo_io ''u'' ''s'' (PlanBuy ''BTC/USDT'' (Fin 100) (Fin 50) (Fin 1)) demo_paper) = Inr ()"
    "fst (tick_execute demo_io ''u'' ''s'' (PlanBuy ''BTC/USDT'' (Fin 100) (Fin 50) (Fin 1)) s1) = Inr ()"
    unfolding s1_def by code_simp+
  then have "tick_execute demo_io ''u'' ''s'' (PlanBuy ''BTC/USDT'' (Fin 100) (Fin 50) (Fin 1)) demo_paper = (Inr (), s1)"
    "tick_execute demo_io ''u'' ''s'' (PlanBuy ''BTC/USDT'' (Fin 100) (Fin 50) (Fin 1)) s1 =
       (Inr (), snd (tick_execute demo_io ''u'' ''s'' (PlanBuy ''BTC/USDT'' (Fin 100) (Fin 50) (Fin 1)) s1))"
    by (simp_all add: s1_def prod_eq_iff)
  from overlapping_ticks_open_twice [OF this] show ?thesis
    by (simp add: s1_def [symmetric]) (simp add: open_for_pair_def find_many_def demo_paper_def order_asc_def)
qed

subsection \<open>Stopping\<close>

lemma close_open_rows:
  assumes "rows_ok s" "paperClosePosition env decv u i bid s = (Inr r, s')" "x \<in> set (trades s')" "pt_status x = OPEN" "pt_userId x = u"
  shows "x \<in> set (trades s) \<and> pt_id x \<noteq> i"
  using assms(2)
proof (cases rule: paperClosePosition_cases)
  case missing
  then show ?thesis using assms(3-5) by auto
next
  case (closed t y c pnl p p' v')
  then have "trades s' = update_where (\<lambda>r. pt_id r = pt_id t) (closed_row y c) (trades s)" by simp
  with assms(3) have "x \<in> set (update_where (\<lambda>r. pt_id r = i) (closed_row y c) (trades s))" by (simp add: closed(2))
  then obtain x0 where "x0 \<in> set (trades s)" "x = (if pt_id x0 = i then closed_row y c x0 else x0)"
    unfolding in_update_where by blast
  then show ?thesis using assms(4) by (auto split: if_splits)
qed simp

lemma close_all_open_rows:
  assumes "close_all io u n ts s = (Inr (), s')" "rows_ok s" "x \<in> set (trades s')" "pt_status x = OPEN" "pt_userId x = u"
    and "\<And>t y. t \<in> set ts \<Longrightarrow> y \<in> set (trades s) \<Longrightarrow> pt_id y = pt_id t \<Longrightarrow> pt_pair y = pt_pair t"
  shows "x \<in> set (trades s) \<and> (pt_id x \<in> pt_id ` set ts \<longrightarrow>
     (\<exists>m. fetchBookTicker (io_ticker io m) (remove_first (CHR ''/'') (pt_pair x)) = None))"
  using assms
proof (induction ts arbitrary: n s)
  case (Cons t ts)
  show ?case
  proof (cases "fetchBookTicker (io_ticker io n) (remove_first (CHR ''/'') (pt_pair t))")
    case None
    then have c: "close_all io u (Suc n) ts s = (Inr (), s')" using Cons.prems(1) by simp
    have pr: "\<And>v y. v \<in> set ts \<Longrightarrow> y \<in> set (trades s) \<Longrightarrow> pt_id y = pt_id v \<Longrightarrow> pt_pair y = pt_pair v"
      by (rule Cons.prems(6)) simp_all
    have *: "x \<in> set (trades s) \<and> (pt_id x \<in> pt_id ` set ts \<longrightarrow>
        (\<exists>m. fetchBookTicker (io_ticker io m) (remove_first (CHR ''/'') (pt_pair x)) = None))"
      using Cons.IH [OF c Cons.prems(2-5)] pr by blast
    show ?thesis
    proof (cases "pt_id x = pt_id t")
      case True
      have "pt_pair x = pt_pair t" by (rule Cons.prems(6) [OF list.set_intros(1) conjunct1 [OF *] True])
      then have "\<exists>m. fetchBookTicker (io_ticker io m) (remove_first (CHR ''/'') (pt_pair x)) = None"
        using None by (intro exI [of _ n]) (simp only:)
      then show ?thesis using conjunct1 [OF *] by blast
    next
      case False
      then show ?thesis using * by (auto simp only: list.set image_insert insert_iff simp_thms)
    qed
  next
    case (Some book)
    obtain q s1 where q: "paperClosePosition (io_env io) (io_decv io) u (pt_id t) (bk_bid book) s = (q, s1)" by fastforce
    then obtain r where r: "paperClosePosition (io_env io) (io_decv io) u (pt_id t) (bk_bid book) s = (Inr r, s1)"
      and c: "close_all io u (Suc n) ts s1 = (Inr (), s')" using Cons.prems(1) Some by (auto split: sum.splits)
    have o1: "rows_ok s1" using close_keeps_rows [OF Cons.prems(2) r] by simp
    have pairs: "pt_pair y = pt_pair v" if vy: "v \<in> set ts" "y \<in> set (trades s1)" "pt_id y = pt_id v" for v y
      using r
    proof (cases rule: paperClosePosition_cases)
      case (closed t' z c pnl p p' v')
      then have "y \<in> set (update_where (\<lambda>r. pt_id r = pt_id t') (closed_row z c) (trades s))" using vy(2) by simp
      then obtain y0 where "y0 \<in> set (trades s)" "y = (if pt_id y0 = pt_id t' then closed_row z c y0 else y0)"
        unfolding in_update_where by blast
      then show ?thesis using Cons.prems(6) [of v y0] vy by (auto split: if_splits)
    next
      case missing
      then show ?thesis using vy by (intro Cons.prems(6)) simp_all
    qed simp
    have *: "x \<in> set (trades s1) \<and> (pt_id x \<in> pt_id ` set ts \<longrightarrow>
        (\<exists>m. fetchBookTicker (io_ticker io m) (remove_first (CHR ''/'') (pt_pair x)) = None))"
      using Cons.IH [OF c o1 Cons.prems(3-5)] pairs by blast
    then have "x \<in> set (trades s) \<and> pt_id x \<noteq> pt_id t" using close_open_rows [OF Cons.prems(2) r] Cons.prems(4,5) by blast
    then show ?thesis using * by (auto simp only: list.set image_insert insert_iff simp_thms)
  qed
qed simp

text \<open>A session that stops is gone with its last signal, and a position of its user is still open
  only if the market gave no order book for its pair.\<close>

theorem stop_closes_positions:
  assumes "stop io u s = (Inr r, s')" "rows_ok s"
  shows "\<not> isRunning u s' \<and> getLastEngineSignal u s' = None \<and>
     (\<forall>x \<in> set (trades s'). pt_userId x = u \<and> pt_status x = OPEN \<longrightarrow>
        (\<exists>m. fetchBookTicker (io_ticker io m) (remove_first (CHR ''/'') (pt_pair x)) = None))"
proof -
  define s1 where "s1 = put_bot ((the (get_bot u s))\<lparr>bi_interval := False\<rparr>) s"
  define ts where "ts = find_many (\<lambda>t. pt_userId t = u \<and> pt_status t = OPEN) (order_asc pt_createdAt) (trades s1)"
  from assms(1) obtain s2 m where c: "close_all io u 0 ts s1 = (Inr (), s2)" and
    s': "s' = appendTradingLog u m (s2\<lparr>bots := AList.delete u (bots s2), lastSignalByUser := (lastSignalByUser s2)(u := None)\<rparr>)"
    by (auto simp: stop_def Let_def s1_def ts_def split: option.splits prod.splits sum.splits)
  have ok: "rows_ok s1" using assms(2) by (simp add: rows_ok_def s1_def)
  have ts: "set ts = {t \<in> set (trades s1). pt_userId t = u \<and> pt_status t = OPEN}" by (auto simp: ts_def find_many_def)
  have pairs: "pt_pair y = pt_pair t" if "t \<in> set ts" "y \<in> set (trades s1)" "pt_id y = pt_id t" for t y
    using ok that ts by (auto simp: rows_ok_def distinct_map dest!: inj_onD)
  have "\<exists>m. fetchBookTicker (io_ticker io m) (remove_first (CHR ''/'') (pt_pair x)) = None"
    if x: "x \<in> set (trades s')" "pt_userId x = u" "pt_status x = OPEN" for x
  proof -
    have "x \<in> set (trades s1) \<and> (pt_id x \<in> pt_id ` set ts \<longrightarrow>
        (\<exists>m. fetchBookTicker (io_ticker io m) (remove_first (CHR ''/'') (pt_pair x)) = None))"
      by (rule close_all_open_rows [OF c ok _ x(3) x(2) pairs]) (use x(1) s' in simp_all)
    then show ?thesis using ts x(2,3) by auto
  qed
  then show ?thesis by (simp add: s' isRunning_def get_bot_def delete_conv' getLastEngineSignal_def)
qed

definition demo_holding :: paper_state where
  "demo_holding = demo_halted\<lparr>trades := [opened 7 0 ''u'' ''s'' ''BTC/USDT'' (90 * 10 ^ 8) (50 * 10 ^ 8)]\<rparr>"

theorem stop_closes_positions_witness:
  "length (open_for_pair ''u'' ''BTC/USDT'' demo_holding) = 1 \<and>
   \<not> isRunning ''u'' (snd (stop demo_io ''u'' demo_holding)) \<and>
   open_for_pair ''u'' ''BTC/USDT'' (snd (stop demo_io ''u'' demo_holding)) = []"
proof -
  define s' where "s' = snd (stop demo_io ''u'' demo_holding)"
  have "case fst (stop demo_io ''u'' demo_holding) of Inr _ \<Rightarrow> True | Inl _ \<Rightarrow> False" by code_simp
  then obtain r where r: "stop demo_io ''u'' demo_holding = (Inr r, s')"
    by (cases "fst (stop demo_io ''u'' demo_holding)") (auto simp: s'_def prod_eq_iff)
  have ok: "rows_ok demo_holding" by (simp add: rows_ok_def demo_holding_def demo_halted_def demo_paper_def)
  have book: "fetchBookTicker (io_ticker demo_io m) sy \<noteq> None" for m sy
  proof -
    have "parse_float ''99'' = Fin 99" "parse_float ''100'' = Fin 100" by code_simp+
    then show ?thesis by (simp add: fetchBookTicker_def demo_io_def BINANCE_ENDPOINTS_def Let_def)
  qed
  note p = stop_closes_positions [OF r ok]
  have "(''u'', ''BTC/USDT'') \<notin> set (open_keys (trades s'))" using p book by (auto simp: open_keys_def)
  then have "open_for_pair ''u'' ''BTC/USDT'' s' = []" by (simp add: open_for_pair_empty)
  moreover have "length (open_for_pair ''u'' ''BTC/USDT'' demo_holding) = 1"
    by (simp add: open_for_pair_def find_many_def demo_holding_def)
  ultimately show ?thesis using p by (simp add: s'_def)
qed

end
