(* ===== verification/PersonalWallet.thy ===== *)
theory PersonalWallet
  imports RoundTripPnl RiskRules
begin

text \<open>
  Swaps of a user's personal wallet on BNB Smart Chain and the trade book they write,
  \<open>src/src/services/wallet/personalWalletService.ts\<close>: balances, sale sizing, the choice of the route,
  the swap itself and the rows it opens and closes. The wallet's side of the chain is explicit state;
  the contracts (router, WBNB, tokens) and the unit conversions of ethers are parameters. A row of the
  trade table holds what \<open>Number(column)\<close> reads; \<open>col\<close> is what a write stores. Log lines and the price
  lookup that only feeds them are left out.
\<close>

section \<open>Tokens and balances\<close>

record BscTokenSpec =
  tk_symbol :: string
  tk_address :: "string option"
  tk_decimals :: nat
  tk_binanceSymbol :: "string option"

definition PERSONAL_WALLET_TOKENS :: "BscTokenSpec list" where
  "PERSONAL_WALLET_TOKENS =
     map (\<lambda>(s, a, d, b). \<lparr>tk_symbol = s, tk_address = a, tk_decimals = d, tk_binanceSymbol = b\<rparr>)
      [(''BNB'', None, 18, Some ''BNBUSDT''),
       (''USDT'', Some ''0x55d398326f99059ff775485246999027b3197955'', 18, None),
       (''USDC'', Some ''0x8ac76a51cc950d9822d68b83fe1ad97b32cd580d'', 18, Some ''USDCUSDT''),
       (''BTCB'', Some ''0x7130d2a12b9bcbfae4f2634d864a1ee1ce3ead9c'', 18, Some ''BTCUSDT''),
       (''ETH'', Some ''0x2170ed0880ac9a755fd29b2688956bd959f933f8'', 18, Some ''ETHUSDT''),
       (''XRP'', Some ''0x1d2f0da169ceb9fc7b3144628db156f3f6c60dbe'', 18, Some ''XRPUSDT''),
       (''DOGE'', Some ''0xba2ae424d960c26247dd6c32edc70b295c744c43'', 8, Some ''DOGEUSDT''),
       (''SOL'', Some ''0x570a5d26f7765ecb712c0924e4de545b89fd43df'', 18, Some ''SOLUSDT''),
       (''LINK'', Some ''0xf8a0bf9cf54bb92f17374d9e9a321e6a111a51bd'', 18, Some ''LINKUSDT''),
       (''ADA'', Some ''0x3ee2200efb3400fabb9aacf31297cbdd1d435d47'', 18, Some ''ADAUSDT''),
       (''DOT'', Some ''0x7083609fce4d1d8dc0c979aab8c869ea2c873402'', 18, Some ''DOTUSDT''),
       (''AVAX'', Some ''0x1ce0c2827e2ef14d5c4f29a091d735a204794041'', 18, Some ''AVAXUSDT''),
       (''MATIC'', Some ''0xcc42724c6683b7e57334c4e856f4c9965ed682bd'', 18, Some ''MATICUSDT''),
       (''NEAR'', Some ''0x1fa4a73a3f0133f0025378af00236f3abdee5d63'', 18, Some ''NEARUSDT''),
       (''LTC'', Some ''0x4338665cbb7b2485a8855a139b75d5e34ab0db94'', 18, Some ''LTCUSDT'')]"

definition WBNB_ADDR :: string where "WBNB_ADDR = ''0xbb4CdB9CBd36B01bD1cBaEBF2De08d9173bc095c''"
definition USDT_ADDR :: string where "USDT_ADDR = ''0x55d398326f99059fF775485246999027B3197955''"
definition BNB_GAS_RESERVE_WEI :: int where "BNB_GAS_RESERVE_WEI = 250000000000000"

definition find_token :: "string \<Rightarrow> BscTokenSpec option" where
  "find_token sy = find (\<lambda>t. tk_symbol t = sy) PERSONAL_WALLET_TOKENS"

text \<open>What the chain knows of the wallet: its native balance, and its balance and router allowance
  of each token, by contract address (addresses do not distinguish case).\<close>

record chain =
  ch_native :: int
  ch_bal :: "string \<Rightarrow> int"
  ch_allow :: "string \<Rightarrow> int"

definition token_bal :: "chain \<Rightarrow> string \<Rightarrow> int" where
  "token_bal ch a = ch_bal ch (to_lower a)"

definition wrapable :: "chain \<Rightarrow> int" where
  "wrapable ch = (if BNB_GAS_RESERVE_WEI < ch_native ch then ch_native ch - BNB_GAS_RESERVE_WEI else 0)"

definition readBnbBalancesRaw :: "chain \<Rightarrow> int \<times> int \<times> int" where
  "readBnbBalancesRaw ch = (ch_native ch, token_bal ch WBNB_ADDR, token_bal ch WBNB_ADDR + wrapable ch)"

text \<open>The balance reads: the wallet row may be missing, and the node may not answer (no chain).\<close>

definition readPersonalWalletTokenBalanceRaw :: "bool \<Rightarrow> chain option \<Rightarrow> BscTokenSpec \<Rightarrow> int option" where
  "readPersonalWalletTokenBalanceRaw hasWallet rpc token =
     (if \<not> hasWallet then Some 0
      else case rpc of
        None \<Rightarrow> None
      | Some ch \<Rightarrow>
          if tk_symbol token = ''BNB'' then Some (snd (snd (readBnbBalancesRaw ch)))
          else (case tk_address token of None \<Rightarrow> Some (ch_native ch) | Some a \<Rightarrow> Some (token_bal ch a)))"

definition sellAmountRawFromBalance :: "int \<Rightarrow> int" where
  "sellAmountRawFromBalance balanceRaw =
     (if balanceRaw \<le> 0 then 0 else if balanceRaw \<le> 1 then balanceRaw else balanceRaw * (10000 - 15) div 10000)"

definition ledgerCounterAddress :: "BscTokenSpec \<Rightarrow> string option" where
  "ledgerCounterAddress token =
     (case tk_address token of Some a \<Rightarrow> Some a | None \<Rightarrow> if tk_symbol token = ''BNB'' then Some WBNB_ADDR else None)"

definition getPersonalWalletTokenBalanceRaw :: "bool \<Rightarrow> chain option \<Rightarrow> string \<Rightarrow> int" where
  "getPersonalWalletTokenBalanceRaw hasWallet rpc tokenSymbol =
     (case find_token (to_upper tokenSymbol) of
        None \<Rightarrow> 0
      | Some token \<Rightarrow> nullish (readPersonalWalletTokenBalanceRaw hasWallet rpc token) 0)"

type_synonym format_units = "int \<Rightarrow> nat \<Rightarrow> string"
type_synonym parse_units = "string \<Rightarrow> nat \<Rightarrow> int option"

definition getPersonalWalletTokenBalance :: "format_units \<Rightarrow> bool \<Rightarrow> chain option \<Rightarrow> string \<Rightarrow> number" where
  "getPersonalWalletTokenBalance formatUnits hasWallet rpc tokenSymbol =
     (case find_token (to_upper tokenSymbol) of
        None \<Rightarrow> Fin 0
      | Some token \<Rightarrow>
          (case readPersonalWalletTokenBalanceRaw hasWallet rpc token of
             None \<Rightarrow> Fin 0
           | Some amountRaw \<Rightarrow>
               let amount = parse_float (formatUnits amountRaw (if tk_address token = None then 18 else tk_decimals token)) in
               if is_finite amount \<and> Fin 0 < amount then amount else Fin 0))"

section \<open>Routes and quotes\<close>

datatype swap_side = SwapBuy | SwapSell
datatype route_label = RDirect | RWbnb | RSingle

record QuotedPath =
  qp_path :: "string list"
  qp_expectedOut :: int
  qp_label :: route_label

definition candidateSwapPaths :: "BscTokenSpec \<Rightarrow> swap_side \<Rightarrow> string list list" where
  "candidateSwapPaths token side =
     (if tk_symbol token = ''BNB'' then [if side = SwapBuy then [USDT_ADDR, WBNB_ADDR] else [WBNB_ADDR, USDT_ADDR]]
      else let a = nullish (tk_address token) [] in
        if side = SwapBuy then [[USDT_ADDR, a], [USDT_ADDR, WBNB_ADDR, a]]
        else [[a, USDT_ADDR], [a, WBNB_ADDR, USDT_ADDR]])"

type_synonym amounts_out = "int \<Rightarrow> string list \<Rightarrow> int list option"

fun quote_paths :: "amounts_out \<Rightarrow> int \<Rightarrow> nat \<Rightarrow> string list list \<Rightarrow> QuotedPath list" where
  "quote_paths getAmountsOut amountIn idx [] = []"
| "quote_paths getAmountsOut amountIn idx (path # ps) =
     (case getAmountsOut amountIn path of
        None \<Rightarrow> quote_paths getAmountsOut amountIn (Suc idx) ps
      | Some outs \<Rightarrow>
          let expectedOut = (if outs = [] then 0 else last outs) in
          if expectedOut \<le> 0 then quote_paths getAmountsOut amountIn (Suc idx) ps
          else \<lparr>qp_path = path, qp_expectedOut = expectedOut,
                qp_label = (if length path = 2 then (if idx = 0 then RDirect else RSingle) else RWbnb)\<rparr>
               # quote_paths getAmountsOut amountIn (Suc idx) ps)"

definition quoteBestPath :: "amounts_out \<Rightarrow> int \<Rightarrow> string list list \<Rightarrow> QuotedPath option" where
  "quoteBestPath getAmountsOut amountIn candidates =
     (case order_desc qp_expectedOut (quote_paths getAmountsOut amountIn 0 candidates) of [] \<Rightarrow> None | q # _ \<Rightarrow> Some q)"

definition quoteTokenToUsdt :: "format_units \<Rightarrow> amounts_out \<Rightarrow> BscTokenSpec \<Rightarrow> int \<Rightarrow> (int \<times> number) option" where
  "quoteTokenToUsdt formatUnits getAmountsOut token amountInRaw =
     (if amountInRaw \<le> 0 then None
      else case quoteBestPath getAmountsOut amountInRaw (candidateSwapPaths token SwapSell) of
        None \<Rightarrow> None
      | Some best \<Rightarrow>
          let sold = number_of_string (formatUnits amountInRaw (tk_decimals token));
              usdt = number_of_string (formatUnits (qp_expectedOut best) 18) in
          if \<not> is_finite sold \<or> sold \<le> Fin 0 \<or> \<not> is_finite usdt \<or> usdt \<le> Fin 0 then None
          else Some (qp_expectedOut best, usdt / sold))"

section \<open>The swap\<close>

record dex_trade =
  dt_id :: nat
  dt_userId :: user_id
  dt_strategyId :: string
  dt_pair :: string
  dt_entryPrice :: number
  dt_exitPrice :: "number option"
  dt_pnl :: "number option"
  dt_allocationUsd :: "number option"
  dt_status :: trade_status
  dt_createdAt :: time

record PersonalSwapRequest =
  sr_side :: swap_side
  sr_tokenSymbol :: string
  sr_amount :: number
  sr_slippageBps :: "number option"
  sr_closeTradeId :: "nat option"
  sr_sellAmountRaw :: "int option"

datatype swap_error =
    TokenRequired | AmountNotPositive | UnsupportedToken string | UsdtAgainstItself | BadSlippage | NoSigner
  | InsufficientAfterWrap | TxFailed | BadUnits | InsufficientUsdt | InsufficientToken | NoRoute
  | NoOpenPosition | NoBalance | NothingAfterRounding

text \<open>The contracts: quotes, the swap (transaction hash and the chain after it, none when it reverts),
  the WBNB deposit and the approval; and the unit conversions.\<close>

record contracts =
  ct_getAmountsOut :: "chain \<Rightarrow> amounts_out"
  ct_swap :: "int \<Rightarrow> int \<Rightarrow> string list \<Rightarrow> chain \<Rightarrow> (string \<times> chain) option"
  ct_deposit :: "int \<Rightarrow> chain \<Rightarrow> chain option"
  ct_approve :: "string \<Rightarrow> int \<Rightarrow> chain \<Rightarrow> chain option"
  ct_parseUnits :: parse_units
  ct_formatUnits :: format_units

record wallet_state =
  ws_chain :: chain
  ws_trades :: "dex_trade list"
  ws_swaps :: "(int \<times> int \<times> string list) list"  \<comment> \<open>the swaps sent: amount in, least amount out, path\<close>

type_synonym 'a wallet_result = "(swap_error + 'a) \<times> wallet_state"

text \<open>The result names the swap and its amounts as texts; its trade part is kept as the row of the book it
  is made from.\<close>

record PersonalSwapResult =
  ps_txHash :: string
  ps_side :: swap_side
  ps_tokenSymbol :: string
  ps_amountIn :: string
  ps_expectedOut :: string
  ps_minOut :: string
  ps_trade :: dex_trade

definition ensureWbnbForSell :: "contracts \<Rightarrow> int \<Rightarrow> wallet_state \<Rightarrow> unit wallet_result" where
  "ensureWbnbForSell ct minWbnbNeeded s =
     (let ch = ws_chain s in
      if minWbnbNeeded \<le> token_bal ch WBNB_ADDR then (Inr (), s)
      else if wrapable ch \<le> 0 then (Inr (), s)
      else case ct_deposit ct (wrapable ch) ch of
        None \<Rightarrow> (Inl TxFailed, s)
      | Some ch' \<Rightarrow>
          (if token_bal ch' WBNB_ADDR < minWbnbNeeded then Inl InsufficientAfterWrap else Inr (), s\<lparr>ws_chain := ch'\<rparr>))"

definition slippage_bps :: "number option \<Rightarrow> int option" where
  "slippage_bps raw =
     (case math_min (Fin 2000) (math_max (Fin 10) (math_floor (nullish raw (Fin 100)))) of
        Fin a \<Rightarrow> Some \<lfloor>a\<rfloor> | _ \<Rightarrow> None)"

definition swap_request_checks :: "PersonalSwapRequest \<Rightarrow> swap_error + (BscTokenSpec \<times> int)" where
  "swap_request_checks req =
     (if sr_tokenSymbol req = [] then Inl TokenRequired
      else if \<not> is_finite (sr_amount req) \<or> sr_amount req \<le> Fin 0 then Inl AmountNotPositive
      else case find_token (to_upper (sr_tokenSymbol req)) of
        None \<Rightarrow> Inl (UnsupportedToken (sr_tokenSymbol req))
      | Some token \<Rightarrow>
          if tk_symbol token = ''USDT'' then Inl UsdtAgainstItself
          else (case slippage_bps (sr_slippageBps req) of None \<Rightarrow> Inl BadSlippage | Some b \<Rightarrow> Inr (token, b)))"

definition exact_raw :: "PersonalSwapRequest \<Rightarrow> int option" where
  "exact_raw req = (case sr_sellAmountRaw req of Some r \<Rightarrow> if 0 < r then Some r else None | None \<Rightarrow> None)"

definition in_decimals :: "PersonalSwapRequest \<Rightarrow> BscTokenSpec \<Rightarrow> nat" where
  "in_decimals req token = (if sr_side req = SwapBuy then 18 else tk_decimals token)"

definition out_decimals :: "PersonalSwapRequest \<Rightarrow> BscTokenSpec \<Rightarrow> nat" where
  "out_decimals req token = (if sr_side req = SwapBuy then tk_decimals token else 18)"

definition in_token :: "PersonalSwapRequest \<Rightarrow> BscTokenSpec \<Rightarrow> string" where
  "in_token req token = (if sr_side req = SwapBuy then USDT_ADDR else nullish (tk_address token) WBNB_ADDR)"

definition wrap_for_sale :: "contracts \<Rightarrow> PersonalSwapRequest \<Rightarrow> BscTokenSpec \<Rightarrow> wallet_state \<Rightarrow> unit wallet_result" where
  "wrap_for_sale ct req token s =
     (if sr_side req = SwapSell \<and> tk_symbol token = ''BNB'' then
        ensureWbnbForSell ct
          (case exact_raw req of Some r \<Rightarrow> r
           | None \<Rightarrow> sellAmountRawFromBalance (snd (snd (readBnbBalancesRaw (ws_chain s))))) s
      else (Inr (), s))"

definition swap_amount :: "contracts \<Rightarrow> PersonalSwapRequest \<Rightarrow> BscTokenSpec \<Rightarrow> int \<Rightarrow> swap_error + int" where
  "swap_amount ct req token balance =
     (let d = in_decimals req token in
      if sr_side req = SwapSell then
        (case exact_raw req of
           Some r \<Rightarrow> Inr (if balance < r then sellAmountRawFromBalance balance else r)
         | None \<Rightarrow>
             case ct_parseUnits ct (to_fixed (sr_amount req) (min 12 d)) d of
               None \<Rightarrow> Inl BadUnits
             | Some p \<Rightarrow> let desired = (if balance < p then balance else p) in
                 Inr (sellAmountRawFromBalance (if 0 < desired then desired else balance)))
      else (case ct_parseUnits ct (number_to_string (sr_amount req)) d of None \<Rightarrow> Inl BadUnits | Some p \<Rightarrow> Inr p))"

definition amount_checks :: "PersonalSwapRequest \<Rightarrow> int \<Rightarrow> int \<Rightarrow> swap_error option" where
  "amount_checks req balance amountIn =
     (if sr_side req = SwapBuy \<and> balance < amountIn then Some InsufficientUsdt
      else if sr_side req = SwapSell \<and> (amountIn \<le> 0 \<or> balance < amountIn) then Some InsufficientToken
      else None)"

definition ensure_allowance :: "contracts \<Rightarrow> string \<Rightarrow> int \<Rightarrow> wallet_state \<Rightarrow> unit wallet_result" where
  "ensure_allowance ct tok amountIn s =
     (if ch_allow (ws_chain s) (to_lower tok) < amountIn
      then (case ct_approve ct tok (2 ^ 256 - 1) (ws_chain s) of None \<Rightarrow> (Inl TxFailed, s) | Some ch \<Rightarrow> (Inr (), s\<lparr>ws_chain := ch\<rparr>))
      else (Inr (), s))"

definition min_out :: "int \<Rightarrow> int \<Rightarrow> int" where
  "min_out expected slippageBps = expected * (10000 - slippageBps) div 10000"

text \<open>The fill: notional and price from the balance changes, the quote as the fallback.\<close>

definition EPSILON :: number where "EPSILON = Fin (1 / 2 ^ 52)"

definition units_number :: "contracts \<Rightarrow> int \<Rightarrow> nat \<Rightarrow> number" where
  "units_number ct raw d = number_of_string (ct_formatUnits ct raw d)"

definition swap_fill ::
  "contracts \<Rightarrow> PersonalSwapRequest \<Rightarrow> BscTokenSpec \<Rightarrow> int \<Rightarrow> int \<Rightarrow> chain \<Rightarrow> chain \<Rightarrow> number \<times> number" where
  "swap_fill ct req token amountIn expected before after =
     (let buy = (sr_side req = SwapBuy);
          quotedOutNum = units_number ct expected (out_decimals req token);
          amountInNum = units_number ct amountIn (in_decimals req token);
          simEntryPrice = (if buy then amountInNum / math_max quotedOutNum EPSILON else quotedOutNum / math_max amountInNum EPSILON);
          (allocationUsd, entryPriceEff) =
            (case ledgerCounterAddress token of
               None \<Rightarrow> (math_max (Fin 0) (if buy then amountInNum else quotedOutNum), simEntryPrice)
             | Some c \<Rightarrow>
                 let usdtDelta = (if buy then token_bal before USDT_ADDR - token_bal after USDT_ADDR
                                  else token_bal after USDT_ADDR - token_bal before USDT_ADDR);
                     tokDelta = (if buy then token_bal after c - token_bal before c else token_bal before c - token_bal after c);
                     usdt = units_number ct usdtDelta 18; tok = units_number ct tokDelta (tk_decimals token) in
                 (math_max (Fin 0) usdt, if lit (1 / 10 ^ 18) < tok then usdt / tok else Fin 0)) in
      (if is_finite allocationUsd then round8 allocationUsd else Fin 0,
       if is_finite entryPriceEff \<and> Fin 0 < entryPriceEff then entryPriceEff
       else if is_finite simEntryPrice then simEntryPrice else Fin 0))"

section \<open>The trade book\<close>

definition fresh_id :: "dex_trade list \<Rightarrow> nat" where
  "fresh_id ts = Suc (Max (insert 0 (set (map dt_id ts))))"

definition new_row :: "(number \<Rightarrow> number) \<Rightarrow> time \<Rightarrow> user_id \<Rightarrow> string \<Rightarrow> string \<Rightarrow> number \<Rightarrow> number \<Rightarrow> trade_status
    \<Rightarrow> dex_trade list \<Rightarrow> dex_trade" where
  "new_row col now u st pair price alloc status ts =
     \<lparr>dt_id = fresh_id ts, dt_userId = u, dt_strategyId = st, dt_pair = pair, dt_entryPrice = col price, dt_exitPrice = None,
      dt_pnl = None, dt_allocationUsd = (if Fin 0 < alloc then Some (col alloc) else None), dt_status = status, dt_createdAt = now\<rparr>"

definition matches_open :: "user_id \<Rightarrow> string \<Rightarrow> string \<Rightarrow> dex_trade \<Rightarrow> bool" where
  "matches_open u st pair t \<longleftrightarrow> dt_userId t = u \<and> dt_strategyId t = st \<and> dt_pair t = pair \<and> dt_status t = OPEN"

definition open_position :: "PersonalSwapRequest \<Rightarrow> user_id \<Rightarrow> string \<Rightarrow> string \<Rightarrow> dex_trade list \<Rightarrow> dex_trade option" where
  "open_position req u st pair ts =
     (case sr_closeTradeId req of
        Some i \<Rightarrow> find_first (\<lambda>t. dt_id t = i \<and> matches_open u st pair t) id ts
      | None \<Rightarrow> find_first (matches_open u st pair) (order_asc dt_createdAt) ts)"

definition closed_lot :: "(number \<Rightarrow> number) \<Rightarrow> number \<Rightarrow> dex_trade \<Rightarrow> dex_trade" where
  "closed_lot col exitPrice t =
     t\<lparr>dt_exitPrice := Some (col exitPrice),
       dt_pnl := Some (col (roundTripRealizedPnl (nullish (dt_allocationUsd t) (Fin 0)) (dt_entryPrice t) exitPrice)),
       dt_status := CLOSED\<rparr>"

definition record_swap ::
  "(number \<Rightarrow> number) \<Rightarrow> time \<Rightarrow> user_id \<Rightarrow> string \<Rightarrow> PersonalSwapRequest \<Rightarrow> string \<Rightarrow> number \<times> number \<Rightarrow> dex_trade list
    \<Rightarrow> dex_trade \<times> dex_trade list" where
  "record_swap col now u st req pair fill ts =
     (case fill of (alloc, price) \<Rightarrow>
        if sr_side req = SwapBuy then (let r = new_row col now u st pair price alloc OPEN ts in (r, ts @ [r]))
        else case open_position req u st pair ts of
          Some t \<Rightarrow> (closed_lot col price t, update_where (\<lambda>r. dt_id r = dt_id t) (closed_lot col price) ts)
        | None \<Rightarrow> (let r = new_row col now u st pair price alloc CLOSED ts in (r, ts @ [r])))"

definition send_swap ::
  "contracts \<Rightarrow> (number \<Rightarrow> number) \<Rightarrow> time \<Rightarrow> user_id \<Rightarrow> string \<Rightarrow> PersonalSwapRequest \<Rightarrow> BscTokenSpec \<Rightarrow> int \<Rightarrow> int
    \<Rightarrow> wallet_state \<Rightarrow> PersonalSwapResult wallet_result" where
  "send_swap ct col now u st req token slippageBps amountIn s =
     (case quoteBestPath (ct_getAmountsOut ct (ws_chain s)) amountIn (candidateSwapPaths token (sr_side req)) of
        None \<Rightarrow> (Inl NoRoute, s)
      | Some best \<Rightarrow>
          let minOut = min_out (qp_expectedOut best) slippageBps;
              s1 = s\<lparr>ws_swaps := ws_swaps s @ [(amountIn, minOut, qp_path best)]\<rparr> in
          case ct_swap ct amountIn minOut (qp_path best) (ws_chain s) of
            None \<Rightarrow> (Inl TxFailed, s1)
          | Some (hash, ch') \<Rightarrow>
              let fill = swap_fill ct req token amountIn (qp_expectedOut best) (ws_chain s) ch';
                  (row, ts) = record_swap col now u st req (tk_symbol token @ ''/USDT'') fill (ws_trades s) in
              (Inr \<lparr>ps_txHash = hash, ps_side = sr_side req, ps_tokenSymbol = tk_symbol token,
                    ps_amountIn = ct_formatUnits ct amountIn (in_decimals req token),
                    ps_expectedOut = ct_formatUnits ct (qp_expectedOut best) (out_decimals req token),
                    ps_minOut = ct_formatUnits ct minOut (out_decimals req token), ps_trade = row\<rparr>,
               s1\<lparr>ws_chain := ch', ws_trades := ts\<rparr>))"

definition executePersonalSwap ::
  "contracts \<Rightarrow> (number \<Rightarrow> number) \<Rightarrow> time \<Rightarrow> bool \<Rightarrow> user_id \<Rightarrow> string \<Rightarrow> PersonalSwapRequest \<Rightarrow> wallet_state
    \<Rightarrow> PersonalSwapResult wallet_result" where
  "executePersonalSwap ct col now hasSigner u st req s =
     (case swap_request_checks req of
        Inl e \<Rightarrow> (Inl e, s)
      | Inr (token, slippageBps) \<Rightarrow>
          if \<not> hasSigner then (Inl NoSigner, s)
          else case wrap_for_sale ct req token s of
            (Inl e, s1) \<Rightarrow> (Inl e, s1)
          | (Inr _, s1) \<Rightarrow>
              let balance = token_bal (ws_chain s1) (in_token req token) in
              (case swap_amount ct req token balance of
                 Inl e \<Rightarrow> (Inl e, s1)
               | Inr amountIn \<Rightarrow>
                   case amount_checks req balance amountIn of
                     Some e \<Rightarrow> (Inl e, s1)
                   | None \<Rightarrow>
                       case ensure_allowance ct (in_token req token) amountIn s1 of
                         (Inl e, s2) \<Rightarrow> (Inl e, s2)
                       | (Inr _, s2) \<Rightarrow> send_swap ct col now u st req token slippageBps amountIn s2))"

section \<open>Selling a whole position\<close>

text \<open>A sale is capped at 102 percent of the booked lot.\<close>

definition cap_to_lot :: "contracts \<Rightarrow> nat \<Rightarrow> number \<Rightarrow> number \<Rightarrow> int \<Rightarrow> int option" where
  "cap_to_lot ct d eps lotQty sellRaw =
     (if eps < lotQty then
        (case ct_parseUnits ct (to_fixed lotQty (min 12 d)) d of
           None \<Rightarrow> None
         | Some lotRaw \<Rightarrow> let lotCap = lotRaw * 102 div 100 in
             Some (if lotCap < sellRaw then sellAmountRawFromBalance lotCap else sellRaw))
      else Some sellRaw)"

definition lot_of :: "dex_trade \<Rightarrow> number option" where
  "lot_of t = (let entry = dt_entryPrice t; alloc = nullish (dt_allocationUsd t) (Fin 0) in
     if Fin 0 < entry \<and> Fin 0 < alloc then Some (alloc / entry) else None)"

definition book_qty :: "dex_trade list \<Rightarrow> number" where
  "book_qty ts = foldl (\<lambda>sum t. case lot_of t of Some q \<Rightarrow> sum + q | None \<Rightarrow> sum) (Fin 0) ts"

definition cancel_rows :: "nat list \<Rightarrow> dex_trade list \<Rightarrow> dex_trade list" where
  "cancel_rows is ts = foldl (\<lambda>rows i. update_where (\<lambda>r. dt_id r = i) (\<lambda>r. r\<lparr>dt_status := CANCELLED\<rparr>) rows) ts is"

definition sell_position ::
  "contracts \<Rightarrow> (number \<Rightarrow> number) \<Rightarrow> time \<Rightarrow> user_id \<Rightarrow> string \<Rightarrow> BscTokenSpec \<Rightarrow> dex_trade list \<Rightarrow> wallet_state
    \<Rightarrow> PersonalSwapResult wallet_result" where
  "sell_position ct col now u st token openTrades s =
     (let ch = ws_chain s;
          balanceRaw = (if tk_symbol token = ''BNB'' then token_bal ch WBNB_ADDR else token_bal ch (nullish (tk_address token) []));
          d = (if tk_address token = None then 18 else tk_decimals token) in
      if balanceRaw \<le> 0 then (Inl NoBalance, s)
      else case cap_to_lot ct d (lit (1 / 10 ^ 12)) (book_qty openTrades) (sellAmountRawFromBalance balanceRaw) of
        None \<Rightarrow> (Inl BadUnits, s)
      | Some sellRaw \<Rightarrow>
          let sellQty = units_number ct sellRaw d in
          if \<not> is_finite sellQty \<or> sellQty \<le> Fin 0 then (Inl NothingAfterRounding, s)
          else case executePersonalSwap ct col now True u st
                      \<lparr>sr_side = SwapSell, sr_tokenSymbol = tk_symbol token, sr_amount = sellQty, sr_slippageBps = Some (Fin 100),
                       sr_closeTradeId = Some (dt_id (hd openTrades)), sr_sellAmountRaw = Some sellRaw\<rparr> s of
            (Inl e, s') \<Rightarrow> (Inl e, s')
          | (Inr r, s') \<Rightarrow> (Inr r, s'\<lparr>ws_trades := cancel_rows (map dt_id (tl openTrades)) (ws_trades s')\<rparr>))"

definition sellAggregatedOpenPosition ::
  "contracts \<Rightarrow> (number \<Rightarrow> number) \<Rightarrow> time \<Rightarrow> bool \<Rightarrow> user_id \<Rightarrow> string \<Rightarrow> string \<Rightarrow> wallet_state
    \<Rightarrow> PersonalSwapResult wallet_result" where
  "sellAggregatedOpenPosition ct col now hasSigner u st sy0 s =
     (let sy = to_upper sy0 in
      case find_token sy of
        None \<Rightarrow> (Inl (UnsupportedToken sy), s)
      | Some token \<Rightarrow>
          if tk_address token = None \<and> sy \<noteq> ''BNB'' then (Inl (UnsupportedToken sy), s)
          else
            let openTrades = find_many (matches_open u st (sy @ ''/USDT'')) (order_asc dt_createdAt) (ws_trades s) in
            if openTrades = [] then (Inl NoOpenPosition, s)
            else if \<not> hasSigner then (Inl NoSigner, s)
            else if sy = ''BNB'' then
              (let sellable = snd (snd (readBnbBalancesRaw (ws_chain s))) in
               if sellable \<le> 0 then (Inl NoBalance, s)
               else case ensureWbnbForSell ct (sellAmountRawFromBalance sellable) s of
                 (Inl e, s1) \<Rightarrow> (Inl e, s1)
               | (Inr _, s1) \<Rightarrow> sell_position ct col now u st token openTrades s1)
            else sell_position ct col now u st token openTrades s)"

section \<open>Sale sizes and routes\<close>

lemma sell_amount_range:
  "0 \<le> b \<Longrightarrow> 0 \<le> sellAmountRawFromBalance b \<and> sellAmountRawFromBalance b \<le> b"
  "1 < b \<Longrightarrow> sellAmountRawFromBalance b * 10000 \<le> b * 9985"
  "sellAmountRawFromBalance b \<le> max 0 b" "0 \<le> sellAmountRawFromBalance b"
proof -
  have d: "b * 9985 div 10000 * 10000 \<le> b * 9985" using div_mult_mod_eq [of "b * 9985" 10000] pos_mod_sign [of 10000 "b * 9985"] by linarith
  then show "1 < b \<Longrightarrow> sellAmountRawFromBalance b * 10000 \<le> b * 9985" by (simp add: sellAmountRawFromBalance_def)
  have n: "0 \<le> b \<Longrightarrow> 0 \<le> b * 9985 div 10000" by (simp add: pos_imp_zdiv_nonneg_iff)
  show z: "0 \<le> sellAmountRawFromBalance b" using n by (auto simp: sellAmountRawFromBalance_def)
  show m: "sellAmountRawFromBalance b \<le> max 0 b" using d by (auto simp: sellAmountRawFromBalance_def)
  show "0 \<le> b \<Longrightarrow> 0 \<le> sellAmountRawFromBalance b \<and> sellAmountRawFromBalance b \<le> b" using z m by simp
qed

definition path_out :: "amounts_out \<Rightarrow> int \<Rightarrow> string list \<Rightarrow> int" where
  "path_out ga a p = (case ga a p of None \<Rightarrow> 0 | Some outs \<Rightarrow> if outs = [] then 0 else last outs)"

lemma quote_paths_Cons:
  "quote_paths ga a i (p # ps) =
     (if path_out ga a p \<le> 0 then quote_paths ga a (Suc i) ps
      else \<lparr>qp_path = p, qp_expectedOut = path_out ga a p,
            qp_label = (if length p = 2 then (if i = 0 then RDirect else RSingle) else RWbnb)\<rparr> # quote_paths ga a (Suc i) ps)"
  by (auto simp: path_out_def Let_def split: option.splits)

declare quote_paths.simps(2) [simp del]

lemma quote_paths_spec:
  "q \<in> set (quote_paths ga a i ps) \<Longrightarrow> qp_path q \<in> set ps \<and> qp_expectedOut q = path_out ga a (qp_path q) \<and> 0 < qp_expectedOut q"
proof (induction ps arbitrary: i)
  case (Cons p ps)
  then consider "q \<in> set (quote_paths ga a (Suc i) ps)" | "0 < path_out ga a p" "qp_path q = p" "qp_expectedOut q = path_out ga a p"
    by (auto simp: quote_paths_Cons split: if_splits)
  then show ?case using Cons.IH [of "Suc i"] by cases simp_all
qed simp

lemma quote_paths_complete:
  "p \<in> set ps \<Longrightarrow> 0 < path_out ga a p \<Longrightarrow> \<exists>q \<in> set (quote_paths ga a i ps). qp_path q = p"
proof (induction ps arbitrary: i)
  case (Cons x ps)
  then show ?case by (cases "p = x") (auto simp: quote_paths_Cons)
qed simp

lemma order_desc_hd: "order_desc k xs = y # ys \<Longrightarrow> y \<in> set xs \<and> (\<forall>x \<in> set xs. k x \<le> k y)"
proof -
  assume o: "order_desc k xs = y # ys"
  then have "set xs = set (y # ys)" using set_order(2) [of k xs] by simp
  moreover have "sorted (map (\<lambda>r. - k r) (y # ys))" using o sorted_sort_key [of "\<lambda>r. - k r" xs] by (simp add: order_desc_def)
  ultimately show ?thesis by auto
qed

lemma best_path_Some:
  assumes "quoteBestPath ga a ps = Some q"
  shows "qp_path q \<in> set ps \<and> qp_expectedOut q = path_out ga a (qp_path q) \<and> 0 < qp_expectedOut q \<and>
     (\<forall>p \<in> set ps. path_out ga a p \<le> qp_expectedOut q)"
proof -
  obtain ys where ys: "order_desc qp_expectedOut (quote_paths ga a 0 ps) = q # ys"
    using assms by (auto simp: quoteBestPath_def split: list.splits)
  note h = order_desc_hd [OF ys]
  have q: "qp_path q \<in> set ps \<and> qp_expectedOut q = path_out ga a (qp_path q) \<and> 0 < qp_expectedOut q" using h quote_paths_spec by blast
  have "path_out ga a p \<le> qp_expectedOut q" if "p \<in> set ps" for p
  proof (cases "0 < path_out ga a p")
    case True
    from quote_paths_complete [OF that True] obtain r where "r \<in> set (quote_paths ga a 0 ps)" "qp_path r = p" by blast
    then show ?thesis using h quote_paths_spec by fastforce
  qed (use q in simp)
  with q show ?thesis by blast
qed

lemma best_path_None:
  "quoteBestPath ga a ps = None \<longleftrightarrow> (\<forall>p \<in> set ps. path_out ga a p \<le> 0)"
proof -
  have "quoteBestPath ga a ps = None \<longleftrightarrow> order_desc qp_expectedOut (quote_paths ga a 0 ps) = []"
    by (simp add: quoteBestPath_def split: list.splits)
  also have "\<dots> \<longleftrightarrow> length (order_desc qp_expectedOut (quote_paths ga a 0 ps)) = 0" by (simp only: length_0_conv)
  also have "\<dots> \<longleftrightarrow> set (quote_paths ga a 0 ps) = {}" by simp
  also have "\<dots> \<longleftrightarrow> (\<forall>p \<in> set ps. path_out ga a p \<le> 0)"
  proof
    assume e: "set (quote_paths ga a 0 ps) = {}"
    show "\<forall>p \<in> set ps. path_out ga a p \<le> 0"
    proof
      fix p assume "p \<in> set ps"
      from quote_paths_complete [OF this, of ga a 0] e show "path_out ga a p \<le> 0" by (cases "0 < path_out ga a p") auto
    qed
  next
    assume n: "\<forall>p \<in> set ps. path_out ga a p \<le> 0"
    show "set (quote_paths ga a 0 ps) = {}"
    proof (rule equals0I)
      fix q assume "q \<in> set (quote_paths ga a 0 ps)"
      from quote_paths_spec [OF this] n show False by fastforce
    qed
  qed
  finally show ?thesis .
qed

text \<open>The route chosen is the best one: the search returns a route exactly when some candidate pays
  out, and then the output it promises is the largest output the router quotes for any candidate path.\<close>

theorem best_route_is_maximal:
  assumes "ps \<noteq> []"
  shows "map_option qp_expectedOut (quoteBestPath ga a ps) =
     (let m = Max (path_out ga a ` set ps) in if 0 < m then Some m else None)"
proof (cases "quoteBestPath ga a ps")
  case None
  then have "Max (path_out ga a ` set ps) \<le> 0" using assms best_path_None by (subst Max_le_iff) auto
  then show ?thesis using None by (simp add: Let_def)
next
  case (Some q)
  note q = best_path_Some [OF Some]
  have "Max (path_out ga a ` set ps) = qp_expectedOut q" using q assms by (intro Max_eqI) auto
  then show ?thesis using Some q by (simp add: Let_def)
qed

definition demo_quotes :: amounts_out where
  "demo_quotes a p = (if length p = 2 then Some [a, a * 2] else Some [a, 5, a * 3])"

theorem best_route_is_maximal_witness:
  "map_option qp_expectedOut (quoteBestPath demo_quotes 100 [[''a'', ''b''], [''a'', ''w'', ''b'']]) = Some 300"
  using best_route_is_maximal [of "[[''a'', ''b''], [''a'', ''w'', ''b'']]" demo_quotes 100]
  by (simp add: path_out_def demo_quotes_def Let_def)

section \<open>What a swap does\<close>

lemma slippage_bps_range: "slippage_bps raw = Some b \<Longrightarrow> 10 \<le> b \<and> b \<le> 2000"
proof -
  assume b: "slippage_bps raw = Some b"
  then obtain a where a: "math_min (Fin 2000) (math_max (Fin 10) (math_floor (nullish raw (Fin 100)))) = Fin a" "b = \<lfloor>a\<rfloor>"
    by (auto simp: slippage_bps_def split: number.splits)
  have "Fin 10 \<le> Fin a \<and> Fin a \<le> Fin 2000"
  proof (cases "math_floor (nullish raw (Fin 100)) = NaN")
    case True
    then show ?thesis using a(1) by (simp add: math_min_def math_max_def)
  next
    case False
    then show ?thesis using a(1) math_clamp_bounds [of "Fin 10" "Fin 2000" "math_floor (nullish raw (Fin 100))"] by simp
  qed
  then show ?thesis using a(2) by (simp add: le_floor_iff floor_le_iff)
qed

lemma swap_request_checks_token:
  "swap_request_checks req = Inr (token, b) \<Longrightarrow>
     find_token (to_upper (sr_tokenSymbol req)) = Some token \<and> 10 \<le> b \<and> b \<le> 2000"
  by (auto simp: swap_request_checks_def dest: slippage_bps_range split: if_splits option.splits)

lemma find_token_symbol: "find_token sy = Some token \<Longrightarrow> tk_symbol token = sy"
  by (auto simp: find_token_def find_Some_iff)

lemma ensure_wbnb_book: "ensureWbnbForSell ct m s = (r, s') \<Longrightarrow> ws_trades s' = ws_trades s \<and> ws_swaps s' = ws_swaps s"
  by (auto simp: ensureWbnbForSell_def Let_def split: if_splits option.splits)

lemma wrap_book: "wrap_for_sale ct req token s = (r, s') \<Longrightarrow>
    ws_trades s' = ws_trades s \<and> ws_swaps s' = ws_swaps s \<and> (tk_symbol token \<noteq> ''BNB'' \<or> sr_side req = SwapBuy \<longrightarrow> s' = s)"
  by (auto simp: wrap_for_sale_def ensureWbnbForSell_def Let_def split: if_splits option.splits)

lemma allowance_book: "ensure_allowance ct tok a s = (r, s') \<Longrightarrow> ws_trades s' = ws_trades s \<and> ws_swaps s' = ws_swaps s"
  by (auto simp: ensure_allowance_def split: if_splits option.splits)

text \<open>The two ways a swap request ends: refused before anything was sent, or handed to the router.\<close>

lemma executePersonalSwap_cases:
  assumes "executePersonalSwap ct col now hs u st req s = (r, s')"
  obtains (refused) e where "r = Inl e" "ws_trades s' = ws_trades s" "ws_swaps s' = ws_swaps s"
  | (sent) token b s1 s2 amountIn where
      "swap_request_checks req = Inr (token, b)" "wrap_for_sale ct req token s = (Inr (), s1)"
      "swap_amount ct req token (token_bal (ws_chain s1) (in_token req token)) = Inr amountIn"
      "amount_checks req (token_bal (ws_chain s1) (in_token req token)) amountIn = None"
      "ensure_allowance ct (in_token req token) amountIn s1 = (Inr (), s2)"
      "send_swap ct col now u st req token b amountIn s2 = (r, s')"
      "ws_trades s2 = ws_trades s" "ws_swaps s2 = ws_swaps s"
proof (cases "swap_request_checks req")
  case (Inl e)
  then show thesis using assms by (intro refused [of e]) (simp_all add: executePersonalSwap_def)
next
  case (Inr tb)
  obtain token b where tb: "tb = (token, b)" by fastforce
  obtain q1 s1 where w: "wrap_for_sale ct req token s = (q1, s1)" by fastforce
  define bal where "bal = token_bal (ws_chain s1) (in_token req token)"
  note wb = wrap_book [OF w]
  have e: "(r, s') = (if \<not> hs then (Inl NoSigner, s) else case q1 of Inl e \<Rightarrow> (Inl e, s1) | Inr _ \<Rightarrow>
     (case swap_amount ct req token bal of Inl e \<Rightarrow> (Inl e, s1) | Inr amountIn \<Rightarrow>
        case amount_checks req bal amountIn of Some e \<Rightarrow> (Inl e, s1) | None \<Rightarrow>
          case ensure_allowance ct (in_token req token) amountIn s1 of
            (Inl e, s2) \<Rightarrow> (Inl e, s2) | (Inr _, s2) \<Rightarrow> send_swap ct col now u st req token b amountIn s2))"
    using assms Inr tb w unfolding executePersonalSwap_def bal_def Let_def by (cases hs) simp_all
  show thesis
  proof (cases "\<exists>a s2. hs \<and> q1 = Inr () \<and> swap_amount ct req token bal = Inr a \<and> amount_checks req bal a = None \<and>
      ensure_allowance ct (in_token req token) a s1 = (Inr (), s2)")
    case True
    then obtain a s2 where x: "hs" "q1 = Inr ()" "swap_amount ct req token bal = Inr a" "amount_checks req bal a = None"
      "ensure_allowance ct (in_token req token) a s1 = (Inr (), s2)" by blast
    then show thesis using e allowance_book [OF x(5)] wb Inr tb w by (intro sent [of token b s1 a s2]) (simp_all add: bal_def)
  next
    case False
    then have "(\<exists>x. r = Inl x) \<and> ws_trades s' = ws_trades s \<and> ws_swaps s' = ws_swaps s"
      using e wb allowance_book by (auto split: if_splits sum.splits option.splits prod.splits)
    then show thesis using refused by blast
  qed
qed

text \<open>Documented behaviour of the token contracts: an approval moves no pool, so it changes no quote.\<close>

definition approve_keeps_quotes :: "contracts \<Rightarrow> bool" where
  "approve_keeps_quotes ct \<longleftrightarrow> (\<forall>tok v ch ch'. ct_approve ct tok v ch = Some ch' \<longrightarrow> ct_getAmountsOut ct ch' = ct_getAmountsOut ct ch)"

lemma send_swap_sends:
  assumes "send_swap ct col now u st req token b a s = (r, s')"
  shows "ws_swaps s' = ws_swaps s \<or> (\<exists>best. quoteBestPath (ct_getAmountsOut ct (ws_chain s)) a (candidateSwapPaths token (sr_side req)) = Some best \<and>
     ws_swaps s' = ws_swaps s @ [(a, min_out (qp_expectedOut best) b, qp_path best)])"
  using assms by (auto simp: send_swap_def Let_def split: option.splits prod.splits)

lemma amount_checks_None:
  "amount_checks req bal a = None \<Longrightarrow> a \<le> bal \<and> (sr_side req = SwapSell \<longrightarrow> 0 < a)"
  by (cases "sr_side req") (auto simp: amount_checks_def split: if_splits)

text \<open>C19: a swap request of any token but BNB sends at most one swap; that swap spends no more than the
  wallet holds of the input token, goes along the candidate path with the best quote, and demands at
  least 80 percent of that quote (the slippage limit is between 0.1 and 20 percent).\<close>

theorem swap_within_balance_and_slippage:
  assumes "executePersonalSwap ct col now hs u st req s = (r, s')" "approve_keeps_quotes ct"
    and "find_token (to_upper (sr_tokenSymbol req)) = Some token" "tk_symbol token \<noteq> ''BNB''"
  shows "ws_swaps s' = ws_swaps s \<or>
    (\<exists>amountIn minOut path bps. ws_swaps s' = ws_swaps s @ [(amountIn, minOut, path)] \<and>
       amountIn \<le> token_bal (ws_chain s) (in_token req token) \<and> (sr_side req = SwapSell \<longrightarrow> 0 < amountIn) \<and>
       path \<in> set (candidateSwapPaths token (sr_side req)) \<and> 10 \<le> bps \<and> bps \<le> 2000 \<and>
       minOut = min_out (Max (path_out (ct_getAmountsOut ct (ws_chain s)) amountIn ` set (candidateSwapPaths token (sr_side req)))) bps)"
  using assms(1)
proof (cases rule: executePersonalSwap_cases)
  case (sent tk b s1 s2 a)
  have tk: "tk = token" "10 \<le> b" "b \<le> 2000" using swap_request_checks_token [OF sent(1)] assms(3) by simp_all
  have s1: "s1 = s" using wrap_book [OF sent(2)] assms(4) tk by simp
  have "ct_getAmountsOut ct (ws_chain s2) = ct_getAmountsOut ct (ws_chain s1)"
    using sent(5) assms(2) by (auto simp: ensure_allowance_def approve_keeps_quotes_def split: if_splits option.splits)
  then have q: "ws_swaps s' = ws_swaps s \<or> (\<exists>best. quoteBestPath (ct_getAmountsOut ct (ws_chain s)) a (candidateSwapPaths token (sr_side req)) = Some best \<and>
     ws_swaps s' = ws_swaps s @ [(a, min_out (qp_expectedOut best) b, qp_path best)])"
    using send_swap_sends [OF sent(6)] sent(8) tk s1 by simp
  have m: "qp_expectedOut best = Max (path_out ga a ` set ps) \<and> qp_path best \<in> set ps" if "quoteBestPath ga a ps = Some best" for ga ps best
    using best_path_Some [OF that] by (auto intro!: Max_eqI [symmetric])
  show ?thesis using q m amount_checks_None [OF sent(4)] tk s1 by (elim disjE exE conjE) (blast, metis)
qed simp

lemma min_out_bounds: "0 \<le> e \<Longrightarrow> 10 \<le> b \<Longrightarrow> b \<le> 2000 \<Longrightarrow> e * 8 div 10 \<le> min_out e b \<and> min_out e b \<le> e"
proof -
  assume e: "0 \<le> e" "10 \<le> b" "b \<le> 2000"
  have "e * 8000 div 10000 \<le> e * (10000 - b) div 10000" using e by (intro zdiv_mono1 mult_left_mono) auto
  moreover have "e * 8000 div 10000 = e * 8 div 10" using div_mult_mult1 [of "1000 :: int" "e * 8" 10] by (simp add: mult.commute)
  moreover have "e * (10000 - b) div 10000 \<le> e * 10000 div 10000" using e by (intro zdiv_mono1 mult_left_mono) auto
  ultimately show ?thesis by (simp add: min_out_def)
qed

lemma send_swap_books:
  assumes "send_swap ct col now u st req token b a s = (Inr res, s')"
  obtains before m p expected where "ct_swap ct a m p before = Some (ps_txHash res, ws_chain s')"
    "record_swap col now u st req (tk_symbol token @ ''/USDT'') (swap_fill ct req token a expected before (ws_chain s'))
       (ws_trades s) = (ps_trade res, ws_trades s')"
proof -
  obtain best where b: "quoteBestPath (ct_getAmountsOut ct (ws_chain s)) a (candidateSwapPaths token (sr_side req)) = Some best"
    using assms by (auto simp: send_swap_def split: option.splits)
  obtain hash ch' where c: "ct_swap ct a (min_out (qp_expectedOut best) b) (qp_path best) (ws_chain s) = Some (hash, ch')"
    using assms b by (auto simp: send_swap_def Let_def split: option.splits)
  obtain row ts where r: "record_swap col now u st req (tk_symbol token @ ''/USDT'') (swap_fill ct req token a (qp_expectedOut best) (ws_chain s) ch')
      (ws_trades s) = (row, ts)" by fastforce
  have e: "ps_txHash res = hash" "ws_chain s' = ch'" "ps_trade res = row" "ws_trades s' = ts"
    using assms b c r by (auto simp: send_swap_def Let_def)
  show thesis by (rule that [OF c [folded e] r [folded e]])
qed

lemma open_position_matches: "open_position req u st pair ts = Some t \<Longrightarrow> matches_open u st pair t"
  by (auto simp: open_position_def split: option.splits dest!: find_first_Some)

lemma record_swap_effect:
  assumes "record_swap col now u st req pair fill ts = (row, ts')"
  shows "if sr_side req = SwapBuy then ts' = ts @ [row] \<and> dt_status row = OPEN \<and> dt_pnl row = None
     else case open_position req u st pair ts of
        Some t \<Rightarrow> (\<exists>price. row = closed_lot col price t \<and> ts' = update_where (\<lambda>x. dt_id x = dt_id t) (closed_lot col price) ts) \<and>
                  matches_open u st pair t
      | None \<Rightarrow> ts' = ts @ [row] \<and> dt_status row = CLOSED \<and> dt_pnl row = None"
  using assms open_position_matches
  by (auto simp: record_swap_def Let_def new_row_def split: prod.splits option.splits if_splits)

lemma book_of_swap:
  assumes "executePersonalSwap ct col now hs u st req s = (r, s')"
  shows "case r of
      Inl _ \<Rightarrow> ws_trades s' = ws_trades s
    | Inr res \<Rightarrow>
        if sr_side req = SwapBuy then ws_trades s' = ws_trades s @ [ps_trade res] \<and> dt_status (ps_trade res) = OPEN \<and> dt_pnl (ps_trade res) = None
        else (let pair = to_upper (sr_tokenSymbol req) @ ''/USDT'' in case open_position req u st pair (ws_trades s) of
            Some t \<Rightarrow> (\<exists>price. ps_trade res = closed_lot col price t \<and>
                ws_trades s' = update_where (\<lambda>x. dt_id x = dt_id t) (closed_lot col price) (ws_trades s)) \<and> matches_open u st pair t
          | None \<Rightarrow> ws_trades s' = ws_trades s @ [ps_trade res] \<and> dt_status (ps_trade res) = CLOSED \<and> dt_pnl (ps_trade res) = None)"
  using assms
proof (cases rule: executePersonalSwap_cases)
  case (refused e)
  then show ?thesis by simp
next
  case (sent token b s1 s2 a)
  have sy: "tk_symbol token = to_upper (sr_tokenSymbol req)" using swap_request_checks_token [OF sent(1)] find_token_symbol by blast
  show ?thesis
  proof (cases r)
    case (Inl e)
    then show ?thesis using sent(6,7) by (auto simp: send_swap_def Let_def split: option.splits prod.splits)
  next
    case (Inr res)
    obtain fill where f: "record_swap col now u st req (tk_symbol token @ ''/USDT'') fill (ws_trades s) = (ps_trade res, ws_trades s')"
      using send_swap_books [OF sent(6) [unfolded Inr]] sent(7) by metis
    show ?thesis using Inr record_swap_effect [OF f, unfolded sy] by (simp add: Let_def)
  qed
qed

text \<open>A row as a sale at a price leaves it: the profit is the allocation times the relative gain of the price over the entry,
  to eight decimals, and zero when one of the three is not positive or the product is not finite.\<close>

definition sold_row :: "(number \<Rightarrow> number) \<Rightarrow> number \<Rightarrow> dex_trade \<Rightarrow> dex_trade" where
  "sold_row col price x =
     (let a = (case dt_allocationUsd x of None \<Rightarrow> Fin 0 | Some a \<Rightarrow> a); gain = a * (price / dt_entryPrice x - Fin 1) in
      x\<lparr>dt_exitPrice := Some (col price),
        dt_pnl := Some (col (if a \<le> Fin 0 \<or> dt_entryPrice x \<le> Fin 0 \<or> price \<le> Fin 0 \<or> \<not> is_finite gain then Fin 0
          else math_round (gain * Fin 100000000) / Fin 100000000)),
        dt_status := CLOSED\<rparr>)"

text \<open>The price of a swap: what the wallet's USDT changed by per unit the token changed by, where the token's balance can be
  told and moved and the quotient is a positive number.\<close>

definition filled_at :: "contracts \<Rightarrow> swap_side \<Rightarrow> BscTokenSpec \<Rightarrow> chain \<Rightarrow> chain \<Rightarrow> number \<Rightarrow> bool" where
  "filled_at ct side token before after price \<longleftrightarrow>
     (\<forall>c. (case tk_address token of Some a \<Rightarrow> Some a | None \<Rightarrow> if tk_symbol token = ''BNB'' then Some WBNB_ADDR else None) = Some c \<longrightarrow>
        (let usdtOut = token_bal before USDT_ADDR - token_bal after USDT_ADDR; tokOut = token_bal before c - token_bal after c;
             usdt = number_of_string (ct_formatUnits ct (if side = SwapBuy then usdtOut else - usdtOut) 18);
             tok = number_of_string (ct_formatUnits ct (if side = SwapBuy then - tokOut else tokOut) (tk_decimals token)) in
         lit (1 / 10 ^ 18) < tok \<longrightarrow> is_finite (usdt / tok) \<longrightarrow> Fin 0 < usdt / tok \<longrightarrow> price = usdt / tok))"

lemma closed_is_sold: "closed_lot col price x = sold_row col price x"
  by (auto simp: closed_lot_def sold_row_def roundTripRealizedPnl_def gross_return_def round8_def E8_def nullish_def Let_def
      split: option.split)

lemma fill_price: "filled_at ct (sr_side req) token before after (snd (swap_fill ct req token a expected before after))"
  by (cases "sr_side req")
     (auto simp: filled_at_def swap_fill_def ledgerCounterAddress_def units_number_def Let_def split: option.splits if_splits)

lemma order_asc_hd: "order_asc k xs = y # ys \<Longrightarrow> y \<in> set xs \<and> (\<forall>x \<in> set xs. k y \<le> k x)"
proof -
  assume o: "order_asc k xs = y # ys"
  then have "set xs = set (y # ys)" using set_order(1) [of k xs] by simp
  moreover have "sorted (map k (y # ys))" using o sorted_sort_key [of k xs] by (simp add: order_asc_def)
  ultimately show ?thesis by auto
qed

lemma oldest_first: "find_first p (order_asc k) xs = Some y \<Longrightarrow> y \<in> set xs \<and> p y \<and> (\<forall>x \<in> set xs. p x \<longrightarrow> k y \<le> k x)"
  using order_asc_hd [of k "filter p xs" y] by (auto simp: find_first_def find_many_def split: list.splits)

text \<open>The row a sale closes, told by what it must be.\<close>

definition may_close :: "PersonalSwapRequest \<Rightarrow> user_id \<Rightarrow> string \<Rightarrow> dex_trade \<Rightarrow> bool" where
  "may_close req u st x \<longleftrightarrow> dt_userId x = u \<and> dt_strategyId x = st \<and> dt_pair x = to_upper (sr_tokenSymbol req) @ ''/USDT'' \<and>
     dt_status x = OPEN \<and> (\<forall>i. sr_closeTradeId req = Some i \<longrightarrow> dt_id x = i)"

lemma closing_row:
  "(case open_position req u st (to_upper (sr_tokenSymbol req) @ ''/USDT'') ts of
      None \<Rightarrow> \<forall>x \<in> set ts. \<not> may_close req u st x
    | Some x \<Rightarrow> x \<in> set ts \<and> may_close req u st x \<and>
        (sr_closeTradeId req = None \<longrightarrow> (\<forall>y \<in> set ts. may_close req u st y \<longrightarrow> dt_createdAt x \<le> dt_createdAt y)))"
proof (cases "sr_closeTradeId req")
  case None
  have m: "matches_open u st (to_upper (sr_tokenSymbol req) @ ''/USDT'') = may_close req u st"
    by (auto simp: matches_open_def may_close_def None)
  show ?thesis
    using oldest_first [of "may_close req u st" dt_createdAt ts] find_first_None [of "order_asc dt_createdAt" "may_close req u st" ts, OF set_order(1)]
    unfolding open_position_def None option.case m by (auto split: option.split)
next
  case (Some i)
  have m: "(\<lambda>x. dt_id x = i \<and> matches_open u st (to_upper (sr_tokenSymbol req) @ ''/USDT'') x) = may_close req u st"
    by (auto simp: matches_open_def may_close_def Some)
  show ?thesis
    using find_first_Some [of "may_close req u st" id ts] find_first_None [of id "may_close req u st" ts]
    unfolding open_position_def Some option.case m by (auto split: option.split)
qed

lemma fresh_id_fresh: "fresh_id ts \<notin> dt_id ` set ts"
proof
  assume "fresh_id ts \<in> dt_id ` set ts"
  then have "fresh_id ts \<le> Max (insert 0 (set (map dt_id ts)))" by (intro Max_ge) auto
  then show False by (simp add: fresh_id_def)
qed

lemma appended_row:
  assumes "ts' = ts @ [new_row col now u st pair price alloc status ts]"
  shows "\<exists>row. ts' = ts @ [row] \<and> dt_id row \<notin> dt_id ` set ts \<and> dt_userId row = u \<and> dt_strategyId row = st \<and>
     dt_pair row = pair \<and> dt_entryPrice row = col price \<and> dt_exitPrice row = None \<and> dt_pnl row = None \<and> dt_status row = status"
  unfolding assms by (rule exI [of _ "new_row col now u st pair price alloc status ts"]) (simp add: new_row_def fresh_id_fresh)

text \<open>C20: The trade book follows the swap. A request that fails leaves every row as it was. A purchase appends one row with a
  new id: open, of the user, the strategy and the pair, at the fill price, without exit and profit. A sale closes one row,
  when the user has an open row of the strategy and the pair (the one with the id asked for, or else the oldest): that row gets
  the fill price as its exit, the profit of the fill over its entry, and the status closed, and every row with another id
  stays as it was. When there is none, the sale appends one closed row without a profit. The fill price is what the balances
  of the wallet changed by in the very swap whose hash is returned.\<close>

theorem swap_books_the_position:
  assumes "executePersonalSwap ct col now hs u st req s = (r, s')"
  shows "case r of
      Inl _ \<Rightarrow> ws_trades s' = ws_trades s
    | Inr res \<Rightarrow>
        (\<exists>token a m p before price.
           find_token (to_upper (sr_tokenSymbol req)) = Some token \<and> ct_swap ct a m p before = Some (ps_txHash res, ws_chain s') \<and>
           filled_at ct (sr_side req) token before (ws_chain s') price \<and>
           (if sr_side req = SwapSell \<and> (\<exists>x \<in> set (ws_trades s). may_close req u st x)
            then \<exists>t \<in> set (ws_trades s). may_close req u st t \<and>
              (sr_closeTradeId req = None \<longrightarrow> (\<forall>x \<in> set (ws_trades s). may_close req u st x \<longrightarrow> dt_createdAt t \<le> dt_createdAt x)) \<and>
              ws_trades s' = map (\<lambda>x. if dt_id x = dt_id t then sold_row col price x else x) (ws_trades s)
            else \<exists>row. ws_trades s' = ws_trades s @ [row] \<and> dt_id row \<notin> dt_id ` set (ws_trades s) \<and> dt_userId row = u \<and>
              dt_strategyId row = st \<and> dt_pair row = to_upper (sr_tokenSymbol req) @ ''/USDT'' \<and> dt_entryPrice row = col price \<and>
              dt_exitPrice row = None \<and> dt_pnl row = None \<and> dt_status row = (if sr_side req = SwapBuy then OPEN else CLOSED)))"
proof (cases r)
  case (Inl e)
  then show ?thesis using book_of_swap [OF assms] by simp
next
  case (Inr res)
  from assms show ?thesis
  proof (cases rule: executePersonalSwap_cases)
    case (sent token b s1 s2 a)
    have tk: "find_token (to_upper (sr_tokenSymbol req)) = Some token" using swap_request_checks_token [OF sent(1)] by blast
    obtain before m p expected where f: "ct_swap ct a m p before = Some (ps_txHash res, ws_chain s')"
      "record_swap col now u st req (to_upper (sr_tokenSymbol req) @ ''/USDT'') (swap_fill ct req token a expected before (ws_chain s'))
         (ws_trades s) = (ps_trade res, ws_trades s')"
      using send_swap_books [OF sent(6) [unfolded Inr]] find_token_symbol [OF tk] sent(7) by metis
    obtain alloc price where fill: "swap_fill ct req token a expected before (ws_chain s') = (alloc, price)" by fastforce
    have p: "filled_at ct (sr_side req) token before (ws_chain s') price"
      using fill_price [of ct req token before "ws_chain s'" a expected] by (simp add: fill)
    note c = closing_row [where req = req and u = u and st = st and ts = "ws_trades s"]
    note book = f(2) [unfolded record_swap_def fill prod.case Let_def]
    have "if sr_side req = SwapSell \<and> (\<exists>x \<in> set (ws_trades s). may_close req u st x)
      then \<exists>t \<in> set (ws_trades s). may_close req u st t \<and>
        (sr_closeTradeId req = None \<longrightarrow> (\<forall>x \<in> set (ws_trades s). may_close req u st x \<longrightarrow> dt_createdAt t \<le> dt_createdAt x)) \<and>
        ws_trades s' = map (\<lambda>x. if dt_id x = dt_id t then sold_row col price x else x) (ws_trades s)
      else \<exists>row. ws_trades s' = ws_trades s @ [row] \<and> dt_id row \<notin> dt_id ` set (ws_trades s) \<and> dt_userId row = u \<and>
        dt_strategyId row = st \<and> dt_pair row = to_upper (sr_tokenSymbol req) @ ''/USDT'' \<and> dt_entryPrice row = col price \<and>
        dt_exitPrice row = None \<and> dt_pnl row = None \<and> dt_status row = (if sr_side req = SwapBuy then OPEN else CLOSED)"
    proof (cases "sr_side req = SwapBuy")
      case True
      then have "ws_trades s' = ws_trades s @ [new_row col now u st (to_upper (sr_tokenSymbol req) @ ''/USDT'') price alloc OPEN (ws_trades s)]"
        using book by auto
      from appended_row [OF this] True show ?thesis by simp
    next
      case False
      then have sell: "sr_side req = SwapSell" by (cases "sr_side req") auto
      show ?thesis
      proof (cases "open_position req u st (to_upper (sr_tokenSymbol req) @ ''/USDT'') (ws_trades s)")
        case None
        then have "ws_trades s' = ws_trades s @ [new_row col now u st (to_upper (sr_tokenSymbol req) @ ''/USDT'') price alloc CLOSED (ws_trades s)]"
          using book sell by auto
        from appended_row [OF this] sell c None show ?thesis by simp
      next
        case (Some x)
        then have "ws_trades s' = map (\<lambda>y. if dt_id y = dt_id x then sold_row col price y else y) (ws_trades s)"
          using book sell by (auto simp: update_where_def closed_is_sold cong: if_cong)
        then show ?thesis using c Some sell by auto
      qed
    qed
    then show ?thesis using tk f(1) p Inr by (simp only: sum.case) blast
  qed (use Inr in simp)
qed

subsection \<open>A sale of ether\<close>

definition demo_contracts :: contracts where
  "demo_contracts = \<lparr>ct_getAmountsOut = (\<lambda>_. demo_quotes),
     ct_swap = (\<lambda>a m p ch. Some (''0xabc'', ch\<lparr>ch_bal := (ch_bal ch)(to_lower (hd p) := ch_bal ch (to_lower (hd p)) - a,
        to_lower (last p) := ch_bal ch (to_lower (last p)) + m)\<rparr>)),
     ct_deposit = (\<lambda>v ch. Some ch), ct_approve = (\<lambda>tok v ch. Some (ch\<lparr>ch_allow := (ch_allow ch)(to_lower tok := v)\<rparr>)),
     ct_parseUnits = (\<lambda>t d. case parse_udec t of Some (q, []) \<Rightarrow> Some \<lfloor>q * 10 ^ d\<rfloor> | _ \<Rightarrow> None),
     ct_formatUnits = fixed_text\<rparr>"

definition ETH_ADDR :: string where "ETH_ADDR = ''0x2170ed0880ac9a755fd29b2688956bd959f933f8''"

definition demo_lot :: dex_trade where
  "demo_lot = \<lparr>dt_id = 3, dt_userId = ''u'', dt_strategyId = ''st'', dt_pair = ''ETH/USDT'', dt_entryPrice = Fin 2, dt_exitPrice = None,
     dt_pnl = None, dt_allocationUsd = Some (Fin 2), dt_status = OPEN, dt_createdAt = 0\<rparr>"

definition demo_wallet :: wallet_state where
  "demo_wallet = \<lparr>ws_chain = \<lparr>ch_native = 10 ^ 18, ch_bal = (\<lambda>a. if a = ETH_ADDR then 2 * 10 ^ 18 else 0), ch_allow = (\<lambda>_. 0)\<rparr>,
     ws_trades = [demo_lot], ws_swaps = []\<rparr>"

definition demo_sale :: PersonalSwapRequest where
  "demo_sale = \<lparr>sr_side = SwapSell, sr_tokenSymbol = ''eth'', sr_amount = Fin 1, sr_slippageBps = Some (Fin 100),
     sr_closeTradeId = Some 3, sr_sellAmountRaw = Some (10 ^ 18)\<rparr>"

definition demo_sold :: "PersonalSwapResult wallet_result" where
  "demo_sold = executePersonalSwap demo_contracts id 5 True ''u'' ''st'' demo_sale demo_wallet"

definition demo_eth :: BscTokenSpec where
  "demo_eth = \<lparr>tk_symbol = ''ETH'', tk_address = Some ETH_ADDR, tk_decimals = 18, tk_binanceSymbol = Some ''ETHUSDT''\<rparr>"

definition demo_approved :: wallet_state where
  "demo_approved = demo_wallet\<lparr>ws_chain := (ws_chain demo_wallet)\<lparr>ch_allow := (\<lambda>_. 0)(ETH_ADDR := 2 ^ 256 - 1)\<rparr>\<rparr>"

lemma demo_steps:
  "find_token (to_upper ''eth'') = Some demo_eth" "swap_request_checks demo_sale = Inr (demo_eth, 100)"
  "amount_checks demo_sale (2 * 10 ^ 18) (10 ^ 18) = None" "to_lower ETH_ADDR = ETH_ADDR"
  "swap_amount demo_contracts demo_sale demo_eth (2 * 10 ^ 18) = Inr (10 ^ 18)"
  "map_option qp_expectedOut (quoteBestPath demo_quotes (10 ^ 18) (candidateSwapPaths demo_eth SwapSell)) = Some (3 * 10 ^ 18)"
  by code_simp+

lemma demo_wallet_balance: "token_bal (ws_chain demo_wallet) (in_token demo_sale demo_eth) = 2 * 10 ^ 18"
  using demo_steps(4) by (simp add: token_bal_def demo_wallet_def in_token_def demo_sale_def demo_eth_def)

lemma demo_sold_eq: "demo_sold = send_swap demo_contracts id 5 ''u'' ''st'' demo_sale demo_eth 100 (10 ^ 18) demo_approved"
proof -
  have w: "wrap_for_sale demo_contracts demo_sale demo_eth demo_wallet = (Inr (), demo_wallet)"
    by (simp add: wrap_for_sale_def demo_eth_def)
  have a: "ensure_allowance demo_contracts (in_token demo_sale demo_eth) (10 ^ 18) demo_wallet = (Inr (), demo_approved)"
    using demo_steps(4) by (simp add: ensure_allowance_def demo_approved_def demo_contracts_def demo_wallet_def in_token_def demo_sale_def demo_eth_def)
  show ?thesis using demo_steps(2,3,5) demo_wallet_balance w a by (simp add: demo_sold_def executePersonalSwap_def Let_def)
qed

lemma demo_sold_values:
  "map fst (ws_swaps (snd demo_sold)) = [10 ^ 18]" "\<exists>res. fst demo_sold = Inr res"
proof -
  obtain best where b: "quoteBestPath demo_quotes (10 ^ 18) (candidateSwapPaths demo_eth SwapSell) = Some best"
    using demo_steps(6) by auto
  have s: "sr_side demo_sale = SwapSell" "ct_getAmountsOut demo_contracts = (\<lambda>_. demo_quotes)" "ws_swaps demo_approved = []"
    by (simp_all add: demo_sale_def demo_contracts_def demo_approved_def demo_wallet_def)
  obtain h ch where c: "ct_swap demo_contracts (10 ^ 18) (min_out (qp_expectedOut best) 100) (qp_path best) (ws_chain demo_approved) = Some (h, ch)"
    by (simp add: demo_contracts_def)
  show "map fst (ws_swaps (snd demo_sold)) = [10 ^ 18]" "\<exists>res. fst demo_sold = Inr res"
    unfolding demo_sold_eq send_swap_def Let_def using b s c by (simp_all split: prod.splits)
qed

theorem swap_within_balance_and_slippage_witness:
  "\<exists>a. map fst (ws_swaps (snd demo_sold)) = [a] \<and> a \<le> 2 * 10 ^ 18 \<and> 0 < a"
proof -
  have token: "find_token (to_upper (sr_tokenSymbol demo_sale)) = Some demo_eth" "tk_symbol demo_eth \<noteq> ''BNB''"
    using demo_steps(1) by (simp_all add: demo_sale_def demo_eth_def)
  have d: "executePersonalSwap demo_contracts id 5 True ''u'' ''st'' demo_sale demo_wallet = (fst demo_sold, snd demo_sold)"
    by (simp add: demo_sold_def)
  have k: "approve_keeps_quotes demo_contracts" by (simp add: approve_keeps_quotes_def demo_contracts_def)
  have n: "ws_swaps demo_wallet = []" "sr_side demo_sale = SwapSell" by (simp_all add: demo_wallet_def demo_sale_def)
  from swap_within_balance_and_slippage [OF d k token] demo_sold_values(1) n(1)
  obtain a m p where "ws_swaps (snd demo_sold) = [(a, m, p)]" "a \<le> token_bal (ws_chain demo_wallet) (in_token demo_sale demo_eth)"
    "sr_side demo_sale = SwapSell \<longrightarrow> 0 < a" by auto
  then show ?thesis using demo_wallet_balance n(2) by simp
qed

theorem swap_books_the_position_witness:
  "\<exists>price. ws_trades (snd demo_sold) = [sold_row id price demo_lot]"
proof -
  have d: "executePersonalSwap demo_contracts id 5 True ''u'' ''st'' demo_sale demo_wallet = (fst demo_sold, snd demo_sold)"
    by (simp add: demo_sold_def)
  obtain res where r: "fst demo_sold = Inr res" using demo_sold_values(2) by blast
  have u: "to_upper ''eth'' = ''ETH''" by code_simp
  have "may_close demo_sale ''u'' ''st'' demo_lot" "ws_trades demo_wallet = [demo_lot]" "sr_side demo_sale = SwapSell"
    by (simp_all add: may_close_def demo_sale_def demo_lot_def demo_wallet_def u)
  with swap_books_the_position [OF d] r show ?thesis by auto
qed

section \<open>No open row is left\<close>

lemma id_perm: "set (id xs) = set xs"
  by simp

lemma executed_sale:
  assumes "executePersonalSwap ct col now hs u st req s = (Inr res, s')" "sr_side req = SwapSell"
    and "open_position req u st (to_upper (sr_tokenSymbol req) @ ''/USDT'') (ws_trades s) = Some t"
  shows "\<exists>price. ws_trades s' = update_where (\<lambda>x. dt_id x = dt_id t) (closed_lot col price) (ws_trades s)"
  using book_of_swap [OF assms(1)] assms(2,3) by auto

lemma cancel_rows_effect:
  "r \<in> set (cancel_rows is ts) \<Longrightarrow> (dt_id r \<in> set is \<longrightarrow> dt_status r = CANCELLED) \<and> (dt_id r \<notin> set is \<longrightarrow> r \<in> set ts)"
proof (induction "is" arbitrary: ts)
  case Nil
  then show ?case by (simp add: cancel_rows_def)
next
  case (Cons i "is")
  define ts' where "ts' = update_where (\<lambda>r. dt_id r = i) (\<lambda>r. r\<lparr>dt_status := CANCELLED\<rparr>) ts"
  have ih: "(dt_id r \<in> set is \<longrightarrow> dt_status r = CANCELLED) \<and> (dt_id r \<notin> set is \<longrightarrow> r \<in> set ts')"
    using Cons.IH [of ts'] Cons.prems by (simp add: cancel_rows_def ts'_def)
  have "(dt_id r = i \<longrightarrow> dt_status r = CANCELLED) \<and> (dt_id r \<noteq> i \<longrightarrow> r \<in> set ts)" if m: "r \<in> set ts'"
  proof -
    obtain x where x: "x \<in> set ts" "r = (if dt_id x = i then x\<lparr>dt_status := CANCELLED\<rparr> else x)"
      using m unfolding ts'_def in_update_where by blast
    show ?thesis using x(1) unfolding x(2) by simp
  qed
  with ih show ?case by (cases "dt_id r \<in> set is") simp_all
qed

lemma sell_position_clears:
  assumes "sell_position ct col now u st token openTrades s = (Inr res, s')"
    and "openTrades = find_many (matches_open u st (tk_symbol token @ ''/USDT'')) (order_asc dt_createdAt) (ws_trades s)" "openTrades \<noteq> []"
    and "to_upper (tk_symbol token) = tk_symbol token"
  shows "\<forall>t \<in> set (ws_trades s'). \<not> matches_open u st (tk_symbol token @ ''/USDT'') t"
proof
  fix t assume t: "t \<in> set (ws_trades s')"
  let ?pair = "tk_symbol token @ ''/USDT''"
  obtain o1 os where os: "openTrades = o1 # os" using assms(3) by (cases openTrades) auto
  have set_os: "set openTrades = {x \<in> set (ws_trades s). matches_open u st ?pair x}" using assms(2) by (auto simp: find_many_def)
  from assms(1) obtain req s1 where e: "executePersonalSwap ct col now True u st req s = (Inr res, s1)"
    and req: "sr_side req = SwapSell" "sr_tokenSymbol req = tk_symbol token" "sr_closeTradeId req = Some (dt_id o1)"
    and s': "ws_trades s' = cancel_rows (map dt_id os) (ws_trades s1)"
    by (auto simp: sell_position_def Let_def os split: if_splits option.splits prod.splits sum.splits)
  have "\<exists>x \<in> set (ws_trades s). dt_id x = dt_id o1 \<and> matches_open u st ?pair x" using set_os os by force
  then have "find_first (\<lambda>t. dt_id t = dt_id o1 \<and> matches_open u st ?pair t) id (ws_trades s) \<noteq> None"
    unfolding find_first_None [OF id_perm] by blast
  then obtain x where f: "find_first (\<lambda>t. dt_id t = dt_id o1 \<and> matches_open u st ?pair t) id (ws_trades s) = Some x" by auto
  have x: "open_position req u st ?pair (ws_trades s) = Some x" "dt_id x = dt_id o1"
    using f find_first_Some [OF f id_perm] by (simp_all add: open_position_def req)
  obtain price where s1: "ws_trades s1 = update_where (\<lambda>r. dt_id r = dt_id o1) (closed_lot col price) (ws_trades s)"
    using executed_sale [OF e req(1)] x req(2) assms(4) by auto
  note c = cancel_rows_effect [OF t [unfolded s']]
  show "\<not> matches_open u st ?pair t"
  proof (cases "dt_id t \<in> set (map dt_id os)")
    case True
    then show ?thesis using c by (simp add: matches_open_def)
  next
    case False
    then have "t \<in> set (update_where (\<lambda>r. dt_id r = dt_id o1) (closed_lot col price) (ws_trades s))" using c s1 by simp
    then obtain y where y: "y \<in> set (ws_trades s)" "t = (if dt_id y = dt_id o1 then closed_lot col price y else y)"
      unfolding in_update_where by blast
    show ?thesis
    proof (cases "dt_id y = dt_id o1")
      case True
      then show ?thesis using y(2) by (simp add: matches_open_def closed_lot_def)
    next
      case f: False
      then have "y \<notin> set openTrades" using False y(2) os by auto
      then show ?thesis using f y set_os by auto
    qed
  qed
qed

text \<open>Selling a whole position leaves no open row of it: the oldest one is closed with its profit and
  every other one is cancelled, whatever the wallet still holds.\<close>

theorem aggregated_sale_leaves_no_open_row:
  assumes "sellAggregatedOpenPosition ct col now hs u st sy s = (Inr res, s')"
  shows "\<forall>t \<in> set (ws_trades s'). \<not> matches_open u st (to_upper sy @ ''/USDT'') t"
proof -
  obtain token where tk: "find_token (to_upper sy) = Some token"
    using assms by (auto simp: sellAggregatedOpenPosition_def Let_def split: option.splits)
  have sy: "tk_symbol token = to_upper sy" using find_token_symbol [OF tk] .
  define ots where "ots = find_many (matches_open u st (to_upper sy @ ''/USDT'')) (order_asc dt_createdAt) (ws_trades s)"
  have "ots \<noteq> []" "\<exists>s1. ws_trades s1 = ws_trades s \<and> sell_position ct col now u st token ots s1 = (Inr res, s')"
    using assms tk by (auto simp: sellAggregatedOpenPosition_def Let_def ots_def [symmetric]
        split: if_splits option.splits prod.splits sum.splits dest: ensure_wbnb_book)
  then obtain s1 where s1: "ws_trades s1 = ws_trades s" "sell_position ct col now u st token ots s1 = (Inr res, s')" by blast
  show ?thesis using sell_position_clears [OF s1(2)] s1(1) \<open>ots \<noteq> []\<close> sy to_upper_idem by (simp add: ots_def)
qed

end
