(* ===== verification/DexWatcher.thy ===== *)
theory DexWatcher
  imports PersonalWallet SignalEngine
begin

text \<open>
  The watcher of open personal-wallet positions, \<open>src/src/services/trading/dexOpenPositionWatcher.ts\<close>,
  and the trend signal it consults, \<open>src/src/lib/dexSignalMath.ts\<close>. For every open row of the book it
  reads prices and balances, decides whether to take profit, stop the loss or follow a sell signal, and
  sells through the personal wallet. Prices, candles, node and contracts are parameters; notifications
  and log lines are trace events. A look at a position has one clock value and runs to its end before the next one.
\<close>

section \<open>The trend signal\<close>

datatype DexSignal = DexBuy | DexSell | DexHold

text \<open>\<open>slice(-period)\<close> with period 0 is \<open>slice(-0)\<close>, the whole list.\<close>

definition dex_sma :: "number list \<Rightarrow> nat \<Rightarrow> number option" where
  "dex_sma closes period =
     (if length closes < period then None
      else let slice = (if period = 0 then closes else drop (length closes - period) closes) in
        Some (sum_numbers (Fin 0) slice / count_number period))"

definition dex_rsi :: "number list \<Rightarrow> nat \<Rightarrow> number option" where
  "dex_rsi closes period =
     (if length closes < period + 1 then None
      else case foldl (gain_loss_step closes) (Fin 0, Fin 0) [length closes - period..<length closes] of (gains, losses) \<Rightarrow>
        let avgGain = gains / count_number period; avgLoss = losses / count_number period in
        Some (if js_eq avgLoss (Fin 0) then (if js_eq avgGain (Fin 0) then Fin 50 else Fin 100)
              else Fin 100 - Fin 100 / (Fin 1 + avgGain / avgLoss)))"

record SignalOptions =
  so_smaPeriod :: nat
  so_threshold :: number
  so_useRsiFilter :: bool
  so_rsiBuyMax :: number
  so_rsiSellMin :: number

definition computeTrendRsiSignal :: "number list \<Rightarrow> SignalOptions \<Rightarrow> DexSignal \<times> number option \<times> number option" where
  "computeTrendRsiSignal closes opts =
     (let rsiValue = dex_rsi closes 14; smaValue = dex_sma closes (so_smaPeriod opts) in
      case smaValue of
        None \<Rightarrow> (DexHold, None, rsiValue)
      | Some m \<Rightarrow>
          if closes = [] then (DexHold, None, rsiValue)
          else
            let diff = (last closes - m) / m;
                signal =
                  (if so_threshold opts < diff then
                     (if \<not> so_useRsiFilter opts \<or> rsiValue = None \<or> the rsiValue < so_rsiBuyMax opts then DexBuy else DexHold)
                   else if diff < - so_threshold opts then
                     (if \<not> so_useRsiFilter opts \<or> rsiValue = None \<or> so_rsiSellMin opts < the rsiValue then DexSell else DexHold)
                   else DexHold) in
            (signal, Some m, rsiValue))"

section \<open>State and environment\<close>

definition COOLDOWN_MS :: int where "COOLDOWN_MS = 45000"
definition LOT_QTY_EPS :: number where "LOT_QTY_EPS = lit (1 / 10 ^ 10)"

record dex_env =
  de_serverAutoExit :: bool
  de_walletEnabled :: bool
  de_takeProfitPct :: number
  de_stopLossPct :: number
  de_signalMinProfitPct :: number
  de_slippageBps :: number
  de_minNetUsd :: number
  de_thresholdFrac :: number

datatype dex_reason = TakeProfit | StopLoss | SignalSell

datatype dex_event =
    DexSold nat dex_reason number PersonalSwapResult
  | DexExitFailed nat swap_error

record dex_watch =
  dw_cooldown :: "nat \<Rightarrow> time option"
  dw_chain :: "user_id \<Rightarrow> chain"
  dw_trades :: "dex_trade list"
  dw_requests :: "(user_id \<times> PersonalSwapRequest) list"
  dw_events :: "dex_event list"

text \<open>What a look at one position reads: the clock, the price and candle endpoints (none when the
  request fails), whether the node answers each of the two balance reads, the signer, the contracts.\<close>

record dex_io =
  di_now :: time
  di_price :: "string \<Rightarrow> string option option"
  di_klines :: "string \<Rightarrow> string list list option"
  di_hasWallet :: "user_id \<Rightarrow> bool"
  di_rpcUp :: bool
  di_rpcUpRaw :: bool
  di_contracts :: contracts
  di_col :: "number \<Rightarrow> number"

definition fetchBinanceKlineCloses :: "(string \<Rightarrow> string list list option) \<Rightarrow> string \<Rightarrow> number list" where
  "fetchBinanceKlineCloses api sy =
     (case api sy of
        None \<Rightarrow> []
      | Some rows \<Rightarrow> filter (\<lambda>c. is_finite c \<and> Fin 0 < c) (map (\<lambda>r. parse_float (r ! 4)) (filter (\<lambda>r. 5 \<le> length r) rows)))"

definition fetchMarkPrice :: "(string \<Rightarrow> string option option) \<Rightarrow> string option \<Rightarrow> number option" where
  "fetchMarkPrice api sy =
     (case sy of
        None \<Rightarrow> None
      | Some q \<Rightarrow>
          if q = [] then None
          else case api q of
            None \<Rightarrow> None
          | Some body \<Rightarrow>
              let p = (case body of None \<Rightarrow> NaN | Some t \<Rightarrow> if t = [] then NaN else parse_float t) in
              if is_finite p \<and> Fin 0 < p then Some p else None)"

section \<open>One position\<close>

definition lot_qty :: "dex_trade \<Rightarrow> number" where
  "lot_qty t = (let entry = dt_entryPrice t; buyAlloc = nullish (dt_allocationUsd t) (Fin 0) in
     if Fin 0 < buyAlloc then buyAlloc / entry else Fin 0)"

definition watched_token :: "dex_trade \<Rightarrow> BscTokenSpec option" where
  "watched_token t =
     (case find_token (base_of_pair (dt_pair t)) of
        None \<Rightarrow> None
      | Some token \<Rightarrow>
          if tk_binanceSymbol token = None \<or> (tk_address token = None \<and> tk_symbol token \<noteq> ''BNB'') then None else Some token)"

definition exit_options :: "dex_env \<Rightarrow> SignalOptions" where
  "exit_options e = \<lparr>so_smaPeriod = 8, so_threshold = de_thresholdFrac e, so_useRsiFilter = False,
     so_rsiBuyMax = Fin 70, so_rsiSellMin = Fin 28\<rparr>"

definition dex_exit_reason :: "dex_env \<Rightarrow> number list \<Rightarrow> number \<Rightarrow> number \<Rightarrow> number \<Rightarrow> dex_reason option" where
  "dex_exit_reason e closes binancePct pancakePct estNetUsd =
     (if de_takeProfitPct e \<le> pancakePct \<and> de_minNetUsd e \<le> estNetUsd then Some TakeProfit
      else if binancePct \<le> - de_stopLossPct e \<or> pancakePct \<le> - de_stopLossPct e then Some StopLoss
      else if 18 \<le> length closes \<and> fst (computeTrendRsiSignal closes (exit_options e)) = DexSell \<and>
              de_signalMinProfitPct e \<le> pancakePct \<and> de_minNetUsd e \<le> estNetUsd then Some SignalSell
      else None)"

definition pct_above :: "number \<Rightarrow> number \<Rightarrow> number" where
  "pct_above price entry = (price - entry) / entry * Fin 100"

definition dex_sell_raw :: "contracts \<Rightarrow> BscTokenSpec \<Rightarrow> number \<Rightarrow> int \<Rightarrow> int option" where
  "dex_sell_raw ct token lotQty balanceRaw =
     cap_to_lot ct (tk_decimals token) LOT_QTY_EPS lotQty (sellAmountRawFromBalance balanceRaw)"

definition exit_request :: "dex_env \<Rightarrow> dex_trade \<Rightarrow> BscTokenSpec \<Rightarrow> number \<Rightarrow> int \<Rightarrow> PersonalSwapRequest" where
  "exit_request e t token sellAmount sellRaw =
     \<lparr>sr_side = SwapSell, sr_tokenSymbol = tk_symbol token, sr_amount = sellAmount, sr_slippageBps = Some (de_slippageBps e),
      sr_closeTradeId = Some (dt_id t), sr_sellAmountRaw = Some sellRaw\<rparr>"

definition send_exit_swap ::
  "dex_io \<Rightarrow> string \<Rightarrow> dex_trade \<Rightarrow> dex_reason \<Rightarrow> number \<Rightarrow> PersonalSwapRequest \<Rightarrow> dex_watch \<Rightarrow> dex_watch" where
  "send_exit_swap io st t reason pct req s =
     (let u = dt_userId t;
          s1 = s\<lparr>dw_cooldown := (dw_cooldown s)(dt_id t := Some (di_now io)), dw_requests := dw_requests s @ [(u, req)]\<rparr> in
      case executePersonalSwap (di_contracts io) (di_col io) (di_now io) (di_hasWallet io u) u st req
             \<lparr>ws_chain = dw_chain s u, ws_trades = dw_trades s, ws_swaps = []\<rparr> of
        (Inr res, w) \<Rightarrow> s1\<lparr>dw_chain := (dw_chain s)(u := ws_chain w), dw_trades := ws_trades w,
                            dw_events := dw_events s @ [DexSold (dt_id t) reason pct res]\<rparr>
      | (Inl er, w) \<Rightarrow> s1\<lparr>dw_cooldown := (dw_cooldown s)(dt_id t := None), dw_chain := (dw_chain s)(u := ws_chain w),
                            dw_trades := ws_trades w, dw_events := dw_events s @ [DexExitFailed (dt_id t) er]\<rparr>)"

definition cancel_row :: "nat \<Rightarrow> dex_watch \<Rightarrow> dex_watch" where
  "cancel_row i s = s\<lparr>dw_trades := update_where (\<lambda>r. dt_id r = i) (\<lambda>r. r\<lparr>dt_status := CANCELLED\<rparr>) (dw_trades s)\<rparr>"

text \<open>The exit of a position whose price, balance and lot are known; none when the unit conversion
  throws, which ends the run.\<close>

definition exit_known :: "dex_env \<Rightarrow> dex_io \<Rightarrow> string \<Rightarrow> dex_trade \<Rightarrow> BscTokenSpec \<Rightarrow> number \<Rightarrow> int \<Rightarrow> dex_watch \<Rightarrow> dex_watch option" where
  "exit_known e io st t token mark balanceRaw s =
     (let ct = di_contracts io; entry = dt_entryPrice t; buyAlloc = nullish (dt_allocationUsd t) (Fin 0) in
      case dex_sell_raw ct token (lot_qty t) balanceRaw of
        None \<Rightarrow> None
      | Some sellRaw \<Rightarrow>
          let sellAmount = units_number ct sellRaw (tk_decimals token) in
          if sellAmount \<le> LOT_QTY_EPS then Some s
          else case quoteTokenToUsdt (ct_formatUnits ct) (ct_getAmountsOut ct (dw_chain s (dt_userId t))) token sellRaw of
            None \<Rightarrow> Some s
          | Some (_, exitPriceUsd) \<Rightarrow>
              let pancakePct = pct_above exitPriceUsd entry;
                  estNetUsd = estimatedNetRoundTripUsd (if Fin 0 < buyAlloc then buyAlloc else sellAmount * entry) entry
                                exitPriceUsd (de_slippageBps e) BSC_DEX_ROUND_TRIP_GAS_USD;
                  closes = fetchBinanceKlineCloses (di_klines io) (nullish (tk_binanceSymbol token) []) in
              (case dex_exit_reason e closes (pct_above mark entry) pancakePct estNetUsd of
                 None \<Rightarrow> Some s
               | Some reason \<Rightarrow> Some (send_exit_swap io st t reason pancakePct (exit_request e t token sellAmount sellRaw) s)))"

definition tryExitOpenTrade :: "dex_env \<Rightarrow> dex_io \<Rightarrow> string \<Rightarrow> dex_trade \<Rightarrow> dex_watch \<Rightarrow> dex_watch option" where
  "tryExitOpenTrade e io st t s =
     (let u = dt_userId t; entry = dt_entryPrice t in
      if di_now io - nullish (dw_cooldown s (dt_id t)) 0 < COOLDOWN_MS then Some s
      else case watched_token t of
        None \<Rightarrow> Some s
      | Some token \<Rightarrow>
          if \<not> is_finite entry \<or> entry \<le> Fin 0 then Some s
          else case fetchMarkPrice (di_price io) (tk_binanceSymbol token) of
            None \<Rightarrow> Some s
          | Some mark \<Rightarrow>
              let lotQty = lot_qty t;
                  walletBal = getPersonalWalletTokenBalance (ct_formatUnits (di_contracts io)) (di_hasWallet io u)
                                (if di_rpcUp io then Some (dw_chain s u) else None) (tk_symbol token) in
              if LOT_QTY_EPS < lotQty \<and> walletBal < lotQty * lit (1/20) then Some (cancel_row (dt_id t) s)
              else
                let balanceRaw = getPersonalWalletTokenBalanceRaw (di_hasWallet io u)
                                   (if di_rpcUpRaw io then Some (dw_chain s u) else None) (tk_symbol token) in
                if balanceRaw \<le> 0 then Some s else exit_known e io st t token mark balanceRaw s)"

fun watch_rows :: "dex_env \<Rightarrow> (nat \<Rightarrow> dex_io) \<Rightarrow> string \<Rightarrow> nat \<Rightarrow> dex_trade list \<Rightarrow> dex_watch \<Rightarrow> dex_watch" where
  "watch_rows e io st n [] s = s"
| "watch_rows e io st n (t # ts) s =
     (case tryExitOpenTrade e (io n) st t s of None \<Rightarrow> s | Some s' \<Rightarrow> watch_rows e io st (Suc n) ts s')"

definition runDexOpenPositionWatcher :: "dex_env \<Rightarrow> (nat \<Rightarrow> dex_io) \<Rightarrow> string \<Rightarrow> dex_watch \<Rightarrow> dex_watch" where
  "runDexOpenPositionWatcher e io st s =
     (if \<not> de_serverAutoExit e \<or> \<not> de_walletEnabled e then s
      else watch_rows e io st 0
             (take 40 (find_many (\<lambda>t. dt_strategyId t = st \<and> dt_status t = OPEN) (order_asc dt_createdAt) (dw_trades s))) s)"

section \<open>The signal\<close>

text \<open>The relative strength value of the trend signal is NaN or between 0 and 100 for any prices, and
  when the filter is on, a BUY needs it below the buy limit and a SELL above the sell limit.\<close>

theorem trend_signal_respects_filter:
  assumes "computeTrendRsiSignal closes opts = (sig, m, Some r)" "so_useRsiFilter opts"
  shows "(r = NaN \<or> Fin 0 \<le> r \<and> r \<le> Fin 100) \<and> (sig = DexBuy \<longrightarrow> r < so_rsiBuyMax opts) \<and> (sig = DexSell \<longrightarrow> so_rsiSellMin opts < r)"
proof -
  have r: "dex_rsi closes 14 = Some r" using assms(1) by (auto simp: computeTrendRsiSignal_def Let_def split: option.splits if_splits)
  obtain g l where gl: "foldl (gain_loss_step closes) (Fin 0, Fin 0) [length closes - 14..<length closes] = (g, l)" by fastforce
  define ag where "ag = g / count_number 14"
  define al where "al = l / count_number 14"
  have n14: "nonneg (count_number 14)" by (simp add: count_number_def nonneg_def fl_nonneg)
  have nn: "nonneg ag" "nonneg al"
    using gain_loss_nonneg [of "Fin 0" "Fin 0" closes "[length closes - 14..<length closes]"] gl
    by (auto simp: ag_def al_def n14 intro!: nonneg_divide)
  have "r = (if js_eq al (Fin 0) then (if js_eq ag (Fin 0) then Fin 50 else Fin 100) else rsi_value ag al)"
    using r gl by (auto simp: dex_rsi_def Let_def ag_def al_def rsi_value_def split: if_splits)
  then have "r = NaN \<or> Fin 0 \<le> r \<and> r \<le> Fin 100" using rsi_value_range [OF nn] by auto
  moreover have "(sig = DexBuy \<longrightarrow> r < so_rsiBuyMax opts) \<and> (sig = DexSell \<longrightarrow> so_rsiSellMin opts < r)"
    using assms r by (auto simp: computeTrendRsiSignal_def Let_def split: option.splits if_splits)
  ultimately show ?thesis by blast
qed

section \<open>The watcher\<close>

lemma cap_to_lot_range:
  assumes "cap_to_lot ct d eps q raw = Some r" "0 \<le> raw"
  shows "0 \<le> r \<and> r \<le> raw"
proof -
  have "0 \<le> sellAmountRawFromBalance c \<and> (c < raw \<longrightarrow> sellAmountRawFromBalance c \<le> raw)" for c
    using sell_amount_range(3,4) [of c] assms(2) by auto
  then show ?thesis using assms by (auto simp: cap_to_lot_def Let_def split: if_splits option.splits)
qed

lemma cap_to_lot_cap:
  assumes "cap_to_lot ct d eps q raw = Some r" "eps < q"
  shows "\<exists>lotRaw. ct_parseUnits ct (to_fixed q (min 12 d)) d = Some lotRaw \<and> r \<le> max 0 (lotRaw * 102 div 100)"
proof -
  have "sellAmountRawFromBalance c \<le> max 0 c" for c by (rule sell_amount_range(3))
  then show ?thesis using assms by (auto simp: cap_to_lot_def Let_def split: if_splits option.splits)
qed

definition raw_balance :: "dex_io \<Rightarrow> dex_trade \<Rightarrow> BscTokenSpec \<Rightarrow> dex_watch \<Rightarrow> int" where
  "raw_balance io t token s = getPersonalWalletTokenBalanceRaw (di_hasWallet io (dt_userId t))
     (if di_rpcUpRaw io then Some (dw_chain s (dt_userId t)) else None) (tk_symbol token)"

definition wallet_balance :: "dex_io \<Rightarrow> dex_trade \<Rightarrow> BscTokenSpec \<Rightarrow> dex_watch \<Rightarrow> number" where
  "wallet_balance io t token s = getPersonalWalletTokenBalance (ct_formatUnits (di_contracts io)) (di_hasWallet io (dt_userId t))
     (if di_rpcUp io then Some (dw_chain s (dt_userId t)) else None) (tk_symbol token)"

lemma send_exit_requests:
  "dw_requests (send_exit_swap io st t reason pct req s) = dw_requests s @ [(dt_userId t, req)]"
  by (auto simp: send_exit_swap_def Let_def split: prod.splits sum.splits)

lemma exit_known_requests:
  assumes "exit_known e io st t token mark b s = Some s'" "dw_requests s' \<noteq> dw_requests s"
  shows "\<exists>raw amount. dex_sell_raw (di_contracts io) token (lot_qty t) b = Some raw \<and>
     dw_requests s' = dw_requests s @ [(dt_userId t, exit_request e t token amount raw)]"
  using assms by (auto simp: exit_known_def Let_def send_exit_requests split: option.splits if_splits prod.splits)

lemma tryExit_requests:
  assumes "tryExitOpenTrade e io st t s = Some s'" "dw_requests s' \<noteq> dw_requests s"
  shows "\<exists>token mark. watched_token t = Some token \<and> 0 < raw_balance io t token s \<and>
     exit_known e io st t token mark (raw_balance io t token s) s = Some s' \<and>
     COOLDOWN_MS \<le> di_now io - nullish (dw_cooldown s (dt_id t)) 0"
  using assms by (auto simp: tryExitOpenTrade_def Let_def raw_balance_def cancel_row_def split: option.splits if_splits)

lemma sent_exit_outcome:
  "(\<exists>reason pct res. dw_events (send_exit_swap io st t r p req s) = dw_events s @ [DexSold (dt_id t) reason pct res]) \<and>
     dw_cooldown (send_exit_swap io st t r p req s) = (dw_cooldown s)(dt_id t := Some (di_now io)) \<or>
   (\<exists>er. dw_events (send_exit_swap io st t r p req s) = dw_events s @ [DexExitFailed (dt_id t) er]) \<and>
     dw_cooldown (send_exit_swap io st t r p req s) = (dw_cooldown s)(dt_id t := None)"
  by (auto simp: send_exit_swap_def Let_def split: prod.splits sum.splits)

lemma exit_known_outcome:
  assumes "exit_known e io st t token mark b s = Some s'" "dw_requests s' \<noteq> dw_requests s"
  shows "(\<exists>reason pct res. dw_events s' = dw_events s @ [DexSold (dt_id t) reason pct res]) \<and>
     dw_cooldown s' = (dw_cooldown s)(dt_id t := Some (di_now io)) \<or>
   (\<exists>er. dw_events s' = dw_events s @ [DexExitFailed (dt_id t) er]) \<and> dw_cooldown s' = (dw_cooldown s)(dt_id t := None)"
proof -
  obtain r p req where "s' = send_exit_swap io st t r p req s"
    using assms by (auto simp: exit_known_def Let_def split: option.splits if_splits prod.splits)
  then show ?thesis using sent_exit_outcome by simp
qed

text \<open>C30: what a look at a position may send: at most one request, a sale that closes this row, of no more than the tokens
  the wallet holds (99.85 percent of them when it is more than one unit) and, when the booked lot counts more than
  the smallest quantity, of no more than 102 percent of the lot; and only when the time of the last exit of this
  position that is remembered is at least 45 seconds ago. When the sale succeeds this time becomes that of the look, so
  that no further exit follows within 45 seconds; when it fails the position has no such time, so that the next look may
  try again. Other positions keep theirs.\<close>

theorem dex_exit_sells_within_lot:
  assumes "tryExitOpenTrade e io st t s = Some s'" "dw_requests s' \<noteq> dw_requests s"
  shows "\<exists>token req raw. watched_token t = Some token \<and> dw_requests s' = dw_requests s @ [(dt_userId t, req)] \<and>
     sr_side req = SwapSell \<and> sr_closeTradeId req = Some (dt_id t) \<and> sr_sellAmountRaw req = Some raw \<and>
     0 \<le> raw \<and> raw \<le> raw_balance io t token s \<and>
     (1 < raw_balance io t token s \<longrightarrow> raw * 10000 \<le> raw_balance io t token s * 9985) \<and>
     (LOT_QTY_EPS < lot_qty t \<longrightarrow> (\<exists>lotRaw. ct_parseUnits (di_contracts io) (to_fixed (lot_qty t) (min 12 (tk_decimals token))) (tk_decimals token) =
        Some lotRaw \<and> raw \<le> max 0 (lotRaw * 102 div 100))) \<and>
     45000 \<le> di_now io - nullish (dw_cooldown s (dt_id t)) 0 \<and>
     ((\<exists>reason pct res. dw_events s' = dw_events s @ [DexSold (dt_id t) reason pct res]) \<and>
        dw_cooldown s' = (dw_cooldown s)(dt_id t := Some (di_now io)) \<or>
      (\<exists>er. dw_events s' = dw_events s @ [DexExitFailed (dt_id t) er]) \<and> dw_cooldown s' = (dw_cooldown s)(dt_id t := None))"
proof -
  obtain token mark where k: "watched_token t = Some token" "0 < raw_balance io t token s"
    "exit_known e io st t token mark (raw_balance io t token s) s = Some s'"
    "COOLDOWN_MS \<le> di_now io - nullish (dw_cooldown s (dt_id t)) 0" using tryExit_requests [OF assms] by blast
  let ?b = "raw_balance io t token s"
  obtain raw amount where r: "dex_sell_raw (di_contracts io) token (lot_qty t) ?b = Some raw"
    "dw_requests s' = dw_requests s @ [(dt_userId t, exit_request e t token amount raw)]"
    using exit_known_requests [OF k(3) assms(2)] by blast
  have raw: "0 \<le> raw \<and> raw \<le> sellAmountRawFromBalance ?b" "LOT_QTY_EPS < lot_qty t \<longrightarrow>
      (\<exists>lotRaw. ct_parseUnits (di_contracts io) (to_fixed (lot_qty t) (min 12 (tk_decimals token))) (tk_decimals token) =
        Some lotRaw \<and> raw \<le> max 0 (lotRaw * 102 div 100))"
    using r(1) cap_to_lot_range cap_to_lot_cap sell_amount_range(4) unfolding dex_sell_raw_def by blast+
  moreover have "sellAmountRawFromBalance ?b \<le> ?b" "1 < ?b \<Longrightarrow> sellAmountRawFromBalance ?b * 10000 \<le> ?b * 9985"
    using sell_amount_range(1,2) [of ?b] k(2) by auto
  ultimately show ?thesis using k r(2) exit_known_outcome [OF k(3) assms(2)]
    by (intro exI [of _ token] exI [of _ "exit_request e t token amount raw"] exI [of _ raw])
       (auto simp: exit_request_def COOLDOWN_MS_def)
qed

lemma tryExit_known:
  assumes "COOLDOWN_MS \<le> di_now io - nullish (dw_cooldown s (dt_id t)) 0" "watched_token t = Some token"
    and "is_finite (dt_entryPrice t)" "Fin 0 < dt_entryPrice t"
    and "fetchMarkPrice (di_price io) (tk_binanceSymbol token) = Some mark"
    and "\<not> wallet_balance io t token s < lot_qty t * lit (1/20)" "0 < raw_balance io t token s"
  shows "tryExitOpenTrade e io st t s = exit_known e io st t token mark (raw_balance io t token s) s"
proof -
  have "\<not> dt_entryPrice t \<le> Fin 0" using assms(4) by (cases "dt_entryPrice t") auto
  then show ?thesis using assms unfolding tryExitOpenTrade_def Let_def raw_balance_def wallet_balance_def by simp
qed

lemma exit_known_stop_loss:
  assumes "pct_above mark (dt_entryPrice t) \<le> - de_stopLossPct e" "dex_sell_raw (di_contracts io) token (lot_qty t) b = Some raw"
    and "\<not> units_number (di_contracts io) raw (tk_decimals token) \<le> LOT_QTY_EPS"
    and "quoteTokenToUsdt (ct_formatUnits (di_contracts io)) (ct_getAmountsOut (di_contracts io) (dw_chain s (dt_userId t))) token raw = Some q"
  shows "\<exists>r pct amount. exit_known e io st t token mark b s = Some (send_exit_swap io st t r pct (exit_request e t token amount raw) s)"
proof -
  obtain usdt px where q: "q = (usdt, px)" by fastforce
  have "\<exists>r. dex_exit_reason e cl (pct_above mark (dt_entryPrice t)) p n = Some r" for cl p n
    using assms(1) by (simp add: dex_exit_reason_def)
  then obtain r where r: "dex_exit_reason e (fetchBinanceKlineCloses (di_klines io) (nullish (tk_binanceSymbol token) []))
      (pct_above mark (dt_entryPrice t)) (pct_above px (dt_entryPrice t))
      (estimatedNetRoundTripUsd (if Fin 0 < nullish (dt_allocationUsd t) (Fin 0) then nullish (dt_allocationUsd t) (Fin 0)
         else units_number (di_contracts io) raw (tk_decimals token) * dt_entryPrice t) (dt_entryPrice t) px (de_slippageBps e)
         BSC_DEX_ROUND_TRIP_GAS_USD) = Some r" by blast
  show ?thesis using assms(2-4) q unfolding exit_known_def Let_def by (simp add: r) blast
qed

text \<open>C29: the stop loss is sent: when the market price has fallen by the stop percentage, the wallet still
  holds the lot, the cooldown is over and the router quotes a price, the look at the position ends with
  a sale request that closes it.\<close>

theorem dex_stop_loss_is_sent:
  assumes "COOLDOWN_MS \<le> di_now io - nullish (dw_cooldown s (dt_id t)) 0" "watched_token t = Some token"
    and "is_finite (dt_entryPrice t)" "Fin 0 < dt_entryPrice t"
    and "fetchMarkPrice (di_price io) (tk_binanceSymbol token) = Some mark" "pct_above mark (dt_entryPrice t) \<le> - de_stopLossPct e"
    and "\<not> wallet_balance io t token s < lot_qty t * lit (1/20)" "0 < raw_balance io t token s"
    and "dex_sell_raw (di_contracts io) token (lot_qty t) (raw_balance io t token s) = Some raw"
    and "\<not> units_number (di_contracts io) raw (tk_decimals token) \<le> LOT_QTY_EPS"
    and "quoteTokenToUsdt (ct_formatUnits (di_contracts io)) (ct_getAmountsOut (di_contracts io) (dw_chain s (dt_userId t))) token raw = Some q"
  shows "\<exists>s' req. tryExitOpenTrade e io st t s = Some s' \<and> dw_requests s' = dw_requests s @ [(dt_userId t, req)] \<and>
     sr_side req = SwapSell \<and> sr_closeTradeId req = Some (dt_id t) \<and> sr_sellAmountRaw req = Some raw"
proof -
  obtain r pct amount where x: "exit_known e io st t token mark (raw_balance io t token s) s =
      Some (send_exit_swap io st t r pct (exit_request e t token amount raw) s)"
    using exit_known_stop_loss [OF assms(6,9-11), of st] by blast
  show ?thesis unfolding tryExit_known [OF assms(1-5,7,8)] x
    by (intro exI [of _ "send_exit_swap io st t r pct (exit_request e t token amount raw) s"]
        exI [of _ "exit_request e t token amount raw"]) (simp add: send_exit_requests exit_request_def)
qed

text \<open>A node that does not answer looks like an empty wallet: the balance read that fails counts as
  zero, and the look at a healthy position then cancels its row, after which no later run watches it.\<close>

theorem unreadable_balance_cancels_position:
  assumes "COOLDOWN_MS \<le> di_now io - nullish (dw_cooldown s (dt_id t)) 0" "watched_token t = Some token"
    and "is_finite (dt_entryPrice t)" "Fin 0 < dt_entryPrice t"
    and "fetchMarkPrice (di_price io) (tk_binanceSymbol token) = Some mark"
    and "LOT_QTY_EPS < lot_qty t" "di_hasWallet io (dt_userId t)" "\<not> di_rpcUp io"
  shows "tryExitOpenTrade e io st t s = Some (cancel_row (dt_id t) s)"
proof -
  have ne: "\<not> dt_entryPrice t \<le> Fin 0" using assms(4) by (cases "dt_entryPrice t") auto
  obtain c where c: "lit (1/20) = Fin c" "0 < c" and p: "Fin 0 < LOT_QTY_EPS * lit (1/20)"
  proof -
    have "Fin 0 < lit (1/20)" "lit (1/20) < Fin 1" "Fin 0 < LOT_QTY_EPS * lit (1/20)" by code_simp+
    then show thesis using that by (cases "lit (1/20)") auto
  qed
  have "LOT_QTY_EPS * Fin c \<le> lot_qty t * Fin c" using number_mult_pos_mono [OF number_less_imp_le [OF assms(6)] c(2)] .
  then have "Fin 0 < lot_qty t * lit (1/20)" using number_less_le_trans p c(1) by simp
  moreover have "wallet_balance io t token s = Fin 0"
    using assms(7,8) by (simp add: wallet_balance_def getPersonalWalletTokenBalance_def readPersonalWalletTokenBalanceRaw_def split: option.splits)
  ultimately show ?thesis using assms(1-6) ne unfolding tryExitOpenTrade_def Let_def wallet_balance_def by simp
qed

subsection \<open>A falling position\<close>

definition falling_contracts :: contracts where
  "falling_contracts = demo_contracts\<lparr>ct_getAmountsOut := \<lambda>_ a p. Some [a, a + a div 2]\<rparr>"

definition demo_watch :: dex_watch where
  "demo_watch = \<lparr>dw_cooldown = (\<lambda>_. None), dw_chain = (\<lambda>_. ws_chain demo_wallet), dw_trades = [demo_lot], dw_requests = [], dw_events = []\<rparr>"

definition falling_io :: dex_io where
  "falling_io = \<lparr>di_now = 100000, di_price = (\<lambda>_. Some (Some ''1.5'')), di_klines = (\<lambda>_. None), di_hasWallet = (\<lambda>_. True),
     di_rpcUp = True, di_rpcUpRaw = True, di_contracts = falling_contracts, di_col = id\<rparr>"

definition demo_dex_env :: dex_env where
  "demo_dex_env = \<lparr>de_serverAutoExit = True, de_walletEnabled = True, de_takeProfitPct = Fin 1, de_stopLossPct = Fin 1,
     de_signalMinProfitPct = Fin 1, de_slippageBps = Fin 100, de_minNetUsd = lit (5/100), de_thresholdFrac = lit (8/10000)\<rparr>"

lemma falling_values:
  "watched_token demo_lot = Some demo_eth"
  "fetchMarkPrice (di_price falling_io) (tk_binanceSymbol demo_eth) = Some (Fin (3/2))"
  "pct_above (Fin (3/2)) (dt_entryPrice demo_lot) \<le> - de_stopLossPct demo_dex_env"
  "raw_balance falling_io demo_lot demo_eth demo_watch = 2 * 10 ^ 18"
  "lot_qty demo_lot = Fin 1" "LOT_QTY_EPS < Fin 1"
  by code_simp+

lemma falling_values2:
  "\<not> wallet_balance falling_io demo_lot demo_eth demo_watch < lot_qty demo_lot * lit (1/20)"
  by code_simp

lemma falling_values3:
  "dex_sell_raw falling_contracts demo_eth (Fin 1) (2 * 10 ^ 18) = Some 1018470000000000000"
  by code_simp

lemma falling_values4:
  "\<not> units_number falling_contracts 1018470000000000000 18 \<le> LOT_QTY_EPS"
  "quoteTokenToUsdt fixed_text (\<lambda>a p. Some [a, a + a div 2]) demo_eth 1018470000000000000 \<noteq> None"
  by code_simp+

lemma falling_fields [simp]:
  "di_contracts falling_io = falling_contracts" "ct_formatUnits falling_contracts = fixed_text"
  "ct_getAmountsOut falling_contracts = (\<lambda>_ a p. Some [a, a + a div 2])" "dt_userId demo_lot = ''u''" "dt_id demo_lot = 3"
  "di_now falling_io = 100000" "dw_cooldown demo_watch = (\<lambda>_. None)" "dt_entryPrice demo_lot = Fin 2" "tk_decimals demo_eth = 18"
  "dw_requests demo_watch = []"
  by (simp_all add: falling_io_def falling_contracts_def demo_contracts_def demo_lot_def demo_watch_def demo_eth_def)

lemmas falling_facts = falling_values falling_values2 falling_values3 falling_values4(1)

theorem dex_stop_loss_is_sent_witness:
  "\<exists>s' req. tryExitOpenTrade demo_dex_env falling_io ''st'' demo_lot demo_watch = Some s' \<and> dw_requests s' = [(''u'', req)] \<and>
     sr_sellAmountRaw req = Some 1018470000000000000"
proof -
  obtain q where q: "quoteTokenToUsdt fixed_text (\<lambda>a p. Some [a, a + a div 2]) demo_eth 1018470000000000000 = Some q"
    using falling_values4(2) by blast
  show ?thesis
    using dex_stop_loss_is_sent [of falling_io demo_watch demo_lot demo_eth "Fin (3/2)" demo_dex_env 1018470000000000000 q "''st''"]
      falling_facts q by (auto simp: COOLDOWN_MS_def)
qed

theorem dex_exit_sells_within_lot_witness:
  "\<exists>s' req raw. tryExitOpenTrade demo_dex_env falling_io ''st'' demo_lot demo_watch = Some s' \<and> dw_requests s' = [(''u'', req)] \<and>
     sr_sellAmountRaw req = Some raw \<and> raw * 10000 \<le> 2 * 10 ^ 18 * 9985"
proof -
  obtain q where q: "quoteTokenToUsdt fixed_text (\<lambda>a p. Some [a, a + a div 2]) demo_eth 1018470000000000000 = Some q"
    using falling_values4(2) by blast
  have "tryExitOpenTrade demo_dex_env falling_io ''st'' demo_lot demo_watch =
      exit_known demo_dex_env falling_io ''st'' demo_lot demo_eth (Fin (3/2)) (2 * 10 ^ 18) demo_watch"
    using tryExit_known [of falling_io demo_watch demo_lot demo_eth "Fin (3/2)"] falling_facts by (simp add: COOLDOWN_MS_def)
  moreover obtain r pct am where "exit_known demo_dex_env falling_io ''st'' demo_lot demo_eth (Fin (3/2)) (2 * 10 ^ 18) demo_watch =
      Some (send_exit_swap falling_io ''st'' demo_lot r pct (exit_request demo_dex_env demo_lot demo_eth am 1018470000000000000) demo_watch)"
    using exit_known_stop_loss [of "Fin (3/2)" demo_lot demo_dex_env falling_io demo_eth "2 * 10 ^ 18" 1018470000000000000 demo_watch q "''st''"]
      falling_facts q by auto
  ultimately obtain s' where s': "tryExitOpenTrade demo_dex_env falling_io ''st'' demo_lot demo_watch = Some s'"
    "dw_requests s' \<noteq> dw_requests demo_watch" using send_exit_requests by auto
  from dex_exit_sells_within_lot [OF s'] s'(1) falling_values(1,4) show ?thesis by auto
qed

theorem unreadable_balance_cancels_position_witness:
  "map dt_status (dw_trades (the (tryExitOpenTrade demo_dex_env (falling_io\<lparr>di_rpcUp := False\<rparr>) ''st'' demo_lot demo_watch))) = [CANCELLED]"
proof -
  have "tryExitOpenTrade demo_dex_env (falling_io\<lparr>di_rpcUp := False\<rparr>) ''st'' demo_lot demo_watch = Some (cancel_row (dt_id demo_lot) demo_watch)"
    by (rule unreadable_balance_cancels_position [of _ _ _ demo_eth "Fin (3/2)"])
       (use falling_values in \<open>simp_all add: COOLDOWN_MS_def falling_io_def\<close>)
  then show ?thesis by (simp add: cancel_row_def update_where_def demo_watch_def)
qed

theorem trend_signal_respects_filter_witness:
  "\<exists>r. snd (snd (computeTrendRsiSignal (replicate 20 (Fin 5)) \<lparr>so_smaPeriod = 8, so_threshold = Fin 1, so_useRsiFilter = True,
      so_rsiBuyMax = Fin 70, so_rsiSellMin = Fin 28\<rparr>)) = Some r \<and> (r = NaN \<or> Fin 0 \<le> r \<and> r \<le> Fin 100)"
proof -
  define op1 where "op1 = \<lparr>so_smaPeriod = 8, so_threshold = Fin 1, so_useRsiFilter = True, so_rsiBuyMax = Fin 70, so_rsiSellMin = Fin 28\<rparr>"
  obtain sig m rr where c: "computeTrendRsiSignal (replicate 20 (Fin 5)) op1 = (sig, m, rr)" by (metis prod_cases3)
  have "rr \<noteq> None"
  proof -
    have "rr = dex_rsi (replicate 20 (Fin 5)) 14"
      using c by (auto simp: computeTrendRsiSignal_def Let_def split: option.splits if_splits)
    then show ?thesis by (simp add: dex_rsi_def Let_def split: prod.splits)
  qed
  then obtain r where r: "rr = Some r" by blast
  show ?thesis using trend_signal_respects_filter [OF c [unfolded r]] c r by (simp add: op1_def)
qed

end
