(* ===== verification/JupiterBook.thy ===== *)
theory JupiterBook
  imports RoundTripPnl RiskRules ExitSettings "HOL-Library.Multiset"
begin

text \<open>
  The trade book of the Jupiter swaps and its upkeep, the first half of
  \<open>src/src/services/dex/jupiterSwapService.ts\<close>: merging duplicate open rows of a pair, correcting rows
  inflated by bursts of duplicate submissions, dropping or scaling rows the wallet no longer backs, the
  average entry of a pair and the list of open positions. The table is a list of rows; \<open>col\<close> is what a
  decimal column gives back of a number written to it. The wallet, the token registry and the prices are
  parameters; log lines are left out.
\<close>

section \<open>Rows\<close>

record jupiter_trade =
  jt_id :: string
  jt_user :: user_id
  jt_strategy :: string
  jt_pair :: string
  jt_entryPrice :: number
  jt_exitPrice :: "number option"
  jt_pnl :: "number option"
  jt_allocationUsd :: "number option"
  jt_status :: trade_status
  jt_takeProfitPct :: "number option"
  jt_stopLossPct :: "number option"
  jt_trailingStop :: "bool option"
  jt_createdAt :: time

definition open_of :: "user_id \<Rightarrow> string \<Rightarrow> jupiter_trade \<Rightarrow> bool" where
  "open_of u st t \<longleftrightarrow> jt_user t = u \<and> jt_strategy t = st \<and> jt_status t = OPEN"

definition cancel_ids :: "string list \<Rightarrow> jupiter_trade list \<Rightarrow> jupiter_trade list" where
  "cancel_ids ids rows = update_where (\<lambda>r. List.member ids (jt_id r) \<and> jt_status r = OPEN) (\<lambda>r. r\<lparr>jt_status := CANCELLED\<rparr>) rows"

definition alloc_of :: "jupiter_trade \<Rightarrow> number" where
  "alloc_of t = nullish (jt_allocationUsd t) (Fin 0)"

text \<open>Running totals over rows: allocation and allocation-weighted entry, and the profit banked by
  earlier skims.\<close>

definition add_lot :: "number \<times> number \<Rightarrow> jupiter_trade \<Rightarrow> number \<times> number" where
  "add_lot = (\<lambda>(totalAlloc, weighted) t.
     if Fin 0 < alloc_of t \<and> Fin 0 < jt_entryPrice t
     then (totalAlloc + alloc_of t, weighted + jt_entryPrice t * alloc_of t) else (totalAlloc, weighted))"

definition add_banked :: "number \<Rightarrow> jupiter_trade \<Rightarrow> number" where
  "add_banked banked t =
     (let skim = nullish (jt_pnl t) (Fin 0) in if is_finite skim \<and> Fin 0 < skim then banked + skim else banked)"

section \<open>Grouping, as a \<open>Map\<close> of lists in order of insertion\<close>

fun add_group :: "'k \<Rightarrow> 'a \<Rightarrow> ('k \<times> 'a list) list \<Rightarrow> ('k \<times> 'a list) list" where
  "add_group k x [] = [(k, [x])]"
| "add_group k x ((k', xs) # gs) = (if k' = k then (k', xs @ [x]) # gs else (k', xs) # add_group k x gs)"

definition group_by :: "('a \<Rightarrow> 'k) \<Rightarrow> 'a list \<Rightarrow> ('k \<times> 'a list) list" where
  "group_by f xs = foldl (\<lambda>gs x. add_group (f x) x gs) [] xs"

section \<open>Average entry of the open rows of a pair\<close>

definition getJupiterOpenEntry :: "string \<Rightarrow> user_id \<Rightarrow> string \<Rightarrow> jupiter_trade list \<Rightarrow> (number \<times> number) option" where
  "getJupiterOpenEntry st u baseSymbol rows =
     (let opens = filter (\<lambda>t. open_of u st t \<and> jt_pair t = to_upper baseSymbol @ ''/USDT'') rows in
      if opens = [] then None
      else case foldl add_lot (Fin 0, Fin 0) opens of (totalAlloc, weighted) \<Rightarrow>
        if totalAlloc \<le> Fin 0 then None else Some (weighted / totalAlloc, totalAlloc))"

section \<open>Merging duplicate open rows\<close>

definition merged_primary :: "(number \<Rightarrow> number) \<Rightarrow> jupiter_trade list \<Rightarrow> jupiter_trade \<Rightarrow> jupiter_trade" where
  "merged_primary col trades r =
     (let primary = hd trades;
          (totalAlloc, weighted) = foldl add_lot (Fin 0, Fin 0) trades;
          bankedSkim = foldl add_banked (Fin 0) trades;
          avgEntry = (if Fin 0 < totalAlloc \<and> Fin 0 < weighted then weighted / totalAlloc else jt_entryPrice primary) in
      r\<lparr>jt_allocationUsd := (if Fin 0 < totalAlloc then Some (col totalAlloc) else jt_allocationUsd primary),
        jt_entryPrice := col avgEntry,
        jt_pnl := (if Fin 0 < bankedSkim then Some (col bankedSkim) else jt_pnl r)\<rparr>)"

definition merge_group :: "(number \<Rightarrow> number) \<Rightarrow> jupiter_trade list \<Rightarrow> jupiter_trade list \<Rightarrow> jupiter_trade list" where
  "merge_group col trades rows =
     cancel_ids (map jt_id (tl trades))
       (update_where (\<lambda>r. jt_id r = jt_id (hd trades)) (merged_primary col trades) rows)"

definition merge_step :: "(number \<Rightarrow> number) \<Rightarrow> nat \<times> jupiter_trade list \<Rightarrow> string \<times> jupiter_trade list \<Rightarrow> nat \<times> jupiter_trade list" where
  "merge_step col = (\<lambda>(cancelled, rows) (pair, trades).
     if length trades \<le> 1 then (cancelled, rows)
     else (cancelled + length (tl trades), merge_group col trades rows))"

definition mergeDuplicateJupiterOpenTrades ::
  "(number \<Rightarrow> number) \<Rightarrow> string \<Rightarrow> user_id \<Rightarrow> jupiter_trade list \<Rightarrow> nat \<times> jupiter_trade list" where
  "mergeDuplicateJupiterOpenTrades col st u rows =
     (let opens = find_many (open_of u st) (order_asc jt_createdAt) rows in
      if length opens < 2 then (0, rows)
      else foldl (merge_step col) (0, rows) (group_by jt_pair opens))"

section \<open>Bursts of duplicate submissions\<close>

definition BURST_DEDUPE_MS :: int where "BURST_DEDUPE_MS = 3 * 60000"

text \<open>The inner loop: the rows after the anchor that continue its burst, and the rest.\<close>

fun take_burst :: "string \<Rightarrow> time \<Rightarrow> jupiter_trade list \<Rightarrow> jupiter_trade list \<times> jupiter_trade list" where
  "take_burst pair prevAt [] = ([], [])"
| "take_burst pair prevAt (t # ts) =
     (if jt_pair t \<noteq> pair then ([], t # ts)
      else if BURST_DEDUPE_MS < jt_createdAt t - prevAt then ([], t # ts)
      else case take_burst pair (jt_createdAt t) ts of (burst, rest) \<Rightarrow> (t # burst, rest))"

lemma take_burst_append: "take_burst p a ts = (b, r) \<Longrightarrow> b @ r = ts"
  by (induction p a ts arbitrary: b r rule: take_burst.induct) (auto split: if_splits prod.splits)

lemma take_burst_length: "(b, r) = take_burst p a ts \<Longrightarrow> length r \<le> length ts"
  using take_burst_append [of p a ts b r] by auto

text \<open>The outer loop: the table cut into bursts.\<close>

function bursts :: "jupiter_trade list \<Rightarrow> jupiter_trade list list" where
  "bursts [] = []"
| "bursts (t # ts) = (case take_burst (jt_pair t) (jt_createdAt t) ts of (b, rest) \<Rightarrow> (t # b) # bursts rest)"
  by pat_completeness auto
termination
  by (relation "measure length") (auto simp: less_Suc_eq_le dest!: take_burst_length)

definition is_primary :: "jupiter_trade \<Rightarrow> bool" where
  "is_primary t \<longleftrightarrow> jt_status t = OPEN \<or> (jt_status t = CLOSED \<and> jt_exitPrice t \<noteq> None)"

definition min_numbers :: "number list \<Rightarrow> number" where
  "min_numbers xs = foldl math_min PInf xs"

definition burst_unit :: "jupiter_trade list \<Rightarrow> number" where
  "burst_unit burst =
     (let unitAllocs = filter (\<lambda>a. Fin (1/2) < a) (map alloc_of (filter (\<lambda>t. jt_status t = CANCELLED) burst)) in
      if unitAllocs = [] then Fin 0 else min_numbers unitAllocs)"

text \<open>What a burst corrects: the row, the single allocation, and the allocation it had.\<close>

definition burst_fix :: "jupiter_trade list \<Rightarrow> (jupiter_trade \<times> number \<times> number) option" where
  "burst_fix burst =
     (if length burst < 2 \<or> filter (\<lambda>t. jt_status t = CANCELLED) burst = [] then None
      else case find is_primary burst of
        None \<Rightarrow> None
      | Some primary \<Rightarrow>
          let unit = burst_unit burst; alloc = alloc_of primary in
          if Fin 0 < unit \<and> unit * Fin (3/2) \<le> alloc then
            (let factor = math_round (alloc / unit) in
             if Fin 2 \<le> factor \<and> math_abs (alloc - unit * factor) / math_max alloc (Fin 1) < lit (1/10)
             then Some (primary, unit, alloc) else None)
          else None)"

definition corrected_row :: "(number \<Rightarrow> number) \<Rightarrow> jupiter_trade \<Rightarrow> number \<Rightarrow> number \<Rightarrow> jupiter_trade \<Rightarrow> jupiter_trade" where
  "corrected_row col primary unit alloc r =
     r\<lparr>jt_allocationUsd := Some (col unit),
       jt_pnl := (case jt_pnl primary of
                    None \<Rightarrow> jt_pnl r
                  | Some oldPnl \<Rightarrow> if is_finite oldPnl then Some (col (round8 (oldPnl * (unit / alloc)))) else jt_pnl r)\<rparr>"

definition burst_step :: "(number \<Rightarrow> number) \<Rightarrow> nat \<times> jupiter_trade list \<Rightarrow> jupiter_trade list \<Rightarrow> nat \<times> jupiter_trade list" where
  "burst_step col = (\<lambda>(fixed, rows) burst.
     case burst_fix burst of
       None \<Rightarrow> (fixed, rows)
     | Some (primary, unit, alloc) \<Rightarrow>
         (fixed + 1, update_where (\<lambda>r. jt_id r = jt_id primary) (corrected_row col primary unit alloc) rows))"

definition reconcileInflatedJupiterBurstTrades ::
  "(number \<Rightarrow> number) \<Rightarrow> string \<Rightarrow> user_id \<Rightarrow> jupiter_trade list \<Rightarrow> nat \<times> jupiter_trade list" where
  "reconcileInflatedJupiterBurstTrades col st u rows =
     (let trades = find_many (\<lambda>t. jt_user t = u \<and> jt_strategy t = st) (order_asc jt_createdAt) rows in
      if length trades < 2 then (0, rows) else foldl (burst_step col) (0, rows) (bursts trades))"

section \<open>Rows the wallet no longer backs\<close>

definition RECONCILE_GRACE_MS :: int where "RECONCILE_GRACE_MS = 5 * 60000"
definition OVERBOOK_DOWNSCALE_RATIO :: number where "OVERBOOK_DOWNSCALE_RATIO = lit (85/100)"

text \<open>\<open>replace(/\/USDT$/i, '')\<close> and \<open>replace(/USDT$/i, '')\<close>.\<close>

definition strip_suffix :: "string \<Rightarrow> string \<Rightarrow> string" where
  "strip_suffix suf s = (let n = length s - length suf in
     if length suf \<le> length s \<and> to_upper (drop n s) = suf then take n s else s)"

definition base_key :: "string \<Rightarrow> string" where
  "base_key pair = to_upper (strip_suffix ''/USDT'' pair)"

record BaseAgg =
  ba_tradeIds :: "string list"
  ba_lotQty :: number
  ba_totalAlloc :: number
  ba_weightedEntrySum :: number
  ba_youngestAt :: int

definition add_agg :: "BaseAgg \<Rightarrow> jupiter_trade \<Rightarrow> BaseAgg" where
  "add_agg row t =
     (let entry = jt_entryPrice t; alloc = alloc_of t;
          qty = (if Fin 0 < entry \<and> Fin 0 < alloc then alloc / entry else Fin 0) in
      case add_lot (ba_totalAlloc row, ba_weightedEntrySum row) t of (totalAlloc, weighted) \<Rightarrow>
        \<lparr>ba_tradeIds = ba_tradeIds row @ [jt_id t], ba_lotQty = ba_lotQty row + qty, ba_totalAlloc = totalAlloc,
         ba_weightedEntrySum = weighted, ba_youngestAt = max (ba_youngestAt row) (jt_createdAt t)\<rparr>)"

definition agg_of :: "jupiter_trade list \<Rightarrow> BaseAgg" where
  "agg_of ts = foldl add_agg \<lparr>ba_tradeIds = [], ba_lotQty = Fin 0, ba_totalAlloc = Fin 0, ba_weightedEntrySum = Fin 0, ba_youngestAt = 0\<rparr> ts"

definition by_base :: "jupiter_trade list \<Rightarrow> (string \<times> BaseAgg) list" where
  "by_base opens = map (\<lambda>(base, ts). (base, agg_of ts))
     (group_by (\<lambda>t. base_key (jt_pair t)) (filter (\<lambda>t. base_key (jt_pair t) \<noteq> []) opens))"

text \<open>What the upkeep reads: the switches, the holdings (none when the read fails), the token of a
  symbol (mint and decimals), and the second balance read (none when it fails).\<close>

record reconcile_io =
  ri_now :: time
  ri_walletEnabled :: bool
  ri_configured :: bool
  ri_holdings :: "(string \<times> number) list option"
  ri_token :: "string \<Rightarrow> (string \<times> nat) option"
  ri_balance :: "string \<Rightarrow> nat \<Rightarrow> number option"
  ri_col :: "number \<Rightarrow> number"

datatype lot_fix = KeepLot | CancelLot "string list" | DownscaleLot string number "string list"

definition held_qty :: "reconcile_io \<Rightarrow> (string \<times> number) list \<Rightarrow> BaseAgg \<Rightarrow> string \<times> nat \<Rightarrow> number" where
  "held_qty io holdings agg = (\<lambda>(mint, decimals).
     let walletQty = nullish (map_of (rev holdings) mint) (Fin 0) in
     if walletQty < ba_lotQty agg * lit (1/20) \<and> ri_now io - ba_youngestAt agg < RECONCILE_GRACE_MS + 90000
     then nullish (ri_balance io mint decimals) walletQty else walletQty)"

definition downscale :: "BaseAgg \<Rightarrow> number \<Rightarrow> lot_fix" where
  "downscale agg walletQty =
     (let avgEntry = (if Fin 0 < ba_totalAlloc agg \<and> Fin 0 < ba_weightedEntrySum agg then ba_weightedEntrySum agg / ba_totalAlloc agg
                      else if Fin 0 < ba_lotQty agg then ba_totalAlloc agg / ba_lotQty agg else Fin 0);
          newAlloc = round8 (walletQty * avgEntry) in
      if Fin 0 < avgEntry \<and> Fin 0 < walletQty \<and> walletQty < ba_lotQty agg * OVERBOOK_DOWNSCALE_RATIO \<and>
         Fin (1/2) < ba_totalAlloc agg \<and> Fin (1/2) < newAlloc \<and> newAlloc + lit (1/100) < ba_totalAlloc agg
      then DownscaleLot (hd (ba_tradeIds agg)) newAlloc (tl (ba_tradeIds agg)) else KeepLot)"

definition lot_decision :: "reconcile_io \<Rightarrow> (string \<times> number) list \<Rightarrow> string \<Rightarrow> BaseAgg \<Rightarrow> lot_fix" where
  "lot_decision io holdings base agg =
     (if ba_lotQty agg \<le> lit (1 / 10 ^ 10) then CancelLot (ba_tradeIds agg)
      else if ri_now io - ba_youngestAt agg < RECONCILE_GRACE_MS then KeepLot
      else case ri_token io (base @ ''USDT'') of
        None \<Rightarrow> KeepLot
      | Some token \<Rightarrow>
          let walletQty = held_qty io holdings agg token in
          if walletQty < ba_lotQty agg * lit (1/20) then CancelLot (ba_tradeIds agg) else downscale agg walletQty)"

text \<open>The loop over the symbols: the rows, the ids to cancel at the end, and the count of scaled lots.\<close>

definition reconcile_base ::
  "reconcile_io \<Rightarrow> (string \<times> number) list \<Rightarrow> jupiter_trade list \<times> string list \<times> nat \<Rightarrow> string \<times> BaseAgg
    \<Rightarrow> jupiter_trade list \<times> string list \<times> nat" where
  "reconcile_base io holdings = (\<lambda>(rows, toCancel, downscaled) (base, agg).
     case lot_decision io holdings base agg of
       KeepLot \<Rightarrow> (rows, toCancel, downscaled)
     | CancelLot ids \<Rightarrow> (rows, toCancel @ ids, downscaled)
     | DownscaleLot primaryId newAlloc extraIds \<Rightarrow>
         (cancel_ids extraIds
            (update_where (\<lambda>r. jt_id r = primaryId) (\<lambda>r. r\<lparr>jt_allocationUsd := Some (ri_col io newAlloc)\<rparr>) rows),
          toCancel, downscaled + 1))"

definition reconcileStaleJupiterOpenTrades ::
  "reconcile_io \<Rightarrow> string \<Rightarrow> user_id \<Rightarrow> jupiter_trade list \<Rightarrow> nat \<times> jupiter_trade list" where
  "reconcileStaleJupiterOpenTrades io st u rows =
     (if \<not> ri_walletEnabled io \<or> \<not> ri_configured io then (0, rows)
      else case reconcileInflatedJupiterBurstTrades (ri_col io) st u rows of (burstFixed, rows1) \<Rightarrow>
        let rows2 = snd (mergeDuplicateJupiterOpenTrades (ri_col io) st u rows1);
            opens = find_many (open_of u st) (order_asc jt_createdAt) rows2 in
        if opens = [] then (0, rows2)
        else case ri_holdings io of
          None \<Rightarrow> (0, rows2)
        | Some holdings \<Rightarrow>
            (case foldl (reconcile_base io holdings) (rows2, [], 0) (by_base opens) of
               (rows3, toCancel, downscaled) \<Rightarrow> (burstFixed + length toCancel + downscaled, cancel_ids toCancel rows3)))"

section \<open>Open positions\<close>

record exit_overrides =
  ov_takeProfitPct :: "number option"
  ov_stopLossPct :: "number option"
  ov_trailingStop :: "bool option"

record position_agg =
  pa_totalAlloc :: number
  pa_weightedEntry :: number
  pa_bankedSkim :: number
  pa_overrides :: exit_overrides

record JupiterOpenPosition =
  po_baseSymbol :: string
  po_binanceSymbol :: string
  po_mint :: string
  po_avgEntry :: number
  po_qty :: number
  po_totalAllocUsd :: number
  po_liveSellPrice :: "number option"
  po_liveMidPrice :: "number option"
  po_currentValueUsd :: "number option"
  po_estNetPnlUsd :: "number option"
  po_breakEvenSellPrice :: "number option"
  po_upsideToBreakEvenPct :: "number option"
  po_priceVsEntryPct :: "number option"
  po_inProfit :: bool
  po_bankedSkimUsd :: number
  po_takeProfitPct :: number
  po_stopLossPct :: number
  po_trailingStop :: bool
  po_exitOverrides :: exit_overrides

definition or_else :: "'a option \<Rightarrow> 'a option \<Rightarrow> 'a option" where
  "or_else a b = (case a of None \<Rightarrow> b | Some x \<Rightarrow> Some x)"

definition add_position :: "position_agg \<Rightarrow> jupiter_trade \<Rightarrow> position_agg" where
  "add_position agg t =
     \<lparr>pa_totalAlloc = pa_totalAlloc agg + alloc_of t,
      pa_weightedEntry = pa_weightedEntry agg + jt_entryPrice t * alloc_of t,
      pa_bankedSkim = add_banked (pa_bankedSkim agg) t,
      pa_overrides =
        \<lparr>ov_takeProfitPct = or_else (ov_takeProfitPct (pa_overrides agg)) (jt_takeProfitPct t),
         ov_stopLossPct = or_else (ov_stopLossPct (pa_overrides agg)) (jt_stopLossPct t),
         ov_trailingStop = or_else (ov_trailingStop (pa_overrides agg)) (jt_trailingStop t)\<rparr>\<rparr>"

definition position_aggs :: "jupiter_trade list \<Rightarrow> (string \<times> position_agg) list" where
  "position_aggs opens =
     map (\<lambda>(base, ts). (base, foldl add_position
            \<lparr>pa_totalAlloc = Fin 0, pa_weightedEntry = Fin 0, pa_bankedSkim = Fin 0,
             pa_overrides = \<lparr>ov_takeProfitPct = None, ov_stopLossPct = None, ov_trailingStop = None\<rparr>\<rparr> ts))
       (group_by (\<lambda>t. base_key (jt_pair t))
         (filter (\<lambda>t. \<not> (alloc_of t \<le> Fin 0 \<or> jt_entryPrice t \<le> Fin 0) \<and> base_key (jt_pair t) \<noteq> []) opens))"

definition round_to :: "number \<Rightarrow> number \<Rightarrow> number" where
  "round_to factor x = math_round (x * factor) / factor"

text \<open>The price at which a sale of the lot clears the target after slippage, and the rise still missing.\<close>

definition break_even_price :: "number \<Rightarrow> number \<Rightarrow> number \<Rightarrow> number \<Rightarrow> number" where
  "break_even_price targetNet slipFactor entry alloc = entry * (Fin 1 + targetNet / slipFactor / alloc)"

definition upside_pct :: "number \<Rightarrow> number \<Rightarrow> number" where
  "upside_pct live breakEven = (if breakEven \<le> live then Fin 0 else math_round ((breakEven - live) / live * Fin 10000) / Fin 100)"

text \<open>The marks of a symbol are bid and mid, each possibly missing; the token is binance symbol and mint.\<close>

definition position_of ::
  "(string \<Rightarrow> (string \<times> string) option) \<Rightarrow> (string \<Rightarrow> number \<Rightarrow> number option \<times> number option) \<Rightarrow> number \<Rightarrow> exit_settings \<Rightarrow> number
    \<Rightarrow> string \<times> position_agg \<Rightarrow> JupiterOpenPosition option" where
  "position_of token marks minNetProfitUsd exitPrefs slippageBps = (\<lambda>(base, agg).
     let total = pa_totalAlloc agg; avgEntry = pa_weightedEntry agg / total;
         qty = (if Fin 0 < avgEntry then total / avgEntry else Fin 0) in
     if total \<le> Fin 0 then None
     else case token (base @ ''USDT'') of
       None \<Rightarrow> None
     | Some (binanceSymbol, mint) \<Rightarrow>
         let (bid, mid) = marks base qty;
             live = (case bid of Some p \<Rightarrow> if Fin 0 < p then Some p else None | None \<Rightarrow> None);
             targetNet = minNetProfitUsd + SOLANA_DEX_ROUND_TRIP_FEE_USD;
             slipFactor = slippage_factor slippageBps;
             breakEven = (if Fin 0 < slipFactor then Some (break_even_price targetNet slipFactor avgEntry total) else None);
             ov = pa_overrides agg in
         Some \<lparr>po_baseSymbol = base, po_binanceSymbol = binanceSymbol, po_mint = mint,
               po_avgEntry = round8 avgEntry, po_qty = round8 qty, po_totalAllocUsd = round_to (Fin 100) total,
               po_liveSellPrice = map_option round8 bid, po_liveMidPrice = map_option round8 mid,
               po_currentValueUsd = map_option (\<lambda>p. round_to (Fin 10000) (qty * p)) live,
               po_estNetPnlUsd = map_option (\<lambda>p. estimatedNetRoundTripUsd total avgEntry p slippageBps SOLANA_DEX_ROUND_TRIP_FEE_USD) live,
               po_breakEvenSellPrice = (if live = None then None else map_option round8 breakEven),
               po_upsideToBreakEvenPct =
                 (case (live, breakEven) of (Some p, Some b) \<Rightarrow> Some (upside_pct p b) | _ \<Rightarrow> None),
               po_priceVsEntryPct = map_option (\<lambda>p. math_round ((p - avgEntry) / avgEntry * Fin 10000) / Fin 100) live,
               po_inProfit = (case bid of None \<Rightarrow> False | Some p \<Rightarrow> avgEntry < p),
               po_bankedSkimUsd = round_to (Fin 10000) (pa_bankedSkim agg),
               po_takeProfitPct = nullish (ov_takeProfitPct ov) (xs_takeProfitPct exitPrefs),
               po_stopLossPct = nullish (ov_stopLossPct ov) (xs_stopLossPct exitPrefs),
               po_trailingStop = nullish (ov_trailingStop ov) (xs_trailingStop exitPrefs), po_exitOverrides = ov\<rparr>)"

text \<open>\<open>sort\<close> by a difference, descending: an element goes before the first one it beats.\<close>

fun insert_desc :: "('a \<Rightarrow> number) \<Rightarrow> 'a \<Rightarrow> 'a list \<Rightarrow> 'a list" where
  "insert_desc k x [] = [x]"
| "insert_desc k x (y # ys) = (if k y < k x then x # y # ys else y # insert_desc k x ys)"

definition sort_desc :: "('a \<Rightarrow> number) \<Rightarrow> 'a list \<Rightarrow> 'a list" where
  "sort_desc k xs = foldl (\<lambda>acc x. insert_desc k x acc) [] xs"

definition getJupiterOpenPositions ::
  "reconcile_io \<Rightarrow> (string \<Rightarrow> (string \<times> string) option) \<Rightarrow> (string \<Rightarrow> number \<Rightarrow> number option \<times> number option) \<Rightarrow> number \<Rightarrow> exit_settings
    \<Rightarrow> number \<Rightarrow> string \<Rightarrow> user_id \<Rightarrow> jupiter_trade list \<Rightarrow> JupiterOpenPosition list \<times> jupiter_trade list" where
  "getJupiterOpenPositions io token marks minNetProfitUsd exitPrefs slippageBps st u rows =
     (if \<not> ri_configured io \<or> filter (open_of u st) rows = [] then ([], rows)
      else let rows' = snd (reconcileStaleJupiterOpenTrades io st u rows);
               opens = find_many (open_of u st) (order_asc jt_createdAt) rows' in
        (sort_desc po_totalAllocUsd
           (List.map_filter (position_of token marks minNetProfitUsd exitPrefs slippageBps) (position_aggs opens)), rows'))"

section \<open>Exit overrides of a position\<close>

text \<open>Each override is left alone, cleared or set.\<close>

definition setJupiterPositionExitOverrides ::
  "string \<Rightarrow> user_id \<Rightarrow> string \<Rightarrow> number option option \<Rightarrow> number option option \<Rightarrow> bool option option
    \<Rightarrow> jupiter_trade list \<Rightarrow> nat \<times> jupiter_trade list" where
  "setJupiterPositionExitOverrides st u sy tp sl trailing rows =
     (let pair = strip_suffix ''USDT'' (to_upper sy) @ ''/USDT''; hit = (\<lambda>t. open_of u st t \<and> jt_pair t = pair) in
      if tp = None \<and> sl = None \<and> trailing = None then (0, rows)
      else (length (filter hit rows),
            update_where hit (\<lambda>r. r\<lparr>jt_takeProfitPct := nullish tp (jt_takeProfitPct r), jt_stopLossPct := nullish sl (jt_stopLossPct r),
                                   jt_trailingStop := nullish trailing (jt_trailingStop r)\<rparr>) rows))"

section \<open>Grouping\<close>

lemma keys_add_group: "map fst (add_group k x gs) = (if k \<in> fst ` set gs then map fst gs else map fst gs @ [k])"
  by (induction k x gs rule: add_group.induct) auto

lemma in_add_group:
  assumes "distinct (map fst gs)"
  shows "(k', g) \<in> set (add_group k x gs) \<longleftrightarrow>
     (if k' = k then g = (case map_of gs k of None \<Rightarrow> [x] | Some xs \<Rightarrow> xs @ [x]) else (k', g) \<in> set gs)"
  using assms
proof (induction k x gs rule: add_group.induct)
  case (2 k x k1 xs gs)
  then show ?case by (cases "k1 = k") (auto dest: map_of_SomeD simp: image_iff)
qed auto

text \<open>A group holds exactly the elements with its key, in their order.\<close>

lemma group_by_spec:
  "distinct (map fst (group_by f xs)) \<and> (\<forall>k g. (k, g) \<in> set (group_by f xs) \<longleftrightarrow> k \<in> f ` set xs \<and> g = filter (\<lambda>x. f x = k) xs)"
proof (induction xs rule: rev_induct)
  case Nil
  then show ?case by (simp add: group_by_def)
next
  case (snoc y xs)
  let ?gs = "group_by f xs"
  have g: "group_by f (xs @ [y]) = add_group (f y) y ?gs" by (simp add: group_by_def)
  have d: "distinct (map fst ?gs)" and m: "\<And>k g. (k, g) \<in> set ?gs \<longleftrightarrow> k \<in> f ` set xs \<and> g = filter (\<lambda>x. f x = k) xs"
    using snoc by auto
  have l: "map_of ?gs (f y) = (if f y \<in> f ` set xs then Some (filter (\<lambda>x. f x = f y) xs) else None)"
    using m d by (auto simp: map_of_eq_None_iff image_iff)
  have e: "f y \<notin> f ` set xs \<Longrightarrow> filter (\<lambda>x. f x = f y) xs = []" by (auto simp: filter_empty_conv image_iff)
  have "distinct (map fst (add_group (f y) y ?gs))" using d by (auto simp: keys_add_group)
  moreover have "(k, h) \<in> set (add_group (f y) y ?gs) \<longleftrightarrow> k \<in> f ` set (xs @ [y]) \<and> h = filter (\<lambda>x. f x = k) (xs @ [y])" for k h
    unfolding in_add_group [OF d] l using m [of k h] e by auto
  ultimately show ?case by (simp add: g)
qed

lemma group_by_member: "(k, g) \<in> set (group_by f xs) \<longleftrightarrow> k \<in> f ` set xs \<and> g = filter (\<lambda>x. f x = k) xs"
  using group_by_spec [of f xs] by simp

lemma group_by_elem: "p \<in> set (group_by f xs) \<Longrightarrow> p = (fst p, filter (\<lambda>x. f x = fst p) xs)"
  using group_by_member [of "fst p" "snd p" f xs] by (simp add: prod_eq_iff)

lemma group_by_keys: "fst ` set (group_by f xs) = f ` set xs"
proof (intro subset_antisym subsetI)
  fix k assume "k \<in> fst ` set (group_by f xs)"
  then obtain g where "(k, g) \<in> set (group_by f xs)" by auto
  then show "k \<in> f ` set xs" by (simp add: group_by_member)
next
  fix k assume "k \<in> f ` set xs"
  then have "(k, filter (\<lambda>x. f x = k) xs) \<in> set (group_by f xs)" by (simp add: group_by_member)
  then show "k \<in> fst ` set (group_by f xs)" by (metis fst_conv image_eqI)
qed

section \<open>Merging, row by row\<close>

text \<open>What the whole merge does to one row: the groups act on it one after the other.\<close>

definition merge_row :: "(number \<Rightarrow> number) \<Rightarrow> jupiter_trade list \<Rightarrow> jupiter_trade \<Rightarrow> jupiter_trade" where
  "merge_row col trades r =
     (let r1 = (if jt_id r = jt_id (hd trades) then merged_primary col trades r else r) in
      if jt_id r1 \<in> jt_id ` set (tl trades) \<and> jt_status r1 = OPEN then r1\<lparr>jt_status := CANCELLED\<rparr> else r1)"

lemma merge_group_map: "merge_group col trades rows = map (merge_row col trades) rows"
  by (simp add: merge_group_def cancel_ids_def update_where_def merge_row_def Let_def)

lemma merged_primary_keeps [simp]:
  "jt_id (merged_primary col g r) = jt_id r" "jt_user (merged_primary col g r) = jt_user r"
  "jt_strategy (merged_primary col g r) = jt_strategy r" "jt_pair (merged_primary col g r) = jt_pair r"
  "jt_status (merged_primary col g r) = jt_status r" "jt_createdAt (merged_primary col g r) = jt_createdAt r"
  by (simp_all add: merged_primary_def Let_def split: prod.splits)

lemma merge_row_keeps [simp]:
  "jt_id (merge_row col g r) = jt_id r" "jt_user (merge_row col g r) = jt_user r"
  "jt_strategy (merge_row col g r) = jt_strategy r" "jt_pair (merge_row col g r) = jt_pair r" "jt_createdAt (merge_row col g r) = jt_createdAt r"
  by (simp_all add: merge_row_def Let_def)

lemma merge_row_status:
  "jt_status (merge_row col g r) = (if jt_id r \<in> jt_id ` set (tl g) \<and> jt_status r = OPEN then CANCELLED else jt_status r)"
  by (simp add: merge_row_def Let_def)

lemma merge_row_other: "jt_id r \<notin> jt_id ` set g \<Longrightarrow> g \<noteq> [] \<Longrightarrow> merge_row col g r = r"
  by (cases g) (auto simp: merge_row_def Let_def)

definition merge_rows :: "(number \<Rightarrow> number) \<Rightarrow> (string \<times> jupiter_trade list) list \<Rightarrow> jupiter_trade \<Rightarrow> jupiter_trade" where
  "merge_rows col gs r = foldl (\<lambda>r (k, g). if length g \<le> 1 then r else merge_row col g r) r gs"

lemma merge_rows_simps [simp]:
  "merge_rows col [] = id"
  "merge_rows col (p # gs) r = merge_rows col gs (if length (snd p) \<le> 1 then r else merge_row col (snd p) r)"
  by (simp_all add: merge_rows_def split_beta fun_eq_iff)

lemma merge_fold_map: "snd (foldl (merge_step col) (c, rows) gs) = map (merge_rows col gs) rows"
  by (induction gs arbitrary: c rows) (auto simp: merge_step_def merge_group_map split_beta)

lemma merge_rows_keeps [simp]:
  "jt_id (merge_rows col gs r) = jt_id r" "jt_user (merge_rows col gs r) = jt_user r"
  "jt_strategy (merge_rows col gs r) = jt_strategy r" "jt_pair (merge_rows col gs r) = jt_pair r" "jt_createdAt (merge_rows col gs r) = jt_createdAt r"
  by (induction gs arbitrary: r) simp_all

lemma merge_rows_open:
  "jt_status (merge_rows col gs r) = OPEN \<longleftrightarrow>
     jt_status r = OPEN \<and> (\<forall>p \<in> set gs. length (snd p) \<le> 1 \<or> jt_id r \<notin> jt_id ` set (tl (snd p)))"
proof (induction gs arbitrary: r)
  case (Cons p gs)
  let ?r1 = "if length (snd p) \<le> 1 then r else merge_row col (snd p) r"
  have "jt_id ?r1 = jt_id r" by simp
  moreover have "jt_status ?r1 = OPEN \<longleftrightarrow> jt_status r = OPEN \<and> (length (snd p) \<le> 1 \<or> jt_id r \<notin> jt_id ` set (tl (snd p)))"
    by (auto simp: merge_row_status)
  ultimately show ?case using Cons.IH [of ?r1] by auto
qed simp

lemma merge_rows_other:
  "\<forall>p \<in> set gs. snd p \<noteq> [] \<and> jt_id r \<notin> jt_id ` set (snd p) \<Longrightarrow> merge_rows col gs r = r"
  by (induction gs) (simp_all add: merge_row_other)

text \<open>The rows the merge keeps open: the oldest open row of each pair.\<close>

definition opens_of :: "user_id \<Rightarrow> string \<Rightarrow> jupiter_trade list \<Rightarrow> jupiter_trade list" where
  "opens_of u st rows = find_many (open_of u st) (order_asc jt_createdAt) rows"

definition oldest_open :: "user_id \<Rightarrow> string \<Rightarrow> jupiter_trade list \<Rightarrow> jupiter_trade \<Rightarrow> bool" where
  "oldest_open u st rows r \<longleftrightarrow> open_of u st r \<and> r = hd (filter (\<lambda>x. jt_pair x = jt_pair r) (opens_of u st rows))"

lemma set_opens_of [simp]: "set (opens_of u st rows) = {r \<in> set rows. open_of u st r}"
  by (auto simp: opens_of_def find_many_def)

lemma length_opens_of: "length (opens_of u st rows) = length (filter (open_of u st) rows)"
  by (simp add: opens_of_def find_many_def)

lemma row_by_id: "distinct (map jt_id rows) \<Longrightarrow> a \<in> set rows \<Longrightarrow> b \<in> set rows \<Longrightarrow> jt_id a = jt_id b \<Longrightarrow> a = b"
  by (auto simp: distinct_map dest: inj_onD)

lemma trades_of_distinct:
  "distinct (map jt_id rows) \<Longrightarrow> distinct (map jt_id (find_many p (order_asc jt_createdAt) rows))"
proof -
  assume "distinct (map jt_id rows)"
  then have "distinct (map jt_id (filter p rows))" by (simp add: distinct_map_filter)
  moreover have "mset (map jt_id (find_many p (order_asc jt_createdAt) rows)) = mset (map jt_id (filter p rows))"
    unfolding find_many_def order_asc_def mset_map by simp
  ultimately show ?thesis using mset_eq_imp_distinct_iff by blast
qed

lemma distinct_opens_of: "distinct (map jt_id rows) \<Longrightarrow> distinct (map jt_id (opens_of u st rows))"
  unfolding opens_of_def by (rule trades_of_distinct)

lemma in_tlD: "x \<in> set (tl xs) \<Longrightarrow> x \<in> set xs"
  by (cases xs) auto

lemma merged_open_iff:
  assumes d: "distinct (map jt_id rows)" and r: "r \<in> set rows"
  shows "open_of u st (merge_rows col (group_by jt_pair (opens_of u st rows)) r) \<longleftrightarrow> oldest_open u st rows r"
proof (cases "open_of u st r")
  case False
  then show ?thesis using merge_rows_open by (auto simp: open_of_def oldest_open_def)
next
  case True
  let ?os = "opens_of u st rows"
  let ?g = "filter (\<lambda>x. jt_pair x = jt_pair r) ?os"
  have g: "r \<in> set ?g" using r True by simp
  have in_tl: "x = r" if "x \<in> set ?os" "jt_id x = jt_id r" for x
    using that d r by (auto simp: distinct_map dest: inj_onD)
  have only: "(length (snd p) \<le> 1 \<or> jt_id r \<notin> jt_id ` set (tl (snd p))) \<longleftrightarrow> (snd p \<noteq> ?g \<or> length ?g \<le> 1 \<or> r \<notin> set (tl ?g))"
    if pg: "p \<in> set (group_by jt_pair ?os)" for p
  proof -
    obtain k where p: "p = (k, filter (\<lambda>x. jt_pair x = k) ?os)" by (rule that [OF group_by_elem [OF pg]])
    have sub: "set (tl (snd p)) \<subseteq> set ?os" unfolding p snd_conv by (meson filter_is_subset in_tlD subset_iff)
    have "jt_id r \<in> jt_id ` set (tl (snd p)) \<longleftrightarrow> r \<in> set (tl (snd p))"
    proof
      assume "jt_id r \<in> jt_id ` set (tl (snd p))"
      then obtain x where "x \<in> set (tl (snd p))" "jt_id x = jt_id r" by auto
      with sub in_tl [of x] show "r \<in> set (tl (snd p))" by blast
    qed simp
    moreover have "r \<in> set (tl (snd p)) \<Longrightarrow> snd p = ?g" unfolding p snd_conv using in_tlD by fastforce
    ultimately show ?thesis by metis
  qed
  have "(jt_pair r, ?g) \<in> set (group_by jt_pair ?os)" using r True by (simp add: group_by_member)
  then have m: "(\<forall>p \<in> set (group_by jt_pair ?os). snd p \<noteq> ?g \<or> length ?g \<le> 1 \<or> r \<notin> set (tl ?g)) \<longleftrightarrow> length ?g \<le> 1 \<or> r \<notin> set (tl ?g)"
    by (metis snd_conv)
  have "distinct ?g" using distinct_opens_of [OF d, of u st] by (simp add: distinct_map)
  then have h: "length ?g \<le> 1 \<or> r \<notin> set (tl ?g) \<longleftrightarrow> r = hd ?g" using g by (cases ?g) auto
  have "open_of u st (merge_rows col (group_by jt_pair ?os) r) \<longleftrightarrow> jt_status (merge_rows col (group_by jt_pair ?os) r) = OPEN"
    using True by (simp add: open_of_def)
  also have "\<dots> \<longleftrightarrow> (\<forall>p \<in> set (group_by jt_pair ?os). length (snd p) \<le> 1 \<or> jt_id r \<notin> jt_id ` set (tl (snd p)))"
    using True by (simp add: merge_rows_open open_of_def)
  also have "\<dots> \<longleftrightarrow> (\<forall>p \<in> set (group_by jt_pair ?os). snd p \<noteq> ?g \<or> length ?g \<le> 1 \<or> r \<notin> set (tl ?g))"
    by (rule ball_cong [OF refl only])
  also note m
  also note h
  finally show ?thesis using True by (simp add: oldest_open_def)
qed

lemma merge_result:
  assumes "mergeDuplicateJupiterOpenTrades col st u rows = (n, rows')"
  shows "rows' = rows \<and> length (opens_of u st rows) < 2 \<or> rows' = map (merge_rows col (group_by jt_pair (opens_of u st rows))) rows"
  using assms merge_fold_map [of col 0 rows] unfolding mergeDuplicateJupiterOpenTrades_def opens_of_def Let_def
  by (metis snd_conv)

lemma merge_count: "fst (foldl (merge_step col) (c, rows) gs) = c + sum_list (map (\<lambda>p. length (snd p) - 1) gs)"
  by (induction gs arbitrary: c rows) (auto simp: merge_step_def split_beta)

lemma add_group_total: "sum_list (map (\<lambda>p. length (snd p)) (add_group k x gs)) = Suc (sum_list (map (\<lambda>p. length (snd p)) gs))"
  by (induction k x gs rule: add_group.induct) auto

lemma group_by_total: "sum_list (map (\<lambda>p. length (snd p)) (group_by f xs)) = length xs"
proof -
  have "sum_list (map (\<lambda>p. length (snd p)) (foldl (\<lambda>gs x. add_group (f x) x gs) gs xs)) =
      length xs + sum_list (map (\<lambda>p. length (snd p)) gs)" for gs
    by (induction xs arbitrary: gs) (simp_all add: add_group_total)
  then show ?thesis by (simp add: group_by_def)
qed

lemma oldest_open_unique:
  "oldest_open u st rows a \<Longrightarrow> oldest_open u st rows b \<Longrightarrow> jt_pair a = jt_pair b \<Longrightarrow> a = b"
  by (simp add: oldest_open_def)

lemma oldest_open_exists:
  "r \<in> set rows \<Longrightarrow> open_of u st r \<Longrightarrow> \<exists>x \<in> set rows. oldest_open u st rows x \<and> jt_pair x = jt_pair r"
proof -
  assume r: "r \<in> set rows" "open_of u st r"
  let ?g = "filter (\<lambda>x. jt_pair x = jt_pair r) (opens_of u st rows)"
  have "?g \<noteq> []" using r by (auto simp: filter_empty_conv)
  then have "hd ?g \<in> set ?g" by (rule hd_in_set)
  then have "hd ?g \<in> set rows" "open_of u st (hd ?g)" "jt_pair (hd ?g) = jt_pair r" by simp_all
  then show ?thesis by (intro bexI [of _ "hd ?g"]) (simp_all add: oldest_open_def)
qed

lemma merged_open_count:
  assumes d: "distinct (map jt_id rows)"
  shows "length (filter (oldest_open u st rows) rows) = length (group_by jt_pair (opens_of u st rows))"
proof -
  let ?F = "filter (oldest_open u st rows) rows" and ?G = "group_by jt_pair (opens_of u st rows)"
  have "distinct ?F" using d by (simp add: distinct_map)
  then have "length ?F = card (set ?F)" by (rule distinct_card [symmetric])
  also have "\<dots> = card (jt_pair ` set ?F)"
    by (intro card_image [symmetric] inj_onI) (simp add: oldest_open_def)
  also have "jt_pair ` set ?F = fst ` set ?G"
  proof -
    have "fst ` set ?G = jt_pair ` {r \<in> set rows. open_of u st r}" by (simp add: group_by_keys)
    also have "\<dots> = jt_pair ` {r \<in> set rows. oldest_open u st rows r}"
    proof (intro subset_antisym image_subsetI)
      fix x assume "x \<in> {r \<in> set rows. open_of u st r}"
      then obtain y where "y \<in> set rows" "oldest_open u st rows y" "jt_pair y = jt_pair x" using oldest_open_exists by blast
      then show "jt_pair x \<in> jt_pair ` {r \<in> set rows. oldest_open u st rows r}" by (metis (mono_tags) image_eqI mem_Collect_eq)
    qed (auto simp: oldest_open_def)
    finally show ?thesis by simp
  qed
  also have "card (fst ` set ?G) = length ?G" using group_by_spec [of jt_pair "opens_of u st rows"] by (metis distinct_card length_map list.set_map)
  finally show ?thesis .
qed

lemma sum_list_pred:
  assumes "\<And>p. p \<in> set gs \<Longrightarrow> snd p \<noteq> []"
  shows "sum_list (map (\<lambda>p. length (snd p) - 1) gs) + length gs = sum_list (map (\<lambda>p. length (snd p)) gs)"
  using assms
proof (induction gs)
  case (Cons p gs)
  then have "snd p \<noteq> []" "sum_list (map (\<lambda>p. length (snd p) - 1) gs) + length gs = sum_list (map (\<lambda>p. length (snd p)) gs)" by simp_all
  then show ?case by (cases "snd p") simp_all
qed simp

text \<open>C23: merging leaves one open row per pair: afterwards no two open rows of the user's book have the same
  pair, no row was added or removed, rows that were not open or belong to others are as they were, and
  the number returned is exactly the number of open rows it cancelled.\<close>

theorem merge_leaves_one_open_row_per_pair:
  assumes "distinct (map jt_id rows)" "mergeDuplicateJupiterOpenTrades col st u rows = (n, rows')"
  shows "map jt_id rows' = map jt_id rows \<and>
     (\<forall>a \<in> set rows'. \<forall>b \<in> set rows'. open_of u st a \<and> open_of u st b \<and> jt_pair a = jt_pair b \<longrightarrow> a = b) \<and>
     (\<forall>r \<in> set rows. \<not> open_of u st r \<longrightarrow> r \<in> set rows') \<and>
     n + length (filter (open_of u st) rows') = length (filter (open_of u st) rows)"
proof (cases "length (opens_of u st rows) < 2")
  case True
  then have e: "rows' = rows" "n = 0" using assms(2) by (simp_all add: mergeDuplicateJupiterOpenTrades_def opens_of_def)
  have "a = b" if "a \<in> set (opens_of u st rows)" "b \<in> set (opens_of u st rows)" for a b
    using that True by (cases "opens_of u st rows"; cases "tl (opens_of u st rows)") auto
  then show ?thesis using e by simp
next
  case False
  let ?gs = "group_by jt_pair (opens_of u st rows)"
  let ?m = "merge_rows col ?gs"
  have f: "foldl (merge_step col) (0, rows) ?gs = (n, rows')"
    using assms(2) False by (simp add: mergeDuplicateJupiterOpenTrades_def opens_of_def Let_def)
  have rows': "rows' = map ?m rows" using merge_fold_map [of col 0 rows ?gs] f by simp
  have one: "a = b" if ab: "a \<in> set rows'" "b \<in> set rows'" "open_of u st a" "open_of u st b" "jt_pair a = jt_pair b" for a b
  proof -
    obtain x y where "x \<in> set rows" "a = ?m x" "y \<in> set rows" "b = ?m y" using ab(1,2) rows' by auto
    then show ?thesis using ab(3-5) merged_open_iff [OF assms(1)] oldest_open_unique by (metis merge_rows_keeps(4))
  qed
  have keep: "r \<in> set rows'" if rn: "r \<in> set rows" "\<not> open_of u st r" for r
  proof -
    have nid: "jt_id r \<notin> jt_id ` set (opens_of u st rows)" using rn assms(1) by (auto simp: distinct_map dest: inj_onD)
    have "?m r = r"
    proof (intro merge_rows_other ballI)
      fix p assume pg: "p \<in> set ?gs"
      obtain k where p: "p = (k, filter (\<lambda>x. jt_pair x = k) (opens_of u st rows))" using group_by_elem [OF pg] by blast
      have "k \<in> jt_pair ` set (opens_of u st rows)" using pg p by (simp add: group_by_member)
      then show "snd p \<noteq> [] \<and> jt_id r \<notin> jt_id ` set (snd p)" using nid by (auto simp: p filter_empty_conv)
    qed
    then show ?thesis using rn(1) rows' by (metis image_eqI list.set_map)
  qed
  have "n = sum_list (map (\<lambda>p. length (snd p) - 1) ?gs)" using merge_count [of col 0 rows ?gs] f by simp
  moreover have "sum_list (map (\<lambda>p. length (snd p) - 1) ?gs) + length ?gs = sum_list (map (\<lambda>p. length (snd p)) ?gs)"
  proof -
    have "snd p \<noteq> []" if "p \<in> set ?gs" for p
      using that group_by_member [of "fst p" "snd p" jt_pair "opens_of u st rows"] by (auto simp: filter_empty_conv)
    then show ?thesis by (rule sum_list_pred)
  qed
  moreover have "length (filter (open_of u st) rows') = length (filter (oldest_open u st rows) rows)"
    using merged_open_iff [OF assms(1)] by (simp add: rows' filter_map comp_def cong: filter_cong)
  ultimately have "n + length (filter (open_of u st) rows') = length (filter (open_of u st) rows)"
    using merged_open_count [OF assms(1), of u st] group_by_total [of jt_pair "opens_of u st rows"] length_opens_of by simp
  then show ?thesis using one keep rows' by (auto simp: comp_def)
qed

section \<open>Bursts\<close>

lemma bursts_concat: "concat (bursts ts) = ts"
proof (induction ts rule: bursts.induct)
  case (2 t ts)
  obtain b r where br: "take_burst (jt_pair t) (jt_createdAt t) ts = (b, r)" by fastforce
  then have "concat (bursts r) = r" using 2 by metis
  then show ?case using take_burst_append [OF br] br by simp
qed simp

lemma foldl_min_in: "foldl math_min a xs \<in> insert a (set xs)"
proof (induction xs arbitrary: a)
  case (Cons x xs)
  show ?case using Cons.IH [of "math_min a x"] math_min_cases [of a x] by auto
qed simp

lemma min_numbers_in: "xs \<noteq> [] \<Longrightarrow> \<forall>x \<in> set xs. x \<noteq> NaN \<Longrightarrow> min_numbers xs \<in> set xs"
proof -
  assume n: "xs \<noteq> []" "\<forall>x \<in> set xs. x \<noteq> NaN"
  then obtain y ys where xs: "xs = y # ys" by (cases xs) auto
  have "math_min PInf y = y" using n xs by (cases y) (auto simp: math_min_def)
  then show ?thesis using foldl_min_in [of y ys] by (simp add: xs min_numbers_def)
qed

lemma burst_fix_Some:
  assumes "burst_fix burst = Some (primary, unit, alloc)"
  shows "primary \<in> set burst \<and> is_primary primary \<and> alloc = alloc_of primary \<and> unit * Fin (3/2) \<le> alloc \<and>
     (\<exists>c \<in> set burst. jt_status c = CANCELLED \<and> alloc_of c = unit)"
proof -
  let ?as = "filter (\<lambda>a. Fin (1/2) < a) (map alloc_of (filter (\<lambda>t. jt_status t = CANCELLED) burst))"
  have p: "find is_primary burst = Some primary" "unit = burst_unit burst" "alloc = alloc_of primary" "Fin 0 < unit" "unit * Fin (3/2) \<le> alloc"
    using assms by (auto simp: burst_fix_def Let_def split: if_splits option.splits)
  have "?as \<noteq> []" using p(2,4) by (auto simp: burst_unit_def Let_def split: if_splits)
  moreover have "\<forall>x \<in> set ?as. x \<noteq> NaN" by auto
  ultimately have "unit \<in> set ?as" using min_numbers_in [of ?as] p(2) by (simp add: burst_unit_def Let_def)
  then show ?thesis using p by (auto simp: find_Some_iff)
qed

definition burst_row :: "(number \<Rightarrow> number) \<Rightarrow> jupiter_trade list \<Rightarrow> jupiter_trade \<Rightarrow> jupiter_trade" where
  "burst_row col burst r =
     (case burst_fix burst of
        None \<Rightarrow> r
      | Some (primary, unit, alloc) \<Rightarrow> if jt_id r = jt_id primary then corrected_row col primary unit alloc r else r)"

lemma burst_fold_map: "snd (foldl (burst_step col) (n, rows) bs) = map (\<lambda>r. foldl (\<lambda>r b. burst_row col b r) r bs) rows"
proof (induction bs arbitrary: n rows)
  case (Cons b bs)
  obtain n' rows' where s: "burst_step col (n, rows) b = (n', rows')" by fastforce
  have "snd (burst_step col (n, rows) b) = map (burst_row col b) rows"
    by (cases "burst_fix b") (auto simp: burst_step_def burst_row_def update_where_def map_idI)
  then show ?case using Cons.IH [of n' rows'] s by (simp add: comp_def)
qed simp

lemma burst_row_id [simp]: "jt_id (burst_row col b r) = jt_id r"
  by (auto simp: burst_row_def corrected_row_def split: option.splits)

text \<open>A row is corrected by at most the one burst it belongs to.\<close>

lemma burst_rows_cases:
  assumes "distinct (map jt_id (concat bs))"
  shows "foldl (\<lambda>r b. burst_row col b r) r bs = r \<or>
     (\<exists>b \<in> set bs. \<exists>primary unit alloc. burst_fix b = Some (primary, unit, alloc) \<and> jt_id primary = jt_id r \<and>
        foldl (\<lambda>r b. burst_row col b r) r bs = corrected_row col primary unit alloc r)"
  using assms
proof (induction bs arbitrary: r)
  case (Cons b bs)
  have d: "distinct (map jt_id (concat bs))" using Cons.prems by simp
  show ?case
  proof (cases "burst_row col b r = r")
    case True
    then show ?thesis using Cons.IH [OF d, of r] by auto
  next
    case False
    then obtain primary unit alloc where f: "burst_fix b = Some (primary, unit, alloc)" "jt_id r = jt_id primary"
      "burst_row col b r = corrected_row col primary unit alloc r"
      by (auto simp: burst_row_def split: option.splits if_splits)
    have "foldl (\<lambda>r b. burst_row col b r) x bs = x" if x: "jt_id x = jt_id primary" for x
    proof -
      have "jt_id primary \<notin> jt_id ` set (concat bs)" using burst_fix_Some [OF f(1)] Cons.prems by auto
      moreover have "jt_id p \<in> jt_id ` set (concat bs)" if "b' \<in> set bs" "burst_fix b' = Some (p, v, w)" for b' p v w
        using burst_fix_Some [OF that(2)] that(1) by auto
      ultimately show ?thesis using Cons.IH [OF d, of x] x by metis
    qed
    then have "foldl (\<lambda>r b. burst_row col b r) r (b # bs) = corrected_row col primary unit alloc r"
      using f by (simp add: corrected_row_def)
    then show ?thesis using f by auto
  qed
qed simp

lemma burst_result:
  assumes "distinct (map jt_id rows)" "reconcileInflatedJupiterBurstTrades col st u rows = (n, rows')"
  shows "map jt_id rows' = map jt_id rows \<and> (\<forall>i < length rows. rows' ! i = rows ! i \<or>
     (\<exists>burst primary unit alloc. burst_fix burst = Some (primary, unit, alloc) \<and> primary = rows ! i \<and>
        set burst \<subseteq> {t \<in> set rows. jt_user t = u \<and> jt_strategy t = st} \<and>
        rows' ! i = corrected_row col primary unit alloc primary))"
proof -
  let ?ts = "find_many (\<lambda>t. jt_user t = u \<and> jt_strategy t = st) (order_asc jt_createdAt) rows"
  have st: "set ?ts = {t \<in> set rows. jt_user t = u \<and> jt_strategy t = st}" by (auto simp: find_many_def)
  show ?thesis
  proof (cases "length ?ts < 2")
    case True
    then show ?thesis using assms(2) by (simp add: reconcileInflatedJupiterBurstTrades_def)
  next
    case False
    define f where "f = (\<lambda>r. foldl (\<lambda>r b. burst_row col b r) r (bursts ?ts))"
    have rows': "rows' = map f rows"
      using assms(2) False burst_fold_map [of col 0 rows "bursts ?ts"] by (simp add: reconcileInflatedJupiterBurstTrades_def f_def)
    have c: "f r = r \<or> (\<exists>b \<in> set (bursts ?ts). \<exists>p v w. burst_fix b = Some (p, v, w) \<and> jt_id p = jt_id r \<and> f r = corrected_row col p v w r)" for r
      unfolding f_def using trades_of_distinct [OF assms(1)] by (intro burst_rows_cases) (simp add: bursts_concat)
    have "rows' ! i = rows ! i \<or> (\<exists>burst p v w. burst_fix burst = Some (p, v, w) \<and> p = rows ! i \<and>
        set burst \<subseteq> {t \<in> set rows. jt_user t = u \<and> jt_strategy t = st} \<and> rows' ! i = corrected_row col p v w p)" if i: "i < length rows" for i
    proof (cases "f (rows ! i) = rows ! i")
      case False
      then obtain b p v w where b: "b \<in> set (bursts ?ts)" "burst_fix b = Some (p, v, w)" "jt_id p = jt_id (rows ! i)"
        "f (rows ! i) = corrected_row col p v w (rows ! i)" using c by blast
      have "set b \<subseteq> set (concat (bursts ?ts))" using b(1) by auto
      then have sub: "set b \<subseteq> set ?ts" unfolding bursts_concat .
      then have "p \<in> set rows" using burst_fix_Some [OF b(2)] st by blast
      then have p: "p = rows ! i" by (rule row_by_id [OF assms(1) _ nth_mem [OF i] b(3)])
      have "rows' ! i = corrected_row col p v w p" using b(4) [folded p] i rows' p by simp
      then have "burst_fix b = Some (p, v, w) \<and> p = rows ! i \<and> set b \<subseteq> {t \<in> set rows. jt_user t = u \<and> jt_strategy t = st} \<and>
          rows' ! i = corrected_row col p v w p" using b(2) p sub st by simp
      then show ?thesis by blast
    qed (use i rows' in simp)
    moreover have "jt_id (f r) = jt_id r" for r using c [of r] by (auto simp: corrected_row_def)
    ultimately show ?thesis using rows' by simp
  qed
qed

text \<open>The correction of inflated bursts touches a row only if the user's book has, in the same burst, a
  cancelled row of an allocation at most two thirds of it, and then sets exactly that smaller allocation;
  entry price, status and dates stay, no row is added or removed, and rows of others stay as they are.\<close>

theorem burst_correction_shrinks_duplicates:
  assumes "distinct (map jt_id rows)" "reconcileInflatedJupiterBurstTrades col st u rows = (n, rows')"
    and "i < length rows" "rows' ! i \<noteq> rows ! i"
  shows "length rows' = length rows \<and> jt_user (rows ! i) = u \<and> jt_strategy (rows ! i) = st \<and> is_primary (rows ! i) \<and>
     (\<exists>c \<in> set rows. jt_user c = u \<and> jt_status c = CANCELLED \<and> alloc_of c * Fin (3/2) \<le> alloc_of (rows ! i) \<and>
        jt_allocationUsd (rows' ! i) = Some (col (alloc_of c))) \<and>
     rows' ! i = (rows ! i)\<lparr>jt_allocationUsd := jt_allocationUsd (rows' ! i), jt_pnl := jt_pnl (rows' ! i)\<rparr>"
proof -
  obtain burst unit alloc where b: "burst_fix burst = Some (rows ! i, unit, alloc)"
    "set burst \<subseteq> {t \<in> set rows. jt_user t = u \<and> jt_strategy t = st}" "rows' ! i = corrected_row col (rows ! i) unit alloc (rows ! i)"
    using burst_result [OF assms(1,2)] assms(3,4) by blast
  note f = burst_fix_Some [OF b(1)]
  obtain c where c: "c \<in> set burst" "jt_status c = CANCELLED" "alloc_of c = unit" using f by blast
  have "length rows' = length rows" using burst_result [OF assms(1,2)] by (metis length_map)
  moreover have "c \<in> set rows" "jt_user c = u" "rows ! i \<in> set burst" using c b(2) f by auto
  moreover have "rows' ! i = (rows ! i)\<lparr>jt_allocationUsd := jt_allocationUsd (rows' ! i), jt_pnl := jt_pnl (rows' ! i)\<rparr>"
    "jt_allocationUsd (rows' ! i) = Some (col unit)" unfolding b(3) by (simp_all add: corrected_row_def)
  ultimately show ?thesis using b(2) f c by auto
qed

section \<open>Stale rows\<close>

lemma agg_ids: "ba_tradeIds (agg_of ts) = map jt_id ts"
proof -
  have "ba_tradeIds (foldl add_agg a ts) = ba_tradeIds a @ map jt_id ts" for a
    by (induction ts arbitrary: a) (auto simp: add_agg_def Let_def split: prod.splits)
  then show ?thesis by (simp add: agg_of_def)
qed

lemma by_base_member:
  assumes "(base, agg) \<in> set (by_base opens)"
  shows "base \<noteq> [] \<and> agg = agg_of (filter (\<lambda>t. base_key (jt_pair t) = base) opens) \<and> ba_tradeIds agg \<noteq> []"
proof -
  let ?os = "filter (\<lambda>t. base_key (jt_pair t) \<noteq> []) opens"
  obtain ts where ts: "(base, ts) \<in> set (group_by (\<lambda>t. base_key (jt_pair t)) ?os)" "agg = agg_of ts"
    using assms by (auto simp: by_base_def)
  then have m: "base \<in> (\<lambda>t. base_key (jt_pair t)) ` set ?os" "ts = filter (\<lambda>t. base_key (jt_pair t) = base) ?os"
    by (simp_all add: group_by_member)
  then have "base \<noteq> []" by auto
  moreover from this have "ts = filter (\<lambda>t. base_key (jt_pair t) = base) opens" using m(2) by (auto intro: filter_cong)
  moreover have "ts \<noteq> []" using m by (auto simp: filter_empty_conv)
  ultimately show ?thesis using ts(2) by (simp add: agg_ids)
qed

lemma reconcile_fold_keeps:
  assumes "r \<in> set rows" "jt_id r \<notin> set tc"
    and "\<forall>p \<in> set L. ba_tradeIds (snd p) \<noteq> [] \<and> (lot_decision io h (fst p) (snd p) = KeepLot \<or> jt_id r \<notin> set (ba_tradeIds (snd p)))"
    and "foldl (reconcile_base io h) (rows, tc, d) L = (rows3, tc3, d3)"
  shows "r \<in> set rows3 \<and> jt_id r \<notin> set tc3"
  using assms
proof (induction L arbitrary: rows tc d)
  case (Cons p L)
  obtain rows1 tc1 d1 where s: "reconcile_base io h (rows, tc, d) p = (rows1, tc1, d1)" by (metis prod_cases3)
  have ids: "ba_tradeIds (snd p) \<noteq> []" "lot_decision io h (fst p) (snd p) = KeepLot \<or> jt_id r \<notin> set (ba_tradeIds (snd p))"
    using Cons.prems(3) by simp_all
  have "r \<in> set rows1 \<and> jt_id r \<notin> set tc1"
  proof (cases "lot_decision io h (fst p) (snd p)")
    case KeepLot
    then show ?thesis using s Cons.prems(1,2) by (simp add: reconcile_base_def split_beta)
  next
    case (CancelLot js)
    then have "js = ba_tradeIds (snd p)"
      by (auto simp: lot_decision_def downscale_def Let_def split: if_splits option.splits)
    then show ?thesis using s CancelLot ids Cons.prems(1,2) by (auto simp: reconcile_base_def split_beta)
  next
    case (DownscaleLot i a js)
    then have "i = hd (ba_tradeIds (snd p))" "js = tl (ba_tradeIds (snd p))"
      by (auto simp: lot_decision_def downscale_def Let_def split: if_splits option.splits)
    then have "jt_id r \<noteq> i" "jt_id r \<notin> set js" using ids DownscaleLot hd_in_set in_tlD by fastforce+
    then show ?thesis using s DownscaleLot Cons.prems(1,2)
      by (auto simp: reconcile_base_def split_beta cancel_ids_def List.member_iff intro!: update_where_other)
  qed
  then show ?case using Cons.IH [of rows1 tc1 d1] Cons.prems(3,4) s by simp
qed simp

lemma merge_ids: "mergeDuplicateJupiterOpenTrades col st u rows = (n, rows') \<Longrightarrow> map jt_id rows' = map jt_id rows"
  using merge_result by (fastforce simp: comp_def)

text \<open>The lot a row belongs to, and the state the upkeep judges: the book after the burst correction and
  the merge.\<close>

definition tidied :: "reconcile_io \<Rightarrow> string \<Rightarrow> user_id \<Rightarrow> jupiter_trade list \<Rightarrow> jupiter_trade list" where
  "tidied io st u rows = snd (mergeDuplicateJupiterOpenTrades (ri_col io) st u (snd (reconcileInflatedJupiterBurstTrades (ri_col io) st u rows)))"

definition lot_of_row :: "string \<Rightarrow> user_id \<Rightarrow> jupiter_trade list \<Rightarrow> jupiter_trade \<Rightarrow> BaseAgg" where
  "lot_of_row st u rows r = agg_of (filter (\<lambda>t. base_key (jt_pair t) = base_key (jt_pair r)) (opens_of u st rows))"

lemma tidied_ids: "distinct (map jt_id rows) \<Longrightarrow> map jt_id (tidied io st u rows) = map jt_id rows"
proof -
  assume d: "distinct (map jt_id rows)"
  let ?b = "reconcileInflatedJupiterBurstTrades (ri_col io) st u rows"
  have "map jt_id (snd ?b) = map jt_id rows" using burst_result [OF d] by (metis prod.collapse)
  then show ?thesis using merge_ids by (metis prod.collapse tidied_def)
qed

lemma twentieth_below: "\<not> q \<le> lit (1 / 10 ^ 10) \<Longrightarrow> w < q * lit (1/20) \<Longrightarrow> w < q * OVERBOOK_DOWNSCALE_RATIO"
proof -
  assume q: "\<not> q \<le> lit (1 / 10 ^ 10)" "w < q * lit (1/20)"
  obtain a b where ab: "lit (1/20) = Fin a" "OVERBOOK_DOWNSCALE_RATIO = Fin b" "0 < a" "a \<le> b"
  proof -
    have x: "Fin 0 < lit (1/20)" "lit (1/20) \<le> OVERBOOK_DOWNSCALE_RATIO" "OVERBOOK_DOWNSCALE_RATIO < Fin 1" by code_simp+
    then obtain b where b: "OVERBOOK_DOWNSCALE_RATIO = Fin b" by (cases OVERBOOK_DOWNSCALE_RATIO; cases "lit (1/20)") simp_all
    obtain a where a: "lit (1/20) = Fin a" using x(1,2) [unfolded b] by (cases "lit (1/20)") simp_all
    show thesis using that [OF a b] x(1,2) [unfolded a b] by simp
  qed
  obtain e where e: "lit (1 / 10 ^ 10) = Fin e" "0 \<le> e"
  proof -
    have "Fin 0 \<le> lit (1 / 10 ^ 10)" "lit (1 / 10 ^ 10) < Fin 1" by code_simp+
    then show thesis using that by (cases "lit (1 / 10 ^ 10)") auto
  qed
  have "q * lit (1/20) \<le> q * OVERBOOK_DOWNSCALE_RATIO"
    using q [unfolded ab(1) e(1)] ab(3,4) e(2) unfolding ab(1,2)
    by (cases q; cases w) (auto simp: inf_sign_def intro!: fl_mono mult_left_mono)
  then show ?thesis using q(2) number_less_le_trans by blast
qed

lemma merge_rows_same:
  "\<forall>p \<in> set gs. length (snd p) \<le> 1 \<or> jt_id r \<notin> jt_id ` set (snd p) \<Longrightarrow> merge_rows col gs r = r"
proof (induction gs)
  case (Cons p gs)
  then have "length (snd p) \<le> 1 \<or> merge_row col (snd p) r = r" using merge_row_other [of r "snd p" col] by (cases "snd p") auto
  then show ?case using Cons by auto
qed simp

text \<open>The merge touches a row only beside another open row of its pair.\<close>

lemma merge_changes:
  assumes "distinct (map jt_id rows)" "mergeDuplicateJupiterOpenTrades col st u rows = (n, rows')" "r \<in> set rows" "r \<notin> set rows'"
  shows "open_of u st r \<and> (\<exists>x \<in> set rows. open_of u st x \<and> jt_id x \<noteq> jt_id r \<and> jt_pair x = jt_pair r)"
proof -
  let ?os = "opens_of u st rows"
  have "rows' = map (merge_rows col (group_by jt_pair ?os)) rows" using merge_result [OF assms(2)] assms(3,4) by auto
  then have "merge_rows col (group_by jt_pair ?os) r \<noteq> r" using assms(3,4) by force
  then obtain p where p: "p \<in> set (group_by jt_pair ?os)" "1 < length (snd p)" "jt_id r \<in> jt_id ` set (snd p)"
    using merge_rows_same by (meson not_le)
  then obtain k where k: "p = (k, filter (\<lambda>x. jt_pair x = k) ?os)" using group_by_elem by blast
  obtain y where y: "y \<in> set (snd p)" "jt_id y = jt_id r" using p(3) by (metis imageE)
  then have "y = r" using row_by_id [OF assms(1) _ assms(3)] by (auto simp: k)
  then have r: "r \<in> set (snd p)" "open_of u st r" "jt_pair r = k" using y(1) by (auto simp: k)
  have d: "distinct (map jt_id (snd p))" using distinct_map_filter [OF distinct_opens_of [OF assms(1)]] by (simp add: k)
  have "\<exists>x \<in> set (snd p). jt_id x \<noteq> jt_id r"
  proof (rule ccontr)
    assume "\<not> ?thesis"
    then have "jt_id ` set (snd p) \<subseteq> {jt_id r}" by auto
    then have "card (jt_id ` set (snd p)) \<le> 1" using card_mono [of "{jt_id r}"] by simp
    then show False using distinct_card [OF d] p(2) by simp
  qed
  then show ?thesis using r by (auto simp: k)
qed

lemma burst_keeps:
  assumes "distinct (map jt_id rows)" "reconcileInflatedJupiterBurstTrades col st u rows = (n, rows')" "x \<in> set rows'"
  obtains y where "y \<in> set rows" "jt_id y = jt_id x" "jt_pair y = jt_pair x" "open_of u st y = open_of u st x"
proof -
  note b = burst_result [OF assms(1,2)]
  have len: "length rows' = length rows" using b by (metis length_map)
  obtain i where i: "i < length rows" "x = rows' ! i" using assms(3) len by (auto simp: in_set_conv_nth)
  have "jt_id (rows ! i) = jt_id x \<and> jt_pair (rows ! i) = jt_pair x \<and> open_of u st (rows ! i) = open_of u st x"
    using b i by (auto simp: corrected_row_def open_of_def)
  then show thesis using that [of "rows ! i"] i(1) by simp
qed

text \<open>What the upkeep takes the wallet to hold of a token: the listed balance, or for a lot younger than six and a half
  minutes that is listed below a twentieth, a second read when it answers.\<close>

definition seen_balance :: "reconcile_io \<Rightarrow> (string \<times> number) list \<Rightarrow> string \<times> nat \<Rightarrow> number \<Rightarrow> time \<Rightarrow> number" where
  "seen_balance io holdings token lotQty youngestAt =
     (let listed = (case map_of (rev holdings) (fst token) of None \<Rightarrow> Fin 0 | Some q \<Rightarrow> q) in
      if listed < lotQty * lit (1/20) \<and> ri_now io - youngestAt < 390000
      then (case ri_balance io (fst token) (snd token) of None \<Rightarrow> listed | Some q \<Rightarrow> q) else listed)"

lemma held_seen: "held_qty io holdings agg token = seen_balance io holdings token (ba_lotQty agg) (ba_youngestAt agg)"
  by (cases token) (simp add: held_qty_def seen_balance_def nullish_def RECONCILE_GRACE_MS_def Let_def)

lemma stale_changes:
  assumes "distinct (map jt_id rows)" "reconcileStaleJupiterOpenTrades io st u rows = (n, rows')"
    and "r \<in> set (tidied io st u rows)" "r \<notin> set rows'" "ri_walletEnabled io" "ri_configured io"
  shows "open_of u st r \<and> (\<exists>holdings. ri_holdings io = Some holdings \<and> (let lot = lot_of_row st u (tidied io st u rows) r in
     ba_lotQty lot \<le> lit (1 / 10 ^ 10) \<or>
     300000 \<le> ri_now io - ba_youngestAt lot \<and>
     (\<exists>token. ri_token io (base_key (jt_pair r) @ ''USDT'') = Some token \<and>
        seen_balance io holdings token (ba_lotQty lot) (ba_youngestAt lot) < ba_lotQty lot * lit (85/100))))"
proof -
  let ?rows = "tidied io st u rows"
  let ?os = "opens_of u st ?rows"
  obtain k rows1 where b: "reconcileInflatedJupiterBurstTrades (ri_col io) st u rows = (k, rows1)" by fastforce
  have t: "?rows = snd (mergeDuplicateJupiterOpenTrades (ri_col io) st u rows1)" by (simp add: tidied_def b)
  have ne: "?os \<noteq> []" "ri_holdings io \<noteq> None"
    using assms(2-6) b t by (auto simp: reconcileStaleJupiterOpenTrades_def Let_def opens_of_def split: if_splits option.splits)
  then obtain h where h: "ri_holdings io = Some h" by blast
  obtain rows3 tc d where f: "foldl (reconcile_base io h) (?rows, [], 0) (by_base ?os) = (rows3, tc, d)" by (metis prod_cases3)
  have rows': "rows' = cancel_ids tc rows3"
    using assms(2,5,6) b t ne h f by (auto simp: reconcileStaleJupiterOpenTrades_def Let_def opens_of_def)
  have "\<not> (r \<in> set rows3 \<and> jt_id r \<notin> set tc)"
    using assms(4) rows' by (auto simp: cancel_ids_def List.member_iff intro: update_where_other)
  then obtain base agg where p: "(base, agg) \<in> set (by_base ?os)" "lot_decision io h base agg \<noteq> KeepLot" "jt_id r \<in> set (ba_tradeIds agg)"
    using reconcile_fold_keeps [OF assms(3), of "[]" "by_base ?os" io h 0 rows3 tc d] f by_base_member by fastforce
  note m = by_base_member [OF p(1)]
  have "distinct (map jt_id ?rows)" using tidied_ids [OF assms(1)] assms(1) by simp
  then have r: "r \<in> set ?os" "base_key (jt_pair r) = base"
    using p(3) m row_by_id [of ?rows _ r] assms(3) by (auto simp: agg_ids)
  have agg: "agg = lot_of_row st u ?rows r" using m r(2) by (simp add: lot_of_row_def)
  have "ba_lotQty agg \<le> lit (1 / 10 ^ 10) \<or> RECONCILE_GRACE_MS \<le> ri_now io - ba_youngestAt agg \<and>
      (\<exists>token. ri_token io (base @ ''USDT'') = Some token \<and> held_qty io h agg token < ba_lotQty agg * OVERBOOK_DOWNSCALE_RATIO)"
    using p(2) twentieth_below by (auto simp: lot_decision_def downscale_def Let_def split: if_splits option.splits)
  then show ?thesis using r h unfolding agg [symmetric] Let_def held_seen RECONCILE_GRACE_MS_def OVERBOOK_DOWNSCALE_RATIO_def by auto
qed


section \<open>A small book\<close>

definition demo_jup :: "string \<Rightarrow> rat \<Rightarrow> trade_status \<Rightarrow> time \<Rightarrow> jupiter_trade" where
  "demo_jup i alloc status created = \<lparr>jt_id = i, jt_user = ''u'', jt_strategy = ''st'', jt_pair = ''SOL/USDT'', jt_entryPrice = Fin 2,
     jt_exitPrice = None, jt_pnl = None, jt_allocationUsd = Some (Fin alloc), jt_status = status, jt_takeProfitPct = None,
     jt_stopLossPct = None, jt_trailingStop = None, jt_createdAt = created\<rparr>"

definition demo_doubles :: "jupiter_trade list" where
  "demo_doubles = [demo_jup ''a'' 42 OPEN 1000, demo_jup ''b'' 42 OPEN 2000, demo_jup ''c'' 42 CLOSED 3000]"

definition demo_burst :: "jupiter_trade list" where
  "demo_burst = [demo_jup ''a'' 126 OPEN 1000, demo_jup ''b'' 42 CANCELLED 2000]"

definition demo_single :: "jupiter_trade list" where
  "demo_single = [demo_jup ''a'' 42 OPEN 1000]"

definition demo_upkeep :: reconcile_io where
  "demo_upkeep = \<lparr>ri_now = 1000000, ri_walletEnabled = True, ri_configured = True, ri_holdings = Some [],
     ri_token = (\<lambda>_. Some (''mint'', 9)), ri_balance = (\<lambda>_ _. None), ri_col = id\<rparr>"

theorem merge_leaves_one_open_row_per_pair_witness:
  "\<exists>n rows'. mergeDuplicateJupiterOpenTrades id ''st'' ''u'' demo_doubles = (n, rows') \<and> map jt_id rows' = [''a'', ''b'', ''c''] \<and>
     n + length (filter (open_of ''u'' ''st'') rows') = 2"
proof -
  obtain n rows' where m: "mergeDuplicateJupiterOpenTrades id ''st'' ''u'' demo_doubles = (n, rows')" by fastforce
  have d: "distinct (map jt_id demo_doubles)" by (simp add: demo_doubles_def demo_jup_def)
  show ?thesis using merge_leaves_one_open_row_per_pair [OF d m] m by (auto simp: demo_doubles_def demo_jup_def open_of_def)
qed

lemma demo_burst_fixed:
  "map jt_allocationUsd (snd (reconcileInflatedJupiterBurstTrades id ''st'' ''u'' demo_burst)) = [Some (Fin 42), Some (Fin 42)]"
  by code_simp

theorem burst_correction_shrinks_duplicates_witness:
  "is_primary (demo_burst ! 0) \<and> length (snd (reconcileInflatedJupiterBurstTrades id ''st'' ''u'' demo_burst)) = 2"
proof -
  obtain n rows' where m: "reconcileInflatedJupiterBurstTrades id ''st'' ''u'' demo_burst = (n, rows')" by fastforce
  have d: "distinct (map jt_id demo_burst)" by (simp add: demo_burst_def demo_jup_def)
  have "rows' ! 0 \<noteq> demo_burst ! 0" using demo_burst_fixed m by (cases rows') (auto simp: demo_burst_def demo_jup_def)
  from burst_correction_shrinks_duplicates [OF d m _ this] m show ?thesis by (simp add: demo_burst_def)
qed

lemma demo_stale:
  "tidied demo_upkeep ''st'' ''u'' demo_single = demo_single"
  "map jt_status (snd (reconcileStaleJupiterOpenTrades demo_upkeep ''st'' ''u'' demo_single)) = [CANCELLED]"
  by code_simp+


end
