(* ===== verification/JupiterSwap.thy ===== *)
theory JupiterSwap
  imports JupiterBook
begin

text \<open>
  Swaps through Jupiter with the user's Solana wallet, the second half of
  \<open>src/src/services/dex/jupiterSwapService.ts\<close>: the gas top-up, the quote preview with its guards, the swap with
  its entry in the trade book, conversions, profit skims and the sale of a position. The order service,
  the wallet's balances, prices, the token registry and signing are parameters that may answer differently
  after each submitted order: they see the list of orders submitted so far. Texts of messages are
  constructors; the wording of the entry note of a preview is left out. The token registry, the mid price and the clock are fixed for the duration of one swap.
\<close>

section \<open>What the service reads and what it keeps\<close>

definition SOL_USDC_MINT :: string where "SOL_USDC_MINT = ''EPjFWdd5AufqSSqeM2qN1xzybapC8G4wEGGkZwyTDt1v''"
definition SOL_NATIVE_MINT :: string where "SOL_NATIVE_MINT = ''So11111111111111111111111111111111111111112''"
definition MIN_USDC_TRADE :: number where "MIN_USDC_TRADE = Fin 50"
definition MIN_BUY_NOTIONAL_USD :: number where "MIN_BUY_NOTIONAL_USD = Fin 1"
definition SOL_GAS_RESERVE :: number where "SOL_GAS_RESERVE = lit (3/1000)"
definition MIN_SOL_FOR_SWAP :: number where "MIN_SOL_FOR_SWAP = lit (8/1000)"
definition GAS_TOPUP_USDC :: number where "GAS_TOPUP_USDC = Fin 1"
definition MAX_BUY_VS_JUPITER_MID_BPS :: number where "MAX_BUY_VS_JUPITER_MID_BPS = Fin 90"
definition MAX_SELL_VS_JUPITER_MID_BPS :: number where "MAX_SELL_VS_JUPITER_MID_BPS = Fin 90"
definition MAX_BUY_ROUND_TRIP_SPREAD_BPS :: number where "MAX_BUY_ROUND_TRIP_SPREAD_BPS = Fin 80"
definition CAUTION_BUY_ROUND_TRIP_SPREAD_BPS :: number where "CAUTION_BUY_ROUND_TRIP_SPREAD_BPS = Fin 40"
definition MAX_MIN_MOVE_TO_BREAK_EVEN_PCT :: number where "MAX_MIN_MOVE_TO_BREAK_EVEN_PCT = lit (12/10)"
definition MAX_SELL_NOTIONAL_USD :: number where "MAX_SELL_NOTIONAL_USD = Fin 25000"
definition BUY_IN_FLIGHT_MS :: int where "BUY_IN_FLIGHT_MS = 45000"
definition CONVERT_FEE_USD :: number where "CONVERT_FEE_USD = lit (1/10)"

datatype jup_side = JupBuy | JupSell
datatype JupiterSpendAsset = SpendUSDC | SpendSOL

record SolToken =
  tn_baseSymbol :: string
  tn_binanceSymbol :: string
  tn_mint :: string
  tn_decimals :: nat
  tn_native :: bool

record SpendMintInfo =
  sm_mint :: string
  sm_decimals :: nat
  sm_usdPerUnit :: number
  sm_isNativeSol :: bool

record JupiterSwapRequest =
  jq_side :: jup_side
  jq_binanceSymbol :: string
  jq_amount :: number
  jq_slippageBps :: "number option"
  jq_spendAsset :: "JupiterSpendAsset option"
  jq_spendMint :: "string option"

record JupiterExecuteOptions =
  xo_skipEntryGuard :: bool
  xo_skipPreview :: bool
  xo_partialSkim :: bool
  xo_smartRoute :: bool

record order_params =
  op_inputMint :: string
  op_outputMint :: string
  op_amount :: string
  op_taker :: "string option"
  op_slippageBps :: number
  op_dexes :: "string option"

record order_answer =
  oa_transaction :: "string option"
  oa_inAmount :: "string option"
  oa_outAmount :: string
  oa_priceImpactPct :: "string option"
  oa_latencyMs :: "number option"
  oa_router :: "string option"

type_synonym submitted = "(user_id \<times> order_params) list"

record jup_io =
  jo_now :: time
  jo_walletEnabled :: bool
  jo_configured :: bool
  jo_ensureWallet :: "user_id \<Rightarrow> string + unit"
  jo_keypair :: "user_id \<Rightarrow> string + string"
  jo_balance :: "submitted \<Rightarrow> user_id \<Rightarrow> string \<Rightarrow> nat \<Rightarrow> string + number"
  jo_token :: "string \<Rightarrow> SolToken option"
  jo_hydrate :: "SolToken \<Rightarrow> SolToken"
  jo_mintDecimals :: "string \<Rightarrow> string + nat"
  jo_price :: "submitted \<Rightarrow> string \<Rightarrow> string + number option"
  jo_mid :: "string \<Rightarrow> number option"
  jo_bookMid :: "string \<Rightarrow> number option"
  jo_sellQuote :: "string \<Rightarrow> number \<Rightarrow> number option"
  jo_order :: "submitted \<Rightarrow> order_params \<Rightarrow> string + order_answer"
  jo_execute :: "submitted \<Rightarrow> order_params \<Rightarrow> order_answer \<Rightarrow> string + string option"
  jo_smartRoute :: "JupiterSwapRequest \<Rightarrow> string option"
  jo_sendFee :: "submitted \<Rightarrow> user_id \<Rightarrow> string \<Rightarrow> number \<Rightarrow> bool"
  jo_rateLimited :: bool
  jo_newId :: string
  jo_decimal :: "number \<Rightarrow> number"
  jo_exitPrefs :: "user_id \<Rightarrow> exit_settings"
  jo_minNetProfitUsd :: number
  jo_takeProfitPct :: number
  jo_stopLossPct :: number
  jo_exitSlippageBps :: number

record jup_state =
  js_rows :: "jupiter_trade list"
  js_inFlight :: "string \<rightharpoonup> time"
  js_submitted :: submitted
  js_credits :: "(user_id \<times> number) list"
  js_fees :: "(user_id \<times> string \<times> number) list"

datatype block_reason =
    SellTooLarge number | MinimumBuy | AskAboveMid number | BidBelowMid number
  | SpreadTooWide bool number | MoveTooLarge bool number | NetTooSmall number number number

datatype preview_message = TokenUnresolved | NotionalTooLarge | SpendUnpriced | QuoteFailed string

datatype jup_error =
    WalletOff | JupiterOff | AmountInvalid | IoFailed string
  | GasMissing number number | GasQuoteFailed string | GasNoTransaction | GasNotConfirmed
  | NotTradable "preview_message option" | TradeBlocked "block_reason option" | PairNotAvailable string
  | InsufficientSpend number number | InsufficientHolding string | NoTransaction | NoSignature | BuyInProgress
  | PickBothCoins | SameCoin | InvalidAmount | ConvertTooSmall
  | NothingToSkim string | NoRecordedSize string | NoExecutableQuote | NotInProfit string number | SliceTooSmall | NoOpenRow string

type_synonym 'a jup_result = "(jup_error + 'a) \<times> jup_state"

definition attempt :: "string + 'a \<Rightarrow> jup_state \<Rightarrow> 'a jup_result" where
  "attempt r s = (case r of Inl m \<Rightarrow> (Inl (IoFailed m), s) | Inr x \<Rightarrow> (Inr x, s))"

definition nonempty :: "string option \<Rightarrow> string option" where
  "nonempty t = (case t of Some x \<Rightarrow> if x = [] then None else Some x | None \<Rightarrow> None)"

section \<open>Units and quotes\<close>

definition pow10 :: "nat \<Rightarrow> number" where
  "pow10 d = fl (10 ^ d)"

definition toSmallest :: "number \<Rightarrow> nat \<Rightarrow> string" where
  "toSmallest amountHuman decimals = number_to_string (math_max (Fin 1) (math_floor (amountHuman * pow10 decimals)))"

definition fromSmallest :: "string \<Rightarrow> nat \<Rightarrow> number" where
  "fromSmallest raw decimals = number_of_string raw / pow10 decimals"

definition floor_qty :: "nat \<Rightarrow> number \<Rightarrow> number" where
  "floor_qty decimals q = (let factor = pow10 (min decimals 8) in math_floor (q * factor) / factor)"

definition tokenQtyForUsdNotional :: "number \<Rightarrow> number option \<Rightarrow> nat \<Rightarrow> number" where
  "tokenQtyForUsdNotional usd usdPerToken decimals =
     (case usdPerToken of
        None \<Rightarrow> Fin 0
      | Some p \<Rightarrow> if \<not> truthy p \<or> p \<le> Fin 0 then Fin 0 else floor_qty decimals (usd / p))"

definition suggestJupiterSellQty :: "number \<Rightarrow> nat \<Rightarrow> number \<Rightarrow> number" where
  "suggestJupiterSellQty usdPerToken tokenDecimals usd = tokenQtyForUsdNotional usd (Some usdPerToken) tokenDecimals"

definition clamp_slippage :: "number option \<Rightarrow> number" where
  "clamp_slippage s = math_min (Fin 2000) (math_max (Fin 10) (nullish s (Fin 100)))"

definition fetchJupiterBuyPrice :: "jup_io \<Rightarrow> submitted \<Rightarrow> SolToken \<Rightarrow> number \<Rightarrow> number \<Rightarrow> number option" where
  "fetchJupiterBuyPrice io h token usdcHuman slippageBps =
     (if usdcHuman \<le> Fin 0 then None
      else case jo_order io h \<lparr>op_inputMint = SOL_USDC_MINT, op_outputMint = tn_mint token, op_amount = toSmallest usdcHuman 6,
                               op_taker = None, op_slippageBps = slippageBps, op_dexes = None\<rparr> of
        Inl _ \<Rightarrow> None
      | Inr order \<Rightarrow>
          let out = fromSmallest (oa_outAmount order) (tn_decimals token) in if Fin 0 < out then Some (usdcHuman / out) else None)"

definition fetchJupiterSellPrice :: "jup_io \<Rightarrow> submitted \<Rightarrow> SolToken \<Rightarrow> number \<Rightarrow> number \<Rightarrow> number option" where
  "fetchJupiterSellPrice io h token tokenQtyHuman slippageBps =
     (if tokenQtyHuman \<le> Fin 0 then None
      else case jo_order io h \<lparr>op_inputMint = tn_mint token, op_outputMint = SOL_USDC_MINT,
                               op_amount = toSmallest tokenQtyHuman (tn_decimals token), op_taker = None,
                               op_slippageBps = slippageBps, op_dexes = None\<rparr> of
        Inl _ \<Rightarrow> None
      | Inr order \<Rightarrow> let out = fromSmallest (oa_outAmount order) 6 in if Fin 0 < tokenQtyHuman then Some (out / tokenQtyHuman) else None)"

definition positive_price :: "number option \<Rightarrow> number option" where
  "positive_price p = (case p of Some x \<Rightarrow> if truthy x \<and> Fin 0 < x then Some x else None | None \<Rightarrow> None)"

definition resolveSpendMint :: "jup_io \<Rightarrow> submitted \<Rightarrow> string option \<Rightarrow> JupiterSpendAsset option \<Rightarrow> string + SpendMintInfo" where
  "resolveSpendMint io h spendMint spendAsset =
     (let mint = (case nonempty (map_option trim spendMint) of
                    Some m \<Rightarrow> m
                  | None \<Rightarrow> (case nullish spendAsset SpendUSDC of SpendUSDC \<Rightarrow> SOL_USDC_MINT | SpendSOL \<Rightarrow> SOL_NATIVE_MINT));
          isNativeSol = (mint = SOL_NATIVE_MINT) in
      case (if mint = SOL_USDC_MINT then Inr 6 else if isNativeSol then Inr 9 else jo_mintDecimals io mint) of
        Inl m \<Rightarrow> Inl m
      | Inr decimals \<Rightarrow>
          (case (if mint = SOL_USDC_MINT then Inr (Some (Fin 1)) else jo_price io h mint) of
             Inl m \<Rightarrow> Inl m
           | Inr px \<Rightarrow> Inr \<lparr>sm_mint = mint, sm_decimals = decimals, sm_usdPerUnit = nullish (positive_price px) (Fin 0),
                             sm_isNativeSol = isNativeSol\<rparr>))"

definition usdc_leg :: SpendMintInfo where
  "usdc_leg = \<lparr>sm_mint = SOL_USDC_MINT, sm_decimals = 6, sm_usdPerUnit = Fin 1, sm_isNativeSol = False\<rparr>"

definition spend_of :: "jup_io \<Rightarrow> submitted \<Rightarrow> JupiterSwapRequest \<Rightarrow> string + SpendMintInfo" where
  "spend_of io h req = (if jq_side req = JupBuy then resolveSpendMint io h (jq_spendMint req) (jq_spendAsset req) else Inr usdc_leg)"

definition reconcileFillPriceWithMark :: "jup_io \<Rightarrow> submitted \<Rightarrow> string \<Rightarrow> number \<Rightarrow> number" where
  "reconcileFillPriceWithMark io h mint fillPrice =
     (if \<not> is_finite fillPrice \<or> fillPrice \<le> Fin 0 then fillPrice
      else case jo_price io h mint of
        Inl _ \<Rightarrow> fillPrice
      | Inr px \<Rightarrow>
          (case positive_price px of
             None \<Rightarrow> fillPrice
           | Some mark \<Rightarrow> let ratio = fillPrice / mark in if Fin 4 < ratio \<or> ratio < Fin (1/4) then mark else fillPrice))"

section \<open>Gas\<close>

text \<open>Signing and submission of an order; the order counts as submitted from here on, whatever comes back.\<close>

definition submit :: "jup_io \<Rightarrow> user_id \<Rightarrow> order_params \<Rightarrow> order_answer \<Rightarrow> jup_state \<Rightarrow> string option jup_result" where
  "submit io u p order s = attempt (jo_execute io (js_submitted s) p order) (s\<lparr>js_submitted := js_submitted s @ [(u, p)]\<rparr>)"

definition gas_topup :: "number \<Rightarrow> number" where
  "gas_topup usdc = math_min GAS_TOPUP_USDC (math_max (lit (4/10)) (math_min usdc GAS_TOPUP_USDC))"

definition gas_order :: "string \<Rightarrow> number \<Rightarrow> order_params" where
  "gas_order taker topUpUsd = \<lparr>op_inputMint = SOL_USDC_MINT, op_outputMint = SOL_NATIVE_MINT, op_amount = toSmallest topUpUsd 6,
     op_taker = Some taker, op_slippageBps = Fin 300, op_dexes = None\<rparr>"

definition ensureSolanaSwapGas :: "jup_io \<Rightarrow> user_id \<Rightarrow> jup_state \<Rightarrow> unit jup_result" where
  "ensureSolanaSwapGas io u s0 =
     and_then (attempt (jo_balance io (js_submitted s0) u SOL_NATIVE_MINT 9) s0) (\<lambda>sol s.
     if MIN_SOL_FOR_SWAP \<le> sol then (Inr (), s)
     else and_then (attempt (jo_balance io (js_submitted s) u SOL_USDC_MINT 6) s) (\<lambda>usdc s.
       and_then (require (\<not> usdc < lit (4/10)) (GasMissing sol usdc) s) (\<lambda>_ s.
       and_then (attempt (jo_keypair io u) s) (\<lambda>taker s.
       let p = gas_order taker (gas_topup usdc) in
       case jo_order io (js_submitted s) p of
         Inl m \<Rightarrow> (Inl (GasQuoteFailed m), s)
       | Inr order \<Rightarrow>
           if nonempty (oa_transaction order) = None then (Inl GasNoTransaction, s)
           else and_then (submit io u p order s) (\<lambda>sig s. require (nonempty sig \<noteq> None) GasNotConfirmed s)))))"

section \<open>The preview of a swap\<close>

datatype entry_quality = EntryGood | EntryCaution | EntryPoor

record JupiterQuotePreview =
  pv_binanceSymbol :: string
  pv_side :: jup_side
  pv_token :: "SolToken option"
  pv_amountIn :: string
  pv_amountOut :: string
  pv_amountInHuman :: number
  pv_amountOutHuman :: number
  pv_notionalUsd :: "number option"
  pv_midPrice :: "number option"
  pv_executablePrice :: "number option"
  pv_priceVsMidBps :: "number option"
  pv_priceImpactPct :: "number option"
  pv_latencyMs :: number
  pv_tradable :: bool
  pv_blockTrade :: bool
  pv_blockReason :: "block_reason option"
  pv_router :: "string option"
  pv_message :: "preview_message option"
  pv_jupiterBuyPrice :: "number option"
  pv_jupiterSellPrice :: "number option"
  pv_roundTripSpreadBps :: "number option"
  pv_estRoundTripLossUsd :: "number option"
  pv_openEntryPrice :: "number option"
  pv_minProfitableSellPrice :: "number option"
  pv_breakEvenSellPrice :: "number option"
  pv_upsideToBreakEvenPct :: "number option"
  pv_priceVsEntryBps :: "number option"
  pv_estNetPnlUsd :: "number option"
  pv_takeProfitPct :: "number option"
  pv_stopLossPct :: "number option"
  pv_minMoveToBreakEvenPct :: "number option"
  pv_entryQuality :: "entry_quality option"
  pv_binanceRefMid :: "number option"
  pv_cexEdgeBps :: "number option"

text \<open>A preview that names no price: not tradable, blocked, with a message.\<close>

definition blocked_preview ::
  "string \<Rightarrow> jup_side \<Rightarrow> SolToken option \<Rightarrow> string \<Rightarrow> number \<Rightarrow> number option \<Rightarrow> number option \<Rightarrow> block_reason option \<Rightarrow> preview_message
    \<Rightarrow> JupiterQuotePreview" where
  "blocked_preview symbol side token amountIn amountInHuman notional mid reason msg =
     \<lparr>pv_binanceSymbol = symbol, pv_side = side, pv_token = token, pv_amountIn = amountIn, pv_amountOut = ''0'',
      pv_amountInHuman = amountInHuman, pv_amountOutHuman = Fin 0, pv_notionalUsd = notional, pv_midPrice = mid,
      pv_executablePrice = None, pv_priceVsMidBps = None, pv_priceImpactPct = None, pv_latencyMs = Fin 0,
      pv_tradable = False, pv_blockTrade = True, pv_blockReason = reason, pv_router = None, pv_message = Some msg,
      pv_jupiterBuyPrice = None, pv_jupiterSellPrice = None, pv_roundTripSpreadBps = None, pv_estRoundTripLossUsd = None,
      pv_openEntryPrice = None, pv_minProfitableSellPrice = None, pv_breakEvenSellPrice = None, pv_upsideToBreakEvenPct = None,
      pv_priceVsEntryBps = None, pv_estNetPnlUsd = None, pv_takeProfitPct = None, pv_stopLossPct = None,
      pv_minMoveToBreakEvenPct = None, pv_entryQuality = None, pv_binanceRefMid = None, pv_cexEdgeBps = None\<rparr>"

definition bps_between :: "number \<Rightarrow> number \<Rightarrow> number" where
  "bps_between price ref = math_round ((price - ref) / ref * Fin 10000)"

text \<open>The numbers of the quoted order: amounts, dollars in, price, distance to the mid.\<close>

record quote_leg =
  ql_in :: number
  ql_out :: number
  ql_inUsd :: number
  ql_price :: "number option"
  ql_vsMid :: "number option"

definition quote_leg_of :: "JupiterSwapRequest \<Rightarrow> number option \<Rightarrow> SpendMintInfo \<Rightarrow> nat \<Rightarrow> nat \<Rightarrow> string \<Rightarrow> order_answer \<Rightarrow> quote_leg" where
  "quote_leg_of req mid spend inDecimals outDecimals amountIn order =
     (let buy = (jq_side req = JupBuy);
          outHuman = fromSmallest (oa_outAmount order) outDecimals;
          inHuman = fromSmallest (nullish (oa_inAmount order) amountIn) inDecimals;
          inUsd = (if buy then inHuman * sm_usdPerUnit spend else inHuman);
          price = (if Fin 0 < inHuman \<and> Fin 0 < outHuman then Some (if buy then inUsd / outHuman else outHuman / inHuman) else None);
          vsMid = (case (price, positive_price mid) of
                     (Some p, Some m) \<Rightarrow> if Fin 0 < p then Some (bps_between p m) else None | _ \<Rightarrow> None) in
      \<lparr>ql_in = inHuman, ql_out = outHuman, ql_inUsd = inUsd, ql_price = price, ql_vsMid = vsMid\<rparr>)"

definition leg_notional :: "jup_side \<Rightarrow> number option \<Rightarrow> quote_leg \<Rightarrow> number" where
  "leg_notional side mid l =
     (if side = JupBuy then ql_inUsd l else case positive_price mid of Some m \<Rightarrow> ql_in l * m | None \<Rightarrow> ql_out l)"

definition price_blocks :: "jup_side \<Rightarrow> number \<Rightarrow> number option \<Rightarrow> block_reason option" where
  "price_blocks side notional vsMid =
     (let b1 = (if side = JupBuy \<and> Fin 0 < notional \<and> notional < MIN_BUY_NOTIONAL_USD then Some MinimumBuy else None);
          b2 = (case vsMid of Some b \<Rightarrow> if side = JupBuy \<and> MAX_BUY_VS_JUPITER_MID_BPS < b then Some (AskAboveMid b) else b1 | None \<Rightarrow> b1) in
      case vsMid of Some b \<Rightarrow> if side = JupSell \<and> b < - MAX_SELL_VS_JUPITER_MID_BPS then Some (BidBelowMid b) else b2 | None \<Rightarrow> b2)"

text \<open>What the entry checks of a purchase and the mirror quote of a sale add to the preview.\<close>

record round_trip_view =
  rv_buy :: "number option"
  rv_sell :: "number option"
  rv_spread :: "number option"
  rv_loss :: "number option"
  rv_minMove :: "number option"
  rv_quality :: entry_quality
  rv_block :: "block_reason option"
  rv_cexEdge :: "number option"

definition no_view :: round_trip_view where
  "no_view = \<lparr>rv_buy = None, rv_sell = None, rv_spread = None, rv_loss = None, rv_minMove = None, rv_quality = EntryGood,
     rv_block = None, rv_cexEdge = None\<rparr>"

definition target_net :: "jup_io \<Rightarrow> number" where
  "target_net io = jo_minNetProfitUsd io + SOLANA_DEX_ROUND_TRIP_FEE_USD"

definition buy_view :: "jup_io \<Rightarrow> SolToken \<Rightarrow> number option \<Rightarrow> number \<Rightarrow> quote_leg \<Rightarrow> number \<Rightarrow> round_trip_view" where
  "buy_view io token bookMid slippageBps l p =
     (let sell = jo_sellQuote io (tn_baseSymbol token) (ql_out l);
          spread = (case sell of Some q \<Rightarrow> if Fin 0 < p then Some (bps_between q p) else None | None \<Rightarrow> None);
          loss = (case sell of Some q \<Rightarrow> if Fin 0 < p then Some (round_to (Fin 10000) (ql_out l * q - ql_inUsd l)) else None | None \<Rightarrow> None);
          slip = slippage_factor slippageBps;
          minMove = (if Fin 0 < p \<and> Fin 0 < ql_inUsd l \<and> Fin 0 < slip
                     then (let be = break_even_price (target_net io) slip p (ql_inUsd l) in Some (math_round ((be - p) / p * Fin 10000) / Fin 100))
                     else None);
          spreadBad = (case spread of Some b \<Rightarrow> b \<le> - MAX_BUY_ROUND_TRIP_SPREAD_BPS | None \<Rightarrow> False);
          spreadCaution = (case spread of Some b \<Rightarrow> b \<le> - CAUTION_BUY_ROUND_TRIP_SPREAD_BPS | None \<Rightarrow> False) \<and> \<not> spreadBad;
          moveBad = (case minMove of Some m \<Rightarrow> MAX_MIN_MOVE_TO_BREAK_EVEN_PCT < m | None \<Rightarrow> False);
          q0 = (if spreadBad \<or> moveBad then EntryPoor else if spreadCaution then EntryCaution else EntryGood);
          block = (if spreadBad then Some (SpreadTooWide (jo_rateLimited io) (nullish spread (Fin 0)))
                   else if moveBad then Some (MoveTooLarge (jo_rateLimited io) (nullish minMove (Fin 0))) else None);
          edge = (case bookMid of Some m \<Rightarrow> if Fin 0 < m then Some (math_round ((m - p) / m * Fin 10000)) else None | None \<Rightarrow> None) in
      \<lparr>rv_buy = Some p, rv_sell = sell, rv_spread = spread, rv_loss = loss, rv_minMove = minMove,
       rv_quality = (case edge of Some e \<Rightarrow> if Fin 15 \<le> e \<and> q0 \<noteq> EntryPoor then EntryGood else q0 | None \<Rightarrow> q0),
       rv_block = block, rv_cexEdge = edge\<rparr>)"

definition sell_view :: "jup_io \<Rightarrow> submitted \<Rightarrow> SolToken \<Rightarrow> number option \<Rightarrow> number \<Rightarrow> quote_leg \<Rightarrow> number \<Rightarrow> round_trip_view" where
  "sell_view io h token mid slippageBps l p =
     (let usdcRef = (if Fin 0 < ql_out l then ql_out l else case positive_price mid of Some m \<Rightarrow> ql_in l * m | None \<Rightarrow> MIN_USDC_TRADE);
          buy = fetchJupiterBuyPrice io h token (math_max MIN_USDC_TRADE usdcRef) slippageBps;
          both = (case buy of Some b \<Rightarrow> Fin 0 < b \<and> Fin 0 < p | None \<Rightarrow> False) in
      no_view\<lparr>rv_buy := buy, rv_sell := Some p,
        rv_spread := (if both then Some (bps_between p (nullish buy (Fin 0))) else None),
        rv_loss := (if both then Some (round_to (Fin 10000) (ql_in l * (p - nullish buy (Fin 0)))) else None)\<rparr>)"

definition round_trip_of ::
  "jup_io \<Rightarrow> submitted \<Rightarrow> SolToken \<Rightarrow> jup_side \<Rightarrow> number option \<Rightarrow> number option \<Rightarrow> number \<Rightarrow> quote_leg \<Rightarrow> round_trip_view" where
  "round_trip_of io h token side mid bookMid slippageBps l =
     (case ql_price l of
        None \<Rightarrow> no_view
      | Some p \<Rightarrow>
          if \<not> truthy p then no_view
          else if side = JupBuy \<and> Fin 0 < ql_in l \<and> Fin 0 < ql_out l then buy_view io token bookMid slippageBps l p
          else if side = JupSell \<and> Fin 0 < ql_in l then sell_view io h token mid slippageBps l p
          else no_view)"

text \<open>The guard of a sale against the average entry of the open rows.\<close>

record entry_guard =
  eg_entry :: "number option"
  eg_minProfitable :: "number option"
  eg_breakEven :: "number option"
  eg_upside :: "number option"
  eg_vsEntry :: "number option"
  eg_estNet :: "number option"
  eg_block :: "block_reason option"

definition no_guard :: entry_guard where
  "no_guard = \<lparr>eg_entry = None, eg_minProfitable = None, eg_breakEven = None, eg_upside = None, eg_vsEntry = None, eg_estNet = None, eg_block = None\<rparr>"

definition sale_guard :: "jup_io \<Rightarrow> number \<Rightarrow> number \<Rightarrow> quote_leg \<Rightarrow> number \<Rightarrow> number \<times> number \<Rightarrow> entry_guard" where
  "sale_guard io stopLossPct slippageBps l p = (\<lambda>(avgEntry, totalAlloc).
     let vsEntry = bps_between p avgEntry;
         lotQty = totalAlloc / avgEntry;
         frac = (if Fin 0 < lotQty then math_min (Fin 1) (ql_in l / lotQty) else Fin 1);
         sliceAlloc = totalAlloc * frac;
         estNet = estimatedNetRoundTripUsd sliceAlloc avgEntry p slippageBps SOLANA_DEX_ROUND_TRIP_FEE_USD;
         slip = slippage_factor slippageBps;
         breakEven = (if Fin 0 < sliceAlloc \<and> Fin 0 < slip then Some (break_even_price (target_net io) slip avgEntry sliceAlloc) else None);
         isStopLoss = vsEntry / Fin 100 \<le> - stopLossPct;
         clearsBreakEven = (case breakEven of Some b \<Rightarrow> b \<le> p | None \<Rightarrow> False);
         clearsFees = jo_minNetProfitUsd io \<le> estNet in
     \<lparr>eg_entry = Some avgEntry, eg_minProfitable = Some (nullish breakEven avgEntry), eg_breakEven = breakEven,
      eg_upside = map_option (upside_pct p) breakEven, eg_vsEntry = Some vsEntry, eg_estNet = Some estNet,
      eg_block = (if \<not> isStopLoss \<and> (\<not> clearsBreakEven \<or> \<not> clearsFees)
                  then Some (NetTooSmall estNet (nullish breakEven avgEntry) p) else None)\<rparr>)"

definition guard_of ::
  "jup_io \<Rightarrow> string \<Rightarrow> jupiter_trade list \<Rightarrow> user_id option \<Rightarrow> bool \<Rightarrow> SolToken \<Rightarrow> jup_side \<Rightarrow> number \<Rightarrow> number \<Rightarrow> quote_leg \<Rightarrow> entry_guard" where
  "guard_of io st rows user skipEntryGuard token side stopLossPct slippageBps l =
     (case (user, ql_price l) of
        (Some u, Some p) \<Rightarrow>
          if side = JupSell \<and> truthy p \<and> \<not> skipEntryGuard then
            (case getJupiterOpenEntry st u (tn_baseSymbol token) rows of
               None \<Rightarrow> no_guard | Some open_entry \<Rightarrow> sale_guard io stopLossPct slippageBps l p open_entry)
          else no_guard
      | _ \<Rightarrow> no_guard)"

definition order_of :: "JupiterSwapRequest \<Rightarrow> SolToken \<Rightarrow> SpendMintInfo \<Rightarrow> string \<Rightarrow> string option \<Rightarrow> number \<Rightarrow> string option \<Rightarrow> order_params" where
  "order_of req token spend amountIn taker slippageBps dexes =
     \<lparr>op_inputMint = (if jq_side req = JupBuy then sm_mint spend else tn_mint token),
      op_outputMint = (if jq_side req = JupBuy then tn_mint token else SOL_USDC_MINT),
      op_amount = amountIn, op_taker = taker, op_slippageBps = slippageBps, op_dexes = dexes\<rparr>"

definition jup_in_decimals :: "JupiterSwapRequest \<Rightarrow> SolToken \<Rightarrow> SpendMintInfo \<Rightarrow> nat" where
  "jup_in_decimals req token spend = (if jq_side req = JupBuy then sm_decimals spend else tn_decimals token)"

definition jup_out_decimals :: "JupiterSwapRequest \<Rightarrow> SolToken \<Rightarrow> nat" where
  "jup_out_decimals req token = (if jq_side req = JupBuy then tn_decimals token else 6)"

definition quoted_preview ::
  "jup_io \<Rightarrow> string \<Rightarrow> jupiter_trade list \<Rightarrow> submitted \<Rightarrow> JupiterSwapRequest \<Rightarrow> user_id option \<Rightarrow> bool \<Rightarrow> SolToken \<Rightarrow> SpendMintInfo
    \<Rightarrow> number \<Rightarrow> string \<Rightarrow> order_answer \<Rightarrow> JupiterQuotePreview" where
  "quoted_preview io st rows h req user skipEntryGuard token spend slippageBps amountIn order =
     (let side = jq_side req; mid = jo_mid io (tn_binanceSymbol token);
          bookMid = (if side = JupBuy \<and> \<not> tn_native token then jo_bookMid io (tn_binanceSymbol token) else None);
          l = quote_leg_of req mid spend (jup_in_decimals req token spend) (jup_out_decimals req token) amountIn order;
          notional = leg_notional side mid l;
          impact = (case oa_priceImpactPct order of None \<Rightarrow> NaN | Some x \<Rightarrow> parse_float x);
          takeProfitPct = (case user of Some u \<Rightarrow> xs_takeProfitPct (jo_exitPrefs io u) | None \<Rightarrow> jo_takeProfitPct io);
          stopLossPct = (case user of Some u \<Rightarrow> xs_stopLossPct (jo_exitPrefs io u) | None \<Rightarrow> jo_stopLossPct io);
          v = round_trip_of io h token side mid bookMid slippageBps l;
          g = guard_of io st rows user skipEntryGuard token side stopLossPct slippageBps l;
          reason = or_else (eg_block g) (or_else (rv_block v) (price_blocks side notional (ql_vsMid l)));
          blocked = (reason \<noteq> None) in
      \<lparr>pv_binanceSymbol = tn_binanceSymbol token, pv_side = side, pv_token = Some token,
       pv_amountIn = nullish (oa_inAmount order) amountIn, pv_amountOut = oa_outAmount order,
       pv_amountInHuman = ql_in l, pv_amountOutHuman = ql_out l, pv_notionalUsd = Some notional, pv_midPrice = mid,
       pv_executablePrice = ql_price l, pv_priceVsMidBps = ql_vsMid l,
       pv_priceImpactPct = (if is_finite impact then Some impact else None), pv_latencyMs = nullish (oa_latencyMs order) (Fin 0),
       pv_tradable = (Fin 0 < ql_out l \<and> \<not> blocked), pv_blockTrade = blocked, pv_blockReason = reason,
       pv_router = oa_router order, pv_message = None, pv_jupiterBuyPrice = rv_buy v, pv_jupiterSellPrice = rv_sell v,
       pv_roundTripSpreadBps = rv_spread v, pv_estRoundTripLossUsd = rv_loss v, pv_openEntryPrice = eg_entry g,
       pv_minProfitableSellPrice = eg_minProfitable g, pv_breakEvenSellPrice = eg_breakEven g,
       pv_upsideToBreakEvenPct = eg_upside g, pv_priceVsEntryBps = eg_vsEntry g, pv_estNetPnlUsd = eg_estNet g,
       pv_takeProfitPct = Some takeProfitPct, pv_stopLossPct = Some stopLossPct, pv_minMoveToBreakEvenPct = rv_minMove v,
       pv_entryQuality = Some (rv_quality v), pv_binanceRefMid = bookMid, pv_cexEdgeBps = rv_cexEdge v\<rparr>)"

definition previewJupiterSwap ::
  "jup_io \<Rightarrow> string \<Rightarrow> JupiterSwapRequest \<Rightarrow> user_id option \<Rightarrow> bool \<Rightarrow> jup_state \<Rightarrow> jup_error + JupiterQuotePreview" where
  "previewJupiterSwap io st req user skipEntryGuard s =
     (if \<not> jo_configured io then Inl JupiterOff
      else case jo_token io (jq_binanceSymbol req) of
        None \<Rightarrow> Inr (blocked_preview (to_upper (jq_binanceSymbol req)) (jq_side req) None ''0'' (Fin 0) None None None TokenUnresolved)
      | Some tokenRaw \<Rightarrow>
          let token = jo_hydrate io tokenRaw; mid = jo_mid io (tn_binanceSymbol token);
              notional = jq_amount req * nullish (positive_price mid) (Fin 0) in
          if jq_side req = JupSell \<and> positive_price mid \<noteq> None \<and> MAX_SELL_NOTIONAL_USD < notional
          then Inr (blocked_preview (tn_binanceSymbol token) JupSell (Some token) ''0'' (jq_amount req) (Some notional) mid
                      (Some (SellTooLarge notional)) NotionalTooLarge)
          else (case spend_of io (js_submitted s) req of
             Inl m \<Rightarrow> Inl (IoFailed m)
           | Inr spend \<Rightarrow>
               if jq_side req = JupBuy \<and> sm_usdPerUnit spend \<le> Fin 0
               then Inr (blocked_preview (tn_binanceSymbol token) JupBuy (Some token) ''0'' (jq_amount req) None mid None SpendUnpriced)
               else
                 let slippageBps = clamp_slippage (jq_slippageBps req);
                     amountIn = toSmallest (jq_amount req) (jup_in_decimals req token spend) in
                 (case jo_order io (js_submitted s) (order_of req token spend amountIn None slippageBps None) of
                    Inl m \<Rightarrow> Inr (blocked_preview (tn_binanceSymbol token) (jq_side req) (Some token) amountIn (jq_amount req) None mid None (QuoteFailed m))
                  | Inr order \<Rightarrow>
                      Inr (quoted_preview io st (js_rows s) (js_submitted s) req user skipEntryGuard token spend slippageBps amountIn order))))"

section \<open>The trade book\<close>

datatype fill_side = FillBuy | FillSell | FillClosed

record swap_trade =
  sw_id :: string
  sw_pair :: string
  sw_allocationUsd :: number
  sw_entryPrice :: number
  sw_exitPrice :: "number option"
  sw_pnl :: "number option"
  sw_side :: fill_side
  sw_status :: trade_status

definition open_pair :: "user_id \<Rightarrow> string \<Rightarrow> string \<Rightarrow> jupiter_trade \<Rightarrow> bool" where
  "open_pair u st pair t \<longleftrightarrow> open_of u st t \<and> jt_pair t = pair"

definition oldest_of_pair :: "user_id \<Rightarrow> string \<Rightarrow> string \<Rightarrow> jupiter_trade list \<Rightarrow> jupiter_trade option" where
  "oldest_of_pair u st pair rows = find_first (open_pair u st pair) (order_asc jt_createdAt) rows"

definition created_row :: "jup_io \<Rightarrow> user_id \<Rightarrow> string \<Rightarrow> string \<Rightarrow> number \<Rightarrow> number option \<Rightarrow> number option \<Rightarrow> number \<Rightarrow> trade_status \<Rightarrow> jupiter_trade" where
  "created_row io u st pair entry exit pnl alloc status =
     \<lparr>jt_id = jo_newId io, jt_user = u, jt_strategy = st, jt_pair = pair, jt_entryPrice = jo_decimal io entry,
      jt_exitPrice = map_option (jo_decimal io) exit, jt_pnl = pnl,
      jt_allocationUsd = (if Fin 0 < alloc then Some (jo_decimal io alloc) else None), jt_status = status,
      jt_takeProfitPct = None, jt_stopLossPct = None, jt_trailingStop = None, jt_createdAt = jo_now io\<rparr>"

text \<open>A purchase grows the oldest open row of the pair, or opens one.\<close>

definition grown :: "jupiter_trade \<Rightarrow> number \<Rightarrow> number \<Rightarrow> number \<times> number" where
  "grown existing alloc entry =
     (let prevAlloc = alloc_of existing; prevEntry = jt_entryPrice existing;
          newAlloc = (if Fin 0 < prevAlloc then prevAlloc else Fin 0) + alloc in
      (newAlloc, if Fin 0 < prevAlloc \<and> Fin 0 < prevEntry \<and> Fin 0 < alloc
                 then (prevEntry * prevAlloc + entry * alloc) / newAlloc else entry))"

definition book_buy :: "jup_io \<Rightarrow> user_id \<Rightarrow> string \<Rightarrow> string \<Rightarrow> number \<Rightarrow> number \<Rightarrow> jup_state \<Rightarrow> swap_trade \<times> jup_state" where
  "book_buy io u st pair alloc entry s =
     (case oldest_of_pair u st pair (js_rows s) of
        Some existing \<Rightarrow>
          (case grown existing alloc entry of (newAlloc, newEntry) \<Rightarrow>
             let rows1 = update_where (\<lambda>r. jt_id r = jt_id existing)
                   (\<lambda>r. r\<lparr>jt_allocationUsd := Some (jo_decimal io newAlloc), jt_entryPrice := jo_decimal io newEntry\<rparr>) (js_rows s) in
             (\<lparr>sw_id = jt_id existing, sw_pair = pair, sw_allocationUsd = newAlloc, sw_entryPrice = newEntry, sw_exitPrice = None,
               sw_pnl = None, sw_side = FillBuy, sw_status = OPEN\<rparr>,
              s\<lparr>js_rows := snd (mergeDuplicateJupiterOpenTrades (jo_decimal io) st u rows1)\<rparr>))
      | None \<Rightarrow>
          (\<lparr>sw_id = jo_newId io, sw_pair = pair, sw_allocationUsd = alloc, sw_entryPrice = entry, sw_exitPrice = None,
            sw_pnl = None, sw_side = FillBuy, sw_status = OPEN\<rparr>,
           s\<lparr>js_rows := js_rows s @ [created_row io u st pair entry None None alloc OPEN], js_credits := js_credits s @ [(u, alloc)]\<rparr>))"

text \<open>A sale closes the oldest open row of the pair and cancels its duplicates; a skim keeps it open with
  the sold part taken out.\<close>

definition skim_row :: "jup_io \<Rightarrow> number \<Rightarrow> number \<Rightarrow> jupiter_trade \<Rightarrow> swap_trade \<times> jupiter_trade" where
  "skim_row io soldQty exit t =
     (let buyAlloc = alloc_of t; buyEntry = jt_entryPrice t; totalQty = (if Fin 0 < buyEntry then buyAlloc / buyEntry else Fin 0);
          soldFraction = math_min (lit (95/100)) (soldQty / totalQty);
          skimAlloc = buyAlloc * soldFraction;
          realized = roundTripRealizedPnl skimAlloc buyEntry exit;
          remaining = math_max (Fin 0) (buyAlloc - skimAlloc);
          stays = Fin (1/2) < remaining in
      (\<lparr>sw_id = jt_id t, sw_pair = jt_pair t, sw_allocationUsd = (if stays then remaining else buyAlloc), sw_entryPrice = buyEntry,
        sw_exitPrice = (if stays then None else Some exit), sw_pnl = Some realized,
        sw_side = (if stays then FillBuy else FillClosed), sw_status = (if stays then OPEN else CLOSED)\<rparr>,
       t\<lparr>jt_allocationUsd := (if stays then Some (jo_decimal io remaining) else None),
         jt_status := (if stays then OPEN else CLOSED),
         jt_pnl := Some (jo_decimal io (nullish (jt_pnl t) (Fin 0) + realized)),
         jt_exitPrice := (if remaining \<le> Fin (1/2) then Some (jo_decimal io exit) else jt_exitPrice t)\<rparr>))"

definition close_row :: "jup_io \<Rightarrow> number \<Rightarrow> jupiter_trade \<Rightarrow> swap_trade \<times> jupiter_trade" where
  "close_row io exit t =
     (let realized = roundTripRealizedPnl (alloc_of t) (jt_entryPrice t) exit;
          totalPnl = nullish (jt_pnl t) (Fin 0) + realized in
      (\<lparr>sw_id = jt_id t, sw_pair = jt_pair t, sw_allocationUsd = alloc_of t, sw_entryPrice = jt_entryPrice t,
        sw_exitPrice = Some exit, sw_pnl = Some totalPnl, sw_side = FillClosed, sw_status = CLOSED\<rparr>,
       t\<lparr>jt_exitPrice := Some (jo_decimal io exit), jt_pnl := Some (jo_decimal io totalPnl), jt_status := CLOSED\<rparr>))"

definition is_skim :: "bool \<Rightarrow> number \<Rightarrow> jupiter_trade \<Rightarrow> bool" where
  "is_skim partialSkim soldQty t \<longleftrightarrow>
     (let totalQty = (if Fin 0 < jt_entryPrice t then alloc_of t / jt_entryPrice t else Fin 0) in
      partialSkim \<and> Fin 0 < totalQty \<and> soldQty < totalQty * lit (95/100))"

definition book_sell ::
  "jup_io \<Rightarrow> user_id \<Rightarrow> string \<Rightarrow> string \<Rightarrow> bool \<Rightarrow> number \<Rightarrow> number \<Rightarrow> number \<Rightarrow> jup_state \<Rightarrow> swap_trade \<times> jup_state" where
  "book_sell io u st pair partialSkim soldQty alloc exit s =
     (case oldest_of_pair u st pair (js_rows s) of
        Some t \<Rightarrow>
          if is_skim partialSkim soldQty t then
            (fst (skim_row io soldQty exit t),
             s\<lparr>js_rows := update_where (\<lambda>r. jt_id r = jt_id t) (\<lambda>r. snd (skim_row io soldQty exit t)) (js_rows s)\<rparr>)
          else
            (fst (close_row io exit t),
             s\<lparr>js_rows := update_where (\<lambda>r. open_pair u st pair r \<and> jt_id r \<noteq> jt_id t) (\<lambda>r. r\<lparr>jt_status := CANCELLED\<rparr>)
                 (update_where (\<lambda>r. jt_id r = jt_id t) (\<lambda>r. snd (close_row io exit t)) (js_rows s))\<rparr>)
      | None \<Rightarrow>
          (\<lparr>sw_id = jo_newId io, sw_pair = pair, sw_allocationUsd = alloc, sw_entryPrice = exit, sw_exitPrice = Some exit,
            sw_pnl = Some (Fin 0), sw_side = FillSell, sw_status = CLOSED\<rparr>,
           s\<lparr>js_rows := js_rows s @ [created_row io u st pair exit (Some exit) (Some (Fin 0)) alloc CLOSED]\<rparr>))"

section \<open>The swap\<close>

record JupiterSwapResult =
  jr_txSignature :: string
  jr_side :: jup_side
  jr_binanceSymbol :: string
  jr_amountIn :: string
  jr_expectedOut :: string
  jr_trade :: swap_trade

definition amount_to_swap :: "jup_io \<Rightarrow> user_id \<Rightarrow> JupiterSwapRequest \<Rightarrow> SolToken \<Rightarrow> SpendMintInfo \<Rightarrow> jup_state \<Rightarrow> number jup_result" where
  "amount_to_swap io u req token spend s =
     (if jq_side req = JupBuy then
        and_then (attempt (jo_balance io (js_submitted s) u (sm_mint spend) (sm_decimals spend)) s) (\<lambda>bal s.
          let needed = (if sm_isNativeSol spend then jq_amount req + SOL_GAS_RESERVE else jq_amount req) in
          if bal < needed then (Inl (InsufficientSpend needed bal), s) else (Inr (jq_amount req), s))
      else
        and_then (attempt (jo_balance io (js_submitted s) u (tn_mint token) (tn_decimals token)) s) (\<lambda>bal s.
          if bal \<le> Fin 0 then (Inl (InsufficientHolding (tn_baseSymbol token)), s) else (Inr (math_min (jq_amount req) bal), s)))"

definition quote_failed :: "string \<Rightarrow> bool" where
  "quote_failed msg \<longleftrightarrow> str_includes (to_lower msg) ''failed to get quote''"

text \<open>The order that is signed: with the preferred venues first, without them (and, for a failed quote,
  after a look at the gas) when that fails.\<close>

definition order_with_retry ::
  "jup_io \<Rightarrow> user_id \<Rightarrow> JupiterSwapRequest \<Rightarrow> SolToken \<Rightarrow> SpendMintInfo \<Rightarrow> string \<Rightarrow> string \<Rightarrow> number \<Rightarrow> string option \<Rightarrow> jup_state
    \<Rightarrow> (order_params \<times> order_answer) jup_result" where
  "order_with_retry io u req token spend amountIn taker slippageBps dexes s =
     (let p1 = order_of req token spend amountIn (Some taker) slippageBps dexes in
      case jo_order io (js_submitted s) p1 of
        Inr order \<Rightarrow> (Inr (p1, order), s)
      | Inl msg \<Rightarrow>
          if dexes \<noteq> None \<or> quote_failed msg then
            and_then (if quote_failed msg then ensureSolanaSwapGas io u s else (Inr (), s)) (\<lambda>_ s.
              let p2 = order_of req token spend amountIn (Some taker)
                         (math_min (Fin 2000) (math_max slippageBps (if dexes \<noteq> None then slippageBps else Fin 300))) None in
              and_then (attempt (jo_order io (js_submitted s) p2) s) (\<lambda>order s. (Inr (p2, order), s)))
          else (Inl (IoFailed msg), s))"

definition fill_price :: "jup_side \<Rightarrow> number \<Rightarrow> number \<Rightarrow> number" where
  "fill_price side amountInNum quotedOutNum =
     (let tiny = lit (1 / 10 ^ 18);
          eff = (if side = JupBuy then (if tiny < quotedOutNum then amountInNum / quotedOutNum else amountInNum)
                 else (if tiny < amountInNum then quotedOutNum / amountInNum else quotedOutNum)) in
      if is_finite eff \<and> Fin 0 < eff then eff
      else if side = JupBuy then amountInNum / math_max quotedOutNum tiny else quotedOutNum / math_max amountInNum tiny)"

definition safe_alloc :: "number \<Rightarrow> number" where
  "safe_alloc a = (if is_finite a then round8 a else Fin 0)"

definition buy_key :: "user_id \<Rightarrow> string \<Rightarrow> string" where
  "buy_key u pair = u @ '':'' @ pair"

text \<open>After the order went through: the fill, the test for another purchase of the pair, the book.\<close>

definition settle_swap ::
  "jup_io \<Rightarrow> string \<Rightarrow> user_id \<Rightarrow> JupiterSwapRequest \<Rightarrow> bool \<Rightarrow> SolToken \<Rightarrow> SpendMintInfo \<Rightarrow> number \<Rightarrow> string \<Rightarrow> string \<Rightarrow> order_answer
    \<Rightarrow> jup_state \<Rightarrow> JupiterSwapResult jup_result" where
  "settle_swap io st u req partialSkim token spend amountHuman amountIn signature order s =
     (let side = jq_side req;
          amountInNum = fromSmallest (nullish (oa_inAmount order) amountIn) (jup_in_decimals req token spend);
          quotedOutNum = fromSmallest (oa_outAmount order) (jup_out_decimals req token);
          safeEntry = reconcileFillPriceWithMark io (js_submitted s) (tn_mint token) (fill_price side amountInNum quotedOutNum);
          safeAlloc = safe_alloc (if side = JupBuy then amountInNum else quotedOutNum);
          pair = tn_baseSymbol token @ ''/USDT''; key = buy_key u pair;
          result = (\<lambda>t. \<lparr>jr_txSignature = signature, jr_side = side, jr_binanceSymbol = tn_binanceSymbol token,
                         jr_amountIn = nullish (oa_inAmount order) amountIn, jr_expectedOut = oa_outAmount order, jr_trade = t\<rparr>) in
      if side = JupBuy then
        (if (case js_inFlight s key of Some t \<Rightarrow> jo_now io - t < BUY_IN_FLIGHT_MS | None \<Rightarrow> False) then (Inl BuyInProgress, s)
         else case book_buy io u st pair safeAlloc safeEntry (s\<lparr>js_inFlight := (js_inFlight s)(key \<mapsto> jo_now io)\<rparr>) of
           (t, s1) \<Rightarrow> (Inr (result t), s1\<lparr>js_inFlight := (js_inFlight s1)(key := None)\<rparr>))
      else case book_sell io u st pair partialSkim amountHuman safeAlloc safeEntry s of (t, s1) \<Rightarrow> (Inr (result t), s1))"

definition check_preview :: "jup_io \<Rightarrow> string \<Rightarrow> user_id \<Rightarrow> JupiterSwapRequest \<Rightarrow> JupiterExecuteOptions \<Rightarrow> jup_state \<Rightarrow> unit jup_result" where
  "check_preview io st u req opts s =
     (if xo_skipPreview opts then (Inr (), s)
      else case previewJupiterSwap io st req (Some u) (xo_skipEntryGuard opts) s of
        Inl e \<Rightarrow> (Inl e, s)
      | Inr fresh \<Rightarrow>
          if \<not> pv_tradable fresh then (Inl (NotTradable (pv_message fresh)), s)
          else if pv_blockTrade fresh then (Inl (TradeBlocked (pv_blockReason fresh)), s)
          else (Inr (), s))"

definition swap_token ::
  "jup_io \<Rightarrow> string \<Rightarrow> user_id \<Rightarrow> JupiterSwapRequest \<Rightarrow> JupiterExecuteOptions \<Rightarrow> SolToken \<Rightarrow> jup_state \<Rightarrow> JupiterSwapResult jup_result" where
  "swap_token io st u req opts token s0 =
     (let slippageBps = clamp_slippage (jq_slippageBps req) in
      and_then (attempt (spend_of io (js_submitted s0) req) s0) (\<lambda>spend s.
      and_then (attempt (jo_keypair io u) s) (\<lambda>taker s.
      and_then (amount_to_swap io u req token spend s) (\<lambda>amountHuman s.
      let amountIn = toSmallest amountHuman (jup_in_decimals req token spend);
          dexes = (if xo_smartRoute opts then nonempty (jo_smartRoute io (req\<lparr>jq_amount := amountHuman\<rparr>)) else None) in
      and_then (order_with_retry io u req token spend amountIn taker slippageBps dexes s) (\<lambda>(p, order) s.
      if nonempty (oa_transaction order) = None then (Inl NoTransaction, s)
      else and_then (submit io u p order s) (\<lambda>sig s.
        case nonempty sig of
          None \<Rightarrow> (Inl NoSignature, s)
        | Some signature \<Rightarrow> settle_swap io st u req (xo_partialSkim opts) token spend amountHuman amountIn signature order s))))))"

definition executeJupiterSwap ::
  "jup_io \<Rightarrow> string \<Rightarrow> user_id \<Rightarrow> JupiterSwapRequest \<Rightarrow> JupiterExecuteOptions \<Rightarrow> jup_state \<Rightarrow> JupiterSwapResult jup_result" where
  "executeJupiterSwap io st u req opts s0 =
     (if \<not> jo_walletEnabled io then (Inl WalletOff, s0)
      else if \<not> jo_configured io then (Inl JupiterOff, s0)
      else if \<not> is_finite (jq_amount req) \<or> jq_amount req \<le> Fin 0 then (Inl AmountInvalid, s0)
      else and_then (attempt (jo_ensureWallet io u) s0) (\<lambda>_ s.
        and_then (ensureSolanaSwapGas io u s) (\<lambda>_ s.
        and_then (check_preview io st u req opts s) (\<lambda>_ s.
        case jo_token io (jq_binanceSymbol req) of
          None \<Rightarrow> (Inl (PairNotAvailable (jq_binanceSymbol req)), s)
        | Some tokenRaw \<Rightarrow> swap_token io st u req opts (jo_hydrate io tokenRaw) s))))"

section \<open>Conversions\<close>

definition assertConvertInputs :: "string \<Rightarrow> string \<Rightarrow> number \<Rightarrow> jup_error option" where
  "assertConvertInputs fromMint toMint amount =
     (if fromMint = [] \<or> toMint = [] then Some PickBothCoins
      else if fromMint = toMint then Some SameCoin
      else if \<not> is_finite amount \<or> amount \<le> Fin 0 then Some InvalidAmount else None)"

definition solConvertFeeTokens :: "jup_io \<Rightarrow> submitted \<Rightarrow> string \<Rightarrow> number \<Rightarrow> jup_error + number" where
  "solConvertFeeTokens io h fromMint amount =
     (let price = (if fromMint = SOL_USDC_MINT then Some (Fin 1) else case jo_price io h fromMint of Inl _ \<Rightarrow> None | Inr p \<Rightarrow> p) in
      case positive_price price of
        None \<Rightarrow> Inr (Fin 0)
      | Some p \<Rightarrow> let feeTokens = CONVERT_FEE_USD / p in if amount * lit (2/10) \<le> feeTokens then Inl ConvertTooSmall else Inr feeTokens)"

record SolanaConvertPreview =
  cp_fromMint :: string
  cp_toMint :: string
  cp_inAmount :: number
  cp_outAmount :: number
  cp_rate :: number
  cp_feeUsd :: number

definition convert_order :: "string \<Rightarrow> string \<Rightarrow> string \<Rightarrow> string option \<Rightarrow> number option \<Rightarrow> order_params" where
  "convert_order fromMint toMint amountIn taker slippageBps = \<lparr>op_inputMint = fromMint, op_outputMint = toMint, op_amount = amountIn,
     op_taker = taker, op_slippageBps = clamp_slippage slippageBps, op_dexes = None\<rparr>"

definition previewSolanaConvert ::
  "jup_io \<Rightarrow> string \<Rightarrow> string \<Rightarrow> number \<Rightarrow> number option \<Rightarrow> jup_state \<Rightarrow> SolanaConvertPreview jup_result" where
  "previewSolanaConvert io fromMint toMint amount slippageBps s0 =
     (if \<not> jo_configured io then (Inl JupiterOff, s0)
      else case assertConvertInputs fromMint toMint amount of
        Some e \<Rightarrow> (Inl e, s0)
      | None \<Rightarrow>
          and_then (lift_error (solConvertFeeTokens io (js_submitted s0) fromMint amount) s0) (\<lambda>feeTokens s.
          and_then (attempt (jo_mintDecimals io fromMint) s) (\<lambda>fromDecimals s.
          and_then (attempt (jo_mintDecimals io toMint) s) (\<lambda>toDecimals s.
          and_then (attempt (jo_order io (js_submitted s) (convert_order fromMint toMint (toSmallest (amount - feeTokens) fromDecimals) None slippageBps)) s)
            (\<lambda>order s. let out = fromSmallest (oa_outAmount order) toDecimals in
               (Inr \<lparr>cp_fromMint = fromMint, cp_toMint = toMint, cp_inAmount = amount, cp_outAmount = out,
                     cp_rate = (if Fin 0 < amount then out / amount else Fin 0),
                     cp_feeUsd = (if Fin 0 < feeTokens then CONVERT_FEE_USD else Fin 0)\<rparr>, s))))))"

record SolanaConvertResult =
  cr_txSignature :: string
  cr_fromMint :: string
  cr_toMint :: string
  cr_inAmount :: number
  cr_outAmount :: number
  cr_feeUsd :: number

definition charge_fee :: "jup_io \<Rightarrow> user_id \<Rightarrow> string \<Rightarrow> number \<Rightarrow> jup_state \<Rightarrow> bool \<times> jup_state" where
  "charge_fee io u fromMint feeTokens s =
     (if Fin 0 < feeTokens \<and> jo_sendFee io (js_submitted s) u fromMint feeTokens
      then (True, s\<lparr>js_fees := js_fees s @ [(u, fromMint, feeTokens)]\<rparr>) else (False, s))"

definition convert_paid ::
  "jup_io \<Rightarrow> user_id \<Rightarrow> string \<Rightarrow> string \<Rightarrow> number \<Rightarrow> number option \<Rightarrow> nat \<Rightarrow> number \<Rightarrow> bool \<Rightarrow> jup_state \<Rightarrow> SolanaConvertResult jup_result" where
  "convert_paid io u fromMint toMint amount slippageBps fromDecimals feeTokens feePaid s0 =
     (let netAmount = (if feePaid then amount - feeTokens else amount); amountIn = toSmallest netAmount fromDecimals in
      and_then (attempt (jo_keypair io u) s0) (\<lambda>taker s.
      let p = convert_order fromMint toMint amountIn (Some taker) slippageBps in
      and_then (attempt (jo_order io (js_submitted s) p) s) (\<lambda>order s.
      if nonempty (oa_transaction order) = None then (Inl NoTransaction, s)
      else and_then (submit io u p order s) (\<lambda>sig s.
        case nonempty sig of
          None \<Rightarrow> (Inl NoSignature, s)
        | Some signature \<Rightarrow>
            and_then (attempt (jo_mintDecimals io toMint) s) (\<lambda>toDecimals s.
              let swappedIn = fromSmallest (nullish (oa_inAmount order) amountIn) fromDecimals in
              (Inr \<lparr>cr_txSignature = signature, cr_fromMint = fromMint, cr_toMint = toMint,
                    cr_inAmount = (if feePaid then swappedIn + feeTokens else swappedIn),
                    cr_outAmount = fromSmallest (oa_outAmount order) toDecimals,
                    cr_feeUsd = (if feePaid then CONVERT_FEE_USD else Fin 0)\<rparr>, s))))))"

definition convertSolanaTokens ::
  "jup_io \<Rightarrow> user_id \<Rightarrow> string \<Rightarrow> string \<Rightarrow> number \<Rightarrow> number option \<Rightarrow> jup_state \<Rightarrow> SolanaConvertResult jup_result" where
  "convertSolanaTokens io u fromMint toMint amount slippageBps s0 =
     (if \<not> jo_walletEnabled io then (Inl WalletOff, s0)
      else if \<not> jo_configured io then (Inl JupiterOff, s0)
      else case assertConvertInputs fromMint toMint amount of
        Some e \<Rightarrow> (Inl e, s0)
      | None \<Rightarrow>
          and_then (attempt (jo_ensureWallet io u) s0) (\<lambda>_ s.
          and_then (if toMint \<noteq> SOL_NATIVE_MINT \<or> fromMint \<noteq> SOL_USDC_MINT then ensureSolanaSwapGas io u s else (Inr (), s)) (\<lambda>_ s.
          and_then (attempt (jo_mintDecimals io fromMint) s) (\<lambda>fromDecimals s.
          and_then (attempt (jo_balance io (js_submitted s) u fromMint fromDecimals) s) (\<lambda>bal s.
          let needed = (if fromMint = SOL_NATIVE_MINT then amount + SOL_GAS_RESERVE else amount) in
          if bal < needed then (Inl (InsufficientSpend needed bal), s)
          else and_then (lift_error (solConvertFeeTokens io (js_submitted s) fromMint amount) s) (\<lambda>feeTokens s.
            case charge_fee io u fromMint feeTokens s of (feePaid, s) \<Rightarrow>
              convert_paid io u fromMint toMint amount slippageBps fromDecimals feeTokens feePaid s))))))"

section \<open>Skims and sales from the dashboard\<close>

definition base_of_symbol :: "string \<Rightarrow> string" where
  "base_of_symbol sy = strip_suffix ''USDT'' (to_upper sy)"

definition merge_book :: "jup_io \<Rightarrow> string \<Rightarrow> user_id \<Rightarrow> jup_state \<Rightarrow> jup_state" where
  "merge_book io st u s = s\<lparr>js_rows := snd (mergeDuplicateJupiterOpenTrades (jo_decimal io) st u (js_rows s))\<rparr>"

definition skim_qty :: "nat \<Rightarrow> number \<Rightarrow> number \<Rightarrow> number \<Rightarrow> number \<Rightarrow> number \<Rightarrow> number option" where
  "skim_qty decimals lotQty buyAlloc pct exitMark walletQty =
     (let profitUsd = buyAlloc * (pct / Fin 100);
          q0 = math_min (lotQty * Fin (1/2)) (profitUsd / exitMark);
          q1 = (if Fin 0 < walletQty then math_min q0 (walletQty * lit (98/100)) else q0);
          q2 = floor_qty decimals q1 in
      if q2 \<le> Fin 0 then None
      else let q3 = (if lotQty * lit (9/10) \<le> q2 then floor_qty decimals (lotQty * Fin (1/2)) else q2) in
      if q3 \<le> Fin 0 then None else Some q3)"

definition sell_request :: "string \<Rightarrow> number \<Rightarrow> number \<Rightarrow> JupiterSwapRequest" where
  "sell_request binanceSymbol qty slippageBps = \<lparr>jq_side = JupSell, jq_binanceSymbol = binanceSymbol, jq_amount = qty,
     jq_slippageBps = Some slippageBps, jq_spendAsset = None, jq_spendMint = None\<rparr>"

definition skimJupiterPositionProfit :: "jup_io \<Rightarrow> string \<Rightarrow> user_id \<Rightarrow> string \<Rightarrow> jup_state \<Rightarrow> JupiterSwapResult jup_result" where
  "skimJupiterPositionProfit io st u sy0 s0 =
     (let sy = base_of_symbol sy0; s = merge_book io st u s0 in
      case oldest_of_pair u st (sy @ ''/USDT'') (js_rows s) of
        None \<Rightarrow> (Inl (NothingToSkim sy), s)
      | Some t \<Rightarrow>
          let entry = jt_entryPrice t; buyAlloc = alloc_of t; lotQty = buyAlloc / entry in
          if \<not> is_finite entry \<or> entry \<le> Fin 0 \<or> buyAlloc \<le> Fin 0 then (Inl (NoRecordedSize sy), s)
          else case jo_sellQuote io sy lotQty of
            None \<Rightarrow> (Inl NoExecutableQuote, s)
          | Some exitMark \<Rightarrow>
              if exitMark \<le> Fin 0 then (Inl NoExecutableQuote, s)
              else let pct = (exitMark - entry) / entry * Fin 100 in
              if pct \<le> Fin 0 then (Inl (NotInProfit sy pct), s)
              else case jo_token io (sy @ ''USDT'') of
                None \<Rightarrow> (Inl (PairNotAvailable sy), s)
              | Some token \<Rightarrow>
                  and_then (attempt (jo_balance io (js_submitted s) u (tn_mint token) (tn_decimals token)) s) (\<lambda>walletQty s.
                  case skim_qty (tn_decimals token) lotQty buyAlloc pct exitMark walletQty of
                    None \<Rightarrow> (Inl SliceTooSmall, s)
                  | Some q \<Rightarrow>
                      executeJupiterSwap io st u (sell_request (sy @ ''USDT'') q (jo_exitSlippageBps io))
                        \<lparr>xo_skipEntryGuard = True, xo_skipPreview = False, xo_partialSkim = True, xo_smartRoute = True\<rparr> s))"

datatype JupiterSellOpenResult = Sold JupiterSwapResult | ClearedStale string nat

definition booked_qty :: "jupiter_trade list \<Rightarrow> number" where
  "booked_qty ts = foldl (\<lambda>sum t. if Fin 0 < jt_entryPrice t \<and> Fin 0 < alloc_of t then sum + alloc_of t / jt_entryPrice t else sum) (Fin 0) ts"

definition clear_stale :: "string \<Rightarrow> jupiter_trade list \<Rightarrow> jup_state \<Rightarrow> JupiterSellOpenResult jup_result" where
  "clear_stale sy openTrades s = (Inr (ClearedStale sy (length openTrades)), s\<lparr>js_rows := cancel_ids (map jt_id openTrades) (js_rows s)\<rparr>)"

definition cancel_extras :: "string \<Rightarrow> user_id \<Rightarrow> string \<Rightarrow> jupiter_trade list \<Rightarrow> jupiter_trade list" where
  "cancel_extras st u pair rows =
     (let stillOpen = find_many (open_pair u st pair) (order_asc jt_createdAt) rows in
      foldl (\<lambda>rows t. update_where (\<lambda>r. jt_id r = jt_id t) (\<lambda>r. r\<lparr>jt_status := CANCELLED\<rparr>) rows) rows (tl stillOpen))"

definition sellJupiterOpenPosition :: "jup_io \<Rightarrow> string \<Rightarrow> user_id \<Rightarrow> string \<Rightarrow> bool \<Rightarrow> jup_state \<Rightarrow> JupiterSellOpenResult jup_result" where
  "sellJupiterOpenPosition io st u sy0 half s0 =
     (let sy = base_of_symbol sy0; pair = sy @ ''/USDT'';
          openTrades = find_many (open_pair u st pair) (order_asc jt_createdAt) (js_rows s0) in
      if openTrades = [] then (Inl (NoOpenRow sy), s0)
      else let s = merge_book io st u s0 in
      case jo_token io (sy @ ''USDT'') of
        None \<Rightarrow> (Inl (PairNotAvailable sy), s)
      | Some token \<Rightarrow>
          let lotQty = booked_qty openTrades in
          if lotQty \<le> Fin 0 then clear_stale sy openTrades s
          else and_then (attempt (jo_balance io (js_submitted s) u (tn_mint token) (tn_decimals token)) s) (\<lambda>walletQty s.
            let q0 = (if Fin 0 < walletQty then math_min lotQty (walletQty * lit (98/100)) else Fin 0);
                sellQty = floor_qty (tn_decimals token) (if half then q0 / Fin 2 else q0) in
            if sellQty \<le> Fin 0 then clear_stale sy openTrades s
            else and_then (executeJupiterSwap io st u (sell_request (tn_binanceSymbol token) sellQty (jo_exitSlippageBps io))
                   \<lparr>xo_skipEntryGuard = True, xo_skipPreview = True, xo_partialSkim = False, xo_smartRoute = False\<rparr> s)
                 (\<lambda>result s. (Inr (Sold result), s\<lparr>js_rows := cancel_extras st u pair (js_rows s)\<rparr>))))"

end
