(* ===== verification/JupiterSafety.thy ===== *)
theory JupiterSafety
  imports JupiterSwap
begin

text \<open>
  What the Jupiter swap service guarantees: every step of a swap up to its settlement leaves the trade book
  alone; a swap that goes through has passed the guards of its preview; a full sale closes the pair in
  the book; gas top-ups and conversion fees stay within their bounds. Three properties state where the
  service books something else than what was traded.
\<close>

section \<open>Running steps\<close>

lemma attempt_Inr [simp]: "attempt r s = (Inr x, s') \<longleftrightarrow> r = Inr x \<and> s' = s"
  by (auto simp: attempt_def split: sum.splits)

text \<open>A step that touches neither the book nor the in-flight table, and only adds submitted orders.\<close>

definition same_book :: "jup_state \<Rightarrow> jup_state \<Rightarrow> bool" where
  "same_book s s' \<longleftrightarrow> js_rows s' = js_rows s \<and> js_inFlight s' = js_inFlight s \<and> js_credits s' = js_credits s \<and> js_fees s' = js_fees s \<and>
     (\<exists>xs. js_submitted s' = js_submitted s @ xs)"

lemma same_book_refl [simp]: "same_book s s"
  by (simp add: same_book_def)

lemma same_book_trans: "same_book a b \<Longrightarrow> same_book b c \<Longrightarrow> same_book a c"
  by (auto simp: same_book_def)

fun plain_error :: "jup_error \<Rightarrow> bool" where
  "plain_error BuyInProgress = False"
| "plain_error (TradeBlocked _) = False"
| "plain_error _ = True"

definition quiet :: "jup_state \<Rightarrow> 'a jup_result \<Rightarrow> bool" where
  "quiet s r \<longleftrightarrow> same_book s (snd r) \<and> (\<forall>e. fst r = Inl e \<longrightarrow> plain_error e)"

lemma quiet_and_then: "quiet s r \<Longrightarrow> (\<And>x s1. r = (Inr x, s1) \<Longrightarrow> quiet s1 (k x s1)) \<Longrightarrow> quiet s (and_then r k)"
  by (auto simp: quiet_def and_then_def split: prod.splits sum.splits intro: same_book_trans)

lemma quiet_basic [simp]:
  "quiet s (Inr x, s)" "plain_error e \<Longrightarrow> quiet s (Inl e, s)" "quiet s (attempt a s)" "plain_error e \<Longrightarrow> quiet s (require ok e s)"
  by (auto simp: quiet_def attempt_def require_def split: sum.splits)

lemma quiet_submit: "quiet s (submit io u p order s)"
  by (auto simp: quiet_def submit_def attempt_def same_book_def split: sum.splits)

lemma quiet_gas: "quiet s (ensureSolanaSwapGas io u s)"
  unfolding ensureSolanaSwapGas_def Let_def
  by (intro quiet_and_then) (auto intro!: quiet_and_then quiet_submit split: sum.splits)

lemma quiet_amount: "quiet s (amount_to_swap io u req token spend s)"
  unfolding amount_to_swap_def Let_def by (auto intro!: quiet_and_then)

lemma quiet_order: "quiet s (order_with_retry io u req token spend amountIn taker slip dexes s)"
  unfolding order_with_retry_def Let_def by (auto intro!: quiet_and_then quiet_gas split: sum.splits)

lemma quietD: "r = (x, s1) \<Longrightarrow> quiet s r \<Longrightarrow> same_book s s1"
  by (simp add: quiet_def)

lemma quiet_step:
  assumes "and_then r k = (y, s')" "quiet s r"
  obtains (failed) e where "y = Inl e" "plain_error e" "same_book s s'"
  | (went_on) x s1 where "r = (Inr x, s1)" "same_book s s1" "k x s1 = (y, s')"
  using assms by (cases rule: and_then_cases) (auto simp: quiet_def)

lemma quiet_gas_if: "quiet s (if c then ensureSolanaSwapGas io u s else (Inr (), s))"
  by (simp add: quiet_gas)

lemmas attempt_step = quiet_step [OF _ quiet_basic(3), consumes 1, case_names failed went_on]
lemmas gas_step = quiet_step [OF _ quiet_gas_if, consumes 1, case_names failed went_on]

lemma quiet_error: "r = (Inl e, s1) \<Longrightarrow> quiet s r \<Longrightarrow> same_book s s1 \<and> plain_error e"
  by (simp add: quiet_def)

lemma attempt_state: "attempt r s = (x, s') \<Longrightarrow> s' = s"
  by (auto simp: attempt_def split: sum.splits)

lemma amount_state: "amount_to_swap io u req token spend s = (r, s') \<Longrightarrow> s' = s"
  by (auto simp: amount_to_swap_def Let_def and_then_def attempt_def split: sum.splits if_splits)

lemma submit_state: "submit io u p order s = (r, s') \<Longrightarrow> s' = s\<lparr>js_submitted := js_submitted s @ [(u, p)]\<rparr>"
  unfolding submit_def by (rule attempt_state)

lemma order_amount: "order_with_retry io u req token spend amountIn taker slip dexes s = (Inr (p, order), s') \<Longrightarrow>
    \<exists>slip' dexes'. p = order_of req token spend amountIn (Some taker) slip' dexes'"
  by (auto simp: order_with_retry_def Let_def and_then_Inr split: sum.splits if_splits)

text \<open>How a swap ends: it fails and leaves the book alone, or its order was submitted and it is settled.\<close>

definition settled ::
  "jup_io \<Rightarrow> string \<Rightarrow> user_id \<Rightarrow> JupiterSwapRequest \<Rightarrow> bool \<Rightarrow> SolToken \<Rightarrow> SpendMintInfo \<Rightarrow> number \<Rightarrow> order_params \<Rightarrow> jup_state \<Rightarrow> jup_state
    \<Rightarrow> JupiterSwapResult jup_result \<Rightarrow> bool" where
  "settled io st u req partialSkim token spend amountHuman p s s1 r \<longleftrightarrow>
     same_book s s1 \<and> (u, p) \<in> set (drop (length (js_submitted s)) (js_submitted s1)) \<and>
     spend_of io (js_submitted s) req = Inr spend \<and> amount_to_swap io u req token spend s = (Inr amountHuman, s) \<and>
     (\<exists>taker slip dexes. p = order_of req token spend (toSmallest amountHuman (jup_in_decimals req token spend)) (Some taker) slip dexes) \<and>
     (\<exists>signature order. settle_swap io st u req partialSkim token spend amountHuman
        (toSmallest amountHuman (jup_in_decimals req token spend)) signature order s1 = r)"

lemma submitted_later:
  assumes "same_book s s1" "submit io u p order s1 = (x, s2)"
  shows "same_book s s2" "(u, p) \<in> set (drop (length (js_submitted s)) (js_submitted s2))"
proof -
  have s2: "s2 = s1\<lparr>js_submitted := js_submitted s1 @ [(u, p)]\<rparr>" by (rule submit_state [OF assms(2)])
  show "same_book s s2" using assms(1) by (auto simp: s2 same_book_def)
  show "(u, p) \<in> set (drop (length (js_submitted s)) (js_submitted s2))" using assms(1) by (auto simp: s2 same_book_def)
qed

lemma order_ends:
  assumes run: "and_then (order_with_retry io u req token spend (toSmallest amountHuman (jup_in_decimals req token spend)) taker slip dexes s)
      (\<lambda>(p, order) s. if nonempty (oa_transaction order) = None then (Inl NoTransaction, s)
        else and_then (submit io u p order s) (\<lambda>sig s. case nonempty sig of None \<Rightarrow> (Inl NoSignature, s)
          | Some signature \<Rightarrow> settle_swap io st u req partialSkim token spend amountHuman
              (toSmallest amountHuman (jup_in_decimals req token spend)) signature order s)) = (r, s')"
    and sp: "spend_of io (js_submitted s) req = Inr spend" and am: "amount_to_swap io u req token spend s = (Inr amountHuman, s)"
  shows "(\<exists>e. r = Inl e \<and> plain_error e \<and> same_book s s') \<or> (\<exists>p s1. settled io st u req partialSkim token spend amountHuman p s s1 (r, s'))"
  using run
proof (cases rule: and_then_cases)
  case (failed e)
  then show ?thesis using quiet_error [OF failed(1) quiet_order] by simp
next
  case step4: (went_on po s4)
  obtain p order where po: "po = (p, order)" by (cases po)
  note p4 = order_amount [OF step4(1) [unfolded po]]
  have q4: "same_book s s4" by (rule quietD [OF step4(1) quiet_order])
  show ?thesis
  proof (cases "nonempty (oa_transaction order) = None")
    case True
    then show ?thesis using step4(2) q4 by (auto simp: po)
  next
    case False
    with step4(2) have "and_then (submit io u p order s4) (\<lambda>sig s. case nonempty sig of None \<Rightarrow> (Inl NoSignature, s)
        | Some signature \<Rightarrow> settle_swap io st u req partialSkim token spend amountHuman
            (toSmallest amountHuman (jup_in_decimals req token spend)) signature order s) = (r, s')" by (simp add: po)
    then show ?thesis
    proof (cases rule: and_then_cases)
      case (failed e)
      then show ?thesis using quiet_error [OF failed(1) quiet_submit] same_book_trans [OF q4] by simp
    next
      case step5: (went_on sig s5)
      note q5 = submitted_later [OF q4 step5(1)]
      show ?thesis
      proof (cases "nonempty sig")
        case None
        then show ?thesis using step5(2) q5(1) by auto
      next
        case (Some signature)
        then show ?thesis using step5(2) q5 sp am p4 unfolding settled_def by auto blast
      qed
    qed
  qed
qed

lemma swap_token_ends:
  assumes run: "swap_token io st u req opts token s = (r, s')"
  shows "(\<exists>e. r = Inl e \<and> plain_error e \<and> same_book s s') \<or>
    (\<exists>spend amountHuman p s1. settled io st u req (xo_partialSkim opts) token spend amountHuman p s s1 (r, s'))"
  using run [unfolded swap_token_def Let_def]
proof (cases rule: and_then_cases)
  case (failed e)
  then show ?thesis using quiet_error [OF failed(1) quiet_basic(3)] by simp
next
  case step1: (went_on spend s1)
  then have sp: "spend_of io (js_submitted s) req = Inr spend" "s1 = s" by simp_all
  from step1(2) [unfolded sp(2)] show ?thesis
  proof (cases rule: and_then_cases)
    case (failed e)
    then show ?thesis using quiet_error [OF failed(1) quiet_basic(3)] by simp
  next
    case step2: (went_on taker s2)
    then have sb: "s2 = s" by simp
    from step2(2) [unfolded sb] show ?thesis
    proof (cases rule: and_then_cases)
      case (failed e)
      then show ?thesis using quiet_error [OF failed(1) quiet_amount] by simp
    next
      case step3: (went_on amountHuman s3)
      have sc: "s3 = s" by (rule amount_state [OF step3(1)])
      show ?thesis using order_ends [OF step3(2) [unfolded sc] sp(1) step3(1) [unfolded sc]] by blast
    qed
  qed
qed

section \<open>The preview guards\<close>

lemma tradable_is_quoted:
  assumes "previewJupiterSwap io st req user skip s = Inr pv" and "pv_tradable pv"
  obtains token spend amountIn order where
    "pv = quoted_preview io st (js_rows s) (js_submitted s) req user skip token spend (clamp_slippage (jq_slippageBps req)) amountIn order"
  using assms by (auto simp: previewJupiterSwap_def blocked_preview_def Let_def split: if_splits option.splits sum.splits)

lemma tradable_not_blocked:
  assumes "previewJupiterSwap io st req user skip s = Inr pv" and "pv_tradable pv"
  shows "\<not> pv_blockTrade pv"
proof -
  have "pv_tradable (quoted_preview io st rows h req user skip token spend slip amountIn order) \<Longrightarrow>
      \<not> pv_blockTrade (quoted_preview io st rows h req user skip token spend slip amountIn order)"
    for rows h token spend slip amountIn order
    by (simp only: quoted_preview_def Let_def JupiterQuotePreview.simps simp_thms)
  then show ?thesis using tradable_is_quoted [OF assms] assms(2) by metis
qed

lemma preview_errors: "previewJupiterSwap io st req user skip s = Inl e \<Longrightarrow> plain_error e"
  by (auto simp: previewJupiterSwap_def Let_def split: if_splits option.splits sum.splits)

lemma quiet_preview: "quiet s (check_preview io st u req opts s)"
  using tradable_not_blocked [of io st req "Some u" "xo_skipEntryGuard opts" s] preview_errors [of io st req "Some u" "xo_skipEntryGuard opts" s]
  unfolding check_preview_def by (auto split: sum.splits)

lemma execute_ends:
  assumes run: "executeJupiterSwap io st u req opts s = (r, s')"
  shows "(\<exists>e. r = Inl e \<and> plain_error e \<and> same_book s s') \<or>
    (\<exists>tokenRaw s1. jo_token io (jq_binanceSymbol req) = Some tokenRaw \<and> same_book s s1 \<and> check_preview io st u req opts s1 = (Inr (), s1) \<and>
       is_finite (jq_amount req) \<and> \<not> jq_amount req \<le> Fin 0 \<and>
       (\<exists>spend amountHuman p s2. settled io st u req (xo_partialSkim opts) (jo_hydrate io tokenRaw) spend amountHuman p s1 s2 (r, s')))"
proof (cases "jo_walletEnabled io \<and> jo_configured io \<and> is_finite (jq_amount req) \<and> \<not> jq_amount req \<le> Fin 0")
  case False
  then show ?thesis using run by (auto simp: executeJupiterSwap_def split: if_splits)
next
  case True
  then have "and_then (attempt (jo_ensureWallet io u) s) (\<lambda>_ s. and_then (ensureSolanaSwapGas io u s) (\<lambda>_ s.
      and_then (check_preview io st u req opts s) (\<lambda>_ s. case jo_token io (jq_binanceSymbol req) of
          None \<Rightarrow> (Inl (PairNotAvailable (jq_binanceSymbol req)), s)
        | Some tokenRaw \<Rightarrow> swap_token io st u req opts (jo_hydrate io tokenRaw) s))) = (r, s')"
    using run by (simp add: executeJupiterSwap_def)
  then show ?thesis
  proof (cases rule: and_then_cases)
    case (failed e)
    then show ?thesis using quiet_error [OF failed(1) quiet_basic(3)] by simp
  next
    case step1: (went_on x s1)
    then have s1: "s1 = s" by simp
    from step1(2) [unfolded s1] show ?thesis
    proof (cases rule: and_then_cases)
      case (failed e)
      then show ?thesis using quiet_error [OF failed(1) quiet_gas] by simp
    next
      case step2: (went_on y s2)
      have q2: "same_book s s2" by (rule quietD [OF step2(1) quiet_gas])
      from step2(2) show ?thesis
      proof (cases rule: and_then_cases)
        case (failed e)
        then show ?thesis using quiet_error [OF failed(1) quiet_preview] same_book_trans [OF q2] by simp
      next
        case step3: (went_on z s3)
        then have s3: "s3 = s2" by (auto simp: check_preview_def split: if_splits sum.splits)
        show ?thesis
        proof (cases "jo_token io (jq_binanceSymbol req)")
          case None
          then show ?thesis using step3(2) q2 s3 by auto
        next
          case (Some tokenRaw)
          then have "swap_token io st u req opts (jo_hydrate io tokenRaw) s2 = (r, s')" using step3(2) s3 by simp
          then show ?thesis using swap_token_ends [of io st u req opts "jo_hydrate io tokenRaw" s2 r s'] same_book_trans [OF q2]
              Some True q2 step3(1) [unfolded s3] by auto
        qed
      qed
    qed
  qed
qed

lemma or_else_None [simp]: "or_else a b = None \<longleftrightarrow> a = None \<and> b = None"
  by (simp add: or_else_def split: option.splits)

lemma buy_unblocked:
  assumes "rv_block (buy_view io token bookMid slip l p) = None"
  shows "rv_spread (buy_view io token bookMid slip l p) = Some b \<Longrightarrow> \<not> b \<le> - MAX_BUY_ROUND_TRIP_SPREAD_BPS"
    and "rv_minMove (buy_view io token bookMid slip l p) = Some m \<Longrightarrow> \<not> MAX_MIN_MOVE_TO_BREAK_EVEN_PCT < m"
  using assms unfolding buy_view_def Let_def by (auto split: if_splits option.splits)

lemma trip_unblocked:
  assumes "rv_block (round_trip_of io h token JupBuy mid bookMid slip l) = None"
  shows "rv_spread (round_trip_of io h token JupBuy mid bookMid slip l) = Some b \<Longrightarrow> \<not> b \<le> - MAX_BUY_ROUND_TRIP_SPREAD_BPS"
    and "rv_minMove (round_trip_of io h token JupBuy mid bookMid slip l) = Some m \<Longrightarrow> \<not> MAX_MIN_MOVE_TO_BREAK_EVEN_PCT < m"
  using assms buy_unblocked by (auto simp: round_trip_of_def no_view_def split: option.splits if_splits)

lemma sale_unblocked:
  assumes "eg_block (sale_guard io stop slip l p e) = None"
    and "eg_vsEntry (sale_guard io stop slip l p e) = Some b" "eg_estNet (sale_guard io stop slip l p e) = Some net"
  shows "b / Fin 100 \<le> - stop \<or>
    (\<exists>be. eg_breakEven (sale_guard io stop slip l p e) = Some be \<and> be \<le> p \<and> jo_minNetProfitUsd io \<le> net)"
  using assms by (cases e) (auto simp: sale_guard_def Let_def split: if_splits option.splits)

lemma guard_unblocked:
  assumes "eg_block g = None" "eg_vsEntry g = Some b" "eg_estNet g = Some net" "ql_price l = Some p"
    and g: "g = guard_of io st rows user skip token side stop slip l"
  shows "b / Fin 100 \<le> - stop \<or> (\<exists>be. eg_breakEven g = Some be \<and> be \<le> p \<and> jo_minNetProfitUsd io \<le> net)"
proof -
  have "g = no_guard \<or> (\<exists>e. g = sale_guard io stop slip l p e)"
    using assms(4) unfolding g guard_of_def by (auto split: option.splits)
  then obtain e where e: "g = sale_guard io stop slip l p e" using assms(2) by (auto simp: no_guard_def)
  show ?thesis using sale_unblocked [OF assms(1-3) [unfolded e]] unfolding e .
qed

lemma prices_unblocked:
  assumes "price_blocks side n v = None"
  shows "side = JupBuy \<Longrightarrow> \<not> (Fin 0 < n \<and> n < MIN_BUY_NOTIONAL_USD)"
    and "side = JupBuy \<Longrightarrow> v = Some b \<Longrightarrow> \<not> MAX_BUY_VS_JUPITER_MID_BPS < b"
    and "side = JupSell \<Longrightarrow> v = Some b \<Longrightarrow> \<not> b < - MAX_SELL_VS_JUPITER_MID_BPS"
  using assms by (auto simp: price_blocks_def Let_def split: option.splits if_splits)

definition purchase_guards :: "JupiterQuotePreview \<Rightarrow> bool" where
  "purchase_guards pv \<longleftrightarrow>
     (case pv_notionalUsd pv of Some n \<Rightarrow> \<not> (Fin 0 < n \<and> n < MIN_BUY_NOTIONAL_USD) | None \<Rightarrow> True) \<and>
     (case pv_priceVsMidBps pv of Some b \<Rightarrow> \<not> MAX_BUY_VS_JUPITER_MID_BPS < b | None \<Rightarrow> True) \<and>
     (case pv_roundTripSpreadBps pv of Some b \<Rightarrow> \<not> b \<le> - MAX_BUY_ROUND_TRIP_SPREAD_BPS | None \<Rightarrow> True) \<and>
     (case pv_minMoveToBreakEvenPct pv of Some m \<Rightarrow> \<not> MAX_MIN_MOVE_TO_BREAK_EVEN_PCT < m | None \<Rightarrow> True)"

definition sale_guards :: "jup_io \<Rightarrow> JupiterQuotePreview \<Rightarrow> bool" where
  "sale_guards io pv \<longleftrightarrow>
     (case pv_priceVsMidBps pv of Some b \<Rightarrow> \<not> b < - MAX_SELL_VS_JUPITER_MID_BPS | None \<Rightarrow> True) \<and>
     (case (pv_priceVsEntryBps pv, pv_estNetPnlUsd pv, pv_executablePrice pv) of
        (Some b, Some net, Some p) \<Rightarrow>
          b / Fin 100 \<le> - nullish (pv_stopLossPct pv) (Fin 0) \<or>
          (case pv_breakEvenSellPrice pv of Some be \<Rightarrow> be \<le> p \<and> jo_minNetProfitUsd io \<le> net | None \<Rightarrow> False)
      | _ \<Rightarrow> True)"

lemma quoted_guards:
  assumes "pv = quoted_preview io st rows h req user skip token spend slip amountIn order" and "pv_tradable pv"
  shows "jq_side req = JupBuy \<Longrightarrow> purchase_guards pv" "jq_side req = JupSell \<Longrightarrow> sale_guards io pv" "Fin 0 < pv_amountOutHuman pv"
proof -
  note q = assms(1) [unfolded quoted_preview_def Let_def]
  show "Fin 0 < pv_amountOutHuman pv" using assms(2) unfolding q by simp
  show "purchase_guards pv" if buy: "jq_side req = JupBuy"
  proof -
    define mid l bookMid v where "mid = jo_mid io (tn_binanceSymbol token)"
      and "l = quote_leg_of req mid spend (jup_in_decimals req token spend) (jup_out_decimals req token) amountIn order"
      and "bookMid = (if JupBuy = JupBuy \<and> \<not> tn_native token then jo_bookMid io (tn_binanceSymbol token) else None)"
      and "v = round_trip_of io h token JupBuy mid bookMid slip l"
    note defs = mid_def [symmetric] l_def [symmetric] bookMid_def [symmetric] v_def [symmetric]
    have fields: "pv_notionalUsd pv = Some (leg_notional JupBuy mid l)" "pv_priceVsMidBps pv = ql_vsMid l"
      "pv_roundTripSpreadBps pv = rv_spread v" "pv_minMoveToBreakEvenPct pv = rv_minMove v"
      unfolding q buy defs JupiterQuotePreview.simps by (rule refl)+
    have blocks: "rv_block v = None" "price_blocks JupBuy (leg_notional JupBuy mid l) (ql_vsMid l) = None"
      using assms(2) unfolding q buy defs JupiterQuotePreview.simps or_else_None by simp_all
    show ?thesis unfolding purchase_guards_def fields
      using prices_unblocked(1,2) [OF blocks(2)] trip_unblocked [OF blocks(1) [unfolded v_def], folded v_def] by (simp split: option.splits)
  qed
  show "sale_guards io pv" if sell: "jq_side req = JupSell"
  proof -
    define mid l g stop where "mid = jo_mid io (tn_binanceSymbol token)"
      and "l = quote_leg_of req mid spend (jup_in_decimals req token spend) (jup_out_decimals req token) amountIn order"
      and "g = guard_of io st rows user skip token JupSell stop slip l"
      and "stop = (case user of Some u \<Rightarrow> xs_stopLossPct (jo_exitPrefs io u) | None \<Rightarrow> jo_stopLossPct io)"
    note defs = mid_def [symmetric] l_def [symmetric] stop_def [symmetric] g_def [symmetric]
    have fields: "pv_priceVsMidBps pv = ql_vsMid l" "pv_priceVsEntryBps pv = eg_vsEntry g" "pv_estNetPnlUsd pv = eg_estNet g"
      "pv_executablePrice pv = ql_price l" "pv_stopLossPct pv = Some stop" "pv_breakEvenSellPrice pv = eg_breakEven g"
      using q by (simp_all add: sell defs)
    have blocks: "eg_block g = None" "price_blocks JupSell (leg_notional JupSell mid l) (ql_vsMid l) = None"
      using assms(2) unfolding q by (simp_all add: sell defs)
    have mid_ok: "case ql_vsMid l of Some b \<Rightarrow> \<not> b < - MAX_SELL_VS_JUPITER_MID_BPS | None \<Rightarrow> True"
      using prices_unblocked(3) [OF blocks(2)] by (simp split: option.splits)
    have entry_ok: "b / Fin 100 \<le> - stop \<or> (case eg_breakEven g of Some be \<Rightarrow> be \<le> p \<and> jo_minNetProfitUsd io \<le> net | None \<Rightarrow> False)"
      if x: "eg_vsEntry g = Some b" "eg_estNet g = Some net" "ql_price l = Some p" for b net p
      using guard_unblocked [OF blocks(1) x g_def] by auto
    show ?thesis unfolding sale_guards_def fields using mid_ok entry_ok by (simp split: option.splits)
  qed
qed

text \<open>C21: a swap that goes through has passed its guards. Unless the caller skips the preview, a swap succeeds only
  after a preview taken on the same trade book that quotes a positive amount and, for a purchase, is not below
  one dollar, not more than 90 basis points over the mid, whose round trip does not lose 80 basis points
  or more and whose break-even is at most 1.2 percent away; for a sale, is not more than 90 basis points below the
  mid and, against the open entry, is a stop loss or clears the break-even price and the least profit.\<close>

theorem jupiter_swap_passes_guards:
  assumes "executeJupiterSwap io st u req opts s = (Inr res, s')" and "\<not> xo_skipPreview opts"
  shows "\<exists>s1 pv. js_rows s1 = js_rows s \<and> previewJupiterSwap io st req (Some u) (xo_skipEntryGuard opts) s1 = Inr pv \<and>
    Fin 0 < pv_amountOutHuman pv \<and> (if jq_side req = JupBuy then purchase_guards pv else sale_guards io pv)"
proof -
  obtain s1 where s1: "same_book s s1" "check_preview io st u req opts s1 = (Inr (), s1)"
    using execute_ends [OF assms(1)] by auto
  then obtain pv where pv: "previewJupiterSwap io st req (Some u) (xo_skipEntryGuard opts) s1 = Inr pv" "pv_tradable pv"
    using assms(2) by (auto simp: check_preview_def split: sum.splits if_splits)
  obtain token spend amountIn order where
    "pv = quoted_preview io st (js_rows s1) (js_submitted s1) req (Some u) (xo_skipEntryGuard opts) token spend (clamp_slippage (jq_slippageBps req)) amountIn order"
    using tradable_is_quoted [OF pv] by blast
  from quoted_guards [OF this pv(2)] s1(1) pv(1) show ?thesis
    by (cases "jq_side req") (auto simp: same_book_def)
qed

text \<open>The reason of a blocked preview never reaches the caller: a swap never fails with the error that
  carries it, because every blocked preview is also reported as not tradable, and that test comes first.\<close>

theorem trade_blocked_is_never_reported: "fst (executeJupiterSwap io st u req opts s) \<noteq> Inl (TradeBlocked reason)"
proof
  assume "fst (executeJupiterSwap io st u req opts s) = Inl (TradeBlocked reason)"
  then obtain s' where run: "executeJupiterSwap io st u req opts s = (Inl (TradeBlocked reason), s')" by (metis prod.collapse)
  show False using execute_ends [OF run] by (auto simp: settled_def settle_swap_def Let_def split: if_splits prod.splits)
qed

section \<open>The book after a swap\<close>

lemma settle_error:
  "settle_swap io st u req partialSkim token spend amountHuman amountIn signature order s = (Inl e, s') \<Longrightarrow>
     e = BuyInProgress \<and> s' = s \<and> jq_side req = JupBuy"
  by (auto simp: settle_swap_def Let_def split: if_splits prod.splits)

lemma settle_sale:
  assumes "settle_swap io st u req partialSkim token spend amountHuman amountIn signature order s = (Inr res, s')" "jq_side req = JupSell"
  obtains alloc exit where
    "book_sell io u st (tn_baseSymbol token @ ''/USDT'') partialSkim amountHuman alloc exit s = (jr_trade res, s')"
  using assms by (auto simp: settle_swap_def Let_def split: prod.splits)

lemma settle_purchase:
  assumes "settle_swap io st u req partialSkim token spend amountHuman amountIn signature order s = (Inr res, s')" "jq_side req = JupBuy"
  obtains entry f s1 where
    "book_buy io u st (tn_baseSymbol token @ ''/USDT'') (safe_alloc (fromSmallest (jr_amountIn res) (sm_decimals spend))) entry
       (s\<lparr>js_inFlight := f\<rparr>) = (jr_trade res, s1)" "js_rows s' = js_rows s1"
  using assms by (fastforce simp: settle_swap_def Let_def jup_in_decimals_def split: if_splits prod.splits)

lemma sale_leaves_none_open:
  assumes "book_sell io u st pair False q alloc exit s = (t, s')" and "r \<in> set (js_rows s')"
  shows "\<not> open_pair u st pair r"
proof (cases "oldest_of_pair u st pair (js_rows s)")
  case None
  then have "\<forall>x \<in> set (js_rows s). \<not> open_pair u st pair x" by (simp add: oldest_of_pair_def find_first_None)
  moreover have "\<not> open_pair u st pair (created_row io u st pair exit (Some exit) (Some (Fin 0)) alloc CLOSED)"
    by (simp add: created_row_def open_pair_def open_of_def)
  ultimately show ?thesis using assms None by (auto simp: book_sell_def)
next
  case (Some x)
  then have "js_rows s' = update_where (\<lambda>r. open_pair u st pair r \<and> jt_id r \<noteq> jt_id x) (\<lambda>r. r\<lparr>jt_status := CANCELLED\<rparr>)
      (update_where (\<lambda>r. jt_id r = jt_id x) (\<lambda>r. snd (close_row io exit x)) (js_rows s))"
    using assms(1) by (auto simp: book_sell_def is_skim_def)
  then obtain y where y: "y \<in> set (update_where (\<lambda>r. jt_id r = jt_id x) (\<lambda>r. snd (close_row io exit x)) (js_rows s))"
    and r: "r = (if open_pair u st pair y \<and> jt_id y \<noteq> jt_id x then y\<lparr>jt_status := CANCELLED\<rparr> else y)"
    using assms(2) by (auto simp only: in_update_where)
  have closed: "\<not> open_pair u st pair (snd (close_row io exit x))" by (simp add: close_row_def Let_def open_pair_def open_of_def)
  obtain z where z: "y = (if jt_id z = jt_id x then snd (close_row io exit x) else z)" using y by (auto simp only: in_update_where)
  show ?thesis
  proof (cases "open_pair u st pair y \<and> jt_id y \<noteq> jt_id x")
    case True
    then show ?thesis using r by (simp add: open_pair_def open_of_def)
  next
    case False
    then show ?thesis using r z closed by (metis (full_types))
  qed
qed

lemma sale_closes_oldest:
  assumes "book_sell io u st pair False q alloc exit s = (t, s')" "oldest_of_pair u st pair (js_rows s) = Some x"
  shows "sw_exitPrice t = Some exit" "snd (close_row io exit x) \<in> set (js_rows s')"
proof -
  have x: "x \<in> set (js_rows s)" using find_first_Some [OF assms(2) [unfolded oldest_of_pair_def]] by simp
  note b = assms(1) [unfolded book_sell_def assms(2)]
  show "sw_exitPrice t = Some exit" using b by (auto simp: is_skim_def close_row_def Let_def)
  have "snd (close_row io exit x) \<in> set (update_where (\<lambda>r. jt_id r = jt_id x) (\<lambda>r. snd (close_row io exit x)) (js_rows s))"
    using x by (auto simp: in_update_where intro!: bexI [of _ x])
  moreover have "\<not> open_pair u st pair (snd (close_row io exit x))" by (simp add: close_row_def Let_def open_pair_def open_of_def)
  ultimately show "snd (close_row io exit x) \<in> set (js_rows s')"
    using b by (auto simp: is_skim_def intro!: update_where_other)
qed

lemma executed_jupiter_sale:
  assumes "executeJupiterSwap io st u req opts s = (Inr res, s')" "jq_side req = JupSell"
    and "jo_token io (jq_binanceSymbol req) = Some tokenRaw"
  obtains q alloc exit s1 where "js_rows s1 = js_rows s"
    "book_sell io u st (tn_baseSymbol (jo_hydrate io tokenRaw) @ ''/USDT'') (xo_partialSkim opts) q alloc exit s1 = (jr_trade res, s')"
proof -
  obtain spend amountHuman p s1 s2 where e: "same_book s s1"
    "settled io st u req (xo_partialSkim opts) (jo_hydrate io tokenRaw) spend amountHuman p s1 s2 (Inr res, s')"
    using execute_ends [OF assms(1)] assms(3) by auto
  then have r: "js_rows s2 = js_rows s" by (simp add: settled_def same_book_def)
  obtain signature order where "settle_swap io st u req (xo_partialSkim opts) (jo_hydrate io tokenRaw) spend amountHuman
      (toSmallest amountHuman (jup_in_decimals req (jo_hydrate io tokenRaw) spend)) signature order s2 = (Inr res, s')"
    using e(2) unfolding settled_def by blast
  then obtain alloc exit where
    "book_sell io u st (tn_baseSymbol (jo_hydrate io tokenRaw) @ ''/USDT'') (xo_partialSkim opts) amountHuman alloc exit s2 = (jr_trade res, s')"
    using settle_sale assms(2) by blast
  then show thesis using that r by blast
qed

text \<open>C22: a sale that is not a skim closes the pair: no open row of the pair is left to the user, and the oldest one
  is closed at the reported exit price with its earlier skims and the gain of this sale as its result.\<close>

theorem full_sale_closes_pair:
  assumes "executeJupiterSwap io st u req opts s = (Inr res, s')" "jq_side req = JupSell" "\<not> xo_partialSkim opts"
    and "jo_token io (jq_binanceSymbol req) = Some tokenRaw" and "pair = tn_baseSymbol (jo_hydrate io tokenRaw) @ ''/USDT''"
  shows "(\<forall>r \<in> set (js_rows s'). \<not> open_pair u st pair r) \<and>
    (\<forall>t. oldest_of_pair u st pair (js_rows s) = Some t \<longrightarrow>
      (\<exists>exit. sw_exitPrice (jr_trade res) = Some exit \<and>
        t\<lparr>jt_exitPrice := Some (jo_decimal io exit),
          jt_pnl := Some (jo_decimal io (nullish (jt_pnl t) (Fin 0) + roundTripRealizedPnl (alloc_of t) (jt_entryPrice t) exit)),
          jt_status := CLOSED\<rparr>
        \<in> set (js_rows s')))"
proof -
  obtain q alloc exit s1 where rows: "js_rows s1 = js_rows s"
    and b: "book_sell io u st pair False q alloc exit s1 = (jr_trade res, s')"
    using executed_jupiter_sale [OF assms(1,2,4)] assms(3,5) by simp metis
  have "\<exists>exit. sw_exitPrice (jr_trade res) = Some exit \<and>
      t\<lparr>jt_exitPrice := Some (jo_decimal io exit),
        jt_pnl := Some (jo_decimal io (nullish (jt_pnl t) (Fin 0) + roundTripRealizedPnl (alloc_of t) (jt_entryPrice t) exit)),
        jt_status := CLOSED\<rparr> \<in> set (js_rows s')"
    if o: "oldest_of_pair u st pair (js_rows s) = Some t" for t
    using sale_closes_oldest [OF b o [folded rows]] by (simp add: close_row_def Let_def)
  then show ?thesis using sale_leaves_none_open [OF b] by blast
qed

text \<open>The sale of a position from the dashboard closes it in the book, also when only half of it is sold: whenever
  the order went through, no open row of the pair is left, though the other half stays in the wallet.\<close>

theorem half_sale_closes_whole_position:
  assumes "sellJupiterOpenPosition io st u sy True s = (Inr (Sold res), s')"
    and "jo_token io (base_of_symbol sy @ ''USDT'') = Some token"
    and "jo_token io (tn_binanceSymbol token) = Some token'" "tn_baseSymbol (jo_hydrate io token') = base_of_symbol sy"
  shows "\<forall>r \<in> set (js_rows s'). \<not> open_pair u st (base_of_symbol sy @ ''/USDT'') r"
proof -
  let ?opts = "\<lparr>xo_skipEntryGuard = True, xo_skipPreview = True, xo_partialSkim = False, xo_smartRoute = False\<rparr>"
  obtain q s1 s2 where run: "executeJupiterSwap io st u (sell_request (tn_binanceSymbol token) q (jo_exitSlippageBps io)) ?opts s1 = (Inr res, s2)"
    and s': "s' = s2\<lparr>js_rows := cancel_extras st u (base_of_symbol sy @ ''/USDT'') (js_rows s2)\<rparr>"
    using assms(1,2) by (auto simp: sellJupiterOpenPosition_def clear_stale_def Let_def and_then_Inr split: if_splits)
  have "\<forall>r \<in> set (js_rows s2). \<not> open_pair u st (base_of_symbol sy @ ''/USDT'') r"
  proof -
    obtain q' alloc exit s3 where
      "book_sell io u st (base_of_symbol sy @ ''/USDT'') False q' alloc exit s3 = (jr_trade res, s2)"
      using executed_jupiter_sale [OF run] assms(3,4) by (simp add: sell_request_def) metis
    from sale_leaves_none_open [OF this] show ?thesis by blast
  qed
  then show ?thesis by (auto simp: s' cancel_extras_def find_many_def Let_def order_asc_def)
qed

text \<open>The test for another purchase of the same pair comes after the order was executed: when a purchase is refused
  as a duplicate, the order for the full amount was submitted, and the book does not show it.\<close>

theorem duplicate_buy_spends_without_booking:
  assumes "executeJupiterSwap io st u req opts s = (Inl BuyInProgress, s')"
  shows "js_rows s' = js_rows s \<and> (\<exists>tokenRaw (spend :: SpendMintInfo) p. jo_token io (jq_binanceSymbol req) = Some tokenRaw \<and>
    (u, p) \<in> set (drop (length (js_submitted s)) (js_submitted s')) \<and> op_inputMint p = sm_mint spend \<and>
    op_outputMint p = tn_mint (jo_hydrate io tokenRaw) \<and> op_amount p = toSmallest (jq_amount req) (sm_decimals spend))"
proof -
  obtain tokenRaw s1 spend amountHuman p s2 where e: "jo_token io (jq_binanceSymbol req) = Some tokenRaw" "same_book s s1"
    and d: "settled io st u req (xo_partialSkim opts) (jo_hydrate io tokenRaw) spend amountHuman p s1 s2 (Inl BuyInProgress, s')"
    using execute_ends [OF assms] by auto
  have buy: "s' = s2" "jq_side req = JupBuy" using d settle_error unfolding settled_def by blast+
  have a: "amountHuman = jq_amount req"
    using d buy(2) by (auto simp: settled_def amount_to_swap_def and_then_Inr Let_def split: if_splits)
  have "set (drop (length (js_submitted s1)) (js_submitted s2)) \<subseteq> set (drop (length (js_submitted s)) (js_submitted s2))"
    using e(2) by (intro set_drop_subset_set_drop) (auto simp: same_book_def)
  then have "(u, p) \<in> set (drop (length (js_submitted s)) (js_submitted s'))" using d buy(1) by (auto simp: settled_def)
  moreover have "op_inputMint p = sm_mint spend" "op_outputMint p = tn_mint (jo_hydrate io tokenRaw)"
    "op_amount p = toSmallest (jq_amount req) (sm_decimals spend)"
    using d buy(2) a by (auto simp: settled_def order_of_def jup_in_decimals_def)
  moreover have "js_rows s' = js_rows s" using d e(2) buy(1) by (simp add: settled_def same_book_def)
  ultimately show ?thesis using e(1) by blast
qed

lemma new_position_size:
  "book_buy io u st pair alloc entry s = (t, s') \<Longrightarrow> oldest_of_pair u st pair (js_rows s) = None \<Longrightarrow> sw_allocationUsd t = alloc"
  by (auto simp: book_buy_def)

text \<open>The size of a new position is booked in units of the coin that paid for it: for a first purchase of a pair the
  booked dollars are the paid amount of that coin, whatever its price.\<close>

theorem booked_purchase_ignores_token_price:
  assumes "executeJupiterSwap io st u req opts s = (Inr res, s')" "jq_side req = JupBuy"
    and "jo_token io (jq_binanceSymbol req) = Some tokenRaw"
    and "oldest_of_pair u st (tn_baseSymbol (jo_hydrate io tokenRaw) @ ''/USDT'') (js_rows s) = None"
  shows "\<exists>h spend. spend_of io h req = Inr spend \<and>
    sw_allocationUsd (jr_trade res) = safe_alloc (fromSmallest (jr_amountIn res) (sm_decimals spend))"
proof -
  obtain spend amountHuman p s1 s2 where e: "same_book s s1"
    "settled io st u req (xo_partialSkim opts) (jo_hydrate io tokenRaw) spend amountHuman p s1 s2 (Inr res, s')"
    using execute_ends [OF assms(1)] assms(3) by auto
  then have r: "js_rows s2 = js_rows s" "spend_of io (js_submitted s1) req = Inr spend" by (simp_all add: settled_def same_book_def)
  obtain signature order where set: "settle_swap io st u req (xo_partialSkim opts) (jo_hydrate io tokenRaw) spend amountHuman
      (toSmallest amountHuman (jup_in_decimals req (jo_hydrate io tokenRaw) spend)) signature order s2 = (Inr res, s')"
    using e(2) unfolding settled_def by blast
  obtain entry f s3 where
    "book_buy io u st (tn_baseSymbol (jo_hydrate io tokenRaw) @ ''/USDT'') (safe_alloc (fromSmallest (jr_amountIn res) (sm_decimals spend))) entry
       (s2\<lparr>js_inFlight := f\<rparr>) = (jr_trade res, s3)"
    by (rule settle_purchase [OF set assms(2)])
  then have "sw_allocationUsd (jr_trade res) = safe_alloc (fromSmallest (jr_amountIn res) (sm_decimals spend))"
    using assms(4) new_position_size by (simp add: r(1))
  then show ?thesis using r(2) by blast
qed

section \<open>Gas and fees\<close>

text \<open>A gas top-up is small and covered: preparing the gas of a swap submits at most one order, which turns between
  0.40 and 1 USDC of the user's balance into SOL and never more than the user holds.\<close>

theorem gas_topup_bounded:
  assumes "ensureSolanaSwapGas io u s = (r, s')" and "jo_balance io (js_submitted s) u SOL_USDC_MINT 6 \<noteq> Inr NaN"
  shows "s' = s \<or> (\<exists>taker usdc. jo_balance io (js_submitted s) u SOL_USDC_MINT 6 = Inr usdc \<and>
    s' = s\<lparr>js_submitted := js_submitted s @ [(u, gas_order taker (gas_topup usdc))]\<rparr> \<and>
    lit (4/10) \<le> gas_topup usdc \<and> gas_topup usdc \<le> GAS_TOPUP_USDC \<and> gas_topup usdc \<le> usdc)"
proof (cases "s' = s")
  case False
  then obtain usdc taker order where b: "jo_balance io (js_submitted s) u SOL_USDC_MINT 6 = Inr usdc" "\<not> usdc < lit (4/10)"
    and s': "s' = s\<lparr>js_submitted := js_submitted s @ [(u, gas_order taker (gas_topup usdc))]\<rparr>"
    using assms(1) by (auto simp: ensureSolanaSwapGas_def Let_def and_then_def attempt_def require_def submit_def split: sum.splits if_splits)
  obtain a where a: "lit (4/10) = Fin a" "a \<le> 1"
  proof -
    have "Fin 0 < lit (4/10)" "lit (4/10) \<le> Fin 1" by code_simp+
    then show thesis using that by (cases "lit (4/10)") auto
  qed
  have "usdc \<noteq> NaN" using assms(2) b(1) by auto
  then have "lit (4/10) \<le> gas_topup usdc \<and> gas_topup usdc \<le> GAS_TOPUP_USDC \<and> gas_topup usdc \<le> usdc"
    using b(2) a(2) unfolding a(1) gas_topup_def GAS_TOPUP_USDC_def by (cases usdc) (auto simp: math_min_def math_max_def)
  then show ?thesis using b(1) s' by blast
qed simp

text \<open>The steps of a conversion after the fee leave book and fees alone.\<close>

lemma quiet_convert_paid: "quiet s (convert_paid io u fromMint toMint amount slip fromDecimals fee feePaid s)"
  unfolding convert_paid_def Let_def
  by (auto intro!: quiet_and_then quiet_submit split: option.splits)

lemma convert_paid_fee:
  "convert_paid io u fromMint toMint amount slip fromDecimals fee feePaid s = (Inr res, s') \<Longrightarrow>
     cr_feeUsd res = (if feePaid then CONVERT_FEE_USD else Fin 0)"
  by (auto simp: convert_paid_def Let_def and_then_Inr split: if_splits option.splits)

lemma convert_ends:
  assumes run: "convertSolanaTokens io u fromMint toMint amount slip s = (r, s')"
  shows "(\<exists>e. r = Inl e) \<and> same_book s s' \<or>
    (\<exists>s1 fee d. same_book s s1 \<and> solConvertFeeTokens io (js_submitted s1) fromMint amount = Inr fee \<and>
      convert_paid io u fromMint toMint amount slip d fee (fst (charge_fee io u fromMint fee s1)) (snd (charge_fee io u fromMint fee s1)) = (r, s'))"
    (is "?failed \<or> ?paid")
proof (cases "jo_walletEnabled io \<and> jo_configured io \<and> assertConvertInputs fromMint toMint amount = None")
  case False
  then show ?thesis using run by (auto simp: convertSolanaTokens_def split: if_splits option.splits)
next
  case True
  note body = run [unfolded convertSolanaTokens_def Let_def]
  have fail: "?failed \<or> ?paid" if "r = Inl e" "same_book s s'" for e using that by blast
  from body True have "and_then (attempt (jo_ensureWallet io u) s) (\<lambda>_ s.
      and_then (if toMint \<noteq> SOL_NATIVE_MINT \<or> fromMint \<noteq> SOL_USDC_MINT then ensureSolanaSwapGas io u s else (Inr (), s)) (\<lambda>_ s.
      and_then (attempt (jo_mintDecimals io fromMint) s) (\<lambda>d s.
      and_then (attempt (jo_balance io (js_submitted s) u fromMint d) s) (\<lambda>bal s.
      if bal < (if fromMint = SOL_NATIVE_MINT then amount + SOL_GAS_RESERVE else amount)
      then (Inl (InsufficientSpend (if fromMint = SOL_NATIVE_MINT then amount + SOL_GAS_RESERVE else amount) bal), s)
      else and_then (lift_error (solConvertFeeTokens io (js_submitted s) fromMint amount) s) (\<lambda>fee s.
        convert_paid io u fromMint toMint amount slip d fee (fst (charge_fee io u fromMint fee s)) (snd (charge_fee io u fromMint fee s))))))) = (r, s')"
    by (simp add: split_beta cong: if_cong split del: if_split)
  then show ?thesis
  proof (cases rule: attempt_step)
    case (failed e)
    show ?thesis by (rule fail [OF failed(1,3)])
  next
    case step1: (went_on x s1)
    from step1(3) show ?thesis
    proof (cases rule: gas_step)
      case (failed e)
      then show ?thesis using fail same_book_trans step1(2) by blast
    next
      case step2: (went_on y s2)
      from step2(3) show ?thesis
      proof (cases rule: attempt_step)
        case (failed e)
        then show ?thesis using fail same_book_trans step1(2) step2(2) by blast
      next
        case step3: (went_on d s3)
        then have s3: "same_book s s3" using same_book_trans step1(2) step2(2) by blast
        from step3(3) show ?thesis
        proof (cases rule: attempt_step)
          case (failed e)
          then show ?thesis using fail same_book_trans s3 by blast
        next
          case step4: (went_on bal s4)
          then have s4: "same_book s s4" using same_book_trans s3 by blast
          show ?thesis using step4(3) s4 fail
            by (cases "solConvertFeeTokens io (js_submitted s4) fromMint amount") (auto simp: lift_error_def split: if_splits)
        qed
      qed
    qed
  qed
qed

lemma fee_below_fifth: "solConvertFeeTokens io h fromMint amount = Inr fee \<Longrightarrow> Fin 0 < fee \<Longrightarrow> \<not> amount * lit (2/10) \<le> fee"
  by (auto simp: solConvertFeeTokens_def Let_def split: option.splits if_splits)

text \<open>A conversion charges at most one fee, in the coin that is sold, and the fee is below a fifth of the amount; the
  trade book is left alone, and a successful conversion reports the fee exactly when it was taken.\<close>

theorem convert_fee_below_fifth:
  assumes "convertSolanaTokens io u fromMint toMint amount slip s = (r, s')"
  shows "js_rows s' = js_rows s \<and>
    (js_fees s' = js_fees s \<or> (\<exists>fee. js_fees s' = js_fees s @ [(u, fromMint, fee)] \<and> Fin 0 < fee \<and> \<not> amount * lit (2/10) \<le> fee)) \<and>
    (\<forall>res. r = Inr res \<longrightarrow> cr_feeUsd res = (if js_fees s' = js_fees s then Fin 0 else CONVERT_FEE_USD))"
  using convert_ends [OF assms]
proof (elim disjE exE conjE)
  fix s1 fee d
  assume s1: "same_book s s1" and fee: "solConvertFeeTokens io (js_submitted s1) fromMint amount = Inr fee"
    and run: "convert_paid io u fromMint toMint amount slip d fee (fst (charge_fee io u fromMint fee s1)) (snd (charge_fee io u fromMint fee s1)) = (r, s')"
  have q: "same_book (snd (charge_fee io u fromMint fee s1)) s'" by (rule quietD [OF run quiet_convert_paid])
  have res: "r = Inr res \<Longrightarrow> cr_feeUsd res = (if fst (charge_fee io u fromMint fee s1) then CONVERT_FEE_USD else Fin 0)" for res
    using convert_paid_fee run by blast
  show ?thesis using q s1 res fee_below_fifth [OF fee] by (cases "fst (charge_fee io u fromMint fee s1)") (auto simp: charge_fee_def same_book_def split: if_splits)
qed (auto simp: same_book_def)

section \<open>A small market\<close>

definition demo_token :: SolToken where
  "demo_token = \<lparr>tn_baseSymbol = ''BONK'', tn_binanceSymbol = ''BONKUSDT'', tn_mint = ''bonk'', tn_decimals = 6, tn_native = True\<rparr>"

text \<open>Every order is answered with ten million smallest units, every balance is five coins, every price is two dollars.\<close>

definition demo_order :: order_answer where
  "demo_order = \<lparr>oa_transaction = Some ''tx'', oa_inAmount = None, oa_outAmount = ''10000000'', oa_priceImpactPct = None,
     oa_latencyMs = None, oa_router = None\<rparr>"

definition demo_market :: jup_io where
  "demo_market = \<lparr>jo_now = 100000, jo_walletEnabled = True, jo_configured = True, jo_ensureWallet = (\<lambda>_. Inr ()),
     jo_keypair = (\<lambda>_. Inr ''taker''), jo_balance = (\<lambda>_ _ _ _. Inr (Fin 5)), jo_token = (\<lambda>_. Some demo_token), jo_hydrate = (\<lambda>t. t),
     jo_mintDecimals = (\<lambda>_. Inr 6), jo_price = (\<lambda>_ _. Inr (Some (Fin 2))), jo_mid = (\<lambda>_. Some (Fin 2)), jo_bookMid = (\<lambda>_. None),
     jo_sellQuote = (\<lambda>_ _. Some (Fin 2)),
     jo_order = (\<lambda>_ _. Inr demo_order),
     jo_execute = (\<lambda>_ _ _. Inr (Some ''sig'')), jo_smartRoute = (\<lambda>_. None), jo_sendFee = (\<lambda>_ _ _ _. True), jo_rateLimited = False,
     jo_newId = ''new'', jo_decimal = (\<lambda>x. x),
     jo_exitPrefs = (\<lambda>_. \<lparr>xs_enabled = True, xs_takeProfitPct = Fin 3, xs_stopLossPct = Fin 2, xs_profitSkim = False,
                          xs_trailingStop = False, xs_trailingActivationPct = Fin 1, xs_trailingDeltaPct = Fin 1\<rparr>),
     jo_minNetProfitUsd = Fin 0, jo_takeProfitPct = Fin 3, jo_stopLossPct = Fin 2, jo_exitSlippageBps = Fin 100\<rparr>"

definition demo_state :: "jupiter_trade list \<Rightarrow> time option \<Rightarrow> jup_state" where
  "demo_state rows busy = \<lparr>js_rows = rows, js_inFlight = (\<lambda>_. busy), js_submitted = [], js_credits = [], js_fees = []\<rparr>"

definition demo_bonk :: "jupiter_trade list" where
  "demo_bonk = [(demo_jup ''a'' 42 OPEN 1000)\<lparr>jt_pair := ''BONK/USDT''\<rparr>]"

definition demo_opts :: "bool \<Rightarrow> JupiterExecuteOptions" where
  "demo_opts skip = \<lparr>xo_skipEntryGuard = True, xo_skipPreview = skip, xo_partialSkim = False, xo_smartRoute = False\<rparr>"

definition demo_buy :: "JupiterSpendAsset \<Rightarrow> JupiterSwapRequest" where
  "demo_buy asset = \<lparr>jq_side = JupBuy, jq_binanceSymbol = ''BONKUSDT'', jq_amount = Fin 4, jq_slippageBps = None,
     jq_spendAsset = Some asset, jq_spendMint = None\<rparr>"

definition succeeded :: "'a jup_result \<Rightarrow> bool" where
  "succeeded r = (case r of (Inr _, _) \<Rightarrow> True | _ \<Rightarrow> False)"

lemma succeeded_cases: "succeeded r \<Longrightarrow> \<exists>x s. r = (Inr x, s)"
  by (auto simp: succeeded_def split: prod.splits sum.splits)

lemma settle_ends:
  "jq_side req = JupSell \<Longrightarrow> succeeded (settle_swap io st u req partialSkim token spend a amountIn signature order s)"
  "jq_side req = JupBuy \<Longrightarrow> js_inFlight s = (\<lambda>_. None) \<Longrightarrow> succeeded (settle_swap io st u req partialSkim token spend a amountIn signature order s)"
  "jq_side req = JupBuy \<Longrightarrow> js_inFlight s = (\<lambda>_. Some b) \<Longrightarrow> jo_now io - b < BUY_IN_FLIGHT_MS \<Longrightarrow>
     settle_swap io st u req partialSkim token spend a amountIn signature order s = (Inl BuyInProgress, s)"
  by (simp_all add: settle_swap_def Let_def succeeded_def split: prod.splits)

lemma demo_io [simp]: "jo_walletEnabled demo_market" "jo_configured demo_market" "jo_ensureWallet demo_market u = Inr ()"
  "jo_token demo_market x = Some demo_token" "jo_hydrate demo_market demo_token = demo_token" "jo_keypair demo_market u = Inr ''taker''"
  "jo_balance demo_market h u m d = Inr (Fin 5)" "jo_order demo_market h p = Inr demo_order" "jo_execute demo_market h p y = Inr (Some ''sig'')"
  "jo_price demo_market h m = Inr (Some (Fin 2))" "jo_now demo_market = 100000" "jo_mintDecimals demo_market m = Inr 6"
  "jo_decimal demo_market v = v" "jo_sendFee demo_market h u m v"
  by (simp_all add: demo_market_def)

lemma demo_order_tx: "nonempty (oa_transaction demo_order) \<noteq> None"
  by (simp add: demo_order_def nonempty_def)

lemma demo_gas: "ensureSolanaSwapGas demo_market u s = (Inr (), s)"
proof -
  have "MIN_SOL_FOR_SWAP \<le> Fin 5" by code_simp
  then show ?thesis by (simp add: ensureSolanaSwapGas_def attempt_def)
qed

lemma demo_execute:
  assumes "check_preview demo_market st u req opts s = (Inr (), s)" "is_finite (jq_amount req)" "\<not> jq_amount req \<le> Fin 0"
    and "spend_of demo_market (js_submitted s) req = Inr spend" "amount_to_swap demo_market u req demo_token spend s = (Inr a, s)"
    and "\<not> xo_smartRoute opts"
  shows "\<exists>amountIn order p. executeJupiterSwap demo_market st u req opts s =
    settle_swap demo_market st u req (xo_partialSkim opts) demo_token spend a amountIn ''sig'' order (s\<lparr>js_submitted := js_submitted s @ [(u, p)]\<rparr>)"
proof -
  have e: "executeJupiterSwap demo_market st u req opts s = swap_token demo_market st u req opts demo_token s"
    using assms(1-3) by (simp add: executeJupiterSwap_def attempt_def demo_gas)
  show ?thesis unfolding e
    using assms(4-6) demo_order_tx by (simp add: swap_token_def Let_def attempt_def order_with_retry_def submit_def) (auto simp: nonempty_def)
qed

lemma demo_sale:
  assumes "check_preview demo_market st u (sell_request sy q slip) opts s = (Inr (), s)" "is_finite q" "\<not> q \<le> Fin 0" "\<not> xo_smartRoute opts"
  shows "\<exists>res s'. executeJupiterSwap demo_market st u (sell_request sy q slip) opts s = (Inr res, s')"
proof -
  have "amount_to_swap demo_market u (sell_request sy q slip) demo_token usdc_leg s = (Inr (math_min q (Fin 5)), s)"
    by (simp add: amount_to_swap_def sell_request_def attempt_def)
  then obtain amountIn order p where "executeJupiterSwap demo_market st u (sell_request sy q slip) opts s =
      settle_swap demo_market st u (sell_request sy q slip) (xo_partialSkim opts) demo_token usdc_leg (math_min q (Fin 5)) amountIn ''sig'' order
        (s\<lparr>js_submitted := js_submitted s @ [(u, p)]\<rparr>)"
    using demo_execute [OF assms(1), of usdc_leg "math_min q (Fin 5)"] assms(2-4) by (auto simp: sell_request_def spend_of_def)
  then show ?thesis using succeeded_cases [OF settle_ends(1)] by (simp add: sell_request_def)
qed

lemma demo_previews:
  "check_preview demo_market ''st'' ''u'' (sell_request ''BONKUSDT'' (Fin 5) (Fin 100)) (demo_opts False) (demo_state demo_bonk None) =
     (Inr (), demo_state demo_bonk None)"
proof -
  have "succeeded (check_preview demo_market ''st'' ''u'' (sell_request ''BONKUSDT'' (Fin 5) (Fin 100)) (demo_opts False) (demo_state demo_bonk None))"
    by code_simp
  then show ?thesis by (auto simp: check_preview_def succeeded_def split: if_splits sum.splits)
qed

theorem jupiter_swap_passes_guards_witness:
  "\<exists>s1 pv. js_rows s1 = demo_bonk \<and>
    previewJupiterSwap demo_market ''st'' (sell_request ''BONKUSDT'' (Fin 5) (Fin 100)) (Some ''u'') True s1 = Inr pv \<and> Fin 0 < pv_amountOutHuman pv"
proof -
  obtain res s' where "executeJupiterSwap demo_market ''st'' ''u'' (sell_request ''BONKUSDT'' (Fin 5) (Fin 100)) (demo_opts False)
      (demo_state demo_bonk None) = (Inr res, s')" using demo_sale [OF demo_previews] by (auto simp: demo_opts_def)
  from jupiter_swap_passes_guards [OF this] show ?thesis by (auto simp: demo_opts_def demo_state_def)
qed

theorem full_sale_closes_pair_witness:
  "\<exists>res s'. executeJupiterSwap demo_market ''st'' ''u'' (sell_request ''BONKUSDT'' (Fin 5) (Fin 100)) (demo_opts False)
      (demo_state demo_bonk None) = (Inr res, s') \<and> filter (open_pair ''u'' ''st'' ''BONK/USDT'') (js_rows s') = []"
proof -
  obtain res s' where run: "executeJupiterSwap demo_market ''st'' ''u'' (sell_request ''BONKUSDT'' (Fin 5) (Fin 100)) (demo_opts False)
      (demo_state demo_bonk None) = (Inr res, s')" using demo_sale [OF demo_previews] by (auto simp: demo_opts_def)
  from full_sale_closes_pair [OF this _ _ _ refl, of demo_token] show ?thesis
    by (simp add: run [unfolded demo_opts_def sell_request_def] demo_opts_def sell_request_def filter_empty_conv demo_token_def [THEN arg_cong, of tn_baseSymbol])
qed

lemma demo_purchase:
  assumes "js_inFlight s = (\<lambda>_. busy)"
  shows "\<exists>spend amountIn order p. executeJupiterSwap demo_market st u (demo_buy asset) (demo_opts True) s =
    settle_swap demo_market st u (demo_buy asset) False demo_token spend (Fin 4) amountIn ''sig'' order (s\<lparr>js_submitted := js_submitted s @ [(u, p)]\<rparr>)"
proof -
  have res: "\<exists>spend. spend_of demo_market (js_submitted s) (demo_buy asset) = Inr spend"
    by (simp add: spend_of_def demo_buy_def resolveSpendMint_def Let_def nonempty_def)
  then obtain spend where sp: "spend_of demo_market (js_submitted s) (demo_buy asset) = Inr spend" by blast
  have "\<not> Fin 5 < Fin 4 + SOL_GAS_RESERVE" by code_simp
  then have am: "amount_to_swap demo_market u (demo_buy asset) demo_token spend s = (Inr (Fin 4), s)"
    by (simp add: amount_to_swap_def demo_buy_def attempt_def)
  show ?thesis using demo_execute [OF _ _ _ sp am, of st "demo_opts True"]
    by (auto simp: demo_opts_def demo_buy_def check_preview_def)
qed

theorem duplicate_buy_spends_without_booking_witness:
  "\<exists>s'. executeJupiterSwap demo_market ''st'' ''u'' (demo_buy SpendUSDC) (demo_opts True) (demo_state demo_bonk (Some 99000)) =
      (Inl BuyInProgress, s') \<and> js_rows s' = demo_bonk \<and> js_submitted s' \<noteq> []"
proof -
  have "js_inFlight (demo_state demo_bonk (Some 99000)) = (\<lambda>_. Some 99000)" by (simp add: demo_state_def)
  then obtain s' where run: "executeJupiterSwap demo_market ''st'' ''u'' (demo_buy SpendUSDC) (demo_opts True) (demo_state demo_bonk (Some 99000)) =
      (Inl BuyInProgress, s')"
    using demo_purchase [of "demo_state demo_bonk (Some 99000)" "Some 99000" "''st''" "''u''" SpendUSDC]
    by (auto simp: settle_ends(3) demo_buy_def demo_state_def BUY_IN_FLIGHT_MS_def)
  from duplicate_buy_spends_without_booking [OF this] run show ?thesis by (auto simp: demo_state_def)
qed

theorem booked_purchase_ignores_token_price_witness:
  "\<exists>res s' (spend :: SpendMintInfo). executeJupiterSwap demo_market ''st'' ''u'' (demo_buy SpendSOL) (demo_opts True) (demo_state [] None) = (Inr res, s') \<and>
     sw_allocationUsd (jr_trade res) = safe_alloc (fromSmallest (jr_amountIn res) (sm_decimals spend))"
proof -
  have "js_inFlight (demo_state [] None) = (\<lambda>_. None)" by (simp add: demo_state_def)
  then obtain res s' where run: "executeJupiterSwap demo_market ''st'' ''u'' (demo_buy SpendSOL) (demo_opts True) (demo_state [] None) = (Inr res, s')"
    using demo_purchase [of "demo_state [] None" None "''st''" "''u''" SpendSOL] succeeded_cases [OF settle_ends(2)]
    by (fastforce simp: demo_buy_def demo_state_def)
  have "oldest_of_pair ''u'' ''st'' x []= None" for x by (simp add: oldest_of_pair_def find_first_None)
  with booked_purchase_ignores_token_price [OF run, of demo_token] run show ?thesis
    by (auto simp: demo_buy_def demo_state_def)
qed

lemma demo_half:
  "base_of_symbol ''BONK'' = ''BONK''" "find_many (open_pair ''u'' ''st'' ''BONK/USDT'') (order_asc jt_createdAt) demo_bonk = demo_bonk"
  "snd (mergeDuplicateJupiterOpenTrades (\<lambda>x. x) ''st'' ''u'' demo_bonk) = demo_bonk"
  "\<not> booked_qty demo_bonk \<le> Fin 0"
  "is_finite (floor_qty 6 (math_min (booked_qty demo_bonk) (Fin 5 * lit (98/100)) / Fin 2))"
  "\<not> floor_qty 6 (math_min (booked_qty demo_bonk) (Fin 5 * lit (98/100)) / Fin 2) \<le> Fin 0"
  by code_simp+

theorem half_sale_closes_whole_position_witness:
  "\<exists>res s'. sellJupiterOpenPosition demo_market ''st'' ''u'' ''BONK'' True (demo_state demo_bonk None) = (Inr (Sold res), s') \<and>
     filter (open_pair ''u'' ''st'' ''BONK/USDT'') (js_rows s') = []"
proof -
  have tok: "tn_binanceSymbol demo_token = ''BONKUSDT''" "tn_decimals demo_token = 6" "tn_baseSymbol demo_token = ''BONK''"
    by (simp_all add: demo_token_def)
  have m: "merge_book demo_market ''st'' ''u'' (demo_state demo_bonk None) = demo_state demo_bonk None"
    using demo_half(3) by (simp add: merge_book_def demo_state_def demo_market_def)
  have ne: "demo_bonk \<noteq> []" by (simp add: demo_bonk_def)
  let ?q = "floor_qty 6 (math_min (booked_qty demo_bonk) (Fin 5 * lit (98/100)) / Fin 2)"
  let ?opts = "\<lparr>xo_skipEntryGuard = True, xo_skipPreview = True, xo_partialSkim = False, xo_smartRoute = False\<rparr>"
  obtain res s2 where ex: "executeJupiterSwap demo_market ''st'' ''u'' (sell_request ''BONKUSDT'' ?q (jo_exitSlippageBps demo_market)) ?opts
      (demo_state demo_bonk None) = (Inr res, s2)"
    using demo_sale [OF _ demo_half(5,6), of "''st''" "''u''" "''BONKUSDT''" "jo_exitSlippageBps demo_market" ?opts "demo_state demo_bonk None"] by (auto simp: check_preview_def)
  have rows: "js_rows (demo_state demo_bonk None) = demo_bonk" by (simp add: demo_state_def)
  have run: "\<exists>s'. sellJupiterOpenPosition demo_market ''st'' ''u'' ''BONK'' True (demo_state demo_bonk None) = (Inr (Sold res), s')"
    using ne demo_half(4,6) ex by (simp add: sellJupiterOpenPosition_def Let_def demo_half(1,2) rows m tok attempt_def)
  then obtain s' where run': "sellJupiterOpenPosition demo_market ''st'' ''u'' ''BONK'' True (demo_state demo_bonk None) = (Inr (Sold res), s')" by blast
  show ?thesis
    using half_sale_closes_whole_position [OF run', of demo_token demo_token] run' tok by (auto simp: demo_half(1) filter_empty_conv)
qed

definition demo_dry :: jup_io where
  "demo_dry = demo_market\<lparr>jo_balance := (\<lambda>_ _ m _. Inr (if m = SOL_NATIVE_MINT then Fin 0 else Fin 5))\<rparr>"

lemma demo_topped: "js_submitted (snd (ensureSolanaSwapGas demo_dry ''u'' (demo_state [] None))) \<noteq> []"
proof -
  have "\<not> MIN_SOL_FOR_SWAP \<le> Fin 0" "\<not> Fin 5 < lit (4/10)" "SOL_USDC_MINT \<noteq> SOL_NATIVE_MINT" by code_simp+
  then show ?thesis using demo_order_tx
    by (auto simp: ensureSolanaSwapGas_def attempt_def demo_dry_def require_def submit_def Let_def)
qed

theorem gas_topup_bounded_witness:
  "js_submitted (snd (ensureSolanaSwapGas demo_dry ''u'' (demo_state [] None))) \<noteq> [] \<and> lit (4/10) \<le> gas_topup (Fin 5) \<and> gas_topup (Fin 5) \<le> Fin 5"
proof -
  have u: "SOL_USDC_MINT \<noteq> SOL_NATIVE_MINT" by code_simp
  have b: "jo_balance demo_dry h v SOL_USDC_MINT 6 = Inr (Fin 5)" for h v by (simp add: demo_dry_def u)
  obtain r s' where run: "ensureSolanaSwapGas demo_dry ''u'' (demo_state [] None) = (r, s')" by fastforce
  have "s' \<noteq> demo_state [] None" using demo_topped run by (auto simp: demo_state_def)
  with gas_topup_bounded [OF run] demo_topped show ?thesis by (simp add: b)
qed

theorem convert_fee_below_fifth_witness:
  "js_rows (snd (convertSolanaTokens demo_market ''u'' SOL_USDC_MINT ''bonk'' (Fin 4) None (demo_state demo_bonk None))) = demo_bonk \<and>
   length (js_fees (snd (convertSolanaTokens demo_market ''u'' SOL_USDC_MINT ''bonk'' (Fin 4) None (demo_state demo_bonk None)))) \<le> 1"
proof -
  obtain r s' where run: "convertSolanaTokens demo_market ''u'' SOL_USDC_MINT ''bonk'' (Fin 4) None (demo_state demo_bonk None) = (r, s')" by fastforce
  show ?thesis using convert_fee_below_fifth [OF run] run by (auto simp: demo_state_def)
qed

end
