(* ===== verification/JupiterRows.thy ===== *)
theory JupiterRows
  imports JupiterSafety
begin

text \<open>
  What a swap does to the Jupiter trade book, row by row: the row of every position but the ones it may touch stays as it
  was, every row keeps its identity, a row that is closed has its result, and at most one row is added.
\<close>

text \<open>A row before and after: the only rows that change are those that may; a row closed by the swap has a result, and
  an exit price too when its entry price and size are finite numbers.\<close>

definition row_kept :: "bool \<Rightarrow> (jupiter_trade \<Rightarrow> bool) \<Rightarrow> jupiter_trade \<Rightarrow> jupiter_trade \<Rightarrow> bool" where
  "row_kept sale may x y \<longleftrightarrow>
     jt_id y = jt_id x \<and> jt_user y = jt_user x \<and> jt_strategy y = jt_strategy x \<and> jt_pair y = jt_pair x \<and>
     jt_createdAt y = jt_createdAt x \<and> (y \<noteq> x \<longrightarrow> may x) \<and>
     (jt_status x = OPEN \<and> jt_status y = CLOSED \<longrightarrow> sale \<and> jt_pnl y \<noteq> None \<and>
        (is_finite (jt_entryPrice x) \<and> is_finite (case jt_allocationUsd x of None \<Rightarrow> Fin 0 | Some a \<Rightarrow> a) \<longrightarrow> jt_exitPrice y \<noteq> None))"

lemma row_kept_refl [simp]: "row_kept sale may x x"
  by (auto simp: row_kept_def)

lemma row_kept_more: "row_kept sale may x y \<Longrightarrow> (may x \<Longrightarrow> may' x) \<Longrightarrow> row_kept sale may' x y"
  by (auto simp: row_kept_def)

section \<open>Merging\<close>

lemma merge_rows_status: "jt_status (merge_rows col gs r) = jt_status r \<or> jt_status (merge_rows col gs r) = CANCELLED"
proof (induction gs arbitrary: r)
  case (Cons p gs)
  then show ?case using Cons.IH [of "merge_row col (snd p) r"] by (auto simp: merge_row_status split: if_splits)
qed simp

lemma merge_rows_touch:
  assumes "distinct (map jt_id rows)" "mergeDuplicateJupiterOpenTrades col st u rows = (n, rows')"
  obtains f where "rows' = map f rows"
    "\<And>r. jt_id (f r) = jt_id r \<and> jt_user (f r) = jt_user r \<and> jt_strategy (f r) = jt_strategy r \<and> jt_pair (f r) = jt_pair r \<and>
       jt_createdAt (f r) = jt_createdAt r \<and> (jt_status (f r) = jt_status r \<or> jt_status (f r) = CANCELLED)"
    "\<And>r. r \<in> set rows \<Longrightarrow> f r \<noteq> r \<Longrightarrow> open_of u st r"
proof (cases "rows' = rows")
  case True
  then show thesis by (intro that [of id]) simp_all
next
  case False
  define f where "f = merge_rows col (group_by jt_pair (opens_of u st rows))"
  have rows': "rows' = map f rows" using merge_result [OF assms(2)] False by (simp add: f_def)
  have keep: "jt_id (f r) = jt_id r \<and> jt_user (f r) = jt_user r \<and> jt_strategy (f r) = jt_strategy r \<and> jt_pair (f r) = jt_pair r \<and>
      jt_createdAt (f r) = jt_createdAt r \<and> (jt_status (f r) = jt_status r \<or> jt_status (f r) = CANCELLED)" for r
    using merge_rows_status [of col "group_by jt_pair (opens_of u st rows)" r] unfolding f_def by simp
  have "open_of u st r" if r: "r \<in> set rows" "f r \<noteq> r" for r
  proof -
    have "r \<notin> set rows'"
    proof
      assume "r \<in> set rows'"
      then obtain x where x: "x \<in> set rows" "r = f x" using rows' by auto
      then have "jt_id x = jt_id r" using keep by metis
      then have "x = r" by (rule row_by_id [OF assms(1) x(1) r(1)])
      then show False using x(2) r(2) by simp
    qed
    then show ?thesis using merge_changes [OF assms r(1)] by blast
  qed
  then show thesis using rows' keep by (intro that [of f]) blast+
qed

section \<open>Purchases and sales\<close>

definition row_added :: "jup_io \<Rightarrow> user_id \<Rightarrow> string \<Rightarrow> jupiter_trade \<Rightarrow> bool" where
  "row_added io u st y \<longleftrightarrow> jt_id y = jo_newId io \<and> jt_user y = u \<and> jt_strategy y = st \<and>
     (jt_status y = OPEN \<or> jt_status y = CLOSED \<and> jt_exitPrice y \<noteq> None \<and> jt_pnl y \<noteq> None)"

definition book_kept :: "jup_io \<Rightarrow> user_id \<Rightarrow> string \<Rightarrow> bool \<Rightarrow> (jupiter_trade \<Rightarrow> bool) \<Rightarrow> jupiter_trade list \<Rightarrow> jupiter_trade list \<Rightarrow> bool" where
  "book_kept io u st sale may rows rows' \<longleftrightarrow>
     (\<exists>f. rows' = map f rows \<and> (\<forall>x \<in> set rows. row_kept sale may x (f x)) \<and>
        length (filter (\<lambda>x. jt_status x = OPEN \<and> jt_status (f x) = CLOSED) rows) \<le> 1) \<or> (\<exists>y. rows' = rows @ [y] \<and> row_added io u st y)"

lemma one_row:
  assumes "distinct (map jt_id rows)" "\<And>r. r \<in> set rows \<Longrightarrow> P r \<Longrightarrow> r = x"
  shows "length (filter P rows) \<le> 1"
proof -
  have "distinct (filter P rows)" using assms(1) by (simp add: distinct_map)
  then have "length (filter P rows) = card (set (filter P rows))" by (simp only: distinct_card)
  also have "\<dots> \<le> card {x}" by (intro card_mono) (use assms(2) in auto)
  finally show ?thesis by simp
qed

lemma book_keptI:
  assumes "distinct (map jt_id rows)" "rows' = map f rows" "\<And>r. r \<in> set rows \<Longrightarrow> row_kept sale may r (f r)"
    "\<And>r. r \<in> set rows \<Longrightarrow> jt_status r = OPEN \<and> jt_status (f r) = CLOSED \<Longrightarrow> r = x"
  shows "book_kept io u st sale may rows rows'"
  unfolding book_kept_def using assms(2,3) one_row [OF assms(1,4)] by (intro disjI1 exI [of _ f]) auto

lemma oldest_is_open:
  assumes "oldest_of_pair u st pair rows = Some x"
  shows "x \<in> set rows" "open_of u st x" "jt_pair x = pair" "jt_status x = OPEN"
  using find_first_Some [OF assms [unfolded oldest_of_pair_def]] by (auto simp: open_pair_def open_of_def)

lemma purchase_keeps:
  assumes d: "distinct (map jt_id (js_rows s))" and run: "book_buy io u st pair alloc entry s = (t, s')"
  shows "book_kept io u st False (open_of u st) (js_rows s) (js_rows s')"
proof (cases "oldest_of_pair u st pair (js_rows s)")
  case None
  then show ?thesis using run by (auto simp: book_buy_def book_kept_def created_row_def row_added_def)
next
  case (Some x)
  note x = oldest_is_open [OF Some]
  define g where "g = (\<lambda>r :: jupiter_trade. if jt_id r = jt_id x then r\<lparr>jt_allocationUsd := Some (jo_decimal io (fst (grown x alloc entry))),
    jt_entryPrice := jo_decimal io (snd (grown x alloc entry))\<rparr> else r)"
  have "js_rows s' = snd (mergeDuplicateJupiterOpenTrades (jo_decimal io) st u (map g (js_rows s)))"
    using run Some by (auto simp: book_buy_def g_def update_where_def split_beta Let_def)
  then obtain n where m: "mergeDuplicateJupiterOpenTrades (jo_decimal io) st u (map g (js_rows s)) = (n, js_rows s')"
    by (metis prod.collapse)
  have g: "jt_id (g r) = jt_id r" "jt_user (g r) = jt_user r" "jt_strategy (g r) = jt_strategy r" "jt_pair (g r) = jt_pair r"
    "jt_createdAt (g r) = jt_createdAt r" "jt_status (g r) = jt_status r" for r by (simp_all add: g_def)
  have "map jt_id (map g (js_rows s)) = map jt_id (js_rows s)" by (simp add: g(1))
  then have d1: "distinct (map jt_id (map g (js_rows s)))" using d by (simp only:)
  from merge_rows_touch [OF d1 m] obtain f where f: "js_rows s' = map f (map g (js_rows s))"
    "\<And>r. jt_id (f r) = jt_id r \<and> jt_user (f r) = jt_user r \<and> jt_strategy (f r) = jt_strategy r \<and> jt_pair (f r) = jt_pair r \<and>
       jt_createdAt (f r) = jt_createdAt r \<and> (jt_status (f r) = jt_status r \<or> jt_status (f r) = CANCELLED)"
    "\<And>r. r \<in> set (map g (js_rows s)) \<Longrightarrow> f r \<noteq> r \<Longrightarrow> open_of u st r" by blast
  have "row_kept False (open_of u st) r (f (g r))" if r: "r \<in> set (js_rows s)" for r
  proof -
    have "open_of u st r" if "f (g r) \<noteq> r"
    proof (cases "g r = r")
      case True
      then have "r \<in> set (map g (js_rows s))" using r by (auto intro: image_eqI [of _ _ r])
      then show ?thesis using f(3) that True by simp
    next
      case False
      then have "jt_id r = jt_id x" by (auto simp: g_def split: if_splits)
      then show ?thesis using row_by_id [OF d r x(1)] x(2) by simp
    qed
    then show ?thesis using f(2) [of "g r"] g [of r] unfolding row_kept_def by auto
  qed
  moreover from this have "\<not> (jt_status r = OPEN \<and> jt_status (f (g r)) = CLOSED)" if "r \<in> set (js_rows s)" for r
    using that unfolding row_kept_def by blast
  then have "filter (\<lambda>r. jt_status r = OPEN \<and> jt_status (f (g r)) = CLOSED) (js_rows s) = []" by (simp add: filter_empty_conv)
  ultimately show ?thesis using f(1) unfolding book_kept_def by (intro disjI1 exI [of _ "f \<circ> g"]) simp
qed

lemma difference_number: "is_finite a \<Longrightarrow> b \<noteq> NaN \<Longrightarrow> math_max (Fin 0) (a - b) \<noteq> NaN"
  by (cases a; cases b) (simp_all add: minus_number_def math_max_def)

lemma positive_share:
  assumes "is_finite q \<or> q = PInf" "Fin 0 < z" "z \<noteq> NaN" "q < z * lit (95/100)" "0 < x"
  shows "Fin x * math_min (lit (95/100)) (q / z) \<noteq> NaN"
proof -
  obtain c where c: "lit (95/100) = Fin c" "0 < c"
  proof -
    have "Fin 0 < lit (95/100)" "lit (95/100) < Fin 1" by code_simp+
    then show thesis using that by (cases "lit (95/100)") auto
  qed
  have "q \<noteq> PInf" using assms(4) by (cases "z * lit (95/100)") auto
  then obtain y where y: "q = Fin y" using assms(1) by (cases q) simp_all
  have "q / z \<noteq> NaN" using assms(2,3) unfolding y by (cases z) simp_all
  then have "math_min (Fin c) (q / z) \<noteq> NaN" "math_min (Fin c) (q / z) \<noteq> PInf" by (auto simp: math_min_def)
  then show ?thesis unfolding c(1) using assms(5) by (cases "math_min (Fin c) (q / z)") (simp_all add: inf_sign_def)
qed

lemma skim_closes_with_exit:
  assumes fin: "is_finite (jt_entryPrice t)" "is_finite (alloc_of t)" and "is_skim partialSkim q t" "is_finite q \<or> q = PInf"
    and "jt_status (snd (skim_row io q exit t)) = CLOSED"
  shows "jt_exitPrice (snd (skim_row io q exit t)) \<noteq> None"
proof -
  obtain a where a: "alloc_of t = Fin a" using fin by (cases "alloc_of t") auto
  obtain e where e: "jt_entryPrice t = Fin e" using fin by (cases "jt_entryPrice t") auto
  define z where "z = (if Fin 0 < jt_entryPrice t then alloc_of t / jt_entryPrice t else Fin 0)"
  have z: "Fin 0 < z" "q < z * lit (95/100)" using assms(3) by (simp_all add: is_skim_def z_def Let_def)
  have "z \<noteq> NaN" using z(1) by auto
  moreover have "0 < a"
  proof (rule ccontr)
    assume "\<not> 0 < a"
    then have "fl (a / e) \<le> fl 0" if "0 < e" using that by (intro fl_mono) (simp add: divide_nonpos_pos)
    then show False using z(1) number_less_le_trans [of "Fin 0" z "Fin 0"] by (auto simp: z_def a e split: if_splits)
  qed
  ultimately have "Fin a * math_min (lit (95/100)) (q / z) \<noteq> NaN" using positive_share assms(4) z by blast
  then have "math_max (Fin 0) (Fin a - Fin a * math_min (lit (95/100)) (q / z)) \<noteq> NaN" by (intro difference_number) simp_all
  then have "Fin (1/2) < math_max (Fin 0) (Fin a - Fin a * math_min (lit (95/100)) (q / z)) \<or>
      math_max (Fin 0) (Fin a - Fin a * math_min (lit (95/100)) (q / z)) \<le> Fin (1/2)"
    by (cases "math_max (Fin 0) (Fin a - Fin a * math_min (lit (95/100)) (q / z))") auto
  then show ?thesis
    using assms(5) unfolding skim_row_def Let_def z_def [symmetric] unfolding a by auto
qed

lemma sale_keeps:
  assumes d: "distinct (map jt_id (js_rows s))" and q: "is_finite q \<or> q = PInf \<or> q = NaN"
    and run: "book_sell io u st pair partialSkim q alloc exit s = (t, s')"
  shows "book_kept io u st True (\<lambda>x. open_of u st x \<and> jt_pair x = pair) (js_rows s) (js_rows s')"
proof (cases "oldest_of_pair u st pair (js_rows s)")
  case None
  then show ?thesis using run by (auto simp: book_sell_def book_kept_def created_row_def row_added_def)
next
  case (Some x)
  note x = oldest_is_open [OF Some]
  have same: "r = x" if "r \<in> set (js_rows s)" "jt_id r = jt_id x" for r using row_by_id [OF d that(1) x(1) that(2)] .
  show ?thesis
  proof (cases "is_skim partialSkim q x")
    case True
    then have qf: "is_finite q \<or> q = PInf" using q by (auto simp: is_skim_def Let_def)
    have "row_kept True (\<lambda>x. open_of u st x \<and> jt_pair x = pair) x (snd (skim_row io q exit x))"
      using x skim_closes_with_exit [OF _ _ True qf, of io exit]
      by (auto simp: row_kept_def alloc_of_def nullish_def) (simp_all add: skim_row_def Let_def)
    moreover define f where "f = (\<lambda>r. if jt_id r = jt_id x then snd (skim_row io q exit x) else r)"
    ultimately have "row_kept True (\<lambda>x. open_of u st x \<and> jt_pair x = pair) r (f r)" if "r \<in> set (js_rows s)" for r
      using same [OF that] by (auto simp: f_def)
    moreover have "js_rows s' = map f (js_rows s)" using run Some True by (auto simp: book_sell_def update_where_def f_def)
    moreover have "r = x" if "r \<in> set (js_rows s)" "jt_status r = OPEN \<and> jt_status (f r) = CLOSED" for r
      using same [OF that(1)] that(2) by (auto simp: f_def split: if_splits)
    ultimately show ?thesis by (intro book_keptI [OF d, of _ f _ _ x]) auto
  next
    case False
    define f where "f = (\<lambda>r. if jt_id r = jt_id x then snd (close_row io exit x)
      else if open_pair u st pair r then r\<lparr>jt_status := CANCELLED\<rparr> else r)"
    have rows': "js_rows s' = map f (js_rows s)" using run Some False
      by (auto simp: book_sell_def update_where_def f_def close_row_def Let_def)
    have "row_kept True (\<lambda>x. open_of u st x \<and> jt_pair x = pair) r (f r)" if "r \<in> set (js_rows s)" for r
      using same [OF that] x by (auto simp: f_def row_kept_def close_row_def open_pair_def open_of_def Let_def)
    moreover have "r = x" if "r \<in> set (js_rows s)" "jt_status r = OPEN \<and> jt_status (f r) = CLOSED" for r
      using same [OF that(1)] that(2) by (auto simp: f_def split: if_splits)
    ultimately show ?thesis using rows' by (intro book_keptI [OF d, of _ f _ _ x]) auto
  qed
qed

lemma kept_more:
  assumes "book_kept io u st sale may rows rows'" "\<And>x. may x \<Longrightarrow> may' x"
  shows "book_kept io u st sale may' rows rows'"
  using assms(1) unfolding book_kept_def by (blast intro: row_kept_more assms(2))

lemma book_kept_refl [simp]: "book_kept io u st sale may rows rows"
  unfolding book_kept_def by (intro disjI1 exI [of _ id]) (auto simp: filter_empty_conv intro: row_kept_refl)

lemma settle_keeps:
  assumes d: "distinct (map jt_id (js_rows s))" and q: "is_finite q \<or> q = PInf \<or> q = NaN"
    and run: "settle_swap io st u req partialSkim token spend q amountIn signature order s = (r, s')"
  shows "book_kept io u st (jq_side req = JupSell) (\<lambda>x. open_of u st x \<and> (jq_side req = JupSell \<longrightarrow> jt_pair x = tn_baseSymbol token @ ''/USDT''))
    (js_rows s) (js_rows s')"
proof (cases r)
  case (Inl e)
  then show ?thesis using settle_error run by fastforce
next
  case (Inr res)
  show ?thesis
  proof (cases "jq_side req")
    case JupBuy
    obtain entry g s1 where "book_buy io u st (tn_baseSymbol token @ ''/USDT'') (safe_alloc (fromSmallest (jr_amountIn res) (sm_decimals spend))) entry
       (s\<lparr>js_inFlight := g\<rparr>) = (jr_trade res, s1)" "js_rows s' = js_rows s1"
      using settle_purchase [OF run [unfolded Inr] JupBuy] by blast
    then show ?thesis using purchase_keeps [of "s\<lparr>js_inFlight := g\<rparr>"] d JupBuy by (fastforce intro: kept_more)
  next
    case JupSell
    obtain alloc exit where "book_sell io u st (tn_baseSymbol token @ ''/USDT'') partialSkim q alloc exit s = (jr_trade res, s')"
      using settle_sale [OF run [unfolded Inr] JupSell] by blast
    from sale_keeps [OF d q this] JupSell show ?thesis by simp
  qed
qed

lemma swapped_amount:
  assumes "amount_to_swap io u req token spend s = (Inr a, s')" "is_finite (jq_amount req)" "\<not> jq_amount req \<le> Fin 0"
  shows "is_finite a \<or> a = PInf \<or> a = NaN"
proof -
  obtain x where "jq_amount req = Fin x" using assms(2) by (cases "jq_amount req") simp_all
  then show ?thesis using assms(1) by (cases a)
    (auto simp: amount_to_swap_def and_then_Inr Let_def math_min_def split: if_splits)
qed

text \<open>C25: What a swap, purchase, skim or sale, failed or not, does to the trade book, where row ids are unique. Either no row is
  added: then every row keeps its id, owner, strategy, pair and creation time, the rows that change are open rows of this
  user and strategy (and, when it is a sale, of the pair of the token sold), only a sale closes a row, at most one, and that
  row then has a result and, if its numbers are finite, an exit price. Or exactly one row is added at the end and no other row changes: it has the new id
  and belongs to the user and the strategy, and it is open, or closed with exit price and result.\<close>

theorem swap_touches_only_open_rows:
  assumes "executeJupiterSwap io st u req opts s = (r, s')" "distinct (map jt_id (js_rows s))"
  shows "(\<exists>f. js_rows s' = map f (js_rows s) \<and>
      (\<forall>x \<in> set (js_rows s). row_kept (jq_side req = JupSell) (\<lambda>x. jt_user x = u \<and> jt_strategy x = st \<and> jt_status x = OPEN \<and>
         (jq_side req = JupSell \<longrightarrow> (\<exists>token. jo_token io (jq_binanceSymbol req) = Some token \<and>
            jt_pair x = tn_baseSymbol (jo_hydrate io token) @ ''/USDT''))) x (f x)) \<and>
      length (filter (\<lambda>x. jt_status x = OPEN \<and> jt_status (f x) = CLOSED) (js_rows s)) \<le> 1) \<or>
    (\<exists>y. js_rows s' = js_rows s @ [y] \<and> jt_id y = jo_newId io \<and> jt_user y = u \<and> jt_strategy y = st \<and>
       (jt_status y = OPEN \<or> jt_status y = CLOSED \<and> jt_exitPrice y \<noteq> None \<and> jt_pnl y \<noteq> None))"
proof -
  have "book_kept io u st (jq_side req = JupSell) (\<lambda>x. jt_user x = u \<and> jt_strategy x = st \<and> jt_status x = OPEN \<and>
      (jq_side req = JupSell \<longrightarrow> (\<exists>token. jo_token io (jq_binanceSymbol req) = Some token \<and>
         jt_pair x = tn_baseSymbol (jo_hydrate io token) @ ''/USDT''))) (js_rows s) (js_rows s')"
    using execute_ends [OF assms(1)]
  proof (elim disjE exE conjE)
    fix e assume "same_book s s'"
    then have "js_rows s' = js_rows s" by (simp add: same_book_def)
    then show ?thesis by simp
  next
    fix tokenRaw s1 spend a p s2
    assume tok: "jo_token io (jq_binanceSymbol req) = Some tokenRaw"
      and s1: "same_book s s1" and amt: "is_finite (jq_amount req)" "\<not> jq_amount req \<le> Fin 0"
      and e: "settled io st u req (xo_partialSkim opts) (jo_hydrate io tokenRaw) spend a p s1 s2 (r, s')"
    have rows: "js_rows s2 = js_rows s" using e s1 by (simp add: settled_def same_book_def)
    have a: "is_finite a \<or> a = PInf \<or> a = NaN" using e swapped_amount amt unfolding settled_def by blast
    obtain signature order where run: "settle_swap io st u req (xo_partialSkim opts) (jo_hydrate io tokenRaw) spend a
        (toSmallest a (jup_in_decimals req (jo_hydrate io tokenRaw) spend)) signature order s2 = (r, s')"
      using e unfolding settled_def by blast
    show ?thesis using settle_keeps [OF _ a run] assms(2) tok unfolding rows
      by (auto simp: open_of_def intro: kept_more)
  qed
  then show ?thesis unfolding book_kept_def row_added_def .
qed

theorem swap_touches_only_open_rows_witness:
  "\<exists>x. js_rows (snd (executeJupiterSwap demo_market ''st'' ''u'' (sell_request ''BONKUSDT'' (Fin 5) (Fin 100)) (demo_opts False)
     (demo_state demo_bonk None))) \<noteq> [] \<and> length (js_rows (snd (executeJupiterSwap demo_market ''st'' ''u''
       (sell_request ''BONKUSDT'' (Fin 5) (Fin 100)) (demo_opts False) (demo_state demo_bonk None)))) \<le> length demo_bonk + 1"
proof -
  have "distinct (map jt_id (js_rows (demo_state demo_bonk None)))" "js_rows (demo_state demo_bonk None) = demo_bonk" "demo_bonk \<noteq> []"
    by code_simp+
  then show ?thesis
    using swap_touches_only_open_rows [OF prod.collapse [symmetric], of "demo_state demo_bonk None" demo_market "''st''" "''u''"
        "sell_request ''BONKUSDT'' (Fin 5) (Fin 100)" "demo_opts False"] by auto
qed

end
