(* ===== verification/CrossChain.thy ===== *)
theory CrossChain
  imports PersonalWallet JupiterSwap
begin

text \<open>
  Transfers between a user's wallets on BNB Smart Chain and Solana, \<open>src/src/services/wallet/crossChainTransferService.ts\<close> with
  \<open>crossChainBridgeService.ts\<close>, \<open>crossChainCreditRetryService.ts\<close> and \<open>src/src/lib/crossChainTokenCatalog.ts\<close>: the token catalogue
  and its routes, quotes, the debit of the user, the delivery from the operator's inventory or over the LI.FI
  bridge, the transfer table and the retries. The state is the table and the list of transactions that reached a
  chain; the chains, price services and LI.FI are parameters that see that list. Messages are constructors; log
  lines are left out. The sweep of the fee, which the code starts without awaiting it, runs at the end of the transfer that
  started it.
\<close>

section \<open>Tokens and routes\<close>

record BscDexToken =
  bd_baseSymbol :: string
  bd_binanceSymbol :: string
  bd_address :: string
  bd_decimals :: nat

definition BSC_DEX_CATALOG :: "BscDexToken list" where
  "BSC_DEX_CATALOG = map (\<lambda>(b, s, a, d). \<lparr>bd_baseSymbol = b, bd_binanceSymbol = s, bd_address = a, bd_decimals = d\<rparr>)
     [(''BNB'', ''BNBUSDT'', ''0xeeeeeeeeeeeeeeeeeeeeeeeeeeeeeeeeeeeeeeee'', 18),
      (''USDC'', ''USDCUSDT'', ''0x8ac76a51cc950d9822d68b83fe1ad97b32cd580d'', 18),
      (''BTC'', ''BTCUSDT'', ''0x7130d2a12b9bcbfae4f2634d864a1ee1ce3ead9c'', 18),
      (''ETH'', ''ETHUSDT'', ''0x2170ed0880ac9a755fd29b2688956bd959f933f8'', 18),
      (''XRP'', ''XRPUSDT'', ''0x1d2f0da169ceb9fc7b3144628db156f3f6c60dbe'', 18),
      (''DOGE'', ''DOGEUSDT'', ''0xba2ae424d960c26247dd6c32edc70b295c744c43'', 8),
      (''SOL'', ''SOLUSDT'', ''0x570a5d26f7765ecb712c0924e4de545b89fd43df'', 18),
      (''LINK'', ''LINKUSDT'', ''0xf8a0bf9cf54bb92f17374d9e9a321e6a111a51bd'', 18),
      (''ADA'', ''ADAUSDT'', ''0x3ee2200efb3400fabb9aacf31297cbdd1d435d47'', 18),
      (''DOT'', ''DOTUSDT'', ''0x7083609fce4d1d8dc0c979aab8c869ea2c873402'', 18),
      (''AVAX'', ''AVAXUSDT'', ''0x1ce0c2827e2ef14d5c4f29a091d735a204794041'', 18),
      (''MATIC'', ''MATICUSDT'', ''0xcc42724c6683b7e57334c4e856f4c9965ed682bd'', 18),
      (''NEAR'', ''NEARUSDT'', ''0x1fa4a73a3f0133f0025378af00236f3abdee5d63'', 18),
      (''LTC'', ''LTCUSDT'', ''0x4338665cbb7b2485a8855a139b75d5e34ab0db94'', 18),
      (''FDUSD'', ''FDUSDUSDT'', ''0xc5f0f7b66764f6ec8c8dff7ba683102295e16409'', 18)]"

record SolDexToken =
  sd_baseSymbol :: string
  sd_binanceSymbol :: string
  sd_mint :: string
  sd_decimals :: nat

definition SOL_DEX_CATALOG :: "SolDexToken list" where
  "SOL_DEX_CATALOG = map (\<lambda>(b, s, m, d). \<lparr>sd_baseSymbol = b, sd_binanceSymbol = s, sd_mint = m, sd_decimals = d\<rparr>)
     [(''SOL'', ''SOLUSDT'', SOL_NATIVE_MINT, 9),
      (''BTC'', ''BTCUSDT'', ''3NZ9JMVBmGAqocybic2c7LQCJScmgsAZ6vQqTDzcqmJh'', 8),
      (''ETH'', ''ETHUSDT'', ''7vfCXTUXx5WJV5JADk17DUJ4ksgau7utNKj4b963voxs'', 8),
      (''LINK'', ''LINKUSDT'', ''LinkhB3afbBKb2EQQu7s7umdZceV3wcvAUJhQAfQ23L'', 9),
      (''JUP'', ''JUPUSDT'', ''JUPyiwrYJFskUPiHa7hkeR8VUtAeFoSYbKedZNsDvCN'', 6),
      (''BONK'', ''BONKUSDT'', ''DezXAZ8z7PnrnRJjz3wXBoRgixCa6xjnB7YaB1pPB263'', 5),
      (''RAY'', ''RAYUSDT'', ''4k3Dyjzvzp8eMZWUXbBCjEvwSkkk59S5iCNLY3QrkX6R'', 6),
      (''TRX'', ''TRXUSDT'', ''GbbesPbaYh5uiAZSYNXTc7w9jty1rpg3P9L4JeN4LkKc'', 6)]"

definition BSC_USDT_ADDRESS :: string where "BSC_USDT_ADDRESS = ''0x55d398326f99059ff775485246999027b3197955''"
definition BSC_USDC_ADDRESS :: string where "BSC_USDC_ADDRESS = ''0x8ac76a51cc950d9822d68b83fe1ad97b32cd580d''"

record CrossChainBscLeg =
  bl_symbol :: string
  bl_address :: "string option"
  bl_decimals :: nat
  bl_native :: bool
  bl_binanceSymbol :: string

record CrossChainSolLeg =
  sl_symbol :: string
  sl_mint :: string
  sl_decimals :: nat
  sl_native :: bool
  sl_binanceSymbol :: string

datatype cross_leg = OnBsc CrossChainBscLeg | OnSol CrossChainSolLeg
datatype CrossChainChain = BSC | SOL
datatype CrossChainDirection = BSC_TO_SOL | SOL_TO_BSC

definition leg_decimals :: "cross_leg \<Rightarrow> nat" where
  "leg_decimals l = (case l of OnBsc b \<Rightarrow> bl_decimals b | OnSol s \<Rightarrow> sl_decimals s)"

definition leg_binanceSymbol :: "cross_leg \<Rightarrow> string" where
  "leg_binanceSymbol l = (case l of OnBsc b \<Rightarrow> bl_binanceSymbol b | OnSol s \<Rightarrow> sl_binanceSymbol s)"

definition normalizeSymbol :: "string \<Rightarrow> string" where
  "normalizeSymbol raw = (let u = to_upper raw in if u = ''BTCB'' then ''BTC'' else if u = ''WBNB'' then ''BNB'' else u)"

definition toCanonicalCrossChainSymbol :: "string \<Rightarrow> string" where
  "toCanonicalCrossChainSymbol symbol = normalizeSymbol symbol"

definition bscLegForSymbol :: "string \<Rightarrow> CrossChainBscLeg option" where
  "bscLegForSymbol canonical =
     (if canonical = ''BNB'' then Some \<lparr>bl_symbol = ''BNB'', bl_address = None, bl_decimals = 18, bl_native = True, bl_binanceSymbol = ''BNBUSDT''\<rparr>
      else if canonical = ''USDT'' then
        Some \<lparr>bl_symbol = ''USDT'', bl_address = Some BSC_USDT_ADDRESS, bl_decimals = 18, bl_native = False, bl_binanceSymbol = ''USDTUSDT''\<rparr>
      else case find (\<lambda>t. bd_baseSymbol t = canonical) BSC_DEX_CATALOG of
        None \<Rightarrow> None
      | Some dex \<Rightarrow> Some \<lparr>bl_symbol = canonical, bl_address = Some (bd_address dex), bl_decimals = bd_decimals dex, bl_native = False,
                         bl_binanceSymbol = bd_binanceSymbol dex\<rparr>)"

definition solLegForSymbol :: "string \<Rightarrow> CrossChainSolLeg option" where
  "solLegForSymbol canonical =
     (if canonical = ''SOL'' then Some \<lparr>sl_symbol = ''SOL'', sl_mint = SOL_NATIVE_MINT, sl_decimals = 9, sl_native = True, sl_binanceSymbol = ''SOLUSDT''\<rparr>
      else if canonical = ''USDC'' then Some \<lparr>sl_symbol = ''USDC'', sl_mint = SOL_USDC_MINT, sl_decimals = 6, sl_native = False, sl_binanceSymbol = ''USDCUSDT''\<rparr>
      else if canonical = ''USDT'' then
        Some \<lparr>sl_symbol = canonical, sl_mint = ''Es9vMFrzaCERmJfrF4H2FYD4KCoNkY11McCe8BenwNYB'', sl_decimals = 6, sl_native = False,
              sl_binanceSymbol = ''USDTUSDT''\<rparr>
      else case find (\<lambda>t. sd_baseSymbol t = canonical) SOL_DEX_CATALOG of
        None \<Rightarrow> None
      | Some cat \<Rightarrow> Some \<lparr>sl_symbol = canonical, sl_mint = sd_mint cat, sl_decimals = sd_decimals cat, sl_native = False,
                         sl_binanceSymbol = sd_binanceSymbol cat\<rparr>)"

definition buildCrossChainPair :: "string \<Rightarrow> (string \<times> CrossChainBscLeg \<times> CrossChainSolLeg) option" where
  "buildCrossChainPair canonical =
     (let sym = normalizeSymbol canonical in
      case (bscLegForSymbol sym, solLegForSymbol sym) of (Some b, Some s) \<Rightarrow> Some (sym, b, s) | _ \<Rightarrow> None)"

definition isSameTokenCrossChainSupported :: "string \<Rightarrow> bool" where
  "isSameTokenCrossChainSupported symbol \<longleftrightarrow> buildCrossChainPair symbol \<noteq> None"

definition crossChainLegForChain :: "string \<Rightarrow> CrossChainChain \<Rightarrow> cross_leg option" where
  "crossChainLegForChain symbol chain =
     (let canonical = toCanonicalCrossChainSymbol symbol in
      case chain of BSC \<Rightarrow> map_option OnBsc (bscLegForSymbol canonical) | SOL \<Rightarrow> map_option OnSol (solLegForSymbol canonical))"

record CrossChainRoute =
  cr_direction :: CrossChainDirection
  cr_sourceSymbol :: string
  cr_destSymbol :: string
  cr_sameToken :: bool
  cr_sourceLeg :: cross_leg
  cr_destLeg :: cross_leg
  cr_sourceChain :: CrossChainChain
  cr_destChain :: CrossChainChain

datatype CrossChainTransferStatus = PENDING | DEBITED | COMPLETED | CREDIT_PENDING | XFAILED

datatype xc_error =
    XcUnavailable | AmountNotPositive | UnsupportedOn string CrossChainChain | SourceUnpriced | DestUnpriced string
  | BelowMinimum number | AboveMaximum | TooSmallAfterFee | OperatorMissing | ShortOfSource string number number | NeedsSolGas
  | SettlementNotReady CrossChainDirection | XcIo string | NotUnits string | ShortBalance string | NoTokenAccount string | TransferReverted
  | GasBnbMissing int int | UnwrapTooSmall | OperatorGasShort int | NoBridgeTransaction | BridgeReverted | BridgeFailed | BridgePending
  | CreditDelayed | TransferNotFound | NoDebit | NotRetryable CrossChainTransferStatus

definition resolveCrossChainRoute :: "CrossChainDirection \<Rightarrow> string \<Rightarrow> string option \<Rightarrow> xc_error + CrossChainRoute" where
  "resolveCrossChainRoute direction sourceSymbol destSymbol =
     (let src = toCanonicalCrossChainSymbol sourceSymbol; dst = toCanonicalCrossChainSymbol (nullish destSymbol sourceSymbol);
          sourceChain = (if direction = BSC_TO_SOL then BSC else SOL); destChain = (if direction = BSC_TO_SOL then SOL else BSC) in
      case crossChainLegForChain src sourceChain of
        None \<Rightarrow> Inl (UnsupportedOn src sourceChain)
      | Some sourceLeg \<Rightarrow>
          (case crossChainLegForChain dst destChain of
             None \<Rightarrow> Inl (UnsupportedOn dst destChain)
           | Some destLeg \<Rightarrow>
               Inr \<lparr>cr_direction = direction, cr_sourceSymbol = src, cr_destSymbol = dst, cr_sameToken = (src = dst),
                    cr_sourceLeg = sourceLeg, cr_destLeg = destLeg, cr_sourceChain = sourceChain, cr_destChain = destChain\<rparr>))"

section \<open>What the service reads and keeps\<close>

text \<open>A transaction that reached a chain. A bridge order names the token it takes, the one it delivers and
  the receiver; its amount is the text sent to LI.FI.\<close>

datatype xc_event =
    BscSend string string "string option" int
  | SolSend string string string int bool
  | Unwrap string int
  | Approve string string string string
  | BridgeOut CrossChainChain string string string string string

datatype send_outcome = NotSent string | Reverted | Unconfirmed string | Confirmed string

record transfer =
  xt_id :: string
  xt_userId :: user_id
  xt_direction :: CrossChainDirection
  xt_asset :: string
  xt_destAsset :: "string option"
  xt_amount :: number
  xt_feeUsd :: number
  xt_creditAmount :: number
  xt_status :: CrossChainTransferStatus
  xt_debitTxRef :: "string option"
  xt_creditTxRef :: "string option"
  xt_error :: "xc_error option"
  xt_requestedAt :: time
  xt_processedAt :: "time option"

record xc_state =
  xc_rows :: "transfer list"
  xc_events :: "xc_event list"

record wallet_balance =
  wb_asset :: string
  wb_amount :: number
  wb_usdPrice :: "number option"
  wb_usdValue :: "number option"

record lifi_params =
  lp_fromChain :: CrossChainChain
  lp_fromToken :: string
  lp_toToken :: string
  lp_fromAmount :: string
  lp_fromAddress :: string
  lp_toAddress :: string

record lifi_quote =
  lq_to :: "string option"
  lq_data :: "string option"
  lq_approvalAddress :: "string option"
  lq_fromToken :: "string option"
  lq_fromAmount :: "string option"

datatype lifi_status = BridgeDone "string option" | BridgeDead | BridgeRunning | StatusNotOk

record xc_io =
  xi_now :: time
  xi_newId :: string
  xi_opBsc :: "string option"
  xi_opSol :: "string option"
  xi_walletEnabled :: bool
  xi_ensureWallet :: "user_id \<Rightarrow> string + unit"
  xi_signer :: "user_id \<Rightarrow> string + string"
  xi_keypair :: "user_id \<Rightarrow> string + string"
  xi_summary :: "xc_event list \<Rightarrow> user_id \<Rightarrow> string + wallet_balance list option"
  xi_holdings :: "xc_event list \<Rightarrow> user_id \<Rightarrow> string + (string \<times> number) list"
  xi_jupiterPrice :: "string \<Rightarrow> number option"
  xi_ticker :: "string \<Rightarrow> number option"
  xi_native :: "xc_event list \<Rightarrow> string \<Rightarrow> string + int"
  xi_erc20 :: "xc_event list \<Rightarrow> string \<Rightarrow> string \<Rightarrow> string + int"
  xi_lamports :: "xc_event list \<Rightarrow> string \<Rightarrow> string + number"
  xi_account :: "xc_event list \<Rightarrow> string \<Rightarrow> string \<Rightarrow> string + int option"
  xi_formatUnits :: format_units
  xi_parseUnits :: parse_units
  xi_send :: "xc_event list \<Rightarrow> xc_event \<Rightarrow> send_outcome"
  xi_lifi :: "xc_event list \<Rightarrow> lifi_params \<Rightarrow> string + lifi_quote"
  xi_allowance :: "xc_event list \<Rightarrow> string \<Rightarrow> string \<Rightarrow> string \<Rightarrow> string + int"
  xi_bigint :: "string \<Rightarrow> int option"
  xi_polls :: "string \<Rightarrow> (string + lifi_status) list"
  xi_treasuryBsc :: string
  xi_treasurySol :: string
  xi_decimal :: "number \<Rightarrow> number"

type_synonym 'a xc_result = "(xc_error + 'a) \<times> xc_state"

definition xc_try :: "string + 'a \<Rightarrow> xc_state \<Rightarrow> 'a xc_result" where
  "xc_try r s = (case r of Inl m \<Rightarrow> (Inl (XcIo m), s) | Inr x \<Rightarrow> (Inr x, s))"

definition isCrossChainTransferEnabled :: "xc_io \<Rightarrow> bool" where
  "isCrossChainTransferEnabled io \<longleftrightarrow> xi_opBsc io \<noteq> None \<and> xi_opSol io \<noteq> None \<and> xi_walletEnabled io"

section \<open>Prices and quotes\<close>

definition TRANSFER_FEE_USD :: number where "TRANSFER_FEE_USD = lit (1/10)"
definition MIN_TRANSFER_USD :: number where "MIN_TRANSFER_USD = Fin 1"
definition MAX_TRANSFER_USD :: number where "MAX_TRANSFER_USD = Fin 5000"
definition MIN_OPERATOR_BNB_FOR_BRIDGE :: int where "MIN_OPERATOR_BNB_FOR_BRIDGE = 10 ^ 15"
definition BSC_MIN_NATIVE_GAS_WEI :: int where "BSC_MIN_NATIVE_GAS_WEI = 8 * 10 ^ 14"

definition fetchLegUsdPrice :: "xc_io \<Rightarrow> string \<Rightarrow> number option" where
  "fetchLegUsdPrice io binanceSymbol =
     (let sym = to_upper binanceSymbol in
      if sym = ''USDCUSDT'' \<or> sym = ''USDTUSDT'' \<or> sym = ''USDCUSDC'' \<or> sym = ''USDTUSDC'' then Some (Fin 1)
      else case xi_ticker io sym of None \<Rightarrow> None | Some p \<Rightarrow> if is_finite p \<and> Fin 0 < p then Some p else None)"

record CrossChainQuote =
  cq_asset :: string
  cq_amount :: number
  cq_feeUsd :: number
  cq_creditAmount :: number
  cq_minAmount :: number
  cq_maxAmount :: number
  cq_destinationSymbol :: string
  cq_estimated :: "bool option"

record CrossChainTransferPreview = CrossChainQuote +
  cq_sourceSymbol :: string
  cq_sourceAmount :: number
  cq_tokenUsdPrice :: "number option"
  cq_destTokenUsdPrice :: "number option"

definition roundTokenAmount :: "number \<Rightarrow> nat \<Rightarrow> number" where
  "roundTokenAmount n decimals = (let factor = pow10 (min decimals 8) in math_round (n * factor) / factor)"

definition computeRouteQuote :: "CrossChainRoute \<Rightarrow> number \<Rightarrow> number \<Rightarrow> number \<Rightarrow> CrossChainQuote" where
  "computeRouteQuote route amount sourceUsdPrice destUsdPrice =
     (let netUsd = math_max (Fin 0) (amount * sourceUsdPrice - TRANSFER_FEE_USD) in
      \<lparr>cq_asset = cr_sourceSymbol route, cq_amount = amount, cq_feeUsd = TRANSFER_FEE_USD,
       cq_creditAmount = (if Fin 0 < destUsdPrice then roundTokenAmount (netUsd / destUsdPrice) (leg_decimals (cr_destLeg route)) else Fin 0),
       cq_minAmount = MIN_TRANSFER_USD, cq_maxAmount = MAX_TRANSFER_USD, cq_destinationSymbol = cr_destSymbol route,
       cq_estimated = Some (\<not> cr_sameToken route)\<rparr>)"

definition getCrossChainQuote :: "number \<Rightarrow> string \<Rightarrow> number \<Rightarrow> nat \<Rightarrow> CrossChainQuote" where
  "getCrossChainQuote amount asset tokenUsdPrice decimals =
     (let safeAmount = (if is_finite amount \<and> Fin 0 < amount then amount else Fin 0);
          feeToken = (if Fin 0 < tokenUsdPrice then TRANSFER_FEE_USD / tokenUsdPrice else Fin 0) in
      \<lparr>cq_asset = asset, cq_amount = safeAmount, cq_feeUsd = TRANSFER_FEE_USD,
       cq_creditAmount = (if Fin 0 < safeAmount then roundTokenAmount (math_max (Fin 0) (safeAmount - feeToken)) decimals else Fin 0),
       cq_minAmount = MIN_TRANSFER_USD, cq_maxAmount = MAX_TRANSFER_USD, cq_destinationSymbol = asset, cq_estimated = None\<rparr>)"

definition truthy_option :: "number option \<Rightarrow> bool" where
  "truthy_option p = (case p of None \<Rightarrow> False | Some x \<Rightarrow> truthy x)"

definition row_price :: "wallet_balance \<Rightarrow> number option" where
  "row_price row =
     (if truthy_option (wb_usdPrice row) then wb_usdPrice row
      else if truthy_option (wb_usdValue row) \<and> Fin 0 < wb_amount row then map_option (\<lambda>v. v / wb_amount row) (wb_usdValue row)
      else None)"

definition wallet_price :: "xc_io \<Rightarrow> xc_event list \<Rightarrow> user_id \<Rightarrow> CrossChainRoute \<Rightarrow> number \<Rightarrow> string + number option" where
  "wallet_price io h u route sourceAmount =
     (case cr_sourceLeg route of
        OnBsc _ \<Rightarrow>
          (case xi_summary io h u of
             Inl m \<Rightarrow> Inl m
           | Inr summary \<Rightarrow>
               Inr (case find (\<lambda>b. toCanonicalCrossChainSymbol (wb_asset b) = cr_sourceSymbol route \<or> to_upper (wb_asset b) = cr_sourceSymbol route)
                      (nullish summary []) of None \<Rightarrow> None | Some row \<Rightarrow> row_price row))
      | OnSol leg \<Rightarrow>
          (case xi_ensureWallet io u of
             Inl m \<Rightarrow> Inl m
           | Inr _ \<Rightarrow>
               (case xi_holdings io h u of
                  Inl m \<Rightarrow> Inl m
                | Inr holdings \<Rightarrow>
                    Inr (if (\<exists>p \<in> set holdings. fst p = sl_mint leg) \<and> Fin 0 < sourceAmount
                         then (if sl_mint leg = SOL_USDC_MINT then Some (Fin 1) else xi_jupiterPrice io (sl_mint leg)) else None))))"

definition priceSourceToken :: "xc_io \<Rightarrow> xc_event list \<Rightarrow> user_id \<Rightarrow> CrossChainRoute \<Rightarrow> number \<Rightarrow> string + number option" where
  "priceSourceToken io h u route sourceAmount =
     (case wallet_price io h u route sourceAmount of
        Inl m \<Rightarrow> Inl m
      | Inr p \<Rightarrow> Inr (if positive_price p = None then fetchLegUsdPrice io (leg_binanceSymbol (cr_sourceLeg route)) else p))"

definition previewCrossChainTransfer ::
  "xc_io \<Rightarrow> xc_event list \<Rightarrow> user_id \<Rightarrow> CrossChainDirection \<Rightarrow> number \<Rightarrow> string option \<Rightarrow> string option \<Rightarrow> xc_error + CrossChainTransferPreview" where
  "previewCrossChainTransfer io h u direction amount sourceSymbol destSymbol =
     (if \<not> is_finite amount \<or> amount \<le> Fin 0 then Inl AmountNotPositive
      else case resolveCrossChainRoute direction (nullish sourceSymbol ''USDC'') destSymbol of
        Inl e \<Rightarrow> Inl e
      | Inr route \<Rightarrow>
          (case priceSourceToken io h u route amount of
             Inl m \<Rightarrow> Inl (XcIo m)
           | Inr p \<Rightarrow>
               (case positive_price p of
                  None \<Rightarrow> Inl SourceUnpriced
                | Some sourcePrice \<Rightarrow>
                    (case positive_price (if cr_sameToken route then Some sourcePrice else fetchLegUsdPrice io (leg_binanceSymbol (cr_destLeg route))) of
                       None \<Rightarrow> Inl (DestUnpriced (cr_destSymbol route))
                     | Some destPrice \<Rightarrow>
                         let usdValue = amount * sourcePrice; q = computeRouteQuote route amount sourcePrice destPrice in
                         if usdValue < MIN_TRANSFER_USD then Inl (BelowMinimum usdValue)
                         else if MAX_TRANSFER_USD < usdValue then Inl AboveMaximum
                         else if cq_creditAmount q \<le> Fin 0 then Inl TooSmallAfterFee
                         else Inr (CrossChainQuote.extend q (CrossChainTransferPreview.fields (cr_sourceSymbol route) amount (Some sourcePrice) (Some destPrice)))))))"

definition computeBridgeSourceAmount :: "CrossChainRoute \<Rightarrow> number \<Rightarrow> number \<Rightarrow> number" where
  "computeBridgeSourceAmount route amount sourceUsdPrice =
     (let feeToken = (if Fin 0 < sourceUsdPrice then TRANSFER_FEE_USD / sourceUsdPrice else Fin 0) in
      roundTokenAmount (math_max (Fin 0) (amount - feeToken)) (leg_decimals (cr_sourceLeg route)))"

section \<open>Transactions on the chains\<close>

definition broadcast :: "xc_io \<Rightarrow> xc_event \<Rightarrow> xc_error \<Rightarrow> xc_state \<Rightarrow> string xc_result" where
  "broadcast io ev reverted s =
     (case xi_send io (xc_events s) ev of
        NotSent m \<Rightarrow> (Inl (XcIo m), s)
      | Reverted \<Rightarrow> (Inl reverted, s)
      | Unconfirmed m \<Rightarrow> (Inl (XcIo m), s\<lparr>xc_events := xc_events s @ [ev]\<rparr>)
      | Confirmed hash \<Rightarrow> (Inr hash, s\<lparr>xc_events := xc_events s @ [ev]\<rparr>))"

definition bsc_raw :: "xc_io \<Rightarrow> xc_event list \<Rightarrow> string \<Rightarrow> CrossChainBscLeg \<Rightarrow> string + int" where
  "bsc_raw io h address leg =
     (if bl_native leg then xi_native io h address
      else case bl_address leg of None \<Rightarrow> Inl ''no contract'' | Some a \<Rightarrow> xi_erc20 io h a address)"

definition bscTokenBalance :: "xc_io \<Rightarrow> xc_event list \<Rightarrow> string \<Rightarrow> CrossChainBscLeg \<Rightarrow> string + number" where
  "bscTokenBalance io h address leg =
     (case bsc_raw io h address leg of
        Inl m \<Rightarrow> Inl m
      | Inr raw \<Rightarrow> Inr (number_of_string (xi_formatUnits io raw (if bl_native leg then 18 else bl_decimals leg))))"

definition sendBscToken :: "xc_io \<Rightarrow> string \<Rightarrow> CrossChainBscLeg \<Rightarrow> string \<Rightarrow> number \<Rightarrow> xc_state \<Rightarrow> string xc_result" where
  "sendBscToken io signer leg to amountHuman s =
     (case xi_parseUnits io (number_to_string amountHuman) (if bl_native leg then 18 else bl_decimals leg) of
        None \<Rightarrow> (Inl (NotUnits (number_to_string amountHuman)), s)
      | Some raw \<Rightarrow>
          and_then (xc_try (bsc_raw io (xc_events s) signer leg) s) (\<lambda>bal s.
          and_then (require (\<not> bal < raw) (ShortBalance (bl_symbol leg)) s) (\<lambda>_ s.
          broadcast io (BscSend signer to (if bl_native leg then None else bl_address leg) raw) TransferReverted s)))"

definition LAMPORTS_PER_SOL :: number where "LAMPORTS_PER_SOL = Fin 1000000000"

definition solTokenBalance :: "xc_io \<Rightarrow> xc_event list \<Rightarrow> string \<Rightarrow> CrossChainSolLeg \<Rightarrow> string + number" where
  "solTokenBalance io h address leg =
     (if sl_native leg then (case xi_lamports io h address of Inl m \<Rightarrow> Inl m | Inr l \<Rightarrow> Inr (l / LAMPORTS_PER_SOL))
      else case xi_account io h (sl_mint leg) address of
        Inl m \<Rightarrow> Inl m
      | Inr acc \<Rightarrow> Inr (case acc of None \<Rightarrow> Fin 0 | Some raw \<Rightarrow> fl (of_int raw) / pow10 (sl_decimals leg)))"

definition whole_units :: "number \<Rightarrow> int option" where
  "whole_units n = (case math_floor n of Fin r \<Rightarrow> Some \<lfloor>r\<rfloor> | _ \<Rightarrow> None)"

definition sendSolToken :: "xc_io \<Rightarrow> string \<Rightarrow> CrossChainSolLeg \<Rightarrow> string \<Rightarrow> number \<Rightarrow> xc_state \<Rightarrow> string xc_result" where
  "sendSolToken io owner leg to amountHuman s =
     (if sl_native leg then
        (case whole_units (amountHuman * LAMPORTS_PER_SOL) of
           None \<Rightarrow> (Inl (NotUnits (number_to_string amountHuman)), s)
         | Some lamports \<Rightarrow> broadcast io (SolSend owner to (sl_mint leg) lamports False) TransferReverted s)
      else and_then (xc_try (xi_account io (xc_events s) (sl_mint leg) owner) s) (\<lambda>acc s.
        case acc of
          None \<Rightarrow> (Inl (NoTokenAccount (sl_symbol leg)), s)
        | Some sourceAmount \<Rightarrow>
            (case whole_units (amountHuman * pow10 (sl_decimals leg)) of
               None \<Rightarrow> (Inl (NotUnits (number_to_string amountHuman)), s)
             | Some raw \<Rightarrow>
                 if sourceAmount < raw then (Inl (ShortBalance (sl_symbol leg)), s)
                 else broadcast io (SolSend owner to (sl_mint leg) raw
                        (case xi_account io (xc_events s) (sl_mint leg) to of Inr (Some _) \<Rightarrow> False | _ \<Rightarrow> True)) TransferReverted s)))"

definition ensureNativeBnbForGas :: "xc_io \<Rightarrow> string \<Rightarrow> int \<Rightarrow> xc_state \<Rightarrow> unit xc_result" where
  "ensureNativeBnbForGas io addr minNative s0 =
     and_then (xc_try (xi_native io (xc_events s0) addr) s0) (\<lambda>native s.
     if minNative \<le> native then (Inr (), s)
     else and_then (xc_try (xi_erc20 io (xc_events s) WBNB_ADDR addr) s) (\<lambda>wbnb s.
       if native + wbnb < minNative then (Inl (GasBnbMissing native wbnb), s)
       else let target = minNative + 12 * 10 ^ 13; deficit = (if native < target then target - native else 0) in
         if deficit \<le> 0 then (Inr (), s)
         else and_then (broadcast io (Unwrap addr (if wbnb < deficit then wbnb else deficit)) TransferReverted s) (\<lambda>_ s.
           and_then (xc_try (xi_native io (xc_events s) addr) s) (\<lambda>after s. require (\<not> after < minNative) UnwrapTooSmall s))))"

section \<open>The bridge\<close>

definition NATIVE_EVM :: string where "NATIVE_EVM = ''0x0000000000000000000000000000000000000000''"

definition toSmallestString :: "xc_io \<Rightarrow> number \<Rightarrow> nat \<Rightarrow> string option" where
  "toSmallestString io amountHuman decimals =
     (let rounded = roundTokenAmount amountHuman decimals in
      map_option int_text (xi_parseUnits io (to_fixed rounded (min decimals 12)) decimals))"

definition bscLiFiToken :: "CrossChainBscLeg \<Rightarrow> string" where
  "bscLiFiToken leg = (if bl_native leg then NATIVE_EVM else nullish (bl_address leg) [])"

definition ensureEvmAllowance :: "xc_io \<Rightarrow> string \<Rightarrow> lifi_quote \<Rightarrow> string \<Rightarrow> string \<Rightarrow> xc_state \<Rightarrow> unit xc_result" where
  "ensureEvmAllowance io signer q fallbackToken fallbackAmount s =
     (let fromToken = nullish (lq_fromToken q) fallbackToken; spendAmount = nullish (lq_fromAmount q) fallbackAmount in
      case nonempty (lq_approvalAddress q) of
        None \<Rightarrow> (Inr (), s)
      | Some approvalAddress \<Rightarrow>
          if to_lower fromToken = to_lower NATIVE_EVM then (Inr (), s)
          else and_then (xc_try (xi_allowance io (xc_events s) fromToken signer approvalAddress) s) (\<lambda>allowance s.
            case xi_bigint io spendAmount of
              None \<Rightarrow> (Inl (NotUnits spendAmount), s)
            | Some need \<Rightarrow>
                if need \<le> allowance then (Inr (), s)
                else and_then (broadcast io (Approve signer fromToken approvalAddress spendAmount) TransferReverted s) (\<lambda>_ s. (Inr (), s))))"

text \<open>The status loop runs until its deadline; its argument is the list of answers that arrive before it.\<close>

fun pollLiFiStatus :: "(string + lifi_status) list \<Rightarrow> xc_error + string option" where
  "pollLiFiStatus [] = Inl BridgePending"
| "pollLiFiStatus (Inl m # answers) = Inl (XcIo m)"
| "pollLiFiStatus (Inr (BridgeDone h) # answers) = Inr h"
| "pollLiFiStatus (Inr BridgeDead # answers) = Inl BridgeFailed"
| "pollLiFiStatus (Inr BridgeRunning # answers) = pollLiFiStatus answers"
| "pollLiFiStatus (Inr StatusNotOk # answers) = pollLiFiStatus answers"

definition bridgeBscToSolanaViaLiFi ::
  "xc_io \<Rightarrow> string \<Rightarrow> CrossChainBscLeg \<Rightarrow> CrossChainSolLeg \<Rightarrow> number \<Rightarrow> string \<Rightarrow> xc_state \<Rightarrow> (string \<times> string option) xc_result" where
  "bridgeBscToSolanaViaLiFi io operator fromLeg toLeg amountHuman toSolanaAddress s0 =
     (case toSmallestString io amountHuman (bl_decimals fromLeg) of
        None \<Rightarrow> (Inl (NotUnits (number_to_string amountHuman)), s0)
      | Some fromAmount \<Rightarrow>
          let params = \<lparr>lp_fromChain = BSC, lp_fromToken = bscLiFiToken fromLeg, lp_toToken = sl_mint toLeg, lp_fromAmount = fromAmount,
                        lp_fromAddress = operator, lp_toAddress = toSolanaAddress\<rparr> in
          and_then (xc_try (xi_lifi io (xc_events s0) params) s0) (\<lambda>q1 s.
          and_then (require (nonempty (lq_to q1) \<noteq> None \<and> nonempty (lq_data q1) \<noteq> None) NoBridgeTransaction s) (\<lambda>_ s.
          and_then (ensureEvmAllowance io operator q1 (bscLiFiToken fromLeg) fromAmount s) (\<lambda>_ s.
          and_then (xc_try (xi_lifi io (xc_events s) params) s) (\<lambda>q2 s.
          and_then (require (nonempty (lq_to q2) \<noteq> None \<and> nonempty (lq_data q2) \<noteq> None) NoBridgeTransaction s) (\<lambda>_ s.
          and_then (broadcast io (BridgeOut BSC operator (bscLiFiToken fromLeg) (sl_mint toLeg) fromAmount toSolanaAddress) BridgeReverted s) (\<lambda>hash s.
          and_then (lift_error (pollLiFiStatus (xi_polls io hash)) s) (\<lambda>dest s. (Inr (hash, dest), s)))))))))"

definition bridgeSolanaToBscViaLiFi ::
  "xc_io \<Rightarrow> string \<Rightarrow> CrossChainSolLeg \<Rightarrow> CrossChainBscLeg \<Rightarrow> number \<Rightarrow> string \<Rightarrow> xc_state \<Rightarrow> (string \<times> string option) xc_result" where
  "bridgeSolanaToBscViaLiFi io operator fromLeg toLeg amountHuman toBscAddress s0 =
     (case toSmallestString io amountHuman (sl_decimals fromLeg) of
        None \<Rightarrow> (Inl (NotUnits (number_to_string amountHuman)), s0)
      | Some fromAmount \<Rightarrow>
          let params = \<lparr>lp_fromChain = SOL, lp_fromToken = sl_mint fromLeg, lp_toToken = bscLiFiToken toLeg, lp_fromAmount = fromAmount,
                        lp_fromAddress = operator, lp_toAddress = toBscAddress\<rparr> in
          and_then (xc_try (xi_lifi io (xc_events s0) params) s0) (\<lambda>q s.
          and_then (require (nonempty (lq_data q) \<noteq> None) NoBridgeTransaction s) (\<lambda>_ s.
          and_then (broadcast io (BridgeOut SOL operator (sl_mint fromLeg) (bscLiFiToken toLeg) fromAmount toBscAddress) BridgeReverted s) (\<lambda>hash s.
          and_then (lift_error (pollLiFiStatus (xi_polls io hash)) s) (\<lambda>dest s. (Inr (hash, dest), s))))))"

section \<open>Delivery\<close>

definition topUpOperatorBridgeGasFromUser :: "xc_io \<Rightarrow> string \<Rightarrow> string \<Rightarrow> xc_state \<Rightarrow> unit xc_result" where
  "topUpOperatorBridgeGasFromUser io userBsc opBsc s0 =
     and_then (xc_try (xi_native io (xc_events s0) opBsc) s0) (\<lambda>opBal s.
     if MIN_OPERATOR_BNB_FOR_BRIDGE \<le> opBal then (Inr (), s)
     else let deficit = MIN_OPERATOR_BNB_FOR_BRIDGE - opBal + 2 * 10 ^ 14 in
       and_then (ensureNativeBnbForGas io userBsc (deficit + 15 * 10 ^ 13) s) (\<lambda>_ s.
       and_then (broadcast io (BscSend userBsc opBsc None deficit) TransferReverted s) (\<lambda>_ s.
       and_then (xc_try (xi_native io (xc_events s) opBsc) s) (\<lambda>after s.
         require (\<not> after < MIN_OPERATOR_BNB_FOR_BRIDGE) (OperatorGasShort after) s))))"

text \<open>A route's legs lie on the chains of its direction, so the casts of the source are cases here.\<close>

definition assertOperatorCanSettleCredit :: "xc_io \<Rightarrow> CrossChainRoute \<Rightarrow> number \<Rightarrow> xc_state \<Rightarrow> unit xc_result" where
  "assertOperatorCanSettleCredit io route creditAmount s =
     (case (xi_opBsc io, xi_opSol io) of
        (Some opBsc, Some opSol) \<Rightarrow>
          (case cr_destLeg route of
             OnSol destSol \<Rightarrow>
               and_then (if cr_sameToken route then xc_try (map_sum id (\<lambda>b. creditAmount \<le> b) (solTokenBalance io (xc_events s) opSol destSol)) s
                         else (Inr False, s)) (\<lambda>stocked s.
               if stocked then (Inr (), s)
               else and_then (xc_try (xi_native io (xc_events s) opBsc) s) (\<lambda>bnb s.
                 require (MIN_OPERATOR_BNB_FOR_BRIDGE \<le> bnb) (SettlementNotReady BSC_TO_SOL) s))
           | OnBsc destBsc \<Rightarrow>
               and_then (if cr_sameToken route then xc_try (map_sum id (\<lambda>b. creditAmount \<le> b) (bscTokenBalance io (xc_events s) opBsc destBsc)) s
                         else (Inr False, s)) (\<lambda>stocked s.
               if stocked then (Inr (), s)
               else and_then (xc_try (xi_lamports io (xc_events s) opSol) s) (\<lambda>lamports s.
                 require (lit (3/1000) \<le> lamports / LAMPORTS_PER_SOL) (SettlementNotReady SOL_TO_BSC) s)))
      | _ \<Rightarrow> (Inl OperatorMissing, s))"

definition runCreditLeg ::
  "xc_io \<Rightarrow> CrossChainRoute \<Rightarrow> number \<Rightarrow> number \<Rightarrow> string \<Rightarrow> string \<Rightarrow> string \<Rightarrow> string \<Rightarrow> xc_state \<Rightarrow> string xc_result" where
  "runCreditLeg io route bridgeSourceAmount creditAmount userBsc userSol opBsc opSol s0 =
     (case (cr_sourceLeg route, cr_destLeg route) of
        (OnBsc sourceBsc, OnSol destSol) \<Rightarrow>
          and_then (if cr_sameToken route then xc_try (map_sum id (\<lambda>b. creditAmount \<le> b) (solTokenBalance io (xc_events s0) opSol destSol)) s0
                    else (Inr False, s0)) (\<lambda>stocked s.
          if stocked then sendSolToken io opSol destSol userSol creditAmount s
          else
            and_then (topUpOperatorBridgeGasFromUser io userBsc opBsc s) (\<lambda>_ s.
            and_then (ensureNativeBnbForGas io opBsc MIN_OPERATOR_BNB_FOR_BRIDGE s) (\<lambda>_ s.
            and_then (bridgeBscToSolanaViaLiFi io opBsc sourceBsc destSol bridgeSourceAmount userSol s) (\<lambda>(source, dest) s.
              (Inr (nullish dest source), s)))))
      | (OnSol sourceSol, OnBsc destBsc) \<Rightarrow>
          and_then (if cr_sameToken route then xc_try (map_sum id (\<lambda>b. creditAmount \<le> b) (bscTokenBalance io (xc_events s0) opBsc destBsc)) s0
                    else (Inr False, s0)) (\<lambda>stocked s.
          if stocked then sendBscToken io opBsc destBsc userBsc creditAmount s
          else
            and_then (bridgeSolanaToBscViaLiFi io opSol sourceSol destBsc bridgeSourceAmount userBsc s) (\<lambda>(source, dest) s.
              (Inr (nullish dest source), s)))
      | _ \<Rightarrow> (Inl OperatorMissing, s0))"

definition sweepTransferFeeToTreasury :: "xc_io \<Rightarrow> CrossChainRoute \<Rightarrow> number \<Rightarrow> string \<Rightarrow> string \<Rightarrow> xc_state \<Rightarrow> xc_state" where
  "sweepTransferFeeToTreasury io route feeTokenAmount opBsc opSol s =
     (if \<not> Fin 0 < feeTokenAmount then s
      else case cr_sourceLeg route of
        OnBsc leg \<Rightarrow> snd (sendBscToken io opBsc leg (xi_treasuryBsc io) feeTokenAmount s)
      | OnSol leg \<Rightarrow> snd (sendSolToken io opSol leg (xi_treasurySol io) feeTokenAmount s))"

section \<open>Transfers\<close>

record CrossChainTransferResult =
  tr_id :: string
  tr_status :: CrossChainTransferStatus
  tr_direction :: CrossChainDirection
  tr_amount :: number
  tr_creditAmount :: number
  tr_feeUsd :: number
  tr_debitTxRef :: string
  tr_creditTxRef :: string

definition update_transfer :: "string \<Rightarrow> (transfer \<Rightarrow> transfer) \<Rightarrow> xc_state \<Rightarrow> xc_state" where
  "update_transfer i f s = s\<lparr>xc_rows := update_where (\<lambda>r. xt_id r = i) f (xc_rows s)\<rparr>"

definition check_funds :: "xc_io \<Rightarrow> CrossChainRoute \<Rightarrow> number \<Rightarrow> string \<Rightarrow> string \<Rightarrow> xc_state \<Rightarrow> unit xc_result" where
  "check_funds io route amount userBsc userSol s0 =
     (case cr_sourceLeg route of
        OnBsc leg \<Rightarrow>
          and_then (ensureNativeBnbForGas io userBsc BSC_MIN_NATIVE_GAS_WEI s0) (\<lambda>_ s.
          and_then (xc_try (bscTokenBalance io (xc_events s) userBsc leg) s) (\<lambda>userBal s.
            require (\<not> userBal < amount) (ShortOfSource (cr_sourceSymbol route) userBal amount) s))
      | OnSol leg \<Rightarrow>
          and_then (xc_try (xi_lamports io (xc_events s0) userSol) s0) (\<lambda>lamports s.
          and_then (require (\<not> lamports / LAMPORTS_PER_SOL < lit (3/1000)) NeedsSolGas s) (\<lambda>_ s.
          and_then (xc_try (solTokenBalance io (xc_events s) userSol leg) s) (\<lambda>userBal s.
            require (\<not> userBal < amount) (ShortOfSource (cr_sourceSymbol route) userBal amount) s))))"

definition run_debit :: "xc_io \<Rightarrow> CrossChainRoute \<Rightarrow> number \<Rightarrow> string \<Rightarrow> string \<Rightarrow> string \<Rightarrow> string \<Rightarrow> xc_state \<Rightarrow> string xc_result" where
  "run_debit io route amount userBsc userSol opBsc opSol s =
     (case cr_sourceLeg route of
        OnBsc leg \<Rightarrow> sendBscToken io userBsc leg opBsc amount s
      | OnSol leg \<Rightarrow> sendSolToken io userSol leg opSol amount s)"

definition new_transfer :: "xc_io \<Rightarrow> user_id \<Rightarrow> CrossChainRoute \<Rightarrow> number \<Rightarrow> number \<Rightarrow> transfer" where
  "new_transfer io u route amount creditAmount =
     \<lparr>xt_id = xi_newId io, xt_userId = u, xt_direction = cr_direction route, xt_asset = cr_sourceSymbol route,
      xt_destAsset = (if cr_sameToken route then None else Some (cr_destSymbol route)), xt_amount = xi_decimal io amount,
      xt_feeUsd = xi_decimal io TRANSFER_FEE_USD, xt_creditAmount = xi_decimal io creditAmount, xt_status = PENDING,
      xt_debitTxRef = None, xt_creditTxRef = None, xt_error = None, xt_requestedAt = xi_now io, xt_processedAt = None\<rparr>"

text \<open>The delivery after the debit, shared by the first attempt and the retries: a failure parks the row, a
  success completes it and sends the withheld fee to the treasury.\<close>

definition deliver ::
  "xc_io \<Rightarrow> CrossChainRoute \<Rightarrow> string \<Rightarrow> number \<Rightarrow> number \<Rightarrow> number \<Rightarrow> string \<Rightarrow> string \<Rightarrow> string \<Rightarrow> string \<Rightarrow> (xc_error \<Rightarrow> xc_error) \<Rightarrow> (transfer \<Rightarrow> transfer)
    \<Rightarrow> xc_state \<Rightarrow> string xc_result" where
  "deliver io route i amount bridgeSourceAmount creditAmount userBsc userSol opBsc opSol report clear s0 =
     (case runCreditLeg io route bridgeSourceAmount creditAmount userBsc userSol opBsc opSol s0 of
        (Inl e, s) \<Rightarrow> (Inl (report e), update_transfer i (\<lambda>r. r\<lparr>xt_status := CREDIT_PENDING, xt_error := Some e\<rparr>) s)
      | (Inr ref, s) \<Rightarrow>
          (Inr ref, sweepTransferFeeToTreasury io route (amount - bridgeSourceAmount) opBsc opSol
             (update_transfer i (\<lambda>r. clear (r\<lparr>xt_status := COMPLETED, xt_creditTxRef := Some ref, xt_processedAt := Some (xi_now io)\<rparr>)) s)))"

definition transfer_funds ::
  "xc_io \<Rightarrow> user_id \<Rightarrow> CrossChainRoute \<Rightarrow> number \<Rightarrow> number \<Rightarrow> number \<Rightarrow> string \<Rightarrow> string \<Rightarrow> string \<Rightarrow> string \<Rightarrow> xc_state \<Rightarrow> CrossChainTransferResult xc_result" where
  "transfer_funds io u route amount bridgeSourceAmount creditAmount userBsc userSol opBsc opSol s0 =
     (let i = xi_newId io; s1 = s0\<lparr>xc_rows := xc_rows s0 @ [new_transfer io u route amount creditAmount]\<rparr> in
      case run_debit io route amount userBsc userSol opBsc opSol s1 of
        (Inl e, s) \<Rightarrow> (Inl e, update_transfer i (\<lambda>r. r\<lparr>xt_status := XFAILED, xt_error := Some e, xt_processedAt := Some (xi_now io)\<rparr>) s)
      | (Inr debitTxRef, s) \<Rightarrow>
          and_then (deliver io route i amount bridgeSourceAmount creditAmount userBsc userSol opBsc opSol (\<lambda>_. CreditDelayed) id
                      (update_transfer i (\<lambda>r. r\<lparr>xt_status := DEBITED, xt_debitTxRef := Some debitTxRef\<rparr>) s))
            (\<lambda>creditTxRef s.
               (Inr \<lparr>tr_id = i, tr_status = COMPLETED, tr_direction = cr_direction route, tr_amount = amount, tr_creditAmount = creditAmount,
                     tr_feeUsd = TRANSFER_FEE_USD, tr_debitTxRef = debitTxRef, tr_creditTxRef = creditTxRef\<rparr>, s)))"

definition executeCrossChainTransfer ::
  "xc_io \<Rightarrow> user_id \<Rightarrow> CrossChainDirection \<Rightarrow> number \<Rightarrow> string option \<Rightarrow> string option \<Rightarrow> xc_state \<Rightarrow> CrossChainTransferResult xc_result" where
  "executeCrossChainTransfer io u direction sourceAmount sourceSymbol destSymbol s0 =
     (if \<not> isCrossChainTransferEnabled io then (Inl XcUnavailable, s0)
      else if \<not> is_finite sourceAmount \<or> sourceAmount \<le> Fin 0 then (Inl AmountNotPositive, s0)
      else
        and_then (xc_try (xi_ensureWallet io u) s0) (\<lambda>_ s.
        and_then (lift_error (resolveCrossChainRoute direction (nullish sourceSymbol ''USDC'') destSymbol) s) (\<lambda>route s.
        and_then (lift_error (previewCrossChainTransfer io (xc_events s) u direction sourceAmount (Some (cr_sourceSymbol route)) (Some (cr_destSymbol route))) s)
          (\<lambda>preview s.
        let amount = cq_amount preview;
            bridgeSourceAmount = computeBridgeSourceAmount route amount (nullish (cq_tokenUsdPrice preview) (Fin 0)) in
        if bridgeSourceAmount \<le> Fin 0 then (Inl TooSmallAfterFee, s)
        else case (xi_opBsc io, xi_opSol io) of
          (Some opBsc, Some opSol) \<Rightarrow>
            and_then (xc_try (xi_signer io u) s) (\<lambda>userBsc s.
            and_then (xc_try (xi_keypair io u) s) (\<lambda>userSol s.
            and_then (check_funds io route amount userBsc userSol s) (\<lambda>_ s.
            and_then (assertOperatorCanSettleCredit io route (cq_creditAmount preview) s) (\<lambda>_ s.
            transfer_funds io u route amount bridgeSourceAmount (cq_creditAmount preview) userBsc userSol opBsc opSol s))))
        | _ \<Rightarrow> (Inl OperatorMissing, s)))))"

definition result_of :: "transfer \<Rightarrow> CrossChainTransferResult" where
  "result_of r = \<lparr>tr_id = xt_id r, tr_status = xt_status r, tr_direction = xt_direction r, tr_amount = xt_amount r,
     tr_creditAmount = xt_creditAmount r, tr_feeUsd = xt_feeUsd r, tr_debitTxRef = nullish (xt_debitTxRef r) [], tr_creditTxRef = nullish (xt_creditTxRef r) []\<rparr>"

definition find_transfer :: "user_id \<Rightarrow> string \<Rightarrow> xc_state \<Rightarrow> transfer option" where
  "find_transfer u i s = find (\<lambda>r. xt_id r = i \<and> xt_userId r = u) (xc_rows s)"

definition executeCrossChainCreditLeg :: "xc_io \<Rightarrow> user_id \<Rightarrow> string \<Rightarrow> xc_state \<Rightarrow> CrossChainTransferResult xc_result" where
  "executeCrossChainCreditLeg io u i s0 =
     (case find_transfer u i s0 of
        None \<Rightarrow> (Inl TransferNotFound, s0)
      | Some rec \<Rightarrow>
          if xt_status rec = COMPLETED then (Inr (result_of rec), s0)
          else if nonempty (xt_debitTxRef rec) = None then (Inl NoDebit, s0)
          else
            and_then (lift_error (resolveCrossChainRoute (xt_direction rec) (xt_asset rec) (Some (nullish (xt_destAsset rec) (xt_asset rec)))) s0) (\<lambda>route s.
            case (xi_opBsc io, xi_opSol io) of
              (Some opBsc, Some opSol) \<Rightarrow>
                and_then (xc_try (xi_signer io u) s) (\<lambda>userBsc s.
                and_then (xc_try (xi_keypair io u) s) (\<lambda>userSol s.
                let price = nullish (fetchLegUsdPrice io (leg_binanceSymbol (cr_sourceLeg route))) (Fin 0);
                    bridgeSourceAmount = computeBridgeSourceAmount route (xt_amount rec) price in
                if bridgeSourceAmount \<le> Fin 0 then (Inl TooSmallAfterFee, s)
                else
                  and_then (deliver io route i (xt_amount rec) bridgeSourceAmount (xt_creditAmount rec) userBsc userSol opBsc opSol id
                              (\<lambda>r. r\<lparr>xt_error := None\<rparr>) s)
                    (\<lambda>creditTxRef s. (Inr ((result_of rec)\<lparr>tr_status := COMPLETED, tr_creditTxRef := creditTxRef\<rparr>), s))))
            | _ \<Rightarrow> (Inl OperatorMissing, s)))"

definition listCrossChainTransfers :: "user_id \<Rightarrow> int \<Rightarrow> xc_state \<Rightarrow> transfer list" where
  "listCrossChainTransfers u limit s = take (nat (min 50 (max 1 limit))) (find_many (\<lambda>r. xt_userId r = u) (order_desc xt_requestedAt) (xc_rows s))"

section \<open>Retries\<close>

definition retryCrossChainCredit :: "xc_io \<Rightarrow> user_id \<Rightarrow> string \<Rightarrow> xc_state \<Rightarrow> CrossChainTransferResult xc_result" where
  "retryCrossChainCredit io u i s =
     (case find_transfer u i s of
        None \<Rightarrow> (Inl TransferNotFound, s)
      | Some rec \<Rightarrow>
          if xt_status rec = COMPLETED then (Inr (result_of rec), s)
          else if xt_status rec \<noteq> CREDIT_PENDING \<and> xt_status rec \<noteq> DEBITED then (Inl (NotRetryable (xt_status rec)), s)
          else if nonempty (xt_debitTxRef rec) = None then (Inl NoDebit, s)
          else executeCrossChainCreditLeg io u (xt_id rec) s)"

definition retry_one :: "xc_io \<Rightarrow> nat \<times> xc_state \<Rightarrow> transfer \<Rightarrow> nat \<times> xc_state" where
  "retry_one io = (\<lambda>(done, s) row. case executeCrossChainCreditLeg io (xt_userId row) (xt_id row) s of
     (Inl _, s') \<Rightarrow> (done, s') | (Inr _, s') \<Rightarrow> (done + 1, s'))"

definition retryAllPendingCrossChainCredits :: "xc_io \<Rightarrow> nat \<Rightarrow> xc_state \<Rightarrow> nat \<times> xc_state" where
  "retryAllPendingCrossChainCredits io limit s =
     foldl (retry_one io) (0, s) (take limit (find_many (\<lambda>r. xt_status r = CREDIT_PENDING) (order_asc xt_requestedAt) (xc_rows s)))"

end
