(* ===== verification/CrossChainSafety.thy ===== *)
theory CrossChainSafety
  imports CrossChain
begin

text \<open>
  What cross-chain transfers guarantee: in every reachable table the references of a row fit its status; a transfer
  that is refused before its row exists sends nothing but one unwrapping in the user's own wallet for gas; a completed one has debited the
  user first and then paid the user's wallet on the other chain; amounts are within the limits. One property states
  that a retry pays whatever was paid before.
\<close>

section \<open>Steps that leave the table alone\<close>

definition grows :: "(xc_event \<Rightarrow> bool) \<Rightarrow> xc_state \<Rightarrow> xc_state \<Rightarrow> bool" where
  "grows P s s' \<longleftrightarrow> xc_rows s' = xc_rows s \<and> (\<exists>es. xc_events s' = xc_events s @ es \<and> list_all P es)"

lemma grows_refl [simp]: "grows P s s"
  by (simp add: grows_def)

lemma grows_trans: "grows P a b \<Longrightarrow> grows P b c \<Longrightarrow> grows P a c"
  by (force simp: grows_def)

lemma grows_mono: "grows P s s' \<Longrightarrow> (\<And>e. P e \<Longrightarrow> Q e) \<Longrightarrow> grows Q s s'"
  by (auto simp: grows_def list_all_iff)

definition adds :: "(xc_event \<Rightarrow> bool) \<Rightarrow> xc_state \<Rightarrow> 'a xc_result \<Rightarrow> bool" where
  "adds P s r \<longleftrightarrow> grows P s (snd r)"

lemma adds_and_then: "adds P s r \<Longrightarrow> (\<And>x s1. r = (Inr x, s1) \<Longrightarrow> adds P s1 (k x s1)) \<Longrightarrow> adds P s (and_then r k)"
  by (auto simp: adds_def and_then_def split: prod.splits sum.splits intro: grows_trans)

lemma adds_step:
  assumes "and_then r k = (y, s')" "adds P s r"
  obtains (failed) e where "y = Inl e" "grows P s s'"
  | (went_on) x s1 where "r = (Inr x, s1)" "grows P s s1" "k x s1 = (y, s')"
  using assms by (cases rule: and_then_cases) (auto simp: adds_def)

lemma adds_same [simp]: "adds P s (v, s)"
  by (simp add: adds_def)

lemma adds_basic [simp]: "adds P s (xc_try a s)" "adds P s (require ok e s)" "adds P s (lift_error x s)"
  by (auto simp: adds_def xc_try_def require_def lift_error_def split: sum.splits)

lemma adds_broadcast: "P ev \<Longrightarrow> adds P s (broadcast io ev e s)"
  by (auto simp: adds_def grows_def broadcast_def split: send_outcome.splits)

lemma adds_mono: "adds P s r \<Longrightarrow> (\<And>e. P e \<Longrightarrow> Q e) \<Longrightarrow> adds Q s r"
  by (auto simp: adds_def intro: grows_mono)

lemma addsD: "adds P s r \<Longrightarrow> r = (v, s') \<Longrightarrow> grows P s s'"
  by (simp add: adds_def)

lemmas try_step = adds_step [OF _ adds_basic(1), consumes 1, case_names failed went_on]
  and lift_step = adds_step [OF _ adds_basic(3), consumes 1, case_names failed went_on]

lemma xc_try_Inr [simp]: "xc_try a s = (Inr x, s') \<longleftrightarrow> a = Inr x \<and> s' = s"
  by (auto simp: xc_try_def split: sum.splits)

lemma lift_error_Inr [simp]: "lift_error a s = (Inr x, s') \<longleftrightarrow> a = Inr x \<and> s' = s"
  by (auto simp: lift_error_def)

text \<open>The wallet that signs for the user on BNB Smart Chain unwraps some of the wrapped coins it holds.\<close>

definition own_gas :: "xc_io \<Rightarrow> user_id \<Rightarrow> xc_event list \<Rightarrow> xc_event \<Rightarrow> bool" where
  "own_gas io u h e \<longleftrightarrow> (\<exists>wallet native wbnb wei. e = Unwrap wallet wei \<and> xi_signer io u = Inr wallet \<and>
     xi_native io h wallet = Inr native \<and> native < BSC_MIN_NATIVE_GAS_WEI \<and> xi_erc20 io h WBNB_ADDR wallet = Inr wbnb \<and>
     0 < wei \<and> wei \<le> wbnb \<and> native + wei \<le> BSC_MIN_NATIVE_GAS_WEI + 12 * 10 ^ 13)"

definition gas_only :: "xc_io \<Rightarrow> user_id \<Rightarrow> xc_state \<Rightarrow> xc_state \<Rightarrow> bool" where
  "gas_only io u s s' \<longleftrightarrow> xc_rows s' = xc_rows s \<and>
     (xc_events s' = xc_events s \<or> (\<exists>e. xc_events s' = xc_events s @ [e] \<and> own_gas io u (xc_events s) e))"

abbreviation still :: "xc_state \<Rightarrow> xc_state \<Rightarrow> bool" where
  "still \<equiv> grows (\<lambda>_. False)"

lemma still_events: "still s s' \<Longrightarrow> xc_rows s' = xc_rows s \<and> xc_events s' = xc_events s"
  by (auto simp: grows_def list_all_iff)

lemma gas_only_refl [simp]: "gas_only io u s s"
  by (simp add: gas_only_def)

lemma gas_then_still: "gas_only io u s s1 \<Longrightarrow> still s1 s2 \<Longrightarrow> gas_only io u s s2"
  using still_events [of s1 s2] by (simp add: gas_only_def)

lemma still_gas: "still s s' \<Longrightarrow> gas_only io u s s'"
  using still_events [of s s'] by (simp add: gas_only_def)

lemma gas_unwraps_own:
  assumes "ensureNativeBnbForGas io addr BSC_MIN_NATIVE_GAS_WEI s = (v, s')" "xi_signer io u = Inr addr"
  shows "gas_only io u s s'"
  using assms unfolding ensureNativeBnbForGas_def gas_only_def own_gas_def
  by (auto simp: and_then_def xc_try_def require_def broadcast_def Let_def split: sum.splits send_outcome.splits if_splits)

lemma adds_gas: "adds (\<lambda>e. case e of Unwrap _ _ \<Rightarrow> True | _ \<Rightarrow> False) s (ensureNativeBnbForGas io a n s)"
  unfolding ensureNativeBnbForGas_def Let_def by (auto intro!: adds_and_then adds_broadcast)

lemma adds_bsc: "(\<And>t raw. P (BscSend from to t raw)) \<Longrightarrow> adds P s (sendBscToken io from leg to amount s)"
  unfolding sendBscToken_def by (auto intro!: adds_and_then adds_broadcast split: option.splits)

lemma adds_sol: "(\<And>m raw b. P (SolSend from to m raw b)) \<Longrightarrow> adds P s (sendSolToken io from leg to amount s)"
  unfolding sendSolToken_def by (auto intro!: adds_and_then adds_broadcast split: option.splits)

lemma adds_any_bsc: "adds (\<lambda>_. True) s (sendBscToken io from leg to amount s)"
  and adds_any_sol: "adds (\<lambda>_. True) s (sendSolToken io from leg' to amount s)"
  by (simp_all add: adds_bsc adds_sol)

lemma adds_any_gas: "adds (\<lambda>_. True) s (ensureNativeBnbForGas io a n s)"
  by (rule adds_mono [OF adds_gas]) simp

lemma adds_allowance: "adds (\<lambda>_. True) s (ensureEvmAllowance io signer q t a s)"
  unfolding ensureEvmAllowance_def Let_def by (auto intro!: adds_and_then adds_broadcast split: option.splits)

lemma adds_bridges:
  "adds (\<lambda>_. True) s (bridgeBscToSolanaViaLiFi io a l l' n d s)" "adds (\<lambda>_. True) s (bridgeSolanaToBscViaLiFi io a m m' n d s)"
  unfolding bridgeBscToSolanaViaLiFi_def bridgeSolanaToBscViaLiFi_def Let_def
  by (auto intro!: adds_and_then adds_broadcast adds_allowance split: option.splits)

lemma adds_topup: "adds (\<lambda>_. True) s (topUpOperatorBridgeGasFromUser io a b s)"
  unfolding topUpOperatorBridgeGasFromUser_def Let_def by (auto intro!: adds_and_then adds_broadcast adds_any_gas)

lemma adds_credit: "adds (\<lambda>_. True) s (runCreditLeg io route b c u v w x s)"
  unfolding runCreditLeg_def
  by (auto intro!: adds_and_then adds_any_bsc adds_any_sol adds_topup adds_any_gas adds_bridges split: cross_leg.splits)

lemma adds_assert: "adds P s (assertOperatorCanSettleCredit io route c s)"
  unfolding assertOperatorCanSettleCredit_def by (auto intro!: adds_and_then split: option.splits cross_leg.splits)

lemma funds_use_gas:
  assumes "check_funds io route amount uB uS s = (v, s')" "xi_signer io u = Inr uB"
  shows "gas_only io u s s'"
proof (cases "cr_sourceLeg route")
  case (OnBsc leg)
  obtain w s1 where g: "ensureNativeBnbForGas io uB BSC_MIN_NATIVE_GAS_WEI s = (w, s1)" by fastforce
  have "still s1 s'" if "w = Inr ()"
    using assms(1) OnBsc g that by (auto simp: check_funds_def and_then_def xc_try_def require_def split: sum.splits if_splits)
  moreover have "s' = s1" if "w = Inl e" for e using assms(1) OnBsc g that by (auto simp: check_funds_def)
  ultimately show ?thesis using gas_unwraps_own [OF g assms(2)] gas_then_still by (cases w) auto
next
  case (OnSol leg)
  then have "s' = s" using assms(1)
    by (auto simp: check_funds_def and_then_def xc_try_def require_def split: sum.splits if_splits)
  then show ?thesis by simp
qed

lemma adds_debit: "adds (\<lambda>_. True) s (run_debit io route amount a b c d s)"
  unfolding run_debit_def by (auto intro: adds_any_bsc adds_any_sol split: cross_leg.splits)

lemma sends_extend:
  "grows (\<lambda>_. True) s (snd (sendBscToken io from leg to amount s))" "grows (\<lambda>_. True) s (snd (sendSolToken io from leg' to amount s))"
  using adds_any_bsc adds_any_sol by (auto simp: adds_def)

lemma sweep_grows: "grows (\<lambda>_. True) s (sweepTransferFeeToTreasury io route fee a b s)"
  unfolding sweepTransferFeeToTreasury_def by (simp add: sends_extend split: cross_leg.splits)

lemma update_events [simp]: "xc_events (update_transfer i f s) = xc_events s"
  by (simp add: update_transfer_def)

section \<open>The references of a row fit its status\<close>

definition row_ok :: "transfer \<Rightarrow> bool" where
  "row_ok r \<longleftrightarrow> (case xt_status r of
      PENDING \<Rightarrow> xt_debitTxRef r = None \<and> xt_creditTxRef r = None
    | XFAILED \<Rightarrow> xt_debitTxRef r = None \<and> xt_creditTxRef r = None
    | DEBITED \<Rightarrow> xt_debitTxRef r \<noteq> None \<and> xt_creditTxRef r = None
    | CREDIT_PENDING \<Rightarrow> xt_debitTxRef r \<noteq> None \<and> xt_creditTxRef r = None
    | COMPLETED \<Rightarrow> xt_debitTxRef r \<noteq> None \<and> xt_creditTxRef r \<noteq> None)"

definition table_ok :: "xc_state \<Rightarrow> bool" where
  "table_ok s \<longleftrightarrow> distinct (map xt_id (xc_rows s)) \<and> list_all row_ok (xc_rows s)"

lemma row_ok_error [simp]: "row_ok (r\<lparr>xt_error := e\<rparr>) = row_ok r"
  by (cases "xt_status r") (simp_all add: row_ok_def)

lemma table_rows: "xc_rows s' = xc_rows s \<Longrightarrow> table_ok s' = table_ok s"
  by (simp add: table_ok_def)

lemma table_update:
  assumes "table_ok s" "\<And>r. r \<in> set (xc_rows s) \<Longrightarrow> xt_id r = i \<Longrightarrow> row_ok (f r) \<and> xt_id (f r) = i"
  shows "table_ok (update_transfer i f s)"
proof -
  have "map xt_id (xc_rows (update_transfer i f s)) = map xt_id (xc_rows s)"
    using assms(2) by (auto simp: update_transfer_def update_where_def)
  then show ?thesis using assms by (auto simp: table_ok_def list_all_iff update_transfer_def in_update_where)
qed

lemma deliver_keeps_table:
  assumes run: "deliver io route i amount b c u v w x report clear s = (r, s')" and ok: "table_ok s"
    and debited: "\<And>t. t \<in> set (xc_rows s) \<Longrightarrow> xt_id t = i \<Longrightarrow> xt_debitTxRef t \<noteq> None \<and> xt_creditTxRef t = None"
    and clear: "\<And>t. row_ok (clear t) = row_ok t \<and> xt_id (clear t) = xt_id t"
  shows "table_ok s'"
proof -
  obtain v1 s1 where c: "runCreditLeg io route b c u v w x s = (v1, s1)" by fastforce
  have rows: "xc_rows s1 = xc_rows s" using addsD [OF adds_credit c] by (simp add: grows_def)
  have ok1: "table_ok s1" using ok table_rows [OF rows] by simp
  show ?thesis
  proof (cases v1)
    case (Inl e)
    then show ?thesis using run c table_update [OF ok1, of i] debited by (auto simp: deliver_def rows row_ok_def)
  next
    case (Inr ref)
    have "table_ok (update_transfer i (\<lambda>r. clear (r\<lparr>xt_status := COMPLETED, xt_creditTxRef := Some ref, xt_processedAt := Some (xi_now io)\<rparr>)) s1)"
      by (rule table_update [OF ok1]) (use debited clear in \<open>auto simp: rows row_ok_def\<close>)
    then show ?thesis using run c Inr table_rows [OF sweep_grows [unfolded grows_def, THEN conjunct1]] by (auto simp: deliver_def)
  qed
qed

lemma fresh_row:
  assumes "xi_newId io \<notin> set (map xt_id rows)" "t \<in> set (rows @ [new_transfer io u route amount c])" "xt_id t = xi_newId io"
  shows "xt_debitTxRef t = None \<and> xt_creditTxRef t = None"
  using assms by (force simp: new_transfer_def)

lemma transfer_funds_keeps_table:
  assumes run: "transfer_funds io u route amount b c uB uS oB oS s = (r, s')" and ok: "table_ok s" and fresh: "xi_newId io \<notin> set (map xt_id (xc_rows s))"
  shows "table_ok s'"
proof -
  let ?new = "new_transfer io u route amount c"
  define s1 where "s1 = s\<lparr>xc_rows := xc_rows s @ [?new]\<rparr>"
  have ok1: "table_ok s1" using ok fresh by (auto simp: table_ok_def s1_def new_transfer_def row_ok_def)
  have new: "xt_debitTxRef t = None \<and> xt_creditTxRef t = None" if "t \<in> set (xc_rows s1)" "xt_id t = xi_newId io" for t
    using fresh_row [OF fresh] that by (simp add: s1_def)
  obtain v s2 where d: "run_debit io route amount uB uS oB oS s1 = (v, s2)" by fastforce
  have rows: "xc_rows s2 = xc_rows s1" using addsD [OF adds_debit d] by (simp add: grows_def)
  have ok2: "table_ok s2" using ok1 table_rows [OF rows] by simp
  note body = run [unfolded transfer_funds_def Let_def, folded s1_def, unfolded d]
  show ?thesis
  proof (cases v)
    case (Inl e)
    have "table_ok (update_transfer (xi_newId io) (\<lambda>r. r\<lparr>xt_status := XFAILED, xt_error := Some e, xt_processedAt := Some (xi_now io)\<rparr>) s2)"
      by (rule table_update [OF ok2]) (use new in \<open>auto simp: rows row_ok_def\<close>)
    then show ?thesis using body Inl by simp
  next
    case (Inr debitRef)
    define s3 where "s3 = update_transfer (xi_newId io) (\<lambda>r. r\<lparr>xt_status := DEBITED, xt_debitTxRef := Some debitRef\<rparr>) s2"
    have ok3: "table_ok s3" unfolding s3_def
      by (rule table_update [OF ok2]) (use new in \<open>auto simp: rows row_ok_def\<close>)
    have s3: "xt_debitTxRef t \<noteq> None \<and> xt_creditTxRef t = None" if t: "t \<in> set (xc_rows s3)" "xt_id t = xi_newId io" for t
    proof -
      obtain x where "x \<in> set (xc_rows s1)" "t = (if xt_id x = xi_newId io then x\<lparr>xt_status := DEBITED, xt_debitTxRef := Some debitRef\<rparr> else x)"
        using t(1) by (auto simp: s3_def update_transfer_def in_update_where rows)
      then show ?thesis using new [of x] t(2) by (auto split: if_splits)
    qed
    obtain w s4 where del: "deliver io route (xi_newId io) amount b c uB uS oB oS (\<lambda>_. CreditDelayed) id s3 = (w, s4)" by fastforce
    have "table_ok s4" by (rule deliver_keeps_table [OF del ok3]) (use s3 in auto)
    then show ?thesis using body Inr del by (auto simp: and_then_def s3_def split: sum.splits)
  qed
qed

text \<open>From the signers on: the user's gas may be prepared, then the transfer runs or is refused.\<close>

lemma prepared_stages:
  assumes run: "and_then (xc_try (xi_signer io u) s) (\<lambda>uB s. and_then (xc_try (xi_keypair io u) s) (\<lambda>uS s.
      and_then (check_funds io route amount uB uS s) (\<lambda>_ s. and_then (assertOperatorCanSettleCredit io route c s) (\<lambda>_ s. k uB uS s)))) = (r, s')"
  obtains (refused) e where "r = Inl e" "gas_only io u s s'"
  | (moved) uB uS s1 where "xi_signer io u = Inr uB" "xi_keypair io u = Inr uS" "gas_only io u s s1" "k uB uS s1 = (r, s')"
  using run
proof (cases rule: try_step [where P = "\<lambda>_. False"])
  case step4: (went_on uB s4)
  then have s4: "s4 = s" "xi_signer io u = Inr uB" by simp_all
  from step4(3) [unfolded s4] show thesis
  proof (cases rule: try_step [where P = "\<lambda>_. False"])
    case step5: (went_on uS s5)
    then have s5: "s5 = s" "xi_keypair io u = Inr uS" by simp_all
    from step5(3) [unfolded s5] show thesis
    proof (cases "check_funds io route amount uB uS s")
      case step6: (Pair w s6)
      have gas: "gas_only io u s s6" by (rule funds_use_gas [OF step6 s4(2)])
      show thesis
      proof (cases w)
        case (Inl e)
        then have "r = Inl e" "s' = s6" using step5(3) s5(1) step6 by auto
        then show thesis using refused gas by blast
      next
        case (Inr y)
        then have "and_then (assertOperatorCanSettleCredit io route c s6) (\<lambda>_ s. k uB uS s) = (r, s')"
          using step5(3) s5(1) step6 by simp
        then show thesis
        proof (cases rule: adds_step [OF _ adds_assert [where P = "\<lambda>_. False"], consumes 1, case_names failed went_on])
          case (failed e)
          then show thesis using refused gas_then_still [OF gas] by blast
        next
          case step7: (went_on z s7)
          show thesis by (rule moved [OF s4(2) s5(2) gas_then_still [OF gas step7(2)] step7(3)])
        qed
      qed
    qed
  qed (use refused still_gas in blast)
qed (use refused still_gas in blast)

lemma execute_stages:
  assumes run: "executeCrossChainTransfer io u d a ss ds s = (r, s')"
  obtains (refused) e where "r = Inl e" "gas_only io u s s'"
  | (moved) route preview uB uS oB oS s1 where
      "resolveCrossChainRoute d (nullish ss ''USDC'') ds = Inr route"
      "previewCrossChainTransfer io (xc_events s) u d a (Some (cr_sourceSymbol route)) (Some (cr_destSymbol route)) = Inr preview"
      "xi_signer io u = Inr uB" "xi_keypair io u = Inr uS" "xi_opBsc io = Some oB" "xi_opSol io = Some oS"
      "gas_only io u s s1"
      "transfer_funds io u route (cq_amount preview) (computeBridgeSourceAmount route (cq_amount preview) (nullish (cq_tokenUsdPrice preview) (Fin 0)))
         (cq_creditAmount preview) uB uS oB oS s1 = (r, s')"
proof (cases "isCrossChainTransferEnabled io \<and> is_finite a \<and> \<not> a \<le> Fin 0")
  case False
  then show thesis using run refused by (auto simp: executeCrossChainTransfer_def split: if_splits)
next
  case True
  then obtain oB oS where o: "xi_opBsc io = Some oB" "xi_opSol io = Some oS" by (auto simp: isCrossChainTransferEnabled_def)
  let ?b = "\<lambda>route preview. computeBridgeSourceAmount route (cq_amount preview) (nullish (cq_tokenUsdPrice preview) (Fin 0))"
  from run True have "and_then (xc_try (xi_ensureWallet io u) s) (\<lambda>_ s.
      and_then (lift_error (resolveCrossChainRoute d (nullish ss ''USDC'') ds) s) (\<lambda>route s.
      and_then (lift_error (previewCrossChainTransfer io (xc_events s) u d a (Some (cr_sourceSymbol route)) (Some (cr_destSymbol route))) s) (\<lambda>preview s.
      if ?b route preview \<le> Fin 0 then (Inl TooSmallAfterFee, s)
      else and_then (xc_try (xi_signer io u) s) (\<lambda>uB s. and_then (xc_try (xi_keypair io u) s) (\<lambda>uS s.
        and_then (check_funds io route (cq_amount preview) uB uS s) (\<lambda>_ s.
        and_then (assertOperatorCanSettleCredit io route (cq_creditAmount preview) s) (\<lambda>_ s.
        transfer_funds io u route (cq_amount preview) (?b route preview) (cq_creditAmount preview) uB uS oB oS s))))))) = (r, s')"
    by (simp add: executeCrossChainTransfer_def o Let_def cong: if_cong split del: if_split)
  then show thesis
  proof (cases rule: try_step [where P = "\<lambda>_. False"])
    case step1: (went_on x s1)
    then have s1: "s1 = s" by simp
    from step1(3) [unfolded s1] show thesis
    proof (cases rule: lift_step [where P = "\<lambda>_. False"])
      case step2: (went_on route s2)
      then have s2: "s2 = s" "resolveCrossChainRoute d (nullish ss ''USDC'') ds = Inr route" by simp_all
      from step2(3) [unfolded s2] show thesis
      proof (cases rule: lift_step [where P = "\<lambda>_. False"])
        case step3: (went_on preview s3)
        then have s3: "s3 = s"
          "previewCrossChainTransfer io (xc_events s) u d a (Some (cr_sourceSymbol route)) (Some (cr_destSymbol route)) = Inr preview" by simp_all
        show thesis
        proof (cases "?b route preview \<le> Fin 0")
          case True
          then show thesis using step3(3) s3 refused by auto
        next
          case False
          with step3(3) s3 have "and_then (xc_try (xi_signer io u) s) (\<lambda>uB s. and_then (xc_try (xi_keypair io u) s) (\<lambda>uS s.
              and_then (check_funds io route (cq_amount preview) uB uS s) (\<lambda>_ s.
              and_then (assertOperatorCanSettleCredit io route (cq_creditAmount preview) s) (\<lambda>_ s.
              transfer_funds io u route (cq_amount preview) (?b route preview) (cq_creditAmount preview) uB uS oB oS s)))) = (r, s')" by simp
          then show thesis
          proof (cases rule: prepared_stages)
            case step4: (moved uB uS s1)
            show thesis by (rule moved [OF s2(2) s3(2) step4(1,2) o step4(3,4)])
          qed (use refused in blast)
        qed
      qed (use refused still_gas in blast)
    qed (use refused still_gas in blast)
  qed (use refused still_gas in blast)
qed

lemma credit_leg_cases:
  assumes run: "executeCrossChainCreditLeg io u i s = (r, s')"
  obtains (untouched) "s' = s" "\<And>res. r = Inr res \<Longrightarrow> \<exists>t. find_transfer u i s = Some t \<and> xt_status t = COMPLETED"
  | (delivered) t route b uB uS oB oS v where "find_transfer u i s = Some t" "xt_status t \<noteq> COMPLETED" "xt_debitTxRef t \<noteq> None"
      "resolveCrossChainRoute (xt_direction t) (xt_asset t) (Some (nullish (xt_destAsset t) (xt_asset t))) = Inr route"
      "xi_signer io u = Inr uB" "xi_keypair io u = Inr uS"
      "deliver io route i (xt_amount t) b (xt_creditAmount t) uB uS oB oS id (\<lambda>r. r\<lparr>xt_error := None\<rparr>) s = (v, s')"
      "\<And>res. r = Inr res \<Longrightarrow> \<exists>ref. v = Inr ref"
proof (cases "find_transfer u i s")
  case None
  then show thesis using run untouched by (auto simp: executeCrossChainCreditLeg_def)
next
  case (Some t)
  note body = run [unfolded executeCrossChainCreditLeg_def Some Let_def, simplified]
  show thesis
  proof (cases "xt_status t = COMPLETED \<or> nonempty (xt_debitTxRef t) = None")
    case True
    then show thesis using body untouched Some by (auto split: if_splits)
  next
    case False
    then have t: "xt_status t \<noteq> COMPLETED" "xt_debitTxRef t \<noteq> None" by (auto simp: nonempty_def split: option.splits)
    show thesis
    proof (cases "resolveCrossChainRoute (xt_direction t) (xt_asset t) (Some (nullish (xt_destAsset t) (xt_asset t)))")
      case (Inl e)
      then show thesis using body False untouched by (auto simp: lift_error_def)
    next
      case route: (Inr route)
      show thesis
      proof (cases "\<exists>oB oS uB uS. xi_opBsc io = Some oB \<and> xi_opSol io = Some oS \<and> xi_signer io u = Inr uB \<and> xi_keypair io u = Inr uS \<and>
          \<not> computeBridgeSourceAmount route (xt_amount t) (nullish (fetchLegUsdPrice io (leg_binanceSymbol (cr_sourceLeg route))) (Fin 0)) \<le> Fin 0")
        case False2: False
        then have "s' = s \<and> (\<exists>e. r = Inl e)" using body False route
          by (auto simp: lift_error_def xc_try_def split: option.splits sum.splits if_splits)
        then show thesis using untouched by auto
      next
        case True
        then obtain oB oS uB uS where o: "xi_opBsc io = Some oB" "xi_opSol io = Some oS" "xi_signer io u = Inr uB" "xi_keypair io u = Inr uS"
          and b: "\<not> computeBridgeSourceAmount route (xt_amount t) (nullish (fetchLegUsdPrice io (leg_binanceSymbol (cr_sourceLeg route))) (Fin 0)) \<le> Fin 0" by blast
        let ?b = "computeBridgeSourceAmount route (xt_amount t) (nullish (fetchLegUsdPrice io (leg_binanceSymbol (cr_sourceLeg route))) (Fin 0))"
        obtain v s2 where d: "deliver io route i (xt_amount t) ?b (xt_creditAmount t) uB uS oB oS id (\<lambda>r. r\<lparr>xt_error := None\<rparr>) s = (v, s2)" by fastforce
        have e: "s2 = s'" "\<And>res. r = Inr res \<Longrightarrow> \<exists>ref. v = Inr ref"
          using body False route o b d by (auto simp: lift_error_def xc_try_def and_then_def split: sum.splits)
        show thesis by (rule delivered [OF Some t route o(3,4) d [unfolded e(1)] e(2)])
      qed
    qed
  qed
qed

lemma found_row: "find_transfer u i s = Some t \<Longrightarrow> t \<in> set (xc_rows s) \<and> xt_id t = i"
  by (auto simp: find_transfer_def find_Some_iff)

lemma row_of_id:
  "table_ok s \<Longrightarrow> t \<in> set (xc_rows s) \<Longrightarrow> x \<in> set (xc_rows s) \<Longrightarrow> xt_id x = xt_id t \<Longrightarrow> x = t"
  by (auto simp: table_ok_def distinct_map inj_on_def)

lemma credit_leg_keeps_table:
  assumes run: "executeCrossChainCreditLeg io u i s = (r, s')" and ok: "table_ok s"
  shows "table_ok s'"
  using run
proof (cases rule: credit_leg_cases)
  case (delivered t route b uB uS oB oS v)
  note t = found_row [OF delivered(1)]
  have "row_ok t" using ok t by (simp add: table_ok_def list_all_iff)
  then have debited: "xt_debitTxRef t \<noteq> None \<and> xt_creditTxRef t = None"
    using delivered(2,3) by (simp add: row_ok_def split: CrossChainTransferStatus.splits)
  show ?thesis
    by (rule deliver_keeps_table [OF delivered(7) ok]) (use debited t row_of_id [OF ok] in auto)
qed (use ok in simp)

text \<open>The steps of the table: a transfer with a new id, a retry asked for, the periodic retry; the chains and
  services may answer differently in every step.\<close>

inductive xc_step :: "xc_state \<Rightarrow> xc_state \<Rightarrow> bool" where
  transferred: "executeCrossChainTransfer io u d a ss ds s = (r, s') \<Longrightarrow> xi_newId io \<notin> set (map xt_id (xc_rows s)) \<Longrightarrow> xc_step s s'"
| retried: "retryCrossChainCredit io u i s = (r, s') \<Longrightarrow> xc_step s s'"
| swept: "retryAllPendingCrossChainCredits io n s = (k, s') \<Longrightarrow> xc_step s s'"

lemma retry_one_keeps: "table_ok (snd p) \<Longrightarrow> table_ok (snd (retry_one io p row))"
  using credit_leg_keeps_table by (cases p) (auto simp: retry_one_def split: prod.splits sum.splits)

lemma step_keeps_table: "xc_step s s' \<Longrightarrow> table_ok s \<Longrightarrow> table_ok s'"
proof (induction rule: xc_step.induct)
  case (transferred io u d a ss ds s r s')
  from transferred(1) show ?case
  proof (cases rule: execute_stages)
    case (refused e)
    then show ?thesis using transferred(3) table_rows [of s' s] by (simp add: gas_only_def)
  next
    case (moved route preview uB uS oB oS s1)
    have rows: "xc_rows s1 = xc_rows s" using moved(7) by (simp add: gas_only_def)
    show ?thesis by (rule transfer_funds_keeps_table [OF moved(8)]) (use transferred(2,3) rows table_rows [OF rows] in simp_all)
  qed
next
  case (retried io u i s r s')
  have "s' = s \<or> (\<exists>j. executeCrossChainCreditLeg io u j s = (r, s'))"
    using retried(1) unfolding retryCrossChainCredit_def by (simp split: option.splits if_splits) blast+
  then show ?case using credit_leg_keeps_table retried(2) by blast
next
  case (swept io n s k s')
  have "table_ok (snd (retryAllPendingCrossChainCredits io n s))" unfolding retryAllPendingCrossChainCredits_def
    by (rule foldl_invariant) (use swept(2) retry_one_keeps in auto)
  then show ?case using swept(1) by simp
qed

definition xc_start :: xc_state where
  "xc_start = \<lparr>xc_rows = [], xc_events = []\<rparr>"

text \<open>C26: in every reachable table, ids are unique and the references of a transfer fit its status: a pending or failed transfer has
  none, a debited or parked one has its debit only, a completed one has both; whatever the chains, the bridge and the
  price services answer, over any sequence of transfers and retries.\<close>

theorem transfer_references_fit_status:
  assumes "xc_step\<^sup>*\<^sup>* xc_start s"
  shows "distinct (map xt_id (xc_rows s)) \<and> (\<forall>t \<in> set (xc_rows s). row_ok t)"
proof -
  from assms have "table_ok s"
  proof (induction rule: rtranclp_induct)
    case base
    then show ?case by (simp add: table_ok_def xc_start_def)
  next
    case (step y z)
    show ?case by (rule step_keeps_table [OF step(2,3)])
  qed
  then show ?thesis by (simp add: table_ok_def list_all_iff)
qed

section \<open>What moves\<close>

lemma deliver_rows: "length (xc_rows (snd (deliver io route i amount b c uB uS oB oS f g s))) = length (xc_rows s)"
proof -
  obtain v s1 where c: "runCreditLeg io route b c uB uS oB oS s = (v, s1)" by fastforce
  have "xc_rows s1 = xc_rows s" using addsD [OF adds_credit c] by (simp add: grows_def)
  then show ?thesis using sweep_grows [unfolded grows_def]
    by (cases v) (simp_all add: deliver_def c update_transfer_def)
qed

lemma transfer_funds_adds_row:
  assumes "transfer_funds io u route amount b c uB uS oB oS s = (r, s')"
  shows "length (xc_rows s') = Suc (length (xc_rows s))"
proof -
  define s1 where "s1 = s\<lparr>xc_rows := xc_rows s @ [new_transfer io u route amount c]\<rparr>"
  obtain v s2 where d: "run_debit io route amount uB uS oB oS s1 = (v, s2)" by fastforce
  have l2: "length (xc_rows s2) = Suc (length (xc_rows s))" using addsD [OF adds_debit d] by (simp add: grows_def s1_def)
  note body = assms [unfolded transfer_funds_def Let_def, folded s1_def, unfolded d]
  show ?thesis
  proof (cases v)
    case (Inl e)
    then show ?thesis using body l2 by (auto simp: update_transfer_def)
  next
    case (Inr ref)
    let ?s3 = "update_transfer (xi_newId io) (\<lambda>r. r\<lparr>xt_status := DEBITED, xt_debitTxRef := Some ref\<rparr>) s2"
    obtain w s4 where del: "deliver io route (xi_newId io) amount b c uB uS oB oS (\<lambda>_. CreditDelayed) id ?s3 = (w, s4)" by fastforce
    have "s' = s4" using body Inr del by (cases w) (auto simp: and_then_def)
    moreover have "length (xc_rows s4) = length (xc_rows ?s3)" using deliver_rows [of io route "xi_newId io" amount b c uB uS oB oS "\<lambda>_. CreditDelayed" id ?s3] del by simp
    ultimately show ?thesis using l2 by (simp add: update_transfer_def)
  qed
qed

text \<open>C28: a transfer that is refused before its row is written sends nothing to anybody: when no row was added, then either no
  transaction was made, or exactly one, in which the wallet that signs for this user unwraps coins of its own: its native
  balance was below the gas minimum, it unwraps a positive amount, not more than the wrapped coins it holds, and its native
  balance is brought to at most the minimum and 0.00012 BNB.\<close>

theorem refused_transfer_moves_only_gas:
  assumes "executeCrossChainTransfer io u d a ss ds s = (r, s')" and "xc_rows s' = xc_rows s"
  shows "xc_events s' = xc_events s \<or>
    (\<exists>wallet native wbnb wei. xi_signer io u = Inr wallet \<and> xc_events s' = xc_events s @ [Unwrap wallet wei] \<and>
       xi_native io (xc_events s) wallet = Inr native \<and> native < BSC_MIN_NATIVE_GAS_WEI \<and>
       xi_erc20 io (xc_events s) WBNB_ADDR wallet = Inr wbnb \<and> 0 < wei \<and> wei \<le> wbnb \<and>
       native + wei \<le> BSC_MIN_NATIVE_GAS_WEI + 12 * 10 ^ 13)"
  using assms(1)
proof (cases rule: execute_stages)
  case (refused e)
  then show ?thesis by (auto simp: gas_only_def own_gas_def)
next
  case (moved route preview uB uS oB oS s1)
  have "length (xc_rows s') = Suc (length (xc_rows s))"
    using transfer_funds_adds_row [OF moved(8)] moved(7) by (simp add: gas_only_def)
  then show ?thesis using assms(2) by simp
qed

definition debit_of :: "xc_io \<Rightarrow> CrossChainRoute \<Rightarrow> number \<Rightarrow> string \<Rightarrow> string \<Rightarrow> string \<Rightarrow> string \<Rightarrow> xc_event \<Rightarrow> bool" where
  "debit_of io route amount uB uS oB oS e \<longleftrightarrow>
     (case (cr_sourceLeg route, e) of
        (OnBsc l, BscSend from to t raw) \<Rightarrow> from = uB \<and> to = oB \<and> t = (if bl_native l then None else bl_address l) \<and>
          xi_parseUnits io (number_to_string amount) (if bl_native l then 18 else bl_decimals l) = Some raw
      | (OnSol l, SolSend from to m raw _) \<Rightarrow> from = uS \<and> to = oS \<and> m = sl_mint l \<and>
          whole_units (amount * (if sl_native l then LAMPORTS_PER_SOL else pow10 (sl_decimals l))) = Some raw
      | _ \<Rightarrow> False)"

definition pays_user :: "CrossChainRoute \<Rightarrow> string \<Rightarrow> string \<Rightarrow> xc_event \<Rightarrow> bool" where
  "pays_user route uB uS e \<longleftrightarrow>
     (case cr_destLeg route of
        OnSol l \<Rightarrow> (case e of SolSend _ to m _ _ \<Rightarrow> to = uS \<and> m = sl_mint l | BridgeOut _ _ _ m _ to \<Rightarrow> to = uS \<and> m = sl_mint l | _ \<Rightarrow> False)
      | OnBsc l \<Rightarrow> (case e of BscSend _ to t _ \<Rightarrow> to = uB \<and> t = (if bl_native l then None else bl_address l)
                   | BridgeOut _ _ _ t _ to \<Rightarrow> to = uB \<and> t = bscLiFiToken l | _ \<Rightarrow> False))"

lemma broadcast_Inr: "broadcast io ev e s = (Inr h, s') \<Longrightarrow> xc_events s' = xc_events s @ [ev]"
  by (auto simp: broadcast_def split: send_outcome.splits)

lemma bsc_sent:
  "sendBscToken io from leg to amount s = (Inr h, s') \<Longrightarrow>
     \<exists>raw. xi_parseUnits io (number_to_string amount) (if bl_native leg then 18 else bl_decimals leg) = Some raw \<and>
       xc_events s' = xc_events s @ [BscSend from to (if bl_native leg then None else bl_address leg) raw]"
  by (auto simp: sendBscToken_def and_then_Inr dest!: broadcast_Inr split: option.splits)

lemma sol_sent:
  assumes "sendSolToken io from leg to amount s = (Inr h, s')"
  shows "\<exists>raw b. whole_units (amount * (if sl_native leg then LAMPORTS_PER_SOL else pow10 (sl_decimals leg))) = Some raw \<and>
       xc_events s' = xc_events s @ [SolSend from to (sl_mint leg) raw b]"
proof (cases "sl_native leg")
  case True
  then show ?thesis using assms by (auto simp: sendSolToken_def dest!: broadcast_Inr split: option.splits)
next
  case False
  obtain acc where "(case acc of None \<Rightarrow> (Inl (NoTokenAccount (sl_symbol leg)), s)
      | Some src \<Rightarrow> (case whole_units (amount * pow10 (sl_decimals leg)) of None \<Rightarrow> (Inl (NotUnits (number_to_string amount)), s)
      | Some raw \<Rightarrow> if src < raw then (Inl (ShortBalance (sl_symbol leg)), s)
          else broadcast io (SolSend from to (sl_mint leg) raw
                 (case xi_account io (xc_events s) (sl_mint leg) to of Inr (Some _) \<Rightarrow> False | _ \<Rightarrow> True)) TransferReverted s)) = (Inr h, s')"
    using assms unfolding sendSolToken_def if_not_P [OF False] and_then_Inr xc_try_Inr by blast
  then obtain src where "(case whole_units (amount * pow10 (sl_decimals leg)) of None \<Rightarrow> (Inl (NotUnits (number_to_string amount)), s)
      | Some raw \<Rightarrow> if src < raw then (Inl (ShortBalance (sl_symbol leg)), s)
          else broadcast io (SolSend from to (sl_mint leg) raw
                 (case xi_account io (xc_events s) (sl_mint leg) to of Inr (Some _) \<Rightarrow> False | _ \<Rightarrow> True)) TransferReverted s) = (Inr h, s')"
    by (cases acc) auto
  then show ?thesis using False by (cases "whole_units (amount * pow10 (sl_decimals leg))") (auto dest!: broadcast_Inr split: if_splits)
qed

lemma debit_sent:
  "run_debit io route amount uB uS oB oS s = (Inr h, s') \<Longrightarrow> \<exists>e. xc_events s' = xc_events s @ [e] \<and> debit_of io route amount uB uS oB oS e"
  by (cases "cr_sourceLeg route") (auto simp: run_debit_def debit_of_def dest!: bsc_sent sol_sent)

lemma bridged_to_sol:
  assumes "bridgeBscToSolanaViaLiFi io operator l l' n to s = (Inr x, s')"
  shows "\<exists>es t a. xc_events s' = xc_events s @ es @ [BridgeOut BSC operator t (sl_mint l') a to]"
proof -
  obtain a s1 s2 q e h where s1: "ensureEvmAllowance io operator q (bscLiFiToken l) a s = (Inr (), s1)"
    and b: "broadcast io (BridgeOut BSC operator (bscLiFiToken l) (sl_mint l') a to) e s1 = (Inr h, s')"
    using assms by (auto simp: bridgeBscToSolanaViaLiFi_def Let_def and_then_Inr split: option.splits)
  obtain es where "xc_events s1 = xc_events s @ es" using addsD [OF adds_allowance s1] by (auto simp: grows_def)
  then show ?thesis using broadcast_Inr [OF b] by auto
qed

lemma bridged_to_bsc:
  "bridgeSolanaToBscViaLiFi io operator l l' n to s = (Inr x, s') \<Longrightarrow>
     \<exists>t a. xc_events s' = xc_events s @ [BridgeOut SOL operator t (bscLiFiToken l') a to]"
  by (auto simp: bridgeSolanaToBscViaLiFi_def Let_def and_then_Inr dest!: broadcast_Inr split: option.splits)

lemma credit_sent:
  assumes "runCreditLeg io route b c uB uS oB oS s = (Inr ref, s')"
  shows "\<exists>es e. xc_events s' = xc_events s @ es @ [e] \<and> pays_user route uB uS e"
proof (cases "cr_destLeg route")
  case (OnSol l)
  then obtain l1 where src: "cr_sourceLeg route = OnBsc l1" using assms by (auto simp: runCreditLeg_def split: cross_leg.splits)
  obtain stocked s1 where st: "xc_events s1 = xc_events s" and k: "(if stocked then sendSolToken io oS l uS c s1
      else and_then (topUpOperatorBridgeGasFromUser io uB oB s1) (\<lambda>_ s. and_then (ensureNativeBnbForGas io oB MIN_OPERATOR_BNB_FOR_BRIDGE s) (\<lambda>_ s.
        and_then (bridgeBscToSolanaViaLiFi io oB l1 l b uS s) (\<lambda>(source, dest) s. (Inr (nullish dest source), s))))) = (Inr ref, s')"
  proof -
    obtain stocked s1 where "(if cr_sameToken route then xc_try (map_sum id (\<lambda>b. c \<le> b) (solTokenBalance io (xc_events s) oS l)) s
        else (Inr False, s)) = (Inr stocked, s1)" and k: "(if stocked then sendSolToken io oS l uS c s1
      else and_then (topUpOperatorBridgeGasFromUser io uB oB s1) (\<lambda>_ s. and_then (ensureNativeBnbForGas io oB MIN_OPERATOR_BNB_FOR_BRIDGE s) (\<lambda>_ s.
        and_then (bridgeBscToSolanaViaLiFi io oB l1 l b uS s) (\<lambda>(source, dest) s. (Inr (nullish dest source), s))))) = (Inr ref, s')"
      using assms unfolding runCreditLeg_def OnSol src prod.case cross_leg.case and_then_Inr by blast
    then show thesis using that [OF _ k] by (auto split: if_splits)
  qed
  show ?thesis
  proof (cases stocked)
    case True
    then show ?thesis using k sol_sent [of io oS l uS c s1 ref s'] st by (auto simp: pays_user_def OnSol)
  next
    case False
    with k obtain s2 s3 x where a: "topUpOperatorBridgeGasFromUser io uB oB s1 = (Inr (), s2)"
      "ensureNativeBnbForGas io oB MIN_OPERATOR_BNB_FOR_BRIDGE s2 = (Inr (), s3)" "bridgeBscToSolanaViaLiFi io oB l1 l b uS s3 = (Inr x, s')"
      by (auto simp: and_then_Inr)
    obtain es2 es3 where "xc_events s2 = xc_events s1 @ es2" "xc_events s3 = xc_events s2 @ es3"
      using addsD [OF adds_topup a(1)] addsD [OF adds_gas a(2)] by (auto simp: grows_def)
    then show ?thesis using bridged_to_sol [OF a(3)] st by (force simp: pays_user_def OnSol)
  qed
next
  case (OnBsc l)
  then obtain l1 where src: "cr_sourceLeg route = OnSol l1" using assms by (auto simp: runCreditLeg_def split: cross_leg.splits)
  obtain stocked s1 where st: "xc_events s1 = xc_events s" and k: "(if stocked then sendBscToken io oB l uB c s1
      else and_then (bridgeSolanaToBscViaLiFi io oS l1 l b uB s1) (\<lambda>(source, dest) s. (Inr (nullish dest source), s))) = (Inr ref, s')"
  proof -
    obtain stocked s1 where "(if cr_sameToken route then xc_try (map_sum id (\<lambda>b. c \<le> b) (bscTokenBalance io (xc_events s) oB l)) s
        else (Inr False, s)) = (Inr stocked, s1)" and k: "(if stocked then sendBscToken io oB l uB c s1
      else and_then (bridgeSolanaToBscViaLiFi io oS l1 l b uB s1) (\<lambda>(source, dest) s. (Inr (nullish dest source), s))) = (Inr ref, s')"
      using assms unfolding runCreditLeg_def OnBsc src prod.case cross_leg.case and_then_Inr by blast
    then show thesis using that [OF _ k] by (auto split: if_splits)
  qed
  show ?thesis
  proof (cases stocked)
    case True
    then show ?thesis using k bsc_sent [of io oB l uB c s1 ref s'] st by (auto simp: pays_user_def OnBsc)
  next
    case False
    with k obtain x where "bridgeSolanaToBscViaLiFi io oS l1 l b uB s1 = (Inr x, s')" by (auto simp: and_then_Inr)
    then show ?thesis using bridged_to_bsc [of io oS l1 l b uB s1 x s'] st by (force simp: pays_user_def OnBsc)
  qed
qed

lemma deliver_pays:
  assumes "deliver io route i amount b c uB uS oB oS f g s = (Inr ref, s')"
  shows "\<exists>es e fee. xc_events s' = xc_events s @ es @ [e] @ fee \<and> pays_user route uB uS e"
proof -
  obtain v s1 where c: "runCreditLeg io route b c uB uS oB oS s = (v, s1)" by fastforce
  have v: "v = Inr ref" using assms by (cases v) (auto simp: deliver_def c)
  obtain es e where e: "xc_events s1 = xc_events s @ es @ [e]" "pays_user route uB uS e" using credit_sent [OF c [unfolded v]] by blast
  let ?s2 = "update_transfer i (\<lambda>r. g (r\<lparr>xt_status := COMPLETED, xt_creditTxRef := Some ref, xt_processedAt := Some (xi_now io)\<rparr>)) s1"
  have "s' = sweepTransferFeeToTreasury io route (amount - b) oB oS ?s2" using assms by (simp add: deliver_def c v)
  then obtain fee where "xc_events s' = xc_events ?s2 @ fee" using sweep_grows by (metis grows_def)
  then show ?thesis using e by auto
qed

lemma positive_price_Some: "positive_price p = Some x \<Longrightarrow> p = Some x \<and> Fin 0 < x"
  by (auto simp: positive_price_def split: option.splits if_splits)

lemma preview_facts:
  assumes run: "previewCrossChainTransfer io h u d a ss ds = Inr p"
  obtains price where "cq_tokenUsdPrice p = Some price" "cq_amount p = a" "cq_feeUsd p = TRANSFER_FEE_USD" "\<not> cq_creditAmount p \<le> Fin 0"
    "is_finite a" "\<not> a \<le> Fin 0" "Fin 0 < price" "\<not> a * price < MIN_TRANSFER_USD" "\<not> MAX_TRANSFER_USD < a * price"
proof -
  have a: "is_finite a" "\<not> a \<le> Fin 0" using run by (auto simp: previewCrossChainTransfer_def split: if_splits)
  note body = run [unfolded previewCrossChainTransfer_def]
  obtain route where r: "resolveCrossChainRoute d (nullish ss ''USDC'') ds = Inr route" using body a by (auto split: sum.splits)
  obtain p0 where p0: "priceSourceToken io h u route a = Inr p0" using body a by (auto simp: r split: sum.splits)
  obtain price where price: "positive_price p0 = Some price" using body a by (auto simp: r p0 split: option.splits)
  obtain dest where dest: "positive_price (if cr_sameToken route then Some price else fetchLegUsdPrice io (leg_binanceSymbol (cr_destLeg route))) = Some dest"
    using body a by (auto simp: r p0 price split: option.splits)
  let ?q = "computeRouteQuote route a price dest"
  have lim: "\<not> a * price < MIN_TRANSFER_USD" "\<not> MAX_TRANSFER_USD < a * price" "\<not> cq_creditAmount ?q \<le> Fin 0"
    and p: "p = CrossChainQuote.extend ?q (CrossChainTransferPreview.fields (cr_sourceSymbol route) a (Some price) (Some dest))"
    using body a by (simp_all add: r p0 price dest Let_def split: if_splits)
  have f: "cq_tokenUsdPrice p = Some price" "cq_amount p = a" "cq_feeUsd p = TRANSFER_FEE_USD" "cq_creditAmount p = cq_creditAmount ?q"
    unfolding p by (simp_all add: computeRouteQuote_def CrossChainQuote.defs CrossChainTransferPreview.defs Let_def)
  have "Fin 0 < price" using positive_price_Some [OF price] by simp
  then show thesis using that f lim a by simp
qed

text \<open>Every quoted transfer is within the limits: its amount is positive, is worth at least one and at most 5000 dollars at
  the price of the quote, and something is left to credit.\<close>

theorem transfer_preview_within_limits:
  assumes "previewCrossChainTransfer io h u d a ss ds = Inr p"
  shows "\<exists>price. cq_tokenUsdPrice p = Some price \<and> cq_amount p = a \<and> Fin 0 < a \<and> Fin 1 \<le> a * price \<and> a * price \<le> Fin 5000 \<and>
    \<not> cq_creditAmount p \<le> Fin 0"
proof -
  obtain price where f: "cq_tokenUsdPrice p = Some price" "cq_amount p = a" "\<not> cq_creditAmount p \<le> Fin 0"
    and x: "is_finite a" "\<not> a \<le> Fin 0" "Fin 0 < price" "\<not> a * price < MIN_TRANSFER_USD" "\<not> MAX_TRANSFER_USD < a * price"
    using preview_facts [OF assms] by metis
  obtain q where a: "a = Fin q" "0 < q" using x(1,2) by (cases a) simp_all
  have "a * price \<noteq> NaN" using x(3) unfolding a by (cases price) (auto simp: inf_sign_def a(2))
  then have "Fin 1 \<le> a * price" "a * price \<le> Fin 5000"
    using x(4,5) unfolding MIN_TRANSFER_USD_def MAX_TRANSFER_USD_def by (cases "a * price"; simp)+
  then show ?thesis using f a by simp
qed

text \<open>C27: a completed transfer has taken the user's money first and then paid the user: after the preparation of the user's own
  gas, the first transaction sends exactly the asked amount from the user to the operator on the source chain, and a
  later one delivers the asked coin to the user's own address on the other chain.\<close>

theorem completed_transfer_debits_then_pays:
  assumes "executeCrossChainTransfer io u d a ss ds s = (Inr res, s')"
  shows "\<exists>route uB uS oB oS gas debit es pay fee. resolveCrossChainRoute d (nullish ss ''USDC'') ds = Inr route \<and>
    xi_signer io u = Inr uB \<and> xi_keypair io u = Inr uS \<and> xi_opBsc io = Some oB \<and> xi_opSol io = Some oS \<and>
    xc_events s' = xc_events s @ gas @ [debit] @ es @ [pay] @ fee \<and> length gas \<le> 1 \<and> list_all (own_gas io u (xc_events s)) gas \<and>
    debit_of io route a uB uS oB oS debit \<and> pays_user route uB uS pay"
  using assms
proof (cases rule: execute_stages)
  case (moved route preview uB uS oB oS s1)
  let ?b = "computeBridgeSourceAmount route (cq_amount preview) (nullish (cq_tokenUsdPrice preview) (Fin 0))"
  have amount: "cq_amount preview = a" using preview_facts [OF moved(2)] by metis
  obtain gas where gas: "xc_events s1 = xc_events s @ gas" "length gas \<le> 1 \<and> list_all (own_gas io u (xc_events s)) gas"
    using moved(7) by (auto simp: gas_only_def)
  define s2 where "s2 = s1\<lparr>xc_rows := xc_rows s1 @ [new_transfer io u route a (cq_creditAmount preview)]\<rparr>"
  note body = moved(8) [unfolded transfer_funds_def Let_def amount, folded s2_def]
  obtain v s3 where d: "run_debit io route a uB uS oB oS s2 = (v, s3)" by fastforce
  obtain ref where v: "v = Inr ref" using body d by (cases v) auto
  obtain debit where debit: "xc_events s3 = xc_events s1 @ [debit]" "debit_of io route a uB uS oB oS debit"
    using debit_sent [OF d [unfolded v]] by (auto simp: s2_def)
  obtain credit where "deliver io route (xi_newId io) a (computeBridgeSourceAmount route a (nullish (cq_tokenUsdPrice preview) (Fin 0)))
      (cq_creditAmount preview) uB uS oB oS (\<lambda>_. CreditDelayed) id
      (update_transfer (xi_newId io) (\<lambda>r. r\<lparr>xt_status := DEBITED, xt_debitTxRef := Some ref\<rparr>) s3) = (Inr credit, s')"
    using body d v by (auto simp: and_then_Inr)
  from deliver_pays [OF this] obtain es pay fee where "xc_events s' = xc_events s3 @ es @ [pay] @ fee" "pays_user route uB uS pay" by auto
  then show ?thesis using moved(1,3-6) gas debit by force
qed simp

text \<open>A retry pays, whatever was paid before: every successful retry of a transfer that is not completed delivers the coin to
  the user once more, also when an earlier attempt had already handed it to the bridge and only the wait for
  its confirmation failed.\<close>

theorem retry_pays_again:
  assumes "retryCrossChainCredit io u i s = (Inr res, s')" "find_transfer u i s = Some t" "xt_status t \<noteq> COMPLETED"
  shows "\<exists>route uB uS es pay fee. resolveCrossChainRoute (xt_direction t) (xt_asset t) (Some (nullish (xt_destAsset t) (xt_asset t))) = Inr route \<and>
    xi_signer io u = Inr uB \<and> xi_keypair io u = Inr uS \<and> xc_events s' = xc_events s @ es @ [pay] @ fee \<and> pays_user route uB uS pay"
proof -
  have i: "xt_id t = i" using found_row [OF assms(2)] by simp
  have "executeCrossChainCreditLeg io u i s = (Inr res, s')"
    using assms unfolding retryCrossChainCredit_def i [symmetric] by (auto split: if_splits)
  then show ?thesis
  proof (cases rule: credit_leg_cases)
    case untouched
    then show ?thesis using assms(2,3) by auto
  next
    case (delivered t' route b uB uS oB oS v)
    then obtain ref where "v = Inr ref" by blast
    from deliver_pays [OF delivered(7) [unfolded this]] show ?thesis using delivered(1,4,5,6) assms(2) by auto
  qed
qed

section \<open>The catalogue\<close>

lemma catalogues_uniform:
  "list_all (\<lambda>t. bd_binanceSymbol t = bd_baseSymbol t @ ''USDT'') BSC_DEX_CATALOG"
  "list_all (\<lambda>t. sd_binanceSymbol t = sd_baseSymbol t @ ''USDT'') SOL_DEX_CATALOG"
  by code_simp+

lemma catalogue_leg:
  "find (\<lambda>t. bd_baseSymbol t = c) BSC_DEX_CATALOG = Some x \<Longrightarrow> bd_binanceSymbol x = c @ ''USDT''"
  "find (\<lambda>t. sd_baseSymbol t = c) SOL_DEX_CATALOG = Some y \<Longrightarrow> sd_binanceSymbol y = c @ ''USDT''"
  using catalogues_uniform by (auto simp: find_Some_iff list_all_length)

lemma bsc_leg_symbol: "bscLegForSymbol c = Some b \<Longrightarrow> bl_symbol b = c \<and> bl_binanceSymbol b = c @ ''USDT''"
  unfolding bscLegForSymbol_def by (auto dest: catalogue_leg(1) split: if_splits option.splits)

lemma sol_leg_symbol: "solLegForSymbol c = Some l \<Longrightarrow> sl_symbol l = c \<and> sl_binanceSymbol l = c @ ''USDT''"
  unfolding solLegForSymbol_def by (auto dest: catalogue_leg(2) split: if_splits option.splits)

text \<open>The two legs of every supported pair are the same coin: whatever symbol a pair is built for, both legs carry its
  canonical symbol and are priced by that symbol's market against USDT.\<close>

theorem pair_legs_agree:
  assumes "buildCrossChainPair c = Some (sy, b, l)"
  shows "sy = normalizeSymbol c \<and> bl_symbol b = sy \<and> sl_symbol l = sy \<and> bl_binanceSymbol b = sy @ ''USDT'' \<and> sl_binanceSymbol l = sy @ ''USDT''"
  using assms bsc_leg_symbol sol_leg_symbol unfolding buildCrossChainPair_def Let_def by (auto split: option.splits)

section \<open>A small world\<close>

definition demo_quote :: lifi_quote where
  "demo_quote = \<lparr>lq_to = Some ''bridge'', lq_data = Some ''data'', lq_approvalAddress = None, lq_fromToken = None, lq_fromAmount = None\<rparr>"

text \<open>The user holds 100 USDC on Solana, the operator nothing on either chain but gas; every transaction is confirmed.\<close>

definition demo_world :: "(string + lifi_status) list \<Rightarrow> xc_io" where
  "demo_world polls = \<lparr>xi_now = 5, xi_newId = ''t1'', xi_opBsc = Some ''opB'', xi_opSol = Some ''opS'', xi_walletEnabled = True,
     xi_ensureWallet = (\<lambda>_. Inr ()), xi_signer = (\<lambda>_. Inr ''uB''), xi_keypair = (\<lambda>_. Inr ''uS''), xi_summary = (\<lambda>_ _. Inr None),
     xi_holdings = (\<lambda>_ _. Inr [(SOL_USDC_MINT, Fin 100)]), xi_jupiterPrice = (\<lambda>_. None), xi_ticker = (\<lambda>_. None),
     xi_native = (\<lambda>_ _. Inr 0), xi_erc20 = (\<lambda>_ _ _. Inr 0), xi_lamports = (\<lambda>_ _. Inr LAMPORTS_PER_SOL),
     xi_account = (\<lambda>_ _ _. Inr (Some 100000000)), xi_formatUnits = (\<lambda>_ _. ''0''), xi_parseUnits = (\<lambda>_ _. Some 9900000),
     xi_send = (\<lambda>_ _. Confirmed ''tx''), xi_lifi = (\<lambda>_ _. Inr demo_quote), xi_allowance = (\<lambda>_ _ _ _. Inr 0), xi_bigint = (\<lambda>_. None),
     xi_polls = (\<lambda>_. polls), xi_treasuryBsc = ''tB'', xi_treasurySol = ''tS'', xi_decimal = (\<lambda>x. x)\<rparr>"

definition usdc_on_sol :: CrossChainSolLeg where
  "usdc_on_sol = \<lparr>sl_symbol = ''USDC'', sl_mint = SOL_USDC_MINT, sl_decimals = 6, sl_native = False, sl_binanceSymbol = ''USDCUSDT''\<rparr>"

definition usdc_on_bsc :: CrossChainBscLeg where
  "usdc_on_bsc = \<lparr>bl_symbol = ''USDC'', bl_address = Some BSC_USDC_ADDRESS, bl_decimals = 18, bl_native = False, bl_binanceSymbol = ''USDCUSDT''\<rparr>"

definition demo_route :: CrossChainRoute where
  "demo_route = \<lparr>cr_direction = SOL_TO_BSC, cr_sourceSymbol = ''USDC'', cr_destSymbol = ''USDC'', cr_sameToken = True,
     cr_sourceLeg = OnSol usdc_on_sol, cr_destLeg = OnBsc usdc_on_bsc, cr_sourceChain = SOL, cr_destChain = BSC\<rparr>"

lemma demo_routes:
  "resolveCrossChainRoute SOL_TO_BSC ''USDC'' None = Inr demo_route"
  "resolveCrossChainRoute SOL_TO_BSC ''USDC'' (Some ''USDC'') = Inr demo_route"
  by code_simp+

lemma demo_world_simps [simp]:
  "xi_now (demo_world p) = 5" "xi_newId (demo_world p) = ''t1''" "xi_opBsc (demo_world p) = Some ''opB''" "xi_opSol (demo_world p) = Some ''opS''"
  "xi_walletEnabled (demo_world p)" "xi_ensureWallet (demo_world p) u = Inr ()" "xi_signer (demo_world p) u = Inr ''uB''"
  "xi_keypair (demo_world p) u = Inr ''uS''" "xi_lamports (demo_world p) h a = Inr LAMPORTS_PER_SOL" "xi_erc20 (demo_world p) h m a = Inr 0"
  "xi_account (demo_world p) h m a = Inr (Some 100000000)" "xi_formatUnits (demo_world p) n d = ''0''" "xi_parseUnits (demo_world p) t d = Some 9900000"
  "xi_send (demo_world p) h e = Confirmed ''tx''" "xi_lifi (demo_world p) h q = Inr demo_quote" "xi_polls (demo_world p) k = p" "xi_decimal (demo_world p) x = x"
  by (simp_all add: demo_world_def)

lemma demo_numbers:
  "\<not> LAMPORTS_PER_SOL / LAMPORTS_PER_SOL < lit (3/1000)" "lit (3/1000) \<le> LAMPORTS_PER_SOL / LAMPORTS_PER_SOL"
  "\<not> fl 100000000 / pow10 6 < Fin 10" "number_of_string ''0'' = Fin 0" "whole_units (Fin 10 * pow10 6) = Some 10000000"
  "\<not> computeBridgeSourceAmount demo_route (Fin 10) (Fin 1) \<le> Fin 0"
  by code_simp+

lemma demo_previewed:
  "\<exists>p. previewCrossChainTransfer (demo_world polls) h u SOL_TO_BSC (Fin 10) (Some ''USDC'') (Some ''USDC'') = Inr p \<and> cq_amount p = Fin 10 \<and>
     cq_tokenUsdPrice p = Some (Fin 1) \<and> \<not> cq_creditAmount p \<le> Fin 0"
proof -
  have "case previewCrossChainTransfer (demo_world polls) h u SOL_TO_BSC (Fin 10) (Some ''USDC'') (Some ''USDC'') of
      Inr p \<Rightarrow> cq_amount p = Fin 10 \<and> cq_tokenUsdPrice p = Some (Fin 1) \<and> \<not> cq_creditAmount p \<le> Fin 0 | Inl _ \<Rightarrow> False" by code_simp
  then show ?thesis by (auto split: sum.splits)
qed

definition demo_bridge :: xc_event where
  "demo_bridge = BridgeOut SOL ''opS'' SOL_USDC_MINT BSC_USDC_ADDRESS (int_text 9900000) ''uB''"

lemma demo_credit:
  assumes "\<not> c \<le> Fin 0"
  shows "runCreditLeg (demo_world polls) demo_route b c ''uB'' ''uS'' ''opB'' ''opS'' s =
    (map_sum id (\<lambda>d. nullish d ''tx'') (pollLiFiStatus polls), s\<lparr>xc_events := xc_events s @ [demo_bridge]\<rparr>)"
proof -
  have q: "nonempty (lq_data demo_quote) \<noteq> None" by (simp add: demo_quote_def nonempty_def)
  have bal: "bscTokenBalance (demo_world polls) h ''opB'' usdc_on_bsc = Inr (Fin 0)" for h
    by (simp add: bscTokenBalance_def bsc_raw_def usdc_on_bsc_def demo_numbers(4))
  have br: "bridgeSolanaToBscViaLiFi (demo_world polls) ''opS'' usdc_on_sol usdc_on_bsc b ''uB'' s =
      (map_sum id (\<lambda>d. (''tx'', d)) (pollLiFiStatus polls), s\<lparr>xc_events := xc_events s @ [demo_bridge]\<rparr>)"
    using q by (cases "pollLiFiStatus polls")
      (simp_all add: bridgeSolanaToBscViaLiFi_def toSmallestString_def Let_def xc_try_def require_def broadcast_def lift_error_def
        demo_bridge_def usdc_on_sol_def usdc_on_bsc_def bscLiFiToken_def)
  show ?thesis using assms br
    by (cases "pollLiFiStatus polls") (simp_all add: runCreditLeg_def demo_route_def bal xc_try_def)
qed

lemma demo_debit:
  "run_debit (demo_world polls) demo_route (Fin 10) ''uB'' ''uS'' ''opB'' ''opS'' s =
     (Inr ''tx'', s\<lparr>xc_events := xc_events s @ [SolSend ''uS'' ''opS'' SOL_USDC_MINT 10000000 False]\<rparr>)"
  by (simp add: run_debit_def demo_route_def sendSolToken_def usdc_on_sol_def xc_try_def demo_numbers(5) broadcast_def)

lemma demo_transfer:
  "\<exists>c. \<not> c \<le> Fin 0 \<and> executeCrossChainTransfer (demo_world polls) ''u'' SOL_TO_BSC (Fin 10) None None xc_start =
     transfer_funds (demo_world polls) ''u'' demo_route (Fin 10) (computeBridgeSourceAmount demo_route (Fin 10) (Fin 1)) c ''uB'' ''uS'' ''opB'' ''opS'' xc_start"
proof -
  obtain p where p: "previewCrossChainTransfer (demo_world polls) (xc_events xc_start) ''u'' SOL_TO_BSC (Fin 10) (Some ''USDC'') (Some ''USDC'') = Inr p"
    "cq_amount p = Fin 10" "cq_tokenUsdPrice p = Some (Fin 1)" "\<not> cq_creditAmount p \<le> Fin 0"
    using demo_previewed by blast
  have src: "cr_sourceSymbol demo_route = ''USDC''" "cr_destSymbol demo_route = ''USDC''" by (simp_all add: demo_route_def)
  have funds: "check_funds (demo_world polls) demo_route (Fin 10) ''uB'' ''uS'' s = (Inr (), s)" for s
    using demo_numbers(1,3) by (simp add: check_funds_def demo_route_def xc_try_def require_def solTokenBalance_def usdc_on_sol_def)
  have ready: "assertOperatorCanSettleCredit (demo_world polls) demo_route (cq_creditAmount p) s = (Inr (), s)" for s
    using demo_numbers(2) p(4) by (simp add: assertOperatorCanSettleCredit_def demo_route_def xc_try_def require_def bscTokenBalance_def bsc_raw_def
      usdc_on_bsc_def demo_numbers(4))
  have "executeCrossChainTransfer (demo_world polls) ''u'' SOL_TO_BSC (Fin 10) None None xc_start =
     transfer_funds (demo_world polls) ''u'' demo_route (Fin 10) (computeBridgeSourceAmount demo_route (Fin 10) (Fin 1)) (cq_creditAmount p) ''uB'' ''uS'' ''opB'' ''opS'' xc_start"
    using demo_numbers(6) by (simp add: executeCrossChainTransfer_def isCrossChainTransferEnabled_def xc_try_def lift_error_def demo_routes src p(1-3)
      funds ready Let_def)
  then show ?thesis using p(4) by blast
qed

lemma demo_completed:
  "\<exists>res s'. executeCrossChainTransfer (demo_world [Inr (BridgeDone None)]) ''u'' SOL_TO_BSC (Fin 10) None None xc_start = (Inr res, s') \<and> xc_rows s' \<noteq> []"
proof -
  obtain c where c: "\<not> c \<le> Fin 0" and e: "executeCrossChainTransfer (demo_world [Inr (BridgeDone None)]) ''u'' SOL_TO_BSC (Fin 10) None None xc_start =
     transfer_funds (demo_world [Inr (BridgeDone None)]) ''u'' demo_route (Fin 10) (computeBridgeSourceAmount demo_route (Fin 10) (Fin 1)) c ''uB'' ''uS'' ''opB'' ''opS'' xc_start"
    using demo_transfer by blast
  obtain res s' where r: "executeCrossChainTransfer (demo_world [Inr (BridgeDone None)]) ''u'' SOL_TO_BSC (Fin 10) None None xc_start = (Inr res, s')"
    unfolding e by (simp add: transfer_funds_def Let_def demo_debit deliver_def demo_credit [OF c] )
  then have "length (xc_rows s') = 1" using transfer_funds_adds_row [OF r [unfolded e]] by (simp add: xc_start_def)
  then show ?thesis using r by auto
qed

theorem transfer_references_fit_status_witness:
  "\<exists>s. xc_step\<^sup>*\<^sup>* xc_start s \<and> xc_rows s \<noteq> [] \<and> distinct (map xt_id (xc_rows s)) \<and> list_all row_ok (xc_rows s)"
proof -
  obtain res s' where r: "executeCrossChainTransfer (demo_world [Inr (BridgeDone None)]) ''u'' SOL_TO_BSC (Fin 10) None None xc_start = (Inr res, s')" "xc_rows s' \<noteq> []"
    using demo_completed by blast
  have "xc_step xc_start s'" by (rule xc_step.transferred [OF r(1)]) (simp add: xc_start_def)
  then have st: "xc_step\<^sup>*\<^sup>* xc_start s'" by simp
  from transfer_references_fit_status [OF st] r(2) st show ?thesis by (intro exI [of _ s']) (simp add: list_all_iff)
qed

text \<open>The user's wallet is short of gas but holds wrapped coins, and has no USDC to transfer.\<close>

definition gas_world :: xc_io where
  "gas_world = (demo_world [])\<lparr>xi_native := (\<lambda>h _. Inr (if h = [] then 5 * 10 ^ 14 else 92 * 10 ^ 13)),
     xi_erc20 := (\<lambda>_ token _. Inr (if token = WBNB_ADDR then 10 ^ 15 else 0))\<rparr>"

theorem refused_transfer_moves_only_gas_witness:
  "\<exists>s' wallet wei. executeCrossChainTransfer gas_world ''u'' BSC_TO_SOL (Fin 10) None None xc_start = (Inl (ShortOfSource ''USDC'' (Fin 0) (Fin 10)), s') \<and>
     xc_rows s' = [] \<and> xc_events s' = [Unwrap wallet wei] \<and> xi_signer gas_world ''u'' = Inr wallet \<and> 0 < wei \<and> wei \<le> 42 * 10 ^ 13"
proof -
  have run: "executeCrossChainTransfer gas_world ''u'' BSC_TO_SOL (Fin 10) None None xc_start =
      (Inl (ShortOfSource ''USDC'' (Fin 0) (Fin 10)), \<lparr>xc_rows = [], xc_events = [Unwrap ''uB'' (42 * 10 ^ 13)]\<rparr>)" by code_simp
  have native: "xi_native gas_world [] a = Inr (5 * 10 ^ 14)" for a by (simp add: gas_world_def)
  from refused_transfer_moves_only_gas [OF run] run show ?thesis by (simp add: xc_start_def native BSC_MIN_NATIVE_GAS_WEI_def)
qed

theorem completed_transfer_debits_then_pays_witness:
  "\<exists>res s' debit pay. executeCrossChainTransfer (demo_world [Inr (BridgeDone None)]) ''u'' SOL_TO_BSC (Fin 10) None None xc_start = (Inr res, s') \<and>
     {debit, pay} \<subseteq> set (xc_events s') \<and> debit_of (demo_world [Inr (BridgeDone None)]) demo_route (Fin 10) ''uB'' ''uS'' ''opB'' ''opS'' debit \<and>
     pays_user demo_route ''uB'' ''uS'' pay"
proof -
  obtain res s' where r: "executeCrossChainTransfer (demo_world [Inr (BridgeDone None)]) ''u'' SOL_TO_BSC (Fin 10) None None xc_start = (Inr res, s')"
    using demo_completed by blast
  from completed_transfer_debits_then_pays [OF r] obtain gas debit es pay fee where
    "xc_events s' = xc_events xc_start @ gas @ [debit] @ es @ [pay] @ fee"
    "debit_of (demo_world [Inr (BridgeDone None)]) demo_route (Fin 10) ''uB'' ''uS'' ''opB'' ''opS'' debit" "pays_user demo_route ''uB'' ''uS'' pay"
    by (auto simp: demo_routes)
  then show ?thesis using r by (intro exI [of _ res] exI [of _ s'] exI [of _ debit] exI [of _ pay]) simp
qed

theorem transfer_preview_within_limits_witness:
  "\<exists>p price. previewCrossChainTransfer (demo_world []) [] ''u'' SOL_TO_BSC (Fin 10) (Some ''USDC'') (Some ''USDC'') = Inr p \<and> Fin 10 * price \<le> Fin 5000"
proof -
  obtain p where p: "previewCrossChainTransfer (demo_world []) [] ''u'' SOL_TO_BSC (Fin 10) (Some ''USDC'') (Some ''USDC'') = Inr p"
    using demo_previewed by blast
  from transfer_preview_within_limits [OF p] p show ?thesis by auto
qed

theorem pair_legs_agree_witness: "\<exists>b l. buildCrossChainPair ''btcb'' = Some (''BTC'', b, l) \<and> bl_symbol b = sl_symbol l"
proof -
  have "\<exists>b l. buildCrossChainPair ''btcb'' = Some (''BTC'', b, l)"
  proof -
    have "map_option fst (buildCrossChainPair ''btcb'') = Some ''BTC''" by code_simp
    then show ?thesis by (cases "buildCrossChainPair ''btcb''") auto
  qed
  then obtain b l where p: "buildCrossChainPair ''btcb'' = Some (''BTC'', b, l)" by blast
  from pair_legs_agree [OF p] p show ?thesis by auto
qed

text \<open>The bridge takes the coins, the wait for it times out, and the retry bridges again.\<close>

lemma demo_parked:
  "\<exists>s1 t. executeCrossChainTransfer (demo_world []) ''u'' SOL_TO_BSC (Fin 10) None None xc_start = (Inl CreditDelayed, s1) \<and>
     find_transfer ''u'' ''t1'' s1 = Some t \<and> xt_status t = CREDIT_PENDING \<and> demo_bridge \<in> set (xc_events s1) \<and>
     resolveCrossChainRoute (xt_direction t) (xt_asset t) (Some (nullish (xt_destAsset t) (xt_asset t))) = Inr demo_route \<and>
     (\<exists>res s2. retryCrossChainCredit (demo_world [Inr (BridgeDone None)]) ''u'' ''t1'' s1 = (Inr res, s2))"
proof -
  obtain c where c: "\<not> c \<le> Fin 0" and e: "executeCrossChainTransfer (demo_world []) ''u'' SOL_TO_BSC (Fin 10) None None xc_start =
     transfer_funds (demo_world []) ''u'' demo_route (Fin 10) (computeBridgeSourceAmount demo_route (Fin 10) (Fin 1)) c ''uB'' ''uS'' ''opB'' ''opS'' xc_start"
    using demo_transfer by blast
  let ?t = "(new_transfer (demo_world []) ''u'' demo_route (Fin 10) c)\<lparr>xt_status := CREDIT_PENDING, xt_debitTxRef := Some ''tx'', xt_error := Some BridgePending\<rparr>"
  define s1 where "s1 = \<lparr>xc_rows = [?t], xc_events = [SolSend ''uS'' ''opS'' SOL_USDC_MINT 10000000 False, demo_bridge]\<rparr>"
  have run: "executeCrossChainTransfer (demo_world []) ''u'' SOL_TO_BSC (Fin 10) None None xc_start = (Inl CreditDelayed, s1)"
    unfolding e by (simp add: transfer_funds_def Let_def demo_debit deliver_def demo_credit [OF c] update_transfer_def update_where_def s1_def xc_start_def new_transfer_def)
  have t: "find_transfer ''u'' ''t1'' s1 = Some ?t" by (simp add: find_transfer_def s1_def new_transfer_def)
  have r: "resolveCrossChainRoute (xt_direction ?t) (xt_asset ?t) (Some (nullish (xt_destAsset ?t) (xt_asset ?t))) = Inr demo_route"
    by (simp add: new_transfer_def demo_route_def demo_routes(2) [unfolded demo_route_def])
  have price: "fetchLegUsdPrice io (leg_binanceSymbol (cr_sourceLeg demo_route)) = Some (Fin 1)" for io
  proof -
    have "to_upper ''USDCUSDT'' = ''USDCUSDT''" by code_simp
    then show ?thesis by (simp add: fetchLegUsdPrice_def leg_binanceSymbol_def demo_route_def usdc_on_sol_def)
  qed
  have f: "xt_status ?t = CREDIT_PENDING" "nonempty (xt_debitTxRef ?t) \<noteq> None" "xt_amount ?t = Fin 10" "xt_creditAmount ?t = c" "xt_id ?t = ''t1''"
    by (simp_all add: new_transfer_def nonempty_def)
  have "\<exists>res s2. retryCrossChainCredit (demo_world [Inr (BridgeDone None)]) ''u'' ''t1'' s1 = (Inr res, s2)"
    using f(2) demo_numbers(6) unfolding retryCrossChainCredit_def executeCrossChainCreditLeg_def t option.case f(1,3,4,5) r
    by (simp add: lift_error_def xc_try_def price deliver_def demo_credit [OF c] Let_def)
  moreover have "demo_bridge \<in> set (xc_events s1)" by (simp add: s1_def)
  ultimately show ?thesis using run t f(1) r by blast
qed

theorem retry_pays_again_witness:
  "\<exists>s1 res s2. executeCrossChainTransfer (demo_world []) ''u'' SOL_TO_BSC (Fin 10) None None xc_start = (Inl CreditDelayed, s1) \<and>
     retryCrossChainCredit (demo_world [Inr (BridgeDone None)]) ''u'' ''t1'' s1 = (Inr res, s2) \<and>
     2 \<le> length (filter (pays_user demo_route ''uB'' ''uS'') (xc_events s2))"
proof -
  obtain s1 t res s2 where r: "executeCrossChainTransfer (demo_world []) ''u'' SOL_TO_BSC (Fin 10) None None xc_start = (Inl CreditDelayed, s1)"
    "find_transfer ''u'' ''t1'' s1 = Some t" "xt_status t = CREDIT_PENDING" "demo_bridge \<in> set (xc_events s1)"
    "resolveCrossChainRoute (xt_direction t) (xt_asset t) (Some (nullish (xt_destAsset t) (xt_asset t))) = Inr demo_route"
    "retryCrossChainCredit (demo_world [Inr (BridgeDone None)]) ''u'' ''t1'' s1 = (Inr res, s2)"
    using demo_parked by blast
  have "xt_status t \<noteq> COMPLETED" using r(3) by simp
  from retry_pays_again [OF r(6,2) this] obtain es pay fee where
    p: "xc_events s2 = xc_events s1 @ es @ [pay] @ fee" "pays_user demo_route ''uB'' ''uS'' pay" using r(5) by auto
  have "pays_user demo_route ''uB'' ''uS'' demo_bridge"
    by (simp add: pays_user_def demo_route_def demo_bridge_def usdc_on_bsc_def bscLiFiToken_def)
  then have "filter (pays_user demo_route ''uB'' ''uS'') (xc_events s1) \<noteq> []" using r(4) by (auto simp: filter_empty_conv)
  then have "1 \<le> length (filter (pays_user demo_route ''uB'' ''uS'') (xc_events s1))" by (cases "filter (pays_user demo_route ''uB'' ''uS'') (xc_events s1)") simp_all
  then have "2 \<le> length (filter (pays_user demo_route ''uB'' ''uS'') (xc_events s2))" using p by simp
  then show ?thesis using r(1,6) by blast
qed

end
