(* ===== verification/BinanceSpot.thy ===== *)
theory BinanceSpot
  imports OrderService LiveOrderSizing PersonalWallet
begin

text \<open>
  Binance spot trading for the routers and desks: the book ticker over its list of endpoints and the quote
  (\<open>trading/binanceSpotQuoteService.ts\<close>), the adapter (\<open>exchange/binanceSpotAdapter.ts\<close>), the balance helpers and the
  symbol resolver, and the market trade with its trade book (\<open>trading/binanceSpotTradeService.ts\<close>). The HTTP answers,
  the keys' decryption and fresh ids are arguments; the state is the symbol rules cache and the trade table.
\<close>

section \<open>Texts\<close>

text \<open>\<open>replace(/USDT$/, '')\<close>, which keeps the letter case, and \<open>replace(/USDT$|USDC$/i, '')\<close>.\<close>

definition drop_suffix :: "string \<Rightarrow> string \<Rightarrow> string" where
  "drop_suffix suf s = (let n = length s - length suf in
     if length suf \<le> length s \<and> drop n s = suf then take n s else s)"

definition drop_suffix_ci :: "string \<Rightarrow> string \<Rightarrow> string" where
  "drop_suffix_ci suf s = (let n = length s - length suf in
     if length suf \<le> length s \<and> to_upper (drop n s) = suf then take n s else s)"

definition ends_with :: "string \<Rightarrow> string \<Rightarrow> bool" where
  "ends_with suf s \<longleftrightarrow> length suf \<le> length s \<and> drop (length s - length suf) s = suf"

definition drop_stable :: "string \<Rightarrow> string" where
  "drop_stable s = (if length s < 4 then s
     else if to_upper (drop (length s - 4) s) \<in> {''USDT'', ''USDC''} then take (length s - 4) s else s)"

section \<open>Book ticker\<close>

record book_ticker =
  bk_bid :: number
  bk_ask :: number
  bk_mid :: number

record ticker_row =
  tr_bidPrice :: "string option"
  tr_askPrice :: "string option"

definition SPOT_ENDPOINTS :: "string list" where
  "SPOT_ENDPOINTS =
     [''https://data-api.binance.vision'', ''https://api3.binance.com'', ''https://api1.binance.com'', ''https://api.binance.com'']"

definition read_ticker :: "ticker_row \<Rightarrow> book_ticker option" where
  "read_ticker row =
     (let bid = parse_float (nullish (tr_bidPrice row) ''NaN''); ask = parse_float (nullish (tr_askPrice row) ''NaN'') in
      if is_finite bid \<and> is_finite ask \<and> Fin 0 < bid \<and> Fin 0 < ask
      then Some \<lparr>bk_bid = bid, bk_ask = ask, bk_mid = (bid + ask) / Fin 2\<rparr> else None)"

text \<open>An endpoint's answer is missing when the request fails or the status is not 200.\<close>

fun try_endpoints :: "(string \<Rightarrow> string \<Rightarrow> ticker_row option) \<Rightarrow> string \<Rightarrow> string list \<Rightarrow> book_ticker option" where
  "try_endpoints answer symbol [] = None"
| "try_endpoints answer symbol (base # rest) =
     (case answer base symbol of None \<Rightarrow> try_endpoints answer symbol rest
      | Some row \<Rightarrow> (case read_ticker row of None \<Rightarrow> try_endpoints answer symbol rest | Some b \<Rightarrow> Some b))"

record spot_env =
  se_baseUrl :: "string option"
  se_ticker :: "string \<Rightarrow> string \<Rightarrow> ticker_row option"
  se_account :: "string \<Rightarrow> string \<Rightarrow> (string \<times> string \<times> string) list signed_send"
  se_order :: "string \<Rightarrow> string \<Rightarrow> remote_order signed_send"
  se_decrypt :: "string \<Rightarrow> string + string"
  se_fetch :: rules_fetch
  se_now :: time
  se_newClientId :: string
  se_newTradeId :: nat
  se_takerFeeBps :: number
  se_minUsdt :: number
  se_col :: "number \<Rightarrow> number"

definition spot_bookTicker :: "spot_env \<Rightarrow> string \<Rightarrow> book_ticker option" where
  "spot_bookTicker env symbol =
     try_endpoints (se_ticker env) symbol
       (case given (se_baseUrl env) of Some u \<Rightarrow> strip_trailing_slash u # SPOT_ENDPOINTS | None \<Rightarrow> SPOT_ENDPOINTS)"

section \<open>Adapter and balances\<close>

record adapter_balance =
  ab_asset :: string
  ab_free :: number
  ab_locked :: number

definition adapter_rows :: "(string \<times> string \<times> string) list \<Rightarrow> adapter_balance list" where
  "adapter_rows rows = map (\<lambda>(a, f, l). \<lparr>ab_asset = a, ab_free = number_or (number_of_string f) (Fin 0),
     ab_locked = number_or (number_of_string l) (Fin 0)\<rparr>) rows"

definition account_rows :: "spot_env \<Rightarrow> connection_row \<Rightarrow> oms_error + (string \<times> string \<times> string) list" where
  "account_rows env c =
     (case se_decrypt env (cn_key c) of Inl m \<Rightarrow> Inl (DecryptFailed m)
      | Inr key \<Rightarrow>
      case se_decrypt env (cn_secret c) of Inl m \<Rightarrow> Inl (DecryptFailed m)
      | Inr sec \<Rightarrow>
      case adapter_getBalances (se_account env key sec) of Inl e \<Rightarrow> Inl (AdapterFailed e) | Inr rows \<Rightarrow> Inr rows)"

definition spot_getBalances :: "spot_env \<Rightarrow> connection_row \<Rightarrow> oms_error + adapter_balance list" where
  "spot_getBalances env c = (case account_rows env c of Inl e \<Rightarrow> Inl e | Inr rows \<Rightarrow> Inr (adapter_rows rows))"

definition freeAsset :: "adapter_balance list \<Rightarrow> string \<Rightarrow> number" where
  "freeAsset balances asset = (case find (\<lambda>b. ab_asset b = asset) balances of None \<Rightarrow> Fin 0 | Some b \<Rightarrow> ab_free b)"

definition BINANCE_QUOTE_STABLES :: "string list" where
  "BINANCE_QUOTE_STABLES = [''USDT'', ''USDC'', ''BUSD'', ''FDUSD'']"

definition sumQuoteStables :: "adapter_balance list \<Rightarrow> number" where
  "sumQuoteStables balances = sum_numbers (Fin 0) (map (freeAsset balances) BINANCE_QUOTE_STABLES)"

definition getFreeUsdt :: "spot_env \<Rightarrow> connection_row \<Rightarrow> oms_error + number" where
  "getFreeUsdt env c = (case spot_getBalances env c of Inl e \<Rightarrow> Inl e | Inr bs \<Rightarrow> Inr (freeAsset bs ''USDT''))"

record adapter_quote =
  aq_symbol :: string
  aq_bid :: "number option"
  aq_ask :: "number option"
  aq_mid :: "number option"
  aq_spreadBps :: "number option"

definition toSymbol :: "string \<Rightarrow> string" where
  "toSymbol pair = to_upper (remove_first (CHR ''/'') pair)"

definition getQuote :: "spot_env \<Rightarrow> string \<Rightarrow> adapter_quote" where
  "getQuote env pairOrSymbol =
     (let symbol = toSymbol pairOrSymbol; book = spot_bookTicker env symbol;
          bid = map_option bk_bid book; ask = map_option bk_ask book;
          mid = (case (bid, ask) of
             (Some b, Some a) \<Rightarrow> if Fin 0 < b \<and> Fin 0 < a then Some ((b + a) / Fin 2) else Some b
           | (Some b, None) \<Rightarrow> Some b | (None, a) \<Rightarrow> a);
          spread = (case (bid, ask, mid) of
             (Some b, Some a, Some m) \<Rightarrow>
               if Fin 0 < m then Some (math_round ((a - b) / m * Fin 10000 * Fin 10) / Fin 10) else None
           | _ \<Rightarrow> None) in
      \<lparr>aq_symbol = symbol, aq_bid = bid, aq_ask = ask, aq_mid = mid, aq_spreadBps = spread\<rparr>)"

definition sizeLiveOrder :: "LiveOrderSizeInput \<Rightarrow> LiveOrderSizeResult" where
  "sizeLiveOrder input = computeLiveOrderSize input"

section \<open>Symbol resolver\<close>

datatype quote_asset = QUSDT | QUSDC

fun quote_name :: "quote_asset \<Rightarrow> string" where
  "quote_name QUSDT = ''USDT''"
| "quote_name QUSDC = ''USDC''"

record ResolvedCexSymbol =
  rs_symbol :: string
  rs_baseAsset :: string
  rs_quoteAsset :: quote_asset
  rs_pair :: string

definition baseFromCexSymbol :: "string \<Rightarrow> string" where
  "baseFromCexSymbol raw = to_upper (drop_stable raw)"

definition resolved_as :: "string \<Rightarrow> quote_asset \<Rightarrow> ResolvedCexSymbol" where
  "resolved_as base q = \<lparr>rs_symbol = base @ quote_name q, rs_baseAsset = base, rs_quoteAsset = q,
     rs_pair = base @ ''/'' @ quote_name q\<rparr>"

definition resolveCexTradeSymbol ::
  "string \<Rightarrow> number \<Rightarrow> number \<Rightarrow> order_side \<Rightarrow> number option \<Rightarrow> ResolvedCexSymbol" where
  "resolveCexTradeSymbol rawSymbol usdt usdc side spendQuoteUsd =
     (let base = baseFromCexSymbol rawSymbol; need = nullish spendQuoteUsd (Fin 0) in
      if side = ExchangeAccess.BUY \<and> Fin 0 < need \<and> need \<le> usdt then resolved_as base QUSDT
      else if side = ExchangeAccess.BUY \<and> Fin 0 < need \<and> need \<le> usdc then resolved_as base QUSDC
      else if usdt < usdc \<and> Fin 5 \<le> usdc then resolved_as base QUSDC
      else resolved_as base QUSDT)"

section \<open>Quote of the smart router\<close>

datatype spot_reason =
    BookUnavailable
  | ConnectBinance
  | BalanceFailed oms_error
  | InsufficientUsdt string string
  | InsufficientBase string string string

record BinanceVenueQuote =
  vq_available :: bool
  vq_reason :: "spot_reason option"
  vq_symbol :: string
  vq_side :: order_side
  vq_executablePrice :: "number option"
  vq_amountIn :: number
  vq_amountOut :: number
  vq_mid :: "number option"
  vq_bid :: "number option"
  vq_ask :: "number option"
  vq_feeBps :: number
  vq_usdtFree :: "number option"
  vq_baseFree :: "number option"
  vq_baseAsset :: string

definition getUserBinanceConnection :: "user_id \<Rightarrow> connection_row list \<Rightarrow> connection_row option" where
  "getUserBinanceConnection u cs =
     find_first (\<lambda>c. cn_user c = u \<and> cn_exchange c = ''BINANCE'' \<and> cn_active c \<and> cn_canTrade c) id cs"

text \<open>The loop over the balances keeps the last row of an asset.\<close>

definition last_free :: "(string \<times> string \<times> string) list \<Rightarrow> string \<Rightarrow> number option" where
  "last_free rows asset = foldl (\<lambda>v (a, f, _). if a = asset then Some (parse_float f) else v) None rows"

definition below_need :: "number option \<Rightarrow> number \<Rightarrow> bool" where
  "below_need free need = (case free of None \<Rightarrow> False | Some f \<Rightarrow> f < need * lit (999/1000))"

definition quoteBinanceSpotForUser ::
  "spot_env \<Rightarrow> connection_row list \<Rightarrow> user_id \<Rightarrow> string \<Rightarrow> order_side \<Rightarrow> number \<Rightarrow> BinanceVenueQuote" where
  "quoteBinanceSpotForUser env cs u rawSymbol side amount =
     (let symbol = to_upper rawSymbol; baseAsset = drop_suffix_ci ''USDT'' symbol;
          feeMul = se_takerFeeBps env / Fin 10000; book = spot_bookTicker env symbol;
          empty = \<lparr>vq_available = False, vq_reason = Some BookUnavailable, vq_symbol = symbol, vq_side = side,
            vq_executablePrice = None, vq_amountIn = amount, vq_amountOut = Fin 0, vq_mid = map_option bk_mid book,
            vq_bid = map_option bk_bid book, vq_ask = map_option bk_ask book, vq_feeBps = se_takerFeeBps env,
            vq_usdtFree = None, vq_baseFree = None, vq_baseAsset = baseAsset\<rparr> in
      case book of None \<Rightarrow> empty
      | Some bk \<Rightarrow>
      case getUserBinanceConnection u cs of None \<Rightarrow> empty\<lparr>vq_reason := Some ConnectBinance\<rparr>
      | Some c \<Rightarrow>
      case account_rows env c of Inl e \<Rightarrow> empty\<lparr>vq_reason := Some (BalanceFailed e)\<rparr>
      | Inr rows \<Rightarrow>
        let usdtFree = last_free rows ''USDT'';
            baseFree = last_free rows baseAsset;
            read = empty\<lparr>vq_usdtFree := usdtFree, vq_baseFree := baseFree\<rparr> in
        if side = ExchangeAccess.BUY then
          (if below_need usdtFree amount
           then read\<lparr>vq_reason := Some (InsufficientUsdt (to_fixed amount 2) (to_fixed (nullish usdtFree NaN) 2))\<rparr>
           else let executablePrice = bk_ask bk * (Fin 1 + feeMul) in
             read\<lparr>vq_available := True, vq_reason := None, vq_executablePrice := Some executablePrice,
                  vq_amountOut := amount / executablePrice\<rparr>)
        else
          (if below_need baseFree amount
           then read\<lparr>vq_reason := Some (InsufficientBase baseAsset (number_to_string amount)
                  (case baseFree of None \<Rightarrow> ''0'' | Some b \<Rightarrow> to_fixed b 6))\<rparr>
           else let executablePrice = bk_bid bk * (Fin 1 - feeMul) in
             read\<lparr>vq_available := True, vq_reason := None, vq_executablePrice := Some executablePrice,
                  vq_amountOut := amount * executablePrice\<rparr>))"

section \<open>The market trade and its book\<close>

datatype spot_error =
    NotConnected
  | SpotDecryptFailed string
  | BelowMinimumBuy number
  | RulesFailed exec_error
  | SpotLotRefused exec_error
  | SpotOrderFailed adapter_error
  | NoOpenSpotPosition string
  | NoQuantityRecorded string
  | CannotSell spot_reason

record spot_state =
  sp_rules :: rules_cache
  sp_trades :: "dex_trade list"
  sp_orders :: "order_request list"

definition CEX_STRATEGY :: string where "CEX_STRATEGY = ''CEX Binance Spot''"

text \<open>This cache throws when the exchange does not answer, also with an old entry at hand.\<close>

definition getParsedSymbolRules :: "spot_env \<Rightarrow> string \<Rightarrow> rules_cache \<Rightarrow> (exec_error + ParsedSymbolRules) \<times> rules_cache" where
  "getParsedSymbolRules env symbol cache =
     (let load = (case fetchRules (se_fetch env) symbol of Inl e \<Rightarrow> (Inl e, cache)
                  | Inr r \<Rightarrow> (Inr r, cache(symbol \<mapsto> (r, se_now env)))) in
      case cache symbol of Some (r, t) \<Rightarrow> if se_now env - t < TTL_MS then (Inr r, cache) else load | None \<Rightarrow> load)"

definition spot_request :: "spot_env \<Rightarrow> string \<Rightarrow> order_side \<Rightarrow> string option \<Rightarrow> string option \<Rightarrow> order_request" where
  "spot_request env symbol side qty quoteQty =
     \<lparr>q_symbol = symbol, q_side = side, q_type = MARKET, q_quantity = qty, q_quoteOrderQty = quoteQty, q_price = None,
      q_timeInForce = None, q_clientOrderId = se_newClientId env\<rparr>"

definition send_spot :: "spot_env \<Rightarrow> string \<Rightarrow> string \<Rightarrow> order_request \<Rightarrow> spot_state \<Rightarrow> (spot_error + remote_order) \<times> spot_state" where
  "send_spot env key sec req s =
     (case adapter_placeOrder (se_order env key sec) req of Inl e \<Rightarrow> (Inl (SpotOrderFailed e), s)
      | Inr remote \<Rightarrow> (Inr remote, s\<lparr>sp_orders := sp_orders s @ [req]\<rparr>))"

definition place_spot ::
  "spot_env \<Rightarrow> string \<Rightarrow> string \<Rightarrow> string \<Rightarrow> order_side \<Rightarrow> number \<Rightarrow> spot_state \<Rightarrow> (spot_error + remote_order) \<times> spot_state" where
  "place_spot env key sec symbol side amount s =
     (if side = ExchangeAccess.BUY then
        (if amount < se_minUsdt env then (Inl (BelowMinimumBuy (se_minUsdt env)), s)
         else send_spot env key sec (spot_request env symbol side None (Some (to_fixed amount 2))) s)
      else
        (case getParsedSymbolRules env symbol (sp_rules s) of
           (Inl e, cache) \<Rightarrow> (Inl (RulesFailed e), s\<lparr>sp_rules := cache\<rparr>)
         | (Inr rules, cache) \<Rightarrow>
             (case adjustQuantityToLotSize amount rules of Inl e \<Rightarrow> (Inl (SpotLotRefused e), s\<lparr>sp_rules := cache\<rparr>)
              | Inr qty \<Rightarrow> send_spot env key sec (spot_request env symbol side (Some qty) None) (s\<lparr>sp_rules := cache\<rparr>))))"

definition spot_fill :: "spot_env \<Rightarrow> string \<Rightarrow> order_side \<Rightarrow> number \<Rightarrow> remote_order \<Rightarrow> number \<times> number" where
  "spot_fill env symbol side amount remote =
     (let executedQty = parse_float (nullish (rm_executedQty remote) ''0'');
          quoteQty = parse_float (nullish (rm_cummulativeQuoteQty remote) ''0'');
          allocationUsd = (if side = ExchangeAccess.BUY \<and> \<not> Fin 0 < quoteQty then amount else quoteQty);
          price = (if lit (1 / 10 ^ 18) < executedQty then allocationUsd / executedQty else Fin 0) in
      (allocationUsd,
       if \<not> is_finite price \<or> price \<le> Fin 0
       then (case spot_bookTicker env symbol of None \<Rightarrow> Fin 0 | Some b \<Rightarrow> bk_mid b) else price))"

definition spot_row :: "spot_env \<Rightarrow> user_id \<Rightarrow> string \<Rightarrow> number \<Rightarrow> number \<Rightarrow> trade_status \<Rightarrow> dex_trade" where
  "spot_row env u pair allocationUsd price st =
     \<lparr>dt_id = se_newTradeId env, dt_userId = u, dt_strategyId = CEX_STRATEGY, dt_pair = pair,
      dt_entryPrice = se_col env price, dt_exitPrice = None, dt_pnl = None,
      dt_allocationUsd = (if Fin 0 < allocationUsd then Some (se_col env allocationUsd) else None),
      dt_status = st, dt_createdAt = se_now env\<rparr>"

text \<open>Booking a fill: a buy opens a row, a sale closes the oldest open row of the pair or, with none,
  leaves a closed row.\<close>

definition book_spot :: "spot_env \<Rightarrow> user_id \<Rightarrow> string \<Rightarrow> order_side \<Rightarrow> number \<Rightarrow> number \<Rightarrow> dex_trade list \<Rightarrow> dex_trade \<times> dex_trade list" where
  "book_spot env u pair side allocationUsd price ts =
     (if side = ExchangeAccess.BUY then
        (let t = spot_row env u pair allocationUsd price OPEN in (t, ts @ [t]))
      else
        (case find_first (matches_open u CEX_STRATEGY pair) (order_asc dt_createdAt) ts of
           Some p \<Rightarrow> (closed_lot (se_col env) price p,
             update_where (\<lambda>t. dt_id t = dt_id p) (closed_lot (se_col env) price) ts)
         | None \<Rightarrow> (let t = spot_row env u pair allocationUsd price CLOSED in (t, ts @ [t]))))"

definition executeBinanceSpotTrade ::
  "spot_env \<Rightarrow> connection_row list \<Rightarrow> user_id \<Rightarrow> string \<Rightarrow> order_side \<Rightarrow> number \<Rightarrow> spot_state \<Rightarrow> (spot_error + dex_trade) \<times> spot_state" where
  "executeBinanceSpotTrade env cs u rawSymbol side amount s =
     (let symbol = to_upper rawSymbol; pair = drop_suffix_ci ''USDT'' symbol @ ''/USDT'' in
      case getUserBinanceConnection u cs of None \<Rightarrow> (Inl NotConnected, s)
      | Some c \<Rightarrow>
      case se_decrypt env (cn_key c) of Inl m \<Rightarrow> (Inl (SpotDecryptFailed m), s)
      | Inr key \<Rightarrow>
      case se_decrypt env (cn_secret c) of Inl m \<Rightarrow> (Inl (SpotDecryptFailed m), s)
      | Inr sec \<Rightarrow>
      and_then (place_spot env key sec symbol side amount s) (\<lambda>remote s1.
        case spot_fill env symbol side amount remote of
          (allocationUsd, price) \<Rightarrow>
            (case book_spot env u pair side allocationUsd price (sp_trades s1) of
               (t, ts) \<Rightarrow> (Inr t, s1\<lparr>sp_trades := ts\<rparr>))))"

definition lot_quantity_of :: "dex_trade list \<Rightarrow> number" where
  "lot_quantity_of ts = foldl (\<lambda>sum t.
     let entry = dt_entryPrice t; alloc = nullish (dt_allocationUsd t) (Fin 0) in
     if Fin 0 < entry \<and> Fin 0 < alloc then sum + alloc / entry else sum) (Fin 0) ts"

definition cancel_spot_rows :: "dex_trade list \<Rightarrow> spot_state \<Rightarrow> spot_state" where
  "cancel_spot_rows rest s = s\<lparr>sp_trades := cancel_rows (map dt_id rest) (sp_trades s)\<rparr>"

definition sellBinanceOpenPosition ::
  "spot_env \<Rightarrow> connection_row list \<Rightarrow> user_id \<Rightarrow> string \<Rightarrow> spot_state \<Rightarrow> (spot_error + dex_trade) \<times> spot_state" where
  "sellBinanceOpenPosition env cs u symbol s =
     (let sym = to_upper symbol; pair = sym @ ''/USDT''; binanceSymbol = sym @ ''USDT'';
          openTrades = find_many (matches_open u CEX_STRATEGY pair) (order_asc dt_createdAt) (sp_trades s);
          lotQty = lot_quantity_of openTrades in
      if openTrades = [] then (Inl (NoOpenSpotPosition sym), s)
      else if lotQty \<le> Fin 0 then (Inl (NoQuantityRecorded sym), s)
      else
        let q = quoteBinanceSpotForUser env cs u binanceSymbol ExchangeAccess.SELL lotQty in
        if \<not> vq_available q then (Inl (CannotSell (nullish (vq_reason q) BookUnavailable)), s)
        else
          let sellQty = (case vq_baseFree q of
                Some f \<Rightarrow> if Fin 0 < f then math_min lotQty (f * lit (999/1000)) else lotQty
              | None \<Rightarrow> lotQty) in
          and_then (executeBinanceSpotTrade env cs u binanceSymbol ExchangeAccess.SELL sellQty s)
            (\<lambda>t s1. (Inr t, cancel_spot_rows (tl openTrades) s1)))"

section \<open>Selling a position\<close>

text \<open>The price a fill is booked at: quote over executed quantity, where the answer of the exchange has both.\<close>

definition spot_filled_at :: "remote_order \<Rightarrow> number \<Rightarrow> bool" where
  "spot_filled_at remote price \<longleftrightarrow>
     (let executed = parse_float (case rm_executedQty remote of None \<Rightarrow> ''0'' | Some q \<Rightarrow> q);
          quote = parse_float (case rm_cummulativeQuoteQty remote of None \<Rightarrow> ''0'' | Some q \<Rightarrow> q) in
      lit (1 / 10 ^ 18) < executed \<longrightarrow> is_finite (quote / executed) \<longrightarrow> Fin 0 < quote / executed \<longrightarrow> price = quote / executed)"

lemma spot_fill_price: "spot_filled_at remote (snd (spot_fill env symbol ExchangeAccess.SELL amount remote))"
proof -
  have "\<not> x \<le> Fin 0" if "Fin 0 < x" for x using that by (cases x) auto
  then show ?thesis by (auto simp: spot_filled_at_def spot_fill_def nullish_def Let_def)
qed

lemma place_spot_sell:
  assumes "place_spot env key sec symbol ExchangeAccess.SELL amount s = (Inr remote, s1)"
  shows "sp_trades s1 = sp_trades s \<and> (\<exists>rules qty. fst (getParsedSymbolRules env symbol (sp_rules s)) = Inr rules \<and>
    adjustQuantityToLotSize amount rules = Inr qty \<and>
    adapter_placeOrder (se_order env key sec) (spot_request env symbol ExchangeAccess.SELL (Some qty) None) = Inr remote \<and>
    sp_orders s1 = sp_orders s @ [spot_request env symbol ExchangeAccess.SELL (Some qty) None])"
  using assms by (auto simp: place_spot_def send_spot_def split: prod.splits sum.splits)

lemma executed_spot_sale:
  assumes "executeBinanceSpotTrade env cs u rawSymbol ExchangeAccess.SELL amount s = (Inr t, s')"
    and "find_first (matches_open u CEX_STRATEGY (drop_suffix_ci ''USDT'' (to_upper rawSymbol) @ ''/USDT'')) (order_asc dt_createdAt) (sp_trades s) = Some p"
  obtains rules qty key sec remote price where "fst (getParsedSymbolRules env (to_upper rawSymbol) (sp_rules s)) = Inr rules"
    "adjustQuantityToLotSize amount rules = Inr qty"
    "adapter_placeOrder (se_order env key sec) (spot_request env (to_upper rawSymbol) ExchangeAccess.SELL (Some qty) None) = Inr remote"
    "spot_filled_at remote price"
    "sp_orders s' = sp_orders s @ [spot_request env (to_upper rawSymbol) ExchangeAccess.SELL (Some qty) None]"
    "sp_trades s' = update_where (\<lambda>x. dt_id x = dt_id p) (closed_lot (se_col env) price) (sp_trades s)"
proof -
  obtain key sec where "and_then (place_spot env key sec (to_upper rawSymbol) ExchangeAccess.SELL amount s) (\<lambda>remote s1.
        case spot_fill env (to_upper rawSymbol) ExchangeAccess.SELL amount remote of
          (allocationUsd, price) \<Rightarrow>
            (case book_spot env u (drop_suffix_ci ''USDT'' (to_upper rawSymbol) @ ''/USDT'') ExchangeAccess.SELL allocationUsd price (sp_trades s1) of
               (t, ts) \<Rightarrow> (Inr t, s1\<lparr>sp_trades := ts\<rparr>))) = (Inr t, s')"
    using assms(1) by (auto simp: executeBinanceSpotTrade_def Let_def split: option.splits sum.splits)
  then obtain remote s1 where pl: "place_spot env key sec (to_upper rawSymbol) ExchangeAccess.SELL amount s = (Inr remote, s1)"
    and b: "(case spot_fill env (to_upper rawSymbol) ExchangeAccess.SELL amount remote of
          (allocationUsd, price) \<Rightarrow>
            (case book_spot env u (drop_suffix_ci ''USDT'' (to_upper rawSymbol) @ ''/USDT'') ExchangeAccess.SELL allocationUsd price (sp_trades s1) of
               (t, ts) \<Rightarrow> (Inr t :: spot_error + dex_trade, s1\<lparr>sp_trades := ts\<rparr>))) = (Inr t, s')"
    unfolding and_then_Inr by (elim exE conjE) (rule that)
  obtain alloc price where f: "spot_fill env (to_upper rawSymbol) ExchangeAccess.SELL amount remote = (alloc, price)" by fastforce
  have fp: "spot_filled_at remote price" using spot_fill_price [of remote env "to_upper rawSymbol" amount] by (simp add: f)
  from place_spot_sell [OF pl] obtain rules qty where q: "sp_trades s1 = sp_trades s"
    "fst (getParsedSymbolRules env (to_upper rawSymbol) (sp_rules s)) = Inr rules" "adjustQuantityToLotSize amount rules = Inr qty"
    "adapter_placeOrder (se_order env key sec) (spot_request env (to_upper rawSymbol) ExchangeAccess.SELL (Some qty) None) = Inr remote"
    "sp_orders s1 = sp_orders s @ [spot_request env (to_upper rawSymbol) ExchangeAccess.SELL (Some qty) None]" by blast
  have "s' = s1\<lparr>sp_trades := update_where (\<lambda>x. dt_id x = dt_id p) (closed_lot (se_col env) price) (sp_trades s)\<rparr>"
    using b assms(2) by (simp add: f book_spot_def q(1))
  then show thesis using q fp by (intro that [of rules qty key sec remote price]) simp_all
qed

lemma drop_quote: "drop_suffix_ci ''USDT'' (to_upper (to_upper sy @ ''USDT'')) = to_upper sy"
proof -
  have "to_upper (to_upper sy @ ''USDT'') = to_upper (to_upper sy) @ to_upper ''USDT''" by (simp add: to_upper_def)
  moreover have "to_upper ''USDT'' = ''USDT''" by code_simp
  ultimately show ?thesis by (simp add: drop_suffix_ci_def)
qed

text \<open>The open rows of a position, the quantity they book, and the order of its sale, told without the code's helpers.\<close>

definition spot_open :: "user_id \<Rightarrow> string \<Rightarrow> dex_trade \<Rightarrow> bool" where
  "spot_open u symbol x \<longleftrightarrow> dt_userId x = u \<and> dt_strategyId x = ''CEX Binance Spot'' \<and> dt_pair x = to_upper symbol @ ''/USDT'' \<and>
     dt_status x = OPEN"

definition booked_quantity :: "user_id \<Rightarrow> string \<Rightarrow> dex_trade list \<Rightarrow> number" where
  "booked_quantity u symbol rows =
     (let alloc = (\<lambda>x. case dt_allocationUsd x of None \<Rightarrow> Fin 0 | Some a \<Rightarrow> a) in
      foldl (+) (Fin 0) (map (\<lambda>x. alloc x / dt_entryPrice x)
        (filter (\<lambda>x. Fin 0 < dt_entryPrice x \<and> Fin 0 < alloc x) (order_asc dt_createdAt (filter (spot_open u symbol) rows)))))"

definition spot_sale_order :: "spot_env \<Rightarrow> string \<Rightarrow> string \<Rightarrow> order_request" where
  "spot_sale_order env symbol qty =
     \<lparr>q_symbol = to_upper (to_upper symbol @ ''USDT''), q_side = ExchangeAccess.SELL, q_type = MARKET, q_quantity = Some qty,
      q_quoteOrderQty = None, q_price = None, q_timeInForce = None, q_clientOrderId = se_newClientId env\<rparr>"

lemma spot_open_matches: "matches_open u CEX_STRATEGY (to_upper symbol @ ''/USDT'') = spot_open u symbol"
  by (auto simp: matches_open_def spot_open_def CEX_STRATEGY_def)

lemma booked_fold: "foldl (\<lambda>sum t.
     let entry = dt_entryPrice t; alloc = nullish (dt_allocationUsd t) (Fin 0) in
     if Fin 0 < entry \<and> Fin 0 < alloc then sum + alloc / entry else sum) a ts =
   foldl (+) a (map (\<lambda>x. nullish (dt_allocationUsd x) (Fin 0) / dt_entryPrice x)
     (filter (\<lambda>x. Fin 0 < dt_entryPrice x \<and> Fin 0 < nullish (dt_allocationUsd x) (Fin 0)) ts))"
  by (induction ts arbitrary: a) (simp_all add: Let_def)

lemma booked_lot: "lot_quantity_of (find_many (spot_open u symbol) (order_asc dt_createdAt) rows) = booked_quantity u symbol rows"
  unfolding lot_quantity_of_def booked_fold booked_quantity_def find_many_def by (simp add: nullish_def Let_def)

lemma cancel_rows_map: "cancel_rows is ts = map (\<lambda>x. if dt_id x \<in> set is then x\<lparr>dt_status := CANCELLED\<rparr> else x) ts"
proof (induction "is" arbitrary: ts)
  case Nil
  then show ?case by (simp add: cancel_rows_def)
next
  case (Cons i "is")
  have "cancel_rows (i # is) ts = cancel_rows is (update_where (\<lambda>r. dt_id r = i) (\<lambda>r. r\<lparr>dt_status := CANCELLED\<rparr>) ts)"
    by (simp add: cancel_rows_def)
  then show ?case by (simp add: Cons.IH update_where_def)
qed

lemma distinct_ids_order: "distinct (map f xs) \<Longrightarrow> distinct (map f (order_asc k (filter p xs)))"
  using distinct_map_filter [of f xs p] by (simp add: order_asc_def distinct_map)

text \<open>C12: Selling the position of a symbol, where row ids are unique. One market sale is sent: the lot-size adjustment, by the
  rules of that symbol, of what the open rows add up to, cut to 99.9 percent of the free balance when the quote knows a
  positive one that is smaller (the adjustment itself may raise a quantity below the exchange's least lot). The oldest open
  row of the position is closed at the price of that very order's fill, with its profit; every other open row of the position
  is cancelled; every other row stays as it was.\<close>

theorem spot_position_sale:
  assumes "sellBinanceOpenPosition env cs u symbol s = (Inr t, s')" "distinct (map dt_id (sp_trades s))"
  shows "\<exists>p rules qty key sec remote price.
    p \<in> set (sp_trades s) \<and> spot_open u symbol p \<and> (\<forall>x \<in> set (sp_trades s). spot_open u symbol x \<longrightarrow> dt_createdAt p \<le> dt_createdAt x) \<and>
    fst (getParsedSymbolRules env (to_upper (to_upper symbol @ ''USDT'')) (sp_rules s)) = Inr rules \<and>
    (let booked = booked_quantity u symbol (sp_trades s);
         free = vq_baseFree (quoteBinanceSpotForUser env cs u (to_upper symbol @ ''USDT'') ExchangeAccess.SELL booked) in
     adjustQuantityToLotSize
       (case free of None \<Rightarrow> booked | Some f \<Rightarrow> if Fin 0 < f then math_min booked (f * lit (999/1000)) else booked) rules = Inr qty) \<and>
    sp_orders s' = sp_orders s @ [spot_sale_order env symbol qty] \<and>
    adapter_placeOrder (se_order env key sec) (spot_sale_order env symbol qty) = Inr remote \<and> spot_filled_at remote price \<and>
    sp_trades s' = map (\<lambda>x. if dt_id x = dt_id p then sold_row (se_col env) price x
        else if spot_open u symbol x then x\<lparr>dt_status := CANCELLED\<rparr> else x) (sp_trades s)"
proof -
  define ots where "ots = find_many (spot_open u symbol) (order_asc dt_createdAt) (sp_trades s)"
  define booked where "booked = booked_quantity u symbol (sp_trades s)"
  define free where "free = vq_baseFree (quoteBinanceSpotForUser env cs u (to_upper symbol @ ''USDT'') ExchangeAccess.SELL booked)"
  define amount where "amount = (case free of None \<Rightarrow> booked | Some f \<Rightarrow> if Fin 0 < f then math_min booked (f * lit (999/1000)) else booked)"
  have lot: "lot_quantity_of ots = booked" by (simp add: ots_def booked_def booked_lot)
  have ne: "ots \<noteq> []" and run: "and_then (executeBinanceSpotTrade env cs u (to_upper symbol @ ''USDT'') ExchangeAccess.SELL amount s)
      (\<lambda>t s1. (Inr t, cancel_spot_rows (tl ots) s1)) = (Inr t, s')"
    using assms(1) unfolding sellBinanceOpenPosition_def Let_def spot_open_matches ots_def [symmetric] lot amount_def free_def
    by (auto split: if_splits option.split option.splits)
  obtain s1 where e: "executeBinanceSpotTrade env cs u (to_upper symbol @ ''USDT'') ExchangeAccess.SELL amount s = (Inr t, s1)"
    and s': "s' = cancel_spot_rows (tl ots) s1" using run by (auto simp: and_then_Inr)
  obtain p os where os: "ots = p # os" using ne by (cases ots) auto
  have first: "find_first (spot_open u symbol) (order_asc dt_createdAt) (sp_trades s) = Some p"
    using os by (simp add: find_first_def ots_def)
  note oldest = oldest_first [OF first]
  have ids: "distinct (map dt_id ots)" unfolding ots_def find_many_def by (rule distinct_ids_order [OF assms(2)])
  have set_os: "set ots = {x \<in> set (sp_trades s). spot_open u symbol x}" by (auto simp: ots_def find_many_def)
  have tail: "dt_id x \<in> dt_id ` set os \<longleftrightarrow> spot_open u symbol x" if "x \<in> set (sp_trades s)" "dt_id x \<noteq> dt_id p" for x
  proof
    assume "dt_id x \<in> dt_id ` set os"
    then obtain y where y: "y \<in> set os" "dt_id x = dt_id y" by blast
    then have "y \<in> set (sp_trades s)" "spot_open u symbol y" using set_os os by auto
    then show "spot_open u symbol x" using assms(2) that(1) y(2) by (auto simp: distinct_map dest: inj_onD)
  next
    assume "spot_open u symbol x"
    then have "x \<in> set ots" using that(1) set_os by simp
    then show "dt_id x \<in> dt_id ` set os" using that(2) os by auto
  qed
  obtain rules qty key sec remote price where x: "fst (getParsedSymbolRules env (to_upper (to_upper symbol @ ''USDT'')) (sp_rules s)) = Inr rules"
    "adjustQuantityToLotSize amount rules = Inr qty"
    "adapter_placeOrder (se_order env key sec) (spot_sale_order env symbol qty) = Inr remote" "spot_filled_at remote price"
    "sp_orders s1 = sp_orders s @ [spot_sale_order env symbol qty]"
    "sp_trades s1 = update_where (\<lambda>r. dt_id r = dt_id p) (closed_lot (se_col env) price) (sp_trades s)"
    using executed_spot_sale [OF e, unfolded drop_quote spot_open_matches, OF first] unfolding spot_request_def spot_sale_order_def by metis
  have ids': "dt_id p \<notin> dt_id ` set os" using ids os by simp
  have "sp_trades s' = map (\<lambda>x. if dt_id x = dt_id p then sold_row (se_col env) price x
        else if spot_open u symbol x then x\<lparr>dt_status := CANCELLED\<rparr> else x) (sp_trades s)"
    unfolding s' cancel_spot_rows_def os using ids' tail
    by (auto simp: cancel_rows_map x(6) update_where_def closed_is_sold sold_row_def Let_def)
  moreover have "sp_orders s' = sp_orders s @ [spot_sale_order env symbol qty]" using x(5) s' by (simp add: cancel_spot_rows_def)
  ultimately show ?thesis using x(1-4) oldest unfolding amount_def free_def booked_def Let_def by blast
qed

definition demo_spot :: spot_env where
  "demo_spot = \<lparr>se_baseUrl = None, se_ticker = (\<lambda>_ _. Some \<lparr>tr_bidPrice = Some ''8'', tr_askPrice = Some ''8''\<rparr>),
     se_account = (\<lambda>_ _ _ _ _. Inr [(''USDT'', ''100'', ''0''), (''BTC'', ''10'', ''0'')]),
     se_order = (\<lambda>_ _ _ _ _. Inr \<lparr>rm_status = ''FILLED'', rm_orderId = ''9'', rm_price = None, rm_executedQty = Some ''2'',
        rm_cummulativeQuoteQty = Some ''16''\<rparr>), se_decrypt = Inr, se_fetch = demo_fetch, se_now = 7,
     se_newClientId = ''c'', se_newTradeId = 1, se_takerFeeBps = Fin 0, se_minUsdt = Fin 5, se_col = id\<rparr>"

definition demo_spot_state :: "dex_trade list \<Rightarrow> spot_state" where
  "demo_spot_state ts = \<lparr>sp_rules = Map.empty, sp_trades = ts, sp_orders = []\<rparr>"

definition demo_spot_row :: dex_trade where
  "demo_spot_row = \<lparr>dt_id = 4, dt_userId = ''u'', dt_strategyId = CEX_STRATEGY, dt_pair = ''BTC/USDT'', dt_entryPrice = Fin 4,
     dt_exitPrice = None, dt_pnl = None, dt_allocationUsd = Some (Fin 8), dt_status = OPEN, dt_createdAt = 1\<rparr>"

lemma demo_spot_sale:
  "(case sellBinanceOpenPosition demo_spot [demo_connection] ''u'' ''btc'' (demo_spot_state [demo_spot_row]) of
      (Inl _, _) \<Rightarrow> False | (Inr t, _) \<Rightarrow> dt_exitPrice t = Some (Fin 8))"
  by code_simp

theorem spot_position_sale_witness:
  "\<exists>price. sp_trades (snd (sellBinanceOpenPosition demo_spot [demo_connection] ''u'' ''btc'' (demo_spot_state [demo_spot_row]))) =
     [sold_row id price demo_spot_row]"
proof -
  let ?r = "sellBinanceOpenPosition demo_spot [demo_connection] ''u'' ''btc'' (demo_spot_state [demo_spot_row])"
  obtain t s' where r: "?r = (Inr t, s')" using demo_spot_sale by (auto split: prod.splits sum.splits)
  have "distinct (map dt_id (sp_trades (demo_spot_state [demo_spot_row])))" "sp_trades (demo_spot_state [demo_spot_row]) = [demo_spot_row]"
    "se_col demo_spot = id" by (simp_all add: demo_spot_state_def demo_spot_def)
  then show ?thesis using spot_position_sale [OF r] r by auto
qed

end
