(* ===== verification/SmartRouter.thy ===== *)
theory SmartRouter
  imports BinanceSpot
begin

text \<open>
  The smart execution router, \<open>trading/executionRouterService.ts\<close>: quotes of both venues, the choice of the
  better one, the price cap, and the execution on the chosen venue. The 1inch preview and swap are
  arguments; the swap runs on a state of its own.
\<close>

section \<open>Quotes\<close>

datatype execution_venue = Binance | OneInchBsc

datatype venue_reason = SpotReason spot_reason | PreviewMessage string | OneInchUnavailable

record VenueQuoteSummary =
  vs_available :: bool
  vs_reason :: "venue_reason option"
  vs_executablePrice :: "number option"
  vs_amountIn :: number
  vs_amountOut :: number
  vs_extraCostUsd :: number
  vs_priceVsMidBps :: "number option"

record dex_preview =
  dp_tradable :: bool
  dp_message :: "string option"
  dp_executablePrice :: "number option"
  dp_amountIn :: number
  dp_amountOut :: number
  dp_priceVsBinanceBps :: "number option"

record smart_input =
  si_symbol :: string
  si_side :: order_side
  si_amount :: number
  si_slippageBps :: "number option"
  si_venue :: "execution_venue option"

record smart_env =
  sm_spot :: spot_env
  sm_oneInch :: bool
  sm_wallet :: bool
  sm_preview :: "smart_input \<Rightarrow> string + dex_preview"
  sm_gasUsdBuy :: number
  sm_gasUsdSell :: number
  sm_maxBuyVsBinanceBps :: number

datatype router_block = NoVenueBuy | NoVenueSell | AboveMid string | BelowMinTrade number

record SmartExecutionQuote =
  sx_symbol :: string
  sx_side :: order_side
  sx_amount :: number
  sx_binanceMid :: "number option"
  sx_binance :: VenueQuoteSummary
  sx_oneinch :: VenueQuoteSummary
  sx_recommended :: "execution_venue option"
  sx_savingsBps :: "number option"
  sx_savingsUsd :: number
  sx_blockReason :: "router_block option"

definition bpsVsMid :: "number option \<Rightarrow> number option \<Rightarrow> order_side \<Rightarrow> number option" where
  "bpsVsMid price mid side =
     (case (price, mid) of
        (Some p, Some m) \<Rightarrow> if m \<le> Fin 0 then None
           else (let raw = (p - m) / m * Fin 10000 in Some (math_round (if side = ExchangeAccess.BUY then raw else - raw)))
      | _ \<Rightarrow> None)"

definition venue_candidate :: "execution_venue \<Rightarrow> VenueQuoteSummary \<Rightarrow> (execution_venue \<times> number \<times> number) list" where
  "venue_candidate v q =
     (case vs_executablePrice q of
        Some px \<Rightarrow> if vs_available q \<and> Fin 0 < vs_amountOut q then [(v, px, vs_amountOut q)] else []
      | None \<Rightarrow> [])"

text \<open>The stable sort of at most two candidates by \<open>b.out - a.out\<close>.\<close>

definition sort_by_out :: "(execution_venue \<times> number \<times> number) list \<Rightarrow> (execution_venue \<times> number \<times> number) list" where
  "sort_by_out cs =
     (case cs of [(v1, p1, o1), (v2, p2, o2)] \<Rightarrow> if o1 - o2 < Fin 0 then [(v2, p2, o2), (v1, p1, o1)] else cs | _ \<Rightarrow> cs)"

definition pickWinner ::
  "order_side \<Rightarrow> VenueQuoteSummary \<Rightarrow> VenueQuoteSummary \<Rightarrow> execution_venue option \<times> number option \<times> number" where
  "pickWinner side binance oneinch =
     (case sort_by_out (venue_candidate Binance binance @ venue_candidate OneInchBsc oneinch) of
        [] \<Rightarrow> (None, None, Fin 0)
      | [(v, px, out)] \<Rightarrow> (Some v, None, Fin 0)
      | (v, px, out) # (v2, px2, out2) # _ \<Rightarrow>
          (let midPx = (px + px2) / Fin 2 in
           (Some v,
            if Fin 0 < midPx then Some (math_round (math_abs (px - px2) / midPx * Fin 10000)) else None,
            if side = ExchangeAccess.BUY then math_max (Fin 0) ((out - out2) * px) else math_max (Fin 0) (out - out2))))"

definition dex_preview_of :: "smart_env \<Rightarrow> smart_input \<Rightarrow> dex_preview option" where
  "dex_preview_of env input =
     (if \<not> sm_oneInch env \<or> \<not> sm_wallet env then None
      else case sm_preview env input of
        Inr p \<Rightarrow> Some p
      | Inl msg \<Rightarrow> Some \<lparr>dp_tradable = False, dp_message = Some msg, dp_executablePrice = None, dp_amountIn = si_amount input,
           dp_amountOut = Fin 0, dp_priceVsBinanceBps = None\<rparr>)"

definition binance_summary :: "BinanceVenueQuote \<Rightarrow> number option \<Rightarrow> order_side \<Rightarrow> VenueQuoteSummary" where
  "binance_summary q mid side =
     \<lparr>vs_available = vq_available q, vs_reason = map_option SpotReason (vq_reason q),
      vs_executablePrice = vq_executablePrice q, vs_amountIn = vq_amountIn q, vs_amountOut = vq_amountOut q,
      vs_extraCostUsd = Fin 0, vs_priceVsMidBps = bpsVsMid (vq_executablePrice q) mid side\<rparr>"

definition oneinch_summary :: "smart_env \<Rightarrow> smart_input \<Rightarrow> dex_preview option \<Rightarrow> VenueQuoteSummary" where
  "oneinch_summary env input p =
     (let available = (case p of Some d \<Rightarrow> dp_tradable d \<and> dp_executablePrice d \<noteq> None | None \<Rightarrow> False);
          gas = (if si_side input = ExchangeAccess.BUY then sm_gasUsdBuy env else sm_gasUsdSell env) in
      \<lparr>vs_available = available,
       vs_reason = (if available then None
         else case Option.bind p dp_message of Some m \<Rightarrow> Some (PreviewMessage m) | None \<Rightarrow> Some OneInchUnavailable),
       vs_executablePrice = Option.bind p dp_executablePrice,
       vs_amountIn = (case p of Some d \<Rightarrow> dp_amountIn d | None \<Rightarrow> si_amount input),
       vs_amountOut = (case p of Some d \<Rightarrow> dp_amountOut d | None \<Rightarrow> Fin 0),
       vs_extraCostUsd = (if available then gas else Fin 0),
       vs_priceVsMidBps = Option.bind p dp_priceVsBinanceBps\<rparr>)"

definition block_of :: "smart_env \<Rightarrow> smart_input \<Rightarrow> VenueQuoteSummary option \<Rightarrow> router_block option" where
  "block_of env input winner =
     (case winner of
        None \<Rightarrow> Some (if si_side input = ExchangeAccess.BUY then NoVenueBuy else NoVenueSell)
      | Some w \<Rightarrow>
          if si_side input = ExchangeAccess.BUY \<and> si_amount input < se_minUsdt (sm_spot env)
          then Some (BelowMinTrade (se_minUsdt (sm_spot env)))
          else (case vs_priceVsMidBps w of
             Some vsMid \<Rightarrow> if si_side input = ExchangeAccess.BUY \<and> sm_maxBuyVsBinanceBps env < vsMid
               then Some (AboveMid (to_fixed (vsMid / Fin 100) 2)) else None
           | None \<Rightarrow> None))"

definition getSmartExecutionQuote :: "smart_env \<Rightarrow> connection_row list \<Rightarrow> user_id \<Rightarrow> smart_input \<Rightarrow> SmartExecutionQuote" where
  "getSmartExecutionQuote env cs u input =
     (let symbol = to_upper (si_symbol input); side = si_side input;
          mid = map_option bk_mid (spot_bookTicker (sm_spot env) symbol);
          b = binance_summary (quoteBinanceSpotForUser (sm_spot env) cs u (si_symbol input) side (si_amount input)) mid side;
          d = oneinch_summary env (input\<lparr>si_symbol := symbol\<rparr>) (dex_preview_of env (input\<lparr>si_symbol := symbol\<rparr>)) in
      case pickWinner side b d of
        (venue, savingsBps, savingsUsd) \<Rightarrow>
          (let b' = (if venue = Some OneInchBsc then b\<lparr>vs_extraCostUsd := math_max (Fin 0) savingsUsd\<rparr> else b);
               d' = (if venue = Some Binance then d\<lparr>vs_extraCostUsd := math_max (Fin 0) savingsUsd\<rparr> else d) in
           \<lparr>sx_symbol = symbol, sx_side = side, sx_amount = si_amount input, sx_binanceMid = mid, sx_binance = b',
            sx_oneinch = d', sx_recommended = venue, sx_savingsBps = savingsBps, sx_savingsUsd = savingsUsd,
            sx_blockReason = block_of env input (map_option (\<lambda>v. case v of Binance \<Rightarrow> b' | OneInchBsc \<Rightarrow> d') venue)\<rparr>))"

section \<open>Execution\<close>

datatype smart_error = Blocked router_block | NoExecutionVenue | SpotFailed spot_error | SwapFailed string

text \<open>The trade is sent to the venue the caller forces, or else to the recommended one.\<close>

definition executeSmartTrade ::
  "smart_env \<Rightarrow> (user_id \<Rightarrow> smart_input \<Rightarrow> 'd \<Rightarrow> (string + dex_trade) \<times> 'd) \<Rightarrow> connection_row list \<Rightarrow> user_id \<Rightarrow>
   smart_input \<Rightarrow> spot_state \<times> 'd \<Rightarrow> (smart_error + execution_venue \<times> dex_trade) \<times> spot_state \<times> 'd" where
  "executeSmartTrade env swap cs u input s =
     (case s of (sp, dx) \<Rightarrow>
        let quote = getSmartExecutionQuote env cs u input in
        case sx_blockReason quote of Some r \<Rightarrow> (Inl (Blocked r), sp, dx)
        | None \<Rightarrow>
        case (case si_venue input of Some v \<Rightarrow> Some v | None \<Rightarrow> sx_recommended quote) of
          None \<Rightarrow> (Inl NoExecutionVenue, sp, dx)
        | Some Binance \<Rightarrow>
            (case executeBinanceSpotTrade (sm_spot env) cs u (si_symbol input) (si_side input) (si_amount input) sp of
               (Inl e, sp') \<Rightarrow> (Inl (SpotFailed e), sp', dx) | (Inr t, sp') \<Rightarrow> (Inr (Binance, t), sp', dx))
        | Some OneInchBsc \<Rightarrow>
            (case swap u input dx of (Inl e, dx') \<Rightarrow> (Inl (SwapFailed e), sp, dx') | (Inr t, dx') \<Rightarrow> (Inr (OneInchBsc, t), sp, dx')))"

section \<open>The choice of the venue\<close>

lemma representable_grid:
  assumes "representable x"
  shows "\<exists>k. x = of_int k * 2 powi (-1074)"
proof -
  obtain m e where x: "x = of_int m * 2 powi e" "-1074 \<le> e" using assms by (auto simp: representable_def)
  then have n: "0 \<le> e + 1074" by linarith
  have "e = (e + 1074) + (-1074)" by simp
  then have "(2 :: rat) powi e = 2 powi (e + 1074) * 2 powi (-1074)" by (metis powi_2_add)
  also have "(2 :: rat) powi (e + 1074) = of_int (2 ^ nat (e + 1074))" using n by (rule powi_2_of_int)
  finally have "x = of_int (m * 2 ^ nat (e + 1074)) * 2 powi (-1074)"
    unfolding x(1) by (simp only: of_int_mult mult.assoc)
  then show ?thesis ..
qed

lemma representable_diff_neg:
  assumes "representable a" "representable b" "a < b"
  shows "rnd (a - b) < 0"
proof -
  define u :: rat where u: "u = 2 powi (-1074)"
  have pos: "0 < u" unfolding u by (rule powi_2_pos)
  have rep: "representable (- u)" unfolding u by (intro representable_minus representable_pow2 order_refl)
  obtain j k where jk: "a = of_int j * u" "b = of_int k * u"
    using representable_grid [OF assms(1)] representable_grid [OF assms(2)] unfolding u [symmetric] by auto
  have "j < k" using assms(3) jk pos by (simp add: mult_less_cancel_right)
  then have "j - k \<le> - 1" by simp
  then have "(of_int (j - k) :: rat) \<le> of_int (- 1)" by (simp only: of_int_le_iff)
  then have "of_int (j - k) * u \<le> of_int (- 1) * u" using pos by (intro mult_right_mono) auto
  then have "a - b \<le> - u" using jk by (simp add: left_diff_distrib)
  then have "rnd (a - b) \<le> - u" using rep rnd_le_representable by blast
  then show ?thesis using pos by linarith
qed

lemma minus_neg_iff:
  assumes "is_double a" "is_double b" "Fin 0 < a" "Fin 0 < b"
  shows "a - b < Fin 0 \<longleftrightarrow> a < b"
proof (cases a; cases b)
  fix x y assume xy: "a = Fin x" "b = Fin y"
  then have r: "representable x" "representable y" using assms is_double_rep by auto
  have "fl (x - y) < Fin 0" if "x < y"
    using representable_diff_neg [OF r that] fl_cases [of "x - y"] fl_mono [of "x - y" 0] that by auto
  moreover have "Fin 0 \<le> fl (x - y)" if "\<not> x < y" using that by (intro fl_nonneg) simp
  ultimately show ?thesis using xy by (cases "x < y"; cases "fl (x - y)") (auto simp: minus_number_def)
qed (use assms in \<open>auto simp: minus_number_def\<close>)

definition summary_of :: "execution_venue \<Rightarrow> VenueQuoteSummary \<Rightarrow> VenueQuoteSummary \<Rightarrow> VenueQuoteSummary" where
  "summary_of v b d = (case v of Binance \<Rightarrow> b | OneInchBsc \<Rightarrow> d)"

definition quotes_trade :: "VenueQuoteSummary \<Rightarrow> bool" where
  "quotes_trade q \<longleftrightarrow> vs_available q \<and> vs_executablePrice q \<noteq> None \<and> Fin 0 < vs_amountOut q"

lemma venue_candidate_cases:
  "venue_candidate v q = [] \<and> \<not> quotes_trade q \<or>
   (\<exists>px. venue_candidate v q = [(v, px, vs_amountOut q)] \<and> quotes_trade q)"
  by (auto simp: venue_candidate_def quotes_trade_def split: option.splits)

lemma pickWinner_best:
  assumes "pickWinner side b d = (Some v, sv, su)" "is_double (vs_amountOut b)" "is_double (vs_amountOut d)"
  shows "quotes_trade (summary_of v b d) \<and>
    (\<forall>w. quotes_trade (summary_of w b d) \<longrightarrow> vs_amountOut (summary_of w b d) \<le> vs_amountOut (summary_of v b d))"
proof -
  have le: "x \<le> x" if "Fin 0 < x" for x :: number using that by (cases x) auto
  have ord: "x \<le> y" if "\<not> y < x" "Fin 0 < x" "Fin 0 < y" for x y :: number using that by (cases x; cases y) auto
  have lt: "x \<le> y" if "x < y" for x y :: number using that by (rule number_less_imp_le)
  consider (none) "venue_candidate Binance b = []" "\<not> quotes_trade b" "venue_candidate OneInchBsc d = []" "\<not> quotes_trade d"
    | (first) p where "venue_candidate Binance b = [(Binance, p, vs_amountOut b)]" "quotes_trade b"
        "venue_candidate OneInchBsc d = []" "\<not> quotes_trade d"
    | (second) p where "venue_candidate Binance b = []" "\<not> quotes_trade b"
        "venue_candidate OneInchBsc d = [(OneInchBsc, p, vs_amountOut d)]" "quotes_trade d"
    | (both) p p' where "venue_candidate Binance b = [(Binance, p, vs_amountOut b)]" "quotes_trade b"
        "venue_candidate OneInchBsc d = [(OneInchBsc, p', vs_amountOut d)]" "quotes_trade d"
    using venue_candidate_cases [of Binance b] venue_candidate_cases [of OneInchBsc d] by blast
  then show ?thesis
  proof cases
    case none
    then show ?thesis using assms(1) by (simp add: pickWinner_def sort_by_out_def)
  next
    case first
    then have "v = Binance" using assms(1) by (simp add: pickWinner_def sort_by_out_def)
    then show ?thesis using first le by (auto simp: summary_of_def quotes_trade_def split: execution_venue.splits)
  next
    case second
    then have "v = OneInchBsc" using assms(1) by (simp add: pickWinner_def sort_by_out_def)
    then show ?thesis using second le by (auto simp: summary_of_def quotes_trade_def split: execution_venue.splits)
  next
    case both
    then have pos: "Fin 0 < vs_amountOut b" "Fin 0 < vs_amountOut d" by (auto simp: quotes_trade_def)
    have v: "v = (if vs_amountOut b < vs_amountOut d then OneInchBsc else Binance)"
      using assms(1) both minus_neg_iff [OF assms(2,3) pos]
      by (auto simp: pickWinner_def sort_by_out_def Let_def split: if_splits)
    show ?thesis using both v pos le ord [of "vs_amountOut b" "vs_amountOut d"] lt [of "vs_amountOut b" "vs_amountOut d"]
      by (auto simp: summary_of_def split: execution_venue.splits if_splits)
  qed
qed

lemma quote_summaries:
  fixes env cs u input
  defines "q \<equiv> getSmartExecutionQuote env cs u input"
  shows "\<exists>b d sv su. pickWinner (si_side input) b d = (sx_recommended q, sv, su) \<and>
     quotes_trade (sx_binance q) = quotes_trade b \<and> quotes_trade (sx_oneinch q) = quotes_trade d \<and>
     vs_amountOut (sx_binance q) = vs_amountOut b \<and> vs_amountOut (sx_oneinch q) = vs_amountOut d \<and>
     sx_blockReason q = block_of env input (map_option (\<lambda>v. summary_of v (sx_binance q) (sx_oneinch q)) (sx_recommended q))"
  unfolding q_def getSmartExecutionQuote_def Let_def
  by (auto simp: quotes_trade_def summary_of_def [abs_def] split: prod.split)

text \<open>C11: A smart trade whose venue is not forced goes to the venue that pays out most: the venue it runs
  on quotes the trade, no venue that does pays out more, and a purchase is neither below the minimum nor on
  a venue priced above the cap over the exchange's mid.\<close>

theorem smart_trade_takes_best_venue:
  assumes "executeSmartTrade env swap cs u input s = (Inr (v, t), s')" "si_venue input = None"
    and "is_double (vs_amountOut (sx_binance (getSmartExecutionQuote env cs u input)))"
    and "is_double (vs_amountOut (sx_oneinch (getSmartExecutionQuote env cs u input)))"
  shows "let q = getSmartExecutionQuote env cs u input; best = summary_of v (sx_binance q) (sx_oneinch q) in
    quotes_trade best \<and>
    (\<forall>w. quotes_trade (summary_of w (sx_binance q) (sx_oneinch q)) \<longrightarrow>
       vs_amountOut (summary_of w (sx_binance q) (sx_oneinch q)) \<le> vs_amountOut best) \<and>
    (si_side input = ExchangeAccess.BUY \<longrightarrow> \<not> si_amount input < se_minUsdt (sm_spot env) \<and>
       (\<forall>bps. vs_priceVsMidBps best = Some bps \<longrightarrow> \<not> sm_maxBuyVsBinanceBps env < bps))"
proof -
  let ?q = "getSmartExecutionQuote env cs u input"
  obtain b d sv su where q: "pickWinner (si_side input) b d = (sx_recommended ?q, sv, su)"
    "quotes_trade (sx_binance ?q) = quotes_trade b" "quotes_trade (sx_oneinch ?q) = quotes_trade d"
    "vs_amountOut (sx_binance ?q) = vs_amountOut b" "vs_amountOut (sx_oneinch ?q) = vs_amountOut d"
    "sx_blockReason ?q = block_of env input (map_option (\<lambda>v. summary_of v (sx_binance ?q) (sx_oneinch ?q)) (sx_recommended ?q))"
    using quote_summaries by blast
  have r: "sx_blockReason ?q = None" "sx_recommended ?q = Some v"
    using assms(1,2) by (auto simp: executeSmartTrade_def Let_def split: option.splits execution_venue.splits prod.splits sum.splits)
  have best: "quotes_trade (summary_of v b d) \<and>
    (\<forall>w. quotes_trade (summary_of w b d) \<longrightarrow> vs_amountOut (summary_of w b d) \<le> vs_amountOut (summary_of v b d))"
    using pickWinner_best [of "si_side input" b d v sv su] q(1,4,5) r(2) assms(3,4) by simp
  have eq: "quotes_trade (summary_of w (sx_binance ?q) (sx_oneinch ?q)) = quotes_trade (summary_of w b d) \<and>
      vs_amountOut (summary_of w (sx_binance ?q) (sx_oneinch ?q)) = vs_amountOut (summary_of w b d)" for w
    using q(2-5) by (cases w) (simp_all add: summary_of_def)
  have "block_of env input (Some (summary_of v (sx_binance ?q) (sx_oneinch ?q))) = None" using q(6) r by simp
  then show ?thesis using best eq by (auto simp: block_of_def Let_def split: if_splits option.splits)
qed

definition demo_smart :: "number \<Rightarrow> number \<Rightarrow> smart_env" where
  "demo_smart out bps = \<lparr>sm_spot = demo_spot, sm_oneInch = True, sm_wallet = True,
     sm_preview = (\<lambda>i. Inr \<lparr>dp_tradable = True, dp_message = None, dp_executablePrice = Some (Fin 4), dp_amountIn = si_amount i,
        dp_amountOut = out, dp_priceVsBinanceBps = Some bps\<rparr>),
     sm_gasUsdBuy = Fin 0, sm_gasUsdSell = Fin 0, sm_maxBuyVsBinanceBps = Fin 100\<rparr>"

definition demo_smart_input :: "execution_venue option \<Rightarrow> smart_input" where
  "demo_smart_input v = \<lparr>si_symbol = ''bnbusdt'', si_side = ExchangeAccess.BUY, si_amount = Fin 16, si_slippageBps = None, si_venue = v\<rparr>"

definition demo_swap :: "user_id \<Rightarrow> smart_input \<Rightarrow> nat \<Rightarrow> (string + dex_trade) \<times> nat" where
  "demo_swap u i n = (Inr (spot_row demo_spot u ''BNB/USDT'' (si_amount i) (Fin 4) OPEN), Suc n)"

lemma demo_quote:
  "sx_blockReason (getSmartExecutionQuote (demo_smart (Fin 4) (Fin (- 50))) [demo_connection] ''u'' (demo_smart_input None)) = None"
  "sx_recommended (getSmartExecutionQuote (demo_smart (Fin 4) (Fin (- 50))) [demo_connection] ''u'' (demo_smart_input None)) = Some OneInchBsc"
  "vs_amountOut (sx_binance (getSmartExecutionQuote (demo_smart (Fin 4) (Fin (- 50))) [demo_connection] ''u'' (demo_smart_input None))) = Fin 2"
  "vs_amountOut (sx_oneinch (getSmartExecutionQuote (demo_smart (Fin 4) (Fin (- 50))) [demo_connection] ''u'' (demo_smart_input None))) = Fin 4"
  "vs_available (sx_binance (getSmartExecutionQuote (demo_smart (Fin 4) (Fin (- 50))) [demo_connection] ''u'' (demo_smart_input None)))"
  "vs_executablePrice (sx_binance (getSmartExecutionQuote (demo_smart (Fin 4) (Fin (- 50))) [demo_connection] ''u'' (demo_smart_input None))) = Some (Fin 8)"
  by code_simp+

theorem smart_trade_takes_best_venue_witness:
  "executeSmartTrade (demo_smart (Fin 4) (Fin (- 50))) demo_swap [demo_connection] ''u'' (demo_smart_input None) (demo_spot_state [], 0) =
     (Inr (OneInchBsc, spot_row demo_spot ''u'' ''BNB/USDT'' (Fin 16) (Fin 4) OPEN), demo_spot_state [], 1) \<and>
   Fin 2 \<le> Fin 4"
proof -
  let ?q = "getSmartExecutionQuote (demo_smart (Fin 4) (Fin (- 50))) [demo_connection] ''u'' (demo_smart_input None)"
  have v: "si_venue (demo_smart_input None) = None" by (simp add: demo_smart_input_def)
  have sw: "demo_swap ''u'' (demo_smart_input None) 0 = (Inr (spot_row demo_spot ''u'' ''BNB/USDT'' (Fin 16) (Fin 4) OPEN), 1)"
    by (simp add: demo_swap_def demo_smart_input_def)
  have run: "executeSmartTrade (demo_smart (Fin 4) (Fin (- 50))) demo_swap [demo_connection] ''u'' (demo_smart_input None) (demo_spot_state [], 0) =
     (Inr (OneInchBsc, spot_row demo_spot ''u'' ''BNB/USDT'' (Fin 16) (Fin 4) OPEN), demo_spot_state [], 1)"
    unfolding executeSmartTrade_def Let_def prod.case demo_quote(1,2) v option.case execution_venue.case sw sum.case ..
  have "fl 2 = Fin 2" "fl 4 = Fin 4" by code_simp+
  then have d: "is_double (Fin 2)" "is_double (Fin 4)" by (metis is_double_fl)+
  have t: "quotes_trade (sx_binance ?q)" using demo_quote(3,5,6) by (simp add: quotes_trade_def)
  from smart_trade_takes_best_venue [OF run v, unfolded demo_quote(3,4) Let_def, OF d] t demo_quote(3)
  have "vs_amountOut (sx_binance ?q) \<le> vs_amountOut (sx_oneinch ?q)"
    unfolding summary_of_def by (metis execution_venue.case)
  then have "Fin 2 \<le> Fin 4" unfolding demo_quote(3,4) .
  then show ?thesis using run by simp
qed

text \<open>A forced venue escapes the price cap, which is tested on the recommended venue only.\<close>

theorem forced_venue_skips_price_cap:
  assumes "si_venue input = Some OneInchBsc" "sx_blockReason (getSmartExecutionQuote env cs u input) = None"
    and "sm_maxBuyVsBinanceBps env < bps" "vs_priceVsMidBps (sx_oneinch (getSmartExecutionQuote env cs u input)) = Some bps"
    and "swap u input dx = (Inr t, dx')"
  shows "executeSmartTrade env swap cs u input (sp, dx) = (Inr (OneInchBsc, t), sp, dx')"
  using assms(1,2,5) by (simp add: executeSmartTrade_def Let_def)

theorem forced_venue_skips_price_cap_witness:
  "fst (executeSmartTrade (demo_smart (Fin 1) (Fin 10000)) demo_swap [demo_connection] ''u'' (demo_smart_input (Some OneInchBsc)) (demo_spot_state [], 0)) =
     Inr (OneInchBsc, spot_row demo_spot ''u'' ''BNB/USDT'' (Fin 16) (Fin 4) OPEN) \<and>
   sx_recommended (getSmartExecutionQuote (demo_smart (Fin 1) (Fin 10000)) [demo_connection] ''u'' (demo_smart_input (Some OneInchBsc))) = Some Binance"
proof -
  let ?q = "getSmartExecutionQuote (demo_smart (Fin 1) (Fin 10000)) [demo_connection] ''u'' (demo_smart_input (Some OneInchBsc))"
  have q: "sx_blockReason ?q = None" "sx_recommended ?q = Some Binance" "vs_priceVsMidBps (sx_oneinch ?q) = Some (Fin 10000)"
    by code_simp+
  from forced_venue_skips_price_cap [OF _ q(1) _ q(3), of demo_swap 0 _ 1 "demo_spot_state []"] q(2) show ?thesis
    by (simp add: demo_smart_input_def demo_smart_def demo_swap_def)
qed

end
