(* ===== verification/MarketIndicators.thy ===== *)
theory MarketIndicators
  imports SignalEngine
begin

text \<open>
  The indicator functions of \<open>services/market/indicators.ts\<close>. Four of them are line for line those of the
  bot's signal engine; MACD, the Bollinger bands, on-balance volume, the stochastic oscillator, the
  regression slope and the directional index are added here. \<open>Math.sqrt\<close>, \<open>Math.log\<close> and \<open>Math.pow\<close> are
  arguments: the language leaves their last digit to the implementation.
\<close>

section \<open>Series\<close>

definition market_sma :: "number list \<Rightarrow> nat \<Rightarrow> number list" where
  "market_sma values period = sma values period"

definition market_ema :: "number list \<Rightarrow> nat \<Rightarrow> number list" where
  "market_ema values period = ema values period"

definition market_rsi :: "number list \<Rightarrow> nat \<Rightarrow> number list" where
  "market_rsi closes period = rsi closes period"

definition market_atr :: "number list \<Rightarrow> number list \<Rightarrow> number list \<Rightarrow> nat \<Rightarrow> number list" where
  "market_atr high low closes period = atr high low closes period"

text \<open>\<open>findIndex\<close> of the first entry that is a number.\<close>

fun valid_start :: "number list \<Rightarrow> nat option" where
  "valid_start [] = None"
| "valid_start (x # xs) = (if x \<noteq> NaN then Some 0 else map_option Suc (valid_start xs))"

record macd_lines =
  md_macd :: "number list"
  md_signal :: "number list"
  md_hist :: "number list"

definition macd :: "number list \<Rightarrow> nat \<Rightarrow> nat \<Rightarrow> nat \<Rightarrow> macd_lines" where
  "macd closes fast slow signalPeriod =
     (let macdLine = map2 (\<lambda>v w. if v = NaN \<or> w = NaN then NaN else v - w)
            (market_ema closes fast) (market_ema closes slow) in
      case valid_start macdLine of
        None \<Rightarrow> \<lparr>md_macd = macdLine, md_signal = replicate (length closes) NaN, md_hist = replicate (length closes) NaN\<rparr>
      | Some validStart \<Rightarrow>
          (let sub = drop validStart macdLine; sigSub = market_ema sub signalPeriod in
           \<lparr>md_macd = macdLine, md_signal = replicate validStart NaN @ sigSub,
            md_hist = replicate validStart NaN @ map2 (\<lambda>s m. if s \<noteq> NaN \<and> m \<noteq> NaN then m - s else NaN) sigSub sub\<rparr>))"

record js_math =
  jm_sqrt :: "number \<Rightarrow> number"
  jm_log :: "number \<Rightarrow> number"
  jm_pow :: "number \<Rightarrow> number \<Rightarrow> number"

record bands =
  bb_upper :: "number list"
  bb_middle :: "number list"
  bb_lower :: "number list"

definition band_width :: "js_math \<Rightarrow> number list \<Rightarrow> nat \<Rightarrow> number \<Rightarrow> nat \<Rightarrow> number" where
  "band_width m closes period mid i =
     jm_sqrt m (foldl (\<lambda>v j. v + jm_pow m (js_nth closes j - mid) (Fin 2)) (Fin 0) [i + 1 - period..<i + 1]
       / count_number period)"

definition bollinger :: "js_math \<Rightarrow> number list \<Rightarrow> nat \<Rightarrow> number \<Rightarrow> bands" where
  "bollinger m closes period stdDev =
     (let mid = market_sma closes period;
          edge = (\<lambda>f. map (\<lambda>i. if js_nth mid i = NaN then NaN
                     else f (js_nth mid i) (stdDev * band_width m closes period (js_nth mid i) i)) [0..<length closes]) in
      \<lparr>bb_upper = edge (+), bb_middle = mid, bb_lower = edge (-)\<rparr>)"

definition obv :: "number list \<Rightarrow> number list \<Rightarrow> number list" where
  "obv closes volumes =
     foldl (\<lambda>result i.
        let prev = js_nth result (i - 1) in
        result @ [if js_nth closes (i - 1) < js_nth closes i then prev + js_nth volumes i
                  else if js_nth closes i < js_nth closes (i - 1) then prev - js_nth volumes i else prev])
       [js_nth volumes 0] [1..<length closes]"

definition window_range :: "number list \<Rightarrow> number list \<Rightarrow> nat list \<Rightarrow> number \<times> number" where
  "window_range high low js =
     foldl (\<lambda>(highest, lowest) j.
        (if highest < js_nth high j then js_nth high j else highest,
         if js_nth low j < lowest then js_nth low j else lowest)) (NInf, PInf) js"

definition stoch_k :: "number list \<Rightarrow> number list \<Rightarrow> number list \<Rightarrow> nat \<Rightarrow> nat \<Rightarrow> number" where
  "stoch_k high low closes kPeriod i =
     (case window_range high low [i + 1 - kPeriod..<i + 1] of (highest, lowest) \<Rightarrow>
        let range = highest - lowest in
        if js_eq range (Fin 0) then Fin 50 else (js_nth closes i - lowest) / range * Fin 100)"

definition stochastic :: "number list \<Rightarrow> number list \<Rightarrow> number list \<Rightarrow> nat \<Rightarrow> nat \<Rightarrow> number list \<times> number list" where
  "stochastic high low closes kPeriod dPeriod =
     (let k = map (\<lambda>i. if i + 1 < kPeriod then NaN else stoch_k high low closes kPeriod i) [0..<length closes];
          d = map2 (\<lambda>v kv. if kv = NaN then NaN else v)
                (market_sma (map (\<lambda>v. if v = NaN then Fin 0 else v) k) dPeriod) k in
      (k, d))"

definition slope_at :: "number list \<Rightarrow> nat \<Rightarrow> nat \<Rightarrow> number" where
  "slope_at values window i =
     (case foldl (\<lambda>(sumX, sumY, sumXY, sumX2) j.
         let x = count_number j; y = js_nth values (i + 1 - window + j) in
         (sumX + x, sumY + y, sumXY + x * y, sumX2 + x * x)) (Fin 0, Fin 0, Fin 0, Fin 0) [0..<window] of
       (sumX, sumY, sumXY, sumX2) \<Rightarrow>
         let n = count_number window in (n * sumXY - sumX * sumY) / (n * sumX2 - sumX * sumX))"

definition linRegSlope :: "number list \<Rightarrow> nat \<Rightarrow> number list" where
  "linRegSlope values window =
     map (\<lambda>i. if i + 1 < window then NaN else slope_at values window i) [0..<length values]"

definition last_valid :: "number list \<Rightarrow> number" where
  "last_valid arr = (case find (\<lambda>x. x \<noteq> NaN) (rev arr) of None \<Rightarrow> NaN | Some x \<Rightarrow> x)"

section \<open>Directional index\<close>

definition plus_dm :: "number list \<Rightarrow> number list \<Rightarrow> nat \<Rightarrow> number" where
  "plus_dm high low i =
     (let upMove = js_nth high i - js_nth high (i - 1); downMove = js_nth low (i - 1) - js_nth low i in
      if downMove < upMove \<and> Fin 0 < upMove then upMove else Fin 0)"

definition minus_dm :: "number list \<Rightarrow> number list \<Rightarrow> nat \<Rightarrow> number" where
  "minus_dm high low i =
     (let upMove = js_nth high i - js_nth high (i - 1); downMove = js_nth low (i - 1) - js_nth low i in
      if upMove < downMove \<and> Fin 0 < downMove then downMove else Fin 0)"

record adx_state =
  ax_tr :: number
  ax_plus :: number
  ax_minus :: number
  ax_plusDI :: "number list"
  ax_minusDI :: "number list"
  ax_dx :: "number list"

definition di_of :: "number \<Rightarrow> number \<Rightarrow> number" where
  "di_of s tr = (if js_eq tr (Fin 0) then Fin 0 else s / tr * Fin 100)"

definition dx_of :: "number \<Rightarrow> number \<Rightarrow> number" where
  "dx_of pdi mdi = (let s = pdi + mdi in if js_eq s (Fin 0) then Fin 0 else math_abs (pdi - mdi) / s * Fin 100)"

definition fillDI :: "nat \<Rightarrow> adx_state \<Rightarrow> adx_state" where
  "fillDI i s =
     (let pdi = di_of (ax_plus s) (ax_tr s); mdi = di_of (ax_minus s) (ax_tr s) in
      s\<lparr>ax_plusDI := js_set (ax_plusDI s) i pdi, ax_minusDI := js_set (ax_minusDI s) i mdi,
        ax_dx := ax_dx s @ [dx_of pdi mdi]\<rparr>)"

definition wilder_sum :: "nat \<Rightarrow> number \<Rightarrow> number \<Rightarrow> number" where
  "wilder_sum period s x = s - s / count_number period + x"

definition adx_step :: "number list \<Rightarrow> number list \<Rightarrow> number list \<Rightarrow> nat \<Rightarrow> adx_state \<Rightarrow> nat \<Rightarrow> adx_state" where
  "adx_step high low closes period s i =
     fillDI i (s\<lparr>ax_tr := wilder_sum period (ax_tr s) (true_range high low closes i),
                ax_plus := wilder_sum period (ax_plus s) (plus_dm high low i),
                ax_minus := wilder_sum period (ax_minus s) (minus_dm high low i)\<rparr>)"

definition adx_start :: "number list \<Rightarrow> number list \<Rightarrow> number list \<Rightarrow> nat \<Rightarrow> adx_state" where
  "adx_start high low closes period =
     (let blank = replicate (length closes) NaN; window = [1..<period + 1] in
      fillDI period
        \<lparr>ax_tr = sum_numbers (Fin 0) (map (true_range high low closes) window),
         ax_plus = sum_numbers (Fin 0) (map (plus_dm high low) window),
         ax_minus = sum_numbers (Fin 0) (map (minus_dm high low) window),
         ax_plusDI = blank, ax_minusDI = blank, ax_dx = []\<rparr>)"

definition smooth_dx :: "nat \<Rightarrow> number list \<Rightarrow> number list \<Rightarrow> number list" where
  "smooth_dx period dxArr blank =
     (let first = sum_numbers (Fin 0) (take period dxArr) / count_number period in
      snd (foldl (\<lambda>(adxVal, arr) k.
             let v = wilder_next period adxVal (js_nth dxArr (period - 1 + k)) in (v, js_set arr (period + period + k) v))
           (first, js_set blank (period + period) first) [1..<length dxArr - period + 1]))"

record adx_lines =
  al_adx :: "number list"
  al_plusDI :: "number list"
  al_minusDI :: "number list"

definition adx :: "number list \<Rightarrow> number list \<Rightarrow> number list \<Rightarrow> nat \<Rightarrow> adx_lines" where
  "adx high low closes period =
     (let n = length closes; blank = replicate n NaN in
      if n < period * 2 + 1 then \<lparr>al_adx = blank, al_plusDI = blank, al_minusDI = blank\<rparr>
      else
        let s = foldl (adx_step high low closes period) (adx_start high low closes period) [period + 1..<n] in
        if length (ax_dx s) < period then \<lparr>al_adx = blank, al_plusDI = ax_plusDI s, al_minusDI = ax_minusDI s\<rparr>
        else \<lparr>al_adx = smooth_dx period (ax_dx s) blank, al_plusDI = ax_plusDI s, al_minusDI = ax_minusDI s\<rparr>)"

section \<open>Ranges\<close>

definition percent :: "number \<Rightarrow> bool" where
  "percent x \<longleftrightarrow> x = NaN \<or> Fin 0 \<le> x \<and> x \<le> Fin 100"

lemma is_double_sum [simp]: "is_double (a + b)"
  by (cases a; cases b) auto

lemma fl_uminus: "fl (- x) = - fl x"
proof -
  have m: "0 < max_finite" by (simp add: max_finite_def)
  show ?thesis using m unfolding fl_def Let_def rnd_minus by (auto simp: minus_le_iff)
qed

lemma small_count: "n < 2 ^ 53 \<Longrightarrow> fl (of_nat n) = Fin (of_nat n)"
proof -
  assume n: "n < 2 ^ 53"
  have "representable (of_int (int n))" by (rule representable_of_int) (use n in simp)
  moreover have "(of_nat n :: rat) < max_finite"
  proof -
    have "(of_nat n :: rat) < of_nat (2 ^ 53)" using n by (simp only: of_nat_less_iff)
    also have "\<dots> \<le> 2 ^ 1024" by simp
    finally show ?thesis by (simp add: max_finite_def)
  qed
  ultimately show ?thesis by (simp add: fl_def rnd_representable)
qed

lemma math_max_nonneg [nonneg_intros]: "nonneg b \<Longrightarrow> nonneg (math_max a b)"
  by (cases a; cases b) (auto simp: math_max_def nonneg_def)

lemma math_abs_nonneg [nonneg_intros]: "nonneg (math_abs a)"
  by (cases a) (auto simp: nonneg_def)

lemma directional_nonneg [nonneg_intros]:
  "nonneg (true_range high low closes i)" "nonneg (plus_dm high low i)" "nonneg (minus_dm high low i)"
proof -
  have "nonneg (if c \<and> Fin 0 < d then d else Fin 0)" for c d
    by (cases d) (auto simp: nonneg_def)
  then show "nonneg (plus_dm high low i)" "nonneg (minus_dm high low i)" by (simp_all add: plus_dm_def minus_dm_def Let_def)
  show "nonneg (true_range high low closes i)" by (auto simp: true_range_def intro!: nonneg_intros)
qed

lemma sum_numbers_nonneg:
  "nonneg acc \<Longrightarrow> (\<And>x. x \<in> set xs \<Longrightarrow> nonneg x) \<Longrightarrow> nonneg (sum_numbers acc xs)"
  by (induction xs arbitrary: acc) (auto intro: nonneg_intros)

lemma is_double_sum_numbers: "is_double acc \<Longrightarrow> is_double (sum_numbers acc xs)"
  by (induction xs arbitrary: acc) auto

text \<open>Giving away the share of one bar leaves a smoothed sum nonnegative, rounding included.\<close>

lemma share_nonneg:
  assumes "nonneg s" "is_double s" "0 < period"
  shows "nonneg (s - s / count_number period)"
proof (cases s)
  case (Fin a)
  then have a: "0 \<le> a" "fl a = Fin a" using assms by (auto simp: nonneg_def intro: fl_id)
  have one: "Fin 1 \<le> count_number period"
    using fl_mono [of 1 "of_nat period"] assms(3) by (simp add: count_number_def fl_one)
  show ?thesis
  proof (cases "count_number period")
    case c: (Fin c)
    then have "1 \<le> c" using one by simp
    then have "a * 1 \<le> a * c" using a by (intro mult_left_mono) auto
    then have "fl (a / c) \<le> Fin a" using fl_mono [of "a / c" a] a \<open>1 \<le> c\<close> by (simp add: field_simps)
    moreover have "Fin 0 \<le> fl (a / c)" using a \<open>1 \<le> c\<close> by (intro fl_nonneg) simp
    ultimately have "\<exists>q. fl (a / c) = Fin q \<and> q \<le> a" by (cases "fl (a / c)") auto
    then show ?thesis using Fin c \<open>1 \<le> c\<close> by (auto simp: minus_number_def nonneg_def intro!: fl_nonneg)
  qed (use one a Fin in \<open>auto simp: minus_number_def nonneg_def\<close>)
next
  case PInf
  then show ?thesis by (cases "count_number period") (auto simp: minus_number_def nonneg_def inf_sign_def sgn_if)
qed (use assms in \<open>auto simp: nonneg_def minus_number_def\<close>)

lemma wilder_sum_nonneg:
  "nonneg s \<Longrightarrow> is_double s \<Longrightarrow> nonneg x \<Longrightarrow> 0 < period \<Longrightarrow> nonneg (wilder_sum period s x)"
  by (simp add: wilder_sum_def nonneg_plus share_nonneg)

lemma ratio_percent:
  assumes "0 \<le> t" "t \<le> u" "0 < u"
  shows "percent (Fin t / Fin u * Fin 100)"
proof -
  have c: "fl 100 = Fin 100" by code_simp
  have "fl (t / u) \<le> fl 1" "Fin 0 \<le> fl (t / u)" using assms by (auto intro!: fl_mono fl_nonneg simp: field_simps)
  then obtain q where q: "fl (t / u) = Fin q" "0 \<le> q" "q \<le> 1" by (cases "fl (t / u)") (auto simp: fl_one)
  have "fl (q * 100) \<le> fl 100" "Fin 0 \<le> fl (q * 100)" using q by (auto intro!: fl_mono fl_nonneg)
  then show ?thesis using assms q c by (simp add: percent_def)
qed

lemma dx_percent:
  assumes "nonneg p" "nonneg m"
  shows "percent (dx_of p m)"
proof (cases "\<exists>a b. p = Fin a \<and> m = Fin b")
  case True
  then obtain a b where ab: "p = Fin a" "m = Fin b" "0 \<le> a" "0 \<le> b" using assms by (auto simp: nonneg_def)
  have le: "fl (a - b) \<le> fl (a + b)" "fl (- (a + b)) \<le> fl (a - b)" using ab by (auto intro: fl_mono)
  have pos: "Fin 0 \<le> fl (a + b)" using ab by (intro fl_nonneg) simp
  have neg: "fl (- (a + b)) = - fl (a + b)" by (rule fl_uminus)
  show ?thesis
  proof (cases "fl (a + b)")
    case (Fin u)
    then obtain d where d: "fl (a - b) = Fin d" "d \<le> u" "- u \<le> d"
      using le neg by (cases "fl (a - b)") auto
    show ?thesis using ab Fin d pos ratio_percent [of "\<bar>d\<bar>" u]
      by (auto simp: dx_of_def Let_def js_eq_def minus_number_def percent_def)
  qed (use ab pos in \<open>cases "fl (a - b)"; auto simp: dx_of_def Let_def js_eq_def minus_number_def percent_def inf_sign_def\<close>)+
next
  case False
  then show ?thesis using assms
    by (cases p; cases m) (auto simp: dx_of_def Let_def js_eq_def minus_number_def percent_def nonneg_def inf_sign_def)
qed

lemma di_nonneg: "nonneg s \<Longrightarrow> nonneg tr \<Longrightarrow> nonneg (di_of s tr)"
  by (auto simp: di_of_def intro!: nonneg_intros) (simp add: nonneg_def)

definition adx_inv :: "adx_state \<Rightarrow> bool" where
  "adx_inv s \<longleftrightarrow> nonneg (ax_tr s) \<and> nonneg (ax_plus s) \<and> nonneg (ax_minus s) \<and>
     is_double (ax_tr s) \<and> is_double (ax_plus s) \<and> is_double (ax_minus s) \<and> list_all percent (ax_dx s)"

lemma fillDI_inv: "adx_inv s \<Longrightarrow> adx_inv (fillDI i s)"
  by (auto simp: adx_inv_def fillDI_def Let_def intro!: dx_percent di_nonneg)

lemma is_double_wilder [simp]: "is_double (wilder_sum period s x)"
  by (simp add: wilder_sum_def)

lemma adx_start_inv: "adx_inv (adx_start high low closes period)"
  unfolding adx_start_def Let_def
  by (rule fillDI_inv)
     (auto simp: adx_inv_def max_finite_def intro!: sum_numbers_nonneg is_double_sum_numbers nonneg_intros)

lemma adx_run_inv:
  assumes "0 < period"
  shows "adx_inv (foldl (adx_step high low closes period) (adx_start high low closes period) js)"
proof (rule foldl_invariant)
  show "adx_inv (adx_step high low closes period s i)" if "adx_inv s" for s i
    unfolding adx_step_def
    by (rule fillDI_inv) (use that assms in \<open>auto simp: adx_inv_def intro!: wilder_sum_nonneg nonneg_intros\<close>)
qed (rule adx_start_inv)

lemma number_percent_nat: "100 * n < 2 ^ 53 \<Longrightarrow> fl (100 * of_nat n) = Fin (100 * of_nat n)"
  using small_count [of "100 * n"] by simp

lemma sum_percent:
  assumes "list_all percent xs" "100 * (k + length xs) < 2 ^ 53"
    and "acc = NaN \<or> Fin 0 \<le> acc \<and> acc \<le> Fin (100 * of_nat k)"
  shows "sum_numbers acc xs = NaN \<or>
     Fin 0 \<le> sum_numbers acc xs \<and> sum_numbers acc xs \<le> Fin (100 * of_nat (k + length xs))"
  using assms
proof (induction xs arbitrary: acc k)
  case (Cons x xs)
  have "acc + x = NaN \<or> Fin 0 \<le> acc + x \<and> acc + x \<le> Fin (100 * of_nat (Suc k))"
  proof (cases "acc = NaN \<or> x = NaN")
    case True
    then show ?thesis by (cases acc; cases x) auto
  next
    case False
    then obtain a b where ab: "acc = Fin a" "x = Fin b" "0 \<le> a" "a \<le> 100 * of_nat k" "0 \<le> b" "b \<le> 100"
      using Cons.prems(1,3) by (cases acc; cases x) (auto simp: percent_def)
    have "fl (a + b) \<le> fl (100 * of_nat (Suc k))" using ab by (intro fl_mono) (simp add: algebra_simps)
    then show ?thesis using ab number_percent_nat [of "Suc k"] Cons.prems(2) by (auto intro: fl_nonneg)
  qed
  then show ?case using Cons.IH [of "Suc k" "acc + x"] Cons.prems by simp
qed simp

lemma percent_quotient:
  assumes "s = NaN \<or> Fin 0 \<le> s \<and> s \<le> Fin (100 * of_nat n)" "0 < n" "n < 2 ^ 40"
  shows "percent (s / count_number n)"
proof (cases s)
  case (Fin a)
  have c: "count_number n = Fin (of_nat n)" "fl 100 = Fin 100"
    using assms(3) small_count [of n] by (simp_all add: count_number_def number_percent_nat [of 1, simplified])
  have "fl (a / of_nat n) \<le> fl 100" "Fin 0 \<le> fl (a / of_nat n)"
    using Fin assms by (auto intro!: fl_mono fl_nonneg simp: field_simps)
  then show ?thesis using Fin c assms(2) by (auto simp: percent_def)
qed (use assms in \<open>auto simp: percent_def\<close>)

lemma wilder_percent:
  assumes "percent v" "percent x" "0 < n" "n < 2 ^ 40"
  shows "percent (wilder_next n v x)"
proof -
  have c: "count_number n = Fin (of_nat n)" using assms(4) small_count [of n] by (simp add: count_number_def)
  have d: "count_number n - Fin 1 = Fin (of_nat (n - 1))"
    using small_count [of "n - 1"] assms(3,4) by (simp add: c minus_number_def of_nat_diff)
  have "v * (count_number n - Fin 1) + x = NaN \<or> Fin 0 \<le> v * (count_number n - Fin 1) + x \<and>
      v * (count_number n - Fin 1) + x \<le> Fin (100 * of_nat n)"
  proof (cases "v = NaN \<or> x = NaN")
    case True
    then show ?thesis by (cases v) (auto simp: d inf_sign_def number_add_NaN)
  next
    case False
    then obtain a b where ab: "v = Fin a" "x = Fin b" "0 \<le> a" "a \<le> 100" "0 \<le> b" "b \<le> 100"
      using assms(1,2) by (cases v; cases x) (auto simp: percent_def)
    have "fl (a * of_nat (n - 1)) \<le> fl (100 * of_nat (n - 1))" "Fin 0 \<le> fl (a * of_nat (n - 1))"
      using ab by (auto intro!: fl_mono fl_nonneg mult_right_mono)
    then obtain q where q: "fl (a * of_nat (n - 1)) = Fin q" "0 \<le> q" "q \<le> 100 * of_nat (n - 1)"
      using number_percent_nat [of "n - 1"] assms(4) by (cases "fl (a * of_nat (n - 1))") auto
    have "fl (q + b) \<le> fl (100 * of_nat n)" "Fin 0 \<le> fl (q + b)"
      using ab q assms(3) by (auto intro!: fl_mono fl_nonneg simp: of_nat_diff algebra_simps)
    then show ?thesis using ab q number_percent_nat [of n] assms(4) by (simp add: d)
  qed
  from percent_quotient [OF this assms(3,4)] show ?thesis by (simp add: wilder_next_def)
qed

lemma js_set_all: "list_all P xs \<Longrightarrow> P NaN \<Longrightarrow> P v \<Longrightarrow> list_all P (js_set xs i v)"
  unfolding list_all_iff js_set_def using set_update_subset_insert [of xs i v] by auto

lemma js_nth_all: "list_all P xs \<Longrightarrow> P NaN \<Longrightarrow> P (js_nth xs i)"
  by (simp add: js_nth_def list_all_length)

lemma smooth_dx_percent:
  assumes "list_all percent dxs" "list_all percent blank" "0 < n" "n < 2 ^ 40" "n \<le> length dxs"
  shows "list_all percent (smooth_dx n dxs blank)"
proof -
  define start where "start = sum_numbers (Fin 0) (take n dxs) / count_number n"
  have nan: "percent NaN" by (simp add: percent_def)
  have "list_all percent (take n dxs)" using assms(1) by (auto simp: list_all_iff dest: in_set_takeD)
  then have s: "percent start" unfolding start_def
    using sum_percent [of "take n dxs" 0 "Fin 0"] assms by (intro percent_quotient) auto
  define f where "f = (\<lambda>(v, arr) k. let w = wilder_next n v (js_nth dxs (n - 1 + k)) in (w, js_set arr (n + n + k) w))"
  have f: "percent (fst (f s k)) \<and> list_all percent (snd (f s k))"
    if "percent (fst s) \<and> list_all percent (snd s)" for s k
    using that wilder_percent [OF _ js_nth_all [OF assms(1) nan] assms(3,4)] nan
    by (cases s) (auto simp: f_def Let_def intro!: js_set_all)
  have "percent (fst (foldl f (start, js_set blank (n + n) start) ks)) \<and>
      list_all percent (snd (foldl f (start, js_set blank (n + n) start) ks))" for ks
    by (rule foldl_invariant [where P = "\<lambda>s. percent (fst s) \<and> list_all percent (snd s)"])
       (use f s assms(2) nan in \<open>auto intro: js_set_all\<close>)
  then show ?thesis unfolding smooth_dx_def Let_def start_def f_def by (rule conjunct2)
qed

text \<open>C40: Whatever the prices are, every value of the directional index is NaN or lies between 0 and 100.\<close>

theorem adx_within_0_100:
  assumes "0 < period" "period < 2 ^ 40" "v \<in> set (al_adx (adx high low closes period))"
  shows "v = NaN \<or> Fin 0 \<le> v \<and> v \<le> Fin 100"
proof -
  define s where "s = foldl (adx_step high low closes period) (adx_start high low closes period) [period + 1..<length closes]"
  have dx: "list_all percent (ax_dx s)" using adx_run_inv [OF assms(1)] by (simp add: s_def adx_inv_def)
  have blank: "list_all percent (replicate (length closes) NaN)" by (simp add: list_all_iff percent_def)
  have "list_all percent (al_adx (adx high low closes period))"
    using blank smooth_dx_percent [OF dx blank assms(1,2)] by (simp add: adx_def Let_def s_def)
  then show ?thesis using assms(3) by (auto simp: list_all_iff percent_def)
qed

theorem adx_within_0_100_witness:
  "js_nth (al_adx (adx [Fin 3, Fin 5, Fin 6] [Fin 1, Fin 2, Fin 4] [Fin 2, Fin 4, Fin 5] 1)) 3 = Fin 100 \<and>
   js_nth (al_adx (adx [Fin 3, Fin 5, Fin 6] [Fin 1, Fin 2, Fin 4] [Fin 2, Fin 4, Fin 5] 1)) 3 \<le> Fin 100"
proof -
  let ?l = "al_adx (adx [Fin 3, Fin 5, Fin 6] [Fin 1, Fin 2, Fin 4] [Fin 2, Fin 4, Fin 5] 1)"
  have e: "?l = [NaN, NaN, Fin 100, Fin 100]" by code_simp
  from adx_within_0_100 [of 1 "Fin 100" "[Fin 3, Fin 5, Fin 6]" "[Fin 1, Fin 2, Fin 4]" "[Fin 2, Fin 4, Fin 5]"] e
  show ?thesis by (simp add: js_nth_def)
qed

lemma length_js_set: "length (js_set xs i v) = max (length xs) (Suc i)"
  by (auto simp: js_set_def)

lemma smooth_dx_length:
  "length (smooth_dx n dxs blank) = max (length blank) (Suc (n + n + (length dxs - n)))"
proof -
  have "length (snd (foldl f s [1..<m + 1])) = max (length (snd s)) (if m = 0 then 0 else Suc (n + n + m))"
    if "f = (\<lambda>(v, arr) k. let w = wilder_next n v (js_nth dxs (n - 1 + k)) in (w, js_set arr (n + n + k) w))" for f s m
    by (induction m) (auto simp: that length_js_set Let_def split: prod.splits)
  from this [OF refl, where m = "length dxs - n"] show ?thesis by (simp add: smooth_dx_def Let_def length_js_set max_def)
qed

lemma adx_fold_lengths:
  assumes "s = foldl (adx_step high low closes period) (adx_start high low closes period) [period + 1..<period + 1 + m]"
    "period + m < length closes"
  shows "length (ax_dx s) = Suc m \<and> length (ax_plusDI s) = length closes \<and> length (ax_minusDI s) = length closes"
  using assms
proof (induction m arbitrary: s)
  case (Suc m)
  then show ?case by (simp add: adx_step_def fillDI_def Let_def length_js_set)
qed (simp add: adx_start_def fillDI_def Let_def length_js_set)

text \<open>With enough bars the series of the directional index has one entry more than there are bars: the
  first value, the mean over the first period of movements, is stored one bar late, and so are all that
  follow it. The two direction lines have one entry per bar.\<close>

theorem adx_series_is_late:
  assumes "period * 2 + 1 \<le> length closes"
  shows "length (al_adx (adx high low closes period)) = length closes + 1 \<and>
    length (al_plusDI (adx high low closes period)) = length closes"
proof -
  define m where "m = length closes - period - 1"
  have m: "period + 1 + m = length closes" using assms by (simp add: m_def)
  define s where "s = foldl (adx_step high low closes period) (adx_start high low closes period) [period + 1..<period + 1 + m]"
  have l: "length (ax_dx s) = Suc m" "length (ax_plusDI s) = length closes"
    using adx_fold_lengths [OF s_def] m by simp_all
  have "adx high low closes period =
      \<lparr>al_adx = smooth_dx period (ax_dx s) (replicate (length closes) NaN), al_plusDI = ax_plusDI s, al_minusDI = ax_minusDI s\<rparr>"
    using assms l m unfolding adx_def Let_def s_def m [symmetric] by simp
  then show ?thesis using l m assms by (simp add: smooth_dx_length)
qed

theorem adx_series_is_late_witness:
  "length (al_adx (adx [Fin 3, Fin 5, Fin 6] [Fin 1, Fin 2, Fin 4] [Fin 2, Fin 4, Fin 5] 1)) = 4"
  using adx_series_is_late [of 1 "[Fin 2, Fin 4, Fin 5]" "[Fin 3, Fin 5, Fin 6]" "[Fin 1, Fin 2, Fin 4]"] by simp

section \<open>Stochastic oscillator\<close>

lemma window_range_bounds:
  assumes "\<And>j. j \<in> set js \<Longrightarrow> \<exists>l h. js_nth low j = Fin l \<and> js_nth high j = Fin h \<and> l \<le> h" "js \<noteq> []"
  shows "\<exists>l h. window_range high low js = (Fin h, Fin l) \<and>
    (\<forall>j \<in> set js. js_nth high j \<le> Fin h \<and> Fin l \<le> js_nth low j)"
  using assms
proof (induction js rule: rev_induct)
  case (snoc j js)
  obtain l h where lh: "js_nth low j = Fin l" "js_nth high j = Fin h" "l \<le> h" using snoc.prems(1) [of j] by auto
  show ?case
  proof (cases "js = []")
    case True
    then show ?thesis using lh by (simp add: window_range_def)
  next
    case False
    then obtain l' h' where w: "window_range high low js = (Fin h', Fin l')"
      "\<forall>j \<in> set js. js_nth high j \<le> Fin h' \<and> Fin l' \<le> js_nth low j"
      using snoc.IH snoc.prems(1) by (metis UnCI set_append)
    have step: "window_range high low (js @ [j]) = (Fin (max h h'), Fin (min l l'))"
      using w(1) lh by (auto simp: window_range_def max_def min_def)
    have "\<forall>k \<in> set js. js_nth high k \<le> Fin (max h h') \<and> Fin (min l l') \<le> js_nth low k"
      using w(2) number_le_trans [of _ "Fin h'" "Fin (max h h')"] number_le_trans [of "Fin (min l l')" "Fin l'"] by auto
    then show ?thesis using step lh by auto
  qed
qed simp

text \<open>On bars whose close lies between their low and their high, every value of the oscillator's
  \<open>%K\<close> line is NaN (before the first full window) or lies between 0 and 100.\<close>

theorem stochastic_within_0_100:
  assumes "0 < kPeriod"
    and "\<And>j. j < length closes \<Longrightarrow> \<exists>l c h. js_nth low j = Fin l \<and> js_nth closes j = Fin c \<and> js_nth high j = Fin h \<and> l \<le> c \<and> c \<le> h"
    and "v \<in> set (fst (stochastic high low closes kPeriod dPeriod))"
  shows "v = NaN \<or> Fin 0 \<le> v \<and> v \<le> Fin 100"
proof -
  have "percent (stoch_k high low closes kPeriod i)" if i: "i < length closes" "kPeriod \<le> i + 1" for i
  proof -
    let ?js = "[i + 1 - kPeriod..<i + 1]"
    have ne: "?js \<noteq> []" "i \<in> set ?js" using assms(1) i by auto
    have "\<exists>l h. js_nth low j = Fin l \<and> js_nth high j = Fin h \<and> l \<le> h" if "j \<in> set ?js" for j
      using assms(2) [of j] that i by force
    then obtain l h where w: "window_range high low ?js = (Fin h, Fin l)"
      "js_nth high i \<le> Fin h" "Fin l \<le> js_nth low i" using window_range_bounds [OF _ ne(1)] ne(2) by blast
    obtain c where c: "js_nth closes i = Fin c" "l \<le> c" "c \<le> h" using assms(2) [OF i(1)] w(2,3) by force
    have b: "fl (c - l) \<le> fl (h - l)" "Fin 0 \<le> fl (c - l)" using c by (auto intro: fl_mono fl_nonneg)
    show ?thesis
    proof (cases "fl (h - l)")
      case (Fin u)
      then obtain d where "fl (c - l) = Fin d" "0 \<le> d" "d \<le> u" using b by (cases "fl (c - l)") auto
      then show ?thesis using Fin w(1) c ratio_percent [of d u]
        by (auto simp: stoch_k_def Let_def js_eq_def minus_number_def percent_def)
    qed (use b w(1) c in \<open>cases "fl (c - l)"; auto simp: stoch_k_def Let_def js_eq_def minus_number_def percent_def inf_sign_def\<close>)+
  qed
  then have "percent (if i + 1 < kPeriod then NaN else stoch_k high low closes kPeriod i)" if "i < length closes" for i
    using that by (auto simp: percent_def [of NaN])
  then show ?thesis using assms(3) by (force simp: stochastic_def Let_def percent_def)
qed

theorem stochastic_within_0_100_witness:
  "fst (stochastic [Fin 5, Fin 4] [Fin 1, Fin 2] [Fin 3, Fin 4] 2 1) = [NaN, Fin 75] \<and> Fin 75 \<le> Fin 100"
proof -
  have e: "fst (stochastic [Fin 5, Fin 4] [Fin 1, Fin 2] [Fin 3, Fin 4] 2 1) = [NaN, Fin 75]" by code_simp
  have "\<exists>l c h. js_nth [Fin 1, Fin 2] j = Fin l \<and> js_nth [Fin 3, Fin 4] j = Fin c \<and> js_nth [Fin 5, Fin 4] j = Fin h \<and> l \<le> c \<and> c \<le> h"
    if "j < length [Fin 3, Fin 4]" for j using that by (auto simp: js_nth_def less_Suc_eq)
  from stochastic_within_0_100 [OF _ this, of 2 "Fin 75" 1] e show ?thesis by simp
qed

end
