(* ===== verification/MarketContext.thy ===== *)
theory MarketContext
  imports MarketIndicators
begin

text \<open>
  The multi-timeframe market context, \<open>services/market/marketContextMath.ts\<close> and
  \<open>services/market/marketContextService.ts\<close>: the reading of one timeframe, the year of daily structure, the
  regime, and the context built from the ladder of timeframes and kept for a minute. The candle store is
  an argument that may fail. The context's texts are kept as the parts they are made of; its rendering
  for language-model prompts is left out.
\<close>

section \<open>Data\<close>

datatype market_interval = I1m | I5m | I15m | I1h | I4h | I1d
datatype bias = BiasUp | BiasDown | BiasFlat
datatype horizon_trend = Bull | Bear | Ranging
datatype market_regime = TrendingUp | TrendingDown | Choppy | HighVolatility | UnknownRegime
datatype data_quality = Deep | Partial | Thin | NoData

record AnalysisCandle =
  ac_openTime :: time
  ac_open :: number
  ac_high :: number
  ac_low :: number
  ac_close :: number
  ac_volume :: number
  ac_quoteVolume :: number
  ac_trades :: number

record TimeframeRead =
  tf_interval :: market_interval
  tf_bars :: nat
  tf_close :: "number option"
  tf_ema20 :: "number option"
  tf_ema50 :: "number option"
  tf_rsi14 :: "number option"
  tf_macdHist :: "number option"
  tf_adx :: "number option"
  tf_changePct :: "number option"
  tf_bias :: bias

record LongHorizon =
  lh_bars :: nat
  lh_coveredDays :: nat
  lh_high52w :: number
  lh_low52w :: number
  lh_pctFromHigh52w :: number
  lh_pctFromLow52w :: number
  lh_rangePosition :: number
  lh_return30dPct :: "number option"
  lh_return90dPct :: "number option"
  lh_return365dPct :: "number option"
  lh_sma50 :: "number option"
  lh_sma200 :: "number option"
  lh_goldenCross :: "bool option"
  lh_annualizedVolPct :: "number option"
  lh_maxDrawdown1yPct :: number
  lh_trend :: horizon_trend

section \<open>Analysis\<close>

definition finite_opt :: "number \<Rightarrow> number option" where
  "finite_opt n = (if is_finite n then Some n else None)"

definition pctChange :: "number option \<Rightarrow> number option \<Rightarrow> number option" where
  "pctChange from to =
     (case (from, to) of
        (Some a, Some b) \<Rightarrow> if a \<le> Fin 0 then None else Some ((b - a) / a * Fin 100)
      | _ \<Rightarrow> None)"

text \<open>\<open>xs[xs.length - k]\<close>, which is undefined before the start of the array.\<close>

definition from_end :: "number list \<Rightarrow> nat \<Rightarrow> number option" where
  "from_end xs k = (if 0 < k \<and> k \<le> length xs then Some (xs ! (length xs - k)) else None)"

definition bias_of :: "number option \<Rightarrow> number option \<Rightarrow> number option \<Rightarrow> number option \<Rightarrow> bias" where
  "bias_of close ema20 ema50 changePct =
     (case (close, ema20, ema50) of
        (Some c, Some e20, Some e50) \<Rightarrow>
          if e20 < c \<and> e50 < e20 then BiasUp else if c < e20 \<and> e20 < e50 then BiasDown else BiasFlat
      | _ \<Rightarrow>
          (case changePct of None \<Rightarrow> BiasFlat
           | Some p \<Rightarrow> if Fin 1 < p then BiasUp else if p < Fin (- 1) then BiasDown else BiasFlat))"

definition readTimeframe :: "market_interval \<Rightarrow> AnalysisCandle list \<Rightarrow> TimeframeRead" where
  "readTimeframe interval candles =
     (let closes = map ac_close candles; highs = map ac_high candles; lows = map ac_low candles;
          n = length closes;
          close = from_end closes 1;
          ema20 = (if 20 \<le> n then finite_opt (last_valid (market_ema closes 20)) else None);
          ema50 = (if 50 \<le> n then finite_opt (last_valid (market_ema closes 50)) else None);
          rsi14 = (if 15 \<le> n then finite_opt (last_valid (market_rsi closes 14)) else None);
          macdHist = (if 35 \<le> n then finite_opt (last_valid (md_hist (macd closes 12 26 9))) else None);
          adxVal = (if 30 \<le> n then finite_opt (last_valid (al_adx (adx highs lows closes 14))) else None);
          lookback = min 24 (n - 1);
          changePct = (if 0 < lookback then pctChange (from_end closes (lookback + 1)) close else None) in
      \<lparr>tf_interval = interval, tf_bars = length candles, tf_close = close, tf_ema20 = ema20, tf_ema50 = ema50,
       tf_rsi14 = rsi14, tf_macdHist = macdHist, tf_adx = adxVal, tf_changePct = changePct,
       tf_bias = bias_of close ema20 ema50 changePct\<rparr>)"

text \<open>The daily log returns; a bar whose predecessor has no positive close is skipped.\<close>

fun log_returns :: "js_math \<Rightarrow> number list \<Rightarrow> number list" where
  "log_returns m (prev # c # cs) =
     (if Fin 0 < prev then jm_log m (c / prev) # log_returns m (c # cs) else log_returns m (c # cs))"
| "log_returns m cs = []"

definition annualized_vol :: "js_math \<Rightarrow> number list \<Rightarrow> number option" where
  "annualized_vol m closes =
     (let rets = log_returns m closes in
      if length closes < 30 \<or> length rets < 20 then None
      else
        let mean = sum_numbers (Fin 0) rets / count_number (length rets);
            variance = foldl (\<lambda>a r. a + jm_pow m (r - mean) (Fin 2)) (Fin 0) rets / (count_number (length rets) - Fin 1) in
        Some (jm_sqrt m variance * jm_sqrt m (Fin 365) * Fin 100))"

text \<open>The drawdown loop over the closes: the running peak and the deepest fall from it so far.\<close>

definition drawdown_step :: "number \<times> number \<Rightarrow> number \<Rightarrow> number \<times> number" where
  "drawdown_step s c =
     (case s of (peak, worst) \<Rightarrow>
        let peak' = (if peak < c then c else peak) in
        if Fin 0 < peak' then
          (let dd = (peak' - c) / peak' * Fin 100 in (peak', if worst < dd then dd else worst))
        else (peak', worst))"

definition max_drawdown :: "number list \<Rightarrow> number" where
  "max_drawdown closes = snd (foldl drawdown_step (js_nth closes 0, Fin 0) closes)"

definition horizon_trend_of :: "number \<Rightarrow> number option \<Rightarrow> bool option \<Rightarrow> number \<Rightarrow> horizon_trend" where
  "horizon_trend_of spot sma200 goldenCross rangePosition =
     (let aboveSma200 = map_option (\<lambda>s. s < spot) sma200 in
      if aboveSma200 = Some True \<and> goldenCross \<noteq> Some False \<and> Fin (1/2) < rangePosition then Bull
      else if aboveSma200 = Some False \<and> goldenCross \<noteq> Some True \<and> rangePosition < lit (2/5) then Bear
      else Ranging)"

definition buildLongHorizon :: "js_math \<Rightarrow> AnalysisCandle list \<Rightarrow> LongHorizon option" where
  "buildLongHorizon m daily =
     (if length daily < 30 then None
      else
        let window = drop (length daily - 365) daily;
            closes = map ac_close window;
            spot = js_last closes;
            high52w = foldl math_max NInf (map ac_high window);
            low52w = foldl math_min PInf (map ac_low window);
            span = high52w - low52w;
            allCloses = map ac_close daily;
            sma50 = (if 50 \<le> length daily then finite_opt (last_valid (market_sma allCloses 50)) else None);
            sma200 = (if 200 \<le> length daily then finite_opt (last_valid (market_sma allCloses 200)) else None);
            rangePosition = (if Fin 0 < span then (spot - low52w) / span else Fin (1/2));
            goldenCross = (case (sma50, sma200) of (Some a, Some b) \<Rightarrow> Some (b < a) | _ \<Rightarrow> None) in
        Some \<lparr>lh_bars = length daily, lh_coveredDays = length window, lh_high52w = high52w, lh_low52w = low52w,
          lh_pctFromHigh52w = (if Fin 0 < high52w then (spot - high52w) / high52w * Fin 100 else Fin 0),
          lh_pctFromLow52w = (if Fin 0 < low52w then (spot - low52w) / low52w * Fin 100 else Fin 0),
          lh_rangePosition = math_min (Fin 1) (math_max (Fin 0) rangePosition),
          lh_return30dPct = pctChange (from_end allCloses 31) (Some spot),
          lh_return90dPct = pctChange (from_end allCloses 91) (Some spot),
          lh_return365dPct = pctChange (from_end allCloses 366) (Some spot),
          lh_sma50 = sma50, lh_sma200 = sma200, lh_goldenCross = goldenCross,
          lh_annualizedVolPct = annualized_vol m closes, lh_maxDrawdown1yPct = max_drawdown closes,
          lh_trend = horizon_trend_of spot sma200 goldenCross rangePosition\<rparr>)"

definition classifyRegime :: "LongHorizon option \<Rightarrow> TimeframeRead list \<Rightarrow> number \<Rightarrow> market_regime" where
  "classifyRegime longHorizon timeframes alignmentScore =
     (if timeframes = [] then UnknownRegime
      else if (case Option.bind longHorizon lh_annualizedVolPct of None \<Rightarrow> False | Some v \<Rightarrow> Fin 120 < v) then HighVolatility
      else
        let strengths = List.map_filter tf_adx timeframes;
            avgAdx = (if strengths \<noteq> [] then Some (sum_numbers (Fin 0) strengths / count_number (length strengths)) else None) in
        if (case avgAdx of None \<Rightarrow> False | Some a \<Rightarrow> a < Fin 20) then Choppy
        else if lit (2/5) \<le> alignmentScore then TrendingUp
        else if alignmentScore \<le> lit (- 2/5) then TrendingDown
        else Choppy)"

section \<open>The context of a symbol\<close>

definition LADDER :: "(market_interval \<times> nat) list" where
  "LADDER = [(I1d, 400), (I4h, 180), (I1h, 200), (I15m, 200)]"

definition CONTEXT_TTL_MS :: int where "CONTEXT_TTL_MS = 60000"

record alignment =
  al_bullish :: nat
  al_bearish :: nat
  al_total :: nat
  al_score :: number

datatype headline_part = RegimePart horizon_trend | FromHighPart string | Return90Part bool string
  | BullishPart "market_interval list" | NoBullishPart

datatype headline = NoStoredHistory string | ContextUnavailable string | Described string "headline_part list"

datatype context_note = NoUsableHistory | TimeframesMissing nat nat | DailyTooShallow | StoreReadFailed

record MarketContext =
  mc_symbol :: string
  mc_updatedAt :: time
  mc_available :: bool
  mc_dataQuality :: data_quality
  mc_longHorizon :: "LongHorizon option"
  mc_timeframes :: "TimeframeRead list"
  mc_alignment :: alignment
  mc_regime :: market_regime
  mc_headline :: headline
  mc_notes :: "context_note list"

type_synonym candle_store = "string \<Rightarrow> market_interval \<Rightarrow> nat \<Rightarrow> AnalysisCandle list option"

definition describe_context :: "string \<Rightarrow> bool \<Rightarrow> LongHorizon option \<Rightarrow> TimeframeRead list \<Rightarrow> headline" where
  "describe_context symbol available longHorizon timeframes =
     (if \<not> available then NoStoredHistory symbol
      else
        let up = map tf_interval (filter (\<lambda>t. tf_bias t = BiasUp) timeframes) in
        Described symbol
          ((case longHorizon of None \<Rightarrow> []
            | Some lh \<Rightarrow> [RegimePart (lh_trend lh), FromHighPart (to_fixed (lh_pctFromHigh52w lh) 0)]
                @ (case lh_return90dPct lh of None \<Rightarrow> [] | Some r \<Rightarrow> [Return90Part (Fin 0 \<le> r) (to_fixed r 0)]))
           @ [if up \<noteq> [] then BullishPart up else NoBullishPart]))"

fun read_ladder :: "candle_store \<Rightarrow> string \<Rightarrow> (market_interval \<times> nat) list \<Rightarrow> (market_interval \<times> AnalysisCandle list) list option" where
  "read_ladder store symbol [] = Some []"
| "read_ladder store symbol ((interval, bars) # rest) =
     (case (store symbol interval bars, read_ladder store symbol rest) of
        (Some cs, Some rs) \<Rightarrow> Some ((interval, cs) # rs)
      | _ \<Rightarrow> None)"

definition align :: "TimeframeRead list \<Rightarrow> alignment" where
  "align timeframes =
     (let bullish = length (filter (\<lambda>t. tf_bias t = BiasUp) timeframes);
          bearish = length (filter (\<lambda>t. tf_bias t = BiasDown) timeframes);
          total_n = length timeframes in
      \<lparr>al_bullish = bullish, al_bearish = bearish, al_total = total_n,
       al_score = (if 0 < total_n then (count_number bullish - count_number bearish) / count_number total_n else Fin 0)\<rparr>)"

definition quality_of :: "nat \<Rightarrow> LongHorizon option \<Rightarrow> data_quality" where
  "quality_of total_n longHorizon =
     (if total_n = 0 then NoData
      else case longHorizon of None \<Rightarrow> Thin
      | Some lh \<Rightarrow> if 300 \<le> lh_coveredDays lh \<and> total_n = length LADDER then Deep else Partial)"

definition context_notes :: "nat \<Rightarrow> LongHorizon option \<Rightarrow> context_note list" where
  "context_notes total_n longHorizon =
     (if total_n = 0 then [NoUsableHistory]
      else if total_n < length LADDER then [TimeframesMissing total_n (length LADDER)] else [])
     @ (if longHorizon = None \<and> 0 < total_n then [DailyTooShallow] else [])"

definition build_context :: "js_math \<Rightarrow> candle_store \<Rightarrow> time \<Rightarrow> string \<Rightarrow> MarketContext option" where
  "build_context m store now symbol =
     map_option (\<lambda>reads.
       let timeframes = map (\<lambda>(interval, candles). readTimeframe interval candles)
             (filter (\<lambda>(_, candles). 15 \<le> length candles) reads);
           daily = (case find (\<lambda>(interval, _). interval = I1d) reads of None \<Rightarrow> [] | Some (_, candles) \<Rightarrow> candles);
           longHorizon = buildLongHorizon m daily;
           al = align timeframes;
           available = (0 < al_total al) in
       \<lparr>mc_symbol = symbol, mc_updatedAt = now, mc_available = available,
        mc_dataQuality = quality_of (al_total al) longHorizon, mc_longHorizon = longHorizon, mc_timeframes = timeframes,
        mc_alignment = al, mc_regime = classifyRegime longHorizon timeframes (al_score al),
        mc_headline = describe_context symbol available longHorizon timeframes,
        mc_notes = context_notes (al_total al) longHorizon\<rparr>) (read_ladder store symbol LADDER)"

definition unavailable_context :: "time \<Rightarrow> string \<Rightarrow> MarketContext" where
  "unavailable_context now symbol =
     \<lparr>mc_symbol = symbol, mc_updatedAt = now, mc_available = False, mc_dataQuality = NoData, mc_longHorizon = None,
      mc_timeframes = [], mc_alignment = \<lparr>al_bullish = 0, al_bearish = 0, al_total = 0, al_score = Fin 0\<rparr>,
      mc_regime = UnknownRegime, mc_headline = ContextUnavailable symbol, mc_notes = [StoreReadFailed]\<rparr>"

type_synonym context_cache = "string \<rightharpoonup> MarketContext \<times> time"

definition getMarketContext ::
  "js_math \<Rightarrow> candle_store \<Rightarrow> time \<Rightarrow> string \<Rightarrow> context_cache \<Rightarrow> MarketContext \<times> context_cache" where
  "getMarketContext m store now binanceSymbol cache =
     (let symbol = to_upper (remove_first (CHR ''/'') binanceSymbol);
          refresh = (case build_context m store now symbol of
             Some ctx \<Rightarrow> (ctx, cache(symbol \<mapsto> (ctx, now)))
           | None \<Rightarrow> (unavailable_context now symbol, cache)) in
      case cache symbol of
        Some (ctx, t) \<Rightarrow> if now - t < CONTEXT_TTL_MS then (ctx, cache) else refresh
      | None \<Rightarrow> refresh)"

section \<open>Well-formed contexts\<close>

definition well_formed_horizon :: "LongHorizon \<Rightarrow> bool" where
  "well_formed_horizon lh \<longleftrightarrow> 30 \<le> lh_bars lh \<and> lh_coveredDays lh = min 365 (lh_bars lh) \<and>
     (lh_rangePosition lh = NaN \<or> Fin 0 \<le> lh_rangePosition lh \<and> lh_rangePosition lh \<le> Fin 1) \<and>
     (lh_goldenCross lh \<noteq> None \<longrightarrow> 200 \<le> lh_bars lh) \<and> (lh_return365dPct lh \<noteq> None \<longrightarrow> 366 \<le> lh_bars lh)"

definition well_formed_context :: "MarketContext \<Rightarrow> bool" where
  "well_formed_context ctx \<longleftrightarrow>
     (let al = mc_alignment ctx in
      al_total al = length (mc_timeframes ctx) \<and> al_total al \<le> 4 \<and> al_bullish al + al_bearish al \<le> al_total al \<and>
      Fin (- 1) \<le> al_score al \<and> al_score al \<le> Fin 1 \<and>
      (mc_available ctx \<longleftrightarrow> 0 < al_total al) \<and> (mc_dataQuality ctx = NoData \<longleftrightarrow> \<not> mc_available ctx) \<and>
      (mc_dataQuality ctx = Deep \<longrightarrow> al_total al = 4 \<and> (\<exists>lh. mc_longHorizon ctx = Some lh \<and> 300 \<le> lh_bars lh)) \<and>
      (\<forall>lh. mc_longHorizon ctx = Some lh \<longrightarrow> well_formed_horizon lh) \<and>
      (mc_regime ctx = UnknownRegime \<longleftrightarrow> \<not> mc_available ctx) \<and>
      list_all (\<lambda>t. 15 \<le> tf_bars t) (mc_timeframes ctx))"

lemma from_end_len: "from_end xs k \<noteq> None \<Longrightarrow> k \<le> length xs"
  by (auto simp: from_end_def split: if_splits)

lemma clamp_unit_or_NaN:
  "math_min (Fin 1) (math_max (Fin 0) x) = NaN \<or>
   Fin 0 \<le> math_min (Fin 1) (math_max (Fin 0) x) \<and> math_min (Fin 1) (math_max (Fin 0) x) \<le> Fin 1"
  by (cases x) (auto simp: math_min_def math_max_def)

lemma pctChange_known: "pctChange a b \<noteq> None \<Longrightarrow> a \<noteq> None"
  by (cases a) (auto simp: pctChange_def)

lemma horizon_well_formed:
  assumes "buildLongHorizon m daily = Some lh"
  shows "well_formed_horizon lh"
proof -
  have n: "\<not> length daily < 30" using assms by (auto simp: buildLongHorizon_def)
  have lh: "lh = the (buildLongHorizon m daily)" using assms by simp
  have f: "lh_bars lh = length daily" "lh_coveredDays lh = min 365 (length daily)"
    "\<exists>x. lh_rangePosition lh = math_min (Fin 1) (math_max (Fin 0) x)"
    "\<exists>b. lh_return365dPct lh = pctChange (from_end (map ac_close daily) 366) b"
    "lh_goldenCross lh = (case (if 50 \<le> length daily then finite_opt (last_valid (market_sma (map ac_close daily) 50)) else None,
        if 200 \<le> length daily then finite_opt (last_valid (market_sma (map ac_close daily) 200)) else None) of
        (Some a, Some b) \<Rightarrow> Some (b < a) | _ \<Rightarrow> None)"
    unfolding lh using n by (simp_all add: buildLongHorizon_def Let_def split del: if_split) blast+
  have "366 \<le> length daily" if "lh_return365dPct lh \<noteq> None"
  proof -
    have "from_end (map ac_close daily) 366 \<noteq> None" using that f(4) pctChange_known by metis
    then show ?thesis using from_end_len by fastforce
  qed
  moreover have "200 \<le> length daily" if "lh_goldenCross lh \<noteq> None"
    using that f(5) by (auto split: option.splits if_splits)
  moreover have "lh_rangePosition lh = NaN \<or> Fin 0 \<le> lh_rangePosition lh \<and> lh_rangePosition lh \<le> Fin 1"
    using f(3) clamp_unit_or_NaN by metis
  ultimately show ?thesis using n f(1,2) by (simp add: well_formed_horizon_def)
qed

lemma read_ladder_length: "read_ladder store symbol xs = Some rs \<Longrightarrow> length rs = length xs"
  by (induction xs arbitrary: rs) (auto split: option.splits prod.splits)

lemma bias_counts:
  "length (filter (\<lambda>t. tf_bias t = BiasUp) ts) + length (filter (\<lambda>t. tf_bias t = BiasDown) ts) \<le> length ts"
  by (induction ts) auto

lemma align_score_range:
  assumes "length ts \<le> 4"
  shows "Fin (- 1) \<le> al_score (align ts) \<and> al_score (align ts) \<le> Fin 1"
proof (cases "ts = []")
  case False
  define u d n where "u = length (filter (\<lambda>t. tf_bias t = BiasUp) ts)" and
    "d = length (filter (\<lambda>t. tf_bias t = BiasDown) ts)" and "n = length ts"
  have s: "u + d \<le> n" "0 < n" "n \<le> 4" using bias_counts [of ts] False assms by (simp_all add: u_def d_def n_def)
  have c: "count_number u = Fin (of_nat u)" "count_number d = Fin (of_nat d)" "count_number n = Fin (of_nat n)"
    using s small_count [of u] small_count [of d] small_count [of n] by (simp_all add: count_number_def)
  have "representable (of_int (int u - int d))" 
  proof (rule representable_of_int)
    have "\<bar>int u - int d\<bar> \<le> 4" using s by linarith
    then show "\<bar>int u - int d\<bar> < 2 ^ 53" by simp
  qed
  then have "rnd (of_nat u - of_nat d) = (of_nat u - of_nat d :: rat)" using rnd_representable by fastforce
  moreover have "\<bar>of_nat u - of_nat d :: rat\<bar> < max_finite"
  proof -
    have "\<bar>of_nat u - of_nat d :: rat\<bar> \<le> of_nat n" using s(1) by (simp add: abs_le_iff of_nat_add [symmetric] del: of_nat_add)
    also have "\<dots> \<le> 4" using s(3) by simp
    finally show ?thesis by (simp add: max_finite_def)
  qed
  ultimately have e: "count_number u - count_number d = Fin (of_nat u - of_nat d)"
    using c by (intro trans [OF _ fl_id]) (simp_all add: minus_number_def)
  have q: "- 1 \<le> (of_nat u - of_nat d) / (of_nat n :: rat)" "(of_nat u - of_nat d) / (of_nat n :: rat) \<le> 1"
    using s(1,2) by (simp_all add: field_simps of_nat_add [symmetric] del: of_nat_add)
  from fl_mono [OF q(1)] fl_mono [OF q(2)] show ?thesis
    using e c s(2) False by (simp add: align_def Let_def u_def d_def n_def fl_uminus fl_one)
qed (simp add: align_def)

lemma regime_known: "classifyRegime lh ts s = UnknownRegime \<longleftrightarrow> ts = []"
  by (auto simp: classifyRegime_def Let_def split: option.splits)

lemma build_context_well_formed:
  assumes "build_context m store now symbol = Some ctx"
  shows "well_formed_context ctx"
proof -
  obtain reads where r: "read_ladder store symbol LADDER = Some reads" using assms by (auto simp: build_context_def)
  define ts where "ts = map (\<lambda>(interval, candles). readTimeframe interval candles)
             (filter (\<lambda>(_, candles). 15 \<le> length candles) reads)"
  define lho where "lho = buildLongHorizon m (case find (\<lambda>(interval, _). interval = I1d) reads of None \<Rightarrow> [] | Some (_, candles) \<Rightarrow> candles)"
  have c: "mc_timeframes ctx = ts" "mc_longHorizon ctx = lho" "mc_alignment ctx = align ts"
    "mc_dataQuality ctx = quality_of (al_total (align ts)) lho" "mc_available ctx \<longleftrightarrow> 0 < al_total (align ts)"
    "mc_regime ctx = classifyRegime lho ts (al_score (align ts))"
    using assms r unfolding ts_def lho_def by (auto simp: build_context_def Let_def)
  have n: "al_total (align ts) = length ts" by (simp add: align_def Let_def)
  have "length reads = 4" using read_ladder_length [OF r] by (simp add: LADDER_def)
  then have l: "length ts \<le> 4" by (simp add: ts_def order_trans [OF length_filter_le])
  have b: "al_bullish (align ts) + al_bearish (align ts) \<le> length ts" using bias_counts by (simp add: align_def Let_def)
  have f: "list_all (\<lambda>t. 15 \<le> tf_bars t) ts" by (auto simp: ts_def list_all_iff readTimeframe_def Let_def)
  have h: "well_formed_horizon lh" if "lho = Some lh" for lh using that horizon_well_formed by (simp add: lho_def)
  have q: "quality_of (length ts) lho = Deep \<Longrightarrow> length ts = 4 \<and> (\<exists>lh. lho = Some lh \<and> 300 \<le> lh_bars lh)"
    using h by (auto simp: quality_of_def LADDER_def well_formed_horizon_def split: option.splits if_splits)
  have q0: "quality_of (length ts) lho = NoData \<longleftrightarrow> ts = []"
    by (auto simp: quality_of_def split: option.splits)
  show ?thesis unfolding well_formed_context_def Let_def c n
    using l b f h q q0 align_score_range [OF l] regime_known [of lho ts] by auto
qed

text \<open>C38: Every market context the service returns, from the store, from its cache or as the fallback
  after a failed read, is well formed: the counts fit the timeframes read, the score lies between -1 and
  1, a context is available exactly when a timeframe was read, the quality "deep" is given only with all
  four timeframes and 300 daily bars, and the yearly structure rests on the bars it needs. The cache
  keeps only such contexts.\<close>

theorem market_context_well_formed:
  assumes "\<And>k ctx t. cache k = Some (ctx, t) \<Longrightarrow> well_formed_context ctx"
    and "getMarketContext m store now symbol cache = (ctx, cache')"
  shows "well_formed_context ctx \<and> (\<forall>k c t. cache' k = Some (c, t) \<longrightarrow> well_formed_context c)"
proof -
  have u: "well_formed_context (unavailable_context n s)" for n s
    by (simp add: well_formed_context_def unavailable_context_def)
  show ?thesis using assms u
    by (auto simp: getMarketContext_def Let_def dest!: build_context_well_formed split: option.splits if_splits prod.splits)
qed

definition demo_math :: js_math where
  "demo_math = \<lparr>jm_sqrt = id, jm_log = id, jm_pow = (*)\<rparr>"

definition demo_store :: candle_store where
  "demo_store symbol interval bars = (if interval = I1m then None else Some [])"

theorem market_context_well_formed_witness:
  "well_formed_context (fst (getMarketContext demo_math demo_store 5 ''btc/usdt'' Map.empty)) \<and>
   mc_symbol (fst (getMarketContext demo_math demo_store 5 ''btc/usdt'' Map.empty)) = ''BTCUSDT'' \<and>
   mc_notes (fst (getMarketContext demo_math demo_store 5 ''btc/usdt'' Map.empty)) = [NoUsableHistory]"
proof -
  let ?g = "getMarketContext demo_math demo_store 5 ''btc/usdt'' Map.empty"
  have "mc_symbol (fst ?g) = ''BTCUSDT''" "mc_notes (fst ?g) = [NoUsableHistory]" by code_simp+
  moreover have "well_formed_context (fst ?g)"
    using market_context_well_formed [of Map.empty demo_math demo_store 5 "''btc/usdt''"] by (simp add: prod_eq_iff)
  ultimately show ?thesis by simp
qed

end
