(* ===== verification/TechnicalAgent.thy ===== *)
theory TechnicalAgent
  imports MarketContext TtlCache
begin

text \<open>
  The technical analyst of the agent councils, \<open>services/agents/technicalAgent.ts\<close>: its own RSI and EMA over the
  candles it could get, the vote they give, the overlay of the market context, and the minute cache. The
  candle service, the live price and \<open>Math.sin\<close> are arguments. The reason text is kept as the list of
  its parts.
\<close>

section \<open>Votes\<close>

datatype vote = VBuy | VHold | VAvoid

datatype data_note = ServiceNote string | LimitedOhlc | LivePriceFallback | LimitedHistory

datatype tech_note =
    DataNote data_note
  | RsiOverbought number
  | RsiOversold number
  | RsiHealthy number
  | UptrendDegraded
  | UptrendStrength number
  | DowntrendStrength number
  | MixedTrend number
  | NoClearEdge
  | CandlesUnavailable
  | HigherBearish nat nat
  | YearDowntrend number
  | AlignedYearUp nat nat
  | HigherBullish nat nat
  | VolatilityNote "number option"
  | ChoppyNote
  | AllHigherBullish
  | AtYearHigh

record JupiterCandle =
  jc_openTime :: time
  jc_open :: number
  jc_high :: number
  jc_low :: number
  jc_close :: number
  jc_volume :: number
  jc_closeTime :: time

record TechnicalSnapshot =
  ts_vote :: vote
  ts_confidence :: number
  ts_reason :: "tech_note list"
  ts_rsi14 :: "number option"
  ts_emaFast :: "number option"
  ts_emaSlow :: "number option"
  ts_emaCrossBull :: "bool option"
  ts_trendStrength :: number
  ts_change1hPct :: "number option"
  ts_context :: "MarketContext option"

section \<open>Indicators\<close>

definition agent_ema :: "number list \<Rightarrow> nat \<Rightarrow> number option" where
  "agent_ema values period =
     (if length values < period then None
      else
        let k = Fin 2 / count_number (period + 1) in
        Some (foldl (\<lambda>out v. v * k + out * (Fin 1 - k))
                (sum_numbers (Fin 0) (take period values) / count_number period) (drop period values)))"

definition agent_rsi_step :: "number list \<Rightarrow> nat \<Rightarrow> number \<times> number \<Rightarrow> nat \<Rightarrow> number \<times> number" where
  "agent_rsi_step closes period s i =
     (case s of (avgGain, avgLoss) \<Rightarrow>
        let d = close_diff closes i in
        (wilder_next period avgGain (math_max (Fin 0) d), wilder_next period avgLoss (math_max (Fin 0) (- d))))"

definition agent_rsi :: "number list \<Rightarrow> nat \<Rightarrow> number option" where
  "agent_rsi closes period =
     (if length closes < period + 1 then None
      else case foldl (agent_rsi_step closes period) (rsi_start closes period) [period + 1..<length closes] of
        (avgGain, avgLoss) \<Rightarrow>
          if js_eq avgLoss (Fin 0) then Some (Fin 100)
          else Some (let rs = avgGain / avgLoss in Fin 100 - Fin 100 / (Fin 1 + rs)))"

definition trendStrengthScore :: "number list \<Rightarrow> number list \<Rightarrow> nat \<Rightarrow> number" where
  "trendStrengthScore closes opens n =
     (let len = min n (length closes) in
      if len = 0 then Fin (1/2)
      else count_number (length (filter (\<lambda>i. js_nth opens i \<le> js_nth closes i) [length closes - len..<length closes]))
             / count_number len)"

definition synthesizeFromLivePrice ::
  "(number \<Rightarrow> number) \<Rightarrow> time \<Rightarrow> number \<Rightarrow> nat \<Rightarrow> time \<Rightarrow> JupiterCandle list" where
  "synthesizeFromLivePrice msin now price count intervalMs =
     (let bar = (\<lambda>i.
            let openTime = now - (int count - int i) * intervalMs;
                p = price + msin (count_number i / Fin 4) * price * lit (1/1000) in
            \<lparr>jc_openTime = openTime, jc_open = p, jc_high = p * lit (10015/10000), jc_low = p * lit (9985/10000),
             jc_close = (if i + 1 = count then price else p), jc_volume = Fin 0, jc_closeTime = openTime + intervalMs - 1\<rparr>) in
      map bar [0..<count])"

section \<open>Candles\<close>

record aligned_candles =
  ja_candles :: "JupiterCandle list"
  ja_degraded :: bool
  ja_stale :: bool
  ja_note :: "string option"
  ja_jupiterPrice :: "number option"

record resolved_candles =
  rc_candles :: "JupiterCandle list"
  rc_degraded :: bool
  rc_note :: "data_note option"

record tech_env =
  te_now :: time
  te_sin :: "number \<Rightarrow> number"
  te_math :: js_math
  te_store :: candle_store
  te_candles :: "string \<Rightarrow> string \<Rightarrow> nat \<Rightarrow> aligned_candles option"
  te_livePrice :: "string \<Rightarrow> number option"

definition candle_attempts :: "(string \<times> nat \<times> time) list" where
  "candle_attempts = [(''15m'', 120, 900000), (''5m'', 96, 300000), (''1h'', 72, 3600000), (''1m'', 90, 60000)]"

definition positive_price :: "number option \<Rightarrow> number option" where
  "positive_price p = (case p of None \<Rightarrow> None | Some x \<Rightarrow> if Fin 0 < x then Some x else None)"

fun try_intervals :: "tech_env \<Rightarrow> string \<Rightarrow> (string \<times> nat \<times> time) list \<Rightarrow> resolved_candles option" where
  "try_intervals env key [] = None"
| "try_intervals env key ((interval, limit, ms) # rest) =
     (case te_candles env key interval limit of None \<Rightarrow> try_intervals env key rest
      | Some result \<Rightarrow>
          if 14 \<le> length (ja_candles result) then
            Some \<lparr>rc_candles = ja_candles result, rc_degraded = (ja_degraded result \<or> ja_stale result), rc_note = map_option ServiceNote (ja_note result)\<rparr>
          else (case positive_price (ja_jupiterPrice result) of
              Some p \<Rightarrow> Some \<lparr>rc_candles = synthesizeFromLivePrice (te_sin env) (te_now env) p (max 30 (limit div 2)) ms,
                  rc_degraded = True, rc_note = Some (nullish (map_option ServiceNote (ja_note result)) LimitedOhlc)\<rparr>
            | None \<Rightarrow> try_intervals env key rest))"

definition resolveCandles :: "tech_env \<Rightarrow> string \<Rightarrow> resolved_candles option" where
  "resolveCandles env binanceSymbol =
     (let key = to_upper binanceSymbol in
      case try_intervals env key candle_attempts of
        Some r \<Rightarrow> Some r
      | None \<Rightarrow>
          map_option (\<lambda>p. \<lparr>rc_candles = synthesizeFromLivePrice (te_sin env) (te_now env) p 40 900000, rc_degraded = True,
             rc_note = Some LivePriceFallback\<rparr>)
           (positive_price (te_livePrice env key)))"

section \<open>The vote\<close>

definition rsi_read :: "number option \<Rightarrow> number \<Rightarrow> vote \<times> number \<times> tech_note list" where
  "rsi_read rsi14 base =
     (case rsi14 of None \<Rightarrow> (VHold, base, [])
      | Some r \<Rightarrow>
          if Fin 78 < r then (VAvoid, lit (7/10), [RsiOverbought r])
          else if r < Fin 30 then (VHold, base, [RsiOversold r])
          else if Fin 50 \<le> r \<and> r \<le> Fin 70 then (VHold, base + lit (1/10), [RsiHealthy r])
          else (VHold, base, []))"

definition buy_confidence :: "number \<Rightarrow> number option \<Rightarrow> number" where
  "buy_confidence trendStrength rsi14 =
     math_min (lit (9/10))
       (lit (11/20) + (trendStrength - lit (11/20)) * lit (6/5) +
        (case rsi14 of Some r \<Rightarrow> if Fin 50 < r \<and> r < Fin 70 then lit (1/10) else Fin 0 | None \<Rightarrow> Fin 0))"

definition trend_read ::
  "bool \<Rightarrow> bool option \<Rightarrow> number \<Rightarrow> number option \<Rightarrow> vote \<times> number \<times> tech_note list \<Rightarrow> vote \<times> number \<times> tech_note list" where
  "trend_read degraded emaCrossBull trendStrength rsi14 s =
     (case s of (vote, confidence, parts) \<Rightarrow>
        case emaCrossBull of None \<Rightarrow> s
        | Some bull \<Rightarrow>
            if vote = VAvoid then s
            else if bull \<and> lit (11/20) \<le> trendStrength then
              (if degraded then (vote, confidence, parts @ [UptrendDegraded])
               else (VBuy, buy_confidence trendStrength rsi14, parts @ [UptrendStrength trendStrength]))
            else if \<not> bull \<and> trendStrength < lit (9/20) then (VAvoid, lit (13/20), parts @ [DowntrendStrength trendStrength])
            else (vote, confidence, parts @ [MixedTrend trendStrength]))"

definition bound_confidence :: "number \<Rightarrow> number" where
  "bound_confidence c = math_min (lit (19/20)) (math_max (lit (3/10)) c)"

definition analyzeCandles :: "resolved_candles \<Rightarrow> TechnicalSnapshot" where
  "analyzeCandles r =
     (let closes = map jc_close (rc_candles r); opens = map jc_open (rc_candles r);
          rsi14 = agent_rsi closes 14;
          emaFast = agent_ema closes 9; emaSlow = agent_ema closes 21;
          emaCrossBull = (case (emaFast, emaSlow) of (Some f, Some s) \<Rightarrow> Some (s < f) | _ \<Rightarrow> None);
          trendStrength = trendStrengthScore closes opens 20;
          last_close = nullish (from_end closes 1) (Fin 0);
          fourBarsAgo = nullish (from_end closes 5) last_close;
          change1hPct = (if Fin 0 < fourBarsAgo then Some ((last_close - fourBarsAgo) / fourBarsAgo * Fin 100) else None);
          base = (if rc_degraded r then lit (21/50) else Fin (1/2));
          noted = (if rc_degraded r then [DataNote (nullish (rc_note r) LimitedHistory)] else []) in
      case rsi_read rsi14 base of (vote0, confidence0, parts0) \<Rightarrow>
      case trend_read (rc_degraded r) emaCrossBull trendStrength rsi14 (vote0, confidence0, noted @ parts0) of
        (vote, confidence, parts) \<Rightarrow>
          \<lparr>ts_vote = vote, ts_confidence = bound_confidence confidence,
           ts_reason = (if parts = [] then [NoClearEdge] else parts), ts_rsi14 = rsi14,
           ts_emaFast = emaFast, ts_emaSlow = emaSlow, ts_emaCrossBull = emaCrossBull, ts_trendStrength = trendStrength,
           ts_change1hPct = change1hPct, ts_context = None\<rparr>)"

definition context_buy :: "MarketContext \<Rightarrow> number \<Rightarrow> vote \<times> number \<times> tech_note list" where
  "context_buy ctx confidence =
     (let lh = mc_longHorizon ctx; al = mc_alignment ctx; score = al_score al;
          year_trend = map_option lh_trend lh in
      if score \<le> Fin (- 1/2) then (VHold, lit (9/20), [HigherBearish (al_bearish al) (al_total al)])
      else if year_trend = Some Bear \<and> (case lh of Some l \<Rightarrow> lh_rangePosition l < Fin (1/4) | None \<Rightarrow> False) then
        (VBuy, math_max (lit (2/5)) (confidence - lit (3/20)),
         [YearDowntrend (case lh of Some l \<Rightarrow> lh_pctFromHigh52w l | None \<Rightarrow> NaN)])
      else if Fin (1/2) \<le> score \<and> year_trend = Some Bull then
        (VBuy, math_min (lit (19/20)) (confidence + lit (3/25)), [AlignedYearUp (al_bullish al) (al_total al)])
      else if Fin (1/2) \<le> score then
        (VBuy, math_min (lit (23/25)) (confidence + lit (3/50)), [HigherBullish (al_bullish al) (al_total al)])
      else (VBuy, confidence, []))"

definition context_regime :: "MarketContext \<Rightarrow> number \<Rightarrow> number \<times> tech_note list" where
  "context_regime ctx confidence =
     (if mc_regime ctx = HighVolatility then
        (math_max (lit (2/5)) (confidence - lit (1/10)), [VolatilityNote (Option.bind (mc_longHorizon ctx) lh_annualizedVolPct)])
      else if mc_regime ctx = Choppy then (math_max (lit (2/5)) (confidence - lit (1/20)), [ChoppyNote])
      else (confidence, []))"

definition applyContext :: "TechnicalSnapshot \<Rightarrow> MarketContext option \<Rightarrow> TechnicalSnapshot" where
  "applyContext snap octx =
     (case octx of None \<Rightarrow> snap
      | Some ctx \<Rightarrow>
          if \<not> mc_available ctx \<or> mc_dataQuality ctx = Thin \<or> mc_dataQuality ctx = NoData then snap
          else
            let lh = mc_longHorizon ctx;
                (vote, confidence, parts) =
                  (if ts_vote snap = VBuy then
                     (let (v, c, p1) = context_buy ctx (ts_confidence snap); (c', p2) = context_regime ctx c in (v, c', p1 @ p2))
                   else if ts_vote snap = VHold \<and> Fin (3/4) \<le> al_score (mc_alignment ctx) \<and> map_option lh_trend lh = Some Bull then
                     (VHold, math_min (lit (3/5)) (ts_confidence snap + lit (2/25)), [AllHigherBullish])
                   else (ts_vote snap, ts_confidence snap, []));
                high = (case lh of Some l \<Rightarrow> if Fin (- 2) < lh_pctFromHigh52w l then [AtYearHigh] else [] | None \<Rightarrow> []) in
            snap\<lparr>ts_vote := vote, ts_confidence := bound_confidence confidence, ts_reason := ts_reason snap @ parts @ high\<rparr>)"

definition no_candles_snapshot :: "MarketContext option \<Rightarrow> TechnicalSnapshot" where
  "no_candles_snapshot ctx =
     \<lparr>ts_vote = VHold, ts_confidence = lit (3/10), ts_reason = [CandlesUnavailable], ts_rsi14 = None,
      ts_emaFast = None, ts_emaSlow = None, ts_emaCrossBull = None, ts_trendStrength = Fin (1/2), ts_change1hPct = None,
      ts_context = ctx\<rparr>"

record tech_caches =
  tc_votes :: "string \<rightharpoonup> TechnicalSnapshot \<times> time"
  tc_contexts :: context_cache

definition TECH_TTL_MS :: int where "TECH_TTL_MS = 60000"

definition technicalVote :: "tech_env \<Rightarrow> string \<Rightarrow> tech_caches \<Rightarrow> TechnicalSnapshot \<times> tech_caches" where
  "technicalVote env binanceSymbol s =
     (let key = to_upper binanceSymbol;
          compute =
            (case getMarketContext (te_math env) (te_store env) (te_now env) key (tc_contexts s) of (ctx, contexts) \<Rightarrow>
               let snap = (case resolveCandles env key of
                      Some r \<Rightarrow> applyContext ((analyzeCandles r)\<lparr>ts_context := Some ctx\<rparr>) (Some ctx)
                    | None \<Rightarrow> no_candles_snapshot (Some ctx)) in
               (snap, s\<lparr>tc_votes := (tc_votes s)(key \<mapsto> (snap, te_now env)), tc_contexts := contexts\<rparr>)) in
      case tc_votes s key of
        Some (snap, t) \<Rightarrow> if te_now env - t < TECH_TTL_MS then (snap, s) else compute
      | None \<Rightarrow> compute)"

section \<open>What a vote rests on\<close>

definition is_data_note :: "tech_note \<Rightarrow> bool" where
  "is_data_note n \<longleftrightarrow> (case n of DataNote _ \<Rightarrow> True | _ \<Rightarrow> False)"

definition trusted_context :: "MarketContext option \<Rightarrow> bool" where
  "trusted_context octx \<longleftrightarrow>
     (case octx of None \<Rightarrow> False
      | Some ctx \<Rightarrow> mc_available ctx \<and> mc_dataQuality ctx \<noteq> Thin \<and> mc_dataQuality ctx \<noteq> NoData)"

definition sound_snapshot :: "TechnicalSnapshot \<Rightarrow> bool" where
  "sound_snapshot snap \<longleftrightarrow>
     (ts_confidence snap = NaN \<or> lit (3/10) \<le> ts_confidence snap \<and> ts_confidence snap \<le> lit (19/20)) \<and>
     (ts_vote snap = VBuy \<longrightarrow>
        ts_emaCrossBull snap = Some True \<and> (\<exists>fast slow. ts_emaFast snap = Some fast \<and> ts_emaSlow snap = Some slow \<and> slow < fast) \<and>
        lit (11/20) \<le> ts_trendStrength snap \<and>
        (\<forall>r. ts_rsi14 snap = Some r \<longrightarrow> \<not> Fin 78 < r) \<and> (\<forall>n \<in> set (ts_reason snap). \<not> is_data_note n) \<and>
        (\<forall>ctx. ts_context snap = Some ctx \<and> trusted_context (Some ctx) \<longrightarrow> \<not> al_score (mc_alignment ctx) \<le> Fin (- 1/2)))"

lemma bound_confidence_range:
  "bound_confidence c = NaN \<or> lit (3/10) \<le> bound_confidence c \<and> bound_confidence c \<le> lit (19/20)"
proof -
  have "lit (3/10) \<le> lit (19/20)" "is_finite (lit (3/10))" "is_finite (lit (19/20))" by code_simp+
  then show ?thesis
    by (cases c; cases "lit (3/10)"; cases "lit (19/20)") (auto simp: bound_confidence_def math_min_def math_max_def)
qed

lemma rsi_read_notes:
  assumes "rsi_read rsi14 base = (v, c, p)"
  shows "v \<noteq> VBuy" "v \<noteq> VAvoid \<Longrightarrow> rsi14 = Some x \<Longrightarrow> \<not> Fin 78 < x" "n \<in> set p \<Longrightarrow> \<not> is_data_note n"
  using assms by (auto simp: rsi_read_def is_data_note_def split: option.splits if_splits)

lemma trend_read_buy:
  assumes "trend_read degraded cross strength rsi14 (v, c, p) = (VBuy, c', p')" "v \<noteq> VBuy"
  shows "\<not> degraded \<and> cross = Some True \<and> lit (11/20) \<le> strength \<and> v \<noteq> VAvoid \<and> p' = p @ [UptrendStrength strength]"
  using assms by (auto simp: trend_read_def split: option.splits if_splits)

lemma analyze_buy:
  assumes "ts_vote (analyzeCandles r) = VBuy"
  shows "\<not> rc_degraded r" "ts_emaCrossBull (analyzeCandles r) = Some True" "lit (11/20) \<le> ts_trendStrength (analyzeCandles r)"
    "\<And>x. ts_rsi14 (analyzeCandles r) = Some x \<Longrightarrow> \<not> Fin 78 < x" "\<forall>n \<in> set (ts_reason (analyzeCandles r)). \<not> is_data_note n"
    "\<exists>fast slow. ts_emaFast (analyzeCandles r) = Some fast \<and> ts_emaSlow (analyzeCandles r) = Some slow \<and> slow < fast"
proof -
  define rsi14 base cross strength where "rsi14 = agent_rsi (map jc_close (rc_candles r)) 14"
    and "base = (if rc_degraded r then lit (21/50) else Fin (1/2))"
    and "cross = (case (agent_ema (map jc_close (rc_candles r)) 9, agent_ema (map jc_close (rc_candles r)) 21) of
        (Some f, Some s) \<Rightarrow> Some (s < f) | _ \<Rightarrow> None)"
    and "strength = trendStrengthScore (map jc_close (rc_candles r)) (map jc_open (rc_candles r)) 20"
  define noted where "noted = (if rc_degraded r then [DataNote (nullish (rc_note r) LimitedHistory)] else [])"
  obtain v0 c0 p0 where r0: "rsi_read rsi14 base = (v0, c0, p0)" by (cases "rsi_read rsi14 base")
  obtain v c p where r1: "trend_read (rc_degraded r) cross strength rsi14 (v0, c0, noted @ p0) = (v, c, p)"
    by (cases "trend_read (rc_degraded r) cross strength rsi14 (v0, c0, noted @ p0)")
  have s: "ts_vote (analyzeCandles r) = v" "ts_emaCrossBull (analyzeCandles r) = cross"
    "ts_trendStrength (analyzeCandles r) = strength" "ts_rsi14 (analyzeCandles r) = rsi14"
    "ts_reason (analyzeCandles r) = (if p = [] then [NoClearEdge] else p)"
    "ts_emaFast (analyzeCandles r) = agent_ema (map jc_close (rc_candles r)) 9"
    "ts_emaSlow (analyzeCandles r) = agent_ema (map jc_close (rc_candles r)) 21"
    using r0 r1 unfolding analyzeCandles_def Let_def rsi14_def base_def cross_def strength_def noted_def by simp_all
  have v: "v = VBuy" using assms s(1) by simp
  note tb = trend_read_buy [OF r1 [unfolded v] rsi_read_notes(1) [OF r0]]
  show "\<not> rc_degraded r" "ts_emaCrossBull (analyzeCandles r) = Some True" "lit (11/20) \<le> ts_trendStrength (analyzeCandles r)"
    using tb by (simp_all add: s)
  show "\<not> Fin 78 < x" if "ts_rsi14 (analyzeCandles r) = Some x" for x
    using that tb rsi_read_notes(2) [OF r0] by (simp add: s)
  show "\<forall>n \<in> set (ts_reason (analyzeCandles r)). \<not> is_data_note n"
    using tb rsi_read_notes(3) [OF r0] by (auto simp: s noted_def is_data_note_def)
  have "cross = Some True" using tb by simp
  then show "\<exists>fast slow. ts_emaFast (analyzeCandles r) = Some fast \<and> ts_emaSlow (analyzeCandles r) = Some slow \<and> slow < fast"
    by (auto simp: s cross_def split: option.splits)
qed

lemma analyze_confidence:
  "ts_confidence (analyzeCandles r) = NaN \<or>
   lit (3/10) \<le> ts_confidence (analyzeCandles r) \<and> ts_confidence (analyzeCandles r) \<le> lit (19/20)"
  using bound_confidence_range by (simp add: analyzeCandles_def Let_def split: prod.split)

lemma applyContext_keeps:
  "ts_emaCrossBull (applyContext snap c) = ts_emaCrossBull snap" "ts_trendStrength (applyContext snap c) = ts_trendStrength snap"
  "ts_rsi14 (applyContext snap c) = ts_rsi14 snap" "ts_context (applyContext snap c) = ts_context snap"
  "ts_emaFast (applyContext snap c) = ts_emaFast snap" "ts_emaSlow (applyContext snap c) = ts_emaSlow snap"
  by (auto simp: applyContext_def Let_def split: option.splits prod.splits)

lemma applyContext_notes:
  "n \<in> set (ts_reason (applyContext snap c)) \<Longrightarrow> is_data_note n \<Longrightarrow> n \<in> set (ts_reason snap)"
  by (auto simp: applyContext_def context_buy_def context_regime_def is_data_note_def Let_def
      split: option.splits prod.splits if_splits)

lemma applyContext_buy:
  "ts_vote (applyContext snap c) = VBuy \<Longrightarrow>
   ts_vote snap = VBuy \<and> (\<forall>ctx. c = Some ctx \<and> trusted_context c \<longrightarrow> \<not> al_score (mc_alignment ctx) \<le> Fin (- 1/2))"
  by (auto simp: applyContext_def context_buy_def trusted_context_def Let_def split: option.splits prod.splits if_splits)

lemma applyContext_confidence:
  assumes "ts_confidence snap = NaN \<or> lit (3/10) \<le> ts_confidence snap \<and> ts_confidence snap \<le> lit (19/20)"
  shows "ts_confidence (applyContext snap c) = NaN \<or>
    lit (3/10) \<le> ts_confidence (applyContext snap c) \<and> ts_confidence (applyContext snap c) \<le> lit (19/20)"
  using assms bound_confidence_range by (simp add: applyContext_def Let_def split: option.split prod.split)

lemma computed_snapshot_sound: "sound_snapshot (applyContext ((analyzeCandles r)\<lparr>ts_context := Some ctx\<rparr>) (Some ctx))"
  (is "sound_snapshot (applyContext ?s _)")
proof -
  have v: "ts_vote (analyzeCandles r) = VBuy \<and> (trusted_context (Some ctx) \<longrightarrow> \<not> al_score (mc_alignment ctx) \<le> Fin (- 1/2))"
    if "ts_vote (applyContext ?s (Some ctx)) = VBuy" using applyContext_buy [OF that] by simp
  have n: "\<not> is_data_note m" if "ts_vote (applyContext ?s (Some ctx)) = VBuy" "m \<in> set (ts_reason (applyContext ?s (Some ctx)))" for m
    using applyContext_notes [OF that(2)] analyze_buy(5) [of r] v [OF that(1)] by auto
  show ?thesis unfolding sound_snapshot_def
    using v n analyze_buy [of r] analyze_confidence [of r] applyContext_confidence [of ?s "Some ctx"]
    by (auto simp: applyContext_keeps)
qed

lemma no_candles_sound: "sound_snapshot (no_candles_snapshot c)"
proof -
  have "lit (3/10) \<le> lit (3/10)" "lit (3/10) \<le> lit (19/20)" by code_simp+
  then show ?thesis by (simp add: sound_snapshot_def no_candles_snapshot_def)
qed

definition sound_caches :: "tech_caches \<Rightarrow> bool" where
  "sound_caches s \<longleftrightarrow> (\<forall>k p t. tc_votes s k = Some (p, t) \<longrightarrow> sound_snapshot p)"

lemma technical_vote_sound:
  assumes "sound_caches s" "technicalVote env symbol s = (snap, s')"
  shows "sound_snapshot snap" "sound_caches s'"
proof -
  have "\<And>k p t. tc_votes s k = Some (p, t) \<Longrightarrow> sound_snapshot p" using assms(1) unfolding sound_caches_def by blast
  then have "sound_snapshot snap \<and> (\<forall>k p t. tc_votes s' k = Some (p, t) \<longrightarrow> sound_snapshot p)"
    using assms(2) computed_snapshot_sound no_candles_sound
    by (auto simp: technicalVote_def Let_def split: option.splits prod.splits if_splits)
  then show "sound_snapshot snap" "sound_caches s'" unfolding sound_caches_def by blast+
qed

text \<open>The caches after a sequence of votes, each asked for with its own answers of the services.\<close>

fun votes_asked :: "(tech_env \<times> string) list \<Rightarrow> tech_caches \<Rightarrow> tech_caches" where
  "votes_asked [] s = s"
| "votes_asked ((env, symbol) # asked) s = votes_asked asked (snd (technicalVote env symbol s))"

lemma votes_asked_sound: "sound_caches s \<Longrightarrow> sound_caches (votes_asked asked s)"
proof (induction asked s rule: votes_asked.induct)
  case (2 env symbol asked s)
  then show ?case using technical_vote_sound(2) [OF 2(2) surjective_pairing] by simp
qed simp

text \<open>C16: Every vote of the technical analyst, computed or from its cache, after any sequence of votes from an empty cache and
  whatever the candle services and the market context answer: its confidence lies between 0.3 and 0.95 (or is NaN), and when
  it says BUY then the fast average is above the slow one, the trend strength is at least 0.55, a known RSI is not above 78,
  its reasons hold no note of degraded or made-up data, and the context it carries, if available and of full or partial
  quality, has an alignment score above minus one half. A bearish yearly trend by itself does not prevent a BUY.\<close>

theorem technical_buy_is_grounded:
  assumes "tc_votes s0 = Map.empty" "technicalVote env symbol (votes_asked asked s0) = (snap, s')"
  shows "(ts_confidence snap = NaN \<or> lit (3/10) \<le> ts_confidence snap \<and> ts_confidence snap \<le> lit (19/20)) \<and>
    (ts_vote snap = VBuy \<longrightarrow>
       (\<exists>fast slow. ts_emaFast snap = Some fast \<and> ts_emaSlow snap = Some slow \<and> slow < fast) \<and>
       lit (11/20) \<le> ts_trendStrength snap \<and> (\<forall>r. ts_rsi14 snap = Some r \<longrightarrow> \<not> Fin 78 < r) \<and>
       (\<forall>n. DataNote n \<notin> set (ts_reason snap)) \<and>
       (\<forall>ctx. ts_context snap = Some ctx \<and> mc_available ctx \<and> mc_dataQuality ctx \<noteq> Thin \<and> mc_dataQuality ctx \<noteq> NoData \<longrightarrow>
          \<not> al_score (mc_alignment ctx) \<le> Fin (- 1/2)))"
proof -
  have "sound_caches s0" using assms(1) by (simp add: sound_caches_def)
  note sound = technical_vote_sound(1) [OF votes_asked_sound [OF this] assms(2), unfolded sound_snapshot_def]
  have "DataNote n \<notin> set (ts_reason snap)" if "ts_vote snap = VBuy" for n
    using sound that is_data_note_def [of "DataNote n"] by fastforce
  moreover have "\<not> al_score (mc_alignment ctx) \<le> Fin (- 1/2)"
    if "ts_vote snap = VBuy" "ts_context snap = Some ctx" "mc_available ctx" "mc_dataQuality ctx \<noteq> Thin" "mc_dataQuality ctx \<noteq> NoData" for ctx
    using sound that by (simp add: trusted_context_def)
  ultimately show ?thesis using sound by blast
qed

definition demo_rising :: "JupiterCandle list" where
  "demo_rising = map (\<lambda>i. let c = Fin (of_int (100 + i + (if i mod 2 = 0 then 2 else 0))) in
     \<lparr>jc_openTime = i, jc_open = c - Fin 1, jc_high = c, jc_low = c - Fin 1, jc_close = c, jc_volume = Fin 1, jc_closeTime = i + 1\<rparr>) [0..29]"

definition demo_tech_env :: tech_env where
  "demo_tech_env = \<lparr>te_now = 5, te_sin = (\<lambda>_. Fin 0), te_math = demo_math, te_store = demo_store,
     te_candles = (\<lambda>_ _ _. None), te_livePrice = (\<lambda>_. None)\<rparr>"

definition demo_rising_env :: tech_env where
  "demo_rising_env = demo_tech_env\<lparr>te_candles := (\<lambda>_ _ _. Some
     \<lparr>ja_candles = demo_rising, ja_degraded = False, ja_stale = False, ja_note = None, ja_jupiterPrice = None\<rparr>)\<rparr>"

lemma demo_vote: "ts_vote (fst (technicalVote demo_rising_env ''btcusdt'' \<lparr>tc_votes = Map.empty, tc_contexts = Map.empty\<rparr>)) = VBuy"
  by code_simp

theorem technical_buy_is_grounded_witness:
  "lit (11/20) \<le> ts_trendStrength (fst (technicalVote demo_rising_env ''btcusdt'' \<lparr>tc_votes = Map.empty, tc_contexts = Map.empty\<rparr>))"
proof -
  let ?s = "\<lparr>tc_votes = Map.empty, tc_contexts = Map.empty\<rparr>"
  obtain snap s' where v: "technicalVote demo_rising_env ''btcusdt'' (votes_asked [] ?s) = (snap, s')" by fastforce
  have "ts_vote snap = VBuy" using demo_vote v by simp
  then show ?thesis using technical_buy_is_grounded [OF _ v] v by simp
qed

section \<open>The agent's indicators are the last values of the market series\<close>

lemma finite_diff: "is_finite a \<Longrightarrow> is_finite b \<Longrightarrow> a - b \<noteq> (NaN :: number)"
  by (cases a; cases b) (auto simp: minus_number_def)

lemma agent_moves:
  assumes "list_all is_finite closes" "i < length closes"
  shows "math_max (Fin 0) (close_diff closes i) = up_move closes i" "math_max (Fin 0) (- close_diff closes i) = down_move closes i"
proof -
  have "close_diff closes i \<noteq> NaN" using assms finite_diff by (simp add: close_diff_def js_nth_def list_all_length)
  then show "math_max (Fin 0) (close_diff closes i) = up_move closes i" "math_max (Fin 0) (- close_diff closes i) = down_move closes i"
    by (cases "close_diff closes i"; auto simp: math_max_def up_move_def down_move_def Let_def)+
qed

lemma agent_rsi_loop:
  assumes "list_all is_finite closes" "period + n < length closes"
  shows "foldl (agent_rsi_step closes period) (g, l) [period + 1..<period + 1 + n] =
     (wilder_ref (up_move closes) period g n, wilder_ref (down_move closes) period l n)"
  using assms(2)
proof (induction n)
  case (Suc n)
  then show ?case using agent_moves [OF assms(1), of "period + Suc n"] by (simp add: agent_rsi_step_def Let_def)
qed simp

lemma agent_rsi_value: "(if js_eq l (Fin 0) then Fin 100 else Fin 100 - Fin 100 / (Fin 1 + g / l)) = rsi_value g l"
proof -
  have "Fin 100 - Fin 100 / (Fin 1 + PInf) = Fin 100" by code_simp
  then show ?thesis by (simp add: rsi_value_def Let_def)
qed

lemma agent_rsi_series:
  assumes "list_all is_finite closes" "0 < period" "period < length closes"
  shows "agent_rsi closes period = Some (js_last (market_rsi closes period))"
proof -
  define n where "n = length closes - period - 1"
  have n: "period + 1 + n = length closes" "period + n < length closes" using assms(3) by (simp_all add: n_def)
  obtain g l where gl: "rsi_start closes period = (g, l)" by fastforce
  have "js_last (market_rsi closes period) = rsi_ref closes period n"
    using n assms(3) by (simp add: market_rsi_def rsi_series [OF assms(2)] js_last_def js_nth_def n_def)
  then show ?thesis using agent_rsi_loop [OF assms(1) n(2), of g l] n assms(3) gl
    by (simp add: agent_rsi_def rsi_ref_def n(1) [symmetric] agent_rsi_value [symmetric] Let_def)
qed

lemma sum_range_take:
  "n \<le> length xs \<Longrightarrow> sum_range xs 0 n = sum_numbers (Fin 0) (take n xs)"
  by (induction n) (auto simp: sum_range_def js_nth_def sum_numbers_foldl take_Suc_conv_app_nth)

lemma ema_fold_ref:
  assumes "period \<le> length xs" "period + n \<le> length xs"
  shows "foldl (\<lambda>out v. v * ema_factor period + out * (Fin 1 - ema_factor period))
      (sum_numbers (Fin 0) (take period xs) / count_number period) (take n (drop period xs)) = ema_ref xs period n"
  using assms(2)
proof (induction n)
  case 0
  then show ?case using assms(1) by (simp add: sum_range_take)
next
  case (Suc n)
  have "take (Suc n) (drop period xs) = take n (drop period xs) @ [xs ! (period + n)]"
    using Suc.prems by (simp add: take_Suc_conv_app_nth)
  then show ?case using Suc by (simp add: js_nth_def)
qed

lemma agent_ema_series:
  assumes "0 < period" "period \<le> length xs"
  shows "agent_ema xs period = Some (js_last (market_ema xs period))"
proof -
  have "js_last (market_ema xs period) = ema_ref xs period (length xs - period)"
  proof -
    have "length xs - 1 < length xs" "\<not> length xs - 1 + 1 < period" "length xs - 1 + 1 - period = length xs - period"
      using assms by simp_all
    then show ?thesis using ema_loop [OF assms(1), of xs "length xs"]
      by (simp add: market_ema_def ema_def js_last_def js_nth_def del: One_nat_def)
  qed
  then show ?thesis using ema_fold_ref [of period xs "length xs - period"] assms
    by (simp add: agent_ema_def ema_factor_def Let_def)
qed

text \<open>C39: The agent's own indicator loops agree with the series of the market library: on finite
  closes its RSI and its EMA are the last xs of the library's series, whenever there are enough bars
  for one.\<close>

theorem agent_indicators_agree:
  assumes "list_all is_finite closes" "0 < period" "period < length closes"
  shows "agent_rsi closes period = Some (js_last (market_rsi closes period)) \<and>
    agent_ema closes period = Some (js_last (market_ema closes period))"
  using assms by (simp add: agent_rsi_series agent_ema_series)

theorem agent_indicators_agree_witness:
  "agent_ema [Fin 2, Fin 4, Fin 6] 2 = Some (js_last (market_ema [Fin 2, Fin 4, Fin 6] 2)) \<and>
   agent_rsi [Fin 2, Fin 4, Fin 6] 2 = Some (Fin 100)"
  using agent_indicators_agree [of "[Fin 2, Fin 4, Fin 6]" 2]
  by (auto simp: agent_rsi_def) code_simp

end
