(* ===== verification/CexCouncil.thy ===== *)
theory CexCouncil
  imports BinanceSpot TechnicalAgent
begin

text \<open>
  The agent council of the Binance Super Machine, \<open>services/agents/cexCouncilService.ts\<close>: the seven votes, the
  veto, the consensus and the decision, and the per-user memory of votes and decisions. The signal hub, the
  news oracle, the order book imbalance and the language model are arguments; the technical vote and the book
  ticker are the modelled ones.
\<close>

section \<open>Votes\<close>

datatype hub_verdict = HubBuySignal | HubSellSignal | HubHoldSignal

record SignalSnapshot =
  sn_signal :: hub_verdict
  sn_confidence :: number
  sn_rationale :: "string option"
  sn_invest :: string
  sn_riskNote :: "string option"
  sn_lastPrice :: "number option"
  sn_change24hPct :: "number option"
  sn_volume24hUsd :: "number option"

record oracle_read =
  oc_sentimentScore :: number
  oc_confidence :: number
  oc_catalyst :: "string option"

datatype vote_reason =
    HubBuy string "string option" | HubSell string | HubNoEdge hub_verdict string | HubUnavailable
  | RiskOffNews | NewsTone "string option" | NeutralNews | NoSentimentData
  | TechReason "tech_note list" | NoCandleData
  | AlreadyLong | FreeBelowMinimum string | SpreadTooWide string | HubNoInvest "string option" | RiskOk number "string option" | WaitingSetup
  | LlmStandby bool | LlmSaid string
  | ObiWarming | BidPressure string | AskPressure string | BalancedBook string
  | ElevatedMove string | ControlledVol string | VolWatch string

record AgentVote =
  av_vote :: vote
  av_confidence :: number
  av_reason :: vote_reason

datatype council_agent = Momentum | Sentiment | Technical | Risk | Llm | Orderbook | Volatility

definition COUNCIL_AGENT_IDS :: "council_agent list" where
  "COUNCIL_AGENT_IDS = [Momentum, Sentiment, Technical, Risk, Llm, Orderbook, Volatility]"

definition BASE_THRESHOLD :: number where "BASE_THRESHOLD = lit (62/100)"
definition VETO_CONFIDENCE :: number where "VETO_CONFIDENCE = lit (72/100)"
definition MIN_BUY_VOTES :: nat where "MIN_BUY_VOTES = 3"

definition voteScore :: "AgentVote \<Rightarrow> number" where
  "voteScore v = (case av_vote v of VBuy \<Rightarrow> av_confidence v | VAvoid \<Rightarrow> - av_confidence v | VHold \<Rightarrow> Fin 0)"

definition clamp_finite :: "number \<Rightarrow> number \<Rightarrow> number \<Rightarrow> number" where
  "clamp_finite n mn mx = (if \<not> is_finite n then mn else math_min mx (math_max mn n))"

definition mk_vote :: "vote \<Rightarrow> number \<Rightarrow> vote_reason \<Rightarrow> AgentVote" where
  "mk_vote v c r = \<lparr>av_vote = v, av_confidence = c, av_reason = r\<rparr>"

definition percent_text :: "number \<Rightarrow> string" where
  "percent_text c = to_fixed (c * Fin 100) 0"

definition hub_confidence :: "SignalSnapshot option \<Rightarrow> number" where
  "hub_confidence s = (case s of None \<Rightarrow> Fin 0 | Some x \<Rightarrow> sn_confidence x)"

definition hub_signal :: "SignalSnapshot option \<Rightarrow> hub_verdict" where
  "hub_signal s = (case s of None \<Rightarrow> HubHoldSignal | Some x \<Rightarrow> sn_signal x)"

definition momentum_vote :: "SignalSnapshot option \<Rightarrow> AgentVote" where
  "momentum_vote s =
     (let conf = hub_confidence s in
      if hub_signal s = HubBuySignal \<and> lit (45/100) \<le> conf then
        mk_vote VBuy (clamp_finite conf (lit (35/100)) (lit (9/10))) (HubBuy (percent_text conf) (Option.bind s sn_rationale))
      else if hub_signal s = HubSellSignal \<and> lit (45/100) \<le> conf then
        mk_vote VAvoid (clamp_finite conf (lit (4/10)) (lit (9/10))) (HubSell (percent_text conf))
      else mk_vote VHold (lit (45/100)) (if s = None then HubUnavailable else HubNoEdge (hub_signal s) (percent_text conf)))"

definition sentiment_vote :: "oracle_read option \<Rightarrow> AgentVote" where
  "sentiment_vote oracle =
     (case oracle of None \<Rightarrow> mk_vote VHold (lit (35/100)) NoSentimentData
      | Some r \<Rightarrow>
          if oc_sentimentScore r < lit (- 35/100) \<and> lit (4/10) < oc_confidence r then
            mk_vote VAvoid (math_min (lit (85/100)) (oc_confidence r + lit (15/100))) RiskOffNews
          else if Fin (1/4) < oc_sentimentScore r \<and> lit (35/100) < oc_confidence r then
            mk_vote VBuy (math_min (lit (8/10)) (lit (45/100) + oc_sentimentScore r * lit (4/10))) (NewsTone (oc_catalyst r))
          else mk_vote VHold (lit (4/10)) NeutralNews)"

definition technical_vote :: "TechnicalSnapshot \<Rightarrow> AgentVote" where
  "technical_vote tech =
     (if ts_reason tech = [CandlesUnavailable] then mk_vote VAvoid (lit (78/100)) NoCandleData
      else mk_vote (ts_vote tech) (ts_confidence tech) (TechReason (ts_reason tech)))"

definition spread_bps :: "book_ticker option \<Rightarrow> number option" where
  "spread_bps book =
     (case book of None \<Rightarrow> None
      | Some b \<Rightarrow> if Fin 0 < bk_mid b then Some ((bk_ask b - bk_bid b) / bk_mid b * Fin 10000) else None)"

record CexCouncilSettings =
  cs_maxTradeUsd :: number
  cs_watchSymbol :: string
  cs_hasOpenLong :: bool

definition risk_vote :: "CexCouncilSettings \<Rightarrow> number \<Rightarrow> number option \<Rightarrow> SignalSnapshot option \<Rightarrow> AgentVote" where
  "risk_vote settings free spread s =
     (let conf = hub_confidence s in
      if cs_hasOpenLong settings then mk_vote VHold (lit (7/10)) AlreadyLong
      else if free < Fin 5 then mk_vote VAvoid (lit (85/100)) (FreeBelowMinimum (to_fixed free 2))
      else if (case spread of Some b \<Rightarrow> Fin 15 < b | None \<Rightarrow> False) then
        mk_vote VAvoid (Fin (3/4)) (SpreadTooWide (to_fixed (the spread) 1))
      else if (case s of Some x \<Rightarrow> sn_invest x = ''no'' | None \<Rightarrow> False) then
        mk_vote VAvoid (lit (7/10)) (HubNoInvest (Option.bind s sn_riskNote))
      else if hub_signal s = HubBuySignal \<and> Fin (1/2) \<le> conf then
        mk_vote VBuy (clamp_finite (Fin (1/2) + conf * lit (35/100)) (lit (45/100)) (lit (88/100)))
          (RiskOk (cs_maxTradeUsd settings) (map_option (\<lambda>b. to_fixed b 1) spread))
      else mk_vote VHold (Fin (1/2)) WaitingSetup)"

definition obi_vote :: "number option \<Rightarrow> AgentVote" where
  "obi_vote obi =
     (case obi of None \<Rightarrow> mk_vote VHold (lit (3/10)) ObiWarming
      | Some b \<Rightarrow>
          if lit (15/100) < b then mk_vote VBuy (math_min (lit (85/100)) (lit (48/100) + b * lit (55/100))) (BidPressure (to_fixed b 2))
          else if b < lit (- 15/100) then
            mk_vote VAvoid (math_min (lit (85/100)) (lit (48/100) + math_abs b * lit (55/100))) (AskPressure (to_fixed b 2))
          else mk_vote VHold (lit (4/10)) (BalancedBook (to_fixed b 2)))"

definition change_24h :: "SignalSnapshot option \<Rightarrow> number" where
  "change_24h s = (case Option.bind s sn_change24hPct of None \<Rightarrow> Fin 0 | Some c \<Rightarrow> c)"

definition volatility_vote :: "SignalSnapshot option \<Rightarrow> AgentVote" where
  "volatility_vote s =
     (let change24 = change_24h s in
      if Fin 6 \<le> math_abs change24 then mk_vote VAvoid (lit (72/100)) (ElevatedMove (to_fixed change24 1))
      else if hub_signal s = HubBuySignal \<and> math_abs change24 \<le> Fin (7/2) then mk_vote VBuy (lit (58/100)) (ControlledVol (to_fixed change24 1))
      else mk_vote VHold (lit (42/100)) (VolWatch (to_fixed change24 1)))"

section \<open>The language model\<close>

record llm_query =
  lq_symbol :: string
  lq_priceUsd :: number
  lq_change1hPct :: number
  lq_change24hPct :: number
  lq_liquidityUsd :: number
  lq_volume24hUsd :: number
  lq_momentumScore :: number
  lq_rsi14 :: "number option"
  lq_emaCrossBull :: "bool option"
  lq_trendStrength :: number
  lq_newsSentiment :: "number option"
  lq_spreadBps :: "number option"
  lq_context :: "MarketContext option"

record council_env =
  ce_spot :: spot_env
  ce_tech :: tech_env
  ce_now :: time
  ce_newId :: string
  ce_snapshot :: "string \<Rightarrow> SignalSnapshot option"
  ce_oracle :: "oracle_read option"
  ce_obi :: "string \<Rightarrow> number option"
  ce_llmConfigured :: bool
  ce_llm :: "llm_query \<Rightarrow> AgentVote \<times> string option"
  ce_persists :: bool

definition llm_vote ::
  "council_env \<Rightarrow> string \<Rightarrow> number option \<Rightarrow> CexCouncilSettings \<Rightarrow> number \<Rightarrow> SignalSnapshot option \<Rightarrow> TechnicalSnapshot \<Rightarrow>
   number option \<Rightarrow> AgentVote \<times> string option" where
  "llm_vote env base price settings free s tech spread =
     (case price of
        Some p \<Rightarrow>
          if \<not> cs_hasOpenLong settings \<and> Fin 5 \<le> free \<and> hub_signal s = HubBuySignal then
            ce_llm env \<lparr>lq_symbol = base, lq_priceUsd = p,
              lq_change1hPct = (case Option.bind s sn_change24hPct of Some c \<Rightarrow> c / Fin 24 | None \<Rightarrow> Fin 0),
              lq_change24hPct = change_24h s, lq_liquidityUsd = nullish (Option.bind s sn_volume24hUsd) (Fin 1000000),
              lq_volume24hUsd = nullish (Option.bind s sn_volume24hUsd) (Fin 0), lq_momentumScore = hub_confidence s,
              lq_rsi14 = ts_rsi14 tech, lq_emaCrossBull = ts_emaCrossBull tech, lq_trendStrength = ts_trendStrength tech,
              lq_newsSentiment = map_option oc_sentimentScore (ce_oracle env), lq_spreadBps = spread, lq_context = ts_context tech\<rparr>
          else (mk_vote VHold (Fin 0) (LlmStandby (ce_llmConfigured env)), None)
      | None \<Rightarrow> (mk_vote VHold (Fin 0) (LlmStandby (ce_llmConfigured env)), None))"

section \<open>The decision\<close>

datatype council_action = CouncilBuy | CouncilHold

datatype council_reason =
    ContextLine headline data_quality
  | ConsensusMet string nat
  | VenueLine string
  | LlmLine string vote_reason
  | VetoedBy council_agent vote_reason
  | ConsensusBelow string
  | TooFewBuys nat
  | PositionIsOpen

datatype decision_regime = FromContext market_regime | RiskOn | NeutralRegime

record CouncilDecision =
  cd_id :: string
  cd_userId :: user_id
  cd_timestamp :: time
  cd_symbol :: string
  cd_action :: council_action
  cd_consensus :: number
  cd_votes :: "council_agent \<Rightarrow> AgentVote"
  cd_vetoedBy :: "council_agent option"
  cd_orderSizeUsd :: number
  cd_reasons :: "council_reason list"
  cd_llmProvider :: "string option"
  cd_regime :: decision_regime

record council_state =
  cl_lastVotes :: "user_id \<rightharpoonup> (council_agent \<Rightarrow> AgentVote)"
  cl_recent :: "user_id \<rightharpoonup> CouncilDecision list"
  cl_events :: "CouncilDecision list"
  cl_tech :: tech_caches

text \<open>The loop over the agents: the weighted sum, the total weight, and the first veto. A vote of confidence
  zero does not count.\<close>

definition tally_step :: "(council_agent \<Rightarrow> AgentVote) \<Rightarrow> number \<times> number \<times> council_agent option \<Rightarrow> council_agent \<Rightarrow>
    number \<times> number \<times> council_agent option" where
  "tally_step votes s i =
     (case s of (weighted, total_w, veto) \<Rightarrow>
        let v = votes i in
        if js_eq (av_confidence v) (Fin 0) then s
        else (weighted + voteScore v * Fin 1, total_w + Fin 1,
              if av_vote v = VAvoid \<and> VETO_CONFIDENCE \<le> av_confidence v then (case veto of None \<Rightarrow> Some i | Some j \<Rightarrow> Some j) else veto))"

definition tally :: "(council_agent \<Rightarrow> AgentVote) \<Rightarrow> number \<times> number \<times> council_agent option" where
  "tally votes = foldl (tally_step votes) (Fin 0, Fin 0, None) COUNCIL_AGENT_IDS"

definition consensus_of :: "number \<Rightarrow> number \<Rightarrow> number" where
  "consensus_of weighted total_w = (if Fin 0 < total_w then (weighted / total_w + Fin 1) / Fin 2 else Fin (1/2))"

definition buy_votes :: "(council_agent \<Rightarrow> AgentVote) \<Rightarrow> nat" where
  "buy_votes votes = length (filter (\<lambda>i. av_vote (votes i) = VBuy \<and> Fin 0 < av_confidence (votes i)) COUNCIL_AGENT_IDS)"

definition enough_buys :: "(council_agent \<Rightarrow> AgentVote) \<Rightarrow> bool" where
  "enough_buys votes \<longleftrightarrow> MIN_BUY_VOTES \<le> buy_votes votes \<or>
     av_vote (votes Momentum) = VBuy \<and> av_vote (votes Technical) = VBuy \<and> 2 \<le> buy_votes votes"

definition council_size :: "number \<Rightarrow> number \<Rightarrow> number" where
  "council_size maxTradeUsd free =
     math_min maxTradeUsd (math_floor (math_min (free * lit (95/100)) maxTradeUsd * Fin 100) / Fin 100)"

definition decide_action :: "CexCouncilSettings \<Rightarrow> number \<Rightarrow> (council_agent \<Rightarrow> AgentVote) \<Rightarrow> council_action" where
  "decide_action settings free votes =
     (case tally votes of (weighted, total_w, veto) \<Rightarrow>
        if \<not> cs_hasOpenLong settings \<and> Fin 5 \<le> council_size (cs_maxTradeUsd settings) free \<and>
           BASE_THRESHOLD \<le> consensus_of weighted total_w \<and> enough_buys votes \<and> veto = None \<and> av_vote (votes Risk) = VBuy
        then CouncilBuy else CouncilHold)"

definition raw_votes ::
  "council_env \<Rightarrow> CexCouncilSettings \<Rightarrow> number \<Rightarrow> SignalSnapshot option \<Rightarrow> book_ticker option \<Rightarrow> TechnicalSnapshot \<Rightarrow>
   (council_agent \<Rightarrow> AgentVote) \<times> string option" where
  "raw_votes env settings free s book tech =
     (let symbol = to_upper (remove_first (CHR ''/'') (cs_watchSymbol settings)); base = drop_suffix ''USDT'' symbol;
          price = (case book of Some b \<Rightarrow> Some (bk_mid b) | None \<Rightarrow> Option.bind s sn_lastPrice);
          spread = spread_bps book in
      case llm_vote env base price settings free s tech spread of
        (llm, provider) \<Rightarrow>
          (\<lambda>i. case i of Momentum \<Rightarrow> momentum_vote s | Sentiment \<Rightarrow> sentiment_vote (ce_oracle env)
             | Technical \<Rightarrow> technical_vote tech | Risk \<Rightarrow> risk_vote settings free spread s | Llm \<Rightarrow> llm
             | Orderbook \<Rightarrow> obi_vote (ce_obi env symbol) | Volatility \<Rightarrow> volatility_vote s, provider))"

definition decision_reasons ::
  "TechnicalSnapshot \<Rightarrow> CexCouncilSettings \<Rightarrow> number \<Rightarrow> (council_agent \<Rightarrow> AgentVote) \<Rightarrow> string option \<Rightarrow> council_action \<Rightarrow> council_reason list" where
  "decision_reasons tech settings free votes provider action =
     (case tally votes of (weighted, total_w, veto) \<Rightarrow>
        let consensus = consensus_of weighted total_w in
        (case ts_context tech of Some ctx \<Rightarrow> if mc_available ctx then [ContextLine (mc_headline ctx) (mc_dataQuality ctx)] else [] | None \<Rightarrow> [])
        @ (if action = CouncilBuy then
             [ConsensusMet (percent_text consensus) (buy_votes votes), VenueLine (to_fixed (council_size (cs_maxTradeUsd settings) free) 2)]
             @ (case given provider of Some p \<Rightarrow> [LlmLine p (av_reason (votes Llm))] | None \<Rightarrow> [])
           else case veto of Some i \<Rightarrow> [VetoedBy i (av_reason (votes i))]
           | None \<Rightarrow>
               if consensus < BASE_THRESHOLD then [ConsensusBelow (percent_text consensus)]
               else if \<not> enough_buys votes then [TooFewBuys (buy_votes votes)]
               else if cs_hasOpenLong settings then [PositionIsOpen] else []))"

definition decision_regime_of :: "TechnicalSnapshot \<Rightarrow> SignalSnapshot option \<Rightarrow> decision_regime" where
  "decision_regime_of tech s =
     (case ts_context tech of
        Some ctx \<Rightarrow> if mc_available ctx \<and> mc_regime ctx \<noteq> UnknownRegime then FromContext (mc_regime ctx)
          else if (case s of Some x \<Rightarrow> sn_invest x = ''yes'' | None \<Rightarrow> False) then RiskOn else NeutralRegime
      | None \<Rightarrow> if (case s of Some x \<Rightarrow> sn_invest x = ''yes'' | None \<Rightarrow> False) then RiskOn else NeutralRegime)"

definition remember_decision :: "council_env \<Rightarrow> CouncilDecision \<Rightarrow> council_state \<Rightarrow> council_state" where
  "remember_decision env d s =
     (let u = cd_userId d in
      s\<lparr>cl_lastVotes := (cl_lastVotes s)(u \<mapsto> cd_votes d),
        cl_recent := (cl_recent s)(u \<mapsto> take 200 (d # nullish (cl_recent s u) [])),
        cl_events := (if ce_persists env then cl_events s @ [d] else cl_events s)\<rparr>)"

definition cexCouncilEvaluate ::
  "council_env \<Rightarrow> user_id \<Rightarrow> CexCouncilSettings \<Rightarrow> number \<Rightarrow> council_state \<Rightarrow> CouncilDecision \<times> council_state" where
  "cexCouncilEvaluate env u settings free st =
     (let symbol = to_upper (remove_first (CHR ''/'') (cs_watchSymbol settings)); base = drop_suffix ''USDT'' symbol;
          s = ce_snapshot env symbol; book = spot_bookTicker (ce_spot env) symbol in
      case technicalVote (ce_tech env) symbol (cl_tech st) of (tech, caches) \<Rightarrow>
      case raw_votes env settings free s book tech of (votes, provider) \<Rightarrow>
      case tally votes of (weighted, total_w, veto) \<Rightarrow>
        (let action = decide_action settings free votes;
             d = \<lparr>cd_id = ce_newId env, cd_userId = u, cd_timestamp = ce_now env, cd_symbol = base, cd_action = action,
               cd_consensus = consensus_of weighted total_w, cd_votes = votes, cd_vetoedBy = veto,
               cd_orderSizeUsd = (if action = CouncilBuy then council_size (cs_maxTradeUsd settings) free else Fin 0),
               cd_reasons = decision_reasons tech settings free votes provider action, cd_llmProvider = provider,
               cd_regime = decision_regime_of tech s\<rparr> in
         (d, remember_decision env d (st\<lparr>cl_tech := caches\<rparr>))))"

section \<open>Status\<close>

record council_status =
  ct_agents :: "(council_agent \<times> AgentVote option) list"
  ct_llmConfigured :: bool
  ct_threshold :: number
  ct_lastDecision :: "CouncilDecision option"

definition getRecentCexCouncilDecisions :: "user_id \<Rightarrow> nat \<Rightarrow> council_state \<Rightarrow> CouncilDecision list" where
  "getRecentCexCouncilDecisions u limit st = take limit (nullish (cl_recent st u) [])"

definition getCexCouncilStatus :: "council_env \<Rightarrow> user_id \<Rightarrow> council_state \<Rightarrow> council_status" where
  "getCexCouncilStatus env u st =
     \<lparr>ct_agents = map (\<lambda>i. (i, map_option (\<lambda>votes. votes i) (cl_lastVotes st u))) COUNCIL_AGENT_IDS,
      ct_llmConfigured = ce_llmConfigured env, ct_threshold = BASE_THRESHOLD,
      ct_lastDecision = (case nullish (cl_recent st u) [] of [] \<Rightarrow> None | d # _ \<Rightarrow> Some d)\<rparr>"

section \<open>What a purchase rests on\<close>

definition vetoes :: "AgentVote \<Rightarrow> bool" where
  "vetoes v \<longleftrightarrow> av_vote v = VAvoid \<and> VETO_CONFIDENCE \<le> av_confidence v"

lemma veto_positive: "\<not> VETO_CONFIDENCE \<le> Fin 0" "VETO_CONFIDENCE \<le> VETO_CONFIDENCE" "VETO_CONFIDENCE \<le> lit (78/100)"
  by code_simp+

lemma tally_step_veto:
  "snd (snd (tally_step votes s i)) =
     (if snd (snd s) = None then if vetoes (votes i) then Some i else None else snd (snd s))"
  using veto_positive(1) by (cases s) (auto simp: tally_step_def vetoes_def js_eq_def Let_def split: option.splits)

lemma tally_fold_veto:
  "snd (snd (foldl (tally_step votes) s is)) = None \<longleftrightarrow> snd (snd s) = None \<and> (\<forall>i \<in> set is. \<not> vetoes (votes i))"
  by (induction "is" arbitrary: s) (auto simp: tally_step_veto)

lemma no_veto: "snd (snd (tally votes)) = None \<longleftrightarrow> (\<forall>i. \<not> vetoes (votes i))"
proof -
  have "i \<in> set COUNCIL_AGENT_IDS" for i by (cases i) (simp_all add: COUNCIL_AGENT_IDS_def)
  then show ?thesis by (auto simp: tally_def tally_fold_veto)
qed

lemma decide_buy:
  assumes "decide_action settings free votes = CouncilBuy"
  shows "\<not> cs_hasOpenLong settings" "Fin 5 \<le> council_size (cs_maxTradeUsd settings) free" "\<not> vetoes (votes i)"
    "av_vote (votes Risk) = VBuy" "enough_buys votes" "BASE_THRESHOLD \<le> consensus_of (fst (tally votes)) (fst (snd (tally votes)))"
  using assms no_veto [of votes] by (auto simp: decide_action_def split: prod.splits if_splits)

lemma buy_votes_card: "buy_votes votes = card {i. av_vote (votes i) = VBuy \<and> Fin 0 < av_confidence (votes i)}"
proof -
  have all: "i \<in> set COUNCIL_AGENT_IDS" for i by (cases i) (simp_all add: COUNCIL_AGENT_IDS_def)
  have "distinct (filter (\<lambda>i. av_vote (votes i) = VBuy \<and> Fin 0 < av_confidence (votes i)) COUNCIL_AGENT_IDS)"
    by (intro distinct_filter) (simp add: COUNCIL_AGENT_IDS_def)
  from distinct_card [OF this] show ?thesis using all by (simp add: buy_votes_def)
qed

lemma council_size_le: "council_size m free \<noteq> NaN \<Longrightarrow> council_size m free \<le> m"
  using math_min_le [of m "math_floor (math_min (free * lit (95/100)) m * Fin 100) / Fin 100"]
  by (auto simp: council_size_def math_min_def number_le_refl split: if_splits)

lemma risk_vote_buy:
  assumes "av_vote (risk_vote settings free spread s) = VBuy"
  shows "\<not> free < Fin 5" "spread = Some b \<Longrightarrow> \<not> Fin 15 < b" "s = Some x \<Longrightarrow> sn_invest x \<noteq> ''no''"
    "hub_signal s = HubBuySignal" "Fin (1/2) \<le> hub_confidence s"
  using assms by (auto simp: risk_vote_def mk_vote_def Let_def split: if_splits option.splits)

lemma raw_votes_parts:
  "fst (raw_votes env settings free s book tech) Risk = risk_vote settings free (spread_bps book) s"
  "fst (raw_votes env settings free s book tech) Technical = technical_vote tech"
  "fst (raw_votes env settings free s book tech) Volatility = volatility_vote s"
  by (simp_all add: raw_votes_def Let_def split: prod.split)

lemma evaluated:
  assumes "cexCouncilEvaluate env u settings free st = (d, st')"
  defines "symbol \<equiv> to_upper (remove_first (CHR ''/'') (cs_watchSymbol settings))"
  shows "\<exists>tech caches provider. technicalVote (ce_tech env) symbol (cl_tech st) = (tech, caches) \<and>
     raw_votes env settings free (ce_snapshot env symbol) (spot_bookTicker (ce_spot env) symbol) tech = (cd_votes d, provider) \<and>
     cd_action d = decide_action settings free (cd_votes d) \<and>
     cd_consensus d = consensus_of (fst (tally (cd_votes d))) (fst (snd (tally (cd_votes d)))) \<and>
     cd_orderSizeUsd d = (if cd_action d = CouncilBuy then council_size (cs_maxTradeUsd settings) free else Fin 0) \<and>
     st' = remember_decision env d (st\<lparr>cl_tech := caches\<rparr>) \<and> cd_userId d = u"
  using assms(1) unfolding cexCouncilEvaluate_def Let_def symbol_def by (auto split: prod.splits)

text \<open>C5: When the council decides to buy, no position is open, the size is at least five dollars and at most
  the configured trade size, the consensus reaches the threshold, at least three of the seven agents voted BUY with
  some confidence (or at least two did and the votes of Momentum and Technical are both BUY), the vote of Risk is
  BUY, no agent says AVOID with the confidence of a veto, the hub says BUY with at least 50 % confidence and does
  not advise against investing, there are five dollars to spend, the known spread is at most 15 basis points, the
  daily move is below 6 %, and candle data were available.\<close>

theorem council_buy_grounds:
  assumes "cexCouncilEvaluate env u settings free st = (d, st')" "cd_action d = CouncilBuy"
  defines "symbol \<equiv> to_upper (remove_first (CHR ''/'') (cs_watchSymbol settings))"
  shows "\<not> cs_hasOpenLong settings \<and> Fin 5 \<le> cd_orderSizeUsd d \<and> cd_orderSizeUsd d \<le> cs_maxTradeUsd settings \<and>
    BASE_THRESHOLD \<le> cd_consensus d \<and>
    (let n = card {i. av_vote (cd_votes d i) = VBuy \<and> Fin 0 < av_confidence (cd_votes d i)} in
     3 \<le> n \<or> 2 \<le> n \<and> av_vote (cd_votes d Momentum) = VBuy \<and> av_vote (cd_votes d Technical) = VBuy) \<and>
    av_vote (cd_votes d Risk) = VBuy \<and>
    (\<forall>i. \<not> (av_vote (cd_votes d i) = VAvoid \<and> VETO_CONFIDENCE \<le> av_confidence (cd_votes d i))) \<and>
    hub_signal (ce_snapshot env symbol) = HubBuySignal \<and> Fin (1/2) \<le> hub_confidence (ce_snapshot env symbol) \<and>
    (\<forall>x. ce_snapshot env symbol = Some x \<longrightarrow> sn_invest x \<noteq> ''no'') \<and> \<not> free < Fin 5 \<and>
    (\<forall>b. spread_bps (spot_bookTicker (ce_spot env) symbol) = Some b \<longrightarrow> \<not> Fin 15 < b) \<and>
    \<not> Fin 6 \<le> math_abs (change_24h (ce_snapshot env symbol)) \<and>
    ts_reason (fst (technicalVote (ce_tech env) symbol (cl_tech st))) \<noteq> [CandlesUnavailable]"
proof -
  obtain tech caches provider where e: "technicalVote (ce_tech env) symbol (cl_tech st) = (tech, caches)"
    "raw_votes env settings free (ce_snapshot env symbol) (spot_bookTicker (ce_spot env) symbol) tech = (cd_votes d, provider)"
    "cd_action d = decide_action settings free (cd_votes d)"
    "cd_consensus d = consensus_of (fst (tally (cd_votes d))) (fst (snd (tally (cd_votes d))))"
    "cd_orderSizeUsd d = (if cd_action d = CouncilBuy then council_size (cs_maxTradeUsd settings) free else Fin 0)"
    using evaluated [OF assms(1)] unfolding symbol_def by blast
  note b = decide_buy [OF e(3) [unfolded assms(2), symmetric]]
  have v: "cd_votes d Risk = risk_vote settings free (spread_bps (spot_bookTicker (ce_spot env) symbol)) (ce_snapshot env symbol)"
    "cd_votes d Technical = technical_vote tech" "cd_votes d Volatility = volatility_vote (ce_snapshot env symbol)"
    using raw_votes_parts [of env settings free "ce_snapshot env symbol" "spot_bookTicker (ce_spot env) symbol" tech]
    unfolding e(2) fst_conv by blast+
  note r = risk_vote_buy [OF b(4) [unfolded v(1)]]
  have "\<not> Fin 6 \<le> math_abs (change_24h (ce_snapshot env symbol))"
    using b(3) [of Volatility] veto_positive(2)
    by (auto simp: v(3) volatility_vote_def vetoes_def mk_vote_def VETO_CONFIDENCE_def Let_def)
  moreover have "ts_reason tech \<noteq> [CandlesUnavailable]"
    using b(3) [of Technical] veto_positive(3) by (auto simp: v(2) technical_vote_def vetoes_def mk_vote_def)
  moreover have "cd_orderSizeUsd d \<le> cs_maxTradeUsd settings"
    using b(2) e(5) assms(2) council_size_le number_le_not_NaN by auto
  moreover have "3 \<le> buy_votes (cd_votes d) \<or>
      2 \<le> buy_votes (cd_votes d) \<and> av_vote (cd_votes d Momentum) = VBuy \<and> av_vote (cd_votes d Technical) = VBuy"
    using b(5) by (auto simp: enough_buys_def MIN_BUY_VOTES_def)
  ultimately show ?thesis
    using b(1,2,4,6) b(3) [unfolded vetoes_def] e(1,4,5) r assms(2) unfolding Let_def buy_votes_card [symmetric] by auto
qed

definition demo_buy_snapshot :: TechnicalSnapshot where
  "demo_buy_snapshot = (no_candles_snapshot None)\<lparr>ts_vote := VBuy, ts_confidence := Fin (3/4), ts_reason := [UptrendStrength (Fin 1)]\<rparr>"

definition demo_council_state :: council_state where
  "demo_council_state = \<lparr>cl_lastVotes = Map.empty, cl_recent = Map.empty, cl_events = [],
     cl_tech = \<lparr>tc_votes = [''BTCUSDT'' \<mapsto> (demo_buy_snapshot, 5)], tc_contexts = Map.empty\<rparr>\<rparr>"

definition demo_council :: council_env where
  "demo_council = \<lparr>ce_spot = demo_spot, ce_tech = demo_tech_env, ce_now = 5, ce_newId = ''d'',
     ce_snapshot = (\<lambda>_. Some \<lparr>sn_signal = HubBuySignal, sn_confidence = Fin (3/4), sn_rationale = None, sn_invest = ''yes'',
        sn_riskNote = None, sn_lastPrice = None, sn_change24hPct = Some (Fin 1), sn_volume24hUsd = None\<rparr>),
     ce_oracle = None, ce_obi = (\<lambda>_. None), ce_llmConfigured = True,
     ce_llm = (\<lambda>_. (mk_vote VBuy (Fin (3/4)) (LlmSaid ''ok''), Some ''m'')), ce_persists = True\<rparr>"

definition demo_council_settings :: CexCouncilSettings where
  "demo_council_settings = \<lparr>cs_maxTradeUsd = Fin 25, cs_watchSymbol = ''BTCUSDT'', cs_hasOpenLong = False\<rparr>"

lemma demo_decision:
  "cd_action (fst (cexCouncilEvaluate demo_council ''u'' demo_council_settings (Fin 100) demo_council_state)) = CouncilBuy"
  by code_simp

theorem council_buy_grounds_witness:
  "cd_orderSizeUsd (fst (cexCouncilEvaluate demo_council ''u'' demo_council_settings (Fin 100) demo_council_state)) \<le> Fin 25 \<and>
   2 \<le> card {i. av_vote (cd_votes (fst (cexCouncilEvaluate demo_council ''u'' demo_council_settings (Fin 100) demo_council_state)) i) = VBuy \<and>
     Fin 0 < av_confidence (cd_votes (fst (cexCouncilEvaluate demo_council ''u'' demo_council_settings (Fin 100) demo_council_state)) i)}"
  using council_buy_grounds [OF surjective_pairing demo_decision] by (simp add: demo_council_settings_def Let_def) linarith

end
