(* ===== verification/CexMachine.thy ===== *)
theory CexMachine
  imports CexCouncil ExitSettings
begin

text \<open>
  The Binance Super Machine, \<open>services/agents/cexSuperMachineService.ts\<close>: its configuration rows with the open lot,
  the settings, the exit overrides, the skim of a profit, the status, and the tick: readiness, the stale lot, the exit
  decision, the sale or the skim, the council and the purchase. Orders go through the order service of the
  theory \<open>OrderService\<close>, on the same tables; a list records every order it was asked for. A write the source does not
  wait for (the trailing peak) lands at once. Notifications are left out.
\<close>

section \<open>State\<close>

record cex_row =
  cc_user :: user_id
  cc_enabled :: bool
  cc_connection :: "string option"
  cc_watchSymbol :: string
  cc_maxTradeUsd :: number
  cc_emergencyStop :: bool
  cc_openSymbol :: "string option"
  cc_openPair :: "string option"
  cc_openEntryPrice :: "number option"
  cc_openBaseQty :: "number option"
  cc_openQuoteSpent :: "number option"
  cc_openedAt :: "time option"
  cc_openTakeProfitPct :: "number option"
  cc_openStopLossPct :: "number option"
  cc_openTrailingStop :: "bool option"
  cc_openTrailingPeak :: "number option"
  cc_openSkimmedUsd :: "number option"
  cc_lastBuyAt :: "time option"
  cc_lastTickAt :: "time option"
  cc_updatedAt :: time

record CexSuperMachineSettings =
  sg_enabled :: bool
  sg_connection :: "string option"
  sg_watchSymbol :: string
  sg_maxTradeUsd :: number
  sg_emergencyStop :: bool

record CexOpenLong =
  ol_symbol :: string
  ol_pair :: string
  ol_entryPrice :: number
  ol_baseQty :: number
  ol_quoteSpent :: number
  ol_openedAt :: time
  ol_skimmedUsd :: number
  ol_takeProfitPct :: "number option"
  ol_stopLossPct :: "number option"
  ol_trailingStop :: "bool option"
  ol_trailingPeak :: "number option"

datatype exit_kind = TakeProfit | ProfitSkim | StopLoss | TrailingStop

datatype cex_log =
    NoTradeOnlyConnection
  | ClearedStaleLot string
  | SkimSold string
  | SkimFailed oms_error
  | ExitSold exit_kind string
  | ExitFailed exit_kind oms_error
  | BuyZeroFill
  | CouncilBought string
  | BuyFailed oms_error
  | ManualTraded order_side string

record cex_state =
  kx_oms :: oms
  kx_rows :: "cex_row list"
  kx_exits :: exit_cache
  kx_council :: council_state
  kx_skims :: "user_id \<rightharpoonup> time"
  kx_sent :: "(CreateOrderInput \<times> (oms_error + order_row)) list"
  kx_log :: "(user_id \<times> cex_log) list"
  kx_events :: "(user_id \<times> CexSuperMachineSettings) list"

record cex_env =
  kv_oms :: oms_env
  kv_council :: council_env
  kv_exitConfig :: cex_config
  kv_exitDb :: exit_db
  kv_liveAutomation :: bool
  kv_maintenance :: "string option"
  kv_maxOrderUsdt :: number
  kv_col8 :: "number \<Rightarrow> number"
  kv_col12 :: "number \<Rightarrow> number"
  kv_col4 :: "number \<Rightarrow> number"

definition kv_now :: "cex_env \<Rightarrow> time" where
  "kv_now env = e_now (kv_oms env)"

definition CEX_DEFAULTS :: CexSuperMachineSettings where
  "CEX_DEFAULTS = \<lparr>sg_enabled = False, sg_connection = None, sg_watchSymbol = ''BTCUSDT'', sg_maxTradeUsd = Fin 25,
     sg_emergencyStop = False\<rparr>"

definition BUY_COOLDOWN_MS :: int where "BUY_COOLDOWN_MS = 8 * 60000"
definition GHOST_LOT_FRACTION :: number where "GHOST_LOT_FRACTION = lit (5/100)"
definition CEX_MIN_SELL_NOTIONAL_USD :: number where "CEX_MIN_SELL_NOTIONAL_USD = Fin (11/2)"
definition CEX_SKIM_COOLDOWN_MS :: int where "CEX_SKIM_COOLDOWN_MS = 45000"

section \<open>Rows, settings and the open lot\<close>

definition pairFromCexSymbol :: "string \<Rightarrow> string" where
  "pairFromCexSymbol symbol = to_upper (drop_stable symbol) @ (if ends_with ''USDC'' symbol then ''/USDC'' else ''/USDT'')"

definition toSettings :: "cex_row option \<Rightarrow> CexSuperMachineSettings" where
  "toSettings row =
     (case row of None \<Rightarrow> CEX_DEFAULTS
      | Some r \<Rightarrow> \<lparr>sg_enabled = cc_enabled r, sg_connection = cc_connection r, sg_watchSymbol = cc_watchSymbol r,
          sg_maxTradeUsd = cc_maxTradeUsd r, sg_emergencyStop = cc_emergencyStop r\<rparr>)"

definition toOpenLong :: "cex_row option \<Rightarrow> CexOpenLong option" where
  "toOpenLong row =
     (case row of None \<Rightarrow> None
      | Some r \<Rightarrow>
          (case (given (cc_openSymbol r), cc_openBaseQty r, cc_openEntryPrice r) of
             (Some symbol, Some baseQty, Some entryPrice) \<Rightarrow>
               if \<not> Fin 0 < baseQty \<or> \<not> Fin 0 < entryPrice then None
               else Some \<lparr>ol_symbol = symbol, ol_pair = nullish (cc_openPair r) (pairFromCexSymbol symbol),
                 ol_entryPrice = entryPrice, ol_baseQty = baseQty, ol_quoteSpent = nullish (cc_openQuoteSpent r) (Fin 0),
                 ol_openedAt = nullish (cc_openedAt r) (cc_updatedAt r), ol_skimmedUsd = nullish (cc_openSkimmedUsd r) (Fin 0),
                 ol_takeProfitPct = cc_openTakeProfitPct r, ol_stopLossPct = cc_openStopLossPct r,
                 ol_trailingStop = cc_openTrailingStop r, ol_trailingPeak = cc_openTrailingPeak r\<rparr>
           | _ \<Rightarrow> None))"

definition clear_open_lot :: "cex_row \<Rightarrow> cex_row" where
  "clear_open_lot r =
     r\<lparr>cc_openSymbol := None, cc_openPair := None, cc_openEntryPrice := None, cc_openBaseQty := None,
       cc_openQuoteSpent := None, cc_openedAt := None, cc_openTakeProfitPct := None, cc_openStopLossPct := None,
       cc_openTrailingStop := None, cc_openTrailingPeak := None, cc_openSkimmedUsd := None\<rparr>"

text \<open>A row created with the column defaults, and an update of the user's row.\<close>

definition new_cex_row :: "cex_env \<Rightarrow> user_id \<Rightarrow> cex_row" where
  "new_cex_row env u =
     \<lparr>cc_user = u, cc_enabled = False, cc_connection = None, cc_watchSymbol = ''BTCUSDT'', cc_maxTradeUsd = Fin 25,
      cc_emergencyStop = False, cc_openSymbol = None, cc_openPair = None, cc_openEntryPrice = None, cc_openBaseQty = None,
      cc_openQuoteSpent = None, cc_openedAt = None, cc_openTakeProfitPct = None, cc_openStopLossPct = None,
      cc_openTrailingStop = None, cc_openTrailingPeak = None, cc_openSkimmedUsd = None, cc_lastBuyAt = None,
      cc_lastTickAt = None, cc_updatedAt = kv_now env\<rparr>"

definition find_row :: "user_id \<Rightarrow> cex_state \<Rightarrow> cex_row option" where
  "find_row u s = find (\<lambda>r. cc_user r = u) (kx_rows s)"

definition update_row :: "cex_env \<Rightarrow> user_id \<Rightarrow> (cex_row \<Rightarrow> cex_row) \<Rightarrow> cex_state \<Rightarrow> cex_state" where
  "update_row env u f s =
     s\<lparr>kx_rows := update_where (\<lambda>r. cc_user r = u) (\<lambda>r. (f r)\<lparr>cc_updatedAt := kv_now env\<rparr>) (kx_rows s)\<rparr>"

definition upsert_row :: "cex_env \<Rightarrow> user_id \<Rightarrow> (cex_row \<Rightarrow> cex_row) \<Rightarrow> (cex_row \<Rightarrow> cex_row) \<Rightarrow> cex_state \<Rightarrow> cex_state" where
  "upsert_row env u creation f s =
     (case find_row u s of
        None \<Rightarrow> s\<lparr>kx_rows := kx_rows s @ [creation (new_cex_row env u)]\<rparr>
      | Some _ \<Rightarrow> update_row env u f s)"

definition add_log :: "user_id \<Rightarrow> cex_log \<Rightarrow> cex_state \<Rightarrow> cex_state" where
  "add_log u l s = s\<lparr>kx_log := kx_log s @ [(u, l)]\<rparr>"

record settings_patch =
  pt_enabled :: "bool option"
  pt_connection :: "string option option"
  pt_watchSymbol :: "string option"
  pt_maxTradeUsd :: "number option"
  pt_emergencyStop :: "bool option"

definition getCexSuperMachineSettings :: "user_id \<Rightarrow> cex_state \<Rightarrow> CexSuperMachineSettings" where
  "getCexSuperMachineSettings u s = toSettings (find_row u s)"

definition setCexSuperMachineSettings ::
  "cex_env \<Rightarrow> user_id \<Rightarrow> settings_patch \<Rightarrow> cex_state \<Rightarrow> CexSuperMachineSettings \<times> cex_state" where
  "setCexSuperMachineSettings env u raw s =
     (let prev = getCexSuperMachineSettings u s;
          next_settings = \<lparr>sg_enabled = nullish (pt_enabled raw) (sg_enabled prev),
            sg_connection = nullish (pt_connection raw) (sg_connection prev),
            sg_watchSymbol = to_upper (remove_first (CHR ''/'') (nullish (pt_watchSymbol raw) (sg_watchSymbol prev))),
            sg_maxTradeUsd = clamp_finite (nullish (pt_maxTradeUsd raw) (sg_maxTradeUsd prev)) (Fin 5) (kv_maxOrderUsdt env),
            sg_emergencyStop = nullish (pt_emergencyStop raw) (sg_emergencyStop prev)\<rparr>;
          write = (\<lambda>r. r\<lparr>cc_enabled := sg_enabled next_settings, cc_connection := sg_connection next_settings,
            cc_watchSymbol := sg_watchSymbol next_settings, cc_maxTradeUsd := kv_col8 env (sg_maxTradeUsd next_settings),
            cc_emergencyStop := sg_emergencyStop next_settings\<rparr>);
          s1 = upsert_row env u write write s in
      (next_settings, s1\<lparr>kx_events := kx_events s1 @ [(u, next_settings)]\<rparr>))"

record cex_overrides =
  xo_takeProfitPct :: "number option option"
  xo_stopLossPct :: "number option option"
  xo_trailingStop :: "bool option option"

definition setCexPositionExitOverrides :: "cex_env \<Rightarrow> user_id \<Rightarrow> cex_overrides \<Rightarrow> cex_state \<Rightarrow> bool \<times> cex_state" where
  "setCexPositionExitOverrides env u overrides s =
     (case Option.bind (find_row u s) (given \<circ> cc_openSymbol) of None \<Rightarrow> (False, s)
      | Some _ \<Rightarrow>
          if xo_takeProfitPct overrides = None \<and> xo_stopLossPct overrides = None \<and> xo_trailingStop overrides = None then (True, s)
          else (True, update_row env u (\<lambda>r. r\<lparr>
             cc_openTakeProfitPct := nullish (map_option (map_option (kv_col4 env)) (xo_takeProfitPct overrides)) (cc_openTakeProfitPct r),
             cc_openStopLossPct := nullish (map_option (map_option (kv_col4 env)) (xo_stopLossPct overrides)) (cc_openStopLossPct r),
             cc_openTrailingStop := nullish (xo_trailingStop overrides) (cc_openTrailingStop r)\<rparr>) s))"

section \<open>The profit slice\<close>

datatype skim_block = NotInProfit | SliceTooSmall | SliceBelowMinimum string

record CexSkimSlice =
  sl_pnlPct :: number
  sl_skimQty :: number
  sl_skimNotionalUsd :: number
  sl_lotNotionalUsd :: number
  sl_blockedReason :: "skim_block option"

definition pnl_pct :: "number \<Rightarrow> number \<Rightarrow> number" where
  "pnl_pct entry mark = (mark - entry) / entry * Fin 100"

definition cex_skim_quantity :: "CexOpenLong \<Rightarrow> number \<Rightarrow> number option \<Rightarrow> number" where
  "cex_skim_quantity opn mark freeBase =
     (let pnl = (if Fin 0 < ol_entryPrice opn then pnl_pct (ol_entryPrice opn) mark else Fin 0);
          profitUsd = ol_quoteSpent opn * (pnl / Fin 100);
          q = math_min (ol_baseQty opn * Fin (1/2)) (profitUsd / mark) in
      case freeBase of Some f \<Rightarrow> if Fin 0 < f then math_min q (f * lit (98/100)) else q | None \<Rightarrow> q)"

definition computeCexSkimSlice :: "CexOpenLong \<Rightarrow> number \<Rightarrow> number option \<Rightarrow> CexSkimSlice" where
  "computeCexSkimSlice opn mark freeBase =
     (let pnl = (if Fin 0 < ol_entryPrice opn then pnl_pct (ol_entryPrice opn) mark else Fin 0);
          lotNotionalUsd = ol_baseQty opn * mark;
          blocked = (\<lambda>notional r. \<lparr>sl_pnlPct = pnl, sl_skimQty = Fin 0, sl_skimNotionalUsd = notional,
             sl_lotNotionalUsd = lotNotionalUsd, sl_blockedReason = Some r\<rparr>) in
      if pnl \<le> lit (5/100) then blocked (Fin 0) NotInProfit
      else
        let skimQty = cex_skim_quantity opn mark freeBase in
        if skimQty \<le> Fin 0 \<or> ol_baseQty opn * lit (9/10) \<le> skimQty then blocked (Fin 0) SliceTooSmall
        else
          let skimNotionalUsd = skimQty * mark in
          if skimNotionalUsd < CEX_MIN_SELL_NOTIONAL_USD then blocked skimNotionalUsd (SliceBelowMinimum (to_fixed skimNotionalUsd 2))
          else \<lparr>sl_pnlPct = pnl, sl_skimQty = skimQty, sl_skimNotionalUsd = skimNotionalUsd,
                sl_lotNotionalUsd = lotNotionalUsd, sl_blockedReason = None\<rparr>)"

section \<open>Orders and connections\<close>

definition cex_place :: "cex_env \<Rightarrow> CreateOrderInput \<Rightarrow> cex_state \<Rightarrow> (oms_error + order_row) \<times> cex_state" where
  "cex_place env input s =
     (case placeOrder (kv_oms env) input (kx_oms s) of
        (r, oms') \<Rightarrow> (r, s\<lparr>kx_oms := oms', kx_sent := kx_sent s @ [(input, r)]\<rparr>))"

definition market_order :: "user_id \<Rightarrow> string \<Rightarrow> string \<Rightarrow> order_side \<Rightarrow> number \<Rightarrow> number option \<Rightarrow> number option \<Rightarrow> CreateOrderInput" where
  "market_order u connId symbol side quantity quoteQty price =
     \<lparr>in_userId = u, in_connectionId = connId, in_symbol = symbol, in_side = side, in_type = MARKET, in_quantity = quantity,
      in_quoteOrderQty = quoteQty, in_price = price, in_timeInForce = None, in_stopLossPrice = None,
      in_takeProfitPrice = None, in_trailingPercent = None\<rparr>"

definition trade_only_connection :: "user_id \<Rightarrow> connection_row list \<Rightarrow> connection_row option" where
  "trade_only_connection u cs =
     find_first (\<lambda>c. cn_user c = u \<and> cn_active c \<and> cn_canTrade c \<and> \<not> cn_canWithdraw c \<and> cn_exchange c = ''BINANCE'')
       (order_desc cn_updatedAt) cs"

definition resolveConnectionId :: "user_id \<Rightarrow> string option \<Rightarrow> connection_row list \<Rightarrow> string option" where
  "resolveConnectionId u preferred cs =
     (case Option.bind (given preferred) (\<lambda>i.
         find_first (\<lambda>c. cn_id c = i \<and> cn_user c = u \<and> cn_active c \<and> cn_canTrade c \<and> \<not> cn_canWithdraw c) id cs) of
        Some c \<Rightarrow> Some (cn_id c)
      | None \<Rightarrow> map_option cn_id (trade_only_connection u cs))"

definition own_connection :: "user_id \<Rightarrow> string \<Rightarrow> connection_row list \<Rightarrow> connection_row option" where
  "own_connection u i cs = find_first (\<lambda>c. cn_id c = i \<and> cn_user c = u) id cs"

definition cex_readiness :: "cex_env \<Rightarrow> user_id \<Rightarrow> string option \<Rightarrow> cex_state \<Rightarrow> AutomationReadiness" where
  "cex_readiness env u sel s =
     computeAutomationReadiness (kv_liveAutomation env) (kv_maintenance env) (om_rules (kx_oms s)) (om_connections (kx_oms s)) u sel"

definition cex_exits :: "cex_env \<Rightarrow> user_id \<Rightarrow> cex_state \<Rightarrow> exit_settings \<times> cex_state" where
  "cex_exits env u s =
     (case getCexExitSettings (kv_exitConfig env) (kv_exitDb env) (kv_now env) u (kx_exits s) of
        (x, cache) \<Rightarrow> (x, s\<lparr>kx_exits := cache\<rparr>))"

definition cex_book :: "cex_env \<Rightarrow> string \<Rightarrow> book_ticker option" where
  "cex_book env symbol = spot_bookTicker (ce_spot (kv_council env)) symbol"

text \<open>The quantity and price of a fill as the machine books them.\<close>

definition sold_quantity :: "order_row \<Rightarrow> number \<Rightarrow> number" where
  "sold_quantity filled asked = number_or (or_filledQuantity filled) asked"

definition cex_fill_price :: "order_row \<Rightarrow> number \<Rightarrow> number" where
  "cex_fill_price filled fallback =
     (case or_avgFillPrice filled of Some p \<Rightarrow> if Fin 0 < p then p else fallback | None \<Rightarrow> fallback)"

text \<open>The lot after a skim.\<close>

definition skimmed_lot :: "cex_env \<Rightarrow> CexOpenLong \<Rightarrow> number \<Rightarrow> number \<Rightarrow> cex_row \<Rightarrow> cex_row" where
  "skimmed_lot env opn soldQty price r =
     (let fraction = math_min (lit (95/100)) (soldQty / ol_baseQty opn);
          realized = (price - ol_entryPrice opn) * soldQty in
      r\<lparr>cc_openBaseQty := Some (kv_col12 env (math_max (Fin 0) (ol_baseQty opn - soldQty))),
        cc_openQuoteSpent := Some (kv_col8 env (math_max (Fin 0) (ol_quoteSpent opn * (Fin 1 - fraction)))),
        cc_openSkimmedUsd := Some (kv_col8 env (ol_skimmedUsd opn + realized))\<rparr>)"

datatype cex_error =
    NoPositionToSkim
  | NoConnectionLinked
  | ConnectionMissing
  | NoLivePrice
  | SkimBlocked skim_block
  | BalancesFailed oms_error
  | OrderFailed oms_error

definition bid_or_mid :: "book_ticker option \<Rightarrow> number option" where
  "bid_or_mid book = map_option bk_bid book"

definition skimCexPositionProfit ::
  "cex_env \<Rightarrow> user_id \<Rightarrow> cex_state \<Rightarrow> (cex_error + number \<times> number) \<times> cex_state" where
  "skimCexPositionProfit env u s =
     (let row = find_row u s; cs = om_connections (kx_oms s) in
      case toOpenLong row of None \<Rightarrow> (Inl NoPositionToSkim, s)
      | Some opn \<Rightarrow>
      case resolveConnectionId u (Option.bind row cc_connection) cs of None \<Rightarrow> (Inl NoConnectionLinked, s)
      | Some connId \<Rightarrow>
      case own_connection u connId cs of None \<Rightarrow> (Inl ConnectionMissing, s)
      | Some conn \<Rightarrow>
      case bid_or_mid (cex_book env (ol_symbol opn)) of None \<Rightarrow> (Inl NoLivePrice, s)
      | Some mark \<Rightarrow>
      if mark \<le> Fin 0 then (Inl NoLivePrice, s)
      else case spot_getBalances (ce_spot (kv_council env)) conn of Inl e \<Rightarrow> (Inl (BalancesFailed e), s)
      | Inr balances \<Rightarrow>
        let freeBase = freeAsset balances (drop_stable (ol_symbol opn));
            slice = computeCexSkimSlice opn mark (Some freeBase) in
        case sl_blockedReason slice of Some b \<Rightarrow> (Inl (SkimBlocked b), s)
        | None \<Rightarrow>
            (case cex_place env (market_order u connId (ol_symbol opn) ExchangeAccess.SELL (sl_skimQty slice) None (Some mark)) s of
               (Inl e, s1) \<Rightarrow> (Inl (OrderFailed e), s1)
             | (Inr filled, s1) \<Rightarrow>
                 let soldQty = sold_quantity filled (sl_skimQty slice); price = cex_fill_price filled mark in
                 (Inr (soldQty, price),
                  add_log u (SkimSold (ol_pair opn)) (update_row env u (skimmed_lot env opn soldQty price) s1))))"

section \<open>The exit decision\<close>

definition eff_takeProfit :: "exit_settings \<Rightarrow> CexOpenLong \<Rightarrow> number" where
  "eff_takeProfit exits opn = nullish (ol_takeProfitPct opn) (xs_takeProfitPct exits)"

definition eff_trailing :: "exit_settings \<Rightarrow> CexOpenLong \<Rightarrow> bool" where
  "eff_trailing exits opn = nullish (ol_trailingStop opn) (xs_trailingStop exits)"

text \<open>After a skim the stop tightens to 0.35 %.\<close>

definition eff_stopLoss :: "exit_settings \<Rightarrow> CexOpenLong \<Rightarrow> number" where
  "eff_stopLoss exits opn =
     (let base = nullish (ol_stopLossPct opn) (xs_stopLossPct exits) in
      if Fin 0 < ol_skimmedUsd opn then math_min base (lit (35/100)) else base)"

definition trail_peak :: "CexOpenLong \<Rightarrow> number \<Rightarrow> number" where
  "trail_peak opn mark = math_max (nullish (ol_trailingPeak opn) (Fin 0)) mark"

definition cex_trail_armed :: "exit_settings \<Rightarrow> CexOpenLong \<Rightarrow> number \<Rightarrow> bool" where
  "cex_trail_armed exits opn mark \<longleftrightarrow>
     ol_entryPrice opn * (Fin 1 + xs_trailingActivationPct exits / Fin 100) \<le> trail_peak opn mark"

definition cex_trail_floor :: "exit_settings \<Rightarrow> CexOpenLong \<Rightarrow> number \<Rightarrow> number" where
  "cex_trail_floor exits opn mark =
     math_max (trail_peak opn mark * (Fin 1 - xs_trailingDeltaPct exits / Fin 100)) (ol_entryPrice opn * lit (1001/1000))"

definition choose_exit :: "exit_settings \<Rightarrow> CexOpenLong \<Rightarrow> number \<Rightarrow> number \<Rightarrow> bool \<Rightarrow> exit_kind option" where
  "choose_exit exits opn mark freeBase cooled =
     (let pnl = pnl_pct (ol_entryPrice opn) mark in
      if \<not> xs_enabled exits then None
      else if eff_takeProfit exits opn \<le> pnl then
        (if xs_profitSkim exits \<and> cooled \<and> sl_blockedReason (computeCexSkimSlice opn mark (Some freeBase)) = None
         then Some ProfitSkim else Some TakeProfit)
      else if eff_trailing exits opn then
        (if cex_trail_armed exits opn mark \<and> mark \<le> cex_trail_floor exits opn mark \<and> Fin 0 < pnl then Some TrailingStop
         else if pnl \<le> - eff_stopLoss exits opn then Some StopLoss else None)
      else if pnl \<le> - eff_stopLoss exits opn then Some StopLoss else None)"

definition persist_peak :: "cex_env \<Rightarrow> user_id \<Rightarrow> exit_settings \<Rightarrow> CexOpenLong \<Rightarrow> number \<Rightarrow> cex_state \<Rightarrow> cex_state" where
  "persist_peak env u exits opn mark s =
     (if xs_enabled exits \<and> \<not> eff_takeProfit exits opn \<le> pnl_pct (ol_entryPrice opn) mark \<and> eff_trailing exits opn \<and>
         nullish (ol_trailingPeak opn) (Fin 0) < trail_peak opn mark
      then update_row env u (\<lambda>r. r\<lparr>cc_openTrailingPeak := Some (kv_col8 env (trail_peak opn mark))\<rparr>) s else s)"

section \<open>The tick\<close>

definition tick_skim :: "cex_env \<Rightarrow> user_id \<Rightarrow> string \<Rightarrow> CexOpenLong \<Rightarrow> number \<Rightarrow> number \<Rightarrow> cex_state \<Rightarrow> cex_state" where
  "tick_skim env u connId opn mark freeBase s =
     (let slice = computeCexSkimSlice opn mark (Some freeBase);
          s0 = s\<lparr>kx_skims := (kx_skims s)(u \<mapsto> kv_now env)\<rparr> in
      case cex_place env (market_order u connId (ol_symbol opn) ExchangeAccess.SELL (sl_skimQty slice) None (Some mark)) s0 of
        (Inl e, s1) \<Rightarrow> add_log u (SkimFailed e) s1
      | (Inr filled, s1) \<Rightarrow>
          add_log u (SkimSold (ol_pair opn))
            (update_row env u (skimmed_lot env opn (sold_quantity filled (sl_skimQty slice)) (cex_fill_price filled mark)) s1))"

definition tick_close :: "cex_env \<Rightarrow> user_id \<Rightarrow> string \<Rightarrow> CexOpenLong \<Rightarrow> number \<Rightarrow> number \<Rightarrow> exit_kind \<Rightarrow> cex_state \<Rightarrow> cex_state" where
  "tick_close env u connId opn mark freeBase kind s =
     (case cex_place env (market_order u connId (ol_symbol opn) ExchangeAccess.SELL (math_min (ol_baseQty opn) freeBase) None (Some mark)) s of
        (Inl e, s1) \<Rightarrow> add_log u (ExitFailed kind e) s1
      | (Inr _, s1) \<Rightarrow> add_log u (ExitSold kind (ol_pair opn)) (update_row env u clear_open_lot s1))"

text \<open>The open lot: \<open>None\<close> ends the tick, otherwise it goes on with the lot that is still open.\<close>

definition manage_lot ::
  "cex_env \<Rightarrow> user_id \<Rightarrow> string \<Rightarrow> CexOpenLong \<Rightarrow> number \<Rightarrow> number \<Rightarrow> cex_state \<Rightarrow> CexOpenLong option option \<times> cex_state" where
  "manage_lot env u connId opn mark freeBase s =
     (case cex_exits env u s of (exits, s1) \<Rightarrow>
        let cooled = (CEX_SKIM_COOLDOWN_MS \<le> kv_now env - nullish (kx_skims s1 u) 0);
            s2 = persist_peak env u exits opn mark s1 in
        case choose_exit exits opn mark freeBase cooled of
          None \<Rightarrow> (Some (Some opn), s2)
        | Some ProfitSkim \<Rightarrow> (None, tick_skim env u connId opn mark freeBase s2)
        | Some kind \<Rightarrow> (None, tick_close env u connId opn mark freeBase kind s2))"

definition tick_position ::
  "cex_env \<Rightarrow> user_id \<Rightarrow> string \<Rightarrow> adapter_balance list \<Rightarrow> CexOpenLong option \<Rightarrow> cex_state \<Rightarrow> CexOpenLong option option \<times> cex_state" where
  "tick_position env u connId balances opened s =
     (case opened of None \<Rightarrow> (Some None, s)
      | Some opn \<Rightarrow>
          let freeBase = freeAsset balances (drop_suffix ''USDT'' (ol_symbol opn)) in
          if freeBase < ol_baseQty opn * GHOST_LOT_FRACTION
          then (Some None, add_log u (ClearedStaleLot (ol_pair opn)) (update_row env u clear_open_lot s))
          else (case bid_or_mid (cex_book env (ol_symbol opn)) of
              Some mark \<Rightarrow> if Fin 0 < ol_entryPrice opn then manage_lot env u connId opn mark freeBase s else (Some (Some opn), s)
            | None \<Rightarrow> (Some (Some opn), s)))"

definition tick_buy :: "cex_env \<Rightarrow> user_id \<Rightarrow> string \<Rightarrow> string \<Rightarrow> number \<Rightarrow> number \<Rightarrow> cex_state \<Rightarrow> cex_state" where
  "tick_buy env u connId symbol sz px s =
     (case cex_place env (market_order u connId symbol ExchangeAccess.BUY sz (Some sz) (Some px)) s of
        (Inl e, s1) \<Rightarrow> add_log u (BuyFailed e) s1
      | (Inr filled, s1) \<Rightarrow>
          let qty = or_filledQuantity filled; pair = drop_suffix ''USDT'' symbol @ ''/USDT'' in
          if qty \<le> Fin 0 then add_log u BuyZeroFill s1
          else
            let spent = number_or (or_quoteQuantity filled) sz; entry = cex_fill_price filled (spent / qty) in
            add_log u (CouncilBought pair)
              (update_row env u (\<lambda>r. r\<lparr>cc_openSymbol := Some symbol, cc_openPair := Some pair,
                 cc_openEntryPrice := Some (kv_col8 env entry), cc_openBaseQty := Some (kv_col12 env qty),
                 cc_openQuoteSpent := Some (kv_col8 env spent), cc_openedAt := Some (kv_now env), cc_lastBuyAt := Some (kv_now env)\<rparr>) s1))"

definition tick_council ::
  "cex_env \<Rightarrow> cex_row \<Rightarrow> string \<Rightarrow> number \<Rightarrow> CexOpenLong option \<Rightarrow> cex_state \<Rightarrow> cex_state" where
  "tick_council env row connId freeQuoteUsd opened s =
     (let u = cc_user row; symbol = cc_watchSymbol row in
      case cexCouncilEvaluate (kv_council env) u
          \<lparr>cs_maxTradeUsd = cc_maxTradeUsd row, cs_watchSymbol = symbol, cs_hasOpenLong = (opened \<noteq> None)\<rparr> freeQuoteUsd (kx_council s) of
        (d, council) \<Rightarrow>
          let s1 = s\<lparr>kx_council := council\<rparr> in
          if cd_action d \<noteq> CouncilBuy \<or> cd_orderSizeUsd d < Fin 5 then s1
          else if opened \<noteq> None then s1
          else if kv_now env - nullish (cc_lastBuyAt row) 0 < BUY_COOLDOWN_MS then s1
          else (case map_option bk_ask (cex_book env symbol) of
              None \<Rightarrow> s1
            | Some px \<Rightarrow> if px \<le> Fin 0 then s1 else tick_buy env u connId symbol (cd_orderSizeUsd d) px s1))"

definition tickUser :: "cex_env \<Rightarrow> cex_row \<Rightarrow> cex_state \<Rightarrow> (cex_error + unit) \<times> cex_state" where
  "tickUser env row s =
     (let u = cc_user row; cs = om_connections (kx_oms s) in
      if \<not> cc_enabled row \<or> cc_emergencyStop row \<or> \<not> kv_liveAutomation env then (Inr (), s)
      else case resolveConnectionId u (cc_connection row) cs of
        None \<Rightarrow> (Inr (), add_log u NoTradeOnlyConnection s)
      | Some connId \<Rightarrow>
          let s1 = (if cc_connection row \<noteq> Some connId then update_row env u (\<lambda>r. r\<lparr>cc_connection := Some connId\<rparr>) s else s) in
          if \<not> ready (cex_readiness env u (Some connId) s1) then (Inr (), s1)
          else case own_connection u connId cs of None \<Rightarrow> (Inr (), s1)
          | Some conn \<Rightarrow>
          case spot_getBalances (ce_spot (kv_council env)) conn of Inl e \<Rightarrow> (Inl (BalancesFailed e), s1)
          | Inr balances \<Rightarrow>
              let s2 = update_row env u (\<lambda>r. r\<lparr>cc_lastTickAt := Some (kv_now env)\<rparr>) s1 in
              case tick_position env u connId balances (toOpenLong (Some row)) s2 of
                (None, s3) \<Rightarrow> (Inr (), s3)
              | (Some opened, s3) \<Rightarrow> (Inr (), tick_council env row connId (sumQuoteStables balances) opened s3))"

text \<open>One round over the enabled rows as they were read at its start; an error of one user is logged and
  the next one is served.\<close>

definition tickAll :: "(nat \<Rightarrow> cex_env) \<Rightarrow> cex_state \<Rightarrow> cex_state" where
  "tickAll envs s =
     (let rows = filter (\<lambda>r. cc_enabled r \<and> \<not> cc_emergencyStop r) (kx_rows s) in
      foldl (\<lambda>st (i, row). snd (tickUser (envs i) row st)) s (enumerate 0 rows))"

section \<open>Status\<close>

record cex_position =
  px_lot :: CexOpenLong
  px_markPrice :: "number option"
  px_pnlPct :: "number option"
  px_pnlUsd :: "number option"
  px_takeProfitPct :: number
  px_stopLossPct :: number
  px_trailingStop :: bool
  px_profitSkim :: bool
  px_skimmableUsd :: number
  px_skimBlock :: "skim_block option option"
  px_belowMinOrder :: bool

record cex_status =
  kt_settings :: CexSuperMachineSettings
  kt_running :: bool
  kt_readiness :: AutomationReadiness
  kt_position :: "cex_position option"
  kt_decisions :: "CouncilDecision list"
  kt_exit :: exit_settings
  kt_lastTickAt :: "time option"

text \<open>The skim is blocked for want of a price (\<open>Some None\<close>), by the slice (\<open>Some (Some b)\<close>), or not at all.\<close>

definition position_view :: "exit_settings \<Rightarrow> CexOpenLong \<Rightarrow> number option \<Rightarrow> cex_position" where
  "position_view exits opn mark =
     (let slice = map_option (\<lambda>m. computeCexSkimSlice opn m None) mark in
      \<lparr>px_lot = opn, px_markPrice = mark,
       px_pnlPct = (case mark of Some m \<Rightarrow> if Fin 0 < ol_entryPrice opn then Some (pnl_pct (ol_entryPrice opn) m) else None | None \<Rightarrow> None),
       px_pnlUsd = map_option (\<lambda>m. (m - ol_entryPrice opn) * ol_baseQty opn) mark,
       px_takeProfitPct = nullish (ol_takeProfitPct opn) (xs_takeProfitPct exits),
       px_stopLossPct = nullish (ol_stopLossPct opn) (xs_stopLossPct exits),
       px_trailingStop = nullish (ol_trailingStop opn) (xs_trailingStop exits), px_profitSkim = xs_profitSkim exits,
       px_skimmableUsd = (case slice of Some sl \<Rightarrow> if sl_blockedReason sl = None then sl_skimNotionalUsd sl else Fin 0 | None \<Rightarrow> Fin 0),
       px_skimBlock = (case slice of None \<Rightarrow> Some None | Some sl \<Rightarrow> map_option Some (sl_blockedReason sl)),
       px_belowMinOrder = (case slice of Some sl \<Rightarrow> sl_lotNotionalUsd sl < CEX_MIN_SELL_NOTIONAL_USD | None \<Rightarrow> False)\<rparr>)"

definition getCexSuperMachineStatus :: "cex_env \<Rightarrow> user_id \<Rightarrow> cex_state \<Rightarrow> cex_status \<times> cex_state" where
  "getCexSuperMachineStatus env u s =
     (let row = find_row u s; settings = toSettings row; rd = cex_readiness env u (sg_connection settings) s in
      case cex_exits env u s of (exits, s1) \<Rightarrow>
        (\<lparr>kt_settings = settings, kt_running = (sg_enabled settings \<and> \<not> sg_emergencyStop settings \<and> ready rd),
          kt_readiness = rd,
          kt_position = map_option (\<lambda>opn. position_view exits opn (bid_or_mid (cex_book env (ol_symbol opn)))) (toOpenLong row),
          kt_decisions = getRecentCexCouncilDecisions u 12 (kx_council s), kt_exit = exits,
          kt_lastTickAt = Option.bind row cc_lastTickAt\<rparr>, s1))"

end
