(* ===== verification/CexDesk.thy ===== *)
theory CexDesk
  imports CexMachine
begin

text \<open>
  The manual desk of the Binance account, \<open>services/trading/cexManualTradingService.ts\<close> (desk view, preflight, trade), and
  the open position of the dashboard, \<open>services/trading/cexOpenPositionService.ts\<close>, over the state of the Super Machine. The
  depth mirror of the order book is an argument. Messages are constructors; notifications are left out.
\<close>

section \<open>Balances\<close>

record desk_balances =
  db_freeUsdt :: number
  db_freeUsdc :: number
  db_freeQuoteUsd :: number
  db_freeBase :: number
  db_error :: "oms_error option"

definition no_balances :: "oms_error option \<Rightarrow> desk_balances" where
  "no_balances e = \<lparr>db_freeUsdt = Fin 0, db_freeUsdc = Fin 0, db_freeQuoteUsd = Fin 0, db_freeBase = Fin 0, db_error = e\<rparr>"

definition deskSymbol :: "string \<Rightarrow> string" where
  "deskSymbol symbol = to_upper (remove_first (CHR ''/'') symbol)"

definition desk_connection :: "user_id \<Rightarrow> connection_row list \<Rightarrow> string option" where
  "desk_connection u cs = map_option cn_id (trade_only_connection u cs)"

definition loadBalances :: "cex_env \<Rightarrow> user_id \<Rightarrow> string option \<Rightarrow> string \<Rightarrow> connection_row list \<Rightarrow> desk_balances" where
  "loadBalances env u connectionId asset cs =
     (case Option.bind (given connectionId) (\<lambda>i. own_connection u i cs) of None \<Rightarrow> no_balances None
      | Some conn \<Rightarrow>
          (case spot_getBalances (ce_spot (kv_council env)) conn of Inl e \<Rightarrow> no_balances (Some e)
           | Inr balances \<Rightarrow>
               \<lparr>db_freeUsdt = freeAsset balances ''USDT'', db_freeUsdc = freeAsset balances ''USDC'',
                db_freeQuoteUsd = sumQuoteStables balances, db_freeBase = freeAsset balances asset, db_error = None\<rparr>))"

definition MIN_ORDER_USD :: number where "MIN_ORDER_USD = Fin 5"

text \<open>The rules of a symbol and the technical vote, through the caches of the order service and the council.\<close>

definition desk_rules :: "cex_env \<Rightarrow> string \<Rightarrow> cex_state \<Rightarrow> ParsedSymbolRules option \<times> cex_state" where
  "desk_rules env symbol s =
     (case tryGetBinanceSymbolRules (e_fetch (kv_oms env)) (kv_now env) symbol (om_cache (kx_oms s)) of
        (r, cache) \<Rightarrow> (r, s\<lparr>kx_oms := (kx_oms s)\<lparr>om_cache := cache\<rparr>\<rparr>))"

definition desk_tech :: "cex_env \<Rightarrow> string \<Rightarrow> cex_state \<Rightarrow> TechnicalSnapshot \<times> cex_state" where
  "desk_tech env symbol s =
     (case technicalVote (ce_tech (kv_council env)) symbol (cl_tech (kx_council s)) of
        (t, caches) \<Rightarrow> (t, s\<lparr>kx_council := (kx_council s)\<lparr>cl_tech := caches\<rparr>\<rparr>))"

section \<open>Preflight\<close>

record ManualTradeRequest =
  mr_symbol :: string
  mr_side :: order_side
  mr_quoteOrderQty :: "number option"
  mr_quantity :: "number option"
  mr_fraction :: "number option"
  mr_attachExits :: bool

datatype desk_blocker =
    NoTradeOnlyKey
  | LiveTradingDisabled
  | ReadinessBlocker blocker
  | NoPriceFor string
  | EnterSpend quote_asset
  | BelowMinimumOrder
  | AbovePerOrderCap number
  | NotEnoughQuote quote_asset string string string
  | BelowExchangeNotional number string
  | EnterSell string
  | AboveFreeBase string number number
  | BelowMinQty string string
  | SaleBelowNotional string number

datatype desk_warning =
    WideSpread string
  | TechnicalAvoid "tech_note list"
  | HigherFramesBearish nat nat
  | NearYearHigh
  | TechnicalStillBuy "tech_note list"

datatype signal_alignment = WithSignal | AgainstSignal | NeutralSignal

record preflight_order =
  po_symbol :: string
  po_side :: order_side
  po_quoteOrderQty :: "number option"
  po_quantity :: "number option"
  po_estPrice :: "number option"
  po_estBaseQty :: "number option"
  po_estQuoteValue :: "number option"
  po_minNotional :: "number option"
  po_stepSize :: "number option"

record ManualPreflight =
  pf_blockers :: "desk_blocker list"
  pf_warnings :: "desk_warning list"
  pf_order :: preflight_order
  pf_alignment :: signal_alignment

definition preflight_ok :: "ManualPreflight \<Rightarrow> bool" where
  "preflight_ok p \<longleftrightarrow> pf_blockers p = []"

definition buy_blockers ::
  "number \<Rightarrow> desk_balances \<Rightarrow> ResolvedCexSymbol \<Rightarrow> ParsedSymbolRules option \<Rightarrow> number \<Rightarrow> desk_blocker list" where
  "buy_blockers cap bal rs rules q =
     (if \<not> is_finite q \<or> q \<le> Fin 0 then [EnterSpend (rs_quoteAsset rs)]
      else
        let quoteFree = (if rs_quoteAsset rs = QUSDC then db_freeUsdc bal else db_freeUsdt bal) in
        (if q < MIN_ORDER_USD then [BelowMinimumOrder] else []) @
        (if cap < q then [AbovePerOrderCap cap] else []) @
        (if quoteFree < q then [NotEnoughQuote (rs_quoteAsset rs) (to_fixed quoteFree 2) (to_fixed q 2) (rs_pair rs)] else []) @
        (case rules of None \<Rightarrow> []
         | Some r \<Rightarrow> if Fin 0 < minNotional r \<and> q < minNotional r then [BelowExchangeNotional (minNotional r) (rs_symbol rs)] else []))"

definition requested_quantity :: "desk_balances \<Rightarrow> ManualTradeRequest \<Rightarrow> number" where
  "requested_quantity bal req =
     (let requested = (case mr_fraction req of
            Some f \<Rightarrow> if Fin 0 < f then db_freeBase bal * math_min (Fin 1) f else nullish (mr_quantity req) (Fin 0)
          | None \<Rightarrow> nullish (mr_quantity req) (Fin 0)) in
      if is_finite requested then requested else Fin 0)"

definition sell_quantity_blockers :: "desk_balances \<Rightarrow> string \<Rightarrow> number \<Rightarrow> desk_blocker list" where
  "sell_quantity_blockers bal asset quantity =
     (if quantity \<le> Fin 0 then [EnterSell asset]
      else if db_freeBase bal < quantity then [AboveFreeBase asset (db_freeBase bal) quantity] else [])"

definition floor_to_step :: "ParsedSymbolRules option \<Rightarrow> number \<Rightarrow> number" where
  "floor_to_step rules quantity =
     (case rules of None \<Rightarrow> quantity
      | Some r \<Rightarrow> let step = number_of_string (stepSize (lot r)) in
          if Fin 0 < step then math_floor (quantity / step) * step else quantity)"

definition sell_rule_blockers :: "ParsedSymbolRules option \<Rightarrow> string \<Rightarrow> number \<Rightarrow> number option \<Rightarrow> desk_blocker list" where
  "sell_rule_blockers rules asset quantity value =
     (case rules of None \<Rightarrow> []
      | Some r \<Rightarrow>
          (if quantity < number_of_string (minQty (lot r)) then [BelowMinQty (minQty (lot r)) asset] else []) @
          (case value of None \<Rightarrow> []
           | Some v \<Rightarrow> if Fin 0 < minNotional r \<and> v < minNotional r then [SaleBelowNotional (to_fixed v 2) (minNotional r)] else []))"

definition spread_warnings :: "book_ticker option \<Rightarrow> desk_warning list" where
  "spread_warnings book =
     (case spread_bps book of Some s \<Rightarrow> if Fin 15 < s then [WideSpread (to_fixed s 1)] else [] | None \<Rightarrow> [])"

definition alignment_read :: "order_side \<Rightarrow> TechnicalSnapshot \<Rightarrow> signal_alignment \<times> desk_warning list" where
  "alignment_read side tech =
     (if side = ExchangeAccess.BUY then
        let bearish = (case ts_context tech of None \<Rightarrow> None
              | Some ctx \<Rightarrow> if mc_available ctx \<and> al_score (mc_alignment ctx) \<le> Fin (-1/2)
                  then Some (HigherFramesBearish (al_bearish (mc_alignment ctx)) (al_total (mc_alignment ctx))) else None);
            high = (case Option.bind (ts_context tech) mc_longHorizon of None \<Rightarrow> []
              | Some lh \<Rightarrow> if Fin (-2) < lh_pctFromHigh52w lh then [NearYearHigh] else []) in
        (if ts_vote tech = VAvoid \<or> bearish \<noteq> None then AgainstSignal else if ts_vote tech = VBuy then WithSignal else NeutralSignal,
         (if ts_vote tech = VAvoid then [TechnicalAvoid (ts_reason tech)] else []) @ (case bearish of None \<Rightarrow> [] | Some w \<Rightarrow> [w]) @ high)
      else if ts_vote tech = VBuy then (AgainstSignal, [TechnicalStillBuy (ts_reason tech)])
      else (NeutralSignal, []))"

definition previewManualTrade :: "cex_env \<Rightarrow> user_id \<Rightarrow> ManualTradeRequest \<Rightarrow> cex_state \<Rightarrow> ManualPreflight \<times> cex_state" where
  "previewManualTrade env u req s =
     (let side = mr_side req; cs = om_connections (kx_oms s); connectionId = desk_connection u cs;
          baseAsset = baseFromCexSymbol (deskSymbol (mr_symbol req));
          bal = loadBalances env u connectionId baseAsset cs;
          q = nullish (mr_quoteOrderQty req) (Fin 0);
          rs = resolveCexTradeSymbol (mr_symbol req) (db_freeUsdt bal) (db_freeUsdc bal) side
                 (if side = ExchangeAccess.BUY then Some q else None);
          symbol = rs_symbol rs; rd = cex_readiness env u connectionId s; book = cex_book env symbol in
      case desk_rules env symbol s of (rules, s1) \<Rightarrow>
      case desk_tech env symbol s1 of (tech, s2) \<Rightarrow>
        let estPrice = map_option (if side = ExchangeAccess.BUY then bk_ask else bk_bid) book;
            shared = (if given connectionId = None then [NoTradeOnlyKey] else []) @
              (if \<not> kv_liveAutomation env then [LiveTradingDisabled] else []) @
              map ReadinessBlocker (blockers rd) @
              (case estPrice of None \<Rightarrow> [NoPriceFor symbol] | Some p \<Rightarrow> if p \<le> Fin 0 then [NoPriceFor symbol] else []);
            order = \<lparr>po_symbol = symbol, po_side = side, po_quoteOrderQty = None, po_quantity = None, po_estPrice = estPrice,
              po_estBaseQty = None, po_estQuoteValue = None, po_minNotional = map_option minNotional rules,
              po_stepSize = map_option (number_of_string \<circ> stepSize \<circ> lot) rules\<rparr>;
            read = alignment_read side tech in
        if side = ExchangeAccess.BUY then
          (\<lparr>pf_blockers = shared @ buy_blockers (kv_maxOrderUsdt env) bal rs rules q,
            pf_warnings = spread_warnings book @ snd read,
            pf_order = (if \<not> is_finite q \<or> q \<le> Fin 0 then order\<lparr>po_quoteOrderQty := Some q\<rparr>
              else order\<lparr>po_quoteOrderQty := Some q, po_estQuoteValue := Some q,
                po_estBaseQty := (case estPrice of Some p \<Rightarrow> if Fin 0 < p then Some (q / p) else None | None \<Rightarrow> None)\<rparr>),
            pf_alignment = fst read\<rparr>, s2)
        else
          let requested = requested_quantity bal req; quantity = floor_to_step rules requested;
              value = map_option (\<lambda>p. quantity * p) estPrice in
          (\<lparr>pf_blockers = shared @ sell_quantity_blockers bal baseAsset requested @ sell_rule_blockers rules baseAsset quantity value,
            pf_warnings = spread_warnings book @ snd read,
            pf_order = order\<lparr>po_quantity := Some quantity, po_estBaseQty := Some quantity, po_estQuoteValue := value\<rparr>,
            pf_alignment = fst read\<rparr>, s2))"

section \<open>Trade\<close>

datatype desk_note =
    LotStaysOn string string
  | AutoIsOff
  | ClosedTracked
  | ReducedTracked number string

record ManualTradeResult =
  tr_orderId :: string
  tr_side :: order_side
  tr_symbol :: string
  tr_pair :: string
  tr_filledQty :: number
  tr_quoteValue :: number
  tr_avgPrice :: "number option"
  tr_exitsAttached :: bool
  tr_note :: "desk_note option"

datatype desk_error = PreflightFailed desk_blocker | NoDeskConnection | DeskOrderFailed oms_error

definition desk_pair :: "string \<Rightarrow> string" where
  "desk_pair symbol = baseFromCexSymbol symbol @ (if ends_with ''USDC'' symbol then ''/USDC'' else ''/USDT'')"

definition desk_avg_price :: "order_row \<Rightarrow> number \<Rightarrow> number option \<Rightarrow> number option" where
  "desk_avg_price filled quoteValue estPrice =
     (let reported = nullish (or_avgFillPrice filled) (Fin 0) in
      if Fin 0 < reported then Some reported
      else if Fin 0 < or_filledQuantity filled then Some (quoteValue / or_filledQuantity filled) else estPrice)"

definition tracked_quantity :: "cex_row option \<Rightarrow> number" where
  "tracked_quantity row = nullish (Option.bind row cc_openBaseQty) (Fin 0)"

definition set_lot :: "cex_env \<Rightarrow> string \<Rightarrow> string \<Rightarrow> number \<Rightarrow> number \<Rightarrow> number \<Rightarrow> time \<Rightarrow> cex_row \<Rightarrow> cex_row" where
  "set_lot env symbol pair entry qty spent t r =
     r\<lparr>cc_openSymbol := Some symbol, cc_openPair := Some pair, cc_openEntryPrice := Some (kv_col8 env entry),
       cc_openBaseQty := Some (kv_col12 env qty), cc_openQuoteSpent := Some (kv_col8 env spent), cc_openedAt := Some t\<rparr>"

text \<open>A purchase stays beside a lot of another symbol, is added to a lot of the same symbol, or becomes the lot.\<close>

definition track_purchase ::
  "cex_env \<Rightarrow> user_id \<Rightarrow> string \<Rightarrow> string \<Rightarrow> number \<Rightarrow> number \<Rightarrow> number \<Rightarrow> cex_state \<Rightarrow> desk_note option \<times> cex_state" where
  "track_purchase env u symbol pair qty quoteValue price s =
     (let existing = find_row u s; prevSymbol = given (Option.bind existing cc_openSymbol); prevQty = tracked_quantity existing in
      if prevSymbol \<noteq> None \<and> prevSymbol \<noteq> Some symbol \<and> Fin 0 < prevQty
      then (Some (LotStaysOn (the prevSymbol) symbol), s)
      else if Option.bind existing cc_openSymbol = Some symbol \<and> Fin 0 < prevQty then
        let newQty = prevQty + qty;
            newCost = nullish (Option.bind existing cc_openQuoteSpent) (Fin 0) + quoteValue in
        (None, update_row env u (set_lot env symbol pair (newCost / newQty) newQty newCost
           (nullish (Option.bind existing cc_openedAt) (kv_now env))) s)
      else
        let f = set_lot env symbol pair price qty quoteValue (kv_now env) in
        (None, upsert_row env u (\<lambda>r. f (r\<lparr>cc_watchSymbol := symbol\<rparr>)) f s))"

text \<open>A sale closes the tracked lot of its symbol, or reduces it; the exit columns are left as they are.\<close>

definition untrack_lot :: "cex_row \<Rightarrow> cex_row" where
  "untrack_lot r = r\<lparr>cc_openSymbol := None, cc_openPair := None, cc_openEntryPrice := None, cc_openBaseQty := None,
     cc_openQuoteSpent := None, cc_openedAt := None\<rparr>"

definition track_sale :: "cex_env \<Rightarrow> user_id \<Rightarrow> string \<Rightarrow> number \<Rightarrow> cex_state \<Rightarrow> desk_note option \<times> cex_state" where
  "track_sale env u symbol qty s =
     (let existing = find_row u s; booked = tracked_quantity existing in
      if Option.bind existing cc_openSymbol = Some symbol \<and> Fin 0 < booked then
        let remaining = booked - qty in
        if remaining \<le> booked * lit (5/100) then (Some ClosedTracked, update_row env u untrack_lot s)
        else
          (Some (ReducedTracked remaining (baseFromCexSymbol symbol)),
           update_row env u (\<lambda>r. r\<lparr>cc_openBaseQty := Some (kv_col12 env remaining),
             cc_openQuoteSpent := Some (kv_col8 env
               (nullish (Option.bind existing cc_openQuoteSpent) (Fin 0) * (remaining / booked)))\<rparr>) s)
      else (None, s))"

definition desk_tracking ::
  "cex_env \<Rightarrow> user_id \<Rightarrow> ManualTradeRequest \<Rightarrow> order_side \<Rightarrow> string \<Rightarrow> number \<Rightarrow> number \<Rightarrow> number option \<Rightarrow> cex_state \<Rightarrow>
     (bool \<times> desk_note option) \<times> cex_state" where
  "desk_tracking env u req side symbol qty quoteValue avgPrice s =
     (if side = ExchangeAccess.BUY then
        (case avgPrice of
           Some price \<Rightarrow>
             if Fin 0 < qty \<and> Fin 0 < price then
               (case track_purchase env u symbol (desk_pair symbol) qty quoteValue price s of
                  (note, s1) \<Rightarrow>
                    let enabled = (case find_row u s of None \<Rightarrow> False | Some r \<Rightarrow> cc_enabled r) in
                    ((mr_attachExits req,
                      if mr_attachExits req \<and> \<not> enabled then Some (nullish note AutoIsOff) else note), s1))
             else ((False, None), s)
         | None \<Rightarrow> ((False, None), s))
      else if Fin 0 < qty then (case track_sale env u symbol qty s of (note, s1) \<Rightarrow> ((False, note), s1))
      else ((False, None), s))"

definition manual_input :: "user_id \<Rightarrow> string \<Rightarrow> preflight_order \<Rightarrow> CreateOrderInput" where
  "manual_input u connectionId ord =
     market_order u connectionId (po_symbol ord) (po_side ord)
       (if po_side ord = ExchangeAccess.BUY then nullish (po_quoteOrderQty ord) (Fin 0) else nullish (po_quantity ord) (Fin 0))
       (if po_side ord = ExchangeAccess.BUY then po_quoteOrderQty ord else None) (po_estPrice ord)"

definition executeManualTrade ::
  "cex_env \<Rightarrow> user_id \<Rightarrow> ManualTradeRequest \<Rightarrow> cex_state \<Rightarrow> (desk_error + ManualTradeResult) \<times> cex_state" where
  "executeManualTrade env u req s =
     (case previewManualTrade env u req s of (p, s1) \<Rightarrow>
      case pf_blockers p of b # _ \<Rightarrow> (Inl (PreflightFailed b), s1)
      | [] \<Rightarrow>
      case given (desk_connection u (om_connections (kx_oms s1))) of None \<Rightarrow> (Inl NoDeskConnection, s1)
      | Some connectionId \<Rightarrow>
        let ord = pf_order p; symbol = po_symbol ord; side = po_side ord in
        (case cex_place env (manual_input u connectionId ord) s1 of
           (Inl e, s2) \<Rightarrow> (Inl (DeskOrderFailed e), s2)
         | (Inr filled, s2) \<Rightarrow>
             let qty = or_filledQuantity filled;
                 quoteValue = number_or (or_quoteQuantity filled) (nullish (po_estQuoteValue ord) (Fin 0));
                 avgPrice = desk_avg_price filled quoteValue (po_estPrice ord) in
             (case desk_tracking env u req side symbol qty quoteValue avgPrice s2 of
                ((attached, note), s3) \<Rightarrow>
                  (Inr \<lparr>tr_orderId = or_id filled, tr_side = side, tr_symbol = symbol, tr_pair = desk_pair symbol, tr_filledQty = qty,
                     tr_quoteValue = quoteValue, tr_avgPrice = avgPrice, tr_exitsAttached = attached, tr_note = note\<rparr>,
                   add_log u (ManualTraded side symbol) s3))))"

section \<open>Desk view\<close>

record desk_depth =
  dp_bid :: "number option"
  dp_ask :: "number option"
  dp_mid :: "number option"

datatype desk_reason = ContextHeadline headline | HubRationale string | TechnicalSays "tech_note list" | BookImbalance string

datatype desk_caution =
    SpreadIsWide string
  | HubRisk string
  | HighVolatilityCaution
  | ChoppyCaution
  | YearDowntrendCaution
  | SpendableBelowMinimum string

datatype desk_action = DeskBuy | DeskSell | DeskWait

record desk_open_position =
  dop_symbol :: string
  dop_baseQty :: number
  dop_entryPrice :: number
  dop_pnlPct :: "number option"

record ManualDesk =
  md_resolved :: ResolvedCexSymbol
  md_baseAsset :: string
  md_connectionId :: "string option"
  md_readiness :: AutomationReadiness
  md_balances :: desk_balances
  md_book :: "book_ticker option"
  md_spreadBps :: "number option"
  md_rules :: "(number \<times> number \<times> number) option"
  md_maxOrderUsd :: number
  md_consensus :: hub_verdict
  md_confidence :: number
  md_technical :: TechnicalSnapshot
  md_imbalance :: "number option"
  md_change24hPct :: "number option"
  md_action :: desk_action
  md_sizeUsd :: number
  md_conviction :: number
  md_reasons :: "desk_reason list"
  md_cautions :: "desk_caution list"
  md_entryHint :: "number option"
  md_takeProfitHint :: "number option"
  md_stopLossHint :: "number option"
  md_openPosition :: "desk_open_position option"
  md_updatedAt :: time

text \<open>The ticker, or the best levels of the depth mirror.\<close>

definition desk_book :: "book_ticker option \<Rightarrow> desk_depth option \<Rightarrow> book_ticker option" where
  "desk_book raw depth =
     (case raw of Some b \<Rightarrow> Some b
      | None \<Rightarrow>
          (case depth of None \<Rightarrow> None
           | Some d \<Rightarrow>
               (case (dp_bid d, dp_ask d) of
                  (Some bid, Some ask) \<Rightarrow>
                    Some \<lparr>bk_bid = bid, bk_ask = ask, bk_mid = nullish (dp_mid d) ((bid + ask) / Fin 2)\<rparr>
                | _ \<Rightarrow> None)))"

definition desk_open :: "cex_row option \<Rightarrow> number option \<Rightarrow> desk_open_position option" where
  "desk_open row price =
     (case (given (Option.bind row cc_openSymbol), Option.bind row cc_openBaseQty, Option.bind row cc_openEntryPrice) of
        (Some symbol, Some qty, Some entry) \<Rightarrow>
          Some \<lparr>dop_symbol = symbol, dop_baseQty = qty, dop_entryPrice = entry,
            dop_pnlPct = (case price of Some m \<Rightarrow> if Fin 0 < entry then Some (pnl_pct entry m) else None | None \<Rightarrow> None)\<rparr>
      | _ \<Rightarrow> None)"

definition desk_conviction :: "number \<Rightarrow> number \<Rightarrow> vote \<Rightarrow> number" where
  "desk_conviction confidence score v =
     math_min (lit (95/100)) (math_max (Fin 0)
       (confidence * lit (3/5) + (score + Fin 1) / Fin 2 * Fin (1/4) + (if v = VBuy then lit (15/100) else Fin 0)))"

definition desk_choice :: "hub_verdict \<Rightarrow> vote \<Rightarrow> number \<Rightarrow> number \<Rightarrow> bool \<Rightarrow> desk_action" where
  "desk_choice consensus v conviction freeQuote opened =
     (if consensus = HubBuySignal \<and> v \<noteq> VAvoid \<and> Fin (1/2) \<le> conviction \<and> MIN_ORDER_USD \<le> freeQuote then DeskBuy
      else if opened \<and> (consensus = HubSellSignal \<or> v = VAvoid) then DeskSell
      else DeskWait)"

definition desk_size :: "number \<Rightarrow> number \<Rightarrow> number \<Rightarrow> number" where
  "desk_size freeQuote cap conviction =
     math_min cap (math_max (Fin 0) (math_floor (math_min (freeQuote * lit (95/100)) cap * conviction * Fin 100) / Fin 100))"

definition desk_reasons :: "SignalSnapshot option \<Rightarrow> TechnicalSnapshot \<Rightarrow> number option \<Rightarrow> desk_reason list" where
  "desk_reasons snapshot tech imbalance =
     (case ts_context tech of Some ctx \<Rightarrow> if mc_available ctx then [ContextHeadline (mc_headline ctx)] else [] | None \<Rightarrow> []) @
     (case given (Option.bind snapshot sn_rationale) of Some r \<Rightarrow> [HubRationale r] | None \<Rightarrow> []) @
     [TechnicalSays (ts_reason tech)] @
     (case imbalance of Some i \<Rightarrow> [BookImbalance (to_fixed i 2)] | None \<Rightarrow> [])"

definition desk_cautions :: "number option \<Rightarrow> SignalSnapshot option \<Rightarrow> MarketContext option \<Rightarrow> number \<Rightarrow> desk_caution list" where
  "desk_cautions spread snapshot ctx freeQuote =
     (case spread of Some b \<Rightarrow> if Fin 15 < b then [SpreadIsWide (to_fixed b 1)] else [] | None \<Rightarrow> []) @
     (case given (Option.bind snapshot sn_riskNote) of Some r \<Rightarrow> [HubRisk r] | None \<Rightarrow> []) @
     (if map_option mc_regime ctx = Some HighVolatility then [HighVolatilityCaution] else []) @
     (if map_option mc_regime ctx = Some Choppy then [ChoppyCaution] else []) @
     (if map_option lh_trend (Option.bind ctx mc_longHorizon) = Some Bear then [YearDowntrendCaution] else []) @
     (if freeQuote < MIN_ORDER_USD then [SpendableBelowMinimum (to_fixed freeQuote 2)] else [])"

definition getManualDesk :: "cex_env \<Rightarrow> (string \<Rightarrow> desk_depth option) \<Rightarrow> user_id \<Rightarrow> string \<Rightarrow> cex_state \<Rightarrow> ManualDesk \<times> cex_state" where
  "getManualDesk env getDepth u rawSymbol s =
     (let cs = om_connections (kx_oms s); connectionId = desk_connection u cs;
          baseAsset = baseFromCexSymbol (deskSymbol rawSymbol);
          bal = loadBalances env u connectionId baseAsset cs;
          rs = resolveCexTradeSymbol rawSymbol (db_freeUsdt bal) (db_freeUsdc bal) ExchangeAccess.BUY None;
          symbol = rs_symbol rs; rd = cex_readiness env u connectionId s;
          snapshot = ce_snapshot (kv_council env) symbol; row = find_row u s in
      case desk_rules env symbol s of (rules, s1) \<Rightarrow>
      case desk_tech env symbol s1 of (tech, s2) \<Rightarrow>
      case cex_exits env u s2 of (exits, s3) \<Rightarrow>
        let book = desk_book (cex_book env symbol) (getDepth symbol);
            price = (case book of Some b \<Rightarrow> Some (bk_mid b) | None \<Rightarrow> Option.bind snapshot sn_lastPrice);
            spread = spread_bps book; consensus = hub_signal snapshot; confidence = hub_confidence snapshot;
            imbalance = ce_obi (kv_council env) symbol; opened = desk_open row price;
            score = (case ts_context tech of Some ctx \<Rightarrow> al_score (mc_alignment ctx) | None \<Rightarrow> Fin 0);
            conviction = desk_conviction confidence score (ts_vote tech);
            action = desk_choice consensus (ts_vote tech) conviction (db_freeQuoteUsd bal) (opened \<noteq> None) in
        (\<lparr>md_resolved = rs, md_baseAsset = baseAsset, md_connectionId = connectionId, md_readiness = rd, md_balances = bal,
          md_book = book, md_spreadBps = spread,
          md_rules = map_option (\<lambda>r. (number_of_string (minQty (lot r)), number_of_string (stepSize (lot r)), minNotional r)) rules,
          md_maxOrderUsd = kv_maxOrderUsdt env, md_consensus = consensus, md_confidence = confidence, md_technical = tech,
          md_imbalance = imbalance, md_change24hPct = Option.bind snapshot sn_change24hPct, md_action = action,
          md_sizeUsd = (if action = DeskBuy
            then math_max (Fin 0) (desk_size (db_freeQuoteUsd bal) (kv_maxOrderUsdt env) conviction) else Fin 0),
          md_conviction = conviction, md_reasons = desk_reasons snapshot tech imbalance,
          md_cautions = desk_cautions spread snapshot (ts_context tech) (db_freeQuoteUsd bal), md_entryHint = price,
          md_takeProfitHint = map_option (\<lambda>m. m * (Fin 1 + xs_takeProfitPct exits / Fin 100)) price,
          md_stopLossHint = map_option (\<lambda>m. m * (Fin 1 - xs_stopLossPct exits / Fin 100)) price,
          md_openPosition = opened, md_updatedAt = kv_now env\<rparr>, s3))"

section \<open>Open position of the dashboard\<close>

record CexLot =
  lx_symbol :: string
  lx_pair :: string
  lx_baseQty :: number
  lx_entryPrice :: number
  lx_quoteSpent :: number
  lx_openedAt :: time
  lx_skimmedUsd :: number

record position_snapshot =
  os_symbol :: string
  os_quantity :: number
  os_avgEntryPrice :: number
  os_markPrice :: "number option"
  os_marketValueUsd :: number
  os_costBasisUsd :: number
  os_unrealizedPnlUsd :: number
  os_unrealizedPnlPct :: "number option"
  os_updatedAt :: time
  os_pair :: string
  os_skimmedUsd :: "number option"

definition POSITION_BASES :: "string list" where
  "POSITION_BASES = [''BTC'', ''ETH'', ''BNB'', ''SOL'', ''XRP'']"

definition getBookedLot :: "user_id \<Rightarrow> cex_state \<Rightarrow> CexLot option" where
  "getBookedLot u s =
     (case find_row u s of None \<Rightarrow> None
      | Some r \<Rightarrow>
          (case (given (cc_openSymbol r), cc_openBaseQty r, cc_openEntryPrice r) of
             (Some symbol, Some qty, Some entry) \<Rightarrow>
               if \<not> Fin 0 < qty \<or> \<not> Fin 0 < entry then None
               else Some \<lparr>lx_symbol = symbol, lx_pair = nullish (cc_openPair r) (desk_pair symbol), lx_baseQty = qty,
                 lx_entryPrice = entry, lx_quoteSpent = nullish (cc_openQuoteSpent r) (qty * entry),
                 lx_openedAt = nullish (cc_openedAt r) (cc_updatedAt r),
                 lx_skimmedUsd = math_max (Fin 0) (nullish (cc_openSkimmedUsd r) (Fin 0))\<rparr>
           | _ \<Rightarrow> None))"

text \<open>Filled purchases, the last closed first; the database puts rows without a closing time before all others.\<close>

definition latest_closed :: "order_row list \<Rightarrow> order_row list" where
  "latest_closed rows =
     filter (\<lambda>r. or_closedAt r = None) rows @ order_desc (\<lambda>r. nullish (or_closedAt r) 0) (filter (\<lambda>r. or_closedAt r \<noteq> None) rows)"

definition last_filled_buy :: "user_id \<Rightarrow> string \<Rightarrow> string \<Rightarrow> order_row list \<Rightarrow> order_row option" where
  "last_filled_buy u connId base orders =
     find_first (\<lambda>r. or_user r = u \<and> or_connection r = connId \<and> or_side r = ExchangeAccess.BUY \<and> or_status r = FILLED \<and>
       or_symbol r \<in> {base @ ''USDT'', base @ ''USDC''} \<and> Fin 0 < or_filledQuantity r) latest_closed orders"

definition base_lot :: "cex_env \<Rightarrow> (order_row \<Rightarrow> time) \<Rightarrow> user_id \<Rightarrow> string \<Rightarrow> order_row list \<Rightarrow> adapter_balance list \<Rightarrow> string \<Rightarrow> CexLot option" where
  "base_lot env createdAt u connId orders balances base =
     (let qty = freeAsset balances base in
      if \<not> Fin 0 < qty then None
      else case last_filled_buy u connId base orders of None \<Rightarrow> None
      | Some o1 \<Rightarrow>
          let entry = nullish (or_avgFillPrice o1) (Fin 0) in
          if \<not> Fin 0 < entry then None
          else
            let mark = nullish (bid_or_mid (cex_book env (or_symbol o1))) entry in
            if qty * mark < Fin 1 then None
            else Some \<lparr>lx_symbol = or_symbol o1, lx_pair = desk_pair (or_symbol o1), lx_baseQty = qty, lx_entryPrice = entry,
              lx_quoteSpent = number_or (or_quoteQuantity o1) (qty * entry),
              lx_openedAt = nullish (or_closedAt o1) (createdAt o1), lx_skimmedUsd = Fin 0\<rparr>)"

fun first_lot :: "(string \<Rightarrow> CexLot option) \<Rightarrow> string list \<Rightarrow> CexLot option" where
  "first_lot f [] = None"
| "first_lot f (b # bs) = (case f b of Some l \<Rightarrow> Some l | None \<Rightarrow> first_lot f bs)"

definition inferLotFromWallet :: "cex_env \<Rightarrow> (order_row \<Rightarrow> time) \<Rightarrow> user_id \<Rightarrow> cex_state \<Rightarrow> CexLot option" where
  "inferLotFromWallet env createdAt u s =
     (case trade_only_connection u (om_connections (kx_oms s)) of None \<Rightarrow> None
      | Some conn \<Rightarrow>
          (case spot_getBalances (ce_spot (kv_council env)) conn of Inl _ \<Rightarrow> None
           | Inr balances \<Rightarrow> first_lot (base_lot env createdAt u (cn_id conn) (om_orders (kx_oms s)) balances) POSITION_BASES))"

definition positionKey :: "string \<Rightarrow> string \<Rightarrow> string" where
  "positionKey symbol book = to_upper symbol @ ''::'' @ book"

definition lot_snapshot :: "CexLot \<Rightarrow> number option \<Rightarrow> position_snapshot" where
  "lot_snapshot l mark =
     (let costBasis = (if Fin 0 < lx_quoteSpent l then lx_quoteSpent l else lx_baseQty l * lx_entryPrice l);
          marketValue = (case mark of Some m \<Rightarrow> lx_baseQty l * m | None \<Rightarrow> costBasis);
          unrealized = marketValue - costBasis in
      \<lparr>os_symbol = baseFromCexSymbol (lx_symbol l), os_quantity = lx_baseQty l, os_avgEntryPrice = lx_entryPrice l,
       os_markPrice = mark, os_marketValueUsd = marketValue, os_costBasisUsd = costBasis, os_unrealizedPnlUsd = unrealized,
       os_unrealizedPnlPct = (if Fin 0 < costBasis then Some (unrealized / costBasis * Fin 100) else None),
       os_updatedAt = lx_openedAt l, os_pair = lx_pair l,
       os_skimmedUsd = (if Fin 0 < lx_skimmedUsd l then Some (lx_skimmedUsd l) else None)\<rparr>)"

text \<open>The positions already booked are pairs of symbol and strategy book.\<close>

definition buildAutoBinanceOpenPositions ::
  "cex_env \<Rightarrow> (order_row \<Rightarrow> time) \<Rightarrow> user_id \<Rightarrow> (string \<times> string option) list \<Rightarrow> cex_state \<Rightarrow> position_snapshot list" where
  "buildAutoBinanceOpenPositions env createdAt u existing s =
     (let taken = map (\<lambda>(symbol, book). positionKey symbol (nullish book [])) existing in
      case (case getBookedLot u s of Some l \<Rightarrow> Some l | None \<Rightarrow> inferLotFromWallet env createdAt u s) of None \<Rightarrow> []
      | Some l \<Rightarrow>
          let base = baseFromCexSymbol (lx_symbol l) in
          if positionKey base ''Binance'' \<in> set taken \<or> positionKey base ''Auto Binance'' \<in> set taken \<or>
             positionKey base ''CEX Binance Spot'' \<in> set taken then []
          else [lot_snapshot l (bid_or_mid (cex_book env (lx_symbol l)))])"

end
