(* ===== verification/CexSafety.thy ===== *)
theory CexSafety
  imports CexDesk
begin

text \<open>
  What the Binance Super Machine guarantees: at most one order per tick and its grounds, and the slice of a skim.
\<close>

section \<open>Writes\<close>

named_theorems cex_writes

lemma write_rows [cex_writes]:
  "kx_sent (update_row env u f s) = kx_sent s" "kx_oms (update_row env u f s) = kx_oms s"
  "kx_sent (add_log u l s) = kx_sent s" "kx_oms (add_log u l s) = kx_oms s" "kx_rows (add_log u l s) = kx_rows s"
  "kx_sent (persist_peak env u exits opn mark s) = kx_sent s" "kx_oms (persist_peak env u exits opn mark s) = kx_oms s"
  "kx_sent (upsert_row env u c f s) = kx_sent s" "kx_oms (upsert_row env u c f s) = kx_oms s"
  "kx_exits (update_row env u f s) = kx_exits s" "kx_exits (add_log u l s) = kx_exits s"
  by (simp_all add: update_row_def add_log_def persist_peak_def upsert_row_def split: option.split)

lemma placed:
  assumes "cex_place env input s = (r, s')"
  shows "kx_sent s' = kx_sent s @ [(input, r)]" "placeOrder (kv_oms env) input (kx_oms s) = (r, kx_oms s')"
    "kx_rows s' = kx_rows s"
  using assms by (auto simp: cex_place_def split: prod.splits)

lemma exits_read:
  assumes "cex_exits env u s = (exits, s')"
  shows "kx_sent s' = kx_sent s" "kx_oms s' = kx_oms s" "kx_rows s' = kx_rows s" "kx_skims s' = kx_skims s"
  using assms by (auto simp: cex_exits_def split: prod.splits)

lemma exits_fst: "kx_exits s = kx_exits t \<Longrightarrow> fst (cex_exits env u s) = fst (cex_exits env u t)"
  by (simp add: cex_exits_def split: prod.split)

section \<open>Grounds of an exit\<close>

definition exit_grounds :: "exit_settings \<Rightarrow> CexOpenLong \<Rightarrow> number \<Rightarrow> exit_kind \<Rightarrow> bool" where
  "exit_grounds exits opn mark kind \<longleftrightarrow> xs_enabled exits \<and>
     (case kind of
        TakeProfit \<Rightarrow> eff_takeProfit exits opn \<le> pnl_pct (ol_entryPrice opn) mark
      | ProfitSkim \<Rightarrow> eff_takeProfit exits opn \<le> pnl_pct (ol_entryPrice opn) mark \<and> xs_profitSkim exits
      | StopLoss \<Rightarrow> pnl_pct (ol_entryPrice opn) mark \<le> - eff_stopLoss exits opn
      | TrailingStop \<Rightarrow> eff_trailing exits opn \<and> cex_trail_armed exits opn mark \<and> mark \<le> cex_trail_floor exits opn mark \<and>
          Fin 0 < pnl_pct (ol_entryPrice opn) mark)"

lemma choose_exit_grounds:
  assumes "choose_exit exits opn mark free cooled = Some kind"
  shows "exit_grounds exits opn mark kind"
    "kind = ProfitSkim \<Longrightarrow> sl_blockedReason (computeCexSkimSlice opn mark (Some free)) = None"
  using assms by (auto simp: choose_exit_def exit_grounds_def Let_def split: if_splits)

lemma opened_lot:
  assumes "toOpenLong row = Some opn"
  shows "Fin 0 < ol_baseQty opn" "Fin 0 < ol_entryPrice opn"
  using assms by (auto simp: toOpenLong_def split: option.splits prod.splits if_splits)

text \<open>The slice of a skim: in profit, above the smallest order, at most half the lot, within the free balance.\<close>

lemma free_slice:
  assumes "sl_blockedReason (computeCexSkimSlice opn mark fb) = None"
  shows "sl_skimQty (computeCexSkimSlice opn mark fb) = cex_skim_quantity opn mark fb"
    "\<not> cex_skim_quantity opn mark fb \<le> Fin 0" "\<not> ol_baseQty opn * lit (9/10) \<le> cex_skim_quantity opn mark fb"
    "\<not> sl_pnlPct (computeCexSkimSlice opn mark fb) \<le> lit (5/100)"
    "sl_skimNotionalUsd (computeCexSkimSlice opn mark fb) = cex_skim_quantity opn mark fb * mark"
    "\<not> cex_skim_quantity opn mark fb * mark < CEX_MIN_SELL_NOTIONAL_USD"
  using assms by (auto simp: computeCexSkimSlice_def Let_def split: if_splits)

lemma math_min_not_NaN: "math_min a b \<noteq> NaN \<longleftrightarrow> a \<noteq> NaN \<and> b \<noteq> NaN"
  by (auto simp: math_min_def)

lemma skim_quantity_caps:
  assumes "cex_skim_quantity opn mark fb \<noteq> NaN"
  shows "cex_skim_quantity opn mark fb \<le> ol_baseQty opn * Fin (1/2)"
    "fb = Some f \<Longrightarrow> Fin 0 < f \<Longrightarrow> cex_skim_quantity opn mark fb \<le> f * lit (98/100)"
proof -
  define q where "q = math_min (ol_baseQty opn * Fin (1/2))
    (ol_quoteSpent opn * ((if Fin 0 < ol_entryPrice opn then pnl_pct (ol_entryPrice opn) mark else Fin 0) / Fin 100) / mark)"
  have e: "cex_skim_quantity opn mark fb = (case fb of Some f \<Rightarrow> if Fin 0 < f then math_min q (f * lit (98/100)) else q | None \<Rightarrow> q)"
    by (simp only: cex_skim_quantity_def q_def Let_def)
  have q: "q \<noteq> NaN" using assms by (auto simp: e math_min_not_NaN split: option.splits if_splits)
  then have h: "q \<le> ol_baseQty opn * Fin (1/2)"
    using math_min_le unfolding q_def by (metis math_min_not_NaN)
  show "cex_skim_quantity opn mark fb \<le> ol_baseQty opn * Fin (1/2)"
    using assms h by (auto simp: e math_min_not_NaN split: option.splits if_splits
        intro: number_le_trans [OF conjunct1 [OF math_min_le]])
  show "cex_skim_quantity opn mark fb \<le> f * lit (98/100)" if "fb = Some f" "Fin 0 < f"
    using assms that math_min_le [of q "f * lit (98/100)"] unfolding e by (auto simp only: option.case if_True math_min_not_NaN)
qed

lemma pos_times_nonneg: "0 < c \<Longrightarrow> Fin 0 \<le> a \<Longrightarrow> Fin 0 \<le> Fin c * a"
  using fl_nonneg by (cases a) (auto simp: inf_sign_def)

lemma nonneg_div: "Fin 0 \<le> a \<Longrightarrow> 0 < c \<Longrightarrow> Fin 0 \<le> a / Fin c"
  using fl_nonneg by (cases a) (auto simp: inf_sign_def)

lemma nonneg_fraction: "Fin 0 < a \<Longrightarrow> Fin 0 \<le> a * Fin (1/2)" "Fin 0 < a \<Longrightarrow> Fin 0 \<le> a * lit (98/100)"
proof -
  have "is_finite (lit (98/100)) \<and> Fin 0 < lit (98/100)" by code_simp
  then obtain c where c: "lit (98/100) = Fin c" "0 < c" by (cases "lit (98/100)") auto
  show "Fin 0 \<le> a * Fin (1/2)" if "Fin 0 < a"
    using pos_times_nonneg [of "1/2" a] that by (simp add: number_mult_commute number_less_imp_le)
  show "Fin 0 \<le> a * lit (98/100)" if "Fin 0 < a"
    using pos_times_nonneg [OF c(2), of a] that unfolding c(1) by (simp add: number_mult_commute number_less_imp_le)
qed

lemma scaled_number: "a \<noteq> NaN \<Longrightarrow> 0 < c \<Longrightarrow> a / Fin c \<noteq> NaN" "a \<noteq> NaN \<Longrightarrow> 0 < c \<Longrightarrow> a * Fin c \<noteq> NaN"
  by (cases a; simp add: inf_sign_def)+

lemma pnl_pct_not_NaN: "0 < e \<Longrightarrow> pnl_pct (Fin e) (Fin m) \<noteq> NaN"
  unfolding pnl_pct_def by (intro scaled_number) (simp_all add: minus_number_def)

lemma skim_quantity_number:
  assumes "ol_quoteSpent opn = Fin a" "0 < a" "0 < m" "lit (5/100) < pnl_pct (ol_entryPrice opn) (Fin m)" "Fin 0 < ol_entryPrice opn"
    "Fin 0 < ol_baseQty opn"
  shows "cex_skim_quantity opn (Fin m) fb \<noteq> NaN"
proof -
  have "Fin 0 \<le> lit (5/100)" by code_simp
  then have "Fin 0 \<le> pnl_pct (ol_entryPrice opn) (Fin m)"
    using assms(4) by (meson number_le_trans number_less_imp_le)
  then have "Fin 0 \<le> ol_quoteSpent opn * (pnl_pct (ol_entryPrice opn) (Fin m) / Fin 100) / Fin m"
    using assms(1-3) by (simp add: nonneg_div pos_times_nonneg)
  then show ?thesis using assms(5,6) nonneg_fraction
    by (auto simp: cex_skim_quantity_def math_min_not_NaN Let_def split: option.split dest: number_le_not_NaN)
qed

section \<open>Orders of a tick\<close>

definition tick_sale :: "cex_env \<Rightarrow> cex_row \<Rightarrow> adapter_balance list \<Rightarrow> exit_settings \<Rightarrow> CreateOrderInput \<Rightarrow> bool" where
  "tick_sale env row balances exits input \<longleftrightarrow>
     (\<exists>opn mark kind. toOpenLong (Some row) = Some opn \<and> bid_or_mid (cex_book env (ol_symbol opn)) = Some mark \<and>
        exit_grounds exits opn mark kind \<and> in_side input = ExchangeAccess.SELL \<and> in_symbol input = ol_symbol opn \<and>
        (let free = freeAsset balances (drop_suffix ''USDT'' (ol_symbol opn)); slice = computeCexSkimSlice opn mark (Some free) in
         if kind = ProfitSkim then sl_blockedReason slice = None \<and> in_quantity input = sl_skimQty slice
         else in_quantity input = math_min (ol_baseQty opn) free))"

definition no_lot_held :: "cex_row \<Rightarrow> adapter_balance list \<Rightarrow> bool" where
  "no_lot_held row balances \<longleftrightarrow>
     (case toOpenLong (Some row) of None \<Rightarrow> True
      | Some opn \<Rightarrow> freeAsset balances (drop_suffix ''USDT'' (ol_symbol opn)) < ol_baseQty opn * GHOST_LOT_FRACTION)"

definition tick_purchase :: "cex_env \<Rightarrow> cex_row \<Rightarrow> adapter_balance list \<Rightarrow> CreateOrderInput \<Rightarrow> bool" where
  "tick_purchase env row balances input \<longleftrightarrow>
     in_side input = ExchangeAccess.BUY \<and> in_symbol input = cc_watchSymbol row \<and> in_quoteOrderQty input = Some (in_quantity input) \<and>
     Fin 5 \<le> in_quantity input \<and> in_quantity input \<le> cc_maxTradeUsd row \<and> no_lot_held row balances \<and>
     BUY_COOLDOWN_MS \<le> kv_now env - nullish (cc_lastBuyAt row) 0"

lemma council_size_bounds:
  assumes "cexCouncilEvaluate env u settings free st = (d, st')" "cd_action d = CouncilBuy"
  shows "Fin 5 \<le> cd_orderSizeUsd d" "cd_orderSizeUsd d \<le> cs_maxTradeUsd settings" "\<not> cs_hasOpenLong settings"
proof -
  have e: "cd_orderSizeUsd d = council_size (cs_maxTradeUsd settings) free" "decide_action settings free (cd_votes d) = CouncilBuy"
    using evaluated [OF assms(1)] assms(2) by auto
  note b = decide_buy [OF e(2)]
  show "Fin 5 \<le> cd_orderSizeUsd d" "\<not> cs_hasOpenLong settings" using b e by auto
  show "cd_orderSizeUsd d \<le> cs_maxTradeUsd settings" using b(2) e(1) council_size_le number_le_not_NaN by auto
qed

lemma tick_order_sent:
  "\<exists>r. kx_sent (tick_skim env u connId opn mark free s) =
     kx_sent s @ [(market_order u connId (ol_symbol opn) ExchangeAccess.SELL
       (sl_skimQty (computeCexSkimSlice opn mark (Some free))) None (Some mark), r)]"
  "\<exists>r. kx_sent (tick_close env u connId opn mark free kind s) =
     kx_sent s @ [(market_order u connId (ol_symbol opn) ExchangeAccess.SELL (math_min (ol_baseQty opn) free) None (Some mark), r)]"
  "\<exists>r. kx_sent (tick_buy env u connId symbol q px s) =
     kx_sent s @ [(market_order u connId symbol ExchangeAccess.BUY q (Some q) (Some px), r)]"
  by (auto simp: tick_skim_def tick_close_def tick_buy_def Let_def cex_writes split: prod.split sum.split dest!: placed(1))

lemma manage_lot_sent:
  assumes "manage_lot env u connId opn mark free s = (res, s')"
  obtains (kept) "res = Some (Some opn)" "kx_sent s' = kx_sent s"
  | (sold) kind q r where "exit_grounds (fst (cex_exits env u s)) opn mark kind"
      "if kind = ProfitSkim then sl_blockedReason (computeCexSkimSlice opn mark (Some free)) = None \<and>
         q = sl_skimQty (computeCexSkimSlice opn mark (Some free)) else q = math_min (ol_baseQty opn) free"
      "kx_sent s' = kx_sent s @ [(market_order u connId (ol_symbol opn) ExchangeAccess.SELL q None (Some mark), r)]" "res = None"
proof -
  obtain exits s1 where e: "cex_exits env u s = (exits, s1)" by (cases "cex_exits env u s")
  define cooled where "cooled \<longleftrightarrow> CEX_SKIM_COOLDOWN_MS \<le> kv_now env - nullish (kx_skims s1 u) 0"
  define s2 where "s2 = persist_peak env u exits opn mark s1"
  have sent: "kx_sent s2 = kx_sent s" using exits_read(1) [OF e] by (simp add: s2_def cex_writes)
  have x: "fst (cex_exits env u s) = exits" by (simp add: e)
  have m: "(res, s') = (case choose_exit exits opn mark free cooled of None \<Rightarrow> (Some (Some opn), s2)
      | Some ProfitSkim \<Rightarrow> (None, tick_skim env u connId opn mark free s2)
      | Some kind \<Rightarrow> (None, tick_close env u connId opn mark free kind s2))"
    using assms unfolding manage_lot_def cooled_def s2_def by (simp add: e Let_def)
  show thesis
  proof (cases "choose_exit exits opn mark free cooled")
    case None
    then show thesis using m sent by (intro kept) auto
  next
    case (Some kind)
    note g = choose_exit_grounds [OF Some]
    show thesis
    proof (cases "kind = ProfitSkim")
      case True
      then show thesis using m sent g Some tick_order_sent(1) [of env u connId opn mark free s2]
        by (auto intro: sold [unfolded x, OF g(1)])
    next
      case False
      then have "res = None" "s' = tick_close env u connId opn mark free kind s2" using m Some by (cases kind; simp)+
      then show thesis using sent False tick_order_sent(2) [of env u connId opn mark free kind s2]
        by (auto intro: sold [unfolded x, OF g(1)])
    qed
  qed
qed

lemma tick_position_sent:
  assumes "tick_position env (cc_user row) connId balances (toOpenLong (Some row)) s = (res, s')"
  obtains (kept) opened where "res = Some opened" "kx_sent s' = kx_sent s" "opened = None \<Longrightarrow> no_lot_held row balances"
  | (sold) input r where "tick_sale env row balances (fst (cex_exits env (cc_user row) s)) input" "kx_sent s' = kx_sent s @ [(input, r)]" "res = None"
      "in_userId input = cc_user row" "in_connectionId input = connId" "in_type input = MARKET"
proof (cases "toOpenLong (Some row)")
  case None
  then show thesis using assms by (intro kept [of None]) (auto simp: tick_position_def no_lot_held_def)
next
  case (Some opn)
  define free where "free = freeAsset balances (drop_suffix ''USDT'' (ol_symbol opn))"
  have p: "(if free < ol_baseQty opn * GHOST_LOT_FRACTION
      then (Some None, add_log (cc_user row) (ClearedStaleLot (ol_pair opn)) (update_row env (cc_user row) clear_open_lot s))
      else (case bid_or_mid (cex_book env (ol_symbol opn)) of
              Some mark \<Rightarrow> if Fin 0 < ol_entryPrice opn then manage_lot env (cc_user row) connId opn mark free s else (Some (Some opn), s)
            | None \<Rightarrow> (Some (Some opn), s))) = (res, s')"
    using assms unfolding tick_position_def free_def Some by (simp add: Let_def)
  show thesis
  proof (cases "free < ol_baseQty opn * GHOST_LOT_FRACTION")
    case True
    then show thesis using p Some by (intro kept [of None]) (auto simp: cex_writes no_lot_held_def free_def)
  next
    case False
    show thesis
    proof (cases "bid_or_mid (cex_book env (ol_symbol opn))")
      case None
      then show thesis using p False by (intro kept [of "Some opn"]) auto
    next
      case (Some mark)
      then have "manage_lot env (cc_user row) connId opn mark free s = (res, s')"
        using p False opened_lot(2) [OF \<open>toOpenLong (Some row) = Some opn\<close>] by simp
      then show thesis
      proof (cases rule: manage_lot_sent)
        case kept
        then show thesis by (intro that(1) [of "Some opn"]) auto
      next
        case (sold kind q r)
        then show thesis using Some \<open>toOpenLong (Some row) = Some opn\<close>
          by (intro that(2) [of _ r]) (auto simp: tick_sale_def market_order_def free_def Let_def split: if_splits)
      qed
    qed
  qed
qed

lemma tick_council_sent:
  fixes env connId free opened row balances and s :: cex_state
  assumes "opened = None \<Longrightarrow> no_lot_held row balances"
  defines "s' \<equiv> tick_council env row connId free opened s"
  shows "kx_sent s' = kx_sent s \<or> (\<exists>input r. kx_sent s' = kx_sent s @ [(input, r)] \<and> tick_purchase env row balances input \<and>
    in_userId input = cc_user row \<and> in_connectionId input = connId \<and> in_type input = MARKET)"
proof -
  define st where "st = \<lparr>cs_maxTradeUsd = cc_maxTradeUsd row, cs_watchSymbol = cc_watchSymbol row, cs_hasOpenLong = (opened \<noteq> None)\<rparr>"
  obtain d council where e: "cexCouncilEvaluate (kv_council env) (cc_user row) st free (kx_council s) = (d, council)"
    by (cases "cexCouncilEvaluate (kv_council env) (cc_user row) st free (kx_council s)")
  note t = tick_council_def [of env row connId free opened s, unfolded Let_def, folded st_def, unfolded e prod.case]
  show ?thesis
  proof (cases "cd_action d = CouncilBuy \<and> opened = None \<and> BUY_COOLDOWN_MS \<le> kv_now env - nullish (cc_lastBuyAt row) 0")
    case False
    then show ?thesis by (auto simp: s'_def t split: option.split)
  next
    case True
    define s1 where "s1 = s\<lparr>kx_council := council\<rparr>"
    have "s' = s1 \<or> (\<exists>px. s' = tick_buy env (cc_user row) connId (cc_watchSymbol row) (cd_orderSizeUsd d) px s1)"
      unfolding s'_def t s1_def by (simp split: option.split) blast
    then consider "s' = s1" | px where "s' = tick_buy env (cc_user row) connId (cc_watchSymbol row) (cd_orderSizeUsd d) px s1"
      by blast
    then show ?thesis
    proof cases
      case 2
      obtain r where r: "kx_sent s' = kx_sent s @ [(market_order (cc_user row) connId (cc_watchSymbol row) ExchangeAccess.BUY
          (cd_orderSizeUsd d) (Some (cd_orderSizeUsd d)) (Some px), r)]"
        using tick_order_sent(3) [of env "cc_user row" connId "cc_watchSymbol row" "cd_orderSizeUsd d" px s1] 2
        by (auto simp: s1_def)
      have "tick_purchase env row balances (market_order (cc_user row) connId (cc_watchSymbol row) ExchangeAccess.BUY
          (cd_orderSizeUsd d) (Some (cd_orderSizeUsd d)) (Some px))"
        using council_size_bounds [OF e] True assms(1) by (simp add: tick_purchase_def market_order_def st_def)
      then show ?thesis unfolding r by (fastforce simp: market_order_def)
    qed (simp add: s1_def)
  qed
qed

lemma resolved_connection:
  assumes "resolveConnectionId u preferred cs = Some i"
  shows "\<exists>c \<in> set cs. cn_id c = i \<and> cn_user c = u \<and> cn_active c \<and> cn_canTrade c \<and> \<not> cn_canWithdraw c"
  using assms by (auto simp: resolveConnectionId_def trade_only_connection_def bind_eq_Some_conv split: option.splits dest!: find_first_Some)

text \<open>C4: A tick of the Super Machine sends at most one order. When it sends one, the machine is enabled and not in
  emergency stop, live trading is on and the automation is ready, the connection is the user's own, active, allowed to
  trade and not to withdraw, and the order is a market order which is either the sale of the open lot on the grounds of the
  exit settings this tick reads for the user (its quantity is the booked lot or the free balance, whichever is less, or a
  slice the skim allows), or a purchase of the watched symbol for at least five dollars and at most the configured size,
  after the cooldown and with no lot held: no lot is booked, or the free balance of its coin is below a twentieth of it.
  The free balance, here and in the sale, is the one the exchange reports in this tick for that very connection.\<close>

theorem tick_order_grounds:
  assumes "tickUser env row s = (res, s')"
  shows "kx_sent s' = kx_sent s \<or>
    (\<exists>input r conn balances. kx_sent s' = kx_sent s @ [(input, r)] \<and>
       cc_enabled row \<and> \<not> cc_emergencyStop row \<and> kv_liveAutomation env \<and>
       (\<exists>c \<in> set (om_connections (kx_oms s)). cn_id c = in_connectionId input \<and> cn_user c = cc_user row \<and> cn_active c \<and>
          cn_canTrade c \<and> \<not> cn_canWithdraw c) \<and>
       ready (cex_readiness env (cc_user row) (Some (in_connectionId input)) s) \<and>
       in_userId input = cc_user row \<and> in_type input = MARKET \<and>
       own_connection (cc_user row) (in_connectionId input) (om_connections (kx_oms s)) = Some conn \<and>
       spot_getBalances (ce_spot (kv_council env)) conn = Inr balances \<and>
       (tick_sale env row balances (fst (cex_exits env (cc_user row) s)) input \<or> tick_purchase env row balances input))"
proof (cases "kx_sent s' = kx_sent s")
  case False
  define cs where "cs = om_connections (kx_oms s)"
  have on: "cc_enabled row" "\<not> cc_emergencyStop row" "kv_liveAutomation env"
  proof -
    have "\<not> (\<not> cc_enabled row \<or> cc_emergencyStop row \<or> \<not> kv_liveAutomation env)"
    proof
      assume "\<not> cc_enabled row \<or> cc_emergencyStop row \<or> \<not> kv_liveAutomation env"
      then have "s' = s" using assms by (simp add: tickUser_def Let_def)
      then show "False" using False by simp
    qed
    then show "cc_enabled row" "\<not> cc_emergencyStop row" "kv_liveAutomation env" by auto
  qed
  obtain connId where i: "resolveConnectionId (cc_user row) (cc_connection row) cs = Some connId"
    using assms False on by (cases "resolveConnectionId (cc_user row) (cc_connection row) cs") (auto simp: tickUser_def Let_def cs_def cex_writes)
  define s1 where "s1 = (if cc_connection row \<noteq> Some connId
      then update_row env (cc_user row) (\<lambda>r. r\<lparr>cc_connection := Some connId\<rparr>) s else s)"
  have s1: "kx_sent s1 = kx_sent s" "kx_oms s1 = kx_oms s" by (simp_all add: s1_def cex_writes)
  note t = assms [unfolded tickUser_def Let_def, folded cs_def, unfolded i option.case, folded s1_def]
  have ready: "ready (cex_readiness env (cc_user row) (Some connId) s1)" using t False s1 on by (auto split: if_splits)
  obtain conn where own: "own_connection (cc_user row) connId cs = Some conn"
    using t False s1 on ready by (cases "own_connection (cc_user row) connId cs") auto
  obtain balances where b: "spot_getBalances (ce_spot (kv_council env)) conn = Inr balances"
    using t False s1 on ready own by (cases "spot_getBalances (ce_spot (kv_council env)) conn") auto
  define s2 where "s2 = update_row env (cc_user row) (\<lambda>r. r\<lparr>cc_lastTickAt := Some (kv_now env)\<rparr>) s1"
  obtain res2 s3 where p: "tick_position env (cc_user row) connId balances (toOpenLong (Some row)) s2 = (res2, s3)"
    by (cases "tick_position env (cc_user row) connId balances (toOpenLong (Some row)) s2")
  have s2: "kx_sent s2 = kx_sent s" "kx_exits s2 = kx_exits s" by (simp_all add: s2_def s1 s1_def cex_writes)
  note x = exits_fst [OF s2(2), of env "cc_user row"]
  have fin: "s' = (case res2 of None \<Rightarrow> s3 | Some opened \<Rightarrow> tick_council env row connId (sumQuoteStables balances) opened s3)"
    using t on ready own b p [unfolded s2_def] by (auto split: option.splits)
  have r: "ready (cex_readiness env (cc_user row) (Some connId) s)" using ready by (simp add: cex_readiness_def s1)
  note c = resolved_connection [OF i, unfolded cs_def]
  from p show ?thesis
  proof (cases rule: tick_position_sent)
    case (kept opened)
    with tick_council_sent [of opened row balances env connId "sumQuoteStables balances" s3] fin s2 False c on r own b
    show ?thesis by (auto simp: cs_def)
  next
    case (sold input ans)
    then show ?thesis using fin s2 c on r own b x by (auto simp: cs_def)
  qed
qed simp

definition demo_cex_env :: cex_env where
  "demo_cex_env = \<lparr>kv_oms = (demo_oms_env ''FILLED'')\<lparr>e_now := 1000000\<rparr>, kv_council = demo_council, kv_exitConfig = demo_cex,
     kv_exitDb = (\<lambda>_. Inr None), kv_liveAutomation = True, kv_maintenance = None, kv_maxOrderUsdt = Fin 50, kv_col8 = id,
     kv_col12 = id, kv_col4 = id\<rparr>"

definition demo_cex_row :: cex_row where
  "demo_cex_row = (new_cex_row demo_cex_env ''u'')\<lparr>cc_enabled := True\<rparr>"

definition demo_cex_state :: "cex_row list \<Rightarrow> cex_state" where
  "demo_cex_state rows = \<lparr>kx_oms = demo_oms\<lparr>om_rules := [demo_rule]\<rparr>, kx_rows = rows, kx_exits = Map.empty,
     kx_council = demo_council_state, kx_skims = Map.empty, kx_sent = [], kx_log = [], kx_events = []\<rparr>"

lemma demo_tick: "kx_sent (snd (tickUser demo_cex_env demo_cex_row (demo_cex_state [demo_cex_row]))) \<noteq> []"
  by code_simp

theorem tick_order_grounds_witness:
  "\<exists>input r. kx_sent (snd (tickUser demo_cex_env demo_cex_row (demo_cex_state [demo_cex_row]))) = [(input, r)] \<and>
     in_userId input = ''u'' \<and> in_type input = MARKET"
proof -
  have "kx_sent (demo_cex_state [demo_cex_row]) = []" "cc_user demo_cex_row = ''u''"
    by (simp_all add: demo_cex_state_def demo_cex_row_def new_cex_row_def)
  then show ?thesis
    using tick_order_grounds [OF surjective_pairing [of "tickUser demo_cex_env demo_cex_row (demo_cex_state [demo_cex_row])"]] demo_tick
    by auto
qed

lemma product_double: assumes "h * Fin c = Fin g" shows "is_double (Fin g)"
proof (cases h)
  case (Fin x)
  then have "Fin g = fl (x * c)" using assms by simp
  then show ?thesis by (simp only: is_double_fl)
qed (use assms in \<open>auto simp: inf_sign_def split: if_splits\<close>)

lemma is_double_pnl_pct: "pnl_pct (Fin e) (Fin m) = Fin g \<Longrightarrow> is_double (Fin g)"
  unfolding pnl_pct_def by (rule product_double)

lemma no_cost_no_quantity:
  assumes "ol_quoteSpent opn = Fin a" "a \<le> 0" "pnl_pct (ol_entryPrice opn) (Fin m) = Fin g" "0 < g" "is_double (Fin g)" "0 < m"
    "Fin 0 < ol_entryPrice opn" "Fin 0 < ol_baseQty opn"
  shows "cex_skim_quantity opn (Fin m) fb \<le> Fin 0"
proof -
  have "Fin g / Fin 100 \<le> Fin g" using fl_mono [of "g / 100" g] assms(4) fl_id [OF assms(5)] by simp
  moreover have "Fin 0 \<le> Fin g / Fin 100" using nonneg_div [of "Fin g" 100] assms(4) by simp
  ultimately obtain y where y: "Fin g / Fin 100 = Fin y" "0 \<le> y" by (cases "Fin g / Fin 100") auto
  have "Fin a * Fin y \<le> Fin 0" using fl_mono [of "a * y" 0] assms(2) y(2) by (simp add: mult_nonpos_nonneg)
  from number_div_pos_mono [OF this assms(6)]
  have le: "ol_quoteSpent opn * (pnl_pct (ol_entryPrice opn) (Fin m) / Fin 100) / Fin m \<le> Fin 0"
    using y(1) assms(6) by (simp add: assms(1,3))
  have nn: "ol_baseQty opn * Fin (1/2) \<noteq> NaN" using nonneg_fraction(1) [OF assms(8)] by (auto dest: number_le_not_NaN)
  have q: "math_min (ol_baseQty opn * Fin (1/2)) (ol_quoteSpent opn * (pnl_pct (ol_entryPrice opn) (Fin m) / Fin 100) / Fin m) \<le> Fin 0"
    (is "?q \<le> _")
    using math_min_le [OF nn conjunct1 [OF number_le_not_NaN [OF le]]] number_le_trans [OF _ le] by blast
  have "math_min ?q (f * lit (98/100)) \<le> Fin 0" if "Fin 0 < f" for f
    using math_min_le [OF conjunct1 [OF number_le_not_NaN [OF q]] conjunct2 [OF number_le_not_NaN [OF nonneg_fraction(2) [OF that]]]]
      number_le_trans [OF _ q] by blast
  then show ?thesis using q assms(7) by (simp add: cex_skim_quantity_def Let_def split: option.split)
qed

text \<open>C15: The profit slice of an open lot with a finite entry price, at a finite positive price
  and with a finite gain. When nothing blocks it,
  the quantity to sell is a positive number of at most half the lot, worth at least 5.50 dollars, at a gain above 0.05
  percent; when a positive free balance is known it is at most 98 percent of that balance too. A free balance that is
  not positive sets no bound: the slice is then the one computed without a balance. A lot of no cost is never sliced.\<close>

theorem skim_slice_within_lot:
  assumes "toOpenLong row = Some opn" "ol_quoteSpent opn = Fin a" "ol_entryPrice opn = Fin e" "0 < m" "is_finite ((Fin m - Fin e) / Fin e * Fin 100)"
    and "slice = computeCexSkimSlice opn (Fin m) fb"
  shows "(sl_blockedReason slice = None \<longrightarrow>
      0 < a \<and> Fin 0 < sl_skimQty slice \<and> sl_skimQty slice \<le> ol_baseQty opn * Fin (1/2) \<and>
      (\<forall>f. fb = Some f \<longrightarrow> Fin 0 < f \<longrightarrow> sl_skimQty slice \<le> f * lit (98/100)) \<and>
      Fin (11/2) \<le> sl_skimQty slice * Fin m \<and> lit (5/100) < (Fin m - Fin e) / Fin e * Fin 100) \<and>
    (\<forall>f. fb = Some f \<longrightarrow> \<not> Fin 0 < f \<longrightarrow> slice = computeCexSkimSlice opn (Fin m) None)"
proof (intro conjI impI allI)
  fix f assume "fb = Some f" "\<not> Fin 0 < f"
  then have q: "cex_skim_quantity opn (Fin m) fb = cex_skim_quantity opn (Fin m) None" by (simp add: cex_skim_quantity_def Let_def)
  show "slice = computeCexSkimSlice opn (Fin m) None" unfolding assms(6) computeCexSkimSlice_def q by simp
next
  assume open_slice: "sl_blockedReason slice = None"
  note lot = opened_lot [OF assms(1)]
  note f = free_slice [OF open_slice [unfolded assms(6)], folded assms(6)]
  have pnl: "sl_pnlPct slice = pnl_pct (ol_entryPrice opn) (Fin m)"
    using lot by (auto simp: assms(6) computeCexSkimSlice_def Let_def)
  obtain g where g: "pnl_pct (ol_entryPrice opn) (Fin m) = Fin g"
    using assms(5) unfolding pnl_pct_def assms(3) by (cases "(Fin m - Fin e) / Fin e * Fin 100") auto
  have gain: "lit (5/100) < pnl_pct (ol_entryPrice opn) (Fin m)"
    using f(4) number_not_less [of "lit (5/100)" "Fin g"] unfolding pnl g by simp
  then show "lit (5/100) < (Fin m - Fin e) / Fin e * Fin 100" by (simp add: pnl_pct_def assms(3))
  have "Fin 0 \<le> lit (5/100)" by code_simp
  then have "Fin 0 < Fin g" using gain g by (metis number_le_less_trans)
  then show "0 < a"
    using no_cost_no_quantity [OF assms(2) _ g _ _ assms(4) lot(2,1)] f(2) is_double_pnl_pct [of e m g] g assms(3) by fastforce
  note n = skim_quantity_number [OF assms(2) this assms(4) gain lot(2,1), of fb]
  show "Fin 0 < sl_skimQty slice" using f(1,2) n number_not_less [of "Fin 0" "cex_skim_quantity opn (Fin m) fb"] by simp
  then have "sl_skimQty slice * Fin m \<noteq> NaN" using scaled_number(2) [OF _ assms(4)] n f(1) by simp
  then show "Fin (11/2) \<le> sl_skimQty slice * Fin m" using f(1,6) by (simp add: CEX_MIN_SELL_NOTIONAL_USD_def number_not_less)
  show "sl_skimQty slice \<le> ol_baseQty opn * Fin (1/2)" using skim_quantity_caps(1) [OF n] f(1) by simp
  show "sl_skimQty slice \<le> h * lit (98/100)" if "fb = Some h" "Fin 0 < h" for h
    using skim_quantity_caps(2) [OF n that] f(1) by simp
qed

definition demo_lot_row :: cex_row where
  "demo_lot_row = demo_cex_row\<lparr>cc_openSymbol := Some ''BTCUSDT'', cc_openEntryPrice := Some (Fin 4), cc_openBaseQty := Some (Fin 10),
     cc_openQuoteSpent := Some (Fin 40)\<rparr>"

theorem skim_slice_within_lot_witness:
  "sl_skimQty (computeCexSkimSlice (the (toOpenLong (Some demo_lot_row))) (Fin 8) (Some (Fin 10))) \<le>
     ol_baseQty (the (toOpenLong (Some demo_lot_row))) * Fin (1/2)"
proof -
  define opn where "opn = the (toOpenLong (Some demo_lot_row))"
  have "toOpenLong (Some demo_lot_row) = Some opn" "ol_quoteSpent opn = Fin 40" "ol_entryPrice opn = Fin 4"
    by (simp_all add: opn_def demo_lot_row_def toOpenLong_def given_def)
  moreover have "sl_blockedReason (computeCexSkimSlice opn (Fin 8) (Some (Fin 10))) = None"
    unfolding opn_def by code_simp
  moreover have "is_finite ((Fin 8 - Fin 4) / Fin 4 * Fin 100)" by code_simp
  ultimately show ?thesis
    using skim_slice_within_lot [where a = 40 and e = 4 and m = 8, OF _ _ _ _ _ refl] unfolding opn_def [symmetric] by fastforce
qed

end
