(* ===== verification/CexRows.thy ===== *)
theory CexRows
  imports CexSafety
begin

text \<open>
  The configuration rows of the Binance Super Machine over every sequence of its operations: the columns of a lot are set
  and cleared together, the trade size is the default of its column or was clamped to its bounds, there is one row per user,
  and the order table keeps its invariant. Then what tracking a manual trade leaves behind.
\<close>

section \<open>Steps\<close>

text \<open>A trade size of a row: the default of the column, or an amount clamped to the bounds of the settings, five dollars and
  the order cap, as the column stores it. A cap below five dollars is itself the outcome of the clamp, and an amount that is
  not a number becomes five.\<close>

definition trade_size :: "number \<Rightarrow> (number \<Rightarrow> number) \<Rightarrow> number \<Rightarrow> bool" where
  "trade_size cap col m \<longleftrightarrow>
     m = Fin 25 \<or> (\<exists>x. m = col x \<and> (if Fin 5 \<le> cap then Fin 5 \<le> x \<and> x \<le> cap else x = cap \<or> x = Fin 5))"

definition fresh_order :: "cex_env \<Rightarrow> cex_state \<Rightarrow> bool" where
  "fresh_order env s \<longleftrightarrow> e_newOrderId (kv_oms env) \<notin> or_id ` set (om_orders (kx_oms s))"

inductive cex_step :: "number \<Rightarrow> (number \<Rightarrow> number) \<Rightarrow> cex_state \<Rightarrow> cex_state \<Rightarrow> bool" for cap col where
  configure: "kv_maxOrderUsdt env = cap \<Longrightarrow> kv_col8 env = col \<Longrightarrow>
    setCexSuperMachineSettings env u raw s = (st, s') \<Longrightarrow> cex_step cap col s s'"
| override: "setCexPositionExitOverrides env u overrides s = (ok, s') \<Longrightarrow> cex_step cap col s s'"
| skim: "fresh_order env s \<Longrightarrow> skimCexPositionProfit env u s = (r, s') \<Longrightarrow> cex_step cap col s s'"
| tick: "row \<in> set (kx_rows s) \<Longrightarrow> fresh_order env s \<Longrightarrow> tickUser env row s = (t, s') \<Longrightarrow> cex_step cap col s s'"
| preview: "previewManualTrade env u req s = (p, s') \<Longrightarrow> cex_step cap col s s'"
| trade: "fresh_order env s \<Longrightarrow> executeManualTrade env u req s = (x, s') \<Longrightarrow> cex_step cap col s s'"

section \<open>Invariant\<close>

definition lot_complete :: "cex_row \<Rightarrow> bool" where
  "lot_complete r \<longleftrightarrow>
     (let n = (cc_openSymbol r = None) in
      (cc_openPair r = None) = n \<and> (cc_openEntryPrice r = None) = n \<and> (cc_openBaseQty r = None) = n \<and>
      (cc_openQuoteSpent r = None) = n \<and> (cc_openedAt r = None) = n)"

definition row_good :: "(number \<Rightarrow> bool) \<Rightarrow> cex_row \<Rightarrow> bool" where
  "row_good size_ok r \<longleftrightarrow> lot_complete r \<and> size_ok (cc_maxTradeUsd r)"

definition cex_rows_ok :: "(number \<Rightarrow> bool) \<Rightarrow> cex_state \<Rightarrow> bool" where
  "cex_rows_ok size_ok s \<longleftrightarrow> distinct (map cc_user (kx_rows s)) \<and> list_all (row_good size_ok) (kx_rows s)"

definition cex_ok :: "(number \<Rightarrow> bool) \<Rightarrow> cex_state \<Rightarrow> bool" where
  "cex_ok size_ok s \<longleftrightarrow> cex_rows_ok size_ok s \<and> oms_ok (kx_oms s)"

text \<open>The user's row in the table has a lot.\<close>

definition has_lot :: "user_id \<Rightarrow> cex_state \<Rightarrow> bool" where
  "has_lot u s \<longleftrightarrow> (\<forall>r \<in> set (kx_rows s). cc_user r = u \<longrightarrow> cc_openSymbol r \<noteq> None)"

lemma rows_same: "kx_rows s' = kx_rows s \<Longrightarrow> cex_rows_ok size_ok s' = cex_rows_ok size_ok s" "kx_rows s' = kx_rows s \<Longrightarrow> has_lot u s' = has_lot u s"
  by (simp_all add: cex_rows_ok_def has_lot_def)

lemma row_good_stamp [simp]: "row_good size_ok (r\<lparr>cc_updatedAt := t\<rparr>) = row_good size_ok r"
  by (simp add: row_good_def lot_complete_def)

lemma update_rows_ok:
  assumes "cex_rows_ok size_ok s"
    and "\<And>r. r \<in> set (kx_rows s) \<Longrightarrow> cc_user r = u \<Longrightarrow> row_good size_ok r \<Longrightarrow> row_good size_ok (f r) \<and> cc_user (f r) = u"
  shows "cex_rows_ok size_ok (update_row env u f s)"
proof -
  have "map cc_user (kx_rows (update_row env u f s)) = map cc_user (kx_rows s)"
    using assms by (auto simp: update_row_def update_where_def cex_rows_ok_def list_all_iff)
  then have "distinct (map cc_user (kx_rows (update_row env u f s)))" using assms(1) by (simp add: cex_rows_ok_def)
  moreover have "list_all (row_good size_ok) (kx_rows (update_row env u f s))"
    using assms by (auto simp: cex_rows_ok_def update_row_def update_where_def list_all_iff)
  ultimately show ?thesis by (simp add: cex_rows_ok_def)
qed

lemma update_has_lot: "has_lot u s \<Longrightarrow> (\<And>r. cc_openSymbol r \<noteq> None \<Longrightarrow> cc_openSymbol (f r) \<noteq> None) \<Longrightarrow>
    (\<And>r. cc_user (f r) = cc_user r) \<Longrightarrow> has_lot u (update_row env v f s)"
  by (auto simp: has_lot_def update_row_def update_where_def)

lemma cex_found_row:
  assumes "cex_rows_ok size_ok s" "find_row u s = Some r"
  shows "r \<in> set (kx_rows s)" "cc_user r = u" "x \<in> set (kx_rows s) \<Longrightarrow> cc_user x = u \<Longrightarrow> x = r" "row_good size_ok r"
proof -
  show r: "r \<in> set (kx_rows s)" "cc_user r = u" using assms(2) by (auto simp: find_row_def find_Some_iff)
  then show "x \<in> set (kx_rows s) \<Longrightarrow> cc_user x = u \<Longrightarrow> x = r" "row_good size_ok r"
    using assms(1) by (auto simp: cex_rows_ok_def list_all_iff distinct_map dest: inj_onD)
qed

lemma lot_of_row:
  assumes "cex_rows_ok size_ok s" "row \<in> set (kx_rows s)" "cc_openSymbol row \<noteq> None"
  shows "has_lot (cc_user row) s"
  using assms by (auto simp: has_lot_def cex_rows_ok_def distinct_map dest: inj_onD)

lemma opened_symbol: "toOpenLong (Some row) = Some opn \<Longrightarrow> cc_openSymbol row \<noteq> None"
  by (auto simp: toOpenLong_def given_def split: option.splits if_splits)

lemma upsert_rows_ok:
  assumes "cex_rows_ok size_ok s" "\<And>r. cc_user r = u \<Longrightarrow> row_good size_ok r \<Longrightarrow> row_good size_ok (f r) \<and> cc_user (f r) = u"
    and "row_good size_ok (c (new_cex_row env u))" "cc_user (c (new_cex_row env u)) = u"
  shows "cex_rows_ok size_ok (upsert_row env u c f s)"
proof (cases "find_row u s")
  case None
  then have "\<forall>r \<in> set (kx_rows s). cc_user r \<noteq> u" by (auto simp: find_row_def find_None_iff)
  then show ?thesis using assms(1,3,4) None by (auto simp: upsert_row_def cex_rows_ok_def)
next
  case (Some r)
  then show ?thesis using assms by (auto simp: upsert_row_def intro!: update_rows_ok)
qed

section \<open>Every operation keeps it\<close>

lemma cex_ok_update:
  assumes "cex_ok size_ok s" "\<And>r. r \<in> set (kx_rows s) \<Longrightarrow> cc_user r = u \<Longrightarrow> row_good size_ok r \<Longrightarrow> row_good size_ok (f r) \<and> cc_user (f r) = u"
  shows "cex_ok size_ok (update_row env u f s)"
  using assms update_rows_ok by (simp add: cex_ok_def cex_writes)

lemma cex_ok_log [simp]: "cex_ok size_ok (add_log u l s) = cex_ok size_ok s"
  by (simp add: cex_ok_def cex_rows_ok_def cex_writes)

lemma cex_ok_same: "kx_rows s' = kx_rows s \<Longrightarrow> om_orders (kx_oms s') = om_orders (kx_oms s) \<Longrightarrow> cex_ok size_ok s' = cex_ok size_ok s"
  by (simp add: cex_ok_def cex_rows_ok_def oms_ok_def)

lemma cex_ok_place:
  assumes "cex_place env input s = (r, s')" "fresh_order env s" "cex_ok size_ok s"
  shows "cex_ok size_ok s'"
proof -
  have "oms_step (kx_oms s) (kx_oms s')"
    using oms_step.place [OF _ placed(2) [OF assms(1)]] assms(2) by (simp add: fresh_order_def)
  then have "oms_ok (kx_oms s')" using oms_step_table assms(3) by (auto simp: cex_ok_def)
  then show ?thesis using placed(3) [OF assms(1)] assms(3) by (simp add: cex_ok_def cex_rows_ok_def)
qed

lemma lot_rows:
  "row_good size_ok r \<Longrightarrow> cc_openSymbol r \<noteq> None \<Longrightarrow> row_good size_ok (skimmed_lot env opn q p r)"
  "cc_user (skimmed_lot env opn q p r) = cc_user r"
  "row_good size_ok r \<Longrightarrow> row_good size_ok (clear_open_lot r)" "cc_user (clear_open_lot r) = cc_user r"
  "row_good size_ok r \<Longrightarrow> row_good size_ok (untrack_lot r)" "cc_user (untrack_lot r) = cc_user r"
  "row_good size_ok r \<Longrightarrow> row_good size_ok (set_lot env symbol pair entry qty spent t r)"
  "cc_user (set_lot env symbol pair entry qty spent t r) = cc_user r"
  by (auto simp: row_good_def lot_complete_def skimmed_lot_def clear_open_lot_def untrack_lot_def set_lot_def Let_def)

lemma skim_write_ok:
  assumes "cex_ok size_ok s" "has_lot u s"
  shows "cex_ok size_ok (update_row env u (skimmed_lot env2 opn q p) s)"
  using assms lot_rows by (intro cex_ok_update) (auto simp: has_lot_def)

lemma tick_writes_ok:
  assumes "cex_ok size_ok s" "fresh_order env s"
  shows "has_lot u s \<Longrightarrow> cex_ok size_ok (tick_skim env u connId opn mark free s)"
    "cex_ok size_ok (tick_close env u connId opn mark free kind s)" "cex_ok size_ok (tick_buy env u connId symbol q px s)"
proof -
  show "cex_ok size_ok (tick_skim env u connId opn mark free s)" if "has_lot u s"
  proof -
    define s0 where "s0 = s\<lparr>kx_skims := (kx_skims s)(u \<mapsto> kv_now env)\<rparr>"
    define input where "input = market_order u connId (ol_symbol opn) ExchangeAccess.SELL
      (sl_skimQty (computeCexSkimSlice opn mark (Some free))) None (Some mark)"
    obtain r s1 where p: "cex_place env input s0 = (r, s1)" by (cases "cex_place env input s0")
    have "cex_ok size_ok s0" "fresh_order env s0" using assms cex_ok_same [of s0 s size_ok] by (simp_all add: s0_def fresh_order_def)
    note ok = cex_ok_place [OF p this(2,1)]
    have "has_lot u s1" using that placed(3) [OF p] by (simp add: s0_def has_lot_def)
    then show ?thesis using p [unfolded input_def s0_def] ok skim_write_ok
      by (auto simp: tick_skim_def Let_def split: sum.split)
  qed
  show "cex_ok size_ok (tick_close env u connId opn mark free kind s)"
    using cex_ok_place [OF _ assms(2,1)] lot_rows
    by (auto simp: tick_close_def split: prod.split sum.split intro!: cex_ok_update)
  show "cex_ok size_ok (tick_buy env u connId symbol q px s)"
    using cex_ok_place [OF _ assms(2,1)]
    by (auto simp: tick_buy_def row_good_def lot_complete_def Let_def split: prod.split sum.split intro!: cex_ok_update)
qed

lemma manage_lot_ok:
  assumes "manage_lot env u connId opn mark free s = (res, s')" "cex_ok size_ok s" "has_lot u s" "fresh_order env s"
  shows "cex_ok size_ok s'" "res \<noteq> None \<Longrightarrow> fresh_order env s'"
proof -
  obtain exits s1 where e: "cex_exits env u s = (exits, s1)" by (cases "cex_exits env u s")
  define s2 where "s2 = persist_peak env u exits opn mark s1"
  have s1: "cex_ok size_ok s1" "has_lot u s1" "fresh_order env s1"
    using assms exits_read [OF e] cex_ok_same [of s1 s size_ok] by (simp_all add: has_lot_def fresh_order_def)
  have s2: "cex_ok size_ok s2" "has_lot u s2" "fresh_order env s2"
    using s1 by (auto simp: s2_def persist_peak_def fresh_order_def cex_writes row_good_def lot_complete_def
        intro!: cex_ok_update update_has_lot)
  show "cex_ok size_ok s'"
    using assms(1) s2 tick_writes_ok [OF s2(1,3)] unfolding manage_lot_def e prod.case Let_def s2_def [symmetric]
    by (auto split: option.splits exit_kind.splits)
  show "fresh_order env s'" if "res \<noteq> None"
    using assms(1) s2 that unfolding manage_lot_def e prod.case Let_def s2_def [symmetric]
    by (auto split: option.splits exit_kind.splits)
qed

lemma tick_position_ok:
  assumes "tick_position env u connId balances opened s = (res, s')" "cex_ok size_ok s" "fresh_order env s"
    and "opened \<noteq> None \<Longrightarrow> has_lot u s"
  shows "cex_ok size_ok s'" "res \<noteq> None \<Longrightarrow> fresh_order env s'"
proof -
  have stale: "cex_ok size_ok (add_log u l (update_row env u clear_open_lot s))" for l
    using assms(2) lot_rows by (auto intro!: cex_ok_update)
  have fresh: "fresh_order env (add_log u l (update_row env u clear_open_lot s))" for l
    using assms(3) by (simp add: fresh_order_def cex_writes)
  show "cex_ok size_ok s'"
    using assms manage_lot_ok(1) [OF _ assms(2) _ assms(3)] stale
    by (auto simp: tick_position_def Let_def split: option.splits if_splits)
  show "res \<noteq> None \<Longrightarrow> fresh_order env s'"
    using assms manage_lot_ok(2) [OF _ assms(2) _ assms(3)] fresh
    by (auto simp: tick_position_def Let_def split: option.splits if_splits)
qed

lemma tick_council_ok:
  assumes "cex_ok size_ok s" "fresh_order env s"
  shows "cex_ok size_ok (tick_council env row connId free opened s)"
proof -
  have "cex_ok size_ok (s\<lparr>kx_council := c\<rparr>)" "fresh_order env (s\<lparr>kx_council := c\<rparr>)" for c
    using assms cex_ok_same [of "s\<lparr>kx_council := c\<rparr>" s size_ok] by (simp_all add: fresh_order_def)
  then show ?thesis using tick_writes_ok(3) by (auto simp: tick_council_def Let_def split: prod.split option.split)
qed

lemma quiet_write:
  assumes "cex_ok size_ok s" "fresh_order env s" "\<And>r. row_good size_ok r \<Longrightarrow> row_good size_ok (f r)"
    and "\<And>r. cc_user (f r) = cc_user r" "\<And>r. cc_openSymbol (f r) = cc_openSymbol r"
  shows "cex_ok size_ok (update_row env u f s)" "fresh_order env (update_row env u f s)" "has_lot u s \<Longrightarrow> has_lot u (update_row env u f s)"
proof -
  show "cex_ok size_ok (update_row env u f s)" using assms(1,3,4) by (intro cex_ok_update) auto
  show "fresh_order env (update_row env u f s)" using assms(2) by (simp add: fresh_order_def cex_writes)
  show "has_lot u s \<Longrightarrow> has_lot u (update_row env u f s)" using assms(4,5) by (intro update_has_lot) auto
qed

lemma row_good_fields [simp]:
  "row_good size_ok (r\<lparr>cc_connection := c\<rparr>) = row_good size_ok r" "row_good size_ok (r\<lparr>cc_lastTickAt := t\<rparr>) = row_good size_ok r"
  by (simp_all add: row_good_def lot_complete_def)

lemma tick_ok:
  assumes "row \<in> set (kx_rows s)" "cex_ok size_ok s" "fresh_order env s" "tickUser env row s = (res, s')"
  shows "cex_ok size_ok s'"
proof -
  define u where "u = cc_user row"
  have lot: "toOpenLong (Some row) \<noteq> None \<Longrightarrow> has_lot u s"
    using lot_of_row [OF _ assms(1)] opened_symbol assms(2) by (auto simp: cex_ok_def u_def)
  have go: "cex_ok size_ok s4"
    if s1: "cex_ok size_ok s1" "fresh_order env s1" "toOpenLong (Some row) \<noteq> None \<Longrightarrow> has_lot u s1"
      and s4: "(case tick_position env u connId balances (toOpenLong (Some row)) (update_row env u (\<lambda>r. r\<lparr>cc_lastTickAt := Some (kv_now env)\<rparr>) s1) of
         (None, s3) \<Rightarrow> (Inr (), s3)
       | (Some opened, s3) \<Rightarrow> (Inr (), tick_council env row connId q opened s3)) = (res, s4)" for s1 s4 connId balances q
  proof -
    define s2 where "s2 = update_row env u (\<lambda>r. r\<lparr>cc_lastTickAt := Some (kv_now env)\<rparr>) s1"
    have s2: "cex_ok size_ok s2" "fresh_order env s2" "toOpenLong (Some row) \<noteq> None \<Longrightarrow> has_lot u s2"
      using quiet_write [OF s1(1,2), of "\<lambda>r. r\<lparr>cc_lastTickAt := Some (kv_now env)\<rparr>" u] s1(3) unfolding s2_def by simp_all
    obtain r3 s3 where p: "tick_position env u connId balances (toOpenLong (Some row)) s2 = (r3, s3)"
      by (cases "tick_position env u connId balances (toOpenLong (Some row)) s2")
    note ok = tick_position_ok [OF p s2]
    from s4 [folded s2_def, unfolded p] show ?thesis
      using ok tick_council_ok [of size_ok s3 env row connId q] by (auto split: option.splits)
  qed
  show ?thesis
  proof (cases "resolveConnectionId u (cc_connection row) (om_connections (kx_oms s))")
    case None
    then show ?thesis using assms by (auto simp: tickUser_def Let_def u_def split: if_splits)
  next
    case (Some connId)
    define s1 where "s1 = (if cc_connection row \<noteq> Some connId then update_row env u (\<lambda>r. r\<lparr>cc_connection := Some connId\<rparr>) s else s)"
    have s1: "cex_ok size_ok s1" "fresh_order env s1" "toOpenLong (Some row) \<noteq> None \<Longrightarrow> has_lot u s1"
      using quiet_write [OF assms(2,3), of "\<lambda>r. r\<lparr>cc_connection := Some connId\<rparr>" u] lot assms(2,3) unfolding s1_def by simp_all
    show ?thesis
      using assms(4) assms(2) s1 go [OF s1]
      unfolding tickUser_def Let_def u_def [symmetric] Some option.case s1_def [symmetric]
      by (auto split: if_splits option.splits sum.splits)
  qed
qed

lemma skim_cases:
  assumes "skimCexPositionProfit env u s = (r, s')"
  obtains (refused) "s' = s"
  | (ordered) opn input q p where "toOpenLong (find_row u s) = Some opn"
      "(case cex_place env input s of (Inl e, s1) \<Rightarrow> s1
        | (Inr filled, s1) \<Rightarrow> add_log u (SkimSold (ol_pair opn)) (update_row env u (skimmed_lot env opn (q filled) (p filled)) s1)) = s'"
proof (cases "toOpenLong (find_row u s)")
  case None
  then show thesis using assms by (intro refused) (simp add: skimCexPositionProfit_def Let_def)
next
  case (Some opn)
  note run = assms [unfolded skimCexPositionProfit_def Let_def Some option.case]
  show thesis
  proof (cases "s' = s")
    case False
    obtain connId where 1: "resolveConnectionId u (Option.bind (find_row u s) cc_connection) (om_connections (kx_oms s)) = Some connId"
      using run False by (auto split: option.splits)
    obtain conn where 2: "own_connection u connId (om_connections (kx_oms s)) = Some conn"
      using run False 1 by (auto split: option.splits)
    obtain mark where 3: "bid_or_mid (cex_book env (ol_symbol opn)) = Some mark" "\<not> mark \<le> Fin 0"
      using run False 1 2 by (auto split: option.splits if_splits)
    obtain balances where 4: "spot_getBalances (ce_spot (kv_council env)) conn = Inr balances"
      using run False 1 2 3 by (auto split: sum.splits)
    define slice where "slice = computeCexSkimSlice opn mark (Some (freeAsset balances (drop_stable (ol_symbol opn))))"
    note run = run [unfolded 1 2 3 4 option.case sum.case if_not_P [OF 3(2)], folded slice_def]
    have "sl_blockedReason slice = None" using run False by (auto split: option.splits)
    then show thesis using run
      by (intro ordered [where opn = opn and
              input = "market_order u connId (ol_symbol opn) ExchangeAccess.SELL (sl_skimQty slice) None (Some mark)" and
              q = "\<lambda>filled. sold_quantity filled (sl_skimQty slice)" and p = "\<lambda>filled. cex_fill_price filled mark"])
        (auto simp: Some split: prod.splits sum.splits)
  qed (rule refused)
qed

lemma skim_ok:
  assumes "skimCexPositionProfit env u s = (r, s')" "cex_ok size_ok s" "fresh_order env s"
  shows "cex_ok size_ok s'"
  using assms(1)
proof (cases rule: skim_cases)
  case (ordered opn input q p)
  then obtain row where row: "find_row u s = Some row" "cc_openSymbol row \<noteq> None"
    using opened_symbol by (cases "find_row u s") (auto simp: toOpenLong_def)
  have ok: "cex_rows_ok size_ok s" using assms(2) by (simp add: cex_ok_def)
  have lot: "has_lot u s" using lot_of_row [OF ok cex_found_row(1) [OF ok row(1)] row(2)] cex_found_row(2) [OF ok row(1)] by simp
  obtain a s1 where pl: "cex_place env input s = (a, s1)" by (cases "cex_place env input s")
  have s1: "cex_ok size_ok s1" "has_lot u s1"
    using cex_ok_place [OF pl assms(3,2)] lot placed(3) [OF pl] by (simp_all add: has_lot_def)
  from ordered(2) [unfolded pl prod.case] show ?thesis
  proof (cases a)
    case (Inr filled)
    then have "s' = add_log u (SkimSold (ol_pair opn)) (update_row env u (skimmed_lot env opn (q filled) (p filled)) s1)"
      using ordered(2) [unfolded pl prod.case] by simp
    then show ?thesis using skim_write_ok [OF s1] by simp
  qed (use s1 in simp)
qed (use assms(2) in simp)

lemma finite_number: "is_finite x \<Longrightarrow> x \<noteq> NaN"
  by auto

lemma clamped_size: "trade_size cap col (col (clamp_finite n (Fin 5) cap))"
proof (cases "is_finite n \<and> Fin 5 \<le> cap")
  case True
  then have "Fin 5 \<le> clamp_finite n (Fin 5) cap" "clamp_finite n (Fin 5) cap \<le> cap"
    using math_clamp_bounds [of "Fin 5" cap n] finite_number by (simp_all add: clamp_finite_def)
  then show ?thesis using True by (auto simp: trade_size_def)
next
  case False
  then have "clamp_finite n (Fin 5) cap = Fin 5 \<or> (\<not> Fin 5 \<le> cap \<and> clamp_finite n (Fin 5) cap = cap)"
    by (cases cap; cases n) (auto simp: clamp_finite_def math_min_def math_max_def)
  then show ?thesis using number_le_refl [of "Fin 5"] by (auto simp: trade_size_def)
qed

lemma settings_ok:
  assumes "setCexSuperMachineSettings env u raw s = (st, s')" "kv_maxOrderUsdt env = cap"
    and "cex_ok (trade_size cap (kv_col8 env)) s"
  shows "cex_ok (trade_size cap (kv_col8 env)) s'"
proof -
  define w where "w = (\<lambda>r :: cex_row. r\<lparr>cc_enabled := sg_enabled st, cc_connection := sg_connection st, cc_watchSymbol := sg_watchSymbol st,
    cc_maxTradeUsd := kv_col8 env (sg_maxTradeUsd st), cc_emergencyStop := sg_emergencyStop st\<rparr>)"
  have s': "kx_rows s' = kx_rows (upsert_row env u w w s)" "kx_oms s' = kx_oms s"
    using assms(1) by (auto simp: setCexSuperMachineSettings_def w_def Let_def cex_writes)
  have "sg_maxTradeUsd st = clamp_finite (nullish (pt_maxTradeUsd raw) (sg_maxTradeUsd (getCexSuperMachineSettings u s))) (Fin 5) cap"
    using assms(1,2) by (auto simp: setCexSuperMachineSettings_def Let_def)
  then have m: "trade_size cap (kv_col8 env) (kv_col8 env (sg_maxTradeUsd st))" using clamped_size by simp
  have w: "row_good (trade_size cap (kv_col8 env)) r \<Longrightarrow> row_good (trade_size cap (kv_col8 env)) (w r)" "cc_user (w r) = cc_user r" for r
    using m by (simp_all add: w_def row_good_def lot_complete_def)
  have "row_good (trade_size cap (kv_col8 env)) (w (new_cex_row env u))" "cc_user (new_cex_row env u) = u"
    using m by (simp_all add: w_def row_good_def lot_complete_def new_cex_row_def)
  then have "cex_rows_ok (trade_size cap (kv_col8 env)) (upsert_row env u w w s)"
    using w assms(3) by (intro upsert_rows_ok) (simp_all add: cex_ok_def)
  then show ?thesis using assms(3) s' by (simp add: cex_ok_def cex_rows_ok_def)
qed

lemma override_ok:
  assumes "setCexPositionExitOverrides env u overrides s = (b, s')" "cex_ok size_ok s"
  shows "cex_ok size_ok s'"
  using assms by (auto simp: setCexPositionExitOverrides_def row_good_def lot_complete_def split: option.splits if_splits intro!: cex_ok_update)

lemma desk_reads:
  assumes "previewManualTrade env u req s = (p, s')"
  shows "kx_rows s' = kx_rows s" "om_orders (kx_oms s') = om_orders (kx_oms s)" "kx_sent s' = kx_sent s"
    "om_connections (kx_oms s') = om_connections (kx_oms s)"
  using assms by (auto simp: previewManualTrade_def desk_rules_def desk_tech_def Let_def split: prod.splits if_splits)

lemma tracking_ok:
  assumes "desk_tracking env u req side symbol qty quoteValue avgPrice s = (x, s')" "cex_ok size_ok s" "size_ok (Fin 25)"
  shows "cex_ok size_ok s'"
proof -
  have new: "row_good size_ok (set_lot env symbol pair e q c t (r\<lparr>cc_watchSymbol := w\<rparr>))" if "row_good size_ok r" for pair e q c t r w
    using lot_rows(7) [of size_ok "r\<lparr>cc_watchSymbol := w\<rparr>"] that by (simp add: row_good_def lot_complete_def)
  have fresh: "row_good size_ok (new_cex_row env u)" "cc_user (new_cex_row env u) = u"
    using assms(3) by (simp_all add: new_cex_row_def row_good_def lot_complete_def)
  have first: "cex_ok size_ok (upsert_row env u (\<lambda>r. set_lot env symbol pair e q c t (r\<lparr>cc_watchSymbol := symbol\<rparr>)) (set_lot env symbol pair e q c t) s)"
    for pair e q c t
  proof -
    have "cex_rows_ok size_ok (upsert_row env u (\<lambda>r. set_lot env symbol pair e q c t (r\<lparr>cc_watchSymbol := symbol\<rparr>)) (set_lot env symbol pair e q c t) s)"
      using assms(2) new [OF fresh(1)] lot_rows(7,8) fresh(2) by (intro upsert_rows_ok) (auto simp: cex_ok_def)
    then show ?thesis using assms(2) by (simp add: cex_ok_def cex_writes)
  qed
  have again: "cex_ok size_ok (update_row env u (set_lot env symbol pair e q c t) s)" for pair e q c t
    using assms(2) lot_rows(7,8) by (intro cex_ok_update) auto
  have buy: "cex_ok size_ok (snd (track_purchase env u symbol pair qty quoteValue price s))" for pair price
    using assms(2) first again unfolding track_purchase_def Let_def by (simp split: if_split)
  have ok: "cex_rows_ok size_ok s" using assms(2) by (simp add: cex_ok_def)
  have sell: "cex_ok size_ok (snd (track_sale env u symbol qty s))"
  proof (cases "Option.bind (find_row u s) cc_openSymbol = Some symbol")
    case True
    then obtain row where row: "find_row u s = Some row" "cc_openSymbol row = Some symbol" by (auto simp: bind_eq_Some_conv)
    have lot: "has_lot u s" using lot_of_row [OF ok cex_found_row(1) [OF ok row(1)]] row(2) cex_found_row(2) [OF ok row(1)] by simp
    have less: "cex_ok size_ok (update_row env u (\<lambda>r. r\<lparr>cc_openBaseQty := Some a, cc_openQuoteSpent := Some b\<rparr>) s)" for a b
      using assms(2) lot by (intro cex_ok_update) (auto simp: has_lot_def row_good_def lot_complete_def)
    have "cex_ok size_ok (update_row env u untrack_lot s)"
      using assms(2) lot_rows(5,6) by (intro cex_ok_update) auto
    then show ?thesis using assms(2) less unfolding track_sale_def Let_def by (simp split: if_split)
  qed (use assms(2) in \<open>simp add: track_sale_def Let_def\<close>)
  show ?thesis
  proof (cases "side = ExchangeAccess.BUY")
    case True
    show ?thesis
    proof (cases avgPrice)
      case (Some price)
      obtain msg s1 where tp: "track_purchase env u symbol (desk_pair symbol) qty quoteValue price s = (msg, s1)"
        by (cases "track_purchase env u symbol (desk_pair symbol) qty quoteValue price s")
      then show ?thesis using assms(1,2) buy [of "desk_pair symbol" price] True Some by (auto simp: desk_tracking_def Let_def split: if_splits)
    qed (use assms(1,2) True in \<open>simp add: desk_tracking_def\<close>)
  next
    case False
    obtain msg s1 where "track_sale env u symbol qty s = (msg, s1)" by (cases "track_sale env u symbol qty s")
    then show ?thesis using assms(1,2) sell False by (auto simp: desk_tracking_def split: if_splits)
  qed
qed

lemma trade_ok:
  assumes "executeManualTrade env u req s = (x, s')" "cex_ok size_ok s" "fresh_order env s" "size_ok (Fin 25)"
  shows "cex_ok size_ok s'"
proof -
  obtain p s1 where pre: "previewManualTrade env u req s = (p, s1)" by (cases "previewManualTrade env u req s")
  have s1: "cex_ok size_ok s1" "fresh_order env s1"
    using desk_reads [OF pre] cex_ok_same [of s1 s size_ok] assms(2,3) by (simp_all add: fresh_order_def)
  show ?thesis
  proof (cases "s' = s1")
    case False
    obtain connId where c: "pf_blockers p = []" "given (desk_connection u (om_connections (kx_oms s1))) = Some connId"
      using assms(1) False unfolding executeManualTrade_def pre prod.case by (auto split: list.splits option.splits)
    obtain a s2 where pl: "cex_place env (manual_input u connId (pf_order p)) s1 = (a, s2)"
      by (cases "cex_place env (manual_input u connId (pf_order p)) s1")
    note s2 = cex_ok_place [OF pl s1(2,1)]
    note run = assms(1) [unfolded executeManualTrade_def pre prod.case c list.case option.case Let_def pl]
    show ?thesis
    proof (cases a)
      case (Inr filled)
      then obtain y s3 l side symbol qty v avg where tr: "desk_tracking env u req side symbol qty v avg s2 = (y, s3)" "s' = add_log u l s3"
        using run by (auto split: prod.splits)
      show ?thesis using tracking_ok [OF tr(1) s2 assms(4)] tr(2) by simp
    qed (use run s2 in simp)
  qed (use s1 in simp)
qed

lemma cex_step_ok:
  assumes "cex_step cap col s s'" "cex_ok (trade_size cap col) s"
  shows "cex_ok (trade_size cap col) s'"
  using assms(1)
proof cases
  case (configure env u raw st)
  then show ?thesis using settings_ok [OF configure(3,1)] assms(2) by simp
next
  case (preview env u req p)
  then show ?thesis using desk_reads [OF preview] cex_ok_same [of s' s "trade_size cap col"] assms(2) by simp
next
  case (override env u overrides b)
  show ?thesis by (rule override_ok [OF override assms(2)])
next
  case (skim env u r)
  show ?thesis by (rule skim_ok [OF skim(2) assms(2) skim(1)])
next
  case (tick row env r)
  show ?thesis by (rule tick_ok [OF tick(1) assms(2) tick(2,3)])
next
  case (trade env u req x)
  show ?thesis by (rule trade_ok [OF trade(2) assms(2) trade(1)]) (simp add: trade_size_def)
qed

text \<open>C7: Over every sequence of settings changes, exit overrides, skims, ticks, previews and manual trades, whatever the
  exchange answers and the advisers say: there is one configuration row per user, the columns of a lot are all set or all
  empty, the order table keeps its own invariant, and the trade size of every row is either the column's default of 25
  dollars or, as the column stores it, an amount between five dollars and the order cap (with a cap below five dollars: that
  cap, or five). The default is not compared with the cap.\<close>

theorem cex_rows_stay_well_formed:
  assumes "(cex_step cap col)\<^sup>*\<^sup>* s s'" "cex_ok (trade_size cap col) s"
  shows "distinct (map cc_user (kx_rows s')) \<and>
    (\<forall>r \<in> set (kx_rows s'). lot_complete r \<and>
       (cc_maxTradeUsd r = Fin 25 \<or>
        (\<exists>x. cc_maxTradeUsd r = col x \<and> (if Fin 5 \<le> cap then Fin 5 \<le> x \<and> x \<le> cap else x = cap \<or> x = Fin 5)))) \<and>
    oms_ok (kx_oms s')"
proof -
  have "cex_ok (trade_size cap col) s'" using assms
    by (induction rule: rtranclp_induct) (use cex_step_ok in blast)+
  then show ?thesis by (simp add: cex_ok_def cex_rows_ok_def row_good_def list_all_iff trade_size_def)
qed

text \<open>The default is above a smaller cap: the first manual purchase of a user creates a row of 25 dollars whatever the cap is.\<close>

lemma new_row_ignores_cap:
  assumes "find_row u s = None" "track_purchase env u symbol pair qty quoteValue price s = (msg, s')" "kv_maxOrderUsdt env < Fin 25"
  shows "\<exists>r \<in> set (kx_rows s'). cc_user r = u \<and> kv_maxOrderUsdt env < cc_maxTradeUsd r"
  using assms by (auto simp: track_purchase_def upsert_row_def set_lot_def new_cex_row_def given_def Let_def)

theorem cex_rows_stay_well_formed_witness:
  "oms_ok (kx_oms (snd (tickUser demo_cex_env demo_cex_row (demo_cex_state [demo_cex_row])))) \<and>
   distinct (map cc_user (kx_rows (snd (tickUser demo_cex_env demo_cex_row (demo_cex_state [demo_cex_row])))))"
proof -
  let ?s = "demo_cex_state [demo_cex_row]"
  have s: "kx_rows ?s = [demo_cex_row]" "kx_oms ?s = demo_oms\<lparr>om_rules := [demo_rule]\<rparr>" by (simp_all add: demo_cex_state_def)
  have "fresh_order demo_cex_env ?s" by (simp add: fresh_order_def s demo_oms_def)
  then have "cex_step (Fin 50) id ?s (snd (tickUser demo_cex_env demo_cex_row ?s))"
    using s(1) by (intro tick [OF _ _ surjective_pairing]) simp_all
  moreover have "cex_ok (trade_size (Fin 50) id) ?s"
    by (simp add: trade_size_def cex_ok_def cex_rows_ok_def demo_cex_state_def row_good_def lot_complete_def demo_cex_row_def new_cex_row_def oms_ok_def demo_oms_def)
  ultimately show ?thesis
    using cex_rows_stay_well_formed [OF r_into_rtranclp] by simp
qed

end
