(* ===== verification/CexManual.thy ===== *)
theory CexManual
  imports CexRows
begin

text \<open>
  The limits a manual trade meets before it is sent, and two consequences of how manual trades and the Super Machine share
  the lot columns.
\<close>

section \<open>Balances\<close>

lemma number_or_zero: "number_or a (Fin 0) \<noteq> NaN"
  by (simp add: number_or_def truthy_def)

lemma free_asset_number:
  assumes "spot_getBalances env c = Inr balances"
  shows "freeAsset balances asset \<noteq> NaN"
proof -
  have "\<forall>b \<in> set balances. ab_free b \<noteq> NaN"
    using assms number_or_zero by (auto simp: spot_getBalances_def adapter_rows_def split: sum.splits)
  then show ?thesis by (auto simp: freeAsset_def find_Some_iff split: option.split)
qed

lemma loaded_numbers:
  "db_freeUsdt (loadBalances env u c asset cs) \<noteq> NaN" "db_freeUsdc (loadBalances env u c asset cs) \<noteq> NaN"
  "db_freeBase (loadBalances env u c asset cs) \<noteq> NaN"
  by (auto simp: loadBalances_def no_balances_def dest: free_asset_number split: option.split sum.split)

section \<open>Limits of a manual trade\<close>

definition desk_asset :: "ManualTradeRequest \<Rightarrow> string" where
  "desk_asset req = baseFromCexSymbol (deskSymbol (mr_symbol req))"

text \<open>The filters of a symbol as the exchange reports them, or as they were last cached; and the symbol a request is for.\<close>

definition symbol_rules :: "cex_env \<Rightarrow> cex_state \<Rightarrow> string \<Rightarrow> ParsedSymbolRules option" where
  "symbol_rules env s symbol = fst (tryGetBinanceSymbolRules (e_fetch (kv_oms env)) (kv_now env) symbol (om_cache (kx_oms s)))"

definition manual_symbol :: "desk_balances \<Rightarrow> ManualTradeRequest \<Rightarrow> string" where
  "manual_symbol bal req = rs_symbol (resolveCexTradeSymbol (mr_symbol req) (db_freeUsdt bal) (db_freeUsdc bal) (mr_side req)
     (if mr_side req = ExchangeAccess.BUY then mr_quoteOrderQty req else None))"

definition manual_purchase :: "cex_env \<Rightarrow> cex_state \<Rightarrow> desk_balances \<Rightarrow> ManualTradeRequest \<Rightarrow> CreateOrderInput \<Rightarrow> bool" where
  "manual_purchase env s bal req input \<longleftrightarrow>
     (\<exists>q. mr_quoteOrderQty req = Some q \<and> in_quantity input = q \<and> in_quoteOrderQty input = Some q \<and>
        Fin 5 \<le> q \<and> q \<le> kv_maxOrderUsdt env \<and>
        q \<le> (if ends_with ''USDC'' (in_symbol input) then db_freeUsdc bal else db_freeUsdt bal) \<and>
        (case symbol_rules env s (in_symbol input) of None \<Rightarrow> True | Some r \<Rightarrow> \<not> (Fin 0 < minNotional r \<and> q < minNotional r)))"

text \<open>A sale: a positive fraction of the request counts before its quantity.\<close>

definition manual_sale :: "cex_env \<Rightarrow> cex_state \<Rightarrow> desk_balances \<Rightarrow> ManualTradeRequest \<Rightarrow> CreateOrderInput \<Rightarrow> bool" where
  "manual_sale env s bal req input \<longleftrightarrow>
     (\<exists>asked.
        (case mr_fraction req of
           Some f \<Rightarrow> if Fin 0 < f then asked = db_freeBase bal * math_min (Fin 1) f else mr_quantity req = Some asked
         | None \<Rightarrow> mr_quantity req = Some asked) \<and>
        Fin 0 < asked \<and> asked \<le> db_freeBase bal \<and> in_quoteOrderQty input = None \<and>
        (case symbol_rules env s (in_symbol input) of
           None \<Rightarrow> in_quantity input = asked
         | Some r \<Rightarrow>
             in_quantity input = (if Fin 0 < number_of_string (stepSize (lot r))
               then math_floor (asked / number_of_string (stepSize (lot r))) * number_of_string (stepSize (lot r)) else asked) \<and>
             \<not> in_quantity input < number_of_string (minQty (lot r))))"

lemma resolved_quote:
  "ends_with ''USDC'' (rs_symbol (resolveCexTradeSymbol raw a b side q)) \<longleftrightarrow> rs_quoteAsset (resolveCexTradeSymbol raw a b side q) = QUSDC"
  by (auto simp: resolveCexTradeSymbol_def resolved_as_def ends_with_def Let_def)

lemma spend_unblocked:
  assumes "buy_blockers cap bal rs rules q = []" "cap \<noteq> NaN" "db_freeUsdc bal \<noteq> NaN" "db_freeUsdt bal \<noteq> NaN"
  shows "Fin 5 \<le> q" "q \<le> cap" "q \<le> (if rs_quoteAsset rs = QUSDC then db_freeUsdc bal else db_freeUsdt bal)"
proof -
  have "q \<noteq> NaN" using assms(1) by (auto simp: buy_blockers_def Let_def split: if_splits)
  then show "Fin 5 \<le> q" "q \<le> cap" "q \<le> (if rs_quoteAsset rs = QUSDC then db_freeUsdc bal else db_freeUsdt bal)"
    using assms by (auto simp: buy_blockers_def MIN_ORDER_USD_def number_not_less Let_def split: if_splits)
qed

lemma spend_rules:
  assumes "buy_blockers cap bal rs rules q = []"
  shows "case rules of None \<Rightarrow> True | Some r \<Rightarrow> \<not> (Fin 0 < minNotional r \<and> q < minNotional r)"
  using assms by (auto simp: buy_blockers_def Let_def split: option.split option.splits if_splits)

lemma requested_number: "requested_quantity bal req \<noteq> NaN"
  by (auto simp: requested_quantity_def Let_def finite_number)

lemma requested_positive:
  assumes "Fin 0 < requested_quantity bal req"
  shows "case mr_fraction req of
           Some f \<Rightarrow> if Fin 0 < f then requested_quantity bal req = db_freeBase bal * math_min (Fin 1) f
             else mr_quantity req = Some (requested_quantity bal req)
         | None \<Rightarrow> mr_quantity req = Some (requested_quantity bal req)"
  using assms by (cases "mr_quantity req") (auto simp: requested_quantity_def Let_def split: option.splits if_splits)

lemma manual_sale_unblocked:
  assumes "sell_quantity_blockers bal asset q = []" "q \<noteq> NaN" "db_freeBase bal \<noteq> NaN"
  shows "Fin 0 < q" "q \<le> db_freeBase bal"
  using assms number_not_less by (auto simp: sell_quantity_blockers_def split: if_splits)

lemma preflight_passed:
  fixes u env req and s :: cex_state
  assumes "previewManualTrade env u req s = (p, s1)" "pf_blockers p = []"
  defines "cs \<equiv> om_connections (kx_oms s)"
  defines "bal \<equiv> loadBalances env u (desk_connection u cs) (desk_asset req) cs"
    and "q \<equiv> nullish (mr_quoteOrderQty req) (Fin 0)"
  defines "rs \<equiv> resolveCexTradeSymbol (mr_symbol req) (db_freeUsdt bal) (db_freeUsdc bal) (mr_side req)
    (if mr_side req = ExchangeAccess.BUY then Some q else None)"
  defines "rules \<equiv> fst (desk_rules env (rs_symbol rs) s)"
  shows "kv_liveAutomation env" "blockers (cex_readiness env u (desk_connection u cs) s) = []" "po_side (pf_order p) = mr_side req"
    "po_symbol (pf_order p) = rs_symbol rs"
    "mr_side req = ExchangeAccess.BUY \<Longrightarrow> po_quoteOrderQty (pf_order p) = Some q \<and> buy_blockers (kv_maxOrderUsdt env) bal rs rules q = []"
    "mr_side req \<noteq> ExchangeAccess.BUY \<Longrightarrow> po_quantity (pf_order p) = Some (floor_to_step rules (requested_quantity bal req)) \<and>
       sell_quantity_blockers bal (desk_asset req) (requested_quantity bal req) = [] \<and>
       (\<exists>v. sell_rule_blockers rules (desk_asset req) (floor_to_step rules (requested_quantity bal req)) v = [])"
proof -
  obtain s2 where r: "desk_rules env (rs_symbol rs) s = (rules, s2)" by (cases "desk_rules env (rs_symbol rs) s") (simp add: rules_def)
  obtain tech s3 where t: "desk_tech env (rs_symbol rs) s2 = (tech, s3)" by (cases "desk_tech env (rs_symbol rs) s2")
  note run = assms(1) [unfolded previewManualTrade_def Let_def, folded cs_def desk_asset_def, folded bal_def q_def, folded rs_def,
      unfolded r prod.case t]
  show "kv_liveAutomation env" "blockers (cex_readiness env u (desk_connection u cs) s) = []" "po_side (pf_order p) = mr_side req"
    "po_symbol (pf_order p) = rs_symbol rs"
    "mr_side req = ExchangeAccess.BUY \<Longrightarrow> po_quoteOrderQty (pf_order p) = Some q \<and> buy_blockers (kv_maxOrderUsdt env) bal rs rules q = []"
    "mr_side req \<noteq> ExchangeAccess.BUY \<Longrightarrow> po_quantity (pf_order p) = Some (floor_to_step rules (requested_quantity bal req)) \<and>
       sell_quantity_blockers bal (desk_asset req) (requested_quantity bal req) = [] \<and>
       (\<exists>v. sell_rule_blockers rules (desk_asset req) (floor_to_step rules (requested_quantity bal req)) v = [])"
    using run assms(2) by (auto split: if_splits)
qed

lemma passed_order_symbol:
  fixes u env req and s :: cex_state
  assumes "previewManualTrade env u req s = (p, s1)" "pf_blockers p = []"
    and conn: "desk_connection u (om_connections (kx_oms s)) = Some connId"
  defines "bal \<equiv> loadBalances env u (Some connId) (desk_asset req) (om_connections (kx_oms s))"
  shows "in_symbol (manual_input u connId (pf_order p)) = manual_symbol bal req"
proof -
  have "resolveCexTradeSymbol raw a b side (Some (nullish x (Fin 0))) = resolveCexTradeSymbol raw a b side x" for raw a b side x
    by (cases x) (simp_all add: resolveCexTradeSymbol_def)
  then show ?thesis using preflight_passed(4) [OF assms(1,2), unfolded conn]
    by (simp add: manual_symbol_def bal_def manual_input_def market_order_def)
qed

lemma passed_order_limits:
  fixes u env req and s :: cex_state
  assumes "previewManualTrade env u req s = (p, s1)" "pf_blockers p = []" "kv_maxOrderUsdt env \<noteq> NaN"
    and conn: "desk_connection u (om_connections (kx_oms s)) = Some connId"
  defines "bal \<equiv> loadBalances env u (Some connId) (desk_asset req) (om_connections (kx_oms s))"
    and "input \<equiv> manual_input u connId (pf_order p)"
  shows "if mr_side req = ExchangeAccess.BUY then manual_purchase env s bal req input else manual_sale env s bal req input"
proof -
  note ok = preflight_passed [OF assms(1,2), unfolded conn]
  have sym: "in_symbol input = po_symbol (pf_order p)" by (simp add: input_def manual_input_def market_order_def)
  have rules: "fst (desk_rules env symbol s) = symbol_rules env s symbol" for symbol
    by (simp add: desk_rules_def symbol_rules_def split: prod.split)
  show ?thesis
  proof (cases "mr_side req = ExchangeAccess.BUY")
    case True
    note o = ok(5) [OF True, folded bal_def]
    note b = spend_unblocked [OF conjunct2 [OF o] assms(3)]
    have n: "db_freeUsdc bal \<noteq> NaN" "db_freeUsdt bal \<noteq> NaN" unfolding bal_def by (rule loaded_numbers)+
    obtain q where q: "mr_quoteOrderQty req = Some q" using b(1) [OF n] by (cases "mr_quoteOrderQty req") auto
    have i: "in_quantity input = q \<and> in_quoteOrderQty input = Some q"
      using o ok(3) True q by (simp add: input_def manual_input_def market_order_def)
    have nq: "nullish (mr_quoteOrderQty req) (Fin 0) = q" by (simp add: q)
    show ?thesis using b [OF n] i q True ok(4) [folded bal_def] resolved_quote sym spend_rules [OF conjunct2 [OF o], unfolded rules nq]
      by (simp add: manual_purchase_def manual_symbol_def)
  next
    case False
    note o = ok(6) [OF False, folded bal_def]
    have s: "in_symbol input = rs_symbol (resolveCexTradeSymbol (mr_symbol req) (db_freeUsdt bal) (db_freeUsdc bal) (mr_side req) None)"
      using sym ok(4) [folded bal_def] False by simp
    define asked where "asked = requested_quantity bal req"
    have i: "in_quantity input = floor_to_step (symbol_rules env s (in_symbol input)) asked" "in_quoteOrderQty input = None"
      using o ok(3) False by (simp_all add: input_def [symmetric] s rules asked_def) (simp_all add: input_def manual_input_def market_order_def)
    have a: "Fin 0 < asked" "asked \<le> db_freeBase bal"
      using manual_sale_unblocked [OF conjunct1 [OF conjunct2 [OF o]] requested_number]
        loaded_numbers(3) [of env u "Some connId" "desk_asset req" "om_connections (kx_oms s)"] by (simp_all add: bal_def asked_def)
    obtain v where v: "sell_rule_blockers (symbol_rules env s (in_symbol input)) (desk_asset req)
        (floor_to_step (symbol_rules env s (in_symbol input)) asked) v = []"
      using o False by (auto simp: s rules asked_def)
    show ?thesis unfolding if_not_P [OF False] manual_sale_def
    proof (intro exI [of _ asked] conjI a i(2))
      show "case mr_fraction req of
          Some f \<Rightarrow> if Fin 0 < f then asked = db_freeBase bal * math_min (Fin 1) f else mr_quantity req = Some asked
        | None \<Rightarrow> mr_quantity req = Some asked"
        by (rule requested_positive [OF a(1) [unfolded asked_def], folded asked_def])
      show "case symbol_rules env s (in_symbol input) of None \<Rightarrow> in_quantity input = asked
         | Some r \<Rightarrow>
             in_quantity input = (if Fin 0 < number_of_string (stepSize (lot r))
               then math_floor (asked / number_of_string (stepSize (lot r))) * number_of_string (stepSize (lot r)) else asked) \<and>
             \<not> in_quantity input < number_of_string (minQty (lot r))"
        using i(1) v by (auto simp: floor_to_step_def sell_rule_blockers_def Let_def split: option.split option.splits if_splits)
    qed
  qed
qed

text \<open>C6: A manual trade sends at most one order. When it sends one, live trading is on, the automation is ready over the
  connection used, the connection is the user's own, active, allowed to trade and not to withdraw, and the symbol is the one
  the request resolves to with the free balances of the moment. A purchase spends what was asked for, between five dollars
  and the order cap, within the free balance of the quote asset of that symbol and not below the exchange's least value for
  it. A sale sends the quantity asked for (the fraction of the free balance, when one is given), positive and within the
  free balance, floored to the step of that very symbol when its filters are known and not below its least quantity.\<close>

theorem manual_trade_within_limits:
  assumes "executeManualTrade env u req s = (res, s')" "kv_maxOrderUsdt env \<noteq> NaN"
  shows "kx_sent s' = kx_sent s \<or>
    (\<exists>input r. kx_sent s' = kx_sent s @ [(input, r)] \<and> kv_liveAutomation env \<and>
       ready (cex_readiness env u (Some (in_connectionId input)) s) \<and>
       (\<exists>c \<in> set (om_connections (kx_oms s)). cn_id c = in_connectionId input \<and> cn_user c = u \<and> cn_active c \<and>
          cn_canTrade c \<and> \<not> cn_canWithdraw c) \<and>
       in_userId input = u \<and> in_type input = MARKET \<and> in_side input = mr_side req \<and>
       (let bal = loadBalances env u (Some (in_connectionId input)) (desk_asset req) (om_connections (kx_oms s)) in
        in_symbol input = manual_symbol bal req \<and>
        (if mr_side req = ExchangeAccess.BUY then manual_purchase env s bal req input else manual_sale env s bal req input)))"
proof (cases "kx_sent s' = kx_sent s")
  case False
  define cs where "cs = om_connections (kx_oms s)"
  obtain p s1 where pre: "previewManualTrade env u req s = (p, s1)" by (cases "previewManualTrade env u req s")
  note reads = desk_reads [OF pre]
  obtain connId where c: "pf_blockers p = []" "given (desk_connection u cs) = Some connId"
    using assms(1) False reads(3,4) unfolding executeManualTrade_def pre prod.case cs_def by (auto split: list.splits option.splits)
  define input where "input = manual_input u connId (pf_order p)"
  obtain a s2 where pl: "cex_place env input s1 = (a, s2)" by (cases "cex_place env input s1")
  note run = assms(1) [unfolded executeManualTrade_def pre prod.case c list.case reads(4), folded cs_def, unfolded c option.case Let_def,
      folded input_def, unfolded pl prod.case]
  have tracked: "kx_sent s3 = kx_sent s2" if "desk_tracking env u req side symbol qty v avg s2 = (y, s3)" for side symbol qty v avg y s3
    using that by (auto simp: desk_tracking_def track_purchase_def track_sale_def Let_def cex_writes split: if_splits option.splits prod.splits)
  have sent: "kx_sent s' = kx_sent s @ [(input, a)]"
    using run placed(1) [OF pl] reads(3) tracked by (auto simp: cex_writes split: sum.splits prod.splits)
  have conn: "desk_connection u cs = Some connId" using c(2) by (cases "desk_connection u cs") (auto simp: given_def split: if_splits)
  then have "\<exists>c \<in> set cs. cn_id c = connId \<and> cn_user c = u \<and> cn_active c \<and> cn_canTrade c \<and> \<not> cn_canWithdraw c"
    by (auto simp: desk_connection_def trade_only_connection_def dest!: find_first_Some)
  note ok = preflight_passed [OF pre c(1), folded cs_def, unfolded conn]
  define bal where "bal = loadBalances env u (Some connId) (desk_asset req) cs"
  have i: "in_connectionId input = connId" "in_userId input = u" "in_type input = MARKET" "in_side input = mr_side req"
    "in_symbol input = po_symbol (pf_order p)"
    using ok(3) by (simp_all add: input_def manual_input_def market_order_def)
  have "if mr_side req = ExchangeAccess.BUY then manual_purchase env s bal req input else manual_sale env s bal req input"
    using passed_order_limits [OF pre c(1) assms(2)] conn by (simp add: bal_def input_def cs_def)
  moreover have "in_symbol input = manual_symbol bal req"
    using passed_order_symbol [OF pre c(1)] conn by (simp add: bal_def input_def cs_def)
  moreover have "ready (cex_readiness env u (Some connId) s)"
    using ok(2) by (auto simp: cex_readiness_def computeAutomationReadiness_def Let_def)
  ultimately show ?thesis using sent ok(1) i \<open>\<exists>c \<in> set cs. _ c\<close> by (auto simp: cs_def bal_def Let_def)
qed simp

definition demo_request :: ManualTradeRequest where
  "demo_request = \<lparr>mr_symbol = ''BTCUSDT'', mr_side = ExchangeAccess.BUY, mr_quoteOrderQty = Some (Fin 10), mr_quantity = None,
     mr_fraction = None, mr_attachExits = False\<rparr>"

lemma demo_manual_trade: "kx_sent (snd (executeManualTrade demo_cex_env ''u'' demo_request (demo_cex_state [demo_cex_row]))) \<noteq> []"
  by code_simp

theorem manual_trade_within_limits_witness:
  "\<exists>input r. kx_sent (snd (executeManualTrade demo_cex_env ''u'' demo_request (demo_cex_state [demo_cex_row]))) = [(input, r)] \<and>
     in_quantity input = Fin 10 \<and> in_side input = ExchangeAccess.BUY"
proof -
  have "kx_sent (demo_cex_state [demo_cex_row]) = []" "kv_maxOrderUsdt demo_cex_env \<noteq> NaN"
    "mr_side demo_request = ExchangeAccess.BUY" "mr_quoteOrderQty demo_request = Some (Fin 10)"
    by (simp_all add: demo_cex_state_def demo_cex_env_def demo_request_def)
  then show ?thesis
    using manual_trade_within_limits [OF surjective_pairing [of "executeManualTrade demo_cex_env ''u'' demo_request (demo_cex_state [demo_cex_row])"]]
      demo_manual_trade
    by (fastforce simp: manual_purchase_def Let_def)
qed

section \<open>Lots in USDC\<close>

lemma usdc_symbol_kept: "drop_suffix ''USDT'' (base @ ''USDC'') = base @ ''USDC''"
  by (simp add: drop_suffix_def Let_def)

text \<open>C35: The tick looks up the free balance of a lot under its symbol with only a trailing USDT removed. A lot
  bought for USDC, by the manual desk for instance, is therefore looked up under the whole symbol, found missing whatever
  balance of the coin is held, and cleared as stale: no exit of it is ever sent.\<close>

theorem usdc_lot_is_cleared_as_stale:
  assumes "toOpenLong (Some row) = Some opn" "ol_symbol opn = base @ ''USDC''"
    and "ol_symbol opn \<notin> ab_asset ` set balances" "Fin 0 < ol_baseQty opn * GHOST_LOT_FRACTION"
  shows "tick_position env u connId balances (toOpenLong (Some row)) s =
    (Some None, add_log u (ClearedStaleLot (ol_pair opn)) (update_row env u clear_open_lot s))"
proof -
  have "freeAsset balances (drop_suffix ''USDT'' (ol_symbol opn)) = Fin 0"
  proof -
    have "\<not> (\<exists>x. x \<in> set balances \<and> ab_asset x = base @ ''USDC'')" using assms(3) unfolding assms(2) by (metis imageI)
    then have "find (\<lambda>b. ab_asset b = base @ ''USDC'') balances = None" by (rule find_None_iff [THEN iffD2])
    then show ?thesis unfolding assms(2) usdc_symbol_kept freeAsset_def by simp
  qed
  then show ?thesis using assms(1,4) by (simp add: tick_position_def Let_def)
qed

definition demo_usdc_row :: cex_row where
  "demo_usdc_row = demo_lot_row\<lparr>cc_openSymbol := Some ''BTCUSDC''\<rparr>"

theorem usdc_lot_is_cleared_as_stale_witness:
  "fst (tick_position demo_cex_env ''u'' ''c1'' [\<lparr>ab_asset = ''BTC'', ab_free = Fin 10, ab_locked = Fin 0\<rparr>]
     (toOpenLong (Some demo_usdc_row)) (demo_cex_state [demo_usdc_row])) = Some None"
proof -
  define opn where "opn = the (toOpenLong (Some demo_usdc_row))"
  have o: "toOpenLong (Some demo_usdc_row) = Some opn" "ol_symbol opn = ''BTC'' @ ''USDC''" "ol_baseQty opn = Fin 10"
    by (simp_all add: opn_def demo_usdc_row_def demo_lot_row_def toOpenLong_def given_def)
  have "Fin 0 < Fin 10 * GHOST_LOT_FRACTION" by code_simp
  then show ?thesis using usdc_lot_is_cleared_as_stale [OF o(1,2)] o by simp
qed

section \<open>What a closed lot leaves behind\<close>

lemma find_updated: "(\<And>x. p (g x) = p x) \<Longrightarrow> find p (update_where p g xs) = map_option g (find p xs)"
  by (induction xs) (auto simp: update_where_def)

lemma find_row_update:
  assumes "find_row u s = Some r" "\<And>x. cc_user (f x) = cc_user x"
  shows "find_row u (update_row env u f s) = Some ((f r)\<lparr>cc_updatedAt := kv_now env\<rparr>)"
  using assms find_updated [of "\<lambda>r. cc_user r = u" "\<lambda>r. (f r)\<lparr>cc_updatedAt := kv_now env\<rparr>" "kx_rows s"]
  by (simp add: find_row_def update_row_def)

text \<open>C36: A manual sale that closes the tracked lot clears six of its columns and leaves the exit overrides, the
  trailing peak and the skimmed profit; the next manual purchase, of whatever symbol, opens a lot that inherits them all.\<close>

theorem reopened_lot_inherits_exit_state:
  assumes "find_row u s = Some r" "cc_openSymbol r = Some symbol" "Fin 0 < tracked_quantity (Some r)"
    and "tracked_quantity (Some r) - sold \<le> tracked_quantity (Some r) * lit (5/100)"
    and "track_sale env u symbol sold s = (msg, s1)" "track_purchase env u symbol2 pair qty quoteValue price s1 = (msg2, s2)"
  shows "msg = Some ClosedTracked \<and>
    (\<exists>r2. find_row u s2 = Some r2 \<and> cc_openSymbol r2 = Some symbol2 \<and> cc_openEntryPrice r2 = Some (kv_col8 env price) \<and>
       cc_openBaseQty r2 = Some (kv_col12 env qty) \<and> cc_openTakeProfitPct r2 = cc_openTakeProfitPct r \<and>
       cc_openStopLossPct r2 = cc_openStopLossPct r \<and> cc_openTrailingStop r2 = cc_openTrailingStop r \<and>
       cc_openTrailingPeak r2 = cc_openTrailingPeak r \<and> cc_openSkimmedUsd r2 = cc_openSkimmedUsd r)"
proof -
  have s1: "msg = Some ClosedTracked" "s1 = update_row env u untrack_lot s"
    using assms(1-5) by (auto simp: track_sale_def Let_def)
  have f1: "find_row u s1 = Some ((untrack_lot r)\<lparr>cc_updatedAt := kv_now env\<rparr>)"
    unfolding s1(2) using find_row_update [OF assms(1)] lot_rows(6) by blast
  have s2: "s2 = update_row env u (set_lot env symbol2 pair price qty quoteValue (kv_now env)) s1"
    using assms(6) f1 by (auto simp: track_purchase_def Let_def upsert_row_def untrack_lot_def tracked_quantity_def given_def)
  show ?thesis unfolding s1(1) s2 using find_row_update [OF f1, of "set_lot env symbol2 pair price qty quoteValue (kv_now env)"] lot_rows(8)
    by (simp add: set_lot_def untrack_lot_def)
qed

definition demo_peak_row :: cex_row where
  "demo_peak_row = demo_lot_row\<lparr>cc_openTrailingPeak := Some (Fin 60000), cc_openSkimmedUsd := Some (Fin 3)\<rparr>"

theorem reopened_lot_inherits_exit_state_witness:
  "\<exists>r2. find_row ''u'' (snd (track_purchase demo_cex_env ''u'' ''ETHUSDT'' ''ETH/USDT'' (Fin 2) (Fin 60) (Fin 30)
       (snd (track_sale demo_cex_env ''u'' ''BTCUSDT'' (Fin 10) (demo_cex_state [demo_peak_row]))))) = Some r2 \<and>
     cc_openSymbol r2 = Some ''ETHUSDT'' \<and> cc_openEntryPrice r2 = Some (Fin 30) \<and> cc_openTrailingPeak r2 = Some (Fin 60000) \<and>
     cc_openSkimmedUsd r2 = Some (Fin 3)"
proof -
  have r: "find_row ''u'' (demo_cex_state [demo_peak_row]) = Some demo_peak_row" "cc_openSymbol demo_peak_row = Some ''BTCUSDT''"
    "tracked_quantity (Some demo_peak_row) = Fin 10"
    "cc_openTrailingPeak demo_peak_row = Some (Fin 60000)" "cc_openSkimmedUsd demo_peak_row = Some (Fin 3)" "kv_col8 demo_cex_env = id"
    by (simp_all add: demo_peak_row_def demo_lot_row_def demo_cex_row_def new_cex_row_def demo_cex_state_def find_row_def
        tracked_quantity_def demo_cex_env_def)
  have "Fin 10 - Fin 10 \<le> Fin 10 * lit (5/100)" by code_simp
  then show ?thesis
    using reopened_lot_inherits_exit_state [where sold = "Fin 10" and env = demo_cex_env and ?symbol2.0 = "''ETHUSDT''" and pair = "''ETH/USDT''"
          and qty = "Fin 2" and quoteValue = "Fin 60" and price = "Fin 30", OF r(1,2) _ _ surjective_pairing surjective_pairing] r(3-6)
    by auto
qed

end
