(* ===== verification/Spec2Isabelle.thy ===== *)
theory Spec2Isabelle
  imports OrderService LiveOrderSizing ExitSettings RoundTripPnl JupiterWatcher PaperBot DexWatcher JupiterRows CrossChainSafety SmartRouter CexManual
begin

text \<open>
  A verification library for the trading back end under \<open>src/\<close>: the exchange executor and order service,
  the risk rules, the exit settings and position watchers, the market analysis, the Binance Super Machine with its
  council and manual desk, the smart router, the personal wallet, cross-chain transfers, and the paper trading bot.
  Everything is a shallow embedding: pure functions of the source are HOL functions with the source's
  names, stateful code passes a record of its state, failures are values (\<open>Inl\<close> or \<open>None\<close>) returned with
  the state the code leaves behind.

  \<^bold>\<open>Conventions.\<close> A JavaScript number is the datatype \<open>number\<close> of theory \<open>JsNumber\<close> (a finite rational, the two
  infinities, NaN) and every arithmetic operation rounds to binary64 with \<open>fl\<close>; comparisons with NaN are
  false, \<open>Math.min\<close>, \<open>Math.max\<close>, \<open>Math.floor\<close> and \<open>Math.round\<close> are written out. The sign of zero is not
  represented. \<open>JsText\<close> has the texts of numbers (\<open>toFixed\<close>, \<open>parseFloat\<close>, \<open>Number\<close>, \<open>toString\<close>) and the string
  functions the code uses. \<open>JsPrelude\<close> has the database tables as lists of rows with \<open>find_first\<close>, \<open>find_many\<close>
  and \<open>update_where\<close> for the Prisma calls, the nullish operator, the clock. A \<open>bigint\<close> is an \<open>int\<close>. Exchanges,
  chain nodes, router contracts, decryption and price services are arguments of the definitions; what a
  theorem needs of them is a named hypothesis and its witness instantiates it. Messages made of template
  literals are constructors of an error type; log lines are left out.

  \<^bold>\<open>Parts and theories.\<close>

  \<^item> \<open>OrderStateMachine\<close>: \<open>src/src/services/orders/stateMachine.ts\<close>. The transition table, as a relation with
    its runs; every run from submission is short and a terminal status has no successor.
  \<^item> \<open>LotSizing\<close>: \<open>symbolInfo.ts\<close>, \<open>sizing.ts\<close>, \<open>validation.ts\<close>, \<open>safety.ts\<close> of \<open>src/packages/binance-executor/src\<close>. Lot
    rules, the adjustment of a quantity, the notional sizing loop (shown to return within its bound) and
    the validation; what passes validation is what is sent, character for character.
  \<^item> \<open>BinanceExecutor\<close>: \<open>config.ts\<close>, \<open>retry.ts\<close>, \<open>httpClient.ts\<close>, \<open>binanceExecutor.ts\<close>, \<open>demoRun.ts\<close> of the same package. The
    retry loop runs over the list of the exchange's answers; the number of attempts bounds the recursion.
  \<^item> \<open>TtlCache\<close> and \<open>ExchangeAccess\<close>: a locale for caches with expiry, interpreted on the symbol rules cache
    (\<open>binanceSymbolRulesService.ts\<close>) and the exit settings cache, and the Binance adapter's requests.
  \<^item> \<open>RiskRules\<close>: \<open>orders/risk.ts\<close>, \<open>risk/riskGate.ts\<close>, \<open>risk/kelly.ts\<close>, \<open>risk/readiness.ts\<close>.
  \<^item> \<open>OrderService\<close>: \<open>orders/orderService.ts\<close> over the tables of orders, connections, rules, trades and events. Its
    operations are the steps of a relation; the invariant of the order table, the finality of terminal
    orders and the three outcomes of placing an order are shown for every sequence of steps and every
    answer of the exchange.
  \<^item> \<open>LiveOrderSizing\<close>: \<open>exchange/liveOrderSizing.ts\<close>, \<open>exchange/strictExecutor.ts\<close>. The size of a live order is within
    every cap; the strict executor sends only orders that pass its checks.
  \<^item> \<open>ExitSettings\<close>: \<open>cexExitSettingsService.ts\<close>, \<open>jupiterExitSettingsService.ts\<close>. Settings stay within their bounds
    (but for a default the environment leaves unchecked), also when background loads interleave with changes, and a change is
    what later reads return.
  \<^item> \<open>RoundTripPnl\<close>: \<open>src/src/lib/roundTripPnl.ts\<close>.
  \<^item> \<open>JupiterWatcher\<close>: \<open>trading/jupiterOpenPositionWatcher.ts\<close>. The exit decision and what grounds it has, the
    spacing of exits, when the stop loss is sent and the one read that can prevent it.
  \<^item> \<open>JupiterBook\<close>, \<open>JupiterSwap\<close>, \<open>JupiterSafety\<close>, \<open>JupiterRows\<close>: \<open>dex/jupiterSwapService.ts\<close>. The first has the trade book
    (merging of duplicates, burst correction, upkeep against the wallet, open positions), the second the gas top-up,
    the preview with its guards, the swap and its booking, conversions, skims and the sale of a position, over a
    state of rows, purchases in flight and submitted orders. \<open>JupiterSafety\<close> shows how every run of a swap ends:
    it fails and leaves the book alone, or its order was submitted and it is settled; the guards, the closing of
    a pair, gas and fee bounds follow from it. \<open>JupiterRows\<close> shows what a swap does to every row.
  \<^item> \<open>PaperTrading\<close>, \<open>SignalEngine\<close>, \<open>PaperBot\<close>: \<open>src/packages/bot\<close>. Limits, fills and the execution gate; the
    indicators, equal to textbook definitions; sessions, ticks and stop with the trade
    and portfolio tables, whose ledger reconciles.
  \<^item> \<open>PersonalWallet\<close>, \<open>DexWatcher\<close>: \<open>wallet/personalWalletService.ts\<close> (balances, routes, swaps, the sale of a
    position), \<open>trading/dexOpenPositionWatcher.ts\<close> and \<open>src/src/lib/dexSignalMath.ts\<close>. The wallet's side of the chain is
    explicit state; the route taken is the best one, swaps stay within the balance and the slippage, the
    trade book follows the swaps, and the watcher sells within the booked lot.
  \<^item> \<open>CrossChain\<close>, \<open>CrossChainSafety\<close>: \<open>wallet/crossChainTransferService.ts\<close>, \<open>wallet/crossChainBridgeService.ts\<close>,
    \<open>wallet/crossChainCreditRetryService.ts\<close> and \<open>src/src/lib/crossChainTokenCatalog.ts\<close>. The state is the transfer table
    with the list of transactions sent; the bridge's status poll runs over the list of its answers. Requests,
    retries and the sweep are the steps of a relation, each run to its end. The references a row holds fit its
    status in every reachable state; what a completed transfer sent, what a refused one may have sent, and that
    every retry that succeeds pays once more are shown from the trace of transactions.
  \<^item> \<open>MarketIndicators\<close>, \<open>MarketContext\<close>, \<open>TechnicalAgent\<close>: \<open>market/indicators.ts\<close>, \<open>market/marketContextMath.ts\<close>,
    \<open>market/marketContextService.ts\<close>, \<open>agents/technicalAgent.ts\<close>. The indicator series and their ranges, the reads of the
    stored candles with their cache, and the technical vote: what every vote rests on, and that its indicators are
    the last values of the series.
  \<^item> \<open>BinanceSpot\<close>, \<open>SmartRouter\<close>: \<open>trading/binanceSpotQuoteService.ts\<close>, \<open>exchange/binanceSpotAdapter.ts\<close>,
    \<open>exchange/binanceBalanceHelpers.ts\<close>, \<open>trading/cexSymbolResolver.ts\<close>, \<open>trading/binanceSpotTradeService.ts\<close>,
    \<open>trading/executionRouterService.ts\<close>. Quotes and balances, market trades with their book, and the choice between two
    venues: what a sale sends and leaves in the book, which venue a trade goes to and under which guards.
  \<^item> \<open>CexCouncil\<close>: \<open>agents/cexCouncilService.ts\<close>. The seven votes, the veto, the size and the decision, and the grounds of
    every decision to buy.
  \<^item> \<open>CexMachine\<close>, \<open>CexDesk\<close>: \<open>agents/cexSuperMachineService.ts\<close>, \<open>trading/cexManualTradingService.ts\<close>,
    \<open>trading/cexOpenPositionService.ts\<close>. The state has the configuration rows with the open lot, the tables of the order
    service, the caches of exit settings and of the council, and the list of orders sent. \<open>CexSafety\<close> shows what the
    order of a tick rests on and the bounds of a skim; \<open>CexRows\<close> the invariant of rows and orders over every sequence of
    operations, as a step relation; \<open>CexManual\<close> the limits of a manual trade and what manual trades do to a lot.

  \<^bold>\<open>Interactions.\<close> The order service calls the risk rules, the symbol rules cache, the lot sizing, the adapter
  and the state machine. The watchers read exit settings, use the round-trip estimates and send swaps. The
  paper bot calls the signal engine, the execution gate and the fill model. The Super Machine asks the council, which
  asks the technical agent, reads exit settings and places its orders through the order service, and shares its rows
  with the manual desk.

  \<^bold>\<open>Bounds.\<close> The only fuel is the attempt count of the retry loop and the explicit iteration limits the source
  has itself (the notional sizing loop, the page of forty open positions); theorems about them state that a
  result is returned. All other recursions are structural or have a measure.

  \<^bold>\<open>Not modelled.\<close> HTTP routes, authentication, sockets, Telegram and mail (glue and I/O over these services);
  the agent of the Jupiter Super Machine and its council, the signal hub with its learned weights, the language model
  and the news oracle (their answers are parameters of the modelled council); price, candle, kline and registry
  services, the 1inch and PancakeSwap executors and the further Jupiter variants (external services, parameters where
  they are used); the live bot's loop, whose sizing, gate and executor are modelled; the Solana wallet and key custody;
  request signing, encryption and key storage. Within modelled files, timers appear as steps or as a clock
  argument, concurrent requests only where the code interleaves them itself.
\<close>

end
